(* ===== verification/Prelude.thy ===== *)
theory Prelude
  imports Main "HOL-Library.Char_ord" "HOL-Library.List_Lexorder"
begin

text \<open>
  What every component of the development shares.

  \<^item> The exceptions of the manager as a datatype, and the state-and-exception actions its
    functions become. A Python function that runs SQL on a connection is an action
    \<open>'s \<Rightarrow> (exn + 'a) \<times> 's\<close>: it returns a value or raises, and either way says what the database
    is at that point, because a raise does not undo the statements before it. Undoing is what
    \<open>transaction\<close> (BEGIN IMMEDIATE, commit, rollback) and \<open>savepoint\<close> do.
  \<^item> Tables as lists of rows in rowid order, with the SQL statements the sources use.
  \<^item> The locale \<open>frame\<close>: what a preorder on states must satisfy for every sequence of actions to
    respect it once each single action does. Component theories interpret it on their relations.
\<close>

section \<open>Exceptions and actions\<close>

text \<open>
  \<open>HTTPException\<close> carries the status code and the detail text; the rest are the Python exceptions
  the modelled code raises or lets through.
\<close>

datatype exn =
    HTTPException int string
  | IntegrityError
  | OperationalError string
  | ValidationError
  | ValueError string
  | KeyError string
  | TypeError string
  | AttributeError string
  | RuntimeError string
  | SigningUnavailable string
  | UnsignableCommand string

type_synonym ('s, 'a) act = "'s \<Rightarrow> (exn + 'a) \<times> 's"

definition ret :: "'a \<Rightarrow> ('s, 'a) act" where
  "ret a = (\<lambda>s. (Inr a, s))"

definition throw :: "exn \<Rightarrow> ('s, 'a) act" where
  "throw e = (\<lambda>s. (Inl e, s))"

definition gets :: "('s \<Rightarrow> 'a) \<Rightarrow> ('s, 'a) act" where
  "gets f = (\<lambda>s. (Inr (f s), s))"

definition modify :: "('s \<Rightarrow> 's) \<Rightarrow> ('s, unit) act" where
  "modify f = (\<lambda>s. (Inr (), f s))"

definition bindM :: "('s, 'a) act \<Rightarrow> ('a \<Rightarrow> ('s, 'b) act) \<Rightarrow> ('s, 'b) act" where
  "bindM m f = (\<lambda>s. case m s of (Inl e, s') \<Rightarrow> (Inl e, s') | (Inr a, s') \<Rightarrow> f a s')"

abbreviation seqM :: "('s, 'a) act \<Rightarrow> ('s, 'b) act \<Rightarrow> ('s, 'b) act" where
  "seqM m k \<equiv> bindM m (\<lambda>_. k)"

text \<open>\<open>raise_if b e\<close> is the guard \<open>if b: raise e\<close> at the head of a block.\<close>

definition raise_if :: "bool \<Rightarrow> exn \<Rightarrow> ('s, unit) act" where
  "raise_if b e = (if b then throw e else ret ())"

text \<open>\<open>tryM m h\<close> is \<open>try: m / except: h\<close>; the handler sees the statements made before the raise.\<close>

definition tryM :: "('s, 'a) act \<Rightarrow> (exn \<Rightarrow> ('s, 'a) act) \<Rightarrow> ('s, 'a) act" where
  "tryM m h = (\<lambda>s. case m s of (Inl e, s') \<Rightarrow> h e s' | (Inr a, s') \<Rightarrow> (Inr a, s'))"

text \<open>
  \<open>transaction m\<close> is BEGIN IMMEDIATE, the body, then commit; on any exception the rollback puts
  back the state before BEGIN and the exception goes on.
\<close>

definition transaction :: "('s, 'a) act \<Rightarrow> ('s, 'a) act" where
  "transaction m = (\<lambda>s. case m s of (Inl e, _) \<Rightarrow> (Inl e, s) | (Inr a, s') \<Rightarrow> (Inr a, s'))"

text \<open>
  Some handlers commit and raise afterwards; the rollback in their exception clause is then a
  no-op. Their body returns the exception to raise as a value, which is raised after the commit.
\<close>

definition raise_committed :: "('s, exn + 'a) act \<Rightarrow> ('s, 'a) act" where
  "raise_committed m = bindM m (\<lambda>r. case r of Inl e \<Rightarrow> throw e | Inr a \<Rightarrow> ret a)"

primrec forM :: "('b \<Rightarrow> ('s, unit) act) \<Rightarrow> 'b list \<Rightarrow> ('s, unit) act" where
  "forM f [] = ret ()"
| "forM f (x # xs) = bindM (f x) (\<lambda>_. forM f xs)"

primrec mapM :: "('a \<Rightarrow> ('s, 'b) act) \<Rightarrow> 'a list \<Rightarrow> ('s, 'b list) act" where
  "mapM f [] = ret []"
| "mapM f (x # xs) = bindM (f x) (\<lambda>y. bindM (mapM f xs) (\<lambda>ys. ret (y # ys)))"

lemmas act_defs = ret_def throw_def gets_def modify_def raise_if_def

lemma bindM_simps [simp]:
  "bindM (ret a) f = f a"
  "bindM (throw e) f = throw e"
  by (auto simp: bindM_def ret_def throw_def)

lemma bindM_gets [simp]: "bindM (gets g) f s = f (g s) s"
  by (simp add: bindM_def gets_def)

lemma bindM_modify [simp]: "bindM (modify g) f s = f () (g s)"
  by (simp add: bindM_def modify_def)

lemma run_simps [simp]:
  "ret a s = (Inr a, s)" "throw e s = (Inl e, s)" "gets g s = (Inr (g s), s)"
  "modify h s = (Inr (), h s)"
  by (simp_all add: act_defs)

lemma raise_if_simps [simp]:
  "raise_if True e = throw e" "raise_if False e = ret ()"
  by (simp_all add: raise_if_def)

lemma bindM_raise_if: "bindM (raise_if b e) f s = (if b then (Inl e, s) else f () s)"
  by (simp add: raise_if_def)

lemma bindM_assoc: "bindM (bindM m f) g = bindM m (\<lambda>a. bindM (f a) g)"
  by (rule ext) (auto simp: bindM_def split: prod.splits sum.splits)

lemma bindM_Inr: "m s = (Inr a, s') \<Longrightarrow> bindM m f s = f a s'"
  by (simp add: bindM_def)

lemma bindM_Inl: "m s = (Inl x, s') \<Longrightarrow> bindM m f s = (Inl x, s')"
  by (simp add: bindM_def)

lemma bindM_Inr_iff:
  "bindM m f s = (Inr b, s'') \<longleftrightarrow> (\<exists>a s'. m s = (Inr a, s') \<and> f a s' = (Inr b, s''))"
  by (auto simp: bindM_def split: prod.splits sum.splits)

lemma bindM_Inl_iff:
  "bindM m f s = (Inl e, s'') \<longleftrightarrow>
    m s = (Inl e, s'') \<or> (\<exists>a s'. m s = (Inr a, s') \<and> f a s' = (Inl e, s''))"
  by (auto simp: bindM_def split: prod.splits sum.splits)

lemma raise_if_Inr_iff [simp]: "raise_if b e s = (Inr u, s') \<longleftrightarrow> \<not> b \<and> s' = s"
  by (auto simp: raise_if_def)

lemma raise_if_Inl_iff [simp]: "raise_if b e s = (Inl e', s') \<longleftrightarrow> b \<and> e' = e \<and> s' = s"
  by (auto simp: raise_if_def)

lemma transaction_Inr_iff [simp]: "transaction m s = (Inr a, s') \<longleftrightarrow> m s = (Inr a, s')"
  by (auto simp: transaction_def split: prod.splits sum.splits)

lemma transaction_Inl: "transaction m s = (Inl e, s') \<Longrightarrow> s' = s"
  by (auto simp: transaction_def split: prod.splits sum.splits)

lemma snd_transaction: "snd (transaction m s) = (case fst (m s) of Inl _ \<Rightarrow> s | Inr _ \<Rightarrow> snd (m s))"
  by (auto simp: transaction_def split: prod.splits sum.splits)


section \<open>Python strings\<close>

text \<open>
  A string is its UTF-8 bytes, so \<open>len\<close> counts the bytes that start a character.
\<close>

definition py_len :: "string \<Rightarrow> nat" where
  "py_len t = length (filter (\<lambda>c. \<not> (128 \<le> (of_char c :: nat) \<and> (of_char c :: nat) < 192)) t)"

definition isascii :: "string \<Rightarrow> bool" where
  "isascii t \<longleftrightarrow> list_all (\<lambda>c. (of_char c :: nat) < 128) t"

definition starts_with :: "string \<Rightarrow> string \<Rightarrow> bool" where
  "starts_with p t \<longleftrightarrow> take (length p) t = p"

text \<open>\<open>hmac.compare_digest\<close> on two texts refuses anything but ASCII.\<close>

definition compare_digest :: "string \<Rightarrow> string \<Rightarrow> ('s, bool) act" where
  "compare_digest a b =
    (if isascii a \<and> isascii b then ret (a = b)
     else throw (TypeError ''comparing strings with non-ASCII characters is not supported''))"


section \<open>Reads that raise, loops over rows\<close>

text \<open>\<open>d[k]\<close> on a dictionary, and \<open>fetchone()\<close> followed by a guard on \<open>None\<close>.\<close>

definition require_some :: "'a option \<Rightarrow> exn \<Rightarrow> ('s, 'a) act" where
  "require_some x e = (case x of None \<Rightarrow> throw e | Some a \<Rightarrow> ret a)"

lemma require_some_simps [simp]:
  "require_some None e = throw e" "require_some (Some a) e = ret a"
  by (simp_all add: require_some_def)

lemma require_some_Inr_iff [simp]:
  "require_some x e s = (Inr a, s') \<longleftrightarrow> x = Some a \<and> s' = s"
  by (cases x) auto


section \<open>Tables\<close>

text \<open>
  A table is the list of its rows in rowid order. \<open>find_by key k\<close> is \<open>SELECT ... WHERE key = ?\<close>
  with \<open>fetchone\<close> on a column that the schema makes unique, \<open>update_where\<close> an UPDATE,
  \<open>order_by f\<close> an ORDER BY (rows that agree on the key stay in rowid order).
\<close>

definition find_by :: "('r \<Rightarrow> 'k) \<Rightarrow> 'k \<Rightarrow> 'r list \<Rightarrow> 'r option" where
  "find_by key k rows = List.find (\<lambda>r. key r = k) rows"

definition update_where :: "('r \<Rightarrow> bool) \<Rightarrow> ('r \<Rightarrow> 'r) \<Rightarrow> 'r list \<Rightarrow> 'r list" where
  "update_where P f rows = map (\<lambda>r. if P r then f r else r) rows"

definition order_by :: "('r \<Rightarrow> 'k::linorder) \<Rightarrow> 'r list \<Rightarrow> 'r list" where
  "order_by f rows = sort_key f rows"

lemma find_SomeD: "List.find P xs = Some x \<Longrightarrow> x \<in> set xs \<and> P x"
  by (auto simp: find_Some_iff)

lemma find_by_Nil [simp]: "find_by key k [] = None"
  by (simp add: find_by_def)

lemma find_by_Cons [simp]:
  "find_by key k (r # rows) = (if key r = k then Some r else find_by key k rows)"
  by (simp add: find_by_def)

lemma find_by_append:
  "find_by key k (xs @ ys) = (case find_by key k xs of Some r \<Rightarrow> Some r | None \<Rightarrow> find_by key k ys)"
  by (induction xs) auto

lemma find_by_SomeD: "find_by key k rows = Some r \<Longrightarrow> r \<in> set rows \<and> key r = k"
  by (induction rows) (auto split: if_splits)

lemma find_by_None_iff: "find_by key k rows = None \<longleftrightarrow> (\<forall>r\<in>set rows. key r \<noteq> k)"
  by (induction rows) auto

lemma find_by_distinct:
  "distinct (map key rows) \<Longrightarrow> r \<in> set rows \<Longrightarrow> find_by key (key r) rows = Some r"
  by (induction rows) (auto simp: image_iff)

lemma find_by_ex: "r \<in> set rows \<Longrightarrow> \<exists>r'. find_by key (key r) rows = Some r'"
  by (induction rows) auto

lemma update_where_Nil [simp]: "update_where P f [] = []"
  by (simp add: update_where_def)

lemma update_where_Cons [simp]:
  "update_where P f (r # rows) = (if P r then f r else r) # update_where P f rows"
  by (simp add: update_where_def)

lemma length_update_where [simp]: "length (update_where P f rows) = length rows"
  by (simp add: update_where_def)

lemma set_update_where: "set (update_where P f rows) = (\<lambda>r. if P r then f r else r) ` set rows"
  by (simp add: update_where_def)

lemma find_by_update_where:
  assumes "\<And>r. key (f r) = key r"
  shows "find_by key k (update_where P f rows) =
    map_option (\<lambda>r. if P r then f r else r) (find_by key k rows)"
  using assms by (induction rows) auto

lemma list_all2_update_where: "(\<And>x. x \<in> set xs \<Longrightarrow> P x \<Longrightarrow> R x (f x)) \<Longrightarrow> (\<And>x. R x x) \<Longrightarrow> list_all2 R xs (update_where P f xs)"
  by (induction xs) auto

lemma map_key_update_where:
  assumes "\<And>r. key (f r) = key r"
  shows "map key (update_where P f rows) = map key rows"
  using assms by (induction rows) auto

lemma set_order_by [simp]: "set (order_by f rows) = set rows"
  by (simp add: order_by_def)

lemma length_order_by [simp]: "length (order_by f rows) = length rows"
  by (simp add: order_by_def)


section \<open>Preorders on states that actions respect\<close>

definition stays :: "('s \<Rightarrow> 's \<Rightarrow> bool) \<Rightarrow> ('s, 'a) act \<Rightarrow> bool" where
  "stays R m \<longleftrightarrow> (\<forall>s. R s (snd (m s)))"

lemma staysI: "(\<And>s. R s (snd (m s))) \<Longrightarrow> stays R m"
  by (simp add: stays_def)

lemma staysD: "stays R m \<Longrightarrow> R s (snd (m s))"
  by (simp add: stays_def)

lemma stays_run: "stays R m \<Longrightarrow> m s = (r, s') \<Longrightarrow> R s s'"
  by (metis snd_conv stays_def)

text \<open>
  The interface: a reflexive and transitive relation on states. From it every way the sources
  compose statements respects the relation as soon as the parts do.
\<close>

locale frame =
  fixes R :: "'s \<Rightarrow> 's \<Rightarrow> bool"
  assumes R_refl: "R s s"
    and R_trans: "R s t \<Longrightarrow> R t u \<Longrightarrow> R s u"
begin

lemma stays_ret: "stays R (ret a)"
  by (simp add: stays_def R_refl)

lemma stays_throw: "stays R (throw e)"
  by (simp add: stays_def R_refl)

lemma stays_gets: "stays R (gets f)"
  by (simp add: stays_def R_refl)

lemma stays_raise_if: "stays R (raise_if b e)"
  by (simp add: stays_def raise_if_def R_refl)

lemma stays_compare_digest: "stays R (compare_digest a b)"
  by (simp add: stays_def compare_digest_def R_refl)

lemma stays_require_some: "stays R (require_some x e)"
  by (cases x) (simp_all add: stays_def R_refl)

lemma stays_bindM:
  assumes "stays R m" and "\<And>a. stays R (f a)"
  shows "stays R (bindM m f)"
proof (rule staysI)
  fix s
  obtain r t where m: "m s = (r, t)" by fastforce
  then have "R s t" using assms(1) by (metis stays_run)
  moreover have "R t (snd (f a t))" for a using assms(2) by (rule staysD)
  ultimately show "R s (snd (bindM m f s))"
    using m R_trans by (auto simp: bindM_def split: sum.splits)
qed

lemma stays_tryM:
  assumes "stays R m" and "\<And>e. stays R (h e)"
  shows "stays R (tryM m h)"
proof (rule staysI)
  fix s
  obtain r t where m: "m s = (r, t)" by fastforce
  then have "R s t" using assms(1) by (metis stays_run)
  moreover have "R t (snd (h e t))" for e using assms(2) by (rule staysD)
  ultimately show "R s (snd (tryM m h s))"
    using m R_trans by (auto simp: tryM_def split: sum.splits)
qed

lemma stays_transaction: "stays R m \<Longrightarrow> stays R (transaction m)"
  by (auto simp: stays_def snd_transaction R_refl split: sum.splits)

lemma stays_raise_committed: "stays R m \<Longrightarrow> stays R (raise_committed m)"
  unfolding raise_committed_def
  by (rule stays_bindM) (auto intro: stays_ret stays_throw split: sum.splits)

lemma stays_forM: "(\<And>x. stays R (f x)) \<Longrightarrow> stays R (forM f xs)"
  by (induction xs) (auto intro: stays_ret stays_bindM)

lemma stays_mapM: "(\<And>x. stays R (f x)) \<Longrightarrow> stays R (mapM f xs)"
  by (induction xs) (auto intro: stays_ret stays_bindM)

lemmas stays_structural =
  stays_ret stays_throw stays_gets stays_raise_if stays_require_some stays_compare_digest stays_bindM stays_tryM
  stays_transaction stays_raise_committed stays_forM stays_mapM

end

text \<open>\<open>m\<close> respects \<open>R\<close> whenever it returns: enough for the body of a transaction, which is undone when it raises.\<close>

definition yields :: "('s \<Rightarrow> 's \<Rightarrow> bool) \<Rightarrow> ('s, 'a) act \<Rightarrow> bool" where
  "yields R m \<longleftrightarrow> (\<forall>s a s'. m s = (Inr a, s') \<longrightarrow> R s s')"

lemma yieldsI: "(\<And>s a s'. m s = (Inr a, s') \<Longrightarrow> R s s') \<Longrightarrow> yields R m"
  by (simp add: yields_def)

lemma yields_run: "yields R m \<Longrightarrow> m s = (Inr a, s') \<Longrightarrow> R s s'"
  by (simp add: yields_def)

lemma stays_yields: "stays R m \<Longrightarrow> yields R m"
  by (simp add: yields_def) (metis stays_run)

context frame
begin

lemma yields_bindM: "yields R m \<Longrightarrow> (\<And>a. yields R (f a)) \<Longrightarrow> yields R (bindM m f)"
  unfolding yields_def bindM_Inr_iff using R_trans by blast

lemma stays_committed: "yields R m \<Longrightarrow> stays R (transaction m)"
proof (rule staysI)
  fix s
  assume m: "yields R m"
  obtain r t where "m s = (r, t)" by fastforce
  then show "R s (snd (transaction m s))"
    using yields_run [OF m, of s _ t] by (cases r) (simp_all add: transaction_def R_refl)
qed

end

text \<open>
  Some writes are moves only because of what was read before them. \<open>stays_on P R m\<close> says that \<open>m\<close>
  respects \<open>R\<close> from the states with \<open>P\<close>.
\<close>

definition stays_on :: "('s \<Rightarrow> bool) \<Rightarrow> ('s \<Rightarrow> 's \<Rightarrow> bool) \<Rightarrow> ('s, 'a) act \<Rightarrow> bool" where
  "stays_on P R m \<longleftrightarrow> (\<forall>s. P s \<longrightarrow> R s (snd (m s)))"

lemma stays_onD: "stays_on P R m \<Longrightarrow> P s \<Longrightarrow> R s (snd (m s))"
  by (simp add: stays_on_def)

lemma stays_onI: "(\<And>s. P s \<Longrightarrow> R s (snd (m s))) \<Longrightarrow> stays_on P R m"
  by (simp add: stays_on_def)

lemma stays_stays_on: "stays R m \<Longrightarrow> stays_on P R m"
  by (simp add: stays_def stays_on_def)

text \<open>A step that respects a finer relation \<open>B\<close>, under which the precondition persists.\<close>

context frame
begin

lemma stays_on_bindM:
  assumes "stays B m" and "\<And>s t. B s t \<Longrightarrow> R s t" and "\<And>s t. P s \<Longrightarrow> B s t \<Longrightarrow> P t"
    and "\<And>a. stays_on P R (f a)"
  shows "stays_on P R (bindM m f)"
proof (rule stays_onI)
  fix s assume p: "P s"
  obtain r t where m: "m s = (r, t)" by fastforce
  then have b: "B s t" using assms(1) by (metis stays_run)
  then have "R t (snd (f a t))" for a using assms(3,4) p by (blast intro: stays_onD)
  then show "R s (snd (bindM m f s))"
    using m assms(2) [OF b] R_trans by (auto simp: bindM_def split: sum.splits)
qed

text \<open>The same, when what follows also depends on what the step returned.\<close>

lemma stays_on_result:
  assumes "stays B m" and "\<And>s t. B s t \<Longrightarrow> R s t" and "\<And>s t. P s \<Longrightarrow> B s t \<Longrightarrow> P t"
    and "\<And>s a t. P s \<Longrightarrow> m s = (Inr a, t) \<Longrightarrow> Q a" and "\<And>a. Q a \<Longrightarrow> stays_on P R (f a)"
  shows "stays_on P R (bindM m f)"
proof (rule stays_onI)
  fix s assume p: "P s"
  obtain r t where m: "m s = (r, t)" by fastforce
  then have b: "B s t" using assms(1) by (metis stays_run)
  show "R s (snd (bindM m f s))"
  proof (cases r)
    case (Inl x)
    then show ?thesis using m assms(2) [OF b] by (simp add: bindM_def)
  next
    case (Inr a)
    then have "R t (snd (f a t))" using assms(3,4,5) p b m by (blast intro: stays_onD)
    then show ?thesis using m Inr assms(2) [OF b] R_trans by (simp add: bindM_def)
  qed
qed

lemma stays_on_seqM:
  assumes "stays_on P R m" and "\<And>a. stays R (f a)"
  shows "stays_on P R (bindM m f)"
proof (rule stays_onI)
  fix s assume "P s"
  then have 1: "R s (snd (m s))" using assms(1) by (blast intro: stays_onD)
  have 2: "R t (snd (f a t))" for a t using assms(2) by (rule staysD)
  obtain r t where m: "m s = (r, t)" by fastforce
  show "R s (snd (bindM m f s))"
    using m 1 2 R_trans by (auto simp: bindM_def split: sum.splits)
qed

end

lemma stays_on_if:
  "(b \<Longrightarrow> stays_on P R m) \<Longrightarrow> (\<not> b \<Longrightarrow> stays_on P R m') \<Longrightarrow> stays_on P R (if b then m else m')"
  by simp

lemma stays_if: "(b \<Longrightarrow> stays R m) \<Longrightarrow> (\<not> b \<Longrightarrow> stays R m') \<Longrightarrow> stays R (if b then m else m')"
  by simp

lemma stays_case_option:
  "(x = None \<Longrightarrow> stays R m) \<Longrightarrow> (\<And>a. x = Some a \<Longrightarrow> stays R (f a)) \<Longrightarrow>
    stays R (case x of None \<Rightarrow> m | Some a \<Rightarrow> f a)"
  by (cases x) auto

lemma stays_case_sum:
  "(\<And>a. x = Inl a \<Longrightarrow> stays R (f a)) \<Longrightarrow> (\<And>a. x = Inr a \<Longrightarrow> stays R (g a)) \<Longrightarrow>
    stays R (case x of Inl a \<Rightarrow> f a | Inr a \<Rightarrow> g a)"
  by (cases x) auto

lemma stays_case_prod: "(\<And>a b. x = (a, b) \<Longrightarrow> stays R (f a b)) \<Longrightarrow> stays R (case x of (a, b) \<Rightarrow> f a b)"
  by (cases x) auto

lemma stays_let: "stays R (f v) \<Longrightarrow> stays R (let x = v in f x)"
  by simp

lemmas stays_cases = stays_if stays_case_option stays_case_sum stays_case_prod stays_let

text \<open>
  The relation most components use: rows are kept under their key, and each row only moves along
  \<open>ev\<close>.
\<close>

definition rows_evolve :: "('s \<Rightarrow> 'r list) \<Rightarrow> ('r \<Rightarrow> 'k) \<Rightarrow> ('r \<Rightarrow> 'r \<Rightarrow> bool) \<Rightarrow> 's \<Rightarrow> 's \<Rightarrow> bool" where
  "rows_evolve tbl key ev s t \<longleftrightarrow>
    (\<forall>k r. find_by key k (tbl s) = Some r \<longrightarrow> (\<exists>r'. find_by key k (tbl t) = Some r' \<and> ev r r'))"

locale table_evolution =
  fixes tbl :: "'s \<Rightarrow> 'r list"
    and key :: "'r \<Rightarrow> 'k"
    and ev :: "'r \<Rightarrow> 'r \<Rightarrow> bool"
  assumes ev_refl: "ev r r"
    and ev_trans: "ev r r' \<Longrightarrow> ev r' r'' \<Longrightarrow> ev r r''"
begin

sublocale frame "rows_evolve tbl key ev"
proof (unfold_locales, goal_cases)
  case 1
  show ?case by (auto simp: rows_evolve_def ev_refl)
next
  case 2
  then show ?case unfolding rows_evolve_def by (meson ev_trans)
qed

lemma evolve_same: "tbl t = tbl s \<Longrightarrow> rows_evolve tbl key ev s t"
  by (simp add: rows_evolve_def ev_refl)

lemma evolve_append: "tbl t = tbl s @ rows \<Longrightarrow> rows_evolve tbl key ev s t"
  by (auto simp: rows_evolve_def find_by_append ev_refl)

lemma evolve_update:
  assumes "tbl t = update_where P f (tbl s)"
    and "\<And>r. key (f r) = key r"
    and "\<And>r. r \<in> set (tbl s) \<Longrightarrow> P r \<Longrightarrow> ev r (f r)"
  shows "rows_evolve tbl key ev s t"
proof -
  have "\<exists>r'. find_by key k (tbl t) = Some r' \<and> ev r r'"
    if r: "find_by key k (tbl s) = Some r" for k r
  proof -
    have "find_by key k (tbl t) = Some (if P r then f r else r)"
      using r assms(1,2) by (simp add: find_by_update_where)
    moreover have "ev r (if P r then f r else r)"
      using find_by_SomeD [OF r] assms(3) by (simp add: ev_refl)
    ultimately show ?thesis by blast
  qed
  then show ?thesis by (auto simp: rows_evolve_def)
qed

end

end
