(* ===== verification/Json.thy ===== *)
theory Json
  imports Prelude
begin

text \<open>
  JSON values and the two encoders of the manager. A dictionary is an association list in
  insertion order. \<open>canonical\<close> is the encoder that audit hashes, manifests and request digests
  are computed over (sorted keys, no spaces, no escaping of non-ASCII); \<open>json_dumps\<close> is Python's
  default encoder, used for the detail column of decision audits. Strings hold UTF-8 bytes.
  \<open>strict_json\<close> is the decoder that refuses duplicate keys. \<open>strict_json\<close> reads back what
  \<open>canonical\<close> wrote, so \<open>canonical\<close> is injective up to key order: that is what makes a hash over
  it speak about the value.
\<close>

section \<open>Values\<close>

text \<open>A float is kept as the text Python's \<open>repr\<close> gives it.\<close>

datatype json =
    JNull
  | JBool bool
  | JInt int
  | JFloat string
  | JStr string
  | JArr "json list"
  | JObj "(string \<times> json) list"

type_synonym jobj = "(string \<times> json) list"

text \<open>\<open>d.get(k)\<close>, where a missing key and an explicit null both give None.\<close>

definition jget :: "string \<Rightarrow> jobj \<Rightarrow> json" where
  "jget k d = (case map_of d k of None \<Rightarrow> JNull | Some v \<Rightarrow> v)"

definition has_key :: "string \<Rightarrow> jobj \<Rightarrow> bool" where
  "has_key k d \<longleftrightarrow> map_of d k \<noteq> None"

text \<open>\<open>d[k] = v\<close>: an existing key keeps its place.\<close>

fun jset :: "string \<Rightarrow> json \<Rightarrow> jobj \<Rightarrow> jobj" where
  "jset k v [] = [(k, v)]"
| "jset k v ((k', v') # d) = (if k' = k then (k, v) # d else (k', v') # jset k v d)"

definition jupdate :: "jobj \<Rightarrow> jobj \<Rightarrow> jobj" where
  "jupdate d new = foldl (\<lambda>d (k, v). jset k v d) d new"

definition jpop :: "string \<Rightarrow> jobj \<Rightarrow> jobj" where
  "jpop k d = filter (\<lambda>(k', v). k' \<noteq> k) d"

fun jstr :: "json \<Rightarrow> string option" where
  "jstr (JStr t) = Some t"
| "jstr _ = None"

definition jopt :: "string option \<Rightarrow> json" where
  "jopt x = (case x of None \<Rightarrow> JNull | Some t \<Rightarrow> JStr t)"

text \<open>Python's truth value of a JSON value; a float is false only when it is zero.\<close>

fun truthy :: "json \<Rightarrow> bool" where
  "truthy JNull = False"
| "truthy (JBool b) = b"
| "truthy (JInt i) = (i \<noteq> 0)"
| "truthy (JFloat t) = (t \<noteq> ''0.0'' \<and> t \<noteq> ''-0.0'')"
| "truthy (JStr t) = (t \<noteq> [])"
| "truthy (JArr xs) = (xs \<noteq> [])"
| "truthy (JObj d) = (d \<noteq> [])"

text \<open>
  Python's \<open>==\<close>: dictionaries compare as maps, and \<open>True == 1\<close>.
\<close>

fun py_eq :: "json \<Rightarrow> json \<Rightarrow> bool"
  and py_eq_list :: "json list \<Rightarrow> json list \<Rightarrow> bool"
  and py_sub :: "jobj \<Rightarrow> jobj \<Rightarrow> bool" where
  "py_eq JNull y = (y = JNull)"
| "py_eq (JBool b) y = (y = JBool b \<or> y = JInt (if b then 1 else 0))"
| "py_eq (JInt i) y = (y = JInt i \<or> (i = 0 \<and> y = JBool False) \<or> (i = 1 \<and> y = JBool True))"
| "py_eq (JFloat t) y = (y = JFloat t)"
| "py_eq (JStr t) y = (y = JStr t)"
| "py_eq (JArr xs) y = (case y of JArr ys \<Rightarrow> py_eq_list xs ys | _ \<Rightarrow> False)"
| "py_eq (JObj d) y = (case y of JObj d' \<Rightarrow> length d = length d' \<and> py_sub d d' | _ \<Rightarrow> False)"
| "py_eq_list [] ys = (ys = [])"
| "py_eq_list (x # xs) ys = (case ys of [] \<Rightarrow> False | y # ys' \<Rightarrow> py_eq x y \<and> py_eq_list xs ys')"
| "py_sub [] d' = True"
| "py_sub ((k, v) # d) d' =
     ((case map_of d' k of None \<Rightarrow> False | Some w \<Rightarrow> py_eq v w) \<and> py_sub d d')"

text \<open>A dictionary never holds a key twice.\<close>

fun wf_json :: "json \<Rightarrow> bool"
  and wf_list :: "json list \<Rightarrow> bool"
  and wf_obj :: "jobj \<Rightarrow> bool" where
  "wf_json (JArr xs) = wf_list xs"
| "wf_json (JObj d) = (distinct (map fst d) \<and> wf_obj d)"
| "wf_json (JFloat t) = False"
| "wf_json j = True"
| "wf_list [] = True"
| "wf_list (x # xs) = (wf_json x \<and> wf_list xs)"
| "wf_obj [] = True"
| "wf_obj ((k, v) # d) = (wf_json v \<and> wf_obj d)"

section \<open>Numbers and strings as text\<close>

definition digit :: "nat \<Rightarrow> char" where
  "digit n = char_of (48 + n)"

fun nat_str :: "nat \<Rightarrow> string" where
  "nat_str n = (if n < 10 then [digit n] else nat_str (n div 10) @ [digit (n mod 10)])"

declare nat_str.simps [simp del]

definition int_str :: "int \<Rightarrow> string" where
  "int_str i = (if i < 0 then CHR ''-'' # nat_str (nat (- i)) else nat_str (nat i))"

abbreviation "QUOTE \<equiv> CHR 0x22"
abbreviation "BACKSLASH \<equiv> CHR 0x5C"

definition hex_digit :: "nat \<Rightarrow> char" where
  "hex_digit n = (if n < 10 then char_of (48 + n) else char_of (87 + n))"

definition hex4 :: "nat \<Rightarrow> string" where
  "hex4 n = map hex_digit [n div 4096 mod 16, n div 256 mod 16, n div 16 mod 16, n mod 16]"

text \<open>The escapes both encoders share.\<close>

definition esc_char :: "char \<Rightarrow> string" where
  "esc_char c =
    (if c = QUOTE then [BACKSLASH, QUOTE]
     else if c = BACKSLASH then [BACKSLASH, BACKSLASH]
     else if c = CHR 0x0A then [BACKSLASH, CHR ''n'']
     else if c = CHR 0x0D then [BACKSLASH, CHR ''r'']
     else if c = CHR 0x09 then [BACKSLASH, CHR ''t'']
     else if c = CHR 0x0C then [BACKSLASH, CHR ''f'']
     else if c = CHR 0x08 then [BACKSLASH, CHR ''b'']
     else if of_char c < (32::nat) then BACKSLASH # CHR ''u'' # hex4 (of_char c)
     else [c])"

definition esc_string :: "string \<Rightarrow> string" where
  "esc_string t = concat (map esc_char t)"

text \<open>The \<open>ensure_ascii\<close> form: a UTF-8 sequence becomes the escape of its code point, in two
  surrogates above the basic plane.\<close>

definition cont :: "char \<Rightarrow> nat" where
  "cont c = of_char c mod 64"

definition esc_point :: "nat \<Rightarrow> string" where
  "esc_point p =
    (if p < 65536 then BACKSLASH # CHR ''u'' # hex4 p
     else (BACKSLASH # CHR ''u'' # hex4 (55296 + (p - 65536) div 1024)) @
          (BACKSLASH # CHR ''u'' # hex4 (56320 + (p - 65536) mod 1024)))"

fun esc_ascii :: "string \<Rightarrow> string" where
  "esc_ascii [] = []"
| "esc_ascii (c # t) =
    (let n = of_char c :: nat in
     if n < 127 then esc_char c @ esc_ascii t
     else if n = 127 then esc_point n @ esc_ascii t
     else if 240 \<le> n then
       (case t of c1 # c2 # c3 # t' \<Rightarrow>
          esc_point (n mod 8 * 262144 + cont c1 * 4096 + cont c2 * 64 + cont c3) @ esc_ascii t'
        | _ \<Rightarrow> [])
     else if 224 \<le> n then
       (case t of c1 # c2 # t' \<Rightarrow> esc_point (n mod 16 * 4096 + cont c1 * 64 + cont c2) @ esc_ascii t'
        | _ \<Rightarrow> [])
     else
       (case t of c1 # t' \<Rightarrow> esc_point (n mod 32 * 64 + cont c1) @ esc_ascii t' | _ \<Rightarrow> []))"

section \<open>Encoders\<close>

fun sort_json :: "json \<Rightarrow> json"
  and sort_list :: "json list \<Rightarrow> json list"
  and sort_obj :: "jobj \<Rightarrow> jobj" where
  "sort_json (JArr xs) = JArr (sort_list xs)"
| "sort_json (JObj d) = JObj (sort_obj d)"
| "sort_json j = j"
| "sort_list [] = []"
| "sort_list (x # xs) = sort_json x # sort_list xs"
| "sort_obj [] = []"
| "sort_obj ((k, v) # d) = insort_key fst (k, sort_json v) (sort_obj d)"

text \<open>\<open>encode esc isep ksep\<close>: the encoder for an escape, an item and a key separator.\<close>

fun encode :: "(string \<Rightarrow> string) \<Rightarrow> string \<Rightarrow> string \<Rightarrow> json \<Rightarrow> string"
  and encode_list :: "(string \<Rightarrow> string) \<Rightarrow> string \<Rightarrow> string \<Rightarrow> json list \<Rightarrow> string"
  and encode_obj :: "(string \<Rightarrow> string) \<Rightarrow> string \<Rightarrow> string \<Rightarrow> jobj \<Rightarrow> string" where
  "encode esc isep ksep JNull = ''null''"
| "encode esc isep ksep (JBool b) = (if b then ''true'' else ''false'')"
| "encode esc isep ksep (JInt i) = int_str i"
| "encode esc isep ksep (JFloat t) = t"
| "encode esc isep ksep (JStr t) = QUOTE # esc t @ [QUOTE]"
| "encode esc isep ksep (JArr xs) = CHR ''['' # encode_list esc isep ksep xs @ '']''"
| "encode esc isep ksep (JObj d) = CHR ''{'' # encode_obj esc isep ksep d @ ''}''"
| "encode_list esc isep ksep [] = []"
| "encode_list esc isep ksep (x # xs) =
     encode esc isep ksep x @ (if xs = [] then [] else isep @ encode_list esc isep ksep xs)"
| "encode_obj esc isep ksep [] = []"
| "encode_obj esc isep ksep ((k, v) # d) =
     (QUOTE # esc k @ [QUOTE]) @ ksep @ encode esc isep ksep v @
     (if d = [] then [] else isep @ encode_obj esc isep ksep d)"

definition canonical :: "json \<Rightarrow> string" where
  "canonical j = encode esc_string '','' '':'' (sort_json j)"

text \<open>\<open>json.dumps(value, sort_keys=True)\<close>.\<close>

definition json_dumps :: "json \<Rightarrow> string" where
  "json_dumps j = encode esc_ascii '', '' '': '' (sort_json j)"


section \<open>The decoder\<close>

definition is_ws :: "char \<Rightarrow> bool" where
  "is_ws c \<longleftrightarrow> c = CHR '' '' \<or> c = CHR 0x0A \<or> c = CHR 0x0D \<or> c = CHR 0x09"

definition skip_ws :: "string \<Rightarrow> string" where
  "skip_ws t = dropWhile is_ws t"

definition is_digit :: "char \<Rightarrow> bool" where
  "is_digit c \<longleftrightarrow> 48 \<le> (of_char c :: nat) \<and> (of_char c :: nat) \<le> 57"

definition digit_val :: "char \<Rightarrow> nat" where
  "digit_val c = of_char c - 48"

definition str_nat :: "string \<Rightarrow> nat" where
  "str_nat t = foldl (\<lambda>n c. n * 10 + digit_val c) 0 t"

definition hex_val :: "char \<Rightarrow> nat option" where
  "hex_val c =
    (let n = of_char c :: nat in
     if 48 \<le> n \<and> n \<le> 57 then Some (n - 48)
     else if 97 \<le> n \<and> n \<le> 102 then Some (n - 87)
     else if 65 \<le> n \<and> n \<le> 70 then Some (n - 55) else None)"

definition hex4_val :: "char \<Rightarrow> char \<Rightarrow> char \<Rightarrow> char \<Rightarrow> nat option" where
  "hex4_val a b c d =
    (case (hex_val a, hex_val b, hex_val c, hex_val d) of
       (Some w, Some x, Some y, Some z) \<Rightarrow> Some (w * 4096 + x * 256 + y * 16 + z)
     | _ \<Rightarrow> None)"

text \<open>The UTF-8 bytes of a code point.\<close>

definition utf8 :: "nat \<Rightarrow> string" where
  "utf8 p =
    (if p < 128 then [char_of p]
     else if p < 2048 then [char_of (192 + p div 64), char_of (128 + p mod 64)]
     else if p < 65536 then
       [char_of (224 + p div 4096), char_of (128 + p div 64 mod 64), char_of (128 + p mod 64)]
     else [char_of (240 + p div 262144), char_of (128 + p div 4096 mod 64),
           char_of (128 + p div 64 mod 64), char_of (128 + p mod 64)])"

definition simple_escape :: "char \<Rightarrow> char option" where
  "simple_escape c =
    map_of [(QUOTE, QUOTE), (BACKSLASH, BACKSLASH), (CHR ''/'', CHR ''/''), (CHR ''n'', CHR 0x0A),
            (CHR ''r'', CHR 0x0D), (CHR ''t'', CHR 0x09), (CHR ''f'', CHR 0x0C),
            (CHR ''b'', CHR 0x08)] c"

text \<open>
  The text of a string after its opening quote: its value and what follows the closing quote.
  A surrogate that is not half of a pair has no UTF-8 form and is refused.
\<close>

fun parse_string :: "string \<Rightarrow> (string \<times> string) option" where
  "parse_string [] = None"
| "parse_string (c # t) =
    (if c = QUOTE then Some ([], t)
     else if c = BACKSLASH then
       (case t of [] \<Rightarrow> None
        | e # t' \<Rightarrow>
            if e = CHR ''u'' then
              (case t' of h1 # h2 # h3 # h4 # t2 \<Rightarrow>
                 (case hex4_val h1 h2 h3 h4 of None \<Rightarrow> None
                  | Some p \<Rightarrow>
                      if 55296 \<le> p \<and> p < 56320 then
                        (case t2 of b # u # g1 # g2 # g3 # g4 # t3 \<Rightarrow>
                           (case hex4_val g1 g2 g3 g4 of
                              Some q \<Rightarrow>
                                if b = BACKSLASH \<and> u = CHR ''u'' \<and> 56320 \<le> q \<and> q < 57344 then
                                  map_option (\<lambda>(r, t4).
                                    (utf8 (65536 + (p - 55296) * 1024 + (q - 56320)) @ r, t4))
                                    (parse_string t3)
                                else None
                            | None \<Rightarrow> None)
                         | _ \<Rightarrow> None)
                      else if 56320 \<le> p \<and> p < 57344 then None
                      else map_option (\<lambda>(r, t4). (utf8 p @ r, t4)) (parse_string t2))
               | _ \<Rightarrow> None)
            else
              (case simple_escape e of None \<Rightarrow> None
               | Some x \<Rightarrow> map_option (\<lambda>(r, t4). (x # r, t4)) (parse_string t')))
     else if of_char c < (32::nat) then None
     else map_option (\<lambda>(r, t4). (c # r, t4)) (parse_string t))"

text \<open>\<open>-?(0|[1-9][0-9]*)(.[0-9]+)?([eE][-+]?[0-9]+)?\<close>, matched as far as it goes.\<close>

definition int_digits :: "string \<Rightarrow> string" where
  "int_digits t = (if t \<noteq> [] \<and> hd t = CHR ''0'' then ''0'' else takeWhile is_digit t)"

definition frac_digits :: "string \<Rightarrow> string" where
  "frac_digits t = (if t \<noteq> [] \<and> hd t = CHR ''.'' then takeWhile is_digit (tl t) else [])"

definition exp_text :: "string \<Rightarrow> string" where
  "exp_text t =
    (case t of [] \<Rightarrow> []
     | c # r \<Rightarrow>
        if c = CHR ''e'' \<or> c = CHR ''E'' then
          (let sg = (if r \<noteq> [] \<and> (hd r = CHR ''+'' \<or> hd r = CHR ''-'') then [hd r] else []);
               ds = takeWhile is_digit (drop (length sg) r)
           in if ds = [] then [] else c # sg @ ds)
        else [])"

definition parse_unsigned :: "string \<Rightarrow> (nat option \<times> string) option" where
  "parse_unsigned t =
    (let ip = int_digits t; t1 = drop (length ip) t; fp = frac_digits t1;
         t2 = (if fp = [] then t1 else drop (Suc (length fp)) t1); ep = exp_text t2
     in if ip = [] then None
        else Some (if fp = [] \<and> ep = [] then Some (str_nat ip) else None, drop (length ep) t2))"

definition parse_number :: "string \<Rightarrow> (json \<times> string) option" where
  "parse_number t =
    (let neg = (t \<noteq> [] \<and> hd t = CHR ''-'') in
     case parse_unsigned (if neg then tl t else t) of
       None \<Rightarrow> None
     | Some (Some n, r) \<Rightarrow> Some (JInt (if neg then - int n else int n), r)
     | Some (None, r) \<Rightarrow> Some (JFloat (take (length t - length r) t), r))"

definition strip_prefix :: "string \<Rightarrow> string \<Rightarrow> string option" where
  "strip_prefix p t = (if take (length p) t = p then Some (drop (length p) t) else None)"

definition parse_constant :: "string \<Rightarrow> (json \<times> string) option" where
  "parse_constant t =
    (case strip_prefix ''NaN'' t of Some r \<Rightarrow> Some (JFloat ''nan'', r)
     | None \<Rightarrow> (case strip_prefix ''Infinity'' t of Some r \<Rightarrow> Some (JFloat ''inf'', r)
     | None \<Rightarrow> map_option (\<lambda>r. (JFloat ''-inf'', r)) (strip_prefix ''-Infinity'' t)))"

text \<open>
  A value, the items after \<open>[\<close> and the members after \<open>{\<close>; one unit of fuel per value, item or
  member. The strict decoder refuses a member whose key the object already has (\<open>pairs\<close> in the source); the
  lenient one is \<open>json.loads\<close>: the last value of a key counts, and \<open>NaN\<close> and the infinities are numbers.
\<close>

fun parse_value :: "bool \<Rightarrow> nat \<Rightarrow> string \<Rightarrow> (json \<times> string) option"
  and parse_items :: "bool \<Rightarrow> nat \<Rightarrow> string \<Rightarrow> (json list \<times> string) option"
  and parse_members :: "bool \<Rightarrow> nat \<Rightarrow> string list \<Rightarrow> string \<Rightarrow> (jobj \<times> string) option" where
  "parse_value lenient 0 t = None"
| "parse_value lenient (Suc n) t =
    (case t of [] \<Rightarrow> None
     | c # r \<Rightarrow>
        if c = QUOTE then map_option (\<lambda>(v, r'). (JStr v, r')) (parse_string r)
        else if c = CHR ''['' then
          (let r1 = skip_ws r in
           if r1 \<noteq> [] \<and> hd r1 = CHR '']'' then Some (JArr [], tl r1)
           else map_option (\<lambda>(vs, r'). (JArr vs, r')) (parse_items lenient n r1))
        else if c = CHR ''{'' then
          (let r1 = skip_ws r in
           if r1 \<noteq> [] \<and> hd r1 = CHR ''}'' then Some (JObj [], tl r1)
           else map_option (\<lambda>(d, r'). (JObj (if lenient then jupdate [] d else d), r')) (parse_members lenient n [] r1))
        else (case strip_prefix ''null'' t of Some r' \<Rightarrow> Some (JNull, r')
        | None \<Rightarrow> (case strip_prefix ''true'' t of Some r' \<Rightarrow> Some (JBool True, r')
        | None \<Rightarrow> (case strip_prefix ''false'' t of Some r' \<Rightarrow> Some (JBool False, r')
        | None \<Rightarrow> (case (if lenient then parse_constant t else None) of Some x \<Rightarrow> Some x
        | None \<Rightarrow> parse_number t)))))"
| "parse_items lenient 0 t = None"
| "parse_items lenient (Suc n) t =
    (case parse_value lenient n t of None \<Rightarrow> None
     | Some (v, r) \<Rightarrow>
        (let r1 = skip_ws r in
         if r1 = [] then None
         else if hd r1 = CHR '']'' then Some ([v], tl r1)
         else if hd r1 = CHR '','' then
           map_option (\<lambda>(vs, r'). (v # vs, r')) (parse_items lenient n (skip_ws (tl r1)))
         else None))"
| "parse_members lenient 0 seen t = None"
| "parse_members lenient (Suc n) seen t =
    (if t = [] \<or> hd t \<noteq> QUOTE then None
     else (case parse_string (tl t) of None \<Rightarrow> None
     | Some (k, r) \<Rightarrow>
        (let r1 = skip_ws r in
         if r1 = [] \<or> hd r1 \<noteq> CHR '':'' \<or> \<not> lenient \<and> k \<in> set seen then None
         else (case parse_value lenient n (skip_ws (tl r1)) of None \<Rightarrow> None
         | Some (v, r2) \<Rightarrow>
            (let r3 = skip_ws r2 in
             if r3 = [] then None
             else if hd r3 = CHR ''}'' then Some ([(k, v)], tl r3)
             else if hd r3 = CHR '','' then
               map_option (\<lambda>(d, r'). ((k, v) # d, r')) (parse_members lenient n (k # seen) (skip_ws (tl r3)))
             else None)))))"

text \<open>
  The whole decoder: every value, item and member consumes at least one character, so the length
  of the text is enough fuel. \<open>None\<close> is the ValueError.
\<close>

definition strict_json :: "string \<Rightarrow> json option" where
  "strict_json t =
    (case parse_value False (Suc (2 * length t)) (skip_ws t) of
       Some (v, r) \<Rightarrow> if skip_ws r = [] then Some v else None
     | None \<Rightarrow> None)"

definition json_loads :: "string \<Rightarrow> json option" where
  "json_loads t =
    (case parse_value True (Suc (2 * length t)) (skip_ws t) of
       Some (v, r) \<Rightarrow> if skip_ws r = [] then Some v else None
     | None \<Rightarrow> None)"


section \<open>The decoder reads back what the canonical encoder wrote\<close>


lemma of_char_digit: "n < 10 \<Longrightarrow> (of_char (digit n) :: nat) = 48 + n"
  by (simp add: digit_def)

lemma is_digit_digit: "n < 10 \<Longrightarrow> is_digit (digit n)"
  by (simp add: is_digit_def of_char_digit)

lemma digit_val_digit: "n < 10 \<Longrightarrow> digit_val (digit n) = n"
  by (simp add: digit_val_def of_char_digit)

lemma nat_str_digits: "\<forall>c\<in>set (nat_str n). is_digit c"
proof (induction n rule: nat_str.induct)
  case (1 n)
  show ?case
    by (cases "n < 10") (simp_all add: nat_str.simps [of n] is_digit_digit 1)
qed

lemma nat_str_nonempty [simp]: "nat_str n \<noteq> []"
  by (subst nat_str.simps) simp

lemma str_nat_snoc: "str_nat (t @ [c]) = str_nat t * 10 + digit_val c"
  by (simp add: str_nat_def)

lemma str_nat_nat_str [simp]: "str_nat (nat_str n) = n"
proof (induction n rule: nat_str.induct)
  case (1 n)
  show ?case
  proof (cases "n < 10")
    case True
    then show ?thesis
      by (simp add: nat_str.simps [of n] str_nat_def digit_val_digit)
  next
    case False
    then show ?thesis
      using 1 by (simp add: nat_str.simps [of n] str_nat_snoc digit_val_digit)
  qed
qed

lemma nat_str_leading_zero: "hd (nat_str n) = CHR ''0'' \<Longrightarrow> nat_str n = ''0''"
proof (induction n rule: nat_str.induct)
  case (1 n)
  have zero: "digit m = CHR ''0'' \<Longrightarrow> m < 10 \<Longrightarrow> m = 0" for m
    using of_char_digit [of m] by simp
  show ?case
  proof (cases "n < 10")
    case True
    then show ?thesis using 1 zero by (simp add: nat_str.simps [of n] digit_def)
  next
    case False
    then have "hd (nat_str (n div 10)) = CHR ''0''"
      using "1.prems" by (simp add: nat_str.simps [of n])
    with 1 False have "nat_str (n div 10) = ''0''" by simp
    then have "n div 10 = 0" using str_nat_nat_str [of "n div 10"] by (simp add: str_nat_def digit_val_def)
    with False show ?thesis by simp
  qed
qed

definition ends_number :: "string \<Rightarrow> bool" where
  "ends_number r \<longleftrightarrow> r = [] \<or> hd r \<in> {CHR '','', CHR '']'', CHR ''}''}"

lemma takeWhile_digits:
  "\<forall>c\<in>set ds. is_digit c \<Longrightarrow> ends_number r \<Longrightarrow> takeWhile is_digit (ds @ r) = ds"
  by (induction ds) (cases r; auto simp: ends_number_def is_digit_def)+

lemma int_digits_nat_str: "ends_number r \<Longrightarrow> int_digits (nat_str n @ r) = nat_str n"
  using nat_str_leading_zero [of n] takeWhile_digits [OF nat_str_digits, of r n]
  by (auto simp: int_digits_def)

lemma parse_unsigned_nat_str:
  assumes "ends_number r"
  shows "parse_unsigned (nat_str n @ r) = Some (Some n, r)"
proof -
  have "frac_digits r = []" "exp_text r = []"
    using assms by (auto simp: ends_number_def frac_digits_def exp_text_def split: list.splits)
  then show ?thesis
    by (simp add: parse_unsigned_def int_digits_nat_str assms)
qed

lemma digit_not_special: "is_digit c \<Longrightarrow> c \<noteq> CHR ''-''" "is_digit c \<Longrightarrow> c \<noteq> QUOTE"
  "is_digit c \<Longrightarrow> c \<noteq> CHR ''[''" "is_digit c \<Longrightarrow> c \<noteq> CHR ''{''" "is_digit c \<Longrightarrow> c \<noteq> CHR ''n''"
  "is_digit c \<Longrightarrow> c \<noteq> CHR ''t''" "is_digit c \<Longrightarrow> c \<noteq> CHR ''f''"
  "is_digit c \<Longrightarrow> c \<noteq> CHR '']''" "is_digit c \<Longrightarrow> c \<noteq> CHR ''}''" "is_digit c \<Longrightarrow> \<not> is_ws c"
  by (auto simp: is_digit_def is_ws_def)

lemma hd_nat_str: "is_digit (hd (nat_str n))"
  using nat_str_digits [of n] hd_in_set [OF nat_str_nonempty] by blast

lemma parse_number_int_str:
  assumes "ends_number r"
  shows "parse_number (int_str i @ r) = Some (JInt i, r)"
proof (cases "i < 0")
  case True
  then show ?thesis
    by (simp add: int_str_def parse_number_def parse_unsigned_nat_str assms)
next
  case False
  have "hd (nat_str (nat i) @ r) \<noteq> CHR ''-''"
    using hd_nat_str [of "nat i"] digit_not_special(1) by fastforce
  with False show ?thesis
    by (simp add: int_str_def parse_number_def parse_unsigned_nat_str assms)
qed

lemma hex_val_hex_digit: "n < 16 \<Longrightarrow> hex_val (hex_digit n) = Some n"
  by (auto simp: hex_val_def hex_digit_def Let_def)

lemma hex4_val_control:
  "n < 32 \<Longrightarrow> hex4_val (hex_digit 0) (hex_digit 0) (hex_digit (n div 16)) (hex_digit (n mod 16)) = Some n"
  by (simp add: hex4_val_def hex_val_hex_digit)

lemma parse_string_esc: "parse_string (esc_string t @ QUOTE # r) = Some (t, r)"
proof (induction t)
  case Nil
  then show ?case by (simp add: esc_string_def)
next
  case (Cons c t)
  have ctl: "of_char c < (32::nat) \<Longrightarrow>
     hex4 (of_char c) = [hex_digit 0, hex_digit 0, hex_digit (of_char c div 16), hex_digit (of_char c mod 16)]"
    by (simp add: hex4_def)
  show ?case
    using Cons
    by (auto simp: esc_string_def esc_char_def simple_escape_def ctl hex4_val_control utf8_def)
qed


abbreviation "enc \<equiv> encode esc_string '','' '':''"
abbreviation "enc_list \<equiv> encode_list esc_string '','' '':''"
abbreviation "enc_obj \<equiv> encode_obj esc_string '','' '':''"

fun need :: "json \<Rightarrow> nat" and need_list :: "json list \<Rightarrow> nat" and need_obj :: "jobj \<Rightarrow> nat" where
  "need (JArr xs) = Suc (need_list xs)"
| "need (JObj d) = Suc (need_obj d)"
| "need j = 1"
| "need_list [] = 0"
| "need_list (x # xs) = Suc (max (need x) (need_list xs))"
| "need_obj [] = 0"
| "need_obj ((k, v) # d) = Suc (max (need v) (need_obj d))"

lemma int_str_nonempty: "int_str i \<noteq> []"
  by (simp add: int_str_def)

lemma need_bound:
  "wf_json j \<Longrightarrow> need j \<le> 2 * length (enc j)"
  "wf_list xs \<Longrightarrow> need_list xs \<le> Suc (2 * length (enc_list xs))"
  "wf_obj d \<Longrightarrow> need_obj d \<le> Suc (2 * length (enc_obj d))"
  by (induction j and xs and d rule: wf_json_wf_list_wf_obj.induct)
     (auto simp: Suc_le_eq int_str_nonempty)

definition starts_value :: "string \<Rightarrow> bool" where
  "starts_value t \<longleftrightarrow> t \<noteq> [] \<and> \<not> is_ws (hd t) \<and> hd t \<noteq> CHR '']'' \<and> hd t \<noteq> CHR ''}''"

lemma int_str_hd: "hd (int_str i @ r) = CHR ''-'' \<or> is_digit (hd (int_str i @ r))"
  using hd_nat_str by (auto simp: int_str_def)

lemma enc_starts: "wf_json j \<Longrightarrow> starts_value (enc j @ r)"
proof (cases j)
  case (JInt i)
  then show ?thesis
    using int_str_hd [of i r]
    by (auto simp: starts_value_def int_str_nonempty is_ws_def is_digit_def)
qed (auto simp: starts_value_def is_ws_def)

lemma enc_list_starts: "wf_list xs \<Longrightarrow> xs \<noteq> [] \<Longrightarrow> starts_value (enc_list xs @ r)"
  by (cases xs) (auto intro!: enc_starts)

lemma skip_ws_value: "starts_value t \<Longrightarrow> skip_ws t = t"
  by (cases t) (auto simp: skip_ws_def starts_value_def)

lemma skip_ws_delim [simp]:
  "skip_ws (CHR '','' # r) = CHR '','' # r" "skip_ws (CHR '']'' # r) = CHR '']'' # r"
  "skip_ws (CHR ''}'' # r) = CHR ''}'' # r" "skip_ws (CHR '':'' # r) = CHR '':'' # r"
  "skip_ws (QUOTE # r) = QUOTE # r"
  by (simp_all add: skip_ws_def is_ws_def)

lemma ends_number_delim [simp]:
  "ends_number (CHR '','' # r)" "ends_number (CHR '']'' # r)" "ends_number (CHR ''}'' # r)"
  "ends_number []"
  by (simp_all add: ends_number_def)

lemma parse_value_int: "ends_number r \<Longrightarrow> parse_value lenient (Suc n) (int_str i @ r) = Some (JInt i, r)"
proof -
  assume r: "ends_number r"
  obtain c t where t: "int_str i @ r = c # t"
    using int_str_nonempty by (cases "int_str i @ r") auto
  have c: "c = CHR ''-'' \<or> is_digit c" using int_str_hd [of i r] t by simp
  then have "c \<noteq> QUOTE" "c \<noteq> CHR ''[''" "c \<noteq> CHR ''{''" "c \<noteq> CHR ''n''" "c \<noteq> CHR ''t''" "c \<noteq> CHR ''f''"
    by (auto simp: is_digit_def)
  moreover have "parse_constant (c # t) = None"
  proof (cases "c = CHR ''-''")
    case True
    then have "int_str i \<noteq> [] \<and> hd (int_str i) = CHR ''-''" using t int_str_nonempty [of i] by (cases "int_str i") auto
    then have "i < 0" using hd_nat_str [of "nat i"] by (auto simp: int_str_def is_digit_def split: if_splits)
    then have "t = nat_str (nat (- i)) @ r" using t by (simp add: int_str_def)
    then have "t \<noteq> [] \<and> is_digit (hd t)" using hd_nat_str [of "nat (- i)"] by simp
    then show ?thesis using True by (cases t) (auto simp: parse_constant_def strip_prefix_def is_digit_def)
  next
    case False
    then show ?thesis using c by (auto simp: parse_constant_def strip_prefix_def is_digit_def)
  qed
  ultimately show ?thesis
    using parse_number_int_str [OF r, of i] by (simp add: t strip_prefix_def)
qed

lemma jset_new: "k \<notin> fst ` set d \<Longrightarrow> jset k v d = d @ [(k, v)]"
  by (induction d) auto

lemma jupdate_distinct: "distinct (map fst d) \<Longrightarrow> jupdate [] d = d"
proof -
  have "distinct (map fst (a @ d)) \<Longrightarrow> jupdate a d = a @ d" for a
    by (induction d arbitrary: a) (auto simp: jupdate_def jset_new image_iff)
  then show "distinct (map fst d) \<Longrightarrow> jupdate [] d = d" by simp
qed

lemma decode_encode:
  "wf_json j \<Longrightarrow> need j \<le> n \<Longrightarrow> ends_number r \<Longrightarrow> parse_value lenient n (enc j @ r) = Some (j, r)"
  "wf_list xs \<Longrightarrow> xs \<noteq> [] \<Longrightarrow> need_list xs \<le> n \<Longrightarrow>
     parse_items lenient n (enc_list xs @ CHR '']'' # r) = Some (xs, r)"
  "wf_obj d \<Longrightarrow> d \<noteq> [] \<Longrightarrow> distinct (map fst d) \<Longrightarrow> fst ` set d \<inter> set seen = {} \<Longrightarrow> need_obj d \<le> n \<Longrightarrow>
     parse_members lenient n seen (enc_obj d @ CHR ''}'' # r) = Some (d, r)"
proof (induction j and xs and d arbitrary: n r and n r and n r seen rule: wf_json_wf_list_wf_obj.induct)
  case (1 xs)
  then obtain m where n: "n = Suc m" by (cases n) auto
  show ?case
  proof (cases "xs = []")
    case True
    then show ?thesis using n by simp
  next
    case False
    have st: "starts_value (enc_list xs @ CHR '']'' # r)" using 1 False enc_list_starts by auto
    have "parse_items lenient m (enc_list xs @ CHR '']'' # r) = Some (xs, r)"
      using 1 False n by simp
    then show ?thesis using st n by (simp add: skip_ws_value) (simp add: starts_value_def)
  qed
next
  case (2 d)
  then obtain m where n: "n = Suc m" by (cases n) auto
  show ?case
  proof (cases d)
    case Nil
    then show ?thesis using n by simp
  next
    case (Cons kv d')
    obtain k v where kv: "kv = (k, v)" by fastforce
    have "parse_members lenient m [] (enc_obj d @ CHR ''}'' # r) = Some (d, r)"
      using 2 Cons n by simp
    moreover have "jupdate [] d = d" using 2 by (simp add: jupdate_distinct)
    ultimately show ?thesis using n Cons kv by (simp add: jupdate_distinct)
  qed
next
  case (3 t)
  then show ?case by simp
next
  case "4_1"
  then obtain m where n: "n = Suc m" by (cases n) auto
  then show ?case by (simp add: strip_prefix_def)
next
  case "4_2"
  then obtain m where n: "n = Suc m" by (cases n) auto
  then show ?case by (simp add: strip_prefix_def)
next
  case "4_3"
  then obtain m where n: "n = Suc m" by (cases n) auto
  with "4_3" show ?case by (simp add: parse_value_int del: parse_value.simps)
next
  case "4_4"
  then obtain m where n: "n = Suc m" by (cases n) auto
  then show ?case by (simp add: parse_string_esc)
next
  case 5
  then show ?case by simp
next
  case (6 x xs)
  then obtain m where n: "n = Suc m" by (cases n) auto
  show ?case
  proof (cases "xs = []")
    case True
    with 6 n show ?thesis by simp
  next
    case False
    have st: "starts_value (enc_list xs @ CHR '']'' # r)" using 6 False enc_list_starts by auto
    have hd: "parse_value lenient m (enc x @ CHR '','' # enc_list xs @ CHR '']'' # r) = Some (x, CHR '','' # enc_list xs @ CHR '']'' # r)"
      using 6 n by simp
    have "parse_items lenient m (enc_list xs @ CHR '']'' # r) = Some (xs, r)"
      using 6 n False by simp
    with hd show ?thesis using False n st by (simp add: skip_ws_value)
  qed
next
  case 7
  then show ?case by simp
next
  case (8 k v d)
  then obtain m where n: "n = Suc m" by (cases n) auto
  have kseen: "k \<notin> set seen" using 8 by auto
  show ?case
  proof (cases "d = []")
    case True
    have val: "parse_value lenient m (enc v @ CHR ''}'' # r) = Some (v, CHR ''}'' # r)"
      using 8 n by simp
    have "starts_value (enc v @ CHR ''}'' # r)" using 8 by (auto intro: enc_starts)
    with val show ?thesis using True n kseen by (simp add: parse_string_esc skip_ws_value)
  next
    case False
    have val: "parse_value lenient m (enc v @ CHR '','' # enc_obj d @ CHR ''}'' # r) =
        Some (v, CHR '','' # enc_obj d @ CHR ''}'' # r)"
      using 8 n by simp
    have st: "starts_value (enc v @ CHR '','' # enc_obj d @ CHR ''}'' # r)" using 8 by (auto intro: enc_starts)
    have rest: "parse_members lenient m (k # seen) (enc_obj d @ CHR ''}'' # r) = Some (d, r)"
      using 8 n False by simp
    have quote: "skip_ws (enc_obj d @ CHR ''}'' # r) = enc_obj d @ CHR ''}'' # r"
      using False by (cases d) auto
    show ?thesis using False n kseen val st rest quote by (simp add: parse_string_esc skip_ws_value)
  qed
qed


lemma strict_json_encode: "wf_json j \<Longrightarrow> strict_json (enc j) = Some j"
  using enc_starts [of j "[]"] need_bound(1) [of j] decode_encode(1) [of j "Suc (2 * length (enc j))" "[]" False]
  by (simp add: strict_json_def skip_ws_value) (simp add: skip_ws_def)

lemma fst_insort: "fst ` set (insort_key fst kv d) = insert (fst kv) (fst ` set d)"
  by (simp add: set_insort_key)

lemma keys_sort_obj: "fst ` set (sort_obj d) = fst ` set d"
proof (induction d)
  case (Cons kv d)
  then show ?case by (cases kv) (simp add: fst_insort del: insort_key.simps)
qed simp

lemma distinct_insort_fst:
  "distinct (map fst d) \<Longrightarrow> fst kv \<notin> fst ` set d \<Longrightarrow> distinct (map fst (insort_key fst kv d))"
  by (induction d) (auto simp: set_insort_key)

lemma wf_obj_iff: "wf_obj d \<longleftrightarrow> (\<forall>(k, v)\<in>set d. wf_json v)"
  by (induction d) auto

lemma wf_sort:
  "wf_json j \<Longrightarrow> wf_json (sort_json j)"
  "wf_list xs \<Longrightarrow> wf_list (sort_list xs)"
  "wf_obj d \<Longrightarrow> wf_obj (sort_obj d) \<and> (distinct (map fst d) \<longrightarrow> distinct (map fst (sort_obj d)))"
proof (induction j and xs and d rule: wf_json_wf_list_wf_obj.induct)
  case (8 k v d)
  then show ?case
    using keys_sort_obj [of d]
    by (auto simp: wf_obj_iff set_insort_key distinct_insort_fst simp del: insort_key.simps)
qed auto

lemma strict_json_canonical: "wf_json j \<Longrightarrow> strict_json (canonical j) = Some (sort_json j)"
  by (simp add: canonical_def strict_json_encode wf_sort)

lemma json_loads_canonical: "wf_json j \<Longrightarrow> json_loads (canonical j) = Some (sort_json j)"
  using enc_starts [of "sort_json j" "[]"] need_bound(1) [of "sort_json j"] wf_sort(1) [of j]
    decode_encode(1) [of "sort_json j" "Suc (2 * length (enc (sort_json j)))" "[]" True]
  by (simp add: json_loads_def canonical_def skip_ws_value) (simp add: skip_ws_def)

lemma canonical_inject:
  "wf_json j \<Longrightarrow> wf_json j' \<Longrightarrow> canonical j = canonical j' \<Longrightarrow> sort_json j = sort_json j'"
  using strict_json_canonical by (metis option.inject)

lemma map_of_insort:
  "fst kv \<notin> fst ` set d \<Longrightarrow> map_of (insort_key fst kv d) k = (if k = fst kv then Some (snd kv) else map_of d k)"
  by (induction d) auto

lemma map_of_sort_obj:
  "distinct (map fst d) \<Longrightarrow> map_of (sort_obj d) k = map_option sort_json (map_of d k)"
proof (induction d)
  case (Cons kv d)
  obtain k' v where kv: "kv = (k', v)" by fastforce
  have "k' \<notin> fst ` set (sort_obj d)" using Cons.prems kv keys_sort_obj by auto
  with Cons kv show ?case by (auto simp: map_of_insort simp del: insort_key.simps)
qed simp

lemma sort_obj_lookup:
  "distinct (map fst d) \<Longrightarrow> distinct (map fst d') \<Longrightarrow> sort_obj d = sort_obj d' \<Longrightarrow>
   map_option sort_json (map_of d k) = map_option sort_json (map_of d' k)"
  by (metis map_of_sort_obj)

text \<open>A flat value has nothing to sort: its canonical form determines it.\<close>

fun flat :: "json \<Rightarrow> bool" where
  "flat (JArr xs) = False"
| "flat (JObj d) = False"
| "flat (JFloat t) = False"
| "flat j = True"

lemma sort_json_flat: "flat v \<Longrightarrow> sort_json v = v"
  by (cases v) auto

lemma wf_flat: "flat v \<Longrightarrow> wf_json v"
  by (cases v) auto

text \<open>
  C25. Canonical JSON can be read back: for a value without duplicate keys and floats, the strict decoder and \<open>json.loads\<close>
  return what \<open>canonical\<close> encoded, with the keys sorted; two values have the same canonical text exactly
  when they are equal up to the order of keys.
\<close>

theorem canonical_reads_back:
  assumes "wf_json j" and "wf_json j'"
  shows "strict_json (canonical j) = Some (sort_json j) \<and> json_loads (canonical j) = Some (sort_json j) \<and>
    (canonical j = canonical j' \<longleftrightarrow> sort_json j = sort_json j')"
  using strict_json_canonical [OF assms(1)] json_loads_canonical [OF assms(1)] canonical_inject [OF assms] by (auto simp: canonical_def)

theorem canonical_reads_back_witness:
  "strict_json (canonical (JObj [(''b'', JInt 2), (''a'', JStr ''x'')])) =
     Some (JObj [(''a'', JStr ''x''), (''b'', JInt 2)]) \<and>
   canonical (JObj [(''b'', JInt 2), (''a'', JStr ''x'')]) = canonical (JObj [(''a'', JStr ''x''), (''b'', JInt 2)])"
  using canonical_reads_back [of "JObj [(''b'', JInt 2), (''a'', JStr ''x'')]" "JObj [(''a'', JStr ''x''), (''b'', JInt 2)]"]
  by (auto simp: sort_json_flat)

end
