(* ===== verification/Timestamps.thy ===== *)
theory Timestamps
  imports Json
begin

text \<open>
  Times as the manager stores and compares them. A \<open>datetime\<close> has Python's fields; its instant is
  \<open>micros\<close>. The manager writes two text forms of a time into TEXT columns, \<open>iso_at\<close>
  (\<open>...mmmZ\<close>, \<^verbatim>\<open>timeutil.py\<close>) and \<open>isoformat\<close> (Python's own), and SQL compares
  the columns as text. The theorems here say exactly when such a comparison agrees with the order
  of the instants: always between two UTC \<open>isoformat\<close> texts, up to a millisecond between the two
  forms, and not at all between texts with different UTC offsets.
\<close>

section \<open>Date and time fields\<close>

record datetime =
  year :: nat
  month :: nat
  day :: nat
  hour :: nat
  minute :: nat
  second :: nat
  microsecond :: nat
  utcoffset :: "int option"  \<comment> \<open>minutes east of UTC; None for a naive time\<close>

definition leap :: "nat \<Rightarrow> bool" where
  "leap y \<longleftrightarrow> 4 dvd y \<and> (\<not> 100 dvd y \<or> 400 dvd y)"

definition days_in_month :: "nat \<Rightarrow> nat \<Rightarrow> nat" where
  "days_in_month y m =
    (if m = 2 then (if leap y then 29 else 28)
     else if m \<in> {4, 6, 9, 11} then 30 else 31)"

definition days_before_year :: "nat \<Rightarrow> nat" where
  "days_before_year y = (y - 1) * 365 + (y - 1) div 4 - (y - 1) div 100 + (y - 1) div 400"

definition days_before_month :: "nat \<Rightarrow> nat \<Rightarrow> nat" where
  "days_before_month y m =
    [0, 31, 59, 90, 120, 151, 181, 212, 243, 273, 304, 334] ! (m - 1) +
    (if 2 < m \<and> leap y then 1 else 0)"

definition toordinal :: "nat \<Rightarrow> nat \<Rightarrow> nat \<Rightarrow> nat" where
  "toordinal y m d = days_before_year y + days_before_month y m + d"

definition valid_datetime :: "datetime \<Rightarrow> bool" where
  "valid_datetime t \<longleftrightarrow>
    1 \<le> year t \<and> year t \<le> 9999 \<and> 1 \<le> month t \<and> month t \<le> 12 \<and>
    1 \<le> day t \<and> day t \<le> days_in_month (year t) (month t) \<and>
    hour t < 24 \<and> minute t < 60 \<and> second t < 60 \<and> microsecond t < 1000000 \<and>
    (\<forall>z. utcoffset t = Some z \<longrightarrow> \<bar>z\<bar> < 1440)"

definition utc :: "datetime \<Rightarrow> bool" where
  "utc t \<longleftrightarrow> valid_datetime t \<and> utcoffset t = Some 0"

text \<open>The wall clock in microseconds, and the instant (the wall clock less the offset).\<close>

definition wall :: "datetime \<Rightarrow> int" where
  "wall t = int ((((toordinal (year t) (month t) (day t) * 24 + hour t) * 60 + minute t) * 60 + second t)
     * 1000000 + microsecond t)"

definition micros :: "datetime \<Rightarrow> int" where
  "micros t = wall t - (case utcoffset t of None \<Rightarrow> 0 | Some z \<Rightarrow> z * 60000000)"

section \<open>Instants back to fields\<close>

text \<open>The year of a day number (counted from zero), by cycles of 400, 100, 4 and 1 years.\<close>

definition year_of :: "nat \<Rightarrow> nat" where
  "year_of n =
    (let n400 = n div 146097; a = n mod 146097;
         n100 = min 3 (a div 36524); b = a - n100 * 36524;
         n4 = b div 1461; c = b mod 1461;
         n1 = min 3 (c div 365)
     in 400 * n400 + 100 * n100 + 4 * n4 + n1 + 1)"

definition month_of :: "nat \<Rightarrow> nat \<Rightarrow> nat" where
  "month_of y n = length (filter (\<lambda>m. days_before_month y m \<le> n) [1, 2, 3, 4, 5, 6, 7, 8, 9, 10, 11, 12])"

definition of_micros :: "int \<Rightarrow> datetime" where
  "of_micros t =
    (let u = nat t; day_no = u div 86400000000 - 1; r = u mod 86400000000;
         y = year_of day_no; n = day_no - days_before_year y; m = month_of y n
     in \<lparr>year = y, month = m, day = n - days_before_month y m + 1, hour = r div 3600000000,
         minute = r div 60000000 mod 60, second = r div 1000000 mod 60, microsecond = r mod 1000000,
         utcoffset = Some 0\<rparr>)"

text \<open>\<open>now + timedelta\<close> on a UTC time, the difference in microseconds.\<close>

definition plus_delta :: "datetime \<Rightarrow> int \<Rightarrow> datetime" where
  "plus_delta t d = of_micros (micros t + d)"

abbreviation seconds :: "int \<Rightarrow> int" where
  "seconds n \<equiv> n * 1000000"

section \<open>Text forms\<close>

text \<open>A number in exactly \<open>w\<close> decimal digits.\<close>

fun pad :: "nat \<Rightarrow> nat \<Rightarrow> string" where
  "pad 0 n = []"
| "pad (Suc w) n = pad w (n div 10) @ [digit (n mod 10)]"

definition date_time_text :: "datetime \<Rightarrow> string" where
  "date_time_text t =
    pad 4 (year t) @ ''-'' @ pad 2 (month t) @ ''-'' @ pad 2 (day t) @ ''T'' @
    pad 2 (hour t) @ '':'' @ pad 2 (minute t) @ '':'' @ pad 2 (second t)"

definition iso_at :: "datetime \<Rightarrow> string" where
  "iso_at t = date_time_text t @ ''.'' @ pad 3 (microsecond t div 1000) @ ''Z''"

definition offset_text :: "int \<Rightarrow> string" where
  "offset_text z =
    (if z < 0 then ''-'' else ''+'') @ pad 2 (nat \<bar>z\<bar> div 60) @ '':'' @ pad 2 (nat \<bar>z\<bar> mod 60)"

definition isoformat :: "datetime \<Rightarrow> string" where
  "isoformat t =
    date_time_text t @ (if microsecond t = 0 then [] else ''.'' @ pad 6 (microsecond t)) @
    (case utcoffset t of None \<Rightarrow> [] | Some z \<Rightarrow> offset_text z)"

section \<open>Reading an isoformat text\<close>

definition digits_at :: "nat \<Rightarrow> string \<Rightarrow> nat option" where
  "digits_at w t = (if length (take w t) = w \<and> list_all is_digit (take w t) then Some (str_nat (take w t)) else None)"

text \<open>The digits of a field and the separator after it.\<close>

definition field_then :: "nat \<Rightarrow> char \<Rightarrow> string \<Rightarrow> (nat \<times> string) option" where
  "field_then w c t =
    (case digits_at w t of
       Some n \<Rightarrow> if drop w t \<noteq> [] \<and> hd (drop w t) = c then Some (n, drop (Suc w) t) else None
     | None \<Rightarrow> None)"

definition parse_offset :: "string \<Rightarrow> int option option" where
  "parse_offset t =
    (case t of [] \<Rightarrow> Some None
     | c # r \<Rightarrow>
        if c = CHR ''+'' \<or> c = CHR ''-'' then
          (case field_then 2 CHR '':'' r of
             Some (h, r') \<Rightarrow>
               (case digits_at 2 r' of
                  Some m \<Rightarrow>
                    if length r' = 2 \<and> h < 24 \<and> m < 60
                    then Some (Some ((if c = CHR ''-'' then - 1 else 1) * int (h * 60 + m))) else None
                | None \<Rightarrow> None)
           | None \<Rightarrow> None)
        else None)"

text \<open>The fraction: absent, three digits (milliseconds) or six.\<close>

definition parse_fraction :: "string \<Rightarrow> (nat \<times> string) option" where
  "parse_fraction t =
    (if t \<noteq> [] \<and> hd t = CHR ''.'' then
       (case digits_at 6 (tl t) of
          Some n \<Rightarrow> Some (n, drop 7 t)
        | None \<Rightarrow> map_option (\<lambda>n. (n * 1000, drop 4 t)) (digits_at 3 (tl t)))
     else Some (0, t))"

definition fromisoformat :: "string \<Rightarrow> datetime option" where
  "fromisoformat t =
    (case field_then 4 CHR ''-'' t of None \<Rightarrow> None | Some (y, t1) \<Rightarrow>
    (case field_then 2 CHR ''-'' t1 of None \<Rightarrow> None | Some (mo, t2) \<Rightarrow>
    (case field_then 2 CHR ''T'' t2 of None \<Rightarrow> None | Some (d, t3) \<Rightarrow>
    (case field_then 2 CHR '':'' t3 of None \<Rightarrow> None | Some (h, t4) \<Rightarrow>
    (case field_then 2 CHR '':'' t4 of None \<Rightarrow> None | Some (mi, t5) \<Rightarrow>
    (case digits_at 2 t5 of None \<Rightarrow> None | Some se \<Rightarrow>
    (case parse_fraction (drop 2 t5) of None \<Rightarrow> None | Some (us, t6) \<Rightarrow>
    (case parse_offset t6 of None \<Rightarrow> None | Some z \<Rightarrow>
      (let r = \<lparr>year = y, month = mo, day = d, hour = h, minute = mi, second = se,
                microsecond = us, utcoffset = z\<rparr>
       in if valid_datetime r then Some r else None)))))))))"

text \<open>\<open>value.replace("Z", "+00:00")\<close> before \<open>fromisoformat\<close>, for the \<open>iso_at\<close> form.\<close>

definition replace_Z :: "string \<Rightarrow> string" where
  "replace_Z t = concat (map (\<lambda>c. if c = CHR ''Z'' then ''+00:00'' else [c]) t)"

section \<open>Text order is time order\<close>

lemma append_less_append:
  fixes xs ys :: "'a::linorder list"
  shows "length xs = length ys \<Longrightarrow> xs @ a < ys @ b \<longleftrightarrow> xs < ys \<or> (xs = ys \<and> a < b)"
  by (induction xs ys rule: list_induct2) auto

lemma append_le_append:
  fixes xs ys :: "'a::linorder list"
  shows "length xs = length ys \<Longrightarrow> xs @ a \<le> ys @ b \<longleftrightarrow> xs < ys \<or> (xs = ys \<and> a \<le> b)"
  by (induction xs ys rule: list_induct2) auto

lemma length_pad [simp]: "length (pad w n) = w"
  by (induction w arbitrary: n) auto

lemma digit_less_iff: "a < 10 \<Longrightarrow> b < 10 \<Longrightarrow> digit a < digit b \<longleftrightarrow> a < b"
  using of_char_digit [of a] of_char_digit [of b] by (simp add: less_char_def)

lemma digit_eq_iff: "a < 10 \<Longrightarrow> b < 10 \<Longrightarrow> digit a = digit b \<longleftrightarrow> a = b"
  by (metis digit_val_digit)

lemma digits_less: "b < 10 \<Longrightarrow> d < 10 \<Longrightarrow> (10 * a + b < 10 * c + d) = (a < c \<or> a = c \<and> b < (d::nat))"
  by auto

lemma digits_eq: "b < 10 \<Longrightarrow> d < 10 \<Longrightarrow> (10 * a + b = 10 * c + d) = (a = c \<and> b = (d::nat))"
  by (auto dest: arg_cong [where f = "\<lambda>x. x mod 10"])

lemma pad_order:
  "n < 10 ^ w \<Longrightarrow> m < 10 ^ w \<Longrightarrow> (pad w n < pad w m \<longleftrightarrow> n < m) \<and> (pad w n = pad w m \<longleftrightarrow> n = m)"
proof (induction w arbitrary: n m)
  case (Suc w)
  have "n div 10 < 10 ^ w" "m div 10 < 10 ^ w" using Suc.prems by auto
  with Suc.IH have IH: "pad w (n div 10) < pad w (m div 10) \<longleftrightarrow> n div 10 < m div 10"
    "pad w (n div 10) = pad w (m div 10) \<longleftrightarrow> n div 10 = m div 10" by auto
  have "n < m \<longleftrightarrow> n div 10 < m div 10 \<or> (n div 10 = m div 10 \<and> n mod 10 < m mod 10)"
    "n = m \<longleftrightarrow> n div 10 = m div 10 \<and> n mod 10 = m mod 10"
    using digits_less [of "n mod 10" "m mod 10" "n div 10" "m div 10"]
      digits_eq [of "n mod 10" "m mod 10" "n div 10" "m div 10"] by simp_all
  then show ?case
    by (simp add: append_less_append IH digit_less_iff digit_eq_iff)
qed simp

lemma pad_less [simp]: "n < 10 ^ w \<Longrightarrow> m < 10 ^ w \<Longrightarrow> pad w n < pad w m \<longleftrightarrow> n < m"
  and pad_eq [simp]: "n < 10 ^ w \<Longrightarrow> m < 10 ^ w \<Longrightarrow> pad w n = pad w m \<longleftrightarrow> n = m"
  using pad_order by blast+

text \<open>The fields up to the second, as one number per position.\<close>

definition clock_less :: "datetime \<Rightarrow> datetime \<Rightarrow> bool" where
  "clock_less a b \<longleftrightarrow>
    year a < year b \<or> (year a = year b \<and> (month a < month b \<or> (month a = month b \<and>
    (day a < day b \<or> (day a = day b \<and> (hour a < hour b \<or> (hour a = hour b \<and>
    (minute a < minute b \<or> (minute a = minute b \<and> second a < second b)))))))))"

definition clock_eq :: "datetime \<Rightarrow> datetime \<Rightarrow> bool" where
  "clock_eq a b \<longleftrightarrow> year a = year b \<and> month a = month b \<and> day a = day b \<and> hour a = hour b \<and>
    minute a = minute b \<and> second a = second b"

lemma length_date_time_text [simp]: "length (date_time_text t) = 19"
  by (simp add: date_time_text_def)

lemma valid_bounds:
  assumes "valid_datetime t"
  shows "year t < 10000" "month t < 100" "day t < 100" "hour t < 100" "minute t < 100" "second t < 100"
    "microsecond t < 1000000"
  using assms by (auto simp: valid_datetime_def days_in_month_def split: if_splits)

lemma date_time_text_order:
  assumes "valid_datetime a" and "valid_datetime b"
  shows "date_time_text a < date_time_text b \<longleftrightarrow> clock_less a b"
    and "date_time_text a = date_time_text b \<longleftrightarrow> clock_eq a b"
  using valid_bounds [OF assms(1)] valid_bounds [OF assms(2)]
  by (simp_all add: date_time_text_def append_less_append clock_less_def clock_eq_def del: pad.simps)

lemma leap_count:
  assumes "b \<le> (a::nat)" and "P400 \<longrightarrow> P100" and "P100 \<longrightarrow> P4"
  shows "Suc k * 365 + (a + (if P4 then 1 else 0)) - (b + (if P100 then 1 else 0)) + (c + (if P400 then 1 else 0)) =
   (k * 365 + a - b + c) + (if P4 \<and> (\<not> P100 \<or> P400) then 366 else 365)"
proof -
  obtain d where a: "a = b + d" using assms(1) le_Suc_ex by blast
  have k: "Suc k * 365 = 365 + k * 365" by simp
  show ?thesis
    using assms(2,3) unfolding a k
    by (cases P4; cases P100; cases P400) simp_all
qed

lemma div_Suc_dvd: "0 < n \<Longrightarrow> Suc k div n = k div n + (if n dvd Suc k then 1 else 0)"
  by (simp add: div_Suc mod_eq_0_iff_dvd)

lemma leap_step: "1 \<le> y \<Longrightarrow> days_before_year (Suc y) = days_before_year y + (if leap y then 366 else 365)"
proof -
  assume y: "1 \<le> y"
  obtain k where k: "y = Suc k" using y by (cases y) auto
  have i: "400 dvd Suc k \<longrightarrow> 100 dvd Suc k" "100 dvd Suc k \<longrightarrow> 4 dvd Suc k"
    using dvd_trans [of "100::nat" 400 "Suc k"] dvd_trans [of "4::nat" 100 "Suc k"] by simp_all
  have le: "k div 100 \<le> k div 4" by (rule div_le_mono2) auto
  have "days_before_year (Suc (Suc k)) = Suc k * 365 + Suc k div 4 - Suc k div 100 + Suc k div 400"
    "days_before_year (Suc k) = k * 365 + k div 4 - k div 100 + k div 400"
    by (simp_all only: days_before_year_def diff_Suc_1)
  moreover note leap_count [OF le i, of k "k div 400"]
  moreover have "Suc k div 4 = k div 4 + (if 4 dvd Suc k then 1 else 0)"
    "Suc k div 100 = k div 100 + (if 100 dvd Suc k then 1 else 0)"
    "Suc k div 400 = k div 400 + (if 400 dvd Suc k then 1 else 0)"
    by (rule div_Suc_dvd, simp)+
  ultimately show ?thesis unfolding k leap_def by (simp only:)
qed

lemma days_before_year_mono:
  assumes "y \<le> y'" and "1 \<le> y"
  shows "days_before_year y \<le> days_before_year y'"
  using assms
proof (induction y' rule: dec_induct)
  case base
  then show ?case by simp
next
  case (step n)
  have "days_before_year n \<le> days_before_year (Suc n)"
    using step by (simp add: leap_step)
  with step show ?case by simp
qed

lemma month_cases:
  assumes "1 \<le> (m::nat)" and "m \<le> 12"
  obtains "m = 1" | "m = 2" | "m = 3" | "m = 4" | "m = 5" | "m = 6" | "m = 7" | "m = 8"
    | "m = 9" | "m = 10" | "m = 11" | "m = 12"
  using assms by (auto simp: numeral_eq_Suc le_Suc_eq)

lemma days_before_month_Suc:
  "1 \<le> m \<Longrightarrow> m < 12 \<Longrightarrow> days_before_month y (Suc m) = days_before_month y m + days_in_month y m"
  by (erule (1) month_cases [OF _ less_imp_le])
     (simp_all add: days_before_month_def days_in_month_def)

lemma days_before_month_mono:
  assumes "m \<le> m'" and "1 \<le> m" and "m' \<le> 12"
  shows "days_before_month y m \<le> days_before_month y m'"
  using assms
proof (induction m' rule: dec_induct)
  case base
  then show ?case by simp
next
  case (step n)
  then show ?case using days_before_month_Suc [of n y] by simp
qed

lemma month_end: "1 \<le> m \<Longrightarrow> m \<le> 12 \<Longrightarrow> days_before_month y m + days_in_month y m \<le> (if leap y then 366 else 365)"
  by (erule (1) month_cases) (simp_all add: days_before_month_def days_in_month_def)

lemma toordinal_less:
  assumes "1 \<le> y" "1 \<le> m" "m \<le> 12" "1 \<le> d" "d \<le> days_in_month y m"
    and "1 \<le> m'" "m' \<le> 12" "1 \<le> d'"
    and "y < y' \<or> (y = y' \<and> (m < m' \<or> (m = m' \<and> d < d')))"
  shows "toordinal y m d < toordinal y' m' d'"
proof -
  have end_month: "days_before_month y m + d \<le> (if leap y then 366 else 365)"
    using month_end [of m y] assms by simp
  show ?thesis
  proof (cases "y < y'")
    case True
    then have "days_before_year (Suc y) \<le> days_before_year y'"
      using assms(1) by (intro days_before_year_mono) auto
    then show ?thesis using end_month assms leap_step [of y] by (auto simp: toordinal_def)
  next
    case False
    then have y: "y' = y" using assms by auto
    show ?thesis
    proof (cases "m < m'")
      case True
      then have "days_before_month y (Suc m) \<le> days_before_month y m'"
        using assms by (intro days_before_month_mono) auto
      moreover have "days_before_month y (Suc m) = days_before_month y m + days_in_month y m"
        using assms True by (intro days_before_month_Suc) auto
      ultimately show ?thesis using assms y by (simp add: toordinal_def)
    next
      case False
      then show ?thesis using assms y by (auto simp: toordinal_def)
    qed
  qed
qed


definition secs :: "datetime \<Rightarrow> nat" where
  "secs t = ((toordinal (year t) (month t) (day t) * 24 + hour t) * 60 + minute t) * 60 + second t"

lemma wall_secs: "wall t = int (secs t * 1000000 + microsecond t)"
  by (simp add: wall_def secs_def)

lemma secs_less:
  assumes "valid_datetime a" and "valid_datetime b" and "clock_less a b"
  shows "secs a < secs b"
proof -
  let ?o = "\<lambda>t. toordinal (year t) (month t) (day t)"
  have bounds: "hour a < 24" "minute a < 60" "second a < 60" "hour b < 24" "minute b < 60" "second b < 60"
    using assms by (auto simp: valid_datetime_def)
  consider "?o a < ?o b" | "?o a = ?o b" "hour a < hour b" | "?o a = ?o b" "hour a = hour b" "minute a < minute b"
    | "?o a = ?o b" "hour a = hour b" "minute a = minute b" "second a < second b"
  proof (cases "year a < year b \<or> (year a = year b \<and> (month a < month b \<or> (month a = month b \<and> day a < day b)))")
    case True
    then have "?o a < ?o b"
      using assms(1,2) by (intro toordinal_less) (auto simp: valid_datetime_def)
    then show ?thesis using that by blast
  next
    case False
    then show ?thesis using assms(3) that by (auto simp: clock_less_def)
  qed
  then show ?thesis using bounds unfolding secs_def by cases (simp_all add: algebra_simps)
qed

lemma clock_linear: "clock_less a b \<or> clock_eq a b \<or> clock_less b a"
  by (auto simp: clock_less_def clock_eq_def)

lemma clock_eq_secs: "clock_eq a b \<Longrightarrow> secs a = secs b"
  by (simp add: clock_eq_def secs_def)

lemma secs_order:
  assumes "valid_datetime a" and "valid_datetime b"
  shows "clock_less a b \<longleftrightarrow> secs a < secs b" and "clock_eq a b \<longleftrightarrow> secs a = secs b"
  using secs_less [OF assms] secs_less [OF assms(2,1)] clock_linear [of a b] clock_eq_secs [of a b]
  by auto

lemma text_order:
  assumes "valid_datetime a" and "valid_datetime b"
  shows "date_time_text a @ x < date_time_text b @ y \<longleftrightarrow> secs a < secs b \<or> (secs a = secs b \<and> x < y)"
    and "date_time_text a @ x \<le> date_time_text b @ y \<longleftrightarrow> secs a < secs b \<or> (secs a = secs b \<and> x \<le> y)"
  using date_time_text_order [OF assms] secs_order [OF assms]
  by (simp_all add: append_less_append append_le_append)

lemma char_order: "CHR ''+'' < CHR ''.''" "\<not> CHR ''.'' < CHR ''+''" "CHR ''.'' \<noteq> CHR ''+''"
  by (simp_all add: less_char_def)

lemma utc_suffix_order:
  "a < 1000000 \<Longrightarrow> b < 1000000 \<Longrightarrow>
   ((if a = 0 then [] else ''.'' @ pad 6 a) @ z < (if b = 0 then [] else ''.'' @ pad 6 b) @ z) = (a < b)"
  if "z = CHR ''+'' # z'" for z :: string
  using that by (auto simp: char_order append_less_append simp del: pad.simps)

lemma isoformat_order:
  assumes "utc a" and "utc b"
  shows "isoformat a < isoformat b \<longleftrightarrow> micros a < micros b"
proof -
  have v: "valid_datetime a" "valid_datetime b" using assms by (auto simp: utc_def)
  have us: "microsecond a < 1000000" "microsecond b < 1000000" using v valid_bounds by auto
  obtain z where z: "offset_text 0 = CHR ''+'' # z" by (simp add: offset_text_def)
  have "isoformat a < isoformat b \<longleftrightarrow>
      secs a < secs b \<or> (secs a = secs b \<and> microsecond a < microsecond b)"
    using assms by (simp add: isoformat_def text_order v utc_def utc_suffix_order [OF z us])
  also have "\<dots> \<longleftrightarrow> wall a < wall b"
    using us by (auto simp: wall_secs)
  finally show ?thesis using assms by (simp add: micros_def utc_def)
qed

lemma isoformat_le:
  assumes "utc a" and "utc b"
  shows "isoformat a \<le> isoformat b \<longleftrightarrow> micros a \<le> micros b"
  using isoformat_order [OF assms(2,1)] by (meson not_le)

lemma pad_add: "pad (w + v) n = pad w (n div 10 ^ v) @ pad v (n mod 10 ^ v)"
proof (induction v arbitrary: n)
  case (Suc v)
  have "n mod (10 * 10 ^ v) = 10 * (n div 10 mod 10 ^ v) + n mod 10"
    by (rule mod_mult2_eq)
  then show ?case
    using Suc [of "n div 10"] by (simp add: div_mult2_eq)
qed simp

lemma pad6_split: "pad 6 n = pad 3 (n div 1000) @ pad 3 (n mod 1000)"
  using pad_add [of 3 3 n] by simp

lemma pad_digits: "\<forall>c\<in>set (pad w n). is_digit c"
  by (induction w arbitrary: n) (auto simp: is_digit_digit)

lemma Z_above_digits:
  assumes "0 < w"
  shows "\<not> CHR ''Z'' # t \<le> pad w m @ r"
proof -
  obtain c u where u: "pad w m = c # u" using assms by (metis length_pad list.exhaust list.size(3) less_irrefl)
  then have "is_digit c" using pad_digits [of w m] by (metis list.set_intros(1))
  then show ?thesis using u by (auto simp: is_digit_def less_char_def)
qed

lemma millis_suffix_order:
  assumes "a < 1000000" and "b < 1000000" and "z = CHR ''+'' # z'"
  shows "''.'' @ pad 3 (a div 1000) @ ''Z'' \<le> (if b = 0 then [] else ''.'' @ pad 6 b) @ z \<longleftrightarrow>
    a div 1000 < b div 1000"
proof (cases "b = 0")
  case True
  then show ?thesis using assms(3) char_order(1) by (simp del: pad.simps)
next
  case False
  have "a div 1000 < 10 ^ 3" "b div 1000 < 10 ^ 3" using assms by auto
  then show ?thesis
    using False Z_above_digits [of 3 "[]" "b mod 1000" z]
    by (simp add: pad6_split append_le_append)
qed

lemma iso_at_isoformat_order:
  assumes "valid_datetime a" and "utc b"
  shows "iso_at a \<le> isoformat b \<longleftrightarrow> wall a div 1000 < micros b div 1000"
proof -
  have v: "valid_datetime b" using assms by (simp add: utc_def)
  have us: "microsecond a < 1000000" "microsecond b < 1000000" using v assms valid_bounds by auto
  obtain z where z: "offset_text 0 = CHR ''+'' # z" by (simp add: offset_text_def)
  have "iso_at a \<le> isoformat b \<longleftrightarrow>
      secs a < secs b \<or> (secs a = secs b \<and> microsecond a div 1000 < microsecond b div 1000)"
    using assms(2) millis_suffix_order [OF us z]
    by (simp add: iso_at_def isoformat_def text_order assms(1) v utc_def)
  also have "\<dots> \<longleftrightarrow> (secs a * 1000000 + microsecond a) div 1000 < (secs b * 1000000 + microsecond b) div 1000"
  proof -
    have d: "(s * 1000000 + u) div 1000 = s * 1000 + u div 1000" for s u :: nat
      using div_mult_self3 [of 1000 "s * 1000" u] by (simp add: mult.commute mult.left_commute)
    have "microsecond a div 1000 < 1000" "microsecond b div 1000 < 1000" using us by auto
    then show ?thesis unfolding d by auto
  qed
  also have "\<dots> \<longleftrightarrow> wall a div 1000 < wall b div 1000"
  proof -
    have "wall t div 1000 = int ((secs t * 1000000 + microsecond t) div 1000)" for t
      by (simp only: wall_secs zdiv_int of_nat_numeral)
    then show ?thesis by (simp only: of_nat_less_iff)
  qed
  finally show ?thesis using assms(2) by (simp add: micros_def utc_def)
qed


section \<open>Instants and fields are inverse\<close>

lemma days_before_year_cycles:
  assumes "n100 \<le> 3" and "n4 \<le> 24" and "n1 \<le> 3"
  shows "days_before_year (400 * q + 100 * n100 + 4 * n4 + n1 + 1) = 146097 * q + 36524 * n100 + 1461 * n4 + 365 * n1"
proof -
  let ?k = "400 * q + 100 * n100 + 4 * n4 + n1"
  have "?k = 4 * (100 * q + 25 * n100 + n4) + n1" by simp
  then have d4: "?k div 4 = 100 * q + 25 * n100 + n4" using assms by simp
  have "?k = 100 * (4 * q + n100) + (4 * n4 + n1)" by simp
  then have d100: "?k div 100 = 4 * q + n100" using assms by simp
  have "?k = 400 * q + (100 * n100 + 4 * n4 + n1)" by simp
  then have d400: "?k div 400 = q" using assms by simp
  show ?thesis unfolding days_before_year_def add_diff_cancel_right' d4 d100 d400 by simp
qed

lemma year_of_bounds:
  shows "days_before_year (year_of n) \<le> n" and "n < days_before_year (Suc (year_of n))" and "1 \<le> year_of n"
proof -
  define q a where "q = n div 146097" and "a = n mod 146097"
  define n100 where "n100 = min 3 (a div 36524)"
  define b where "b = a - n100 * 36524"
  define n4 c where "n4 = b div 1461" and "c = b mod 1461"
  define n1 where "n1 = min 3 (c div 365)"
  have y: "year_of n = 400 * q + 100 * n100 + 4 * n4 + n1 + 1"
    by (simp add: year_of_def Let_def q_def a_def n100_def b_def n4_def c_def n1_def)
  have a: "a < 146097" by (simp add: a_def)
  have ge: "n100 * 36524 \<le> a" unfolding n100_def
    by (meson div_times_less_eq_dividend min.cobounded2 mult_le_mono1 order_trans)
  have b: "b \<le> 36524" "n100 < 3 \<Longrightarrow> b < 36524"
  proof -
    have "n100 = 3 \<or> (n100 < 3 \<and> n100 = a div 36524)" by (auto simp: n100_def min_def)
    then show "b \<le> 36524" "n100 < 3 \<Longrightarrow> b < 36524"
      using a ge by (auto simp: b_def minus_mult_div_eq_mod mult.commute)
  qed
  have small: "n100 \<le> 3" "n4 \<le> 24" "n1 \<le> 3" "c < 1461"
    using b(1) by (auto simp: n100_def n4_def n1_def c_def)
  have bc: "b = 1461 * n4 + c" by (simp add: n4_def c_def)
  have n: "n = 146097 * q + 36524 * n100 + 1461 * n4 + c"
  proof -
    have "n = 146097 * q + a" by (simp add: q_def a_def)
    moreover have "a = 36524 * n100 + b" using ge by (simp add: b_def)
    ultimately show ?thesis using bc by simp
  qed
  have start: "days_before_year (year_of n) = 146097 * q + 36524 * n100 + 1461 * n4 + 365 * n1"
    unfolding y by (rule days_before_year_cycles) (use small in auto)
  have n1: "365 * n1 \<le> c" "c - 365 * n1 < 366" "c - 365 * n1 = 365 \<Longrightarrow> n1 = 3 \<and> c = 1460"
  proof -
    have "n1 = 3 \<and> 1095 \<le> c \<or> (n1 = c div 365 \<and> n1 < 3)" by (auto simp: n1_def min_def)
    then show "365 * n1 \<le> c" "c - 365 * n1 < 366" "c - 365 * n1 = 365 \<Longrightarrow> n1 = 3 \<and> c = 1460"
      using small(4) by (auto simp: minus_mult_div_eq_mod)
  qed
  show "days_before_year (year_of n) \<le> n" using start n n1 by simp
  show pos: "1 \<le> year_of n" by (simp add: y)
  have lp: "leap (year_of n)" if full: "c - 365 * n1 = 365"
  proof -
    have e: "n1 = 3" "c = 1460" using n1(3) [OF full] by auto
    have y4: "year_of n = 4 * (100 * q + 25 * n100 + n4 + 1)" by (simp add: y e)
    show ?thesis
    proof (cases "n4 = 24")
      case True
      then have "b = 36524" using e bc by simp
      then have "n100 = 3" using b(2) small(1) by fastforce
      then have "year_of n = 400 * (q + 1)" using True by (simp add: y4)
      then show ?thesis by (simp add: leap_def)
    next
      case False
      then have "n4 < 24" using small by simp
      have "year_of n = 100 * (4 * q + n100) + 4 * (n4 + 1)" by (simp add: y4)
      moreover have "(100 * (4 * q + n100) + 4 * (n4 + 1)) mod 100 = (4 * (n4 + 1)) mod 100"
        by (rule mod_mult_self4)
      moreover have "(4 * (n4 + 1)) mod 100 = 4 * (n4 + 1)"
        by (rule mod_less) (use \<open>n4 < 24\<close> in simp)
      ultimately have "year_of n mod 100 = 4 * (n4 + 1)" by (simp only:)
      then have "\<not> 100 dvd year_of n" by (simp add: mod_eq_0_iff_dvd [symmetric])
      then show ?thesis using y4 by (simp add: leap_def)
    qed
  qed
  show "n < days_before_year (Suc (year_of n))"
    using start n n1(1,2) lp leap_step [OF pos] by (cases "c - 365 * n1 = 365") auto
qed


lemma filter_antitone:
  assumes "\<And>m. 1 \<le> m \<Longrightarrow> m < n \<Longrightarrow> P (Suc m) \<Longrightarrow> P m"
  shows "filter P [1..<Suc n] = [1..<Suc (length (filter P [1..<Suc n]))]"
  using assms
proof (induction n)
  case (Suc n)
  have IH: "filter P [1..<Suc n] = [1..<Suc (length (filter P [1..<Suc n]))]"
    using Suc by auto
  show ?case
  proof (cases "P (Suc n)")
    case True
    have "P (Suc n - j)" if "j \<le> n" for j
      using that
    proof (induction j)
      case (Suc j)
      then show ?case using Suc.prems Suc.IH \<open>\<And>m. 1 \<le> m \<Longrightarrow> m < Suc n \<Longrightarrow> P (Suc m) \<Longrightarrow> P m\<close> [of "n - j"]
        by (simp add: Suc_diff_le)
    qed (use True in simp)
    then have "P m" if "1 \<le> m" "m \<le> Suc n" for m
      using that by (metis diff_diff_cancel diff_le_mono2 diff_Suc_1)
    then have "filter P [1..<Suc (Suc n)] = [1..<Suc (Suc n)]"
      by (auto simp: filter_id_conv simp del: upt_Suc)
    then show ?thesis by simp
  next
    case False
    then show ?thesis using IH by simp
  qed
qed simp

lemma month_of_bounds:
  assumes "1 \<le> y" and "n < (if leap y then 366 else 365)"
  shows "1 \<le> month_of y n" and "month_of y n \<le> 12" and "days_before_month y (month_of y n) \<le> n"
    and "n - days_before_month y (month_of y n) < days_in_month y (month_of y n)"
proof -
  let ?P = "\<lambda>m. days_before_month y m \<le> n"
  define L where "L = month_of y n"
  have twelve: "[1, 2, 3, 4, 5, 6, 7, 8, 9, 10, 11, 12] = [1..<Suc 12]" by (simp add: upt_rec)
  have "filter ?P [1..<Suc 12] = [1..<Suc (length (filter ?P [1..<Suc 12]))]"
  proof (rule filter_antitone)
    fix m :: nat
    assume m: "1 \<le> m" "m < 12" "days_before_month y (Suc m) \<le> n"
    have "days_before_month y m \<le> days_before_month y (Suc m)"
      using m(1,2) by (intro days_before_month_mono) auto
    then show "days_before_month y m \<le> n" using m(3) by simp
  qed
  then have pre: "filter ?P [1..<Suc 12] = [1..<Suc L]"
    by (simp only: L_def month_of_def twelve)
  have iff: "?P m \<longleftrightarrow> m \<le> L" if "1 \<le> m" "m \<le> 12" for m
  proof -
    have "m \<in> set (filter ?P [1..<Suc 12]) \<longleftrightarrow> m \<in> set [1..<Suc L]" by (simp only: pre)
    moreover have "m \<in> set [1..<Suc 12]" "m \<in> set [1..<Suc L] \<longleftrightarrow> m \<le> L" using that by auto
    ultimately show ?thesis by (simp only: set_filter mem_Collect_eq simp_thms)
  qed
  have one: "days_before_month y 1 = 0" by (simp add: days_before_month_def)
  show 1: "1 \<le> month_of y n" using iff [of 1] one unfolding L_def by simp
  have len: "length [1..<Suc L] \<le> length [1..<Suc 12]"
    unfolding pre [symmetric] by (rule length_filter_le)
  then show 2: "month_of y n \<le> 12" unfolding L_def by (simp del: upt_Suc)
  show 3: "days_before_month y (month_of y n) \<le> n" using iff [of L] 1 2 unfolding L_def by simp
  show "n - days_before_month y (month_of y n) < days_in_month y (month_of y n)"
  proof (cases "month_of y n < 12")
    case True
    then have "\<not> ?P (Suc L)" using iff [of "Suc L"] unfolding L_def by simp
    then show ?thesis using True 1 3 days_before_month_Suc [of L y] unfolding L_def by simp
  next
    case False
    then have "month_of y n = 12" using 2 by simp
    then show ?thesis using assms 3 by (auto simp: days_before_month_def days_in_month_def split: if_splits)
  qed
qed


lemma days_in_year:
  "1 \<le> y \<Longrightarrow> n < days_before_year (Suc y) \<Longrightarrow> days_before_year y \<le> n \<Longrightarrow>
    n - days_before_year y < (if leap y then 366 else 365)"
  using leap_step [of y] by simp

lemma toordinal_of_day:
  assumes "day_no = d"
  shows "let y = year_of d; n = d - days_before_year y; m = month_of y n
    in toordinal y m (n - days_before_month y m + 1) = d + 1 \<and> 1 \<le> y \<and> 1 \<le> m \<and> m \<le> 12 \<and>
      n - days_before_month y m + 1 \<le> days_in_month y m"
proof -
  define y where "y = year_of d"
  define n where "n = d - days_before_year y"
  have y: "days_before_year y \<le> d" "d < days_before_year (Suc y)" "1 \<le> y"
    unfolding y_def by (rule year_of_bounds)+
  have "n < (if leap y then 366 else 365)"
    unfolding n_def using y by (intro days_in_year)
  note m = month_of_bounds [OF y(3) this]
  then show ?thesis
    unfolding Let_def y_def [symmetric] n_def [symmetric]
    using y by (simp add: toordinal_def n_def)
qed

lemma divmod_recompose:
  fixes r :: nat
  assumes "r < 86400000000"
  shows "(((r div 3600000000) * 60 + r div 60000000 mod 60) * 60 + r div 1000000 mod 60) * 1000000 + r mod 1000000 = r"
    and "r div 3600000000 < 24"
proof -
  have a: "r div 60000000 = r div 1000000 div 60" "r div 3600000000 = r div 1000000 div 60 div 60"
    by (simp_all add: div_mult2_eq [symmetric])
  have "(r div 1000000 div 60 div 60) * 60 + r div 1000000 div 60 mod 60 = r div 1000000 div 60"
    by (rule div_mult_mod_eq)
  moreover have "r div 1000000 div 60 * 60 + r div 1000000 mod 60 = r div 1000000" by (rule div_mult_mod_eq)
  moreover have "r div 1000000 * 1000000 + r mod 1000000 = r" by (rule div_mult_mod_eq)
  ultimately show "(((r div 3600000000) * 60 + r div 60000000 mod 60) * 60 + r div 1000000 mod 60) * 1000000 + r mod 1000000 = r"
    unfolding a by (simp only:)
  show "r div 3600000000 < 24" using assms by (simp add: less_mult_imp_div_less)
qed

lemma of_micros_fields:
  assumes "86400000000 \<le> t"
  defines "d \<equiv> nat t div 86400000000 - 1"
  defines "y \<equiv> year_of d"
  shows "micros (of_micros t) = t" and "utcoffset (of_micros t) = Some 0"
    and "y \<le> 9999 \<Longrightarrow> utc (of_micros t)"
proof -
  define u where "u = nat t"
  define r where "r = u mod 86400000000"
  define n where "n = d - days_before_year y"
  define m where "m = month_of y n"
  define dd where "dd = n - days_before_month y m + 1"
  have f: "of_micros t = \<lparr>year = y, month = m, day = dd, hour = r div 3600000000,
         minute = r div 60000000 mod 60, second = r div 1000000 mod 60, microsecond = r mod 1000000,
         utcoffset = Some 0\<rparr>"
    unfolding of_micros_def Let_def dd_def m_def n_def y_def d_def r_def u_def ..
  have o: "toordinal y m dd = d + 1" "1 \<le> y" "1 \<le> m" "m \<le> 12" "dd \<le> days_in_month y m"
    using toordinal_of_day [of d d] unfolding Let_def y_def [symmetric] n_def [symmetric] m_def [symmetric] dd_def [symmetric]
    by auto
  have "1 \<le> u div 86400000000" using assms(1) unfolding u_def by (simp add: div_greater_zero_iff Suc_le_eq)
  then have d1: "d + 1 = u div 86400000000" unfolding d_def u_def by simp
  have r: "r < 86400000000" unfolding r_def by simp
  have c: "(((x * 24 + r div 3600000000) * 60 + r div 60000000 mod 60) * 60 + r div 1000000 mod 60) * 1000000 + r mod 1000000
    = x * 86400000000 + r" for x
    using divmod_recompose(1) [OF r] by (simp add: algebra_simps)
  have "(d + 1) * 86400000000 + r = u" unfolding d1 r_def by (rule div_mult_mod_eq)
  then have "wall (of_micros t) = int u" unfolding wall_def f by (simp only: datetime.select_convs o(1) c)
  then show "micros (of_micros t) = t" using assms(1) by (simp add: micros_def f u_def)
  show "utcoffset (of_micros t) = Some 0" by (simp add: f)
  assume "y \<le> 9999"
  then show "utc (of_micros t)"
    using o divmod_recompose(2) [OF r] unfolding utc_def valid_datetime_def f by (simp add: dd_def)
qed


text \<open>The last instant \<open>datetime\<close> can hold is the end of year 9999, day number 3652059.\<close>

lemma of_micros_utc:
  assumes "86400000000 \<le> t" and "t < 3652060 * 86400000000"
  shows "utc (of_micros t)"
proof (rule of_micros_fields(3) [OF assms(1)], rule ccontr)
  let ?d = "nat t div 86400000000 - 1"
  assume "\<not> year_of ?d \<le> 9999"
  then have "days_before_year 10000 \<le> days_before_year (year_of ?d)"
    by (intro days_before_year_mono) auto
  also have "\<dots> \<le> ?d" by (rule year_of_bounds)
  finally have "3652059 \<le> ?d" by (simp add: days_before_year_def)
  moreover have "nat t div 86400000000 < 3652060"
    using assms by (intro less_mult_imp_div_less) (simp add: nat_less_iff)
  ultimately show False by simp
qed

lemma micros_plus_delta:
  assumes "86400000000 \<le> micros t + d"
  shows "micros (plus_delta t d) = micros t + d"
  unfolding plus_delta_def by (rule of_micros_fields(1) [OF assms])

lemma micros_pos:
  assumes "utc t"
  shows "86400000000 \<le> micros t"
proof -
  have "1 \<le> toordinal (year t) (month t) (day t)"
    using assms by (simp add: utc_def valid_datetime_def toordinal_def)
  then show ?thesis using assms by (simp add: micros_def wall_def utc_def)
qed

lemma str_nat_pad: "n < 10 ^ w \<Longrightarrow> str_nat (pad w n) = n"
proof (induction w arbitrary: n)
  case (Suc w)
  then have "n div 10 < 10 ^ w" by (simp add: less_mult_imp_div_less mult.commute)
  then show ?case using Suc.IH by (simp add: str_nat_snoc digit_val_digit)
qed (simp add: str_nat_def)

lemma digits_at_pad: "n < 10 ^ w \<Longrightarrow> digits_at w (pad w n @ r) = Some n"
  by (simp add: digits_at_def list_all_iff pad_digits str_nat_pad)

lemma digits_at_pad_end: "n < 10 ^ w \<Longrightarrow> digits_at w (pad w n) = Some n"
  using digits_at_pad [of n w "[]"] by simp

lemma field_then_pad: "n < 10 ^ w \<Longrightarrow> field_then w c (pad w n @ c # r) = Some (n, r)"
  by (simp add: field_then_def digits_at_pad)

lemma parse_offset_text:
  assumes "\<bar>z\<bar> < 1440"
  shows "parse_offset (offset_text z) = Some (Some z)"
proof -
  define a where "a = nat \<bar>z\<bar>"
  have a: "a div 60 < 24" "a mod 60 < 60" "a div 60 * 60 + a mod 60 = a" "int a = \<bar>z\<bar>"
    using assms by (auto simp: a_def less_mult_imp_div_less nat_less_iff)
  have b: "a div 60 < 10 ^ 2" "a mod 60 < 10 ^ 2" using a by auto
  have "int (a div 60 * 60 + a mod 60) = \<bar>z\<bar>" using a by simp
  then show ?thesis
    unfolding parse_offset_def offset_text_def a_def [symmetric]
    using field_then_pad [OF b(1), of "CHR '':''" "pad 2 (a mod 60)"] digits_at_pad_end [OF b(2)] a(1,2)
    by (auto simp del: pad.simps)
qed

lemma parse_fraction_text:
  assumes "us < 1000000" and "r = [] \<or> hd r = CHR ''+'' \<or> hd r = CHR ''-''"
  shows "parse_fraction ((if us = 0 then [] else ''.'' @ pad 6 us) @ r) = Some (us, r)"
  using assms digits_at_pad [of us 6 r] by (auto simp: parse_fraction_def simp del: pad.simps)

lemma hd_offset: "case_option [] offset_text z = [] \<or> hd (case_option [] offset_text z) = CHR ''+'' \<or>
    hd (case_option [] offset_text z) = CHR ''-''"
  by (cases z) (auto simp: offset_text_def)

lemma parse_date_time:
  assumes "valid_datetime t"
    and "parse_fraction r = Some (us, r')" and "parse_offset r' = Some z"
    and "valid_datetime (t\<lparr>microsecond := us, utcoffset := z\<rparr>)"
  shows "fromisoformat (date_time_text t @ r) = Some (t\<lparr>microsecond := us, utcoffset := z\<rparr>)"
proof -
  have w: "year t < 10 ^ 4" "month t < 10 ^ 2" "day t < 10 ^ 2" "hour t < 10 ^ 2" "minute t < 10 ^ 2" "second t < 10 ^ 2"
    using assms(1) by (auto simp: valid_datetime_def days_in_month_def split: if_splits)
  have s: "\<lparr>year = year t, month = month t, day = day t, hour = hour t, minute = minute t, second = second t,
                microsecond = us, utcoffset = z\<rparr> = t\<lparr>microsecond := us, utcoffset := z\<rparr>" by simp
  show ?thesis
    unfolding fromisoformat_def date_time_text_def
    using assms(2-4)
    by (simp add: Let_def s [symmetric] field_then_pad [OF w(1)] field_then_pad [OF w(2)] field_then_pad [OF w(3)]
        field_then_pad [OF w(4)] field_then_pad [OF w(5)] digits_at_pad [OF w(6)] del: pad.simps)
qed

lemma fromisoformat_isoformat:
  assumes "valid_datetime t"
  shows "fromisoformat (isoformat t) = Some t"
proof -
  let ?z = "case_option [] offset_text (utcoffset t)"
  have "parse_fraction ((if microsecond t = 0 then [] else ''.'' @ pad 6 (microsecond t)) @ ?z) = Some (microsecond t, ?z)"
    using assms by (intro parse_fraction_text hd_offset) (simp add: valid_datetime_def)
  moreover have "parse_offset ?z = Some (utcoffset t)"
    using assms by (cases "utcoffset t") (auto simp: parse_offset_text valid_datetime_def, simp add: parse_offset_def)
  ultimately show ?thesis
    using parse_date_time [OF assms, of _ "microsecond t" ?z "utcoffset t"] assms by (simp add: isoformat_def)
qed

lemma replace_Z_digits: "\<forall>c\<in>set t. c \<noteq> CHR ''Z'' \<Longrightarrow> replace_Z (t @ r) = t @ replace_Z r"
  by (induction t) (auto simp: replace_Z_def)

lemma replace_Z_pad: "replace_Z (pad w n @ r) = pad w n @ replace_Z r"
  using pad_digits [of w n] by (intro replace_Z_digits) (auto simp: is_digit_def)

lemma replace_Z_simps:
  "replace_Z [] = []" "replace_Z (c # t) = (if c = CHR ''Z'' then ''+00:00'' else [c]) @ replace_Z t"
  by (simp_all add: replace_Z_def)

lemma fromisoformat_iso_at:
  assumes "valid_datetime t"
  shows "fromisoformat (replace_Z (iso_at t)) =
    Some (t\<lparr>microsecond := microsecond t div 1000 * 1000, utcoffset := Some 0\<rparr>)"
proof -
  let ?ms = "microsecond t div 1000"
  have us: "microsecond t < 1000000" using assms by (simp add: valid_datetime_def)
  then have ms: "?ms < 10 ^ 3" by (simp add: less_mult_imp_div_less)
  have z: "replace_Z (iso_at t) = date_time_text t @ ''.'' @ pad 3 ?ms @ ''+00:00''"
    unfolding iso_at_def date_time_text_def append_assoc
    by (simp add: replace_Z_pad replace_Z_simps del: pad.simps)
  have no6: "digits_at 6 (pad 3 ?ms @ ''+00:00'') = None"
    by (simp add: digits_at_def is_digit_def del: pad.simps)
  have "parse_fraction (''.'' @ pad 3 ?ms @ ''+00:00'') = Some (?ms * 1000, ''+00:00'')"
    using digits_at_pad [OF ms] no6 by (simp add: parse_fraction_def del: pad.simps)
  moreover have "parse_offset ''+00:00'' = Some (Some 0)" by code_simp
  moreover have "valid_datetime (t\<lparr>microsecond := ?ms * 1000, utcoffset := Some 0\<rparr>)"
    using assms ms by (simp add: valid_datetime_def)
  ultimately show ?thesis unfolding z by (rule parse_date_time [OF assms])
qed

section \<open>The two text forms together\<close>

text \<open>
  A time that \<^verbatim>\<open>timeutil.iso_at\<close> wrote into a column reads back, through
  \<open>fromisoformat(value.replace("Z", "+00:00"))\<close>, as the same UTC time cut to the millisecond; so at
  most 999 microseconds are lost and none are gained.
\<close>

lemma iso_at_roundtrip:
  assumes "utc t"
  shows "\<exists>r. fromisoformat (replace_Z (iso_at t)) = Some r \<and> utc r \<and>
    micros r = micros t div 1000 * 1000 \<and> iso_at r = iso_at t"
proof -
  define r where "r = t\<lparr>microsecond := microsecond t div 1000 * 1000, utcoffset := Some 0\<rparr>"
  have v: "valid_datetime t" "utcoffset t = Some 0" using assms by (auto simp: utc_def)
  have "microsecond t div 1000 < 1000"
    using v(1) by (simp add: valid_datetime_def less_mult_imp_div_less)
  then have "utc r" using v by (simp add: utc_def r_def valid_datetime_def)
  moreover have "micros r = micros t div 1000 * 1000"
  proof -
    define k where "k = int (((toordinal (year t) (month t) (day t) * 24 + hour t) * 60 + minute t) * 60 + second t)"
    define u where "u = int (microsecond t)"
    have "micros t = u + k * 1000 * 1000" using v by (simp add: micros_def wall_def k_def u_def)
    moreover have "(u + k * 1000 * 1000) div 1000 = k * 1000 + u div 1000"
      by (rule div_mult_self1) simp
    moreover have "micros r = k * 1000 * 1000 + u div 1000 * 1000"
      by (simp add: micros_def wall_def k_def u_def r_def zdiv_int)
    ultimately show ?thesis by (simp only: distrib_right)
  qed
  moreover have "iso_at r = iso_at t"
    by (simp add: iso_at_def date_time_text_def r_def)
  ultimately show ?thesis using fromisoformat_iso_at [OF v(1)] by (auto simp: r_def)
qed

lemma iso_at_roundtrip_witness:
  "utc (of_micros 63500000000123456) \<and>
   (\<exists>r. fromisoformat (replace_Z (iso_at (of_micros 63500000000123456))) = Some r \<and> utc r \<and>
      micros r = micros (of_micros 63500000000123456) div 1000 * 1000 \<and>
      iso_at r = iso_at (of_micros 63500000000123456))"
  using iso_at_roundtrip [of "of_micros 63500000000123456"] of_micros_utc [of 63500000000123456] by simp

end
