(* ===== verification/Schema.thy ===== *)
theory Schema
  imports Timestamps
begin

text \<open>
  The database of the manager and the world around it. A row type per table of
  \<^verbatim>\<open>manager/migrations.py\<close> (with \<^verbatim>\<open>audit_chain.install\<close>,
  \<^verbatim>\<open>triage_store.install\<close> and \<^verbatim>\<open>forensic_context.install\<close>, which migrations 27, 32
  and 33 run), at the version the last migration leaves. A table is the list of its rows in rowid
  order. TEXT columns that hold a serialised JSON value which the sources only ever read through
  \<open>json.loads\<close> hold the value; columns compared or hashed as text hold the text. A column that may
  be NULL is an option.

  \<open>env\<close> collects what a handler takes from outside: the clock, randomness, environment variables,
  SHA-256, and the functions of the vendored packages (their sources are git submodules and not part
  of this repository), which stay uninterpreted. Every definition that uses one of them takes
  \<open>e :: env\<close> as an argument.
\<close>

section \<open>Rows\<close>

text \<open>
  The states of \<open>lifecycle_state\<close>, shared by \<open>commands\<close> and \<open>response_actions\<close>.
\<close>

datatype lifecycle =
  PENDING | AUTHORIZED | DISPATCHED | ACCEPTED | SUCCEEDED | FAILED | REJECTED | EXPIRED | CANCELLED | INDETERMINATE

fun state_text :: "lifecycle \<Rightarrow> string" where
  "state_text PENDING = ''PENDING''"
| "state_text AUTHORIZED = ''AUTHORIZED''"
| "state_text DISPATCHED = ''DISPATCHED''"
| "state_text ACCEPTED = ''ACCEPTED''"
| "state_text SUCCEEDED = ''SUCCEEDED''"
| "state_text FAILED = ''FAILED''"
| "state_text REJECTED = ''REJECTED''"
| "state_text EXPIRED = ''EXPIRED''"
| "state_text CANCELLED = ''CANCELLED''"
| "state_text INDETERMINATE = ''INDETERMINATE''"

text \<open>Enrolled agents, their host and the SHA-256 of their bearer token.\<close>

record agent_row =
  ea_agent_id :: string
  ea_host_id :: string
  ea_token_digest :: string
  ea_enrolled_at :: string
  ea_revoked_at :: "string option"
  ea_public_key :: "string option"

text \<open>Enrollment challenges.\<close>

record nonce_row =
  en_nonce :: string
  en_created_at :: string
  en_expires_at :: string
  en_consumed_at :: "string option"

text \<open>Analyst credentials.\<close>

record analyst_row =
  ac_analyst_id :: string
  ac_token_digest :: string
  ac_created_at :: string
  ac_revoked_at :: "string option"
  ac_role :: string

text \<open>Alerts of the detection engine.\<close>

record alert_row =
  al_alert_id :: string
  al_rule_id :: string
  al_level :: "int option"
  al_severity :: "string option"
  al_host_id :: "string option"
  al_agent_id :: "string option"
  al_event_id :: "string option"
  al_alert_timestamp :: "string option"
  al_created_at :: string
  al_mitre_tactic :: "string option"
  al_mitre_technique :: "string option"
  al_alert_json :: json
  al_detection_source :: "string option"
  al_incident_id :: "string option"

text \<open>The endpoint command queue.\<close>

record command_row =
  cm_command_id :: string
  cm_agent_id :: string
  cm_command_json :: jobj
  cm_created_at :: string
  cm_expires_at :: string
  cm_delivered_at :: "string option"
  cm_alert_id :: "string option"
  cm_lifecycle_state :: lifecycle

text \<open>First outcomes of commands.\<close>

record result_row =
  cr_result_id :: string
  cr_command_id :: string
  cr_agent_id :: string
  cr_outcome :: string
  cr_detail :: "string option"
  cr_received_at :: string

text \<open>Immutable version 2 result bodies.\<close>

record receipt_row =
  rc_result_id :: string
  rc_agent_id :: string
  rc_command_id :: string
  rc_payload_digest :: string
  rc_raw_json :: string
  rc_received_at :: string

text \<open>Response actions from staging to decision.\<close>

record response_row =
  ra_response_id :: string
  ra_alert_id :: string
  ra_action :: string
  ra_tier :: string
  ra_lifecycle_state :: lifecycle
  ra_target_json :: jobj
  ra_command_id :: "string option"
  ra_created_at :: string
  ra_authorized_at :: "string option"
  ra_authorized_by :: "string option"
  ra_decided_reason :: "string option"
  ra_origin :: string
  ra_requested_by :: "string option"
  ra_request_reason :: "string option"
  ra_requested_agent_id :: "string option"
  ra_requested_host_id :: "string option"

text \<open>Retry identities of manual requests.\<close>

record request_key_row =
  rk_analyst_id :: string
  rk_request_id :: string
  rk_payload_digest :: string
  rk_response_id :: string

text \<open>The last authenticated poll of each agent.\<close>

record channel_row =
  pc_agent_id :: string
  pc_last_polled_at :: string
  pc_delivery_mode :: string
  pc_command_auth :: "string option"
  pc_profile_json :: "jobj option"
  pc_profile_observed_at :: "string option"
  pc_profile_host_id :: "string option"

text \<open>Retry identities of campaigns.\<close>

record campaign_row =
  cp_actor :: string
  cp_campaign_id :: string
  cp_payload_digest :: string
  cp_result_json :: json
  cp_created_at :: string

text \<open>Audit of commands.\<close>

record command_audit_row =
  ca_audit_id :: string
  ca_command_id :: string
  ca_event :: string
  ca_actor :: string
  ca_detail :: "string option"
  ca_occurred_at :: string

text \<open>Audit of response decisions.\<close>

record decision_audit_row =
  da_event_id :: string
  da_response_id :: string
  da_event :: string
  da_actor :: string
  da_detail :: "string option"
  da_occurred_at :: string

text \<open>Audit of keys, access and triage.\<close>

record security_audit_row =
  sa_event_id :: string
  sa_request_id :: "string option"
  sa_asset_id :: "string option"
  sa_event :: string
  sa_actor :: string
  sa_detail :: string
  sa_occurred_at :: string

text \<open>Custody of collected artifacts.\<close>

record custody_row =
  cu_artifact_id :: string
  cu_sequence :: int
  cu_event :: string
  cu_actor :: string
  cu_occurred_at :: string
  cu_detail :: string
  cu_previous_hash :: string
  cu_event_hash :: string

text \<open>The hash chain over the four audit tables.\<close>

record ledger_row =
  lg_sequence :: int
  lg_previous_hash :: string
  lg_source :: string
  lg_source_id :: string
  lg_event :: string
  lg_actor :: string
  lg_request_id :: "string option"
  lg_command_id :: "string option"
  lg_asset_id :: "string option"
  lg_occurred_at :: string
  lg_payload_json :: jobj
  lg_legacy_import :: int
  lg_event_hash :: string

text \<open>Signed heads of the chain.\<close>

record checkpoint_row =
  ck_checkpoint_id :: string
  ck_sequence :: int
  ck_document_json :: jobj
  ck_authorization_json :: jobj
  ck_created_at :: string
  ck_request_key :: string

text \<open>Collected artifacts.\<close>

record artifact_row =
  ar_artifact_id :: string
  ar_agent_id :: string
  ar_command_id :: string
  ar_host_id :: string
  ar_correlation_id :: string
  ar_kind :: string
  ar_media_type :: string
  ar_content_bytes :: int
  ar_sha256 :: string
  ar_manifest_digest :: string
  ar_content :: string
  ar_received_at :: string

text \<open>Artifact signing keys of agents.\<close>

record artifact_key_row =
  ak_agent_id :: string
  ak_host_id :: string
  ak_key_id :: string
  ak_key_version :: int
  ak_public_key :: string
  ak_valid_from :: string
  ak_retired_at :: "string option"
  ak_compromised_at :: "string option"
  ak_compromise_reason :: "string option"

text \<open>Requested key rotations.\<close>

datatype rotation_state = ROTATION_PENDING | ROTATION_APPROVED

record rotation_row =
  kr_agent_id :: string
  kr_request_id :: string
  kr_old_key_id :: string
  kr_new_key_id :: string
  kr_new_public_key :: string
  kr_payload_digest :: string
  kr_state :: rotation_state
  kr_created_at :: string
  kr_expires_at :: string
  kr_approved_by :: "string option"
  kr_approved_at :: "string option"

text \<open>Verified artifact manifests.\<close>

record attestation_row =
  at_artifact_id :: string
  at_agent_id :: string
  at_key_id :: string
  at_key_version :: int
  at_manifest_json :: string
  at_verified_at :: string

text \<open>Resumable artifact sessions.\<close>

datatype session_state = SESSION_OPEN | SESSION_COMPLETE | SESSION_EXPIRED

record transfer_row =
  tf_artifact_id :: string
  tf_agent_id :: string
  tf_command_id :: string
  tf_host_id :: string
  tf_manifest_json :: string
  tf_manifest_sha256 :: string
  tf_content_bytes :: int
  tf_received_bytes :: int
  tf_state :: session_state
  tf_admitted_at :: string
  tf_expires_at :: string

text \<open>Accepted parts of a session.\<close>

record chunk_row =
  ch_artifact_id :: string
  ch_offset :: int
  ch_sha256 :: string
  ch_content :: string

text \<open>The counters that the triggers on artifacts and sessions keep.\<close>

record artifact_usage_row =
  au_content_bytes :: int
  au_artifacts :: int

record transfer_usage_row =
  tu_reserved_bytes :: int
  tu_open_sessions :: int
  tu_total_sessions :: int

text \<open>Retry identities of decisions on artifact identities.\<close>

record identity_operation_row =
  io_actor :: string
  io_request_id :: string
  io_payload_digest :: string
  io_result_json :: json

text \<open>Grants of artifact access, and the retry identities of their changes.\<close>

record grant_row =
  ag_grant_id :: string
  ag_analyst_id :: string
  ag_credential_digest :: string
  ag_host_id :: string
  ag_alert_id :: string
  ag_policy_version :: int
  ag_granted_by :: string
  ag_reason :: string
  ag_created_at :: string
  ag_revoked_at :: "string option"
  ag_revoked_by :: "string option"
  ag_revoke_reason :: "string option"

record access_operation_row =
  ao_actor :: string
  ao_request_id :: string
  ao_payload_digest :: string
  ao_result_json :: json
  ao_created_at :: string

text \<open>Acknowledged views and downloads of evidence.\<close>

record view_row =
  vr_analyst_id :: string
  vr_credential_digest :: string
  vr_request_id :: string
  vr_artifact_id :: string
  vr_manifest_sha256 :: string
  vr_operation :: string
  vr_recorded_at :: string

text \<open>Triage policy revisions.\<close>

record policy_revision_row =
  tp_rule_id :: string
  tp_version :: int
  tp_policy_json :: jobj
  tp_actor :: string
  tp_created_at :: string

text \<open>The current revision of each rule.\<close>

record policy_head_row =
  th_rule_id :: string
  th_version :: int

text \<open>Asset classes.\<close>

record asset_row =
  as_host_id :: string
  as_asset_class :: string
  as_version :: int
  as_actor :: string
  as_updated_at :: string

text \<open>Triage runs, one per alert.\<close>

record run_row =
  tr_alert_id :: string
  tr_rule_id :: string
  tr_policy_version :: int
  tr_policy_json :: jobj
  tr_agent_id :: string
  tr_host_id :: string
  tr_asset_class :: string
  tr_asset_version :: int
  tr_created_at :: string
  tr_deadline :: string
  tr_cancelled_at :: "string option"

text \<open>The decision on each collection of a run.\<close>

record item_row =
  ti_alert_id :: string
  ti_action :: string
  ti_decision :: string
  ti_reason :: string
  ti_target_json :: jobj
  ti_reserved_bytes :: int
  ti_response_id :: "string option"

text \<open>Retry identities of policy changes.\<close>

record triage_request_row =
  ta_actor :: string
  ta_request_id :: string
  ta_payload_json :: string
  ta_result_json :: json

text \<open>Advisory forensic plans.\<close>

record plan_row =
  fp_response_id :: string
  fp_plan_json :: json
  fp_actor :: string
  fp_created_at :: string

section \<open>The database\<close>

text \<open>
  The tables of the response, audit, key, artifact and triage parts. The endpoint telemetry and incident
  tables belong to components with a state of their own.
\<close>

record db =
  enrolled_agents :: "agent_row list"
  enrollment_nonces :: "nonce_row list"
  analyst_credentials :: "analyst_row list"
  alerts :: "alert_row list"
  commands :: "command_row list"
  command_results :: "result_row list"
  command_result_receipts :: "receipt_row list"
  response_actions :: "response_row list"
  response_request_keys :: "request_key_row list"
  agent_response_channels :: "channel_row list"
  response_campaigns :: "campaign_row list"
  command_audit :: "command_audit_row list"
  response_decision_audit :: "decision_audit_row list"
  response_security_audit :: "security_audit_row list"
  response_artifact_custody :: "custody_row list"
  response_audit_ledger :: "ledger_row list"
  response_audit_checkpoints :: "checkpoint_row list"
  response_artifacts :: "artifact_row list"
  artifact_signing_keys :: "artifact_key_row list"
  artifact_key_rotations :: "rotation_row list"
  artifact_manifest_attestations :: "attestation_row list"
  response_artifact_transfers :: "transfer_row list"
  response_artifact_chunks :: "chunk_row list"
  triage_policy_revisions :: "policy_revision_row list"
  triage_policy_heads :: "policy_head_row list"
  triage_asset_classes :: "asset_row list"
  triage_runs :: "run_row list"
  triage_items :: "item_row list"
  triage_admin_requests :: "triage_request_row list"
  response_forensic_plans :: "plan_row list"
  response_artifact_usage :: artifact_usage_row
  response_artifact_transfer_usage :: transfer_usage_row
  artifact_identity_operations :: "identity_operation_row list"
  artifact_access_grants :: "grant_row list"
  artifact_access_operations :: "access_operation_row list"
  artifact_view_receipts :: "view_row list"
  ledger_id :: string  \<comment> \<open>response_audit_identity\<close>
  draws :: nat  \<comment> \<open>how many random identifiers were drawn\<close>

definition empty_db :: db where
  "empty_db = \<lparr>enrolled_agents = [], enrollment_nonces = [], analyst_credentials = [], alerts = [], commands = [], command_results = [], command_result_receipts = [], response_actions = [], response_request_keys = [], agent_response_channels = [], response_campaigns = [], command_audit = [], response_decision_audit = [], response_security_audit = [], response_artifact_custody = [], response_audit_ledger = [], response_audit_checkpoints = [], response_artifacts = [], artifact_signing_keys = [], artifact_key_rotations = [], artifact_manifest_attestations = [], response_artifact_transfers = [], response_artifact_chunks = [], triage_policy_revisions = [], triage_policy_heads = [], triage_asset_classes = [], triage_runs = [], triage_items = [], triage_admin_requests = [], response_forensic_plans = [], response_artifact_usage = \<lparr>au_content_bytes = 0, au_artifacts = 0\<rparr>, response_artifact_transfer_usage = \<lparr>tu_reserved_bytes = 0, tu_open_sessions = 0, tu_total_sessions = 0\<rparr>, artifact_identity_operations = [], artifact_access_grants = [], artifact_access_operations = [], artifact_view_receipts = [], ledger_id = [], draws = 0\<rparr>"

lemma empty_db_simps [simp]:
  "enrolled_agents empty_db = []"
  "enrollment_nonces empty_db = []"
  "analyst_credentials empty_db = []"
  "alerts empty_db = []"
  "commands empty_db = []"
  "command_results empty_db = []"
  "command_result_receipts empty_db = []"
  "response_actions empty_db = []"
  "response_request_keys empty_db = []"
  "agent_response_channels empty_db = []"
  "response_campaigns empty_db = []"
  "command_audit empty_db = []"
  "response_decision_audit empty_db = []"
  "response_security_audit empty_db = []"
  "response_artifact_custody empty_db = []"
  "response_audit_ledger empty_db = []"
  "response_audit_checkpoints empty_db = []"
  "response_artifacts empty_db = []"
  "artifact_signing_keys empty_db = []"
  "artifact_key_rotations empty_db = []"
  "artifact_manifest_attestations empty_db = []"
  "response_artifact_transfers empty_db = []"
  "response_artifact_chunks empty_db = []"
  "triage_policy_revisions empty_db = []"
  "triage_policy_heads empty_db = []"
  "triage_asset_classes empty_db = []"
  "triage_runs empty_db = []"
  "triage_items empty_db = []"
  "triage_admin_requests empty_db = []"
  "response_forensic_plans empty_db = []"
  "response_artifact_usage empty_db = \<lparr>au_content_bytes = 0, au_artifacts = 0\<rparr>"
  "response_artifact_transfer_usage empty_db = \<lparr>tu_reserved_bytes = 0, tu_open_sessions = 0, tu_total_sessions = 0\<rparr>"
  "artifact_identity_operations empty_db = []"
  "artifact_access_grants empty_db = []"
  "artifact_access_operations empty_db = []"
  "artifact_view_receipts empty_db = []"
  "ledger_id empty_db = []" "draws empty_db = 0"
  by (simp_all add: empty_db_def)

section \<open>The environment\<close>

text \<open>
  Values of the vendored \<open>response_engine\<close> package: the attributes the manager reads, and
  \<open>..._other\<close> or \<open>..._dump\<close> for what \<open>model_dump\<close> carries beyond them.
\<close>

record command =
  cmd_command_id :: string
  cmd_agent_id :: string
  cmd_schema_version :: string
  cmd_action :: string
  cmd_expires_at :: datetime
  cmd_target :: jobj
  cmd_other :: jobj

record command_result =
  res_schema_version :: string
  res_result_id :: string
  res_command_id :: string
  res_outcome :: string
  res_detail :: "string option"
  res_correlation_id :: "string option"
  res_execution :: "jobj option"
  res_dump :: jobj

record policy =
  po_rule_id :: string
  po_version :: int
  po_endpoint_window_seconds :: int
  po_workflow_ttl_seconds :: int
  po_dump :: jobj

record capability =
  cap_platform :: json
  cap_recent :: bool
  cap_mode :: json
  cap_implemented_actions :: json
  cap_allowed_actions :: json
  cap_authenticated_command_channel :: bool
  cap_collection_acceptance_gate :: bool
  cap_artifact_protocol :: json

record budget_usage =
  actions_for_alert :: int
  bytes_for_alert :: int
  actions_in_endpoint_window :: int
  bytes_in_endpoint_window :: int
  active_global :: int
  active_for_endpoint :: int

record triage_decision =
  td_decision :: string
  td_reason :: string
  td_dump :: jobj

text \<open>
  A signed artifact manifest: the attributes the manager reads, and \<open>mf_other\<close> for the fields it never reads by name.
\<close>

record manifest =
  mf_artifact_id :: string
  mf_agent_id :: string
  mf_command_id :: string
  mf_correlation_id :: string
  mf_host_id :: string
  mf_kind :: string
  mf_media_type :: string
  mf_content_bytes :: int
  mf_sha256 :: string
  mf_produced_at_unix :: json
  mf_key_id :: string
  mf_signature :: string
  mf_authorization_other :: jobj
  mf_other :: jobj

text \<open>A P-256 signing key as \<open>CommandSigner\<close> uses it: its public point and its raw signatures.\<close>

record signing_key =
  sk_public_point :: string
  sk_sign :: "string \<Rightarrow> string"

record env =
  now :: datetime
  localtime :: datetime  \<comment> \<open>the same instant, naive, for \<open>datetime.now(None)\<close>\<close>
  sha256 :: "string \<Rightarrow> string"  \<comment> \<open>\<open>hashlib.sha256(...).hexdigest()\<close>\<close>
  uuid4 :: "nat \<Rightarrow> string"  \<comment> \<open>the n-th draw\<close>
  randomblob :: "nat \<Rightarrow> string"  \<comment> \<open>\<open>lower(hex(randomblob(16)))\<close>\<close>
  token_bytes :: "nat \<Rightarrow> string"
  token_urlsafe :: "nat \<Rightarrow> string"
  environ :: "string \<Rightarrow> string option"
  key_file :: "string \<Rightarrow> signing_key option"  \<comment> \<open>None when \<open>load_key_file\<close> raises\<close>
  ecdsa_verify :: "string \<Rightarrow> string \<Rightarrow> string \<Rightarrow> bool"
  on_curve :: "string \<Rightarrow> bool"
  mirror_first :: bool  \<comment> \<open>SQLite leaves the order of two triggers on one event open\<close>
  actions :: "string list"  \<comment> \<open>the closed enum \<open>Action\<close>\<close>
  make_command :: "command \<Rightarrow> command option"
  dump_command :: "command \<Rightarrow> jobj"
  epoch_seconds :: "json \<Rightarrow> int option"
  signing_input :: "jobj \<Rightarrow> string option"
  translate_recommendation :: "json \<Rightarrow> jobj \<Rightarrow> json option \<Rightarrow> (string \<times> jobj \<times> string option) option"
  classify_tier :: "string \<Rightarrow> string"
  analyst_roles :: "string list"
  permissions_for :: "string \<Rightarrow> string list"
  access_policy_version :: int
  validate_policy :: "jobj \<Rightarrow> policy option"
  valid_capability :: "capability \<Rightarrow> bool"
  initial_usage :: budget_usage  \<comment> \<open>\<open>BudgetUsage()\<close>\<close>
  make_usage :: "budget_usage \<Rightarrow> budget_usage option"
  evaluate :: "policy \<Rightarrow> string \<Rightarrow> string \<Rightarrow> capability \<Rightarrow> budget_usage \<Rightarrow> bool \<Rightarrow> json \<Rightarrow> triage_decision"
  collect_actions :: "string list"
  artifact_reservation_bytes :: int
  auto_triage_actor :: string
  forensic_policy_id :: string
  forensic_policy_version :: int
  forensic_plan :: "jobj \<Rightarrow> string \<Rightarrow> jobj option"
  max_campaign_actions :: nat
  make_manifest :: "json \<Rightarrow> manifest option"  \<comment> \<open>\<open>ArtifactManifest.model_validate\<close>\<close>
  artifact_signing_input :: "jobj \<Rightarrow> string option"
  evidence_matches :: "jobj \<Rightarrow> json \<Rightarrow> string \<Rightarrow> json \<Rightarrow> string \<Rightarrow> json \<Rightarrow> bool"  \<comment> \<open>\<open>validate_evidence_metadata\<close> on an \<open>EvidenceExpectation\<close>\<close>
  upload_slot :: bool  \<comment> \<open>whether \<open>_upload_slots\<close> has a free slot\<close>

text \<open>Texts of the current time: \<^verbatim>\<open>iso_now()\<close> and \<open>datetime.now(timezone.utc).isoformat()\<close>.\<close>

definition iso_now :: "env \<Rightarrow> string" where
  "iso_now e = iso_at (now e)"

definition now_text :: "env \<Rightarrow> string" where
  "now_text e = isoformat (now e)"

text \<open>A fresh identifier: the next draw of the given source.\<close>

definition draw :: "(nat \<Rightarrow> string) \<Rightarrow> (db, string) act" where
  "draw source = (\<lambda>d. (Inr (source (draws d)), d\<lparr>draws := draws d + 1\<rparr>))"

lemma bindM_draw [simp]: "bindM (draw g) f d = f (g (draws d)) (d\<lparr>draws := draws d + 1\<rparr>)"
  by (simp add: bindM_def draw_def)

definition active_agent :: "db \<Rightarrow> string \<Rightarrow> agent_row option" where
  "active_agent d agent_id =
    List.find (\<lambda>r. ea_agent_id r = agent_id \<and> ea_revoked_at r = None) (enrolled_agents d)"

section \<open>A concrete environment\<close>

text \<open>
  One instance of the parameters, for evaluating the definitions on concrete inputs. The hash is the
  identity; signatures are constant; the vendored functions accept what they are given.
\<close>

definition demo_now :: datetime where
  "demo_now = \<lparr>year = 2026, month = 3, day = 1, hour = 12, minute = 0, second = 0, microsecond = 250000,
               utcoffset = Some 0\<rparr>"

definition demo_dump :: "command \<Rightarrow> jobj" where
  "demo_dump c =
    [(''command_id'', JStr (cmd_command_id c)), (''agent_id'', JStr (cmd_agent_id c)),
     (''schema_version'', JStr (cmd_schema_version c)), (''action'', JStr (cmd_action c)),
     (''expires_at'', JStr (isoformat (cmd_expires_at c))), (''target'', JObj (cmd_target c))] @ cmd_other c"

definition demo_decision :: triage_decision where
  "demo_decision = \<lparr>td_decision = ''auto_dispatch'', td_reason = ''demo'',
    td_dump = [(''decision'', JStr ''auto_dispatch''), (''reason'', JStr ''demo'')]\<rparr>"

definition demo_policy :: policy where
  "demo_policy = \<lparr>po_rule_id = ''R1'', po_version = 1, po_endpoint_window_seconds = 3600,
    po_workflow_ttl_seconds = 600, po_dump = [(''rule_id'', JStr ''R1''), (''version'', JInt 1)]\<rparr>"

definition demo_env :: env where
  "demo_env =
    \<lparr>now = demo_now, localtime = demo_now\<lparr>utcoffset := None\<rparr>, sha256 = (\<lambda>t. t),
     uuid4 = (\<lambda>n. ''u'' @ nat_str n), randomblob = (\<lambda>n. ''r'' @ nat_str n),
     token_bytes = (\<lambda>n. nat_str n), token_urlsafe = (\<lambda>n. ''t'' @ nat_str n),
     environ = (\<lambda>k. Some ''secret''),
     key_file = (\<lambda>p. Some \<lparr>sk_public_point = ''point'', sk_sign = (\<lambda>m. replicate 64 CHR ''s'')\<rparr>),
     ecdsa_verify = (\<lambda>p t m. True), on_curve = (\<lambda>p. True), mirror_first = False,
     actions = [''KILL_PROCESS'', ''COLLECT_PROCESS_INFO'', ''ISOLATE_HOST''], make_command = Some, dump_command = demo_dump, epoch_seconds = (\<lambda>t. Some 1),
     signing_input = (\<lambda>c. Some (canonical (JObj c))),
     translate_recommendation = (\<lambda>a r c. None), classify_tier = (\<lambda>a. ''ANALYST_APPROVAL''),
     analyst_roles = [''analyst'', ''approver''],
     permissions_for = (\<lambda>r. [''response:request'', ''response:decide'']), access_policy_version = 3,
     validate_policy = (\<lambda>p. Some demo_policy), valid_capability = (\<lambda>c. True),
     initial_usage = \<lparr>actions_for_alert = 0, bytes_for_alert = 0, actions_in_endpoint_window = 0,
       bytes_in_endpoint_window = 0, active_global = 0, active_for_endpoint = 0\<rparr>, make_usage = Some,
     evaluate = (\<lambda>p a s c u v f. demo_decision), collect_actions = [''COLLECT_PROCESS_INFO''],
     artifact_reservation_bytes = 1048576, auto_triage_actor = ''system/auto-triage'',
     forensic_policy_id = ''forensic-context-v1'', forensic_policy_version = 1,
     forensic_plan = (\<lambda>r a. Some r), max_campaign_actions = 25, make_manifest = (\<lambda>j. None),
     artifact_signing_input = (\<lambda>m. None), evidence_matches = (\<lambda>m a i h c r. True), upload_slot = True\<rparr>"

lemma demo_env_simps [simp]:
  "now demo_env = demo_now" "sha256 demo_env t = t" "uuid4 demo_env n = ''u'' @ nat_str n"
  "randomblob demo_env n = ''r'' @ nat_str n" "environ demo_env k = Some ''secret''"
  "mirror_first demo_env = False" "make_command demo_env = Some" "dump_command demo_env = demo_dump"
  "on_curve demo_env p = True" "ecdsa_verify demo_env p t m = True"
  "key_file demo_env f = Some \<lparr>sk_public_point = ''point'', sk_sign = (\<lambda>m. replicate 64 CHR ''s'')\<rparr>"
  "permissions_for demo_env r = [''response:request'', ''response:decide'']"
  "token_urlsafe demo_env n = ''t'' @ nat_str n" "token_bytes demo_env n = nat_str n"
  "epoch_seconds demo_env j = Some 1" "signing_input demo_env c = Some (canonical (JObj c))"
  "translate_recommendation demo_env = (\<lambda>a r c. None)" "classify_tier demo_env a = ''ANALYST_APPROVAL''"
  "analyst_roles demo_env = [''analyst'', ''approver'']" "access_policy_version demo_env = 3"
  "validate_policy demo_env po = Some demo_policy" "valid_capability demo_env ca = True"
  "evaluate demo_env = (\<lambda>p a s c u v f. demo_decision)" "collect_actions demo_env = [''COLLECT_PROCESS_INFO'']"
  "artifact_reservation_bytes demo_env = 1048576" "auto_triage_actor demo_env = ''system/auto-triage''"
  "forensic_policy_id demo_env = ''forensic-context-v1''" "forensic_policy_version demo_env = 1"
  "forensic_plan demo_env = (\<lambda>r a. Some r)" "make_usage demo_env = Some" "max_campaign_actions demo_env = 25"
  "actions demo_env = [''KILL_PROCESS'', ''COLLECT_PROCESS_INFO'', ''ISOLATE_HOST'']"
  by (simp_all add: demo_env_def)

lemma nat_str_small [simp]: "n < 10 \<Longrightarrow> nat_str n = [digit n]"
  by (simp add: nat_str.simps)

lemma sha256_demo_env: "sha256 demo_env = (\<lambda>t. t)"
  by (simp add: fun_eq_iff)

lemma utc_demo_now: "utc demo_now"
  by (simp add: utc_def valid_datetime_def demo_now_def days_in_month_def)

end
