(* ===== verification/Encoding.thy ===== *)
theory Encoding
  imports Schema
begin

text \<open>
  \<open>base64.b64encode\<close> and \<open>base64.b64decode(..., validate=True)\<close> on byte strings, which the manager
  uses for keys, nonces, signatures, profiles and artifact content, with their round trip, and the
  UTF-8 check of \<open>bytes.decode\<close>.
\<close>

text \<open>
  \<open>bytes.decode("utf-8")\<close> accepts exactly these byte strings: no overlong forms, no surrogates, nothing
  above U+10FFFF.
\<close>

definition continuation :: "char \<Rightarrow> bool" where
  "continuation c \<longleftrightarrow> 128 \<le> (of_char c :: nat) \<and> (of_char c :: nat) < 192"

fun valid_utf8 :: "string \<Rightarrow> bool" where
  "valid_utf8 [] = True"
| "valid_utf8 (c # t) =
    (let n = of_char c :: nat in
     if n < 128 then valid_utf8 t
     else if 194 \<le> n \<and> n < 224 then (case t of c1 # t' \<Rightarrow> continuation c1 \<and> valid_utf8 t' | _ \<Rightarrow> False)
     else if 224 \<le> n \<and> n < 240 then
       (case t of c1 # c2 # t' \<Rightarrow>
          continuation c1 \<and> continuation c2 \<and> (n = 224 \<longrightarrow> 160 \<le> (of_char c1 :: nat)) \<and>
          (n = 237 \<longrightarrow> (of_char c1 :: nat) < 160) \<and> valid_utf8 t'
        | _ \<Rightarrow> False)
     else if 240 \<le> n \<and> n < 245 then
       (case t of c1 # c2 # c3 # t' \<Rightarrow>
          continuation c1 \<and> continuation c2 \<and> continuation c3 \<and> (n = 240 \<longrightarrow> 144 \<le> (of_char c1 :: nat)) \<and>
          (n = 244 \<longrightarrow> (of_char c1 :: nat) < 144) \<and> valid_utf8 t'
        | _ \<Rightarrow> False)
     else False)"

definition b64_alphabet :: string where
  "b64_alphabet = ''ABCDEFGHIJKLMNOPQRSTUVWXYZabcdefghijklmnopqrstuvwxyz0123456789+/''"

definition b64_char :: "nat \<Rightarrow> char" where
  "b64_char n = b64_alphabet ! n"

fun index_of :: "char \<Rightarrow> string \<Rightarrow> nat option" where
  "index_of c [] = None"
| "index_of c (x # xs) = (if x = c then Some 0 else map_option Suc (index_of c xs))"

definition b64_val :: "char \<Rightarrow> nat option" where
  "b64_val c = index_of c b64_alphabet"

abbreviation byte :: "char \<Rightarrow> nat" where
  "byte c \<equiv> of_char c"

fun b64encode :: "string \<Rightarrow> string" where
  "b64encode [] = []"
| "b64encode [a] = [b64_char (byte a div 4), b64_char (byte a mod 4 * 16), CHR ''='', CHR ''='']"
| "b64encode [a, b] =
    [b64_char (byte a div 4), b64_char (byte a mod 4 * 16 + byte b div 16),
     b64_char (byte b mod 16 * 4), CHR ''='']"
| "b64encode (a # b # c # r) =
    [b64_char (byte a div 4), b64_char (byte a mod 4 * 16 + byte b div 16),
     b64_char (byte b mod 16 * 4 + byte c div 64), b64_char (byte c mod 64)] @ b64encode r"

definition b64_bytes1 :: "nat \<Rightarrow> nat \<Rightarrow> char" where
  "b64_bytes1 w x = char_of (w * 4 + x div 16)"

definition b64_bytes2 :: "nat \<Rightarrow> nat \<Rightarrow> char" where
  "b64_bytes2 x y = char_of (x mod 16 * 16 + y div 4)"

definition b64_bytes3 :: "nat \<Rightarrow> nat \<Rightarrow> char" where
  "b64_bytes3 y z = char_of (y mod 4 * 64 + z)"

fun b64decode :: "string \<Rightarrow> string option" where
  "b64decode [] = Some []"
| "b64decode (p # q # r # s # t) =
    (case (b64_val p, b64_val q) of
       (Some w, Some x) \<Rightarrow>
         (if r = CHR ''='' then
            (if s = CHR ''='' \<and> t = [] then Some [b64_bytes1 w x] else None)
          else
            (case b64_val r of
               None \<Rightarrow> None
             | Some y \<Rightarrow>
                (if s = CHR ''='' then
                   (if t = [] then Some [b64_bytes1 w x, b64_bytes2 x y] else None)
                 else
                   (case (b64_val s, b64decode t) of
                      (Some z, Some u) \<Rightarrow> Some (b64_bytes1 w x # b64_bytes2 x y # b64_bytes3 y z # u)
                    | _ \<Rightarrow> None))))
     | _ \<Rightarrow> None)"
| "b64decode _ = None"

lemma length_alphabet: "length b64_alphabet = 64"
  by (simp add: b64_alphabet_def)

lemma distinct_alphabet: "distinct b64_alphabet"
  by (simp add: b64_alphabet_def)

lemma index_of_nth: "distinct xs \<Longrightarrow> n < length xs \<Longrightarrow> index_of (xs ! n) xs = Some n"
proof (induction xs arbitrary: n)
  case (Cons x xs)
  then show ?case by (cases n) auto
qed simp

lemma b64_val_char [simp]: "n < 64 \<Longrightarrow> b64_val (b64_char n) = Some n"
  unfolding b64_val_def b64_char_def
  by (rule index_of_nth) (simp_all add: length_alphabet distinct_alphabet)

lemma b64_val_pad: "b64_val CHR ''='' = None"
  by (simp add: b64_val_def b64_alphabet_def)

lemma b64_char_pad [simp]: "n < 64 \<Longrightarrow> b64_char n \<noteq> CHR ''=''"
  using b64_val_char b64_val_pad by fastforce

lemma byte_bounds:
  "byte a div 4 < 64" "byte a mod 4 * 16 < 64" "byte b div 16 < 16" "byte b mod 16 * 4 < 64"
  "byte c div 64 < 4" "byte c mod 64 < 64" "byte a mod 4 * 16 + byte b div 16 < 64"
  "byte b mod 16 * 4 + byte c div 64 < 64"
proof -
  have lt: "byte x < 256" for x :: char by (rule nat_of_char_less_256)
  have m: "byte a mod 4 < 4" "byte b mod 16 < 16" by simp_all
  show "byte a div 4 < 64" "byte b div 16 < 16" "byte c div 64 < 4"
    using lt by (simp_all add: less_mult_imp_div_less)
  then show "byte a mod 4 * 16 + byte b div 16 < 64" "byte b mod 16 * 4 + byte c div 64 < 64"
    using m by linarith+
  show "byte a mod 4 * 16 < 64" "byte b mod 16 * 4 < 64" "byte c mod 64 < 64"
    using m by simp_all
qed

lemma b64_bytes1_enc: "k < 16 \<Longrightarrow> b64_bytes1 (byte a div 4) (byte a mod 4 * 16 + k) = a"
  by (simp add: b64_bytes1_def)

lemma b64_bytes2_enc: "k < 4 \<Longrightarrow> b64_bytes2 (j * 16 + byte b div 16) (byte b mod 16 * 4 + k) = b"
  using byte_bounds(3) [of b] by (simp add: b64_bytes2_def mult.commute)

lemma b64_bytes3_enc: "b64_bytes3 (j * 4 + byte c div 64) (byte c mod 64) = c"
  using byte_bounds(5) [of c] by (simp add: b64_bytes3_def mult.commute)

lemmas b64_group = b64_bytes1_enc b64_bytes2_enc b64_bytes3_enc byte_bounds
  b64_bytes1_enc [where k = 0, simplified] b64_bytes2_enc [where k = 0, simplified]

lemma b64decode_b64encode: "b64decode (b64encode t) = Some t"
  by (induction t rule: b64encode.induct) (simp_all add: b64_group)

end
