(* ===== verification/AuditChain.thy ===== *)
theory AuditChain
  imports Encoding "HOL-Library.Multiset"
begin

text \<open>
  The response audit: \<^verbatim>\<open>manager/audit_chain.py\<close>, \<^verbatim>\<open>manager/response_audit.py\<close>, the
  \<open>record\<close> writer of \<^verbatim>\<open>manager/artifact_keys.py\<close> and the triggers that migrations 27, 28 and
  32 install. An INSERT into one of the four audit tables fires the trigger that appends a hash-chained
  entry to \<open>response_audit_ledger\<close>; inserts about auto-triage work are mirrored into the security
  audit, which is chained in its turn. \<open>verify\<close> walks the chain against the source tables,
  \<open>checkpoint\<close> signs its head and \<open>verify_checkpoint\<close> compares a retained anchor with the database.
\<close>

section \<open>Entries and their hash\<close>

definition ZERO :: string where
  "ZERO = replicate 64 CHR ''0''"

definition newline :: string where
  "newline = [CHR 0x0A]"

text \<open>\<open>dict(zip(FIELDS, values))\<close> with the payload parsed.\<close>

definition entry_fields :: "ledger_row \<Rightarrow> jobj" where
  "entry_fields r =
    [(''sequence'', JInt (lg_sequence r)), (''previous_hash'', JStr (lg_previous_hash r)),
     (''source'', JStr (lg_source r)), (''source_id'', JStr (lg_source_id r)),
     (''event'', JStr (lg_event r)), (''actor'', JStr (lg_actor r)),
     (''request_id'', jopt (lg_request_id r)), (''command_id'', jopt (lg_command_id r)),
     (''asset_id'', jopt (lg_asset_id r)), (''occurred_at'', JStr (lg_occurred_at r)),
     (''payload_json'', JObj (lg_payload_json r)), (''legacy_import'', JInt (lg_legacy_import r))]"

definition event_hash :: "(string \<Rightarrow> string) \<Rightarrow> ledger_row \<Rightarrow> string" where
  "event_hash h r = h (''panopticon-response-audit/1'' @ newline @ canonical (JObj (entry_fields r)))"

text \<open>\<open>ORDER BY sequence DESC LIMIT 1\<close>, and the two values every writer reads from it.\<close>

definition head_entry :: "ledger_row list \<Rightarrow> ledger_row option" where
  "head_entry l = (case rev (order_by lg_sequence l) of [] \<Rightarrow> None | r # _ \<Rightarrow> Some r)"

definition next_sequence :: "ledger_row list \<Rightarrow> int" where
  "next_sequence l = (case head_entry l of None \<Rightarrow> 1 | Some r \<Rightarrow> lg_sequence r + 1)"

definition head_hash :: "ledger_row list \<Rightarrow> string" where
  "head_hash l = (case head_entry l of None \<Rightarrow> ZERO | Some r \<Rightarrow> lg_event_hash r)"

text \<open>
  The entry an append writes: next sequence, hash of the head, hash of itself. The triggers and
  \<open>append\<close> compute the same values.
\<close>

definition chain_entry ::
  "(string \<Rightarrow> string) \<Rightarrow> ledger_row list \<Rightarrow> string \<Rightarrow> string \<Rightarrow> string \<Rightarrow> string \<Rightarrow> string option \<Rightarrow>
   string option \<Rightarrow> string option \<Rightarrow> string \<Rightarrow> jobj \<Rightarrow> int \<Rightarrow> ledger_row" where
  "chain_entry h l source source_id event actor request_id command_id asset_id occurred_at payload legacy =
    (let r = \<lparr>lg_sequence = next_sequence l, lg_previous_hash = head_hash l, lg_source = source,
              lg_source_id = source_id, lg_event = event, lg_actor = actor, lg_request_id = request_id,
              lg_command_id = command_id, lg_asset_id = asset_id, lg_occurred_at = occurred_at,
              lg_payload_json = payload, lg_legacy_import = legacy, lg_event_hash = []\<rparr>
     in r\<lparr>lg_event_hash := event_hash h r\<rparr>)"

text \<open>The PRIMARY KEY and UNIQUE(source, source_id) of the ledger.\<close>

definition ledger_conflict :: "ledger_row list \<Rightarrow> ledger_row \<Rightarrow> bool" where
  "ledger_conflict l r \<longleftrightarrow>
    (\<exists>x\<in>set l. lg_sequence x = lg_sequence r \<or>
      (lg_source x = lg_source r \<and> lg_source_id x = lg_source_id r))"

text \<open>The trigger \<open>response_audit_guard\<close>: what a direct INSERT has to satisfy.\<close>

definition guard_aborts :: "(string \<Rightarrow> string) \<Rightarrow> ledger_row list \<Rightarrow> ledger_row \<Rightarrow> bool" where
  "guard_aborts h l r \<longleftrightarrow>
    lg_sequence r \<noteq> next_sequence l \<or> lg_previous_hash r \<noteq> head_hash l \<or>
    lg_event_hash r \<noteq> event_hash h r \<or> lg_legacy_import r \<noteq> 0"

definition insert_ledger :: "env \<Rightarrow> ledger_row \<Rightarrow> (db, unit) act" where
  "insert_ledger e r = bindM (gets response_audit_ledger) (\<lambda>l.
     seqM (raise_if (guard_aborts (sha256 e) l r \<or> ledger_conflict l r) IntegrityError)
     (modify (\<lambda>d. d\<lparr>response_audit_ledger := response_audit_ledger d @ [r]\<rparr>)))"

section \<open>The source rows as JSON\<close>

definition command_audit_json :: "command_audit_row \<Rightarrow> jobj" where
  "command_audit_json r =
    [(''audit_id'', JStr (ca_audit_id r)), (''command_id'', JStr (ca_command_id r)),
     (''event'', JStr (ca_event r)), (''actor'', JStr (ca_actor r)),
     (''detail'', jopt (ca_detail r)), (''occurred_at'', JStr (ca_occurred_at r))]"

definition decision_audit_json :: "decision_audit_row \<Rightarrow> jobj" where
  "decision_audit_json r =
    [(''event_id'', JStr (da_event_id r)), (''response_id'', JStr (da_response_id r)),
     (''event'', JStr (da_event r)), (''actor'', JStr (da_actor r)),
     (''detail'', jopt (da_detail r)), (''occurred_at'', JStr (da_occurred_at r))]"

definition custody_json :: "custody_row \<Rightarrow> jobj" where
  "custody_json r =
    [(''artifact_id'', JStr (cu_artifact_id r)), (''sequence'', JInt (cu_sequence r)),
     (''event'', JStr (cu_event r)), (''actor'', JStr (cu_actor r)),
     (''occurred_at'', JStr (cu_occurred_at r)), (''detail'', JStr (cu_detail r)),
     (''previous_hash'', JStr (cu_previous_hash r)), (''event_hash'', JStr (cu_event_hash r))]"

definition security_audit_json :: "security_audit_row \<Rightarrow> jobj" where
  "security_audit_json r =
    [(''event_id'', JStr (sa_event_id r)), (''request_id'', jopt (sa_request_id r)),
     (''asset_id'', jopt (sa_asset_id r)), (''event'', JStr (sa_event r)),
     (''actor'', JStr (sa_actor r)), (''detail'', JStr (sa_detail r)),
     (''occurred_at'', JStr (sa_occurred_at r))]"

text \<open>SOURCES and OPTIONAL_SOURCES: the key columns of each source table, and its rows.\<close>

definition sources :: "(string \<times> string list) list" where
  "sources =
    [(''command_audit'', [''audit_id'']), (''response_decision_audit'', [''event_id'']),
     (''response_artifact_custody'', [''artifact_id'', ''sequence'']),
     (''response_security_audit'', [''event_id''])]"

definition source_rows :: "db \<Rightarrow> string \<Rightarrow> jobj list" where
  "source_rows d s =
    (if s = ''command_audit'' then map command_audit_json (command_audit d)
     else if s = ''response_decision_audit'' then map decision_audit_json (response_decision_audit d)
     else if s = ''response_artifact_custody'' then map custody_json (response_artifact_custody d)
     else if s = ''response_security_audit'' then map security_audit_json (response_security_audit d)
     else [])"

section \<open>Writers and their triggers\<close>

text \<open>\<open>json_extract(command_json, '$.host_id')\<close> of a command.\<close>

definition command_host :: "db \<Rightarrow> string \<Rightarrow> string option" where
  "command_host d command_id =
    (case find_by cm_command_id command_id (commands d) of
       None \<Rightarrow> None | Some c \<Rightarrow> jstr (jget ''host_id'' (cm_command_json c)))"

text \<open>\<open>WHERE command_id = ? OR 'resp-' || response_id = ?\<close>.\<close>

definition response_of_command :: "db \<Rightarrow> string \<Rightarrow> string option" where
  "response_of_command d command_id =
    map_option ra_response_id
      (List.find (\<lambda>r. ra_command_id r = Some command_id \<or> ''resp-'' @ ra_response_id r = command_id)
        (response_actions d))"

definition chain_security_audit :: "env \<Rightarrow> security_audit_row \<Rightarrow> (db, unit) act" where
  "chain_security_audit e r = bindM (gets response_audit_ledger) (\<lambda>l.
     insert_ledger e (chain_entry (sha256 e) l ''response_security_audit'' (sa_event_id r) (sa_event r)
       (sa_actor r) (sa_request_id r) None (sa_asset_id r) (sa_occurred_at r) (security_audit_json r) 0))"

definition insert_security_audit :: "env \<Rightarrow> security_audit_row \<Rightarrow> (db, unit) act" where
  "insert_security_audit e r = transaction (bindM (gets response_security_audit) (\<lambda>rows.
     seqM (raise_if (sa_event_id r \<in> sa_event_id ` set rows) IntegrityError)
     (seqM (modify (\<lambda>d. d\<lparr>response_security_audit := response_security_audit d @ [r]\<rparr>))
     (chain_security_audit e r))))"

text \<open>\<^verbatim>\<open>artifact_keys.record\<close>.\<close>

definition record_event ::
  "env \<Rightarrow> string \<Rightarrow> string \<Rightarrow> string option \<Rightarrow> string option \<Rightarrow> jobj \<Rightarrow> (db, unit) act" where
  "record_event e event actor asset request_id detail = bindM (draw (uuid4 e)) (\<lambda>i.
     insert_security_audit e
       \<lparr>sa_event_id = i, sa_request_id = request_id, sa_asset_id = asset, sa_event = event,
        sa_actor = actor, sa_detail = canonical (JObj detail), sa_occurred_at = iso_now e\<rparr>)"

text \<open>SQLite's \<open>json_object\<close>: the keys in the order given.\<close>

definition json_object :: "jobj \<Rightarrow> string" where
  "json_object d = encode esc_string '','' '':'' (JObj d)"

text \<open>
  The triggers of \<^verbatim>\<open>triage_store.install\<close>: \<open>FROM triage_items i JOIN triage_runs r WHERE link\<close>
  and one security event per pair.
\<close>

definition triage_pairs :: "db \<Rightarrow> (item_row \<Rightarrow> bool) \<Rightarrow> (item_row \<times> run_row) list" where
  "triage_pairs d link =
    concat (map (\<lambda>i. map (\<lambda>r. (i, r)) (filter (\<lambda>r. tr_alert_id r = ti_alert_id i \<and> link i) (triage_runs d)))
      (triage_items d))"

definition mirror_row ::
  "env \<Rightarrow> string \<Rightarrow> (item_row \<Rightarrow> run_row \<Rightarrow> jobj) \<Rightarrow> string \<Rightarrow> item_row \<times> run_row \<Rightarrow> (db, unit) act" where
  "mirror_row e event detail occurred_at p = bindM (draw (randomblob e)) (\<lambda>i.
     insert_security_audit e
       \<lparr>sa_event_id = i, sa_request_id = ti_response_id (fst p), sa_asset_id = Some (tr_host_id (snd p)),
        sa_event = event, sa_actor = ''system/auto-triage'',
        sa_detail = json_object (detail (fst p) (snd p)), sa_occurred_at = occurred_at\<rparr>)"

definition mirror_detail :: "string \<Rightarrow> string \<Rightarrow> item_row \<Rightarrow> run_row \<Rightarrow> jobj" where
  "mirror_detail source_actor source_id i r =
    [(''alert_id'', JStr (tr_alert_id r)), (''rule_id'', JStr (tr_rule_id r)),
     (''policy_version'', JInt (tr_policy_version r)), (''action'', JStr (ti_action i)),
     (''source_actor'', JStr source_actor), (''source_id'', JStr source_id)]"

definition item_of_command :: "string \<Rightarrow> item_row \<Rightarrow> bool" where
  "item_of_command command_id i \<longleftrightarrow>
    (case ti_response_id i of None \<Rightarrow> False | Some r \<Rightarrow> ''resp-'' @ r = command_id)"

definition audited_detail :: "string \<Rightarrow> item_row \<Rightarrow> run_row \<Rightarrow> jobj" where
  "audited_detail command_id i r =
    [(''alert_id'', JStr (tr_alert_id r)), (''rule_id'', JStr (tr_rule_id r)),
     (''policy_version'', JInt (tr_policy_version r)), (''command_id'', JStr command_id)]"

definition mirror_command_audit :: "env \<Rightarrow> command_audit_row \<Rightarrow> (db, unit) act" where
  "mirror_command_audit e r =
    (if ca_event r \<in> {''created'', ''dispatched'', ''accepted'', ''result_received'', ''cancelled'', ''expired''}
     then bindM (gets (\<lambda>d. triage_pairs d (item_of_command (ca_command_id r)))) (\<lambda>ps.
       seqM (forM (mirror_row e (''auto_triage_'' @ ca_event r)
                     (mirror_detail (ca_actor r) (ca_command_id r)) (ca_occurred_at r)) ps)
       (if ca_event r = ''result_received''
        then forM (mirror_row e ''auto_triage_audited'' (audited_detail (ca_command_id r)) (ca_occurred_at r)) ps
        else ret ()))
     else ret ())"

definition mirror_decision_audit :: "env \<Rightarrow> decision_audit_row \<Rightarrow> (db, unit) act" where
  "mirror_decision_audit e r =
    (if da_event r \<in> {''authorized'', ''rejected'', ''cancelled'', ''expired''}
     then bindM (gets (\<lambda>d. triage_pairs d (\<lambda>i. ti_response_id i = Some (da_response_id r)))) (\<lambda>ps.
       forM (mirror_row e (''auto_triage_'' @ da_event r)
               (mirror_detail (da_actor r) (da_response_id r)) (da_occurred_at r)) ps)
     else ret ())"

definition chain_command_audit :: "env \<Rightarrow> command_audit_row \<Rightarrow> (db, unit) act" where
  "chain_command_audit e r = bindM (gets (\<lambda>d. d)) (\<lambda>d.
     insert_ledger e (chain_entry (sha256 e) (response_audit_ledger d) ''command_audit'' (ca_audit_id r)
       (ca_event r) (ca_actor r) (response_of_command d (ca_command_id r)) (Some (ca_command_id r))
       (command_host d (ca_command_id r)) (ca_occurred_at r) (command_audit_json r) 0))"

text \<open>\<open>COALESCE(ra.requested_host_id, a.host_id)\<close> over the left join with the alert.\<close>

definition response_host :: "db \<Rightarrow> string \<Rightarrow> string option" where
  "response_host d response_id =
    (case find_by ra_response_id response_id (response_actions d) of
       None \<Rightarrow> None
     | Some r \<Rightarrow>
        (case ra_requested_host_id r of
           Some host \<Rightarrow> Some host
         | None \<Rightarrow> (case find_by al_alert_id (ra_alert_id r) (alerts d) of None \<Rightarrow> None | Some a \<Rightarrow> al_host_id a)))"

definition response_command :: "db \<Rightarrow> string \<Rightarrow> string option" where
  "response_command d response_id =
    (case find_by ra_response_id response_id (response_actions d) of None \<Rightarrow> None | Some r \<Rightarrow> ra_command_id r)"

definition chain_decision_audit :: "env \<Rightarrow> decision_audit_row \<Rightarrow> (db, unit) act" where
  "chain_decision_audit e r = bindM (gets (\<lambda>d. d)) (\<lambda>d.
     insert_ledger e (chain_entry (sha256 e) (response_audit_ledger d) ''response_decision_audit''
       (da_event_id r) (da_event r) (da_actor r) (Some (da_response_id r))
       (response_command d (da_response_id r)) (response_host d (da_response_id r))
       (da_occurred_at r) (decision_audit_json r) 0))"

text \<open>Two AFTER INSERT triggers on one table run in an order SQLite does not define.\<close>

definition triggers :: "bool \<Rightarrow> (db, unit) act \<Rightarrow> (db, unit) act \<Rightarrow> (db, unit) act" where
  "triggers second_first m k = (if second_first then seqM k m else seqM m k)"

definition insert_command_audit :: "env \<Rightarrow> command_audit_row \<Rightarrow> (db, unit) act" where
  "insert_command_audit e r = transaction (bindM (gets (\<lambda>d. d)) (\<lambda>d.
     seqM (raise_if (ca_audit_id r \<in> ca_audit_id ` set (command_audit d) \<or>
                     ca_command_id r \<notin> cm_command_id ` set (commands d)) IntegrityError)
     (seqM (modify (\<lambda>d. d\<lparr>command_audit := command_audit d @ [r]\<rparr>))
     (triggers (mirror_first e) (chain_command_audit e r) (mirror_command_audit e r)))))"

definition insert_decision_audit :: "env \<Rightarrow> decision_audit_row \<Rightarrow> (db, unit) act" where
  "insert_decision_audit e r = transaction (bindM (gets (\<lambda>d. d)) (\<lambda>d.
     seqM (raise_if (da_event_id r \<in> da_event_id ` set (response_decision_audit d) \<or>
                     da_response_id r \<notin> ra_response_id ` set (response_actions d)) IntegrityError)
     (seqM (modify (\<lambda>d. d\<lparr>response_decision_audit := response_decision_audit d @ [r]\<rparr>))
     (triggers (mirror_first e) (chain_decision_audit e r) (mirror_decision_audit e r)))))"

text \<open>\<^verbatim>\<open>routers/commands._audit\<close> and \<^verbatim>\<open>response_audit.record_decision\<close>.\<close>

definition audit :: "env \<Rightarrow> string \<Rightarrow> string \<Rightarrow> string \<Rightarrow> string option \<Rightarrow> (db, unit) act" where
  "audit e command_id event actor detail = bindM (draw (uuid4 e)) (\<lambda>i.
     insert_command_audit e
       \<lparr>ca_audit_id = i, ca_command_id = command_id, ca_event = event, ca_actor = actor,
        ca_detail = detail, ca_occurred_at = iso_now e\<rparr>)"

definition record_decision :: "env \<Rightarrow> string \<Rightarrow> string \<Rightarrow> string \<Rightarrow> jobj option \<Rightarrow> (db, unit) act" where
  "record_decision e response_id event actor detail = bindM (draw (uuid4 e)) (\<lambda>i.
     insert_decision_audit e
       \<lparr>da_event_id = i, da_response_id = response_id, da_event = event, da_actor = actor,
        da_detail = map_option (\<lambda>x. json_dumps (JObj x)) detail, da_occurred_at = iso_now e\<rparr>)"

text \<open>
  Custody events (\<^verbatim>\<open>response_artifacts.custody_event\<close>) keep a hash chain of their own per
  artifact, and are chained into the ledger like the others.
\<close>

definition custody_head :: "custody_row list \<Rightarrow> string \<Rightarrow> custody_row option" where
  "custody_head rows artifact_id =
    (case rev (order_by cu_sequence (filter (\<lambda>r. cu_artifact_id r = artifact_id) rows)) of
       [] \<Rightarrow> None | r # _ \<Rightarrow> Some r)"

definition chain_custody :: "env \<Rightarrow> custody_row \<Rightarrow> (db, unit) act" where
  "chain_custody e r = bindM (gets (\<lambda>d. d)) (\<lambda>d.
     let artifact = find_by ar_artifact_id (cu_artifact_id r) (response_artifacts d);
         command_id = map_option ar_command_id artifact;
         request = (case command_id of None \<Rightarrow> None
                    | Some c \<Rightarrow> map_option ra_response_id (find_by ra_command_id (Some c) (response_actions d)))
     in insert_ledger e (chain_entry (sha256 e) (response_audit_ledger d) ''response_artifact_custody''
          (cu_artifact_id r @ '':'' @ int_str (cu_sequence r)) (cu_event r) (cu_actor r) request command_id
          (map_option ar_host_id artifact) (cu_occurred_at r) (custody_json r) 0))"

definition insert_custody :: "env \<Rightarrow> custody_row \<Rightarrow> (db, unit) act" where
  "insert_custody e r = transaction (bindM (gets (\<lambda>d. d)) (\<lambda>d.
     seqM (raise_if ((cu_artifact_id r, cu_sequence r) \<in>
                       (\<lambda>x. (cu_artifact_id x, cu_sequence x)) ` set (response_artifact_custody d) \<or>
                     cu_artifact_id r \<notin> ar_artifact_id ` set (response_artifacts d)) IntegrityError)
     (seqM (modify (\<lambda>d. d\<lparr>response_artifact_custody := response_artifact_custody d @ [r]\<rparr>))
     (chain_custody e r))))"

definition custody_event :: "env \<Rightarrow> string \<Rightarrow> string \<Rightarrow> string \<Rightarrow> jobj \<Rightarrow> (db, unit) act" where
  "custody_event e artifact_id event actor detail = bindM (gets response_artifact_custody) (\<lambda>rows.
     let previous = custody_head rows artifact_id;
         sequence = (case previous of None \<Rightarrow> 1 | Some p \<Rightarrow> cu_sequence p + 1);
         previous_hash = (case previous of None \<Rightarrow> ZERO | Some p \<Rightarrow> cu_event_hash p);
         record = [(''artifact_id'', JStr artifact_id), (''sequence'', JInt sequence), (''event'', JStr event),
           (''actor'', JStr actor), (''occurred_at'', JStr (iso_now e)), (''detail'', JObj detail),
           (''previous_hash'', JStr previous_hash)]
     in insert_custody e
          \<lparr>cu_artifact_id = artifact_id, cu_sequence = sequence, cu_event = event, cu_actor = actor,
           cu_occurred_at = iso_now e, cu_detail = canonical (JObj detail),
           cu_previous_hash = previous_hash, cu_event_hash = sha256 e (canonical (JObj record))\<rparr>)"

section \<open>Migration 27: importing the history\<close>

text \<open>\<open>_links\<close>: the request, command and host a source row is about.\<close>

definition links :: "db \<Rightarrow> string \<Rightarrow> jobj \<Rightarrow> string option \<times> string option \<times> string option" where
  "links d source row =
    (if source = ''response_decision_audit'' then
       (case jstr (jget ''response_id'' row) of
          None \<Rightarrow> (None, None, None)
        | Some response_id \<Rightarrow>
           (case find_by ra_response_id response_id (response_actions d) of
              None \<Rightarrow> (None, None, None)
            | Some r \<Rightarrow> (Some response_id, ra_command_id r, response_host d response_id)))
     else
       (let command_id =
          (if source = ''response_artifact_custody''
           then (case jstr (jget ''artifact_id'' row) of None \<Rightarrow> None
                 | Some i \<Rightarrow> map_option ar_command_id (find_by ar_artifact_id i (response_artifacts d)))
           else jstr (jget ''command_id'' row))
        in (case command_id of None \<Rightarrow> (None, None, None)
            | Some c \<Rightarrow>
               (case find_by cm_command_id c (commands d) of None \<Rightarrow> (None, None, None)
                | Some _ \<Rightarrow> (response_of_command d c, Some c, command_host d c)))))"

text \<open>\<open>str(value)\<close> of a key column: a text or an integer.\<close>

definition key_text :: "json \<Rightarrow> string" where
  "key_text v = (case v of JStr t \<Rightarrow> t | JInt i \<Rightarrow> int_str i | _ \<Rightarrow> canonical v)"

definition source_id_of :: "string list \<Rightarrow> jobj \<Rightarrow> string" where
  "source_id_of keys row =
    (case keys of [] \<Rightarrow> [] | k # ks \<Rightarrow> key_text (jget k row) @ concat (map (\<lambda>k. '':'' @ key_text (jget k row)) ks))"

definition text_of :: "string \<Rightarrow> jobj \<Rightarrow> string" where
  "text_of k row = (case jstr (jget k row) of None \<Rightarrow> [] | Some t \<Rightarrow> t)"

text \<open>
  \<open>append\<close> while the guard trigger does not exist yet: only the constraints of the table apply.
\<close>

definition append_entry ::
  "env \<Rightarrow> string \<Rightarrow> string \<Rightarrow> string \<Rightarrow> string \<Rightarrow> string option \<Rightarrow> string option \<Rightarrow> string option \<Rightarrow>
   string \<Rightarrow> jobj \<Rightarrow> int \<Rightarrow> (db, unit) act" where
  "append_entry e source source_id event actor request_id command_id asset_id occurred_at payload legacy =
    bindM (gets response_audit_ledger) (\<lambda>l.
      let r = chain_entry (sha256 e) l source source_id event actor request_id command_id asset_id
                occurred_at payload legacy
      in seqM (raise_if (ledger_conflict l r) IntegrityError)
         (modify (\<lambda>d. d\<lparr>response_audit_ledger := response_audit_ledger d @ [r]\<rparr>)))"

definition import_row :: "env \<Rightarrow> string \<Rightarrow> string list \<Rightarrow> jobj \<Rightarrow> (db, unit) act" where
  "import_row e source keys row = bindM (gets (\<lambda>d. links d source row)) (\<lambda>(request_id, command_id, asset_id).
     append_entry e source (source_id_of keys row) (text_of ''event'' row) (text_of ''actor'' row)
       request_id command_id asset_id (text_of ''occurred_at'' row) row 1)"

text \<open>\<open>ORDER BY occurred_at, key\<close>.\<close>

definition import_order :: "string list \<Rightarrow> jobj list \<Rightarrow> jobj list" where
  "import_order keys rows =
    order_by (text_of ''occurred_at'')
      (if keys = [''artifact_id'', ''sequence'']
       then order_by (text_of ''artifact_id'')
              (order_by (\<lambda>r. case jget ''sequence'' r of JInt i \<Rightarrow> i | _ \<Rightarrow> 0) rows)
       else order_by (text_of (hd keys)) rows)"

definition import_source :: "env \<Rightarrow> string \<times> string list \<Rightarrow> (db, unit) act" where
  "import_source e s = bindM (gets (\<lambda>d. import_order (snd s) (source_rows d (fst s)))) (\<lambda>rows.
     forM (import_row e (fst s) (snd s)) rows)"

definition install :: "env \<Rightarrow> (db, unit) act" where
  "install e = bindM (draw (uuid4 e)) (\<lambda>i.
     seqM (modify (\<lambda>d. d\<lparr>ledger_id := i\<rparr>)) (forM (import_source e) (take 3 sources)))"

section \<open>Verification\<close>

record summary =
  sm_sequence :: int
  sm_head_hash :: string
  sm_legacy_import_count :: int

definition summary_json :: "summary \<Rightarrow> jobj" where
  "summary_json s =
    [(''schema_version'', JStr ''1''), (''sequence'', JInt (sm_sequence s)),
     (''head_hash'', JStr (sm_head_hash s)), (''legacy_import_count'', JInt (sm_legacy_import_count s)),
     (''chain_verified_count'', JInt (sm_sequence s - sm_legacy_import_count s)),
     (''complete_history_verified'', JBool (sm_legacy_import_count s = 0)),
     (''historical_authenticity'', JStr ''legacy snapshots are not retroactively authenticated'')]"

text \<open>The original of an entry: the source row with the payload's key.\<close>

definition original_row :: "db \<Rightarrow> string \<Rightarrow> string list \<Rightarrow> jobj \<Rightarrow> jobj option" where
  "original_row d source keys payload =
    List.find (\<lambda>r. \<forall>k\<in>set keys. jget k r = jget k payload) (source_rows d source)"

definition identity_disagrees :: "string list \<Rightarrow> ledger_row \<Rightarrow> bool" where
  "identity_disagrees keys r \<longleftrightarrow>
    (let payload = lg_payload_json r
     in lg_source_id r \<noteq> source_id_of keys payload \<or> jget ''event'' payload \<noteq> JStr (lg_event r) \<or>
        jget ''actor'' payload \<noteq> JStr (lg_actor r) \<or> jget ''occurred_at'' payload \<noteq> JStr (lg_occurred_at r))"

text \<open>The checks on one entry, in the order of the loop; None when it passes.\<close>

definition check_entry :: "(string \<Rightarrow> string) \<Rightarrow> db \<Rightarrow> int \<Rightarrow> string \<Rightarrow> ledger_row \<Rightarrow> exn option" where
  "check_entry h d sequence previous r =
    (if lg_sequence r \<noteq> sequence \<or> lg_previous_hash r \<noteq> previous \<or> lg_event_hash r \<noteq> event_hash h r
     then Some (ValueError (''response audit chain disagreement at sequence '' @ int_str sequence))
     else case map_of sources (lg_source r) of
       None \<Rightarrow> Some (ValueError ''unknown response audit source'')
     | Some keys \<Rightarrow>
        (case List.find (\<lambda>k. \<not> has_key k (lg_payload_json r)) keys of
           Some k \<Rightarrow> Some (KeyError k)
         | None \<Rightarrow>
            (case original_row d (lg_source r) keys (lg_payload_json r) of
               None \<Rightarrow> Some (ValueError (''response audit source disagreement at sequence '' @ int_str sequence))
             | Some original \<Rightarrow>
                (if canonical (JObj original) \<noteq> canonical (JObj (lg_payload_json r))
                 then Some (ValueError (''response audit source disagreement at sequence '' @ int_str sequence))
                 else if identity_disagrees keys r
                 then Some (ValueError ''response audit source identity disagreement'')
                 else None))))"

fun verify_entries ::
  "(string \<Rightarrow> string) \<Rightarrow> bool \<Rightarrow> db \<Rightarrow> int \<Rightarrow> string \<Rightarrow> int \<Rightarrow> string list \<Rightarrow> ledger_row list \<Rightarrow>
   exn + int \<times> string \<times> int \<times> string list" where
  "verify_entries h strict d sequence previous legacy seen [] = Inr (sequence, previous, legacy, seen)"
| "verify_entries h strict d sequence previous legacy seen (r # rows) =
    (case check_entry h d (sequence + 1) previous r of
       Some x \<Rightarrow> Inl x
     | None \<Rightarrow>
        if lg_legacy_import r \<noteq> 0 \<and> strict
        then Inl (ValueError ''legacy history cannot satisfy chained-event provenance'')
        else verify_entries h strict d (sequence + 1) (lg_event_hash r)
          (if lg_legacy_import r \<noteq> 0 then legacy + 1 else legacy) (lg_source r # seen) rows)"

definition verify :: "(string \<Rightarrow> string) \<Rightarrow> bool \<Rightarrow> db \<Rightarrow> exn + summary" where
  "verify h require_chained_history d =
    (case verify_entries h require_chained_history d 0 ZERO 0 []
       (order_by lg_sequence (response_audit_ledger d)) of
       Inl x \<Rightarrow> Inl x
     | Inr (sequence, previous, legacy, seen) \<Rightarrow>
        if \<exists>s\<in>set (map fst sources). length (source_rows d s) \<noteq> count_list seen s
        then Inl (ValueError ''response audit source coverage disagreement'')
        else Inr \<lparr>sm_sequence = sequence, sm_head_hash = previous, sm_legacy_import_count = legacy\<rparr>)"

section \<open>Checkpoints\<close>

text \<open>\<^verbatim>\<open>command_signing.key_id\<close> and \<open>CommandSigner.sign_bytes\<close>.\<close>

definition key_id :: "(string \<Rightarrow> string) \<Rightarrow> string \<Rightarrow> string" where
  "key_id h point = take 16 (h point)"

definition sign_bytes :: "(string \<Rightarrow> string) \<Rightarrow> signing_key \<Rightarrow> string \<Rightarrow> jobj" where
  "sign_bytes h key data =
    [(''algorithm'', JStr ''ES256''), (''key_id'', JStr (key_id h (sk_public_point key))),
     (''signature'', JStr (b64encode (sk_sign key data)))]"

definition checkpoint_bytes :: "jobj \<Rightarrow> string" where
  "checkpoint_bytes document = ''panopticon-response-audit-checkpoint/1'' @ newline @ canonical (JObj document)"

definition checkpoint_document :: "env \<Rightarrow> db \<Rightarrow> string \<Rightarrow> string \<Rightarrow> summary \<Rightarrow> jobj" where
  "checkpoint_document e d request_key actor s =
    summary_json s @
    [(''ledger_id'', JStr (ledger_id d)), (''created_at'', JStr (iso_now e)),
     (''created_by'', JStr actor), (''request_key'', JStr request_key)]"

record anchor =
  an_checkpoint_id :: string
  an_document :: jobj
  an_authorization :: jobj

definition checkpoint :: "env \<Rightarrow> string \<Rightarrow> string \<Rightarrow> (db, anchor) act" where
  "checkpoint e request_key actor = bindM (gets (\<lambda>d. d)) (\<lambda>d.
     case find_by ck_request_key request_key (response_audit_checkpoints d) of
       Some p \<Rightarrow> ret \<lparr>an_checkpoint_id = ck_checkpoint_id p, an_document = ck_document_json p,
                      an_authorization = ck_authorization_json p\<rparr>
     | None \<Rightarrow>
        (case environ e ''PANOPTICON_AUDIT_SIGNING_KEY'' of
           None \<Rightarrow> throw (SigningUnavailable ''audit checkpoint signing key is not configured'')
         | Some path \<Rightarrow>
            if path = [] then throw (SigningUnavailable ''audit checkpoint signing key is not configured'')
            else
            (case key_file e path of
               None \<Rightarrow> throw (SigningUnavailable ''configured command signing key is unavailable'')
             | Some key \<Rightarrow>
                (case verify (sha256 e) False d of
                   Inl x \<Rightarrow> throw x
                 | Inr s \<Rightarrow>
                    (let document = checkpoint_document e d request_key actor s;
                         authorization = sign_bytes (sha256 e) key (checkpoint_bytes document);
                         identifier = sha256 e (checkpoint_bytes document)
                     in seqM (raise_if (identifier \<in> ck_checkpoint_id ` set (response_audit_checkpoints d))
                                IntegrityError)
                        (seqM (modify (\<lambda>d. d\<lparr>response_audit_checkpoints := response_audit_checkpoints d @
                           [\<lparr>ck_checkpoint_id = identifier, ck_sequence = sm_sequence s,
                             ck_document_json = document, ck_authorization_json = authorization,
                             ck_created_at = iso_now e, ck_request_key = request_key\<rparr>]\<rparr>))
                        (ret \<lparr>an_checkpoint_id = identifier, an_document = document,
                              an_authorization = authorization\<rparr>)))))))"

definition sequence_of :: "jobj \<Rightarrow> int option" where
  "sequence_of document = (case jget ''sequence'' document of JInt i \<Rightarrow> Some i | _ \<Rightarrow> None)"

definition verify_checkpoint :: "env \<Rightarrow> db \<Rightarrow> anchor \<Rightarrow> string \<Rightarrow> exn + summary" where
  "verify_checkpoint e d a public_point =
    (let document = an_document a; authorization = an_authorization a; encoded = checkpoint_bytes document in
     if jget ''algorithm'' authorization \<noteq> JStr ''ES256'' \<or>
        jget ''key_id'' authorization \<noteq> JStr (key_id (sha256 e) public_point)
     then Inl (ValueError ''audit checkpoint signing identity disagrees'')
     else case jstr (jget ''signature'' authorization) of
       None \<Rightarrow> Inl (ValueError ''invalid audit checkpoint signature'')
     | Some sig \<Rightarrow>
        (case b64decode sig of
           None \<Rightarrow> Inl (ValueError ''invalid base64'')
         | Some raw \<Rightarrow>
            if length raw \<noteq> 64 then Inl (ValueError ''invalid checkpoint signature length'')
            else if \<not> on_curve e public_point then Inl (ValueError ''invalid public point'')
            else if \<not> ecdsa_verify e public_point raw encoded
            then Inl (ValueError ''invalid audit checkpoint signature'')
            else if an_checkpoint_id a \<noteq> sha256 e encoded
            then Inl (ValueError ''audit checkpoint digest disagrees'')
            else if \<not> has_key ''ledger_id'' document then Inl (KeyError ''ledger_id'')
            else if jget ''ledger_id'' document \<noteq> JStr (ledger_id d)
            then Inl (ValueError ''audit checkpoint belongs to a different ledger'')
            else (case verify (sha256 e) False d of
               Inl x \<Rightarrow> Inl x
             | Inr s \<Rightarrow>
                (case sequence_of document of
                   None \<Rightarrow> Inl (if has_key ''sequence'' document then TypeError ''sequence'' else KeyError ''sequence'')
                 | Some n \<Rightarrow>
                    if \<not> has_key ''head_hash'' document then Inl (KeyError ''head_hash'')
                    else if JStr (case find_by lg_sequence n (response_audit_ledger d) of
                               None \<Rightarrow> ZERO | Some r \<Rightarrow> lg_event_hash r) \<noteq> jget ''head_hash'' document \<or>
                       sm_sequence s < n
                    then Inl (ValueError ''audit checkpoint no longer matches retained history'')
                    else Inr s))))"

section \<open>The invariant of the audit tables\<close>

fun chained :: "(string \<Rightarrow> string) \<Rightarrow> int \<Rightarrow> string \<Rightarrow> ledger_row list \<Rightarrow> bool" where
  "chained h n previous [] = True"
| "chained h n previous (r # rows) =
    (lg_sequence r = n \<and> lg_previous_hash r = previous \<and> lg_event_hash r = event_hash h r \<and>
     chained h (n + 1) (lg_event_hash r) rows)"

definition last_hash :: "string \<Rightarrow> ledger_row list \<Rightarrow> string" where
  "last_hash previous rows = (if rows = [] then previous else lg_event_hash (last rows))"

lemma last_hash_simps [simp]:
  "last_hash p [] = p" "last_hash p (r # rows) = last_hash (lg_event_hash r) rows"
  "last_hash p (rows @ [r]) = lg_event_hash r"
  by (auto simp: last_hash_def)

lemma chained_append:
  "chained h n p (xs @ ys) \<longleftrightarrow> chained h n p xs \<and> chained h (n + int (length xs)) (last_hash p xs) ys"
  by (induction xs arbitrary: n p) (auto simp: algebra_simps)

lemma chained_sequences: "chained h n p rows \<Longrightarrow> r \<in> set rows \<Longrightarrow> n \<le> lg_sequence r \<and> lg_sequence r < n + int (length rows)"
  by (induction rows arbitrary: n p) force+

lemma chained_sorted: "chained h n p rows \<Longrightarrow> sorted (map lg_sequence rows)"
proof (induction rows arbitrary: n p)
  case (Cons r rows)
  then show ?case using chained_sequences [of h "n + 1" "lg_event_hash r" rows] by fastforce
qed simp

lemma order_by_chained: "chained h n p rows \<Longrightarrow> order_by lg_sequence rows = rows"
  unfolding order_by_def by (intro sort_key_id_if_sorted chained_sorted)

lemma head_entry_chained:
  "chained h n p rows \<Longrightarrow> head_entry rows = (if rows = [] then None else Some (last rows))"
  by (cases rows rule: rev_cases) (simp_all add: head_entry_def order_by_chained)

lemma chained_last_sequence: "chained h n p (rows @ [r]) \<Longrightarrow> lg_sequence r = n + int (length rows)"
  by (simp add: chained_append)

lemma next_sequence_chained: "chained h 1 p rows \<Longrightarrow> next_sequence rows = 1 + int (length rows)"
  by (cases rows rule: rev_cases)
    (simp_all add: next_sequence_def head_entry_chained chained_last_sequence)

lemma head_hash_chained: "chained h n ZERO rows \<Longrightarrow> head_hash rows = last_hash ZERO rows"
  by (simp add: head_hash_def head_entry_chained last_hash_def)

definition entry_known :: "ledger_row \<Rightarrow> bool" where
  "entry_known r \<longleftrightarrow> (\<exists>keys. map_of sources (lg_source r) = Some keys \<and>
     (\<forall>k\<in>set keys. has_key k (lg_payload_json r)) \<and> \<not> identity_disagrees keys r)"

definition keyed :: "db \<Rightarrow> bool" where
  "keyed d \<longleftrightarrow>
    distinct (map ca_audit_id (command_audit d)) \<and> distinct (map da_event_id (response_decision_audit d)) \<and>
    distinct (map (\<lambda>r. (cu_artifact_id r, cu_sequence r)) (response_artifact_custody d)) \<and>
    distinct (map sa_event_id (response_security_audit d))"

text \<open>The payloads the ledger holds for a source.\<close>

definition payloads :: "ledger_row list \<Rightarrow> string \<Rightarrow> jobj multiset" where
  "payloads l s = mset (map lg_payload_json (filter (\<lambda>r. lg_source r = s) l))"

text \<open>
  The chain is intact, every entry carries the identity of its payload, and the ledger covers each
  source table exactly, except for the rows \<open>pending\<close> whose trigger has not run yet.
\<close>

definition audit_inv_at :: "(string \<Rightarrow> string) \<Rightarrow> (string \<Rightarrow> jobj multiset) \<Rightarrow> db \<Rightarrow> bool" where
  "audit_inv_at h pending d \<longleftrightarrow>
    chained h 1 ZERO (response_audit_ledger d) \<and> (\<forall>r\<in>set (response_audit_ledger d). entry_known r) \<and>
    (\<forall>s\<in>set (map fst sources). payloads (response_audit_ledger d) s + pending s = mset (source_rows d s)) \<and>
    keyed d"

definition audit_inv :: "(string \<Rightarrow> string) \<Rightarrow> db \<Rightarrow> bool" where
  "audit_inv h d \<longleftrightarrow> audit_inv_at h (\<lambda>_. {#}) d"

lemma payloads_append: "payloads (xs @ ys) s = payloads xs s + payloads ys s"
  by (simp add: payloads_def)

lemma payloads_single: "payloads [r] s = (if lg_source r = s then {#lg_payload_json r#} else {#})"
  by (simp add: payloads_def)

lemma jget_simps [simp]:
  "jget k [] = JNull" "jget k ((k', v) # d) = (if k' = k then v else jget k d)"
  by (auto simp: jget_def)

lemma has_key_simps [simp]:
  "has_key k [] = False" "has_key k ((k', v) # d) = (k' = k \<or> has_key k d)"
  by (auto simp: has_key_def)

lemma jopt_inject [simp]: "jopt a = jopt b \<longleftrightarrow> a = b"
  by (auto simp: jopt_def split: option.splits)

lemmas row_json_defs = command_audit_json_def decision_audit_json_def custody_json_def security_audit_json_def

section \<open>What \<open>verify\<close> answers under the invariant\<close>

lemma find_unique:
  assumes "x \<in> set xs" and "P x" and "\<And>y. y \<in> set xs \<Longrightarrow> P y \<Longrightarrow> y = x"
  shows "List.find P xs = Some x"
proof -
  obtain y where y: "List.find P xs = Some y"
    using assms(1,2) by (cases "List.find P xs") (auto simp: find_None_iff)
  then have "y \<in> set xs" "P y" by (auto simp: find_Some_iff)
  then show ?thesis using assms(3) y by simp
qed

lemma find_key_row:
  assumes "distinct (map key rows)" and "j \<in> f ` set rows"
    and "\<And>r. P (f r) \<longleftrightarrow> (\<exists>q\<in>set rows. f q = j \<and> key r = key q)"
  shows "List.find P (map f rows) = Some j"
proof (rule find_unique)
  obtain q where q: "q \<in> set rows" "f q = j" using assms(2) by auto
  show "j \<in> set (map f rows)" using assms(2) by simp
  show "P j" using assms(3) [of q] q by auto
  fix y assume "y \<in> set (map f rows)" "P y"
  then obtain r where r: "r \<in> set rows" "y = f r" by auto
  then obtain q' where "q' \<in> set rows" "f q' = j" "key r = key q'" using \<open>P y\<close> assms(3) by auto
  then show "y = j" using r assms(1) by (metis distinct_map inj_onD)
qed

lemma original_row_found:
  assumes "keyed d" and "map_of sources s = Some keys" and "j \<in> set (source_rows d s)"
  shows "original_row d s keys j = Some j"
proof -
  have k: "distinct (map ca_audit_id (command_audit d))" "distinct (map da_event_id (response_decision_audit d))"
    "distinct (map (\<lambda>r. (cu_artifact_id r, cu_sequence r)) (response_artifact_custody d))"
    "distinct (map sa_event_id (response_security_audit d))"
    using assms(1) by (auto simp: keyed_def)
  consider "s = ''command_audit''" "keys = [''audit_id'']"
    | "s = ''response_decision_audit''" "keys = [''event_id'']"
    | "s = ''response_artifact_custody''" "keys = [''artifact_id'', ''sequence'']"
    | "s = ''response_security_audit''" "keys = [''event_id'']"
    using assms(2) by (auto simp: sources_def split: if_splits)
  then show ?thesis
  proof cases
    case 1
    then show ?thesis using assms(3) unfolding original_row_def source_rows_def
      by (auto simp: row_json_defs intro!: find_key_row [OF k(1)])
  next
    case 2
    then show ?thesis using assms(3) unfolding original_row_def source_rows_def
      by (auto simp: row_json_defs intro!: find_key_row [OF k(2)])
  next
    case 3
    then show ?thesis using assms(3) unfolding original_row_def source_rows_def
      by (auto simp: row_json_defs intro!: find_key_row [OF k(3)])
  next
    case 4
    then show ?thesis using assms(3) unfolding original_row_def source_rows_def
      by (auto simp: row_json_defs intro!: find_key_row [OF k(4)])
  qed
qed

lemma check_entry_passes:
  assumes "audit_inv h d" and "r \<in> set (response_audit_ledger d)"
    and "lg_sequence r = n" and "lg_previous_hash r = p" and "lg_event_hash r = event_hash h r"
  shows "check_entry h d n p r = None"
proof -
  obtain keys where k: "map_of sources (lg_source r) = Some keys"
    "\<forall>k\<in>set keys. has_key k (lg_payload_json r)" "\<not> identity_disagrees keys r"
    using assms(1,2) by (auto simp: audit_inv_def audit_inv_at_def entry_known_def)
  have s: "lg_source r \<in> set (map fst sources)" using map_of_SomeD [OF k(1)] by force
  have "lg_payload_json r \<in># payloads (response_audit_ledger d) (lg_source r)"
    using assms(2) by (auto simp: payloads_def)
  then have "lg_payload_json r \<in> set (source_rows d (lg_source r))"
    using assms(1) s by (auto simp: audit_inv_def audit_inv_at_def)
  then have "original_row d (lg_source r) keys (lg_payload_json r) = Some (lg_payload_json r)"
    using assms(1) k(1) by (intro original_row_found) (auto simp: audit_inv_def audit_inv_at_def)
  moreover have "List.find (\<lambda>k. \<not> has_key k (lg_payload_json r)) keys = None"
    using k(2) by (auto simp: find_None_iff)
  ultimately show ?thesis using assms(3-5) k by (simp add: check_entry_def)
qed

definition legacy_count :: "ledger_row list \<Rightarrow> int" where
  "legacy_count l = int (length (filter (\<lambda>r. lg_legacy_import r \<noteq> 0) l))"

lemma verify_entries_inv:
  assumes "audit_inv h d" and "set rows \<subseteq> set (response_audit_ledger d)"
    and "chained h (n + 1) p rows" and "strict \<longrightarrow> legacy_count rows = 0"
  shows "verify_entries h strict d n p legacy seen rows =
    Inr (n + int (length rows), last_hash p rows, legacy + legacy_count rows, rev (map lg_source rows) @ seen)"
  using assms(2-)
proof (induction rows arbitrary: n p legacy seen)
  case (Cons r rows)
  have "check_entry h d (n + 1) p r = None"
    using Cons.prems by (intro check_entry_passes [OF assms(1)]) auto
  moreover have "strict \<longrightarrow> lg_legacy_import r = 0" "strict \<longrightarrow> legacy_count rows = 0"
    using Cons.prems(3) by (auto simp: legacy_count_def split: if_splits)
  moreover have "chained h (n + 1 + 1) (lg_event_hash r) rows" using Cons.prems(2) by (auto simp: add.assoc)
  ultimately show ?case
    using Cons.IH [of "n + 1" "lg_event_hash r"] Cons.prems(1) by (auto simp: legacy_count_def)
qed (simp add: legacy_count_def)

lemma count_payloads: "count_list (rev (map lg_source l)) s = size (payloads l s)"
  unfolding payloads_def size_mset by (induction l) auto

text \<open>Under the invariant \<open>verify\<close> succeeds, and reports the length and the head of the ledger.\<close>

lemma verify_inv:
  assumes "audit_inv h d" and "strict \<longrightarrow> legacy_count (response_audit_ledger d) = 0"
  shows "verify h strict d = Inr
    \<lparr>sm_sequence = int (length (response_audit_ledger d)), sm_head_hash = head_hash (response_audit_ledger d),
     sm_legacy_import_count = legacy_count (response_audit_ledger d)\<rparr>"
proof -
  let ?l = "response_audit_ledger d"
  have c: "chained h 1 ZERO ?l" using assms(1) by (simp add: audit_inv_def audit_inv_at_def)
  have "verify_entries h strict d 0 ZERO 0 [] (order_by lg_sequence ?l) =
      Inr (int (length ?l), last_hash ZERO ?l, legacy_count ?l, rev (map lg_source ?l))"
    using verify_entries_inv [OF assms(1) subset_refl, of 0 ZERO strict 0 "[]"] c assms(2)
    by (simp add: order_by_chained [OF c])
  moreover have "length (source_rows d s) = count_list (rev (map lg_source ?l)) s"
    if "s \<in> set (map fst sources)" for s
  proof -
    have "payloads ?l s = mset (source_rows d s)"
      using assms(1) that by (auto simp: audit_inv_def audit_inv_at_def)
    then show ?thesis by (metis count_payloads size_mset)
  qed
  ultimately show ?thesis by (simp add: verify_def head_hash_chained [OF c])
qed

section \<open>Growing the audit tables\<close>

text \<open>
  What every statement of the manager does to the audit tables: they only grow at the end, the
  identity of the ledger stays, and the invariant is kept, whatever rows are still pending.
\<close>

definition tables_extend :: "db \<Rightarrow> db \<Rightarrow> bool" where
  "tables_extend d d' \<longleftrightarrow>
    (\<exists>x. response_audit_ledger d' = response_audit_ledger d @ x) \<and>
    (\<exists>x. command_audit d' = command_audit d @ x) \<and>
    (\<exists>x. response_decision_audit d' = response_decision_audit d @ x) \<and>
    (\<exists>x. response_artifact_custody d' = response_artifact_custody d @ x) \<and>
    (\<exists>x. response_security_audit d' = response_security_audit d @ x) \<and>
    ledger_id d' = ledger_id d"

definition audit_grows :: "(string \<Rightarrow> string) \<Rightarrow> db \<Rightarrow> db \<Rightarrow> bool" where
  "audit_grows h d d' \<longleftrightarrow> tables_extend d d' \<and>
    (\<forall>pending. audit_inv_at h pending d \<longrightarrow> audit_inv_at h pending d')"

lemma tables_extend_refl: "tables_extend d d"
  by (simp add: tables_extend_def)

lemma tables_extend_trans: "tables_extend d d' \<Longrightarrow> tables_extend d' d'' \<Longrightarrow> tables_extend d d''"
  unfolding tables_extend_def by (metis append_assoc)

interpretation audit: frame "audit_grows h"
  by unfold_locales (auto simp: audit_grows_def intro: tables_extend_refl tables_extend_trans)

lemma audit_inv_at_cong:
  assumes "response_audit_ledger d' = response_audit_ledger d" and "command_audit d' = command_audit d"
    and "response_decision_audit d' = response_decision_audit d"
    and "response_artifact_custody d' = response_artifact_custody d"
    and "response_security_audit d' = response_security_audit d"
  shows "audit_inv_at h pending d' = audit_inv_at h pending d"
  by (simp add: audit_inv_at_def keyed_def source_rows_def assms cong: if_cong)

lemma audit_grows_same:
  assumes "response_audit_ledger d' = response_audit_ledger d" and "command_audit d' = command_audit d"
    and "response_decision_audit d' = response_decision_audit d"
    and "response_artifact_custody d' = response_artifact_custody d"
    and "response_security_audit d' = response_security_audit d" and "ledger_id d' = ledger_id d"
  shows "audit_grows h d d'"
  using audit_inv_at_cong [OF assms(1-5)] assms by (simp add: audit_grows_def tables_extend_def)

lemma audit_stays_draw: "stays (audit_grows h) (draw g)"
  by (rule staysI) (simp add: draw_def audit_grows_same)

text \<open>The trigger's entry is accepted by the guard.\<close>

lemma chain_entry_sel [simp]:
  "lg_source (chain_entry h l s i ev a q c t w p g) = s"
  "lg_source_id (chain_entry h l s i ev a q c t w p g) = i"
  "lg_event (chain_entry h l s i ev a q c t w p g) = ev"
  "lg_actor (chain_entry h l s i ev a q c t w p g) = a"
  "lg_occurred_at (chain_entry h l s i ev a q c t w p g) = w"
  "lg_payload_json (chain_entry h l s i ev a q c t w p g) = p"
  "lg_legacy_import (chain_entry h l s i ev a q c t w p g) = g"
  "lg_sequence (chain_entry h l s i ev a q c t w p g) = next_sequence l"
  "lg_previous_hash (chain_entry h l s i ev a q c t w p g) = head_hash l"
  by (simp_all add: chain_entry_def Let_def)

lemma event_hash_cong: "event_hash h (r\<lparr>lg_event_hash := x\<rparr>) = event_hash h r"
  by (simp add: event_hash_def entry_fields_def)

lemma chain_entry_hash [simp]:
  "lg_event_hash (chain_entry h l s i ev a q c t w p g) = event_hash h (chain_entry h l s i ev a q c t w p g)"
  unfolding chain_entry_def Let_def event_hash_cong by simp

lemma guard_accepts: "\<not> guard_aborts h l (chain_entry h l s i ev a q c t w p 0)"
  by (simp add: guard_aborts_def)

text \<open>An appended entry settles the pending row it is about.\<close>

lemma audit_inv_append:
  assumes inv: "audit_inv_at h (pending(s := add_mset p (pending s))) d"
    and r: "r = chain_entry h (response_audit_ledger d) s i ev a q c t w p g"
    and known: "entry_known r"
    and d': "d' = d\<lparr>response_audit_ledger := response_audit_ledger d @ [r]\<rparr>"
  shows "audit_inv_at h pending d'"
proof -
  let ?l = "response_audit_ledger d"
  have c: "chained h 1 ZERO ?l" using inv by (simp add: audit_inv_at_def)
  have "chained h 1 ZERO (?l @ [r])"
    using c by (simp add: chained_append r next_sequence_chained [OF c] head_hash_chained [OF c])
  moreover have "payloads (?l @ [r]) x + pending x = mset (source_rows d x)" if "x \<in> set (map fst sources)" for x
  proof -
    have "payloads ?l x + (pending(s := add_mset p (pending s))) x = mset (source_rows d x)"
      using inv that by (auto simp: audit_inv_at_def)
    then show ?thesis by (auto simp: payloads_append payloads_single r split: if_splits)
  qed
  moreover have "source_rows d' = source_rows d" "keyed d' = keyed d"
    by (auto simp: d' source_rows_def keyed_def fun_eq_iff)
  ultimately show ?thesis
    using inv known by (simp add: audit_inv_at_def d')
qed

lemma insert_ledger_Inr:
  "insert_ledger e r d = (Inr u, d') \<Longrightarrow> d' = d\<lparr>response_audit_ledger := response_audit_ledger d @ [r]\<rparr>"
  by (auto simp: insert_ledger_def bindM_raise_if split: if_splits)

text \<open>
  A pending row: the statement has put it at the end of its table, its trigger has yet to run.
\<close>

definition with_pending :: "string \<Rightarrow> jobj \<Rightarrow> (string \<Rightarrow> jobj multiset) \<Rightarrow> string \<Rightarrow> jobj multiset" where
  "with_pending s p pending = pending(s := add_mset p (pending s))"

lemma entry_known_rows:
  "lg_source r = ''command_audit'' \<Longrightarrow> lg_payload_json r = command_audit_json x \<Longrightarrow>
     lg_source_id r = ca_audit_id x \<Longrightarrow> lg_event r = ca_event x \<Longrightarrow> lg_actor r = ca_actor x \<Longrightarrow>
     lg_occurred_at r = ca_occurred_at x \<Longrightarrow> entry_known r"
  "lg_source r = ''response_decision_audit'' \<Longrightarrow> lg_payload_json r = decision_audit_json y \<Longrightarrow>
     lg_source_id r = da_event_id y \<Longrightarrow> lg_event r = da_event y \<Longrightarrow> lg_actor r = da_actor y \<Longrightarrow>
     lg_occurred_at r = da_occurred_at y \<Longrightarrow> entry_known r"
  "lg_source r = ''response_artifact_custody'' \<Longrightarrow> lg_payload_json r = custody_json z \<Longrightarrow>
     lg_source_id r = cu_artifact_id z @ '':'' @ int_str (cu_sequence z) \<Longrightarrow> lg_event r = cu_event z \<Longrightarrow>
     lg_actor r = cu_actor z \<Longrightarrow> lg_occurred_at r = cu_occurred_at z \<Longrightarrow> entry_known r"
  "lg_source r = ''response_security_audit'' \<Longrightarrow> lg_payload_json r = security_audit_json v \<Longrightarrow>
     lg_source_id r = sa_event_id v \<Longrightarrow> lg_event r = sa_event v \<Longrightarrow> lg_actor r = sa_actor v \<Longrightarrow>
     lg_occurred_at r = sa_occurred_at v \<Longrightarrow> entry_known r"
  by (simp_all add: entry_known_def sources_def identity_disagrees_def row_json_defs source_id_of_def key_text_def Let_def)

text \<open>Each chain trigger settles its row: the four cases of \<open>audit_inv_append\<close>.\<close>

lemma chain_settles:
  "chain_security_audit e v d = (Inr u, d') \<Longrightarrow>
    audit_inv_at (sha256 e) (with_pending ''response_security_audit'' (security_audit_json v) pending) d \<Longrightarrow>
    audit_inv_at (sha256 e) pending d'"
  "chain_command_audit e x d = (Inr u, d') \<Longrightarrow>
    audit_inv_at (sha256 e) (with_pending ''command_audit'' (command_audit_json x) pending) d \<Longrightarrow>
    audit_inv_at (sha256 e) pending d'"
  "chain_decision_audit e y d = (Inr u, d') \<Longrightarrow>
    audit_inv_at (sha256 e) (with_pending ''response_decision_audit'' (decision_audit_json y) pending) d \<Longrightarrow>
    audit_inv_at (sha256 e) pending d'"
  "chain_custody e z d = (Inr u, d') \<Longrightarrow>
    audit_inv_at (sha256 e) (with_pending ''response_artifact_custody'' (custody_json z) pending) d \<Longrightarrow>
    audit_inv_at (sha256 e) pending d'"
  unfolding with_pending_def chain_security_audit_def chain_command_audit_def chain_decision_audit_def
    chain_custody_def bindM_gets Let_def
  by (erule audit_inv_append [OF _ refl _ insert_ledger_Inr]; assumption?;
      rule entry_known_rows; simp)+

lemma chain_tables:
  "chain_security_audit e v d = (Inr u, d') \<Longrightarrow> \<exists>r. d' = d\<lparr>response_audit_ledger := response_audit_ledger d @ [r]\<rparr>"
  "chain_command_audit e x d = (Inr u, d') \<Longrightarrow> \<exists>r. d' = d\<lparr>response_audit_ledger := response_audit_ledger d @ [r]\<rparr>"
  "chain_decision_audit e y d = (Inr u, d') \<Longrightarrow> \<exists>r. d' = d\<lparr>response_audit_ledger := response_audit_ledger d @ [r]\<rparr>"
  "chain_custody e z d = (Inr u, d') \<Longrightarrow> \<exists>r. d' = d\<lparr>response_audit_ledger := response_audit_ledger d @ [r]\<rparr>"
  unfolding chain_security_audit_def chain_command_audit_def chain_decision_audit_def
    chain_custody_def bindM_gets Let_def
  by (blast dest: insert_ledger_Inr)+

text \<open>A row put at the end of its table, with a new key, becomes pending.\<close>

lemma source_distinct [simp]:
  "''command_audit'' \<noteq> ''response_decision_audit''" "''command_audit'' \<noteq> ''response_artifact_custody''"
  "''command_audit'' \<noteq> ''response_security_audit''" "''response_decision_audit'' \<noteq> ''response_artifact_custody''"
  "''response_decision_audit'' \<noteq> ''response_security_audit''" "''response_artifact_custody'' \<noteq> ''response_security_audit''"
  by simp_all

lemma insert_pends:
  "sa_event_id v \<notin> sa_event_id ` set (response_security_audit d) \<Longrightarrow> audit_inv_at h pending d \<Longrightarrow>
    audit_inv_at h (with_pending ''response_security_audit'' (security_audit_json v) pending)
      (d\<lparr>response_security_audit := response_security_audit d @ [v]\<rparr>)"
  "ca_audit_id x \<notin> ca_audit_id ` set (command_audit d) \<Longrightarrow> audit_inv_at h pending d \<Longrightarrow>
    audit_inv_at h (with_pending ''command_audit'' (command_audit_json x) pending)
      (d\<lparr>command_audit := command_audit d @ [x]\<rparr>)"
  "da_event_id y \<notin> da_event_id ` set (response_decision_audit d) \<Longrightarrow> audit_inv_at h pending d \<Longrightarrow>
    audit_inv_at h (with_pending ''response_decision_audit'' (decision_audit_json y) pending)
      (d\<lparr>response_decision_audit := response_decision_audit d @ [y]\<rparr>)"
  "(cu_artifact_id z, cu_sequence z) \<notin> (\<lambda>x. (cu_artifact_id x, cu_sequence x)) ` set (response_artifact_custody d) \<Longrightarrow>
    audit_inv_at h pending d \<Longrightarrow>
    audit_inv_at h (with_pending ''response_artifact_custody'' (custody_json z) pending)
      (d\<lparr>response_artifact_custody := response_artifact_custody d @ [z]\<rparr>)"
  by (auto simp: audit_inv_at_def with_pending_def source_rows_def keyed_def sources_def image_iff)

text \<open>
  A statement is its insert, then its triggers. \<open>settles s p m\<close>: running \<open>m\<close> extends the tables and
  settles the pending row \<open>p\<close> of \<open>s\<close>.
\<close>

definition settles :: "(string \<Rightarrow> string) \<Rightarrow> string \<Rightarrow> jobj \<Rightarrow> (db, unit) act \<Rightarrow> bool" where
  "settles h s p m \<longleftrightarrow> (\<forall>d u d'. m d = (Inr u, d') \<longrightarrow> tables_extend d d' \<and>
    (\<forall>pending. audit_inv_at h (with_pending s p pending) d \<longrightarrow> audit_inv_at h pending d'))"

lemma ledger_extend: "d' = d\<lparr>response_audit_ledger := response_audit_ledger d @ [r]\<rparr> \<Longrightarrow> tables_extend d d'"
  by (simp add: tables_extend_def)

lemma chains_settle:
  "settles (sha256 e) ''response_security_audit'' (security_audit_json v) (chain_security_audit e v)"
  "settles (sha256 e) ''command_audit'' (command_audit_json x) (chain_command_audit e x)"
  "settles (sha256 e) ''response_decision_audit'' (decision_audit_json y) (chain_decision_audit e y)"
  "settles (sha256 e) ''response_artifact_custody'' (custody_json z) (chain_custody e z)"
  unfolding settles_def
  by (intro allI impI conjI, (erule exE [OF chain_tables(1)], erule ledger_extend), erule (1) chain_settles(1))
    (intro allI impI conjI, (erule exE [OF chain_tables(2)], erule ledger_extend), erule (1) chain_settles(2),
     intro allI impI conjI, (erule exE [OF chain_tables(3)], erule ledger_extend), erule (1) chain_settles(3),
     intro allI impI conjI, (erule exE [OF chain_tables(4)], erule ledger_extend), erule (1) chain_settles(4))

lemma triggers_settle:
  assumes "settles h s p m" and "stays (audit_grows h) k"
  shows "settles h s p (triggers b m k)"
  unfolding settles_def triggers_def
proof (intro allI impI)
  fix d u d' assume run: "(if b then seqM k m else seqM m k) d = (Inr u, d')"
  have k: "audit_grows h d1 d2" if "k d1 = (r, d2)" for d1 r d2
    using assms(2) that by (rule stays_run)
  have m: "tables_extend d1 d2 \<and>
    (\<forall>pending. audit_inv_at h (with_pending s p pending) d1 \<longrightarrow> audit_inv_at h pending d2)"
    if "m d1 = (Inr v, d2)" for d1 v d2
    using assms(1) that by (auto simp: settles_def)
  show "tables_extend d d' \<and>
    (\<forall>pending. audit_inv_at h (with_pending s p pending) d \<longrightarrow> audit_inv_at h pending d')"
  proof (cases b)
    case True
    then obtain x s1 where "k d = (x, s1)" "m s1 = (Inr u, d')" using run by (auto simp: bindM_Inr_iff)
    then show ?thesis using k m unfolding audit_grows_def by (meson tables_extend_trans)
  next
    case False
    then obtain x y s1 where "m d = (Inr x, s1)" "k s1 = (y, d')" using run by (auto simp: bindM_Inr_iff)
    then show ?thesis using k m unfolding audit_grows_def by (meson tables_extend_trans)
  qed
qed

text \<open>The shape of every audited INSERT.\<close>

lemma stays_audited_insert:
  assumes "settles h s p m"
    and "\<And>d. ok d \<Longrightarrow> tables_extend d (ins d) \<and>
      (\<forall>pending. audit_inv_at h pending d \<longrightarrow> audit_inv_at h (with_pending s p pending) (ins d))"
  shows "stays (audit_grows h) (transaction (\<lambda>d. if ok d then seqM (modify ins) m d else (Inl x, d)))"
proof (rule staysI)
  fix d
  let ?t = "transaction (\<lambda>d. if ok d then seqM (modify ins) m d else (Inl x, d))"
  show "audit_grows h d (snd (?t d))"
  proof (cases "?t d")
    case (Pair r d')
    show ?thesis
    proof (cases r)
      case (Inl y)
      then have "d' = d" using Pair by (auto intro: transaction_Inl)
      then show ?thesis using Pair audit.R_refl by simp
    next
      case (Inr u)
      then have ok: "ok d" and run: "m (ins d) = (Inr u, d')" using Pair by (auto split: if_splits)
      then have "tables_extend (ins d) d'"
        and "\<forall>pending. audit_inv_at h (with_pending s p pending) (ins d) \<longrightarrow> audit_inv_at h pending d'"
        using assms(1) by (auto simp: settles_def)
      then show ?thesis using assms(2) [OF ok] Pair
        by (auto simp: audit_grows_def intro: tables_extend_trans)
    qed
  qed
qed

lemma stays_insert_security_audit: "stays (audit_grows (sha256 e)) (insert_security_audit e r)"
proof -
  have "insert_security_audit e r =
    transaction (\<lambda>d. if sa_event_id r \<notin> sa_event_id ` set (response_security_audit d)
      then seqM (modify (\<lambda>d. d\<lparr>response_security_audit := response_security_audit d @ [r]\<rparr>))
        (chain_security_audit e r) d else (Inl IntegrityError, d))"
    unfolding insert_security_audit_def by (rule arg_cong [of _ _ transaction]) (auto simp: bindM_raise_if fun_eq_iff)
  then show ?thesis
    by (auto intro!: stays_audited_insert [OF chains_settle(1)] insert_pends simp: tables_extend_def)
qed

lemma stays_record_event: "stays (audit_grows (sha256 e)) (record_event e ev actor asset req detail)"
  unfolding record_event_def
  by (intro audit.stays_bindM audit_stays_draw stays_insert_security_audit)

lemma stays_mirror_row: "stays (audit_grows (sha256 e)) (mirror_row e ev detail t p)"
  unfolding mirror_row_def by (intro audit.stays_bindM audit_stays_draw stays_insert_security_audit)

lemma stays_mirrors:
  "stays (audit_grows (sha256 e)) (mirror_command_audit e x)"
  "stays (audit_grows (sha256 e)) (mirror_decision_audit e y)"
  unfolding mirror_command_audit_def mirror_decision_audit_def
  by (intro stays_cases audit.stays_structural stays_mirror_row)+

lemma stays_insert_command_audit: "stays (audit_grows (sha256 e)) (insert_command_audit e r)"
proof -
  have "insert_command_audit e r =
    transaction (\<lambda>d. if ca_audit_id r \<notin> ca_audit_id ` set (command_audit d) \<and>
        ca_command_id r \<in> cm_command_id ` set (commands d)
      then seqM (modify (\<lambda>d. d\<lparr>command_audit := command_audit d @ [r]\<rparr>))
        (triggers (mirror_first e) (chain_command_audit e r) (mirror_command_audit e r)) d
      else (Inl IntegrityError, d))"
    unfolding insert_command_audit_def by (rule arg_cong [of _ _ transaction]) (auto simp: bindM_raise_if fun_eq_iff)
  then show ?thesis
    by (auto intro!: stays_audited_insert [OF triggers_settle [OF chains_settle(2) stays_mirrors(1)]]
        insert_pends simp: tables_extend_def)
qed

lemma stays_insert_decision_audit: "stays (audit_grows (sha256 e)) (insert_decision_audit e r)"
proof -
  have "insert_decision_audit e r =
    transaction (\<lambda>d. if da_event_id r \<notin> da_event_id ` set (response_decision_audit d) \<and>
        da_response_id r \<in> ra_response_id ` set (response_actions d)
      then seqM (modify (\<lambda>d. d\<lparr>response_decision_audit := response_decision_audit d @ [r]\<rparr>))
        (triggers (mirror_first e) (chain_decision_audit e r) (mirror_decision_audit e r)) d
      else (Inl IntegrityError, d))"
    unfolding insert_decision_audit_def by (rule arg_cong [of _ _ transaction]) (auto simp: bindM_raise_if fun_eq_iff)
  then show ?thesis
    by (auto intro!: stays_audited_insert [OF triggers_settle [OF chains_settle(3) stays_mirrors(2)]]
        insert_pends simp: tables_extend_def)
qed

lemma stays_insert_custody: "stays (audit_grows (sha256 e)) (insert_custody e r)"
proof -
  have "insert_custody e r =
    transaction (\<lambda>d. if (cu_artifact_id r, cu_sequence r) \<notin>
          (\<lambda>x. (cu_artifact_id x, cu_sequence x)) ` set (response_artifact_custody d) \<and>
        cu_artifact_id r \<in> ar_artifact_id ` set (response_artifacts d)
      then seqM (modify (\<lambda>d. d\<lparr>response_artifact_custody := response_artifact_custody d @ [r]\<rparr>))
        (chain_custody e r) d else (Inl IntegrityError, d))"
    unfolding insert_custody_def by (rule arg_cong [of _ _ transaction]) (auto simp: bindM_raise_if fun_eq_iff)
  then show ?thesis
    by (auto intro!: stays_audited_insert [OF chains_settle(4)] insert_pends(4) simp: tables_extend_def)
qed

lemma stays_audit: "stays (audit_grows (sha256 e)) (audit e c ev actor detail)"
  unfolding audit_def by (intro audit.stays_bindM audit_stays_draw stays_insert_command_audit)

lemma stays_record_decision: "stays (audit_grows (sha256 e)) (record_decision e r ev actor detail)"
  unfolding record_decision_def by (intro audit.stays_bindM audit_stays_draw stays_insert_decision_audit)

lemma stays_custody_event: "stays (audit_grows (sha256 e)) (custody_event e a ev actor detail)"
  unfolding custody_event_def
  by (intro audit.stays_structural stays_let stays_insert_custody)

lemmas audit_writers = stays_insert_security_audit stays_record_event stays_insert_command_audit
  stays_insert_decision_audit stays_insert_custody stays_audit stays_record_decision stays_custody_event
  audit_stays_draw

section \<open>The import of migration 27\<close>

lemma source_row_fields:
  assumes "map_of sources s = Some keys" and "row \<in> set (source_rows d s)"
  shows "\<forall>k\<in>set keys. has_key k row" and "jget ''event'' row = JStr (text_of ''event'' row)"
    and "jget ''actor'' row = JStr (text_of ''actor'' row)"
    and "jget ''occurred_at'' row = JStr (text_of ''occurred_at'' row)"
proof -
  consider "s = ''command_audit''" "keys = [''audit_id'']"
    | "s = ''response_decision_audit''" "keys = [''event_id'']"
    | "s = ''response_artifact_custody''" "keys = [''artifact_id'', ''sequence'']"
    | "s = ''response_security_audit''" "keys = [''event_id'']"
    using assms(1) by (auto simp: sources_def split: if_splits)
  then have "(\<forall>k\<in>set keys. has_key k row) \<and> jget ''event'' row = JStr (text_of ''event'' row) \<and>
    jget ''actor'' row = JStr (text_of ''actor'' row) \<and> jget ''occurred_at'' row = JStr (text_of ''occurred_at'' row)"
    using assms(2) by cases (auto simp: source_rows_def row_json_defs text_of_def)
  then show "\<forall>k\<in>set keys. has_key k row" "jget ''event'' row = JStr (text_of ''event'' row)"
    "jget ''actor'' row = JStr (text_of ''actor'' row)"
    "jget ''occurred_at'' row = JStr (text_of ''occurred_at'' row)" by auto
qed

lemma import_row_settles:
  assumes run: "import_row e s keys row d = (Inr u, d')"
    and keys: "map_of sources s = Some keys" and row: "row \<in> set (source_rows d s)"
    and inv: "audit_inv_at (sha256 e) (with_pending s row pending) d"
  shows "audit_inv_at (sha256 e) pending d' \<and> (\<forall>x. source_rows d' x = source_rows d x) \<and>
    (\<exists>r. response_audit_ledger d' = response_audit_ledger d @ [r] \<and> lg_legacy_import r = 1)"
proof -
  obtain q c t where l: "links d s row = (q, c, t)" by (metis prod_cases3)
  define r where "r = chain_entry (sha256 e) (response_audit_ledger d) s (source_id_of keys row)
    (text_of ''event'' row) (text_of ''actor'' row) q c t (text_of ''occurred_at'' row) row 1"
  have d': "d' = d\<lparr>response_audit_ledger := response_audit_ledger d @ [r]\<rparr>"
    using run unfolding import_row_def append_entry_def
    by (auto simp: l r_def Let_def bindM_raise_if split: if_splits)
  have sel: "lg_source r = s" "lg_payload_json r = row" by (simp_all add: r_def)
  have "\<not> identity_disagrees keys r"
    unfolding identity_disagrees_def Let_def sel source_row_fields(2-4) [OF keys row] by (simp add: r_def)
  then have "entry_known r"
    unfolding entry_known_def sel using keys source_row_fields(1) [OF keys row] by blast
  then have "audit_inv_at (sha256 e) pending d'"
    by (rule audit_inv_append [OF inv [unfolded with_pending_def] r_def _ d'])
  moreover have "source_rows d' x = source_rows d x" for x by (simp add: d' source_rows_def)
  ultimately show ?thesis by (auto simp: d' r_def)
qed

lemma import_rows_settle:
  assumes "forM (import_row e s keys) rows d = (Inr u, d')"
    and "map_of sources s = Some keys" and "set rows \<subseteq> set (source_rows d s)"
    and "audit_inv_at (sha256 e) (pending(s := pending s + mset rows)) d"
  shows "audit_inv_at (sha256 e) pending d' \<and> (\<forall>x. source_rows d' x = source_rows d x) \<and>
    (\<exists>rs. response_audit_ledger d' = response_audit_ledger d @ rs \<and> (\<forall>r\<in>set rs. lg_legacy_import r = 1))"
  using assms
proof (induction rows arbitrary: d)
  case (Cons row rows)
  let ?p = "pending(s := pending s + mset rows)"
  obtain v d1 where run: "import_row e s keys row d = (Inr v, d1)" "forM (import_row e s keys) rows d1 = (Inr u, d')"
    using Cons.prems(1) by (auto simp: bindM_Inr_iff)
  have "pending(s := pending s + mset (row # rows)) = with_pending s row ?p"
    by (simp add: with_pending_def fun_eq_iff)
  then have "audit_inv_at (sha256 e) (with_pending s row ?p) d"
    using Cons.prems(4) by simp
  then have 1: "audit_inv_at (sha256 e) ?p d1" "\<forall>x. source_rows d1 x = source_rows d x"
    "\<exists>r. response_audit_ledger d1 = response_audit_ledger d @ [r] \<and> lg_legacy_import r = 1"
    using import_row_settles [OF run(1)] Cons.prems(2,3) by auto
  then show ?case using Cons.IH [OF run(2) Cons.prems(2)] Cons.prems(3) by fastforce
qed auto

lemma mset_import_order [simp]: "mset (import_order keys rows) = mset rows"
  by (simp add: import_order_def order_by_def)

lemma import_source_settles:
  assumes "import_source e (s, keys) d = (Inr u, d')" and "map_of sources s = Some keys"
    and "pending s = {#}" and "audit_inv_at (sha256 e) (pending(s := mset (source_rows d s))) d"
  shows "audit_inv_at (sha256 e) pending d' \<and> (\<forall>x. source_rows d' x = source_rows d x) \<and>
    (\<exists>rs. response_audit_ledger d' = response_audit_ledger d @ rs \<and> (\<forall>r\<in>set rs. lg_legacy_import r = 1))"
proof -
  have "set (import_order keys (source_rows d s)) = set (source_rows d s)"
    by (metis mset_import_order mset_eq_setD)
  then show ?thesis
    using assms by (intro import_rows_settle [where rows = "import_order keys (source_rows d s)" and s = s and keys = keys and u = u])
      (auto simp: import_source_def)
qed

text \<open>
  Importing a database whose ledger is empty and whose security audit does not exist yet leaves every
  audit row chained and marked as a legacy import.
\<close>

lemma install_establishes:
  assumes run: "install e d = (Inr u, d')" and "keyed d" and "response_audit_ledger d = []"
    and "response_security_audit d = []"
  shows "audit_inv (sha256 e) d' \<and> (\<forall>r\<in>set (response_audit_ledger d'). lg_legacy_import r = 1)"
proof -
  let ?c = "''command_audit''" and ?r = "''response_decision_audit''" and ?a = "''response_artifact_custody''"
  define d0 where "d0 = d\<lparr>draws := draws d + 1, ledger_id := uuid4 e (draws d)\<rparr>"
  define p3 where "p3 = (\<lambda>_::string. {#} :: jobj multiset)"
  define p2 where "p2 = p3(?a := mset (source_rows d0 ?a))"
  define p1 where "p1 = p2(?r := mset (source_rows d0 ?r))"
  define p0 where "p0 = p1(?c := mset (source_rows d0 ?c))"
  obtain d1 d2 v w x where r1: "import_source e (?c, [''audit_id'']) d0 = (Inr v, d1)"
    and r2: "import_source e (?r, [''event_id'']) d1 = (Inr w, d2)"
    and r3: "import_source e (?a, [''artifact_id'', ''sequence'']) d2 = (Inr x, d')"
    using run by (auto simp: install_def draw_def sources_def d0_def bindM_Inr_iff)
  have k: "map_of sources ?c = Some [''audit_id'']" "map_of sources ?r = Some [''event_id'']"
    "map_of sources ?a = Some [''artifact_id'', ''sequence'']" by (simp_all add: sources_def)
  have "audit_inv_at (sha256 e) p0 d0"
    using assms(2-4) unfolding audit_inv_at_def p0_def p1_def p2_def p3_def d0_def
    by (simp add: keyed_def payloads_def sources_def source_rows_def)
  then have i1: "audit_inv_at (sha256 e) p1 d1" "\<forall>x. source_rows d1 x = source_rows d0 x"
    "\<forall>r\<in>set (response_audit_ledger d1). lg_legacy_import r = 1"
    using import_source_settles [OF r1 k(1), of p1] assms(3)
    by (auto simp: p0_def p1_def p2_def p3_def d0_def)
  then have i2: "audit_inv_at (sha256 e) p2 d2" "\<forall>x. source_rows d2 x = source_rows d0 x"
    "\<forall>r\<in>set (response_audit_ledger d2). lg_legacy_import r = 1"
    using import_source_settles [OF r2 k(2), of p2] by (auto simp: p1_def p2_def p3_def)
  then show ?thesis
    using import_source_settles [OF r3 k(3), of p3] by (auto simp: p2_def p3_def audit_inv_def)
qed

section \<open>What a successful \<open>verify\<close> proves\<close>

text \<open>The bytes an entry's hash is taken over.\<close>

definition hashed :: "ledger_row \<Rightarrow> string" where
  "hashed r = ''panopticon-response-audit/1'' @ newline @ canonical (JObj (entry_fields r))"

lemma event_hash_hashed: "event_hash h r = h (hashed r)"
  by (simp add: event_hash_def hashed_def)

lemma sort_jopt [simp]: "sort_json (jopt x) = jopt x"
  by (simp add: jopt_def split: option.splits)

lemma wf_jopt [simp]: "wf_json (jopt x)"
  by (simp add: jopt_def split: option.splits)

lemma sorted_entry_fields:
  "sort_json (JObj (entry_fields r)) = JObj
    [(''actor'', JStr (lg_actor r)), (''asset_id'', jopt (lg_asset_id r)), (''command_id'', jopt (lg_command_id r)),
     (''event'', JStr (lg_event r)), (''legacy_import'', JInt (lg_legacy_import r)),
     (''occurred_at'', JStr (lg_occurred_at r)), (''payload_json'', sort_json (JObj (lg_payload_json r))),
     (''previous_hash'', JStr (lg_previous_hash r)), (''request_id'', jopt (lg_request_id r)),
     (''sequence'', JInt (lg_sequence r)), (''source'', JStr (lg_source r)), (''source_id'', JStr (lg_source_id r))]"
  by (simp add: entry_fields_def)

lemma hashed_payload:
  assumes "canonical (JObj p) = canonical (JObj (lg_payload_json r))"
  shows "hashed (r\<lparr>lg_payload_json := p\<rparr>) = hashed r"
proof -
  have "encode esc_string '','' '':'' (sort_json (JObj p)) = encode esc_string '','' '':'' (sort_json (JObj (lg_payload_json r)))"
    using assms by (simp only: canonical_def)
  then show ?thesis
    unfolding hashed_def canonical_def sorted_entry_fields
    by simp
qed

text \<open>Two entries that agree on every column, the payload up to the order of its keys.\<close>

definition same_entry :: "ledger_row \<Rightarrow> ledger_row \<Rightarrow> bool" where
  "same_entry r r' \<longleftrightarrow> r\<lparr>lg_payload_json := []\<rparr> = r'\<lparr>lg_payload_json := []\<rparr> \<and>
    canonical (JObj (lg_payload_json r)) = canonical (JObj (lg_payload_json r'))"

lemma same_entry_previous: "same_entry r r' \<Longrightarrow> lg_previous_hash r = lg_previous_hash r'"
  unfolding same_entry_def by (drule conjunct1, drule arg_cong [of _ _ lg_previous_hash]) simp

lemma wf_entry_fields: "wf_json (JObj (lg_payload_json r)) \<Longrightarrow> wf_json (JObj (entry_fields r))"
  by (simp add: entry_fields_def)

lemma hashed_inject:
  assumes "wf_json (JObj (lg_payload_json r))" and "wf_json (JObj (lg_payload_json r'))"
    and "hashed r = hashed r'" and "lg_event_hash r = lg_event_hash r'"
  shows "same_entry r r'"
proof -
  have "canonical (JObj (entry_fields r)) = canonical (JObj (entry_fields r'))"
    using assms(3) by (simp add: hashed_def)
  then have "sort_json (JObj (entry_fields r)) = sort_json (JObj (entry_fields r'))"
    using assms(1,2) by (intro canonical_inject wf_entry_fields)
  then show ?thesis
    using assms(4) unfolding sorted_entry_fields same_entry_def canonical_def by simp
qed

lemma wf_source_row: "o' \<in> set (source_rows d s) \<Longrightarrow> wf_json (JObj o')"
  by (auto simp: source_rows_def row_json_defs split: if_splits)

definition backed :: "db \<Rightarrow> ledger_row \<Rightarrow> bool" where
  "backed d r \<longleftrightarrow> (\<exists>p\<in>set (source_rows d (lg_source r)). canonical (JObj p) = canonical (JObj (lg_payload_json r)))"

text \<open>
  Two entries of two databases with equal hashes are the same entry, unless their bytes are a
  collision of the hash.
\<close>

lemma backed_entries:
  assumes "backed d r" and "backed d' r'" and "hashed r = hashed r'" and "lg_event_hash r = lg_event_hash r'"
  shows "same_entry r r'"
proof -
  obtain p p' where p: "wf_json (JObj p)" "canonical (JObj p) = canonical (JObj (lg_payload_json r))"
    and p': "wf_json (JObj p')" "canonical (JObj p') = canonical (JObj (lg_payload_json r'))"
    using assms(1,2) wf_source_row unfolding backed_def by blast
  have "same_entry (r\<lparr>lg_payload_json := p\<rparr>) (r'\<lparr>lg_payload_json := p'\<rparr>)"
    using p(1) p'(1) assms(3,4) by (intro hashed_inject) (simp_all add: hashed_payload [OF p(2)] hashed_payload [OF p'(2)])
  then show ?thesis using p(2) p'(2) by (simp add: same_entry_def)
qed

lemma check_entry_None:
  assumes "check_entry h d n p r = None"
  shows "lg_sequence r = n \<and> lg_previous_hash r = p \<and> lg_event_hash r = event_hash h r \<and> backed d r"
proof -
  have "backed d r" if "original_row d (lg_source r) keys (lg_payload_json r) = Some q"
    and "canonical (JObj q) = canonical (JObj (lg_payload_json r))" for keys q
    using that by (auto simp: backed_def original_row_def find_Some_iff)
  then show ?thesis
    using assms by (auto simp: check_entry_def split: if_splits option.splits)
qed

lemma verify_entries_Inr:
  assumes "verify_entries h strict d n p legacy seen rows = Inr (n', p', legacy', seen')"
  shows "chained h (n + 1) p rows \<and> (\<forall>r\<in>set rows. backed d r) \<and> n' = n + int (length rows) \<and> p' = last_hash p rows"
  using assms
proof (induction rows arbitrary: n p legacy seen)
  case (Cons r rows)
  from Cons.prems have c: "check_entry h d (n + 1) p r = None" by (auto split: option.splits)
  with Cons.prems obtain l s where "verify_entries h strict d (n + 1) (lg_event_hash r) l s rows = Inr (n', p', legacy', seen')"
    by (auto split: if_splits)
  from Cons.IH [OF this] check_entry_None [OF c] show ?case by auto
qed auto

lemma verify_Inr:
  assumes "verify h strict d = Inr s"
  defines "rows \<equiv> order_by lg_sequence (response_audit_ledger d)"
  shows "chained h 1 ZERO rows" and "\<forall>r\<in>set rows. backed d r"
    and "sm_sequence s = int (length (response_audit_ledger d))" and "sm_head_hash s = last_hash ZERO rows"
proof -
  obtain n p g seen where v: "verify_entries h strict d 0 ZERO 0 [] rows = Inr (n, p, g, seen)"
    and s: "s = \<lparr>sm_sequence = n, sm_head_hash = p, sm_legacy_import_count = g\<rparr>"
    using assms by (auto simp: verify_def split: sum.splits if_splits)
  show "chained h 1 ZERO rows" "\<forall>r\<in>set rows. backed d r"
    "sm_sequence s = int (length (response_audit_ledger d))" "sm_head_hash s = last_hash ZERO rows"
    using verify_entries_Inr [OF v] s by (auto simp: rows_def)
qed

text \<open>A collision between entries of two ledgers.\<close>

definition collision :: "(string \<Rightarrow> string) \<Rightarrow> ledger_row list \<Rightarrow> ledger_row list \<Rightarrow> bool" where
  "collision h l l' \<longleftrightarrow> (\<exists>r\<in>set l. \<exists>r'\<in>set l'. hashed r \<noteq> hashed r' \<and> h (hashed r) = h (hashed r'))"

lemma same_chain:
  assumes "chained h n p xs" and "chained h n p ys" and "length xs = length ys"
    and "last_hash p xs = last_hash p ys" and "\<forall>r\<in>set xs. backed d r" and "\<forall>r\<in>set ys. backed d' r"
    and "\<not> collision h xs ys"
  shows "list_all2 same_entry xs ys"
  using assms
proof (induction xs arbitrary: ys rule: rev_induct)
  case (snoc r xs)
  obtain r' ys' where ys: "ys = ys' @ [r']" using snoc.prems(3) by (cases ys rule: rev_cases) auto
  have e: "lg_event_hash r = lg_event_hash r'" using snoc.prems(4) ys by simp
  have "h (hashed r) = h (hashed r')"
    using snoc.prems(1,2) e ys by (simp add: chained_append event_hash_hashed)
  then have "hashed r = hashed r'"
    using snoc.prems(7) ys by (auto simp: collision_def)
  then have r: "same_entry r r'"
    using snoc.prems(5,6) ys e by (intro backed_entries [of d _ d']) auto
  then have "lg_previous_hash r = lg_previous_hash r'"
    by (rule same_entry_previous)
  then have "last_hash p xs = last_hash p ys'"
    using snoc.prems(1,2) ys by (simp add: chained_append)
  then have "list_all2 same_entry xs ys'"
    using snoc.prems ys by (intro snoc.IH) (auto simp: chained_append collision_def)
  then show ?case using r ys by (simp add: list_all2_appendI)
qed auto

section \<open>Checkpoints against a later database\<close>

lemma set_ordered: "set (order_by lg_sequence l) = set l" by simp

lemma chained_nth:
  assumes "chained h n p rows" and "r \<in> set rows"
  shows "\<exists>i<length rows. r = rows ! i \<and> lg_sequence r = n + int i"
  using assms
proof (induction rows arbitrary: n p)
  case (Cons x rows)
  show ?case
  proof (cases "r = x")
    case False
    then obtain i where "i < length rows" "r = rows ! i" "lg_sequence r = (n + 1) + int i"
      using Cons.IH [of "n + 1"] Cons.prems by auto
    then show ?thesis by (intro exI [of _ "Suc i"]) simp
  qed (use Cons.prems in force)
qed simp

lemma chained_nth_sequence: "chained h n p rows \<Longrightarrow> i < length rows \<Longrightarrow> lg_sequence (rows ! i) = n + int i"
proof (induction rows arbitrary: n p i)
  case (Cons x rows)
  then show ?case by (cases i) (auto simp: add.assoc)
qed simp

text \<open>The hash the ledger holds at a sequence number is the head hash of the ledger cut there.\<close>

definition hash_at :: "ledger_row list \<Rightarrow> int \<Rightarrow> string" where
  "hash_at l n = (case find_by lg_sequence n l of None \<Rightarrow> ZERO | Some r \<Rightarrow> lg_event_hash r)"

lemma hash_at_chained:
  assumes "chained h 1 ZERO rows" and "set l = set rows" and "n \<le> length rows"
  shows "hash_at l (int n) = last_hash ZERO (take n rows)"
proof (cases n)
  case 0
  have "lg_sequence r \<noteq> 0" if "r \<in> set l" for r using chained_sequences [OF assms(1)] assms(2) that by fastforce
  then have "find_by lg_sequence 0 l = None" by (simp add: find_by_None_iff)
  then show ?thesis by (simp add: hash_at_def 0)
next
  case (Suc m)
  let ?r = "rows ! m"
  have m: "m < length rows" using Suc assms(3) by simp
  have s: "lg_sequence ?r = int n" using chained_nth_sequence [OF assms(1) m] Suc by simp
  then obtain r where r: "find_by lg_sequence (int n) l = Some r"
    using find_by_ex [of ?r l lg_sequence] assms(2) m by auto
  then obtain i where "i < length rows" "r = rows ! i" "lg_sequence r = 1 + int i" "lg_sequence r = int n"
    using chained_nth [OF assms(1), of r] find_by_SomeD [OF r] assms(2) by auto
  then have "r = ?r" using Suc by simp
  then show ?thesis using r m by (simp add: hash_at_def Suc take_Suc_conv_app_nth)
qed

lemma chained_take: "chained h n p rows \<Longrightarrow> chained h n p (take k rows)"
  by (metis append_take_drop_id chained_append)

definition ordered_ledger :: "db \<Rightarrow> ledger_row list" where
  "ordered_ledger d = order_by lg_sequence (response_audit_ledger d)"

lemma ledger_prefix_fixed:
  assumes d: "verify h strict d = Inr s" and d': "verify h strict' d' = Inr s'"
    and le: "sm_sequence s \<le> sm_sequence s'"
    and head: "hash_at (response_audit_ledger d') (sm_sequence s) = sm_head_hash s"
    and nc: "\<not> collision h (response_audit_ledger d) (response_audit_ledger d')"
  shows "list_all2 same_entry (ordered_ledger d) (take (length (ordered_ledger d)) (ordered_ledger d'))"
proof -
  note v = verify_Inr [OF d, folded ordered_ledger_def] and v' = verify_Inr [OF d', folded ordered_ledger_def]
  let ?n = "length (ordered_ledger d)"
  have n: "sm_sequence s = int ?n" using v(3) by (simp add: ordered_ledger_def)
  have le': "?n \<le> length (ordered_ledger d')" using le v(3) v'(3) by (simp add: ordered_ledger_def)
  have set': "set (response_audit_ledger d') = set (ordered_ledger d')" by (simp add: ordered_ledger_def)
  have "last_hash ZERO (take ?n (ordered_ledger d')) = last_hash ZERO (ordered_ledger d)"
    using head v(4) hash_at_chained [OF v'(1) set' le'] n by simp
  moreover have "\<forall>r\<in>set (take ?n (ordered_ledger d')). backed d' r" using v'(2) in_set_takeD by fast
  moreover have "\<not> collision h (ordered_ledger d) (take ?n (ordered_ledger d'))"
    using nc in_set_takeD [of _ ?n "ordered_ledger d'"] unfolding collision_def ordered_ledger_def by fastforce
  ultimately show ?thesis
    using v(1,2) chained_take [OF v'(1)] le' by (intro same_chain [of h 1 ZERO _ _ d d']) simp_all
qed

lemma checkpoint_new:
  assumes run: "checkpoint e k actor d = (Inr a, d1)"
    and fresh: "find_by ck_request_key k (response_audit_checkpoints d) = None"
  obtains s key path where "verify (sha256 e) False d = Inr s" and "environ e ''PANOPTICON_AUDIT_SIGNING_KEY'' = Some path"
    and "key_file e path = Some key"
    and "an_document a = checkpoint_document e d k actor s"
    and "an_authorization a = sign_bytes (sha256 e) key (checkpoint_bytes (an_document a))"
    and "an_checkpoint_id a = sha256 e (checkpoint_bytes (an_document a))"
    and "ledger_id d1 = ledger_id d" and "response_audit_ledger d1 = response_audit_ledger d"
  using run fresh
  by (auto simp: checkpoint_def Let_def bindM_raise_if split: option.splits sum.splits if_splits)

lemma document_fields:
  "jget ''sequence'' (checkpoint_document e d k actor s) = JInt (sm_sequence s)"
  "jget ''head_hash'' (checkpoint_document e d k actor s) = JStr (sm_head_hash s)"
  "jget ''ledger_id'' (checkpoint_document e d k actor s) = JStr (ledger_id d)"
  "sequence_of (checkpoint_document e d k actor s) = Some (sm_sequence s)"
  "has_key ''sequence'' (checkpoint_document e d k actor s)" "has_key ''head_hash'' (checkpoint_document e d k actor s)"
  "has_key ''ledger_id'' (checkpoint_document e d k actor s)"
  by (simp_all add: checkpoint_document_def summary_json_def sequence_of_def)

lemma verify_checkpoint_Inr:
  assumes "verify_checkpoint e d a point = Inr s" and "sequence_of (an_document a) = Some n"
    and "jget ''head_hash'' (an_document a) = JStr x"
  shows "verify (sha256 e) False d = Inr s \<and> hash_at (response_audit_ledger d) n = x \<and> n \<le> sm_sequence s"
  using assms
  by (auto simp: verify_checkpoint_def Let_def hash_at_def split: if_splits option.splits sum.splits)

section \<open>Properties\<close>

lemma audit_inv_empty: "audit_inv h empty_db"
  by (simp add: audit_inv_def audit_inv_at_def keyed_def payloads_def source_rows_def empty_db_def)

lemma audit_inv_run:
  assumes "stays (audit_grows h) m" and "audit_inv h d" and "m d = (r, d')"
  shows "audit_inv h d'"
  using stays_run [OF assms(1,3)] assms(2) by (auto simp: audit_inv_def audit_grows_def)

lemma stays_checkpoint: "stays (audit_grows h) (checkpoint e k actor)"
  unfolding checkpoint_def
  by (intro audit.stays_structural stays_cases staysI) (simp_all add: audit_grows_same)

definition demo_audited :: db where
  "demo_audited = snd (record_event demo_env ''demo_event'' ''system:demo'' None (Some ''q1'') [] empty_db)"

lemma demo_audited_inv: "audit_inv (\<lambda>t. t) demo_audited"
proof -
  have "stays (audit_grows (\<lambda>t. t)) (record_event demo_env ''demo_event'' ''system:demo'' None (Some ''q1'') [])"
    using stays_record_event [of demo_env] by (simp add: sha256_demo_env)
  then show ?thesis
    unfolding demo_audited_def by (rule audit_inv_run [OF _ audit_inv_empty]) (simp add: prod_eq_iff)
qed

lemma demo_audited: "verify (\<lambda>t. t) False demo_audited = Inr
    \<lparr>sm_sequence = int (length (response_audit_ledger demo_audited)),
     sm_head_hash = head_hash (response_audit_ledger demo_audited),
     sm_legacy_import_count = legacy_count (response_audit_ledger demo_audited)\<rparr>"
  using verify_inv [OF demo_audited_inv, of False] by simp

lemma demo_audited_length: "length (response_audit_ledger demo_audited) = 1"
  by (simp add: demo_audited_def record_event_def insert_security_audit_def chain_security_audit_def
      insert_ledger_def guard_accepts ledger_conflict_def bindM_raise_if transaction_def empty_db_def)

lemma checkpoint_accepted:
  assumes "checkpoint e k actor d = (Inr a, d1)"
    and "find_by ck_request_key k (response_audit_checkpoints d) = None"
    and "audit_inv (sha256 e) d" and "audit_grows (sha256 e) d1 d'"
    and "environ e ''PANOPTICON_AUDIT_SIGNING_KEY'' = Some path" and "key_file e path = Some key"
    and "\<And>m. length (sk_sign key m) = 64" and "on_curve e (sk_public_point key)"
    and "\<And>m. ecdsa_verify e (sk_public_point key) (sk_sign key m) m"
  shows "\<exists>s. verify_checkpoint e d' a (sk_public_point key) = Inr s \<and>
    sm_sequence s = int (length (response_audit_ledger d'))"
proof -
  obtain s where s: "verify (sha256 e) False d = Inr s" "an_document a = checkpoint_document e d k actor s"
    "an_authorization a = sign_bytes (sha256 e) key (checkpoint_bytes (an_document a))"
    "an_checkpoint_id a = sha256 e (checkpoint_bytes (an_document a))"
    "ledger_id d1 = ledger_id d" "response_audit_ledger d1 = response_audit_ledger d"
    using checkpoint_new [OF assms(1,2)] assms(5,6) by (metis option.inject)
  obtain x where x: "response_audit_ledger d' = response_audit_ledger d @ x" "ledger_id d' = ledger_id d"
    using assms(4) s(5,6) by (auto simp: audit_grows_def tables_extend_def)
  have inv1: "audit_inv (sha256 e) d1"
    using audit_inv_run [OF stays_checkpoint assms(3,1)] .
  then have inv: "audit_inv (sha256 e) d'" using assms(4) by (auto simp: audit_inv_def audit_grows_def)
  then obtain s' where s': "verify (sha256 e) False d' = Inr s'" "sm_sequence s' = int (length (response_audit_ledger d'))"
    using verify_inv by fastforce
  have c: "chained (sha256 e) 1 ZERO (response_audit_ledger d')" and c0: "chained (sha256 e) 1 ZERO (response_audit_ledger d)"
    using inv assms(3) by (auto simp: audit_inv_def audit_inv_at_def)
  have n: "sm_sequence s = int (length (response_audit_ledger d))" "sm_head_hash s = last_hash ZERO (response_audit_ledger d)"
    using s(1) verify_inv [OF assms(3), of False] head_hash_chained [OF c0] by auto
  have "hash_at (response_audit_ledger d') (sm_sequence s) = sm_head_hash s"
    using hash_at_chained [OF c refl, of "length (response_audit_ledger d)"] n x(1) by simp
  then show ?thesis
    using s s' x n(1) assms(7-9)
    by (auto simp: verify_checkpoint_def Let_def sign_bytes_def b64decode_b64encode document_fields hash_at_def)
qed

lemma demo_checkpoint:
  obtains a d1 where "checkpoint demo_env ''k'' ''analyst:a'' demo_audited = (Inr a, d1)"
    and "audit_grows (\<lambda>t. t) demo_audited d1"
proof -
  have c: "response_audit_checkpoints demo_audited = []"
    by (simp add: demo_audited_def record_event_def insert_security_audit_def chain_security_audit_def
      insert_ledger_def guard_accepts ledger_conflict_def bindM_raise_if transaction_def empty_db_def)
  obtain a d1 where run: "checkpoint demo_env ''k'' ''analyst:a'' demo_audited = (Inr a, d1)"
    using demo_audited by (auto simp: checkpoint_def c Let_def sha256_demo_env)
  then show thesis using stays_run [OF stays_checkpoint] by (intro that)
qed

lemma demo_checkpoints: "response_audit_checkpoints demo_audited = []"
  by (simp add: demo_audited_def record_event_def insert_security_audit_def chain_security_audit_def
      insert_ledger_def guard_accepts ledger_conflict_def bindM_raise_if transaction_def empty_db_def)

text \<open>
  C14. Tamper evidence of the ledger: when \<open>verify\<close> accepts two databases and reports the same number of
  entries and the same head hash for both, their ledgers agree entry by entry on every column (the
  payload as canonical JSON), or two of the entries are a collision of SHA-256.
\<close>

theorem same_head_same_history:
  assumes "verify h strict d = Inr s" and "verify h strict' d' = Inr s'"
    and "sm_sequence s' = sm_sequence s" and "sm_head_hash s' = sm_head_hash s"
  shows "list_all2 same_entry (ordered_ledger d) (ordered_ledger d') \<or>
    collision h (response_audit_ledger d) (response_audit_ledger d')"
proof (rule disjCI)
  assume nc: "\<not> collision h (response_audit_ledger d) (response_audit_ledger d')"
  note v = verify_Inr [OF assms(1), folded ordered_ledger_def]
    and v' = verify_Inr [OF assms(2), folded ordered_ledger_def]
  show "list_all2 same_entry (ordered_ledger d) (ordered_ledger d')"
    using v v' assms(3,4) nc
    by (intro same_chain [OF v(1) v'(1) _ _ v(2) v'(2)]) (auto simp: ordered_ledger_def collision_def)
qed

theorem same_head_same_history_witness:
  "length (response_audit_ledger demo_audited) = 1 \<and>
   (list_all2 same_entry (ordered_ledger demo_audited) (ordered_ledger demo_audited) \<or>
    collision (\<lambda>t. t) (response_audit_ledger demo_audited) (response_audit_ledger demo_audited))"
  using same_head_same_history [OF demo_audited demo_audited] demo_audited_length by simp

text \<open>
  C20. A checkpoint pins the history it was made of: when an anchor that \<open>checkpoint\<close> issued for one
  state of the database is later accepted by \<open>verify_checkpoint\<close> on another state, the entries of the
  first state are still there, unchanged and in place, at the head of the second ledger, or two entries
  are a collision of SHA-256.
\<close>

theorem checkpoint_pins_history:
  assumes "checkpoint e k actor d = (Inr a, d1)"
    and "find_by ck_request_key k (response_audit_checkpoints d) = None"
    and "verify_checkpoint e' d' a point = Inr s'" and "sha256 e' = sha256 e"
  shows "list_all2 same_entry (ordered_ledger d) (take (length (ordered_ledger d)) (ordered_ledger d')) \<or>
    collision (sha256 e) (response_audit_ledger d) (response_audit_ledger d')"
proof (rule disjCI)
  assume nc: "\<not> collision (sha256 e) (response_audit_ledger d) (response_audit_ledger d')"
  obtain s where s: "verify (sha256 e) False d = Inr s" "an_document a = checkpoint_document e d k actor s"
    using checkpoint_new [OF assms(1,2)] by metis
  have "verify (sha256 e') False d' = Inr s' \<and> hash_at (response_audit_ledger d') (sm_sequence s) = sm_head_hash s \<and>
      sm_sequence s \<le> sm_sequence s'"
    using assms(3) by (rule verify_checkpoint_Inr) (simp_all add: s(2) document_fields)
  then show "list_all2 same_entry (ordered_ledger d) (take (length (ordered_ledger d)) (ordered_ledger d'))"
    using s(1) assms(4) nc by (intro ledger_prefix_fixed) auto
qed

theorem checkpoint_pins_history_witness:
  "\<exists>a d1 s'. checkpoint demo_env ''k'' ''analyst:a'' demo_audited = (Inr a, d1) \<and>
     verify_checkpoint demo_env d1 a ''point'' = Inr s' \<and>
     (list_all2 same_entry (ordered_ledger demo_audited)
        (take (length (ordered_ledger demo_audited)) (ordered_ledger d1)) \<or>
      collision (sha256 demo_env) (response_audit_ledger demo_audited) (response_audit_ledger d1))"
proof -
  obtain a d1 where run: "checkpoint demo_env ''k'' ''analyst:a'' demo_audited = (Inr a, d1)"
    by (rule demo_checkpoint)
  obtain s where v: "verify_checkpoint demo_env d1 a ''point'' = Inr s"
    using checkpoint_accepted [OF run _ _ audit.R_refl,
      where path = "''secret''" and key = "\<lparr>sk_public_point = ''point'', sk_sign = (\<lambda>m. replicate 64 CHR ''s'')\<rparr>"] demo_audited_inv demo_checkpoints by (auto simp: sha256_demo_env)
  show ?thesis
    using checkpoint_pins_history [OF run _ v] run v demo_checkpoints by auto
qed

text \<open>
  C21. Checkpoints stay valid: the anchor of a database that meets the audit invariant is accepted
  by \<open>verify_checkpoint\<close> on every database that later statements of the manager lead to, given that the
  signature scheme verifies what the configured key signed.
\<close>

theorem checkpoint_stays_valid:
  assumes "checkpoint e k actor d = (Inr a, d1)"
    and "find_by ck_request_key k (response_audit_checkpoints d) = None"
    and "audit_inv (sha256 e) d" and "audit_grows (sha256 e) d1 d'"
    and "environ e ''PANOPTICON_AUDIT_SIGNING_KEY'' = Some path" and "key_file e path = Some key"
    and "\<And>m. length (sk_sign key m) = 64" and "on_curve e (sk_public_point key)"
    and "\<And>m. ecdsa_verify e (sk_public_point key) (sk_sign key m) m"
  shows "\<exists>s. verify_checkpoint e d' a (sk_public_point key) = Inr s \<and>
    sm_sequence s = int (length (response_audit_ledger d'))"
  using assms by (rule checkpoint_accepted)

theorem checkpoint_stays_valid_witness:
  "\<exists>a d1. checkpoint demo_env ''k'' ''analyst:a'' demo_audited = (Inr a, d1) \<and>
     (\<exists>s. verify_checkpoint demo_env
        (snd (record_event demo_env ''later'' ''system:demo'' None None [] d1)) a ''point'' = Inr s \<and>
       sm_sequence s = int (length (response_audit_ledger
        (snd (record_event demo_env ''later'' ''system:demo'' None None [] d1)))))"
proof -
  obtain a d1 where run: "checkpoint demo_env ''k'' ''analyst:a'' demo_audited = (Inr a, d1)"
    by (rule demo_checkpoint)
  have "audit_grows (sha256 demo_env) d1 (snd (record_event demo_env ''later'' ''system:demo'' None None [] d1))"
    by (rule staysD [OF stays_record_event])
  from checkpoint_stays_valid [OF run _ _ this,
      where path = "''secret''" and key = "\<lparr>sk_public_point = ''point'', sk_sign = (\<lambda>m. replicate 64 CHR ''s'')\<rparr>"] show ?thesis
    using run demo_audited_inv demo_checkpoints by (auto simp: sha256_demo_env)
qed

section \<open>Audit writers touch nothing else\<close>

definition erase_audit :: "db \<Rightarrow> db" where
  "erase_audit d = d\<lparr>command_audit := [], response_decision_audit := [], response_security_audit := [],
    response_artifact_custody := [], response_audit_ledger := [], draws := 0\<rparr>"

definition audit_only :: "db \<Rightarrow> db \<Rightarrow> bool" where
  "audit_only d d' \<longleftrightarrow> erase_audit d' = erase_audit d"

interpretation audit_only: frame audit_only
  by unfold_locales (simp_all add: audit_only_def)

lemma audit_only_modify:
  "audit_only d (d\<lparr>response_audit_ledger := a\<rparr>)" "audit_only d (d\<lparr>command_audit := b\<rparr>)"
  "audit_only d (d\<lparr>response_decision_audit := c\<rparr>)" "audit_only d (d\<lparr>response_security_audit := f\<rparr>)"
  "audit_only d (d\<lparr>response_artifact_custody := g\<rparr>)" "audit_only d (d\<lparr>draws := n\<rparr>)"
  by (simp_all add: audit_only_def erase_audit_def)

lemma audit_only_modifies:
  "stays audit_only (modify (\<lambda>d. d\<lparr>response_audit_ledger := a d\<rparr>))"
  "stays audit_only (modify (\<lambda>d. d\<lparr>command_audit := b d\<rparr>))"
  "stays audit_only (modify (\<lambda>d. d\<lparr>response_decision_audit := c d\<rparr>))"
  "stays audit_only (modify (\<lambda>d. d\<lparr>response_security_audit := f d\<rparr>))"
  "stays audit_only (modify (\<lambda>d. d\<lparr>response_artifact_custody := g d\<rparr>))"
  "stays audit_only (draw source)"
  by (simp_all add: stays_def audit_only_modify draw_def)

lemma audit_only_insert_ledger: "stays audit_only (insert_ledger e r)"
  unfolding insert_ledger_def by (intro audit_only.stays_structural audit_only_modifies)

lemma audit_only_chains:
  "stays audit_only (chain_security_audit e v)" "stays audit_only (chain_command_audit e x)"
  "stays audit_only (chain_decision_audit e y)" "stays audit_only (chain_custody e z)"
  unfolding chain_security_audit_def chain_command_audit_def chain_decision_audit_def chain_custody_def
  by (intro audit_only.stays_structural stays_let audit_only_insert_ledger)+

lemma audit_only_insert_security: "stays audit_only (insert_security_audit e r)"
  unfolding insert_security_audit_def
  by (intro audit_only.stays_structural audit_only_modifies audit_only_chains)

lemma audit_only_mirrors:
  "stays audit_only (mirror_command_audit e x)" "stays audit_only (mirror_decision_audit e y)"
  unfolding mirror_command_audit_def mirror_decision_audit_def mirror_row_def
  by (intro stays_cases audit_only.stays_structural audit_only_modifies audit_only_insert_security)+

lemma audit_only_writers:
  "stays audit_only (insert_command_audit e x)" "stays audit_only (insert_decision_audit e y)"
  "stays audit_only (insert_custody e z)" "stays audit_only (record_event e ev actor asset req detail)"
  "stays audit_only (audit e c ev actor note)" "stays audit_only (record_decision e r ev actor facts)"
  "stays audit_only (custody_event e art ev actor detail)"
  unfolding audit_def record_decision_def record_event_def custody_event_def insert_command_audit_def
    insert_decision_audit_def insert_custody_def triggers_def
  by (intro audit_only.stays_structural stays_cases audit_only_modifies audit_only_chains audit_only_mirrors
      audit_only_insert_security)+

text \<open>
  The interface for relations that do not look at the audit tables: a preorder that contains
  \<open>audit_only\<close>. Every audit writer respects it.
\<close>

locale blind_frame = frame R for R :: "db \<Rightarrow> db \<Rightarrow> bool" +
  assumes blind: "audit_only d d' \<Longrightarrow> R d d'"
begin

lemma stays_blind: "stays audit_only m \<Longrightarrow> stays R m"
  by (simp add: stays_def blind)

lemmas writers = audit_only_writers [THEN stays_blind] audit_only_insert_security [THEN stays_blind]
  audit_only_modifies(6) [THEN stays_blind]

end

text \<open>What \<open>audit_only\<close> leaves alone.\<close>

lemma audit_onlyD:
  assumes "audit_only d d'"
  shows "commands d' = commands d" "response_actions d' = response_actions d" "alerts d' = alerts d"
    "enrolled_agents d' = enrolled_agents d" "enrollment_nonces d' = enrollment_nonces d"
    "analyst_credentials d' = analyst_credentials d" "command_results d' = command_results d"
    "command_result_receipts d' = command_result_receipts d"
    "response_request_keys d' = response_request_keys d"
    "agent_response_channels d' = agent_response_channels d" "response_campaigns d' = response_campaigns d"
    "artifact_signing_keys d' = artifact_signing_keys d" "triage_runs d' = triage_runs d"
    "triage_items d' = triage_items d" "triage_policy_revisions d' = triage_policy_revisions d"
    "triage_policy_heads d' = triage_policy_heads d" "triage_asset_classes d' = triage_asset_classes d"
    "response_forensic_plans d' = response_forensic_plans d" "ledger_id d' = ledger_id d"
    "response_audit_checkpoints d' = response_audit_checkpoints d" "response_artifacts d' = response_artifacts d"
    "artifact_key_rotations d' = artifact_key_rotations d" "response_artifact_transfers d' = response_artifact_transfers d"
    "response_artifact_chunks d' = response_artifact_chunks d" "triage_admin_requests d' = triage_admin_requests d"
    "artifact_manifest_attestations d' = artifact_manifest_attestations d"
    "response_artifact_usage d' = response_artifact_usage d"
    "response_artifact_transfer_usage d' = response_artifact_transfer_usage d"
    "artifact_identity_operations d' = artifact_identity_operations d"
    "artifact_access_grants d' = artifact_access_grants d"
    "artifact_access_operations d' = artifact_access_operations d" "artifact_view_receipts d' = artifact_view_receipts d"
  using assms by (cases d, cases d', simp add: audit_only_def erase_audit_def)+

section \<open>Audit writes do not fail\<close>

lemma no_sequence_conflict:
  "chained h 1 ZERO l \<Longrightarrow> x \<in> set l \<Longrightarrow> lg_sequence x \<noteq> next_sequence l"
  using chained_sequences [of h 1 ZERO l x] by (simp add: next_sequence_chained)

lemma entry_source_row:
  assumes "audit_inv h d" and "x \<in> set (response_audit_ledger d)"
  shows "lg_payload_json x \<in> set (source_rows d (lg_source x))"
proof -
  obtain keys where "map_of sources (lg_source x) = Some keys"
    using assms by (auto simp: audit_inv_def audit_inv_at_def entry_known_def)
  then have "lg_source x \<in> set (map fst sources)" by (force dest: map_of_SomeD)
  moreover have "lg_payload_json x \<in># payloads (response_audit_ledger d) (lg_source x)"
    using assms(2) by (auto simp: payloads_def)
  ultimately show ?thesis using assms(1) by (auto simp: audit_inv_def audit_inv_at_def)
qed

lemma security_entry_id:
  assumes "audit_inv h d" and "x \<in> set (response_audit_ledger d)" and "lg_source x = ''response_security_audit''"
  shows "lg_source_id x \<in> sa_event_id ` set (response_security_audit d)"
proof -
  have "entry_known x" using assms(1,2) by (auto simp: audit_inv_def audit_inv_at_def)
  then have "lg_source_id x = source_id_of [''event_id''] (lg_payload_json x)"
    using assms(3) by (auto simp: entry_known_def identity_disagrees_def sources_def Let_def)
  moreover have "lg_payload_json x \<in> security_audit_json ` set (response_security_audit d)"
    using entry_source_row [OF assms(1,2)] assms(3) by (simp add: source_rows_def)
  ultimately show ?thesis by (auto simp: security_audit_json_def source_id_of_def key_text_def)
qed

text \<open>A security event with a fresh identifier is always written: nothing but the key can refuse it.\<close>

lemma record_event_runs:
  assumes "audit_inv (sha256 e) d" and "uuid4 e (draws d) \<notin> sa_event_id ` set (response_security_audit d)"
  shows "\<exists>d'. record_event e ev actor asset req detail d = (Inr (), d')"
proof -
  have c: "chained (sha256 e) 1 ZERO (response_audit_ledger d)"
    using assms(1) by (simp add: audit_inv_def audit_inv_at_def)
  have "lg_sequence x \<noteq> next_sequence (response_audit_ledger d) \<and>
      (lg_source x = ''response_security_audit'' \<longrightarrow> lg_source_id x \<noteq> uuid4 e (draws d))"
    if "x \<in> set (response_audit_ledger d)" for x
    using no_sequence_conflict [OF c that] security_entry_id [OF assms(1) that] assms(2) by auto
  then show ?thesis
    using assms(2)
    by (auto simp: record_event_def insert_security_audit_def chain_security_audit_def insert_ledger_def
        guard_accepts ledger_conflict_def bindM_raise_if transaction_def)
qed

lemma entry_ids:
  assumes "audit_inv h d" and "x \<in> set (response_audit_ledger d)"
  shows "lg_source x = ''command_audit'' \<Longrightarrow> lg_source_id x \<in> ca_audit_id ` set (command_audit d)"
    and "lg_source x = ''response_decision_audit'' \<Longrightarrow> lg_source_id x \<in> da_event_id ` set (response_decision_audit d)"
proof -
  have k: "entry_known x" using assms(1,2) by (auto simp: audit_inv_def audit_inv_at_def)
  note p = entry_source_row [OF assms]
  show "lg_source_id x \<in> ca_audit_id ` set (command_audit d)" if "lg_source x = ''command_audit''"
  proof -
    have "lg_source_id x = source_id_of [''audit_id''] (lg_payload_json x)"
      using k that by (auto simp: entry_known_def identity_disagrees_def sources_def Let_def)
    moreover have "lg_payload_json x \<in> command_audit_json ` set (command_audit d)"
      using p that by (simp add: source_rows_def)
    ultimately show ?thesis by (auto simp: command_audit_json_def source_id_of_def key_text_def)
  qed
  show "lg_source_id x \<in> da_event_id ` set (response_decision_audit d)" if "lg_source x = ''response_decision_audit''"
  proof -
    have "lg_source_id x = source_id_of [''event_id''] (lg_payload_json x)"
      using k that by (auto simp: entry_known_def identity_disagrees_def sources_def Let_def)
    moreover have "lg_payload_json x \<in> decision_audit_json ` set (response_decision_audit d)"
      using p that by (simp add: source_rows_def)
    ultimately show ?thesis by (auto simp: decision_audit_json_def source_id_of_def key_text_def)
  qed
qed

lemma no_triage_pairs: "triage_items d = [] \<Longrightarrow> triage_pairs d link = []"
  by (simp add: triage_pairs_def)

lemma insert_ledger_runs:
  assumes "chained (sha256 e) 1 ZERO l" and "l = response_audit_ledger d"
    and "\<And>x. x \<in> set l \<Longrightarrow> lg_source x = s \<Longrightarrow> lg_source_id x \<noteq> i"
  shows "insert_ledger e (chain_entry (sha256 e) l s i ev a q c t w p 0) d =
    (Inr (), d\<lparr>response_audit_ledger := l @ [chain_entry (sha256 e) l s i ev a q c t w p 0]\<rparr>)"
  using assms no_sequence_conflict [OF assms(1)]
  by (auto simp: insert_ledger_def guard_accepts ledger_conflict_def bindM_raise_if)

text \<open>Outside triage, an audit entry about an existing command or response with a fresh identifier is written.\<close>

lemma audit_runs:
  assumes inv: "audit_inv (sha256 e) d" and fresh: "uuid4 e (draws d) \<notin> ca_audit_id ` set (command_audit d)"
    and "c \<in> cm_command_id ` set (commands d)" and "triage_items d = []"
  shows "\<exists>d'. audit e c ev actor detail d = (Inr (), d')"
proof -
  have ch: "chained (sha256 e) 1 ZERO (response_audit_ledger d)"
    using inv by (simp add: audit_inv_def audit_inv_at_def)
  have ids: "lg_source_id x \<noteq> uuid4 e (draws d)" if "x \<in> set (response_audit_ledger d)" "lg_source x = ''command_audit''" for x
    using entry_ids(1) [OF inv that] fresh by auto
  show ?thesis
    unfolding audit_def insert_command_audit_def
    using assms(2-4) insert_ledger_runs [OF ch refl, of "''command_audit''" "uuid4 e (draws d)"] ids
    by (auto simp: bindM_raise_if triggers_def chain_command_audit_def mirror_command_audit_def no_triage_pairs
        insert_ledger_def guard_accepts ledger_conflict_def no_sequence_conflict [OF ch] bindM_assoc transaction_def)
qed

lemma record_decision_runs:
  assumes inv: "audit_inv (sha256 e) d" and fresh: "uuid4 e (draws d) \<notin> da_event_id ` set (response_decision_audit d)"
    and "r \<in> ra_response_id ` set (response_actions d)" and "triage_items d = []"
  shows "\<exists>d'. record_decision e r ev actor detail d = (Inr (), d')"
proof -
  have ch: "chained (sha256 e) 1 ZERO (response_audit_ledger d)"
    using inv by (simp add: audit_inv_def audit_inv_at_def)
  have ids: "lg_source_id x \<noteq> uuid4 e (draws d)" if "x \<in> set (response_audit_ledger d)" "lg_source x = ''response_decision_audit''" for x
    using entry_ids(2) [OF inv that] fresh by auto
  show ?thesis
    unfolding record_decision_def insert_decision_audit_def
    using assms(2-4) ids
    by (auto simp: bindM_raise_if triggers_def chain_decision_audit_def mirror_decision_audit_def no_triage_pairs
        insert_ledger_def guard_accepts ledger_conflict_def no_sequence_conflict [OF ch] bindM_assoc transaction_def)
qed

end
