(* ===== verification/Auth.thy ===== *)
theory Auth
  imports AuditChain
begin

text \<open>
  Identities: \<^verbatim>\<open>manager/auth.py\<close>, the two handlers of \<^verbatim>\<open>routers/enrollment.py\<close>, and the key
  helpers of \<^verbatim>\<open>manager/artifact_keys.py\<close> that the trigger \<open>artifact_key_enrollment\<close> of migration
  28 runs on every enrollment. An agent enrolls with a one-time challenge and a signature over it; its
  bearer token is stored as a SHA-256 digest only. Analysts enroll with a secret per kind of role.
\<close>

section \<open>Challenges\<close>

definition digest :: "env \<Rightarrow> string \<Rightarrow> string" where
  "digest e token = sha256 e token"

definition decode_b64 :: "string \<Rightarrow> string \<Rightarrow> (db, string) act" where
  "decode_b64 v field = require_some (b64decode v) (HTTPException 422 (field @ '' is not valid base64''))"

definition nonce_ttl_seconds :: int where
  "nonce_ttl_seconds = 300"

definition issue_enrollment_challenge :: "env \<Rightarrow> (db, string \<times> string) act" where
  "issue_enrollment_challenge e = bindM (draw (token_bytes e)) (\<lambda>raw.
     let nonce = b64encode raw; expires_at = iso_at (plus_delta (now e) (seconds nonce_ttl_seconds))
     in transaction (bindM (gets enrollment_nonces) (\<lambda>rows.
          seqM (raise_if (nonce \<in> en_nonce ` set rows) IntegrityError)
          (seqM (modify (\<lambda>d. d\<lparr>enrollment_nonces := enrollment_nonces d @
             [\<lparr>en_nonce = nonce, en_created_at = iso_at (now e), en_expires_at = expires_at,
               en_consumed_at = None\<rparr>]\<rparr>))
          (ret (nonce, expires_at))))))"

abbreviation invalid_challenge :: exn where
  "invalid_challenge \<equiv> HTTPException 401 ''invalid or expired enrollment challenge''"

definition consume_nonce :: "env \<Rightarrow> string \<Rightarrow> (db, unit) act" where
  "consume_nonce e nonce = bindM (gets (\<lambda>d. find_by en_nonce nonce (enrollment_nonces d))) (\<lambda>row.
     case row of
       None \<Rightarrow> throw invalid_challenge
     | Some r \<Rightarrow>
        seqM (raise_if (en_consumed_at r \<noteq> None \<or> en_expires_at r < iso_at (now e)) invalid_challenge)
        (bindM (gets (\<lambda>d. length (filter (\<lambda>x. en_nonce x = nonce \<and> en_consumed_at x = None) (enrollment_nonces d))))
          (\<lambda>updated.
            seqM (modify (\<lambda>d. d\<lparr>enrollment_nonces := update_where
                (\<lambda>x. en_nonce x = nonce \<and> en_consumed_at x = None)
                (\<lambda>x. x\<lparr>en_consumed_at := Some (iso_at (now e))\<rparr>) (enrollment_nonces d)\<rparr>))
            (raise_if (updated \<noteq> 1) invalid_challenge))))"

definition verify_proof_of_possession :: "env \<Rightarrow> string \<Rightarrow> string \<Rightarrow> string \<Rightarrow> (db, unit) act" where
  "verify_proof_of_possession e public_key nonce signature =
    bindM (decode_b64 public_key ''public_key'') (\<lambda>key.
    seqM (raise_if (length key \<noteq> 65 \<or> take 1 key \<noteq> [CHR 0x04])
            (HTTPException 401 ''public_key must be an uncompressed P-256 point''))
    (bindM (decode_b64 nonce ''nonce'') (\<lambda>nonce_raw.
     bindM (decode_b64 signature ''signature'') (\<lambda>sig.
     seqM (raise_if (length sig \<noteq> 64) (HTTPException 401 ''signature must be a raw 64-byte r||s pair''))
     (raise_if (\<not> on_curve e key \<or> \<not> ecdsa_verify e key sig nonce_raw)
        (HTTPException 401 ''invalid proof of possession''))))))"

section \<open>Artifact keys of an enrollment\<close>

text \<open>\<open>public_key_id\<close>; inside a trigger its ValueError surfaces as an OperationalError.\<close>

definition public_point :: "env \<Rightarrow> string \<Rightarrow> string option" where
  "public_point e encoded =
    (case b64decode encoded of
       None \<Rightarrow> None
     | Some raw \<Rightarrow> if length raw = 65 \<and> hd raw = CHR 0x04 \<and> on_curve e raw then Some raw else None)"

definition public_key_id :: "env \<Rightarrow> string \<Rightarrow> string option" where
  "public_key_id e encoded = map_option (key_id (sha256 e)) (public_point e encoded)"

text \<open>The PRIMARY KEY, UNIQUE(agent_id, key_version) and the partial index \<open>ix_active_artifact_key\<close>.\<close>

definition active_key :: "artifact_key_row \<Rightarrow> bool" where
  "active_key k \<longleftrightarrow> ak_retired_at k = None \<and> ak_compromised_at k = None"

definition artifact_key_conflict :: "artifact_key_row list \<Rightarrow> artifact_key_row \<Rightarrow> bool" where
  "artifact_key_conflict rows k \<longleftrightarrow>
    (\<exists>x\<in>set rows. ak_agent_id x = ak_agent_id k \<and>
      (ak_key_id x = ak_key_id k \<or> ak_key_version x = ak_key_version k \<or> (active_key x \<and> active_key k)))"

definition insert_artifact_key :: "artifact_key_row \<Rightarrow> (db, unit) act" where
  "insert_artifact_key k = bindM (gets artifact_signing_keys) (\<lambda>rows.
     seqM (raise_if (artifact_key_conflict rows k \<or> ak_key_version k \<le> 0) IntegrityError)
     (modify (\<lambda>d. d\<lparr>artifact_signing_keys := artifact_signing_keys d @ [k]\<rparr>)))"

definition artifact_key_enrollment :: "env \<Rightarrow> agent_row \<Rightarrow> (db, unit) act" where
  "artifact_key_enrollment e a =
    (case ea_public_key a of
       None \<Rightarrow> ret ()
     | Some key \<Rightarrow>
        bindM (require_some (public_key_id e key) (OperationalError ''user-defined function raised exception'')) (\<lambda>i.
        seqM (insert_artifact_key
          \<lparr>ak_agent_id = ea_agent_id a, ak_host_id = ea_host_id a, ak_key_id = i, ak_key_version = 1,
           ak_public_key = key, ak_valid_from = ea_enrolled_at a, ak_retired_at = None,
           ak_compromised_at = None, ak_compromise_reason = None\<rparr>)
        (bindM (draw (randomblob e)) (\<lambda>event_id.
         insert_security_audit e
          \<lparr>sa_event_id = event_id, sa_request_id = None, sa_asset_id = Some (ea_host_id a),
           sa_event = ''artifact_key_enrolled'', sa_actor = ''agent:'' @ ea_agent_id a,
           sa_detail = json_object [(''agent_id'', JStr (ea_agent_id a)), (''key_id'', JStr i),
             (''key_version'', JInt 1)],
           sa_occurred_at = ea_enrolled_at a\<rparr>))))"

definition insert_enrolled_agent :: "env \<Rightarrow> agent_row \<Rightarrow> (db, unit) act" where
  "insert_enrolled_agent e a = transaction (bindM (gets enrolled_agents) (\<lambda>rows.
     seqM (raise_if (ea_agent_id a \<in> ea_agent_id ` set rows) IntegrityError)
     (seqM (modify (\<lambda>d. d\<lparr>enrolled_agents := enrolled_agents d @ [a]\<rparr>)) (artifact_key_enrollment e a))))"

section \<open>Agents\<close>

definition enroll_body ::
  "env \<Rightarrow> string \<Rightarrow> string \<Rightarrow> string \<Rightarrow> string \<Rightarrow> string \<Rightarrow> (db, string) act" where
  "enroll_body e agent_id host_id public_key nonce signature =
    seqM (consume_nonce e nonce)
    (seqM (verify_proof_of_possession e public_key nonce signature)
    (bindM (gets (\<lambda>d. List.find (\<lambda>r. ea_host_id r = host_id \<and> ea_revoked_at r = None) (enrolled_agents d)))
      (\<lambda>existing_host.
        seqM (raise_if (case existing_host of None \<Rightarrow> False | Some r \<Rightarrow> ea_agent_id r \<noteq> agent_id)
                (HTTPException 409 ''host_id is already claimed by an active agent''))
        (bindM (draw (token_urlsafe e)) (\<lambda>token.
          seqM (insert_enrolled_agent e
            \<lparr>ea_agent_id = agent_id, ea_host_id = host_id, ea_token_digest = digest e token,
             ea_enrolled_at = iso_now e, ea_revoked_at = None, ea_public_key = Some public_key\<rparr>)
          (ret token))))))"

text \<open>\<open>except IntegrityError\<close>: the primary key of \<open>enrolled_agents\<close>.\<close>

definition on_integrity_error :: "exn \<Rightarrow> ('s, 'a) act \<Rightarrow> ('s, 'a) act" where
  "on_integrity_error x m = tryM m (\<lambda>y. throw (if y = IntegrityError then x else y))"

definition enroll ::
  "env \<Rightarrow> string \<Rightarrow> string \<Rightarrow> string \<Rightarrow> string \<Rightarrow> string \<Rightarrow> string \<Rightarrow> (db, string) act" where
  "enroll e agent_id host_id bootstrap_token public_key nonce signature =
    (case environ e ''PANOPTICON_ENROLLMENT_TOKEN'' of
       None \<Rightarrow> throw (HTTPException 401 ''invalid enrollment credential'')
     | Some expected \<Rightarrow>
        seqM (raise_if (expected = []) (HTTPException 401 ''invalid enrollment credential''))
        (bindM (compare_digest bootstrap_token expected) (\<lambda>same.
          seqM (raise_if (\<not> same) (HTTPException 401 ''invalid enrollment credential''))
          (transaction (on_integrity_error (HTTPException 409 ''agent_id is already enrolled'')
            (enroll_body e agent_id host_id public_key nonce signature))))))"

text \<open>\<open>EnrollmentRequest\<close> bounds its fields; FastAPI answers 422 when they do not hold.\<close>

definition len_between :: "nat \<Rightarrow> nat \<Rightarrow> string \<Rightarrow> bool" where
  "len_between lo hi t \<longleftrightarrow> lo \<le> py_len t \<and> py_len t \<le> hi"

definition enrollment ::
  "env \<Rightarrow> string \<Rightarrow> string \<Rightarrow> string \<Rightarrow> string \<Rightarrow> string \<Rightarrow> string \<Rightarrow> (db, string) act" where
  "enrollment e agent_id host_id public_key nonce signature bootstrap_token =
    seqM (raise_if (\<not> (len_between 1 128 agent_id \<and> len_between 1 128 host_id \<and> len_between 60 100 public_key \<and>
                       len_between 40 48 nonce \<and> len_between 86 90 signature)) ValidationError)
    (enroll e agent_id host_id bootstrap_token public_key nonce signature)"

text \<open>\<open>Authorization: Bearer <token>\<close>.\<close>

definition bearer_token :: "string option \<Rightarrow> string option" where
  "bearer_token authorization =
    (case authorization of
       None \<Rightarrow> None
     | Some t \<Rightarrow>
        if starts_with ''Bearer '' t
        then (let token = drop (length ''Bearer '') t
              in if token = [] \<or> 512 < py_len token then None else Some token)
        else None)"

abbreviation agent_auth_required :: exn where
  "agent_auth_required \<equiv> HTTPException 401 ''agent authentication required''"

definition require_agent_token :: "env \<Rightarrow> string \<Rightarrow> string option \<Rightarrow> (db, unit) act" where
  "require_agent_token e agent_id authorization =
    bindM (require_some (bearer_token authorization) agent_auth_required) (\<lambda>token.
    bindM (gets (\<lambda>d. active_agent d agent_id)) (\<lambda>row.
      raise_if (case row of None \<Rightarrow> True | Some r \<Rightarrow> ea_token_digest r \<noteq> digest e token) agent_auth_required))"

section \<open>Analysts\<close>

abbreviation is_admin_role :: "string \<Rightarrow> bool" where
  "is_admin_role role \<equiv> role = ''artifact_admin'' \<or> role = ''triage_admin''"

definition enrollment_variable :: "string \<Rightarrow> string" where
  "enrollment_variable role =
    (if role = ''triage_admin'' then ''PANOPTICON_TRIAGE_ADMIN_ENROLLMENT_TOKEN''
     else if role = ''artifact_admin'' then ''PANOPTICON_ARTIFACT_ADMIN_ENROLLMENT_TOKEN''
     else ''PANOPTICON_ANALYST_ENROLLMENT_TOKEN'')"

definition getenv_or_empty :: "env \<Rightarrow> string \<Rightarrow> string" where
  "getenv_or_empty e k = (case environ e k of None \<Rightarrow> [] | Some v \<Rightarrow> v)"

text \<open>The guards on the secrets, in the order of the code.\<close>

definition check_enrollment_secret :: "env \<Rightarrow> string \<Rightarrow> string \<Rightarrow> (db, unit) act" where
  "check_enrollment_secret e bootstrap_token role =
    (let expected = getenv_or_empty e (enrollment_variable role);
         other = getenv_or_empty e (if role = ''triage_admin'' then ''PANOPTICON_ARTIFACT_ADMIN_ENROLLMENT_TOKEN''
                                    else ''PANOPTICON_TRIAGE_ADMIN_ENROLLMENT_TOKEN'')
     in bindM (if is_admin_role role \<and> expected \<noteq> []
               then compare_digest expected (getenv_or_empty e ''PANOPTICON_ANALYST_ENROLLMENT_TOKEN'')
               else ret False) (\<lambda>shared.
        seqM (raise_if shared (HTTPException 503 ''artifact administrator requires a distinct enrollment secret''))
        (bindM (if is_admin_role role \<and> expected \<noteq> [] \<and> other \<noteq> [] then compare_digest expected other else ret False)
          (\<lambda>shared'.
          seqM (raise_if shared' (HTTPException 503 ''administrator roles require separate enrollment secrets''))
          (bindM (if expected = [] then ret False else compare_digest bootstrap_token expected) (\<lambda>same.
            raise_if (\<not> same) (HTTPException 401 ''invalid analyst enrollment credential'')))))))"

definition enroll_analyst :: "env \<Rightarrow> string \<Rightarrow> string \<Rightarrow> string \<Rightarrow> (db, string) act" where
  "enroll_analyst e analyst_id bootstrap_token role =
    seqM (check_enrollment_secret e bootstrap_token role)
    (seqM (raise_if (role \<notin> set (analyst_roles e)) (HTTPException 422 ''invalid analyst role''))
    (bindM (draw (token_urlsafe e)) (\<lambda>token.
      transaction (bindM (gets (\<lambda>d. find_by ac_analyst_id analyst_id (analyst_credentials d))) (\<lambda>previous.
        seqM (raise_if (case previous of None \<Rightarrow> False | Some p \<Rightarrow> is_admin_role (ac_role p) \<and> ac_role p \<noteq> role)
                (HTTPException 403 ''artifact administrator requires dedicated enrollment''))
        (seqM (modify (\<lambda>d. d\<lparr>analyst_credentials :=
             filter (\<lambda>r. ac_analyst_id r \<noteq> analyst_id) (analyst_credentials d) @
             [\<lparr>ac_analyst_id = analyst_id, ac_token_digest = digest e token, ac_created_at = iso_now e,
               ac_revoked_at = None, ac_role = role\<rparr>]\<rparr>))
        (seqM (record_event e ''artifact_access_identity_enrolled'' ''system:analyst-enrollment'' None None
             [(''analyst_id'', JStr analyst_id), (''role'', JStr role), (''access_policy_version'', JInt 3),
              (''existing_scopes_apply'', JBool False)])
        (ret token))))))))"

abbreviation analyst_auth_required :: exn where
  "analyst_auth_required \<equiv> HTTPException 401 ''analyst authentication required''"

definition require_analyst_token :: "env \<Rightarrow> string option \<Rightarrow> (db, string) act" where
  "require_analyst_token e authorization =
    bindM (require_some (bearer_token authorization) analyst_auth_required) (\<lambda>token.
    bindM (gets (\<lambda>d. List.find (\<lambda>r. ac_revoked_at r = None \<and> ac_token_digest r = digest e token)
                       (analyst_credentials d))) (\<lambda>row.
      require_some (map_option ac_analyst_id row) analyst_auth_required))"

record access =
  acc_analyst_id :: string
  acc_role :: string
  acc_permissions :: "string list"
  acc_policy_version :: int

definition analyst_access :: "env \<Rightarrow> string option \<Rightarrow> (db, access) act" where
  "analyst_access e authorization = bindM (require_analyst_token e authorization) (\<lambda>analyst_id.
     bindM (gets (\<lambda>d. List.find (\<lambda>r. ac_analyst_id r = analyst_id \<and> ac_revoked_at r = None) (analyst_credentials d)))
       (\<lambda>row. bindM (require_some row analyst_auth_required) (\<lambda>r.
         ret \<lparr>acc_analyst_id = analyst_id, acc_role = ac_role r,
              acc_permissions = sort (permissions_for e (ac_role r)),
              acc_policy_version = access_policy_version e\<rparr>)))"

definition require_analyst_permission :: "env \<Rightarrow> string option \<Rightarrow> string \<Rightarrow> (db, string) act" where
  "require_analyst_permission e authorization permission = bindM (analyst_access e authorization) (\<lambda>access.
     seqM (raise_if (permission \<notin> set (acc_permissions access))
             (HTTPException 403 (''analyst role does not permit '' @ permission)))
     (ret (acc_analyst_id access)))"

section \<open>Frames\<close>

text \<open>How the enrolled agents and the challenges move: rows are kept, a consumed challenge stays so.\<close>

definition agents_kept :: "db \<Rightarrow> db \<Rightarrow> bool" where
  "agents_kept d d' \<longleftrightarrow> (\<exists>x. enrolled_agents d' = enrolled_agents d @ x)"

definition nonce_moves :: "nonce_row \<Rightarrow> nonce_row \<Rightarrow> bool" where
  "nonce_moves r r' \<longleftrightarrow> en_nonce r' = en_nonce r \<and> en_created_at r' = en_created_at r \<and>
     en_expires_at r' = en_expires_at r \<and> (en_consumed_at r \<noteq> None \<longrightarrow> en_consumed_at r' = en_consumed_at r)"

abbreviation nonces_evolve :: "db \<Rightarrow> db \<Rightarrow> bool" where
  "nonces_evolve \<equiv> rows_evolve enrollment_nonces en_nonce nonce_moves"

interpretation nonces: table_evolution enrollment_nonces en_nonce nonce_moves
  by unfold_locales (auto simp: nonce_moves_def)

interpretation nonces: blind_frame nonces_evolve
  by unfold_locales (simp add: nonces.evolve_same audit_onlyD)

interpretation agents: blind_frame agents_kept
  by unfold_locales (auto simp: agents_kept_def audit_onlyD)

section \<open>Bearer tokens\<close>

lemma starts_withD: "starts_with p t \<Longrightarrow> p @ drop (length p) t = t"
  by (metis append_take_drop_id starts_with_def)

lemma starts_with_append: "starts_with p (p @ r)"
  by (simp add: starts_with_def)

lemma bearer_token_iff:
  "bearer_token authorization = Some t \<longleftrightarrow>
    authorization = Some (''Bearer '' @ t) \<and> t \<noteq> [] \<and> py_len t \<le> 512"
proof
  assume "bearer_token authorization = Some t"
  then obtain a where a: "authorization = Some a" "starts_with ''Bearer '' a" "drop (length ''Bearer '') a = t"
    "t \<noteq> []" "py_len t \<le> 512"
    unfolding bearer_token_def Let_def by (simp del: drop_eq_Nil split: option.splits if_splits)
  then show "authorization = Some (''Bearer '' @ t) \<and> t \<noteq> [] \<and> py_len t \<le> 512"
    using starts_withD [OF a(2)] by simp
next
  assume "authorization = Some (''Bearer '' @ t) \<and> t \<noteq> [] \<and> py_len t \<le> 512"
  then show "bearer_token authorization = Some t"
    using starts_with_append [of "''Bearer ''" t] unfolding bearer_token_def Let_def by simp
qed

text \<open>
  Agent authentication: the check passes exactly when the header carries a bearer token of at most
  512 characters whose SHA-256 digest is stored for a live enrollment of that very agent; it never
  changes the database, and everything else is the same 401.
\<close>

lemma require_agent_token_iff:
  "require_agent_token e agent_id authorization d =
    (if \<exists>token r. authorization = Some (''Bearer '' @ token) \<and> token \<noteq> [] \<and> py_len token \<le> 512 \<and>
          active_agent d agent_id = Some r \<and> ea_token_digest r = sha256 e token
     then Inr () else Inl agent_auth_required, d)"
proof -
  note b = bearer_token_iff [of authorization]
  show ?thesis
  proof (cases "bearer_token authorization")
    case None
    then have "\<not> (authorization = Some (''Bearer '' @ t) \<and> t \<noteq> [] \<and> py_len t \<le> 512)" for t
      using b [of t] by simp
    with None show ?thesis by (auto simp: require_agent_token_def)
  next
    case (Some t)
    then have t: "authorization = Some (''Bearer '' @ t)" "t \<noteq> []" "py_len t \<le> 512" using b [of t] by simp_all
    have "(\<exists>token r. authorization = Some (''Bearer '' @ token) \<and> token \<noteq> [] \<and> py_len token \<le> 512 \<and>
        active_agent d agent_id = Some r \<and> ea_token_digest r = sha256 e token) \<longleftrightarrow>
      (\<exists>r. active_agent d agent_id = Some r \<and> ea_token_digest r = sha256 e t)"
      using t by simp
    then show ?thesis
      by (simp only: require_agent_token_def Some require_some_simps bindM_simps bindM_gets digest_def)
        (cases "active_agent d agent_id"; simp add: raise_if_def)
  qed
qed

section \<open>Enrollment\<close>

lemma consume_nonce_Inr:
  assumes "consume_nonce e nonce d = (Inr u, d')"
  shows "\<exists>r. find_by en_nonce nonce (enrollment_nonces d) = Some r \<and> en_consumed_at r = None \<and>
      \<not> en_expires_at r < iso_at (now e) \<and>
      d' = d\<lparr>enrollment_nonces := update_where (\<lambda>x. en_nonce x = nonce \<and> en_consumed_at x = None)
              (\<lambda>x. x\<lparr>en_consumed_at := Some (iso_at (now e))\<rparr>) (enrollment_nonces d)\<rparr>"
  using assms by (auto simp: consume_nonce_def bindM_raise_if raise_if_def split: option.splits if_splits)

lemma consume_nonce_again:
  assumes "find_by en_nonce nonce (enrollment_nonces d) = Some r" and "en_consumed_at r \<noteq> None"
  shows "consume_nonce e nonce d = (Inl invalid_challenge, d)"
  using assms by (simp add: consume_nonce_def bindM_raise_if)

lemma decode_b64_Inr [simp]: "decode_b64 v f d = (Inr x, d') \<longleftrightarrow> b64decode v = Some x \<and> d' = d"
  by (auto simp: decode_b64_def)

definition proves_possession :: "env \<Rightarrow> string \<Rightarrow> string \<Rightarrow> string \<Rightarrow> bool" where
  "proves_possession e public_key nonce signature \<longleftrightarrow>
    (\<exists>key challenge sig. b64decode public_key = Some key \<and> b64decode nonce = Some challenge \<and>
       b64decode signature = Some sig \<and> length key = 65 \<and> length sig = 64 \<and> ecdsa_verify e key sig challenge)"

lemma verify_proof_Inr:
  "verify_proof_of_possession e public_key nonce signature d = (Inr u, d') \<Longrightarrow>
    proves_possession e public_key nonce signature \<and> d' = d"
  by (auto simp: verify_proof_of_possession_def proves_possession_def bindM_Inr_iff)

lemma audit_only_tables:
  "stays audit_only m \<Longrightarrow> m d = (r, d') \<Longrightarrow> enrolled_agents d' = enrolled_agents d \<and>
    enrollment_nonces d' = enrollment_nonces d \<and> artifact_signing_keys d' = artifact_signing_keys d"
  by (metis audit_onlyD stays_run)

lemma artifact_key_enrollment_tables:
  assumes "artifact_key_enrollment e a d = (Inr u, d')"
  shows "enrolled_agents d' = enrolled_agents d \<and> enrollment_nonces d' = enrollment_nonces d"
  using assms audit_only_tables [OF audit_only_insert_security]
  by (fastforce simp: artifact_key_enrollment_def insert_artifact_key_def bindM_Inr_iff draw_def
      split: option.splits)

lemma insert_enrolled_agent_Inr:
  assumes "insert_enrolled_agent e a d = (Inr u, d')"
  shows "ea_agent_id a \<notin> ea_agent_id ` set (enrolled_agents d) \<and>
    enrolled_agents d' = enrolled_agents d @ [a] \<and> enrollment_nonces d' = enrollment_nonces d"
  using assms artifact_key_enrollment_tables
  by (fastforce simp: insert_enrolled_agent_def bindM_raise_if split: if_splits)

lemma on_integrity_error_Inr [simp]: "on_integrity_error x m d = (Inr a, d') \<longleftrightarrow> m d = (Inr a, d')"
  by (auto simp: on_integrity_error_def tryM_def split: prod.splits sum.splits)

lemma enroll_fails_unchanged:
  assumes "enroll e agent_id host_id bootstrap public_key nonce signature d = (Inl x, d')"
  shows "d' = d"
  using assms
  by (auto simp: enroll_def bindM_Inl_iff compare_digest_def bindM_raise_if
      dest!: transaction_Inl split: option.splits if_splits)

lemma enroll_Inr:
  assumes "enroll e agent_id host_id bootstrap public_key nonce signature d = (Inr token, d')"
  shows "enroll_body e agent_id host_id public_key nonce signature d = (Inr token, d')"
    and "environ e ''PANOPTICON_ENROLLMENT_TOKEN'' = Some bootstrap"
  using assms by (auto simp: enroll_def bindM_Inr_iff compare_digest_def split: option.splits if_splits)

definition new_agent :: "env \<Rightarrow> string \<Rightarrow> string \<Rightarrow> string \<Rightarrow> string \<Rightarrow> agent_row" where
  "new_agent e agent_id host_id public_key token =
    \<lparr>ea_agent_id = agent_id, ea_host_id = host_id, ea_token_digest = sha256 e token,
     ea_enrolled_at = iso_now e, ea_revoked_at = None, ea_public_key = Some public_key\<rparr>"

definition active_hosts :: "db \<Rightarrow> string list" where
  "active_hosts d = map ea_host_id (filter (\<lambda>r. ea_revoked_at r = None) (enrolled_agents d))"

lemma enroll_body_Inr:
  assumes "enroll_body e agent_id host_id public_key nonce signature d = (Inr token, d')"
  shows "(\<exists>r. find_by en_nonce nonce (enrollment_nonces d) = Some r \<and> en_consumed_at r = None \<and>
      \<not> en_expires_at r < iso_at (now e)) \<and> proves_possession e public_key nonce signature \<and>
    agent_id \<notin> ea_agent_id ` set (enrolled_agents d) \<and> host_id \<notin> set (active_hosts d) \<and>
    enrolled_agents d' = enrolled_agents d @ [new_agent e agent_id host_id public_key token] \<and>
    enrollment_nonces d' = update_where (\<lambda>x. en_nonce x = nonce \<and> en_consumed_at x = None)
              (\<lambda>x. x\<lparr>en_consumed_at := Some (iso_at (now e))\<rparr>) (enrollment_nonces d)"
proof -
  from assms obtain v d1 w d2 where 1: "consume_nonce e nonce d = (Inr v, d1)"
    and 2: "verify_proof_of_possession e public_key nonce signature d1 = (Inr w, d2)"
    and host: "\<not> (case List.find (\<lambda>r. ea_host_id r = host_id \<and> ea_revoked_at r = None) (enrolled_agents d2) of
           None \<Rightarrow> False | Some r \<Rightarrow> ea_agent_id r \<noteq> agent_id)"
    and 3: "insert_enrolled_agent e (new_agent e agent_id host_id public_key token)
              (d2\<lparr>draws := draws d2 + 1\<rparr>) = (Inr (), d')"
    by (auto simp: enroll_body_def bindM_Inr_iff new_agent_def digest_def draw_def)
  note n = consume_nonce_Inr [OF 1] and p = verify_proof_Inr [OF 2] and i = insert_enrolled_agent_Inr [OF 3]
  have ea: "enrolled_agents d2 = enrolled_agents d" and en: "enrollment_nonces d2 = enrollment_nonces d1"
    using n p by auto
  have fresh: "agent_id \<notin> ea_agent_id ` set (enrolled_agents d)" using i ea by (simp add: new_agent_def)
  have "host_id \<notin> set (active_hosts d)"
  proof
    assume "host_id \<in> set (active_hosts d)"
    then obtain r where f: "List.find (\<lambda>r. ea_host_id r = host_id \<and> ea_revoked_at r = None) (enrolled_agents d) = Some r"
      by (cases "List.find (\<lambda>r. ea_host_id r = host_id \<and> ea_revoked_at r = None) (enrolled_agents d)")
        (auto simp: active_hosts_def find_None_iff)
    then have "ea_agent_id r = agent_id" using host ea by simp
    moreover have "r \<in> set (enrolled_agents d)" using f by (auto simp: find_Some_iff)
    ultimately show False using fresh by blast
  qed
  then show ?thesis using n p i ea en fresh by auto
qed

text \<open>
  C22. Enrollment binds one new identity: it succeeds only with the configured bootstrap token, a challenge
  that is on file, unused and unexpired, and a signature that proves the key; then the agent id was never
  enrolled before (live or revoked), no live agent claims the host, and exactly one row is added, which
  stores the digest of the token returned. Every failure leaves the database as it was.
\<close>

theorem enroll_binds_new_identity:
  assumes "enroll e agent_id host_id bootstrap public_key nonce signature d = (r, d')"
  shows "case r of
      Inl _ \<Rightarrow> d' = d
    | Inr token \<Rightarrow>
        environ e ''PANOPTICON_ENROLLMENT_TOKEN'' = Some bootstrap \<and>
        (\<exists>c. find_by en_nonce nonce (enrollment_nonces d) = Some c \<and> en_consumed_at c = None \<and>
             \<not> en_expires_at c < iso_at (now e)) \<and>
        proves_possession e public_key nonce signature \<and>
        agent_id \<notin> ea_agent_id ` set (enrolled_agents d) \<and> host_id \<notin> set (active_hosts d) \<and>
        enrolled_agents d' = enrolled_agents d @ [new_agent e agent_id host_id public_key token]"
proof (cases r)
  case (Inl x)
  then show ?thesis using assms enroll_fails_unchanged by simp
next
  case (Inr token)
  then show ?thesis
    using enroll_Inr assms enroll_body_Inr [OF enroll_Inr(1)] by simp
qed

definition demo_nonce :: nonce_row where
  "demo_nonce = \<lparr>en_nonce = ''bm9uY2U='', en_created_at = iso_at demo_now, en_expires_at = iso_at demo_now,
    en_consumed_at = None\<rparr>"

definition demo_challenged :: db where
  "demo_challenged = empty_db\<lparr>enrollment_nonces := [demo_nonce]\<rparr>"

definition demo_public_key :: string where
  "demo_public_key = b64encode (CHR 0x04 # replicate 64 CHR ''k'')"

definition demo_enroll :: "string \<Rightarrow> string \<Rightarrow> (db, string) act" where
  "demo_enroll agent_id host_id =
    enroll demo_env agent_id host_id ''secret'' demo_public_key ''bm9uY2U='' (b64encode (replicate 64 CHR ''s''))"

lemma demo_proof:
  "verify_proof_of_possession demo_env demo_public_key ''bm9uY2U='' (b64encode (replicate 64 CHR ''s'')) d = (Inr (), d)"
proof -
  have k: "b64decode demo_public_key = Some (CHR 0x04 # replicate 64 CHR ''k'')"
    unfolding demo_public_key_def by (rule b64decode_b64encode)
  have n: "b64decode ''bm9uY2U='' = Some ''nonce''"
    using b64decode_b64encode [of "''nonce''"] by (simp add: b64_char_def b64_alphabet_def)
  show ?thesis
    unfolding verify_proof_of_possession_def decode_b64_def k n b64decode_b64encode require_some_simps bindM_simps
    by simp
qed

lemma demo_insert:
  assumes "enrolled_agents d = []" and "artifact_signing_keys d = []" and "response_security_audit d = []"
    and "response_audit_ledger d = []"
  shows "\<exists>d'. insert_enrolled_agent demo_env (new_agent demo_env a h demo_public_key t) d = (Inr (), d')"
proof -
  have "public_key_id demo_env demo_public_key = Some (take 16 (CHR 0x04 # replicate 64 CHR ''k''))"
    by (simp add: public_key_id_def public_point_def demo_public_key_def b64decode_b64encode key_id_def)
  then show ?thesis
    using assms
    by (simp add: insert_enrolled_agent_def artifact_key_enrollment_def new_agent_def insert_artifact_key_def
      artifact_key_conflict_def insert_security_audit_def chain_security_audit_def insert_ledger_def guard_accepts
      ledger_conflict_def bindM_raise_if transaction_def bindM_assoc)
qed

lemma demo_enroll_succeeds: "\<exists>d'. demo_enroll ''agent-1'' ''host-1'' demo_challenged = (Inr ''t0'', d')"
proof -
  let ?d1 = "demo_challenged\<lparr>enrollment_nonces := [demo_nonce\<lparr>en_consumed_at := Some (iso_at demo_now)\<rparr>]\<rparr>"
  have 1: "consume_nonce demo_env ''bm9uY2U='' demo_challenged = (Inr (), ?d1)"
    by (simp add: consume_nonce_def demo_challenged_def demo_nonce_def)
  obtain d' where 2: "insert_enrolled_agent demo_env (new_agent demo_env ''agent-1'' ''host-1'' demo_public_key ''t0'')
      (?d1\<lparr>draws := Suc 0\<rparr>) = (Inr (), d')"
    using demo_insert [of "?d1\<lparr>draws := Suc 0\<rparr>" "''agent-1''" "''host-1''" "''t0''"] by (auto simp: demo_challenged_def)
  have d0: "digit 0 = CHR ''0''" by code_simp
  have e: "enrolled_agents ?d1 = []" "draws ?d1 = 0" by (simp_all add: demo_challenged_def)
  have "enroll_body demo_env ''agent-1'' ''host-1'' demo_public_key ''bm9uY2U='' (b64encode (replicate 64 CHR ''s''))
    demo_challenged = (Inr ''t0'', d')"
    using 2 e unfolding enroll_body_def bindM_Inr [where m = "consume_nonce e n" for e n, OF 1]
      bindM_Inr [where m = "verify_proof_of_possession e k n t" for e k n t, OF demo_proof]
    by (simp add: new_agent_def digest_def d0 bindM_Inr)
  then show ?thesis
    by (auto simp: demo_enroll_def enroll_def compare_digest_def isascii_def)
qed

theorem enroll_binds_new_identity_witness:
  "\<exists>d'. demo_enroll ''agent-1'' ''host-1'' demo_challenged = (Inr ''t0'', d') \<and>
     enrolled_agents d' = [new_agent demo_env ''agent-1'' ''host-1'' demo_public_key ''t0'']"
  using demo_enroll_succeeds
    enroll_binds_new_identity [of demo_env "''agent-1''" "''host-1''" "''secret''" demo_public_key "''bm9uY2U=''"
      "b64encode (replicate 64 CHR ''s'')" demo_challenged "Inr ''t0''"]
  by (auto simp: demo_enroll_def demo_challenged_def)

text \<open>
  C23. A challenge works once: after an enrollment with it succeeded, and whatever the manager did to the
  challenges since (rows kept, consumed stays consumed), no second enrollment with it succeeds, under
  any agent id, host or key, and the attempt changes nothing.
\<close>

theorem challenge_works_once:
  assumes "enroll e agent_id host_id bootstrap public_key nonce signature d = (Inr token, d1)"
    and "nonces_evolve d1 d2"
    and "enroll e' agent_id' host_id' bootstrap' public_key' nonce signature' d2 = (r, d3)"
  shows "(\<exists>x. r = Inl x) \<and> d3 = d2"
proof -
  note b = enroll_body_Inr [OF enroll_Inr(1) [OF assms(1)]]
  obtain c where c: "find_by en_nonce nonce (enrollment_nonces d) = Some c" "en_consumed_at c = None" using b by auto
  have "find_by en_nonce nonce (enrollment_nonces d1) = Some (c\<lparr>en_consumed_at := Some (iso_at (now e))\<rparr>)"
    using b c find_by_SomeD [OF c(1)] by (simp add: find_by_update_where)
  then obtain c2 where c2: "find_by en_nonce nonce (enrollment_nonces d2) = Some c2" "en_consumed_at c2 \<noteq> None"
    using assms(2) unfolding rows_evolve_def nonce_moves_def by fastforce
  have "r \<noteq> Inr t" for t
    using assms(3) enroll_body_Inr [OF enroll_Inr(1)] c2 by fastforce
  then show ?thesis using assms(3) enroll_fails_unchanged by (cases r) auto
qed

theorem challenge_works_once_witness:
  "\<exists>d1 r d3. demo_enroll ''agent-1'' ''host-1'' demo_challenged = (Inr ''t0'', d1) \<and>
     demo_enroll ''agent-2'' ''host-2'' d1 = (r, d3) \<and> (\<exists>x. r = Inl x) \<and> d3 = d1"
proof -
  obtain d1 where 1: "demo_enroll ''agent-1'' ''host-1'' demo_challenged = (Inr ''t0'', d1)"
    using demo_enroll_succeeds by blast
  obtain r d3 where 2: "demo_enroll ''agent-2'' ''host-2'' d1 = (r, d3)" by fastforce
  show ?thesis
    using challenge_works_once [OF 1 [unfolded demo_enroll_def] nonces.R_refl 2 [unfolded demo_enroll_def]] 1 2 by blast
qed

definition agents_unique :: "db \<Rightarrow> bool" where
  "agents_unique d \<longleftrightarrow> distinct (map ea_agent_id (enrolled_agents d)) \<and> distinct (active_hosts d)"

text \<open>
  Live agents never share a host, and an agent id has one row: \<open>enroll\<close> keeps both, so no holder of
  the fleet-wide bootstrap token can take over the identity or the host of an enrolled endpoint.
\<close>

lemma enroll_keeps_agents_unique:
  assumes "agents_unique d"
  shows "agents_unique (snd (enroll e agent_id host_id bootstrap public_key nonce signature d)) \<and>
    agents_kept d (snd (enroll e agent_id host_id bootstrap public_key nonce signature d))"
proof (cases "enroll e agent_id host_id bootstrap public_key nonce signature d")
  case (Pair r d')
  show ?thesis
  proof (cases r)
    case (Inl x)
    then have "d' = d" using Pair enroll_fails_unchanged by simp
    then show ?thesis using assms Pair by (simp add: agents_kept_def)
  next
    case (Inr t)
    then show ?thesis
      using assms enroll_body_Inr [OF enroll_Inr(1)] Pair
      by (auto simp: agents_unique_def agents_kept_def active_hosts_def new_agent_def)
  qed
qed

lemma enroll_keeps_agents_unique_witness:
  "agents_unique (snd (demo_enroll ''agent-1'' ''host-1'' demo_challenged)) \<and>
   agents_kept demo_challenged (snd (demo_enroll ''agent-1'' ''host-1'' demo_challenged))"
  unfolding demo_enroll_def
  by (rule enroll_keeps_agents_unique) (simp add: agents_unique_def active_hosts_def demo_challenged_def)

section \<open>Analysts\<close>

lemma require_analyst_token_Inr:
  "require_analyst_token e authorization d = (Inr a, d') \<Longrightarrow> d' = d \<and>
    (\<exists>token r. authorization = Some (''Bearer '' @ token) \<and> r \<in> set (analyst_credentials d) \<and>
       ac_revoked_at r = None \<and> ac_token_digest r = sha256 e token \<and> ac_analyst_id r = a)"
  by (auto simp: require_analyst_token_def bindM_Inr_iff bearer_token_iff digest_def dest!: find_SomeD)

lemma require_analyst_permission_Inr:
  assumes "require_analyst_permission e authorization permission d = (Inr a, d')"
  shows "d' = d \<and> (\<exists>token r role_row. authorization = Some (''Bearer '' @ token) \<and>
    r \<in> set (analyst_credentials d) \<and> ac_revoked_at r = None \<and> ac_token_digest r = sha256 e token \<and>
    ac_analyst_id r = a \<and> role_row \<in> set (analyst_credentials d) \<and> ac_analyst_id role_row = a \<and>
    ac_revoked_at role_row = None \<and> permission \<in> set (permissions_for e (ac_role role_row)))"
proof -
  obtain row d0 where t0: "require_analyst_token e authorization d = (Inr a, d0)"
    and f0: "List.find (\<lambda>r. ac_analyst_id r = a \<and> ac_revoked_at r = None) (analyst_credentials d0) = Some row"
    and p: "permission \<in> set (permissions_for e (ac_role row))" and d0: "d' = d0"
    using assms unfolding require_analyst_permission_def analyst_access_def by (auto simp: bindM_Inr_iff)
  have d: "d0 = d" using require_analyst_token_Inr [OF t0] by simp
  note t = t0 [unfolded d] and f = f0 [unfolded d]
  have "row \<in> set (analyst_credentials d)" "ac_analyst_id row = a" "ac_revoked_at row = None"
    using f by (auto simp: find_Some_iff)
  then show ?thesis using require_analyst_token_Inr [OF t] p d d0 by blast
qed

definition credentials_unique :: "db \<Rightarrow> bool" where
  "credentials_unique d \<longleftrightarrow> distinct (map ac_analyst_id (analyst_credentials d))"

text \<open>
  An analyst action is allowed only to the holder of a live token whose own role carries the
  permission: the name returned is that of the credential whose stored digest matches, and its role
  permits the action. The check changes nothing.
\<close>

lemma analyst_permission_is_own_role:
  assumes "require_analyst_permission e authorization permission d = (Inr a, d')" and "credentials_unique d"
  shows "d' = d \<and> (\<exists>token r. authorization = Some (''Bearer '' @ token) \<and> r \<in> set (analyst_credentials d) \<and>
    ac_analyst_id r = a \<and> ac_revoked_at r = None \<and> ac_token_digest r = sha256 e token \<and>
    permission \<in> set (permissions_for e (ac_role r)))"
  using require_analyst_permission_Inr [OF assms(1)] assms(2)
  unfolding credentials_unique_def by (metis distinct_map inj_onD)

definition demo_analyst :: "string \<Rightarrow> string \<Rightarrow> string \<Rightarrow> analyst_row" where
  "demo_analyst i token role = \<lparr>ac_analyst_id = i, ac_token_digest = token, ac_created_at = ''2026'',
    ac_revoked_at = None, ac_role = role\<rparr>"

lemma demo_analyst_simps [simp]:
  "ac_analyst_id (demo_analyst i t r) = i" "ac_token_digest (demo_analyst i t r) = t"
  "ac_revoked_at (demo_analyst i t r) = None" "ac_role (demo_analyst i t r) = r"
  by (simp_all add: demo_analyst_def)

lemma demo_permission:
  assumes "analyst_credentials d = [demo_analyst i t r]" and "t \<noteq> []" and "py_len t \<le> 512"
    and "permission \<in> {''response:request'', ''response:decide''}"
  shows "require_analyst_permission demo_env (Some (''Bearer '' @ t)) permission d = (Inr i, d)"
proof -
  have "bearer_token (Some (''Bearer '' @ t)) = Some t" using assms(2,3) by (simp add: bearer_token_iff)
  then have r: "require_analyst_token demo_env (Some (''Bearer '' @ t)) d = (Inr i, d)"
    unfolding require_analyst_token_def using assms(1) by (simp add: digest_def)
  have "analyst_access demo_env (Some (''Bearer '' @ t)) d = (Inr \<lparr>acc_analyst_id = i, acc_role = r,
      acc_permissions = sort (permissions_for demo_env r), acc_policy_version = access_policy_version demo_env\<rparr>, d)"
    unfolding analyst_access_def using assms(1) r by (simp add: bindM_Inr)
  then show ?thesis
    unfolding require_analyst_permission_def using assms(4) by (auto simp: bindM_raise_if bindM_Inr)
qed

lemma analyst_permission_is_own_role_witness:
  "let d = empty_db\<lparr>analyst_credentials := [demo_analyst ''ana'' ''tok'' ''analyst'']\<rparr>;
       run = require_analyst_permission demo_env (Some ''Bearer tok'') ''response:decide'' d
   in run = (Inr ''ana'', d) \<and>
      (\<exists>token r. Some ''Bearer tok'' = Some (''Bearer '' @ token) \<and> r \<in> set (analyst_credentials d) \<and>
        ac_analyst_id r = ''ana'' \<and> ac_revoked_at r = None \<and> ac_token_digest r = sha256 demo_env token \<and>
        ''response:decide'' \<in> set (permissions_for demo_env (ac_role r)))"
  using demo_permission [of "empty_db\<lparr>analyst_credentials := [demo_analyst ''ana'' ''tok'' ''analyst'']\<rparr>" "''ana''" "''tok''"
      "''analyst''" "''response:decide''"]
    analyst_permission_is_own_role [of demo_env "Some ''Bearer tok''" "''response:decide''"
      "empty_db\<lparr>analyst_credentials := [demo_analyst ''ana'' ''tok'' ''analyst'']\<rparr>" "''ana''"]
  by (simp add: credentials_unique_def py_len_def Let_def)

lemma check_secret_Inr:
  assumes "check_enrollment_secret e bootstrap role d = (Inr u, d')"
  shows "d' = d \<and> bootstrap \<noteq> [] \<and> environ e (enrollment_variable role) = Some bootstrap \<and>
    (is_admin_role role \<longrightarrow> environ e ''PANOPTICON_ANALYST_ENROLLMENT_TOKEN'' \<noteq> Some bootstrap)"
  using assms
  by (auto simp: check_enrollment_secret_def Let_def compare_digest_def bindM_Inr_iff getenv_or_empty_def
      split: if_splits option.splits)

lemma enroll_analyst_Inr:
  assumes "enroll_analyst e analyst_id bootstrap role d = (Inr token, d')"
  shows "check_enrollment_secret e bootstrap role d = (Inr (), d)"
    and "\<forall>p. find_by ac_analyst_id analyst_id (analyst_credentials d) = Some p \<longrightarrow> is_admin_role (ac_role p) \<longrightarrow> ac_role p = role"
    and "analyst_credentials d' = filter (\<lambda>r. ac_analyst_id r \<noteq> analyst_id) (analyst_credentials d) @
      [\<lparr>ac_analyst_id = analyst_id, ac_token_digest = sha256 e token, ac_created_at = iso_now e,
        ac_revoked_at = None, ac_role = role\<rparr>]"
    and "role \<in> set (analyst_roles e)"
proof -
  obtain v d0 w d1 where c: "check_enrollment_secret e bootstrap role d = (Inr v, d0)"
    and r: "role \<in> set (analyst_roles e)"
    and g: "\<not> (case find_by ac_analyst_id analyst_id (analyst_credentials d0) of None \<Rightarrow> False
               | Some p \<Rightarrow> is_admin_role (ac_role p) \<and> ac_role p \<noteq> role)"
    and ev: "record_event e ''artifact_access_identity_enrolled'' ''system:analyst-enrollment'' None None
       [(''analyst_id'', JStr analyst_id), (''role'', JStr role), (''access_policy_version'', JInt 3),
        (''existing_scopes_apply'', JBool False)] d1 = (Inr w, d')"
    and d1: "analyst_credentials d1 = filter (\<lambda>r. ac_analyst_id r \<noteq> analyst_id) (analyst_credentials d0) @
      [\<lparr>ac_analyst_id = analyst_id, ac_token_digest = sha256 e token, ac_created_at = iso_now e,
        ac_revoked_at = None, ac_role = role\<rparr>]"
    using assms unfolding enroll_analyst_def
    by (auto simp: bindM_Inr_iff digest_def draw_def)
  have "d0 = d" using check_secret_Inr [OF c] by simp
  moreover have "analyst_credentials d' = analyst_credentials d1"
    using stays_run [OF audit_only_writers(4) ev] by (rule audit_onlyD)
  ultimately show "check_enrollment_secret e bootstrap role d = (Inr (), d)"
    "\<forall>p. find_by ac_analyst_id analyst_id (analyst_credentials d) = Some p \<longrightarrow> is_admin_role (ac_role p) \<longrightarrow> ac_role p = role"
    "analyst_credentials d' = filter (\<lambda>r. ac_analyst_id r \<noteq> analyst_id) (analyst_credentials d) @
      [\<lparr>ac_analyst_id = analyst_id, ac_token_digest = sha256 e token, ac_created_at = iso_now e,
        ac_revoked_at = None, ac_role = role\<rparr>]"
    "role \<in> set (analyst_roles e)"
    using c g d1 r by auto
qed

text \<open>
  Administrators are enrolled apart: a credential with an administrator role exists only through the
  secret of that role, which differs from the ordinary analyst secret, and re-enrolling its name
  under another role is refused; the other credentials stay as they are.
\<close>

lemma admin_roles_enrolled_apart:
  assumes "enroll_analyst e analyst_id bootstrap role d = (Inr token, d')"
  shows "environ e (enrollment_variable role) = Some bootstrap \<and>
    (is_admin_role role \<longrightarrow> environ e ''PANOPTICON_ANALYST_ENROLLMENT_TOKEN'' \<noteq> Some bootstrap) \<and>
    (\<forall>p. find_by ac_analyst_id analyst_id (analyst_credentials d) = Some p \<longrightarrow> is_admin_role (ac_role p) \<longrightarrow>
       role = ac_role p) \<and>
    (\<forall>r. ac_analyst_id r \<noteq> analyst_id \<longrightarrow> (r \<in> set (analyst_credentials d') \<longleftrightarrow> r \<in> set (analyst_credentials d)))"
  using enroll_analyst_Inr [OF assms] check_secret_Inr by auto

lemma demo_enroll_analyst: "\<exists>d'. enroll_analyst demo_env ''ana'' ''secret'' ''analyst'' empty_db = (Inr ''t0'', d')"
proof -
  define d where "d = empty_db\<lparr>draws := Suc 0, analyst_credentials := [\<lparr>ac_analyst_id = ''ana'',
     ac_token_digest = ''t0'', ac_created_at = iso_now demo_env, ac_revoked_at = None, ac_role = ''analyst''\<rparr>]\<rparr>"
  have inv: "audit_inv (sha256 demo_env) d"
    using audit_inv_empty [of "sha256 demo_env"]
    by (simp add: d_def audit_inv_def audit_inv_at_def keyed_def source_rows_def)
  have fresh: "uuid4 demo_env (draws d) \<notin> sa_event_id ` set (response_security_audit d)" by (simp add: d_def)
  have "check_enrollment_secret demo_env ''secret'' ''analyst'' empty_db = (Inr (), empty_db)"
    by (simp add: check_enrollment_secret_def getenv_or_empty_def compare_digest_def isascii_def)
  moreover obtain d' where "record_event demo_env ''artifact_access_identity_enrolled'' ''system:analyst-enrollment'' None None
       [(''analyst_id'', JStr ''ana''), (''role'', JStr ''analyst''), (''access_policy_version'', JInt 3),
        (''existing_scopes_apply'', JBool False)] d = (Inr (), d')"
    using record_event_runs [OF inv] fresh by blast
  moreover have "digit 0 = CHR ''0''" by code_simp
  ultimately show ?thesis
    unfolding enroll_analyst_def by (simp add: bindM_Inr digest_def d_def)
qed

lemma admin_roles_enrolled_apart_witness:
  "\<exists>d'. enroll_analyst demo_env ''ana'' ''secret'' ''analyst'' empty_db = (Inr ''t0'', d') \<and>
    environ demo_env (enrollment_variable ''analyst'') = Some ''secret'' \<and>
    (\<forall>r. ac_analyst_id r \<noteq> ''ana'' \<longrightarrow> r \<notin> set (analyst_credentials d'))"
proof -
  obtain d' where r: "enroll_analyst demo_env ''ana'' ''secret'' ''analyst'' empty_db = (Inr ''t0'', d')"
    using demo_enroll_analyst by blast
  then show ?thesis using admin_roles_enrolled_apart [OF r] by auto
qed

section \<open>What identities touch\<close>

text \<open>Everything in this theory changes at most the audit tables and the tables of identities.\<close>

definition erase_identities :: "db \<Rightarrow> db" where
  "erase_identities d = erase_audit d\<lparr>enrolled_agents := [], enrollment_nonces := [],
     analyst_credentials := [], artifact_signing_keys := []\<rparr>"

definition identities_only :: "db \<Rightarrow> db \<Rightarrow> bool" where
  "identities_only d d' \<longleftrightarrow> erase_identities d' = erase_identities d"

lemma audit_only_identities: "audit_only d d' \<Longrightarrow> identities_only d d'"
  by (simp add: audit_only_def identities_only_def erase_identities_def)

interpretation identities: blind_frame identities_only
  by unfold_locales (simp_all add: identities_only_def [symmetric] audit_only_identities, simp_all add: identities_only_def)

lemma identities_modifies:
  "stays identities_only (modify (\<lambda>d. d\<lparr>enrolled_agents := a d\<rparr>))"
  "stays identities_only (modify (\<lambda>d. d\<lparr>enrollment_nonces := b d\<rparr>))"
  "stays identities_only (modify (\<lambda>d. d\<lparr>analyst_credentials := c d\<rparr>))"
  "stays identities_only (modify (\<lambda>d. d\<lparr>artifact_signing_keys := k d\<rparr>))"
  by (simp_all add: stays_def identities_only_def erase_identities_def erase_audit_def)

lemma audit_modifies:
  "stays (audit_grows h) (modify (\<lambda>d. d\<lparr>enrolled_agents := a d\<rparr>))"
  "stays (audit_grows h) (modify (\<lambda>d. d\<lparr>enrollment_nonces := b d\<rparr>))"
  "stays (audit_grows h) (modify (\<lambda>d. d\<lparr>analyst_credentials := c d\<rparr>))"
  "stays (audit_grows h) (modify (\<lambda>d. d\<lparr>artifact_signing_keys := k d\<rparr>))"
  by (simp_all add: stays_def audit_grows_same)

lemmas identity_defs = issue_enrollment_challenge_def enrollment_def enroll_def enroll_body_def consume_nonce_def
  verify_proof_of_possession_def decode_b64_def insert_enrolled_agent_def artifact_key_enrollment_def
  insert_artifact_key_def on_integrity_error_def enroll_analyst_def check_enrollment_secret_def
  require_agent_token_def require_analyst_permission_def analyst_access_def require_analyst_token_def

lemma identities_only_operations:
  "stays identities_only (issue_enrollment_challenge e)"
  "stays identities_only (enrollment e agent_id host_id public_key nonce signature bootstrap)"
  "stays identities_only (enroll_analyst e analyst_id bootstrap role)"
  "stays identities_only (require_agent_token e agent_id authorization)"
  "stays identities_only (require_analyst_permission e authorization permission)"
  "stays identities_only (analyst_access e authorization)"
  unfolding identity_defs
  by (intro identities.stays_structural identities.writers stays_cases identities_modifies)+

lemma audit_grows_identities:
  "stays (audit_grows (sha256 e)) (issue_enrollment_challenge e)"
  "stays (audit_grows (sha256 e)) (enrollment e agent_id host_id public_key nonce signature bootstrap)"
  "stays (audit_grows (sha256 e)) (enroll_analyst e analyst_id bootstrap role)"
  "stays (audit_grows (sha256 e)) (require_agent_token e agent_id authorization)"
  "stays (audit_grows (sha256 e)) (require_analyst_permission e authorization permission)"
  "stays (audit_grows (sha256 e)) (analyst_access e authorization)"
  unfolding identity_defs
  by (intro audit.stays_structural audit_writers stays_cases audit_modifies)+

text \<open>Checks read the database only.\<close>

interpretation unchanged: frame "\<lambda>d d'. d' = (d :: db)"
  by unfold_locales simp_all

lemma checks_change_nothing:
  "stays (\<lambda>d d'. d' = d) (require_agent_token e agent_id authorization)"
  "stays (\<lambda>d d'. d' = d) (require_analyst_permission e authorization permission)"
  "stays (\<lambda>d d'. d' = d) (analyst_access e authorization)"
  unfolding require_agent_token_def require_analyst_permission_def analyst_access_def require_analyst_token_def
  by (intro unchanged.stays_structural stays_cases)+

text \<open>
  The interface for relations that look neither at the audit nor at the identities.
\<close>

locale blind_to_identities = blind_frame +
  assumes blind_identities: "identities_only d d' \<Longrightarrow> R d d'"
begin

lemma stays_identities: "stays identities_only m \<Longrightarrow> stays R m"
  by (simp add: stays_def blind_identities)

lemmas identity_operations = identities_only_operations [THEN stays_identities]

end

end
