(* ===== verification/Profile.thy ===== *)
theory Profile
  imports Auth
begin

text \<open>
  Runtime profiles: \<^verbatim>\<open>manager/response_profile.py\<close>. An endpoint reports its response
  configuration with every poll; the report is validated (\<open>RuntimeProfile\<close>), kept with the channel, and
  consulted as long as it is recent. \<open>policy_block\<close> says why a command must not be sent;
  \<open>delivery_predicate\<close> is the same rule as a SQL condition, applied before the LIMIT of a poll.
\<close>

section \<open>The report\<close>

abbreviation CHANGING :: "string set" where
  "CHANGING \<equiv> {''KILL_PROCESS'', ''QUARANTINE_FILE'', ''ISOLATE_HOST'', ''RELEASE_HOST_ISOLATION''}"

abbreviation PROCESS_ACTIONS :: "string set" where
  "PROCESS_ACTIONS \<equiv> {''KILL_PROCESS'', ''COLLECT_PROCESS_INFO''}"

definition is_lower_hex :: "char \<Rightarrow> bool" where
  "is_lower_hex c \<longleftrightarrow> is_digit c \<or> (97 \<le> (of_char c :: nat) \<and> (of_char c :: nat) \<le> 102)"

definition boot_pattern :: "string \<Rightarrow> bool" where
  "boot_pattern t \<longleftrightarrow> starts_with ''boot_'' t \<and> length t = 69 \<and> list_all is_lower_hex (drop 5 t)"

text \<open>The declared type of each field, in the strict mode of the model.\<close>

definition action_list :: "env \<Rightarrow> json \<Rightarrow> bool" where
  "action_list e v =
    (case v of JArr xs \<Rightarrow> length xs \<le> 7 \<and> list_all (\<lambda>x. \<exists>a\<in>set (actions e). x = JStr a) xs | _ \<Rightarrow> False)"

definition is_bool :: "json \<Rightarrow> bool" where
  "is_bool v = (case v of JBool b \<Rightarrow> True | _ \<Rightarrow> False)"

definition profile_fields :: "env \<Rightarrow> (string \<times> (json \<Rightarrow> bool)) list" where
  "profile_fields e =
    [(''schema_version'', \<lambda>v. v = JStr ''1'' \<or> v = JStr ''2''),
     (''platform'', \<lambda>v. v = JStr ''linux'' \<or> v = JStr ''windows''),
     (''host_id'', \<lambda>v. case v of JStr t \<Rightarrow> 1 \<le> py_len t \<and> py_len t \<le> 256 | _ \<Rightarrow> False),
     (''boot_id'', \<lambda>v. case v of JStr t \<Rightarrow> boot_pattern t | JNull \<Rightarrow> True | _ \<Rightarrow> False),
     (''mode'', \<lambda>v. v \<in> {JStr ''off'', JStr ''dry_run'', JStr ''enforce''}),
     (''implemented_actions'', action_list e), (''allowed_actions'', action_list e),
     (''require_boot_binding'', is_bool), (''require_signature'', is_bool),
     (''artifact_protocol'', \<lambda>v. v = JStr ''signed-json-v2-resume-v1'' \<or> v = JNull),
     (''require_collection_acceptance'', \<lambda>v. is_bool v \<or> v = JNull)]"

definition optional_fields :: "string set" where
  "optional_fields = {''artifact_protocol'', ''require_collection_acceptance''}"

definition jlist :: "json \<Rightarrow> json list" where
  "jlist v = (case v of JArr xs \<Rightarrow> xs | _ \<Rightarrow> [])"

text \<open>The validator \<open>coherent_policy\<close>.\<close>

definition coherent_policy :: "jobj \<Rightarrow> bool" where
  "coherent_policy d \<longleftrightarrow>
    (jget ''schema_version'' d = JStr ''1'' \<longrightarrow> (\<forall>k\<in>optional_fields. \<not> has_key k d)) \<and>
    (jget ''schema_version'' d = JStr ''2'' \<longrightarrow>
       (\<forall>k\<in>optional_fields. has_key k d) \<and> jget ''require_collection_acceptance'' d \<noteq> JNull) \<and>
    distinct (jlist (jget ''implemented_actions'' d)) \<and> distinct (jlist (jget ''allowed_actions'' d)) \<and>
    set (jlist (jget ''allowed_actions'' d)) \<subseteq> set (jlist (jget ''implemented_actions'' d))"

text \<open>Every field present has its type, and only the optional ones may be missing.\<close>

definition fields_valid :: "env \<Rightarrow> jobj \<Rightarrow> bool" where
  "fields_valid e d \<longleftrightarrow>
    list_all (\<lambda>(k, ok). if has_key k d then ok (jget k d) else k \<in> optional_fields) (profile_fields e)"

text \<open>
  \<open>RuntimeProfile.model_validate(...).model_dump(mode="json", exclude_unset=True)\<close>: the fields that were
  given, in the declared order.
\<close>

definition validate_profile :: "env \<Rightarrow> json \<Rightarrow> jobj option" where
  "validate_profile e v =
    (case v of
       JObj d \<Rightarrow>
         if list_all (\<lambda>(k, x). k \<in> fst ` set (profile_fields e)) d \<and>
            fields_valid e d \<and> coherent_policy d
         then Some (map (\<lambda>k. (k, jget k d)) (filter (\<lambda>k. has_key k d) (map fst (profile_fields e))))
         else None
     | _ \<Rightarrow> None)"

definition parse_header :: "env \<Rightarrow> string option \<Rightarrow> (db, jobj option) act" where
  "parse_header e value =
    (case value of
       None \<Rightarrow> ret None
     | Some t \<Rightarrow>
        if 4096 < py_len t \<or> \<not> isascii t
        then throw (HTTPException 422 ''response profile must be Base64 UTF-8 JSON through 4096 header bytes'')
        else
          (let raw = b64decode t;
               text = (case raw of None \<Rightarrow> None | Some b \<Rightarrow> if valid_utf8 b then Some b else None);
               v = (case text of None \<Rightarrow> None | Some b \<Rightarrow> strict_json b)
           in bindM (require_some (case v of None \<Rightarrow> None | Some j \<Rightarrow> validate_profile e j)
                (HTTPException 422 ''invalid response runtime profile''))
              (\<lambda>p. ret (Some p))))"

section \<open>The current profile of an agent\<close>

datatype profile_state = Unknown | Recent | Stale | Invalidated

record profile =
  pr_state :: profile_state
  pr_report :: jobj
  pr_observed_at :: "string option"
  pr_seconds_since_report :: int

definition no_profile :: profile where
  "no_profile = \<lparr>pr_state = Unknown, pr_report = [], pr_observed_at = None, pr_seconds_since_report = 0\<rparr>"

definition current_profile :: "env \<Rightarrow> string \<Rightarrow> string \<Rightarrow> (db, profile) act" where
  "current_profile e agent_id host_id =
    bindM (gets (\<lambda>d. find_by pc_agent_id agent_id (agent_response_channels d))) (\<lambda>row.
    case row of
      None \<Rightarrow> ret no_profile
    | Some r \<Rightarrow>
       (case pc_profile_json r of
          None \<Rightarrow> ret no_profile
        | Some report \<Rightarrow>
           bindM (require_some (pc_profile_observed_at r) (TypeError ''fromisoformat: argument must be str'')) (\<lambda>text.
           bindM (require_some (fromisoformat text) (ValueError ''Invalid isoformat string'')) (\<lambda>observed.
             let age = micros (now e) - micros observed
             in ret \<lparr>pr_state = (if pc_profile_host_id r \<noteq> Some host_id then Invalidated
                                 else if 0 \<le> age \<and> age \<le> seconds 300 then Recent else Stale),
                     pr_report = report, pr_observed_at = Some text,
                     pr_seconds_since_report = max 0 (age div 1000000)\<rparr>))))"

section \<open>Blocked work\<close>

definition jmember :: "string \<Rightarrow> json \<Rightarrow> bool" where
  "jmember t v \<longleftrightarrow> JStr t \<in> set (jlist v)"

definition policy_block :: "profile \<Rightarrow> string \<Rightarrow> jobj \<Rightarrow> string option" where
  "policy_block profile action target =
    (let report = pr_report profile in
     if pr_state profile \<noteq> Recent then None
     else if jget ''mode'' report = JStr ''off'' then Some ''Endpoint reports response mode off''
     else if \<not> jmember action (jget ''implemented_actions'' report)
     then Some ''Endpoint reports action is not implemented''
     else if \<not> jmember action (jget ''allowed_actions'' report)
     then Some ''Endpoint policy does not allow this action''
     else if jget ''mode'' report = JStr ''dry_run'' \<and> action \<in> CHANGING
     then Some ''Endpoint is in dry-run mode; changing actions cannot execute''
     else if action \<in> PROCESS_ACTIONS \<and> has_key ''boot_id'' target \<and>
             \<not> py_eq (jget ''boot_id'' target) (jget ''boot_id'' report)
     then Some ''Retained process target belongs to a different or unknown endpoint boot''
     else if action \<in> PROCESS_ACTIONS \<and> truthy (jget ''require_boot_binding'' report) \<and> \<not> has_key ''boot_id'' target
     then Some ''Endpoint requires a boot-bound process target''
     else None)"

text \<open>\<open>json_extract\<close> of a member: JSON null and a missing member are NULL.\<close>

definition command_target :: "jobj \<Rightarrow> jobj" where
  "command_target c = (case jget ''target'' c of JObj t \<Rightarrow> t | _ \<Rightarrow> [])"

definition allowed_now :: "jobj \<Rightarrow> json list" where
  "allowed_now report =
    filter (\<lambda>a. jget ''mode'' report \<noteq> JStr ''off'' \<and>
                (jget ''mode'' report \<noteq> JStr ''dry_run'' \<or> a \<notin> JStr ` CHANGING))
      (jlist (jget ''allowed_actions'' report))"

definition delivery_predicate :: "profile \<Rightarrow> jobj \<Rightarrow> bool" where
  "delivery_predicate profile c =
    (let report = pr_report profile; allowed = allowed_now report;
         action = jget ''action'' c; boot_id = jget ''boot_id'' (command_target c) in
     if pr_state profile \<noteq> Recent then True
     else if allowed = [] then False
     else action \<in> set allowed \<and>
       (action \<notin> JStr ` PROCESS_ACTIONS \<or>
        (boot_id = JNull \<and> \<not> truthy (jget ''require_boot_binding'' report)) \<or>
        (boot_id \<noteq> JNull \<and> boot_id = jget ''boot_id'' report)))"

section \<open>The two forms agree\<close>

text \<open>What \<open>parse_header\<close> guarantees of a report it returns.\<close>

definition valid_report :: "env \<Rightarrow> jobj \<Rightarrow> bool" where
  "valid_report e report \<longleftrightarrow> (\<exists>d. validate_profile e (JObj d) = Some report)"

lemma map_of_keys: "map_of (map (\<lambda>k. (k, f k)) ks) k = (if k \<in> set ks then Some (f k) else None)"
  by (induction ks) auto

lemma validated_lookup:
  assumes "validate_profile e (JObj d) = Some report"
  shows "jget k report = (if k \<in> fst ` set (profile_fields e) then jget k d else JNull)"
proof -
  have r: "report = map (\<lambda>k. (k, jget k d)) (filter (\<lambda>k. has_key k d) (map fst (profile_fields e)))"
    using assms by (auto simp: validate_profile_def split: if_splits)
  have "jget k d = JNull" if "\<not> has_key k d" using that by (auto simp: has_key_def jget_def)
  then show ?thesis
    unfolding r jget_def map_of_keys by (auto simp: jget_def)
qed

lemma valid_report_facts:
  assumes "valid_report e report"
  shows "set (jlist (jget ''allowed_actions'' report)) \<subseteq> set (jlist (jget ''implemented_actions'' report))"
    and "jget ''boot_id'' report = JNull \<or> (\<exists>t. jget ''boot_id'' report = JStr t)"
proof -
  obtain d where d: "validate_profile e (JObj d) = Some report" using assms by (auto simp: valid_report_def)
  have k: "''allowed_actions'' \<in> fst ` set (profile_fields e)" "''implemented_actions'' \<in> fst ` set (profile_fields e)"
    "''boot_id'' \<in> fst ` set (profile_fields e)"
    by (simp_all add: profile_fields_def)
  have "coherent_policy d" and f: "fields_valid e d"
    using d by (simp_all add: validate_profile_def split: if_split_asm)
  then show "set (jlist (jget ''allowed_actions'' report)) \<subseteq> set (jlist (jget ''implemented_actions'' report))"
    unfolding validated_lookup [OF d] using k by (simp add: coherent_policy_def)
  have "(case jget ''boot_id'' d of JStr t \<Rightarrow> boot_pattern t | JNull \<Rightarrow> True | _ \<Rightarrow> False)"
    using f by (simp add: fields_valid_def profile_fields_def optional_fields_def split: if_splits)
  then show "jget ''boot_id'' report = JNull \<or> (\<exists>t. jget ''boot_id'' report = JStr t)"
    unfolding validated_lookup [OF d] using k by (auto split: json.splits)
qed

text \<open>
  C19. The SQL condition of a poll is the Python rule: for a profile whose report passed validation and a
  queued command whose action is a text and whose target names a boot only by a text, the command
  survives \<open>delivery_predicate\<close> exactly when \<open>policy_block\<close> has no objection. So filtering before the
  LIMIT hides no deliverable command and the re-check after it removes none.
\<close>

theorem delivery_predicate_is_policy_block:
  assumes "valid_report e (pr_report profile)" and "jget ''action'' c = JStr action"
    and "has_key ''boot_id'' (command_target c) \<Longrightarrow> \<exists>t. jget ''boot_id'' (command_target c) = JStr t"
  shows "delivery_predicate profile c \<longleftrightarrow> policy_block profile action (command_target c) = None"
proof (cases "pr_state profile = Recent")
  case False
  then show ?thesis by (simp add: delivery_predicate_def policy_block_def)
next
  case True
  let ?r = "pr_report profile" and ?t = "command_target c"
  have sub: "jmember action (jget ''allowed_actions'' ?r) \<Longrightarrow> jmember action (jget ''implemented_actions'' ?r)"
    using valid_report_facts(1) [OF assms(1)] by (auto simp: jmember_def)
  have missing: "jget ''boot_id'' ?t = JNull" if "\<not> has_key ''boot_id'' ?t"
    using that by (auto simp: has_key_def jget_def)
  have boot: "has_key ''boot_id'' ?t \<Longrightarrow> jget ''boot_id'' ?t \<noteq> JNull \<and>
      (py_eq (jget ''boot_id'' ?t) (jget ''boot_id'' ?r) \<longleftrightarrow> jget ''boot_id'' ?t = jget ''boot_id'' ?r)"
    using assms(3) by auto
  have allowed: "JStr action \<in> set (allowed_now ?r) \<longleftrightarrow> jmember action (jget ''allowed_actions'' ?r) \<and>
      jget ''mode'' ?r \<noteq> JStr ''off'' \<and> \<not> (jget ''mode'' ?r = JStr ''dry_run'' \<and> action \<in> CHANGING)"
    by (auto simp: allowed_now_def jmember_def)
  have "delivery_predicate profile c \<longleftrightarrow> JStr action \<in> set (allowed_now ?r) \<and>
     (action \<notin> PROCESS_ACTIONS \<or>
        (jget ''boot_id'' ?t = JNull \<and> \<not> truthy (jget ''require_boot_binding'' ?r)) \<or>
        (jget ''boot_id'' ?t \<noteq> JNull \<and> jget ''boot_id'' ?t = jget ''boot_id'' ?r))"
    unfolding delivery_predicate_def Let_def assms(2) using True by auto
  also have "\<dots> \<longleftrightarrow> policy_block profile action ?t = None"
    unfolding allowed policy_block_def Let_def using True sub missing boot
    by (cases "has_key ''boot_id'' ?t") (auto split: if_splits)
  finally show ?thesis .
qed

definition demo_report :: jobj where
  "demo_report =
    [(''schema_version'', JStr ''1''), (''platform'', JStr ''linux''), (''host_id'', JStr ''host-1''),
     (''boot_id'', JNull), (''mode'', JStr ''enforce''),
     (''implemented_actions'', JArr [JStr ''ISOLATE_HOST'', JStr ''KILL_PROCESS'']),
     (''allowed_actions'', JArr [JStr ''ISOLATE_HOST'']), (''require_boot_binding'', JBool True),
     (''require_signature'', JBool False)]"

lemma demo_report_valid: "validate_profile demo_env (JObj demo_report) = Some demo_report"
  by (simp add: validate_profile_def fields_valid_def demo_report_def profile_fields_def optional_fields_def coherent_policy_def
      action_list_def is_bool_def jlist_def py_len_def)

theorem delivery_predicate_is_policy_block_witness:
  "let profile = \<lparr>pr_state = Recent, pr_report = demo_report, pr_observed_at = None, pr_seconds_since_report = 0\<rparr>;
       c = [(''action'', JStr ''ISOLATE_HOST''), (''target'', JObj [])]
   in delivery_predicate profile c \<and> policy_block profile ''ISOLATE_HOST'' (command_target c) = None \<and>
      (delivery_predicate profile c \<longleftrightarrow> policy_block profile ''ISOLATE_HOST'' (command_target c) = None)"
proof -
  let ?p = "\<lparr>pr_state = Recent, pr_report = demo_report, pr_observed_at = None, pr_seconds_since_report = 0\<rparr>"
    and ?c = "[(''action'', JStr ''ISOLATE_HOST''), (''target'', JObj [])]"
  have "delivery_predicate ?p ?c = (policy_block ?p ''ISOLATE_HOST'' (command_target ?c) = None)"
    using demo_report_valid
    by (intro delivery_predicate_is_policy_block [of demo_env]) (auto simp: valid_report_def command_target_def)
  moreover have "delivery_predicate ?p ?c"
    by (simp add: delivery_predicate_def demo_report_def allowed_now_def jlist_def command_target_def)
  ultimately show ?thesis by (simp only: Let_def simp_thms)
qed

end
