(* ===== verification/Signing.thy ===== *)
theory Signing
  imports Profile
begin

text \<open>
  Command signatures: \<^verbatim>\<open>manager/command_signing.py\<close>. \<open>load_key_file\<close> (file access, PEM) is the
  parameter \<open>key_file\<close>; the ECDSA primitives are parameters; \<open>signing_input\<close> and \<open>epoch_seconds\<close>
  belong to the vendored package. Key identifiers and \<open>sign_bytes\<close> are in the audit theory, which signs
  checkpoints with them.
\<close>

definition unsignable :: exn where
  "unsignable = UnsignableCommand ''command has no signing input''"

definition sign_authorization :: "env \<Rightarrow> signing_key \<Rightarrow> jobj \<Rightarrow> (db, jobj) act" where
  "sign_authorization e key command =
    bindM (require_some (epoch_seconds e (jget ''expires_at'' command)) unsignable) (\<lambda>expires.
    bindM (require_some (epoch_seconds e (jget ''created_at'' command)) unsignable) (\<lambda>created.
    seqM (raise_if (\<not> (0 < expires - created \<and> expires - created \<le> 900))
            (UnsignableCommand ''signed command lifetime must be within 900 seconds''))
    (bindM (require_some (signing_input e command) unsignable) (\<lambda>data.
     ret (sign_bytes (sha256 e) key data)))))"

text \<open>\<open>verify(command, point)\<close>; every failure is \<open>False\<close>.\<close>

definition verify_command :: "env \<Rightarrow> jobj \<Rightarrow> string \<Rightarrow> bool" where
  "verify_command e command point =
    (case jget ''authorization'' command of
       JObj authorization \<Rightarrow>
         jget ''algorithm'' authorization = JStr ''ES256'' \<and>
         jget ''key_id'' authorization = JStr (key_id (sha256 e) point) \<and>
         (case jget ''signature'' authorization of
            JStr t \<Rightarrow>
              (case b64decode t of
                 None \<Rightarrow> False
               | Some raw \<Rightarrow>
                  length raw = 64 \<and> on_curve e point \<and>
                  (case signing_input e (jpop ''authorization'' command) of
                     None \<Rightarrow> False | Some data \<Rightarrow> ecdsa_verify e point raw data))
          | _ \<Rightarrow> False)
     | _ \<Rightarrow> False)"

text \<open>\<open>signer()\<close>: reread for each authorization; a configured key that cannot be loaded raises.\<close>

definition signer :: "env \<Rightarrow> (db, signing_key option) act" where
  "signer e =
    (let configured = getenv_or_empty e ''PANOPTICON_COMMAND_SIGNING_KEY''
     in if configured = [] then ret None
        else bindM (require_some (key_file e configured)
               (SigningUnavailable ''configured command signing key is unavailable'')) (\<lambda>k. ret (Some k)))"

definition readiness :: "env \<Rightarrow> string \<times> string option" where
  "readiness e =
    (let configured = getenv_or_empty e ''PANOPTICON_COMMAND_SIGNING_KEY''
     in if configured = [] then (''not_configured'', None)
        else case key_file e configured of
          None \<Rightarrow> (''unavailable'', None)
        | Some k \<Rightarrow> (''ready'', Some (key_id (sha256 e) (sk_public_point k))))"

text \<open>\<open>keyring_line\<close>: the public point and its identifier, for pinning on an endpoint.\<close>

definition keyring_line :: "env \<Rightarrow> signing_key \<Rightarrow> string" where
  "keyring_line e key = b64encode (sk_public_point key) @ '' '' @ key_id (sha256 e) (sk_public_point key)"

text \<open>What the signature scheme is relied on for: signatures of a key verify under its public point.\<close>

definition signs_correctly :: "env \<Rightarrow> signing_key \<Rightarrow> bool" where
  "signs_correctly e key \<longleftrightarrow> on_curve e (sk_public_point key) \<and>
    (\<forall>m. length (sk_sign key m) = 64 \<and> ecdsa_verify e (sk_public_point key) (sk_sign key m) m)"

lemma jpop_jset: "\<not> has_key k d \<Longrightarrow> jpop k (jset k v d) = d"
proof (induction d)
  case (Cons kv d)
  obtain k' v' where kv: "kv = (k', v')" by fastforce
  with Cons show ?case by (auto simp: jpop_def)
qed (simp add: jpop_def)

lemma jget_jset [simp]: "jget k' (jset k v d) = (if k' = k then v else jget k' d)"
  by (induction k v d rule: jset.induct) (auto simp: jget_def)

lemma has_key_jset [simp]: "has_key k' (jset k v d) \<longleftrightarrow> k' = k \<or> has_key k' d"
  by (induction k v d rule: jset.induct) (auto simp: has_key_def)

lemma authorization_Inr:
  assumes "sign_authorization e key command d = (Inr a, d')"
  shows "d' = d \<and> (\<exists>data. signing_input e command = Some data \<and> a = sign_bytes (sha256 e) key data)"
  using assms by (auto simp: sign_authorization_def bindM_Inr_iff)

lemma signed_command_verifies:
  assumes "sign_authorization e key command d = (Inr a, d')" and "\<not> has_key ''authorization'' command"
    and "signs_correctly e key"
  shows "verify_command e (jset ''authorization'' (JObj a) command) (sk_public_point key)"
  using authorization_Inr [OF assms(1)] assms(2,3)
  by (auto simp: verify_command_def sign_bytes_def b64decode_b64encode jpop_jset signs_correctly_def)

text \<open>
  C24. A command signed at authorization verifies: the payload with the signature that \<open>CommandSigner.authorization\<close>
  returned passes \<open>verify\<close> under the signing key's public point, and it was signed only because its
  lifetime is at most 900 seconds.
\<close>

theorem authorization_verifies:
  assumes "sign_authorization e key command d = (Inr a, d')" and "\<not> has_key ''authorization'' command"
    and "signs_correctly e key"
  shows "verify_command e (jset ''authorization'' (JObj a) command) (sk_public_point key) \<and>
    (\<exists>expires created. epoch_seconds e (jget ''expires_at'' command) = Some expires \<and>
       epoch_seconds e (jget ''created_at'' command) = Some created \<and> 0 < expires - created \<and> expires - created \<le> 900)"
  using signed_command_verifies [OF assms] assms(1) by (auto simp: sign_authorization_def bindM_Inr_iff)

definition demo_signing_env :: env where
  "demo_signing_env = demo_env\<lparr>epoch_seconds := (\<lambda>v. if v = JStr ''later'' then Some 60 else Some 0)\<rparr>"

definition demo_key :: signing_key where
  "demo_key = \<lparr>sk_public_point = ''point'', sk_sign = (\<lambda>m. replicate 64 CHR ''s'')\<rparr>"

theorem authorization_verifies_witness:
  "let c = [(''expires_at'', JStr ''later''), (''created_at'', JStr ''now'')]
   in \<exists>a. sign_authorization demo_signing_env demo_key c empty_db = (Inr a, empty_db) \<and>
        verify_command demo_signing_env (jset ''authorization'' (JObj a) c) ''point''"
proof -
  let ?c = "[(''expires_at'', JStr ''later''), (''created_at'', JStr ''now'')]"
  have "sign_authorization demo_signing_env demo_key ?c empty_db =
      (Inr (sign_bytes (sha256 demo_signing_env) demo_key (canonical (JObj ?c))), empty_db)"
    by (simp add: sign_authorization_def demo_signing_env_def)
  moreover have "signs_correctly demo_signing_env demo_key"
    by (simp add: signs_correctly_def demo_signing_env_def demo_key_def)
  ultimately show ?thesis
    using authorization_verifies [of demo_signing_env demo_key ?c empty_db] by (auto simp: demo_key_def)
qed

end
