(* ===== verification/Queue.thy ===== *)
theory Queue
  imports Signing
begin

text \<open>
  The command queue: the parts of \<^verbatim>\<open>manager/routers/commands.py\<close> that put commands in and
  retire them (\<open>authorize_and_enqueue\<close>, the raw endpoint \<open>enqueue\<close>, \<open>_expire_stale_commands\<close>), and
  \<open>cancel_queued\<close> of \<^verbatim>\<open>manager/auto_triage.py\<close>. The relation \<open>commands_evolve\<close> is the contract
  of the queue: rows are never lost, their payload never changes, and their state only moves along
  the lifecycle.
\<close>

section \<open>Times of commands\<close>

text \<open>\<open>t <= datetime.now(t.tzinfo)\<close>: instants when \<open>t\<close> is aware, wall clocks when it is naive.\<close>

definition has_passed :: "env \<Rightarrow> datetime \<Rightarrow> bool" where
  "has_passed e t \<longleftrightarrow>
    (case utcoffset t of Some _ \<Rightarrow> micros t \<le> micros (now e) | None \<Rightarrow> wall t \<le> wall (localtime e))"

text \<open>\<open>t.astimezone(timezone.utc)\<close>; a naive time is taken as local.\<close>

definition astimezone_utc :: "env \<Rightarrow> datetime \<Rightarrow> datetime" where
  "astimezone_utc e t =
    of_micros (case utcoffset t of Some _ \<Rightarrow> micros t | None \<Rightarrow> wall t - (wall (localtime e) - micros (now e)))"

section \<open>Putting a command into the queue\<close>

abbreviation COLLECTIONS :: "string set" where
  "COLLECTIONS \<equiv> {''COLLECT_PROCESS_INFO'', ''COLLECT_NETWORK_CONNECTIONS'', ''COLLECT_FILE''}"

definition command_payload :: "env \<Rightarrow> command \<Rightarrow> string \<Rightarrow> jobj" where
  "command_payload e c host_id =
    (let dumped = dump_command e c;
         payload = (if cmd_schema_version c = ''2''
                    then jset ''expires_at'' (JStr (isoformat (astimezone_utc e (cmd_expires_at c)))) dumped
                    else dumped)
     in jupdate payload
          [(''schema_version'', JStr (cmd_schema_version c)), (''host_id'', JStr host_id),
           (''created_at'', JStr (now_text e))])"

text \<open>The signing block: the payload with its signature, and the detail of the audit entry.\<close>

definition sign_payload :: "env \<Rightarrow> string \<Rightarrow> jobj \<Rightarrow> (db, jobj \<times> string option) act" where
  "sign_payload e agent_id payload =
    tryM
      (bindM (signer e) (\<lambda>s.
        case s of
          Some key \<Rightarrow>
            bindM (sign_authorization e key payload) (\<lambda>a.
              ret (jset ''authorization'' (JObj a) payload,
                   Some (''signed ES256 key_id='' @ key_id (sha256 e) (sk_public_point key))))
        | None \<Rightarrow>
            bindM (gets (\<lambda>d. \<exists>r\<in>set (agent_response_channels d).
                     pc_agent_id r = agent_id \<and> pc_command_auth r = Some ''ES256'')) (\<lambda>required.
              seqM (raise_if required
                      (HTTPException 503 ''endpoint requires signing; configure command authority first''))
              (ret (payload, None)))))
      (\<lambda>x. throw (case x of
          SigningUnavailable _ \<Rightarrow> HTTPException 503 ''command signing is configured but unavailable''
        | UnsignableCommand m \<Rightarrow> HTTPException 422 (''command cannot be signed: '' @ m)
        | _ \<Rightarrow> x))"

definition insert_command :: "command_row \<Rightarrow> (db, unit) act" where
  "insert_command r = bindM (gets commands) (\<lambda>rows.
     seqM (raise_if (cm_command_id r \<in> cm_command_id ` set rows) IntegrityError)
     (modify (\<lambda>d. d\<lparr>commands := commands d @ [r]\<rparr>)))"

definition enqueue_body :: "env \<Rightarrow> command \<Rightarrow> string \<Rightarrow> string option \<Rightarrow> (db, unit) act" where
  "enqueue_body e c actor alert_id =
    bindM (gets (\<lambda>d. active_agent d (cmd_agent_id c))) (\<lambda>found.
    bindM (require_some found (HTTPException 422 ''target agent is not enrolled'')) (\<lambda>enrolled.
    bindM (current_profile e (cmd_agent_id c) (ea_host_id enrolled)) (\<lambda>profile.
    seqM (case policy_block profile (cmd_action c) (cmd_target c) of
            Some blocker \<Rightarrow> throw (HTTPException 409 blocker) | None \<Rightarrow> ret ())
    (bindM (sign_payload e (cmd_agent_id c) (command_payload e c (ea_host_id enrolled))) (\<lambda>(payload, audit_detail).
    seqM (insert_command
            \<lparr>cm_command_id = cmd_command_id c, cm_agent_id = cmd_agent_id c, cm_command_json = payload,
             cm_created_at = iso_now e, cm_expires_at = isoformat (cmd_expires_at c), cm_delivered_at = None,
             cm_alert_id = alert_id, cm_lifecycle_state = AUTHORIZED\<rparr>)
    (seqM (audit e (cmd_command_id c) ''created'' actor audit_detail)
    (if cmd_action c \<in> COLLECTIONS
     then bindM (gets (\<lambda>d. response_of_command d (cmd_command_id c))) (\<lambda>request.
            record_event e ''artifact_requested'' actor (Some (ea_host_id enrolled)) request
              [(''command_id'', JStr (cmd_command_id c)), (''action'', JStr (cmd_action c)),
               (''maximum_artifact_bytes'', JInt 1048576)])
     else ret ())))))))"

text \<open>
  \<open>authorize_and_enqueue\<close> owns its transaction when none is open; called inside one, it leaves the
  statements it made to the caller.
\<close>

definition authorize_and_enqueue :: "env \<Rightarrow> bool \<Rightarrow> command \<Rightarrow> string \<Rightarrow> string option \<Rightarrow> (db, unit) act" where
  "authorize_and_enqueue e owns_transaction c actor alert_id =
    seqM (raise_if (has_passed e (cmd_expires_at c)) (HTTPException 422 ''command expired''))
    ((if owns_transaction then transaction else (\<lambda>m. m))
      (on_integrity_error (HTTPException 409 ''command_id already exists'') (enqueue_body e c actor alert_id)))"

text \<open>POST /api/v1/commands, with the command token of the deployment.\<close>

definition enqueue :: "env \<Rightarrow> command \<Rightarrow> string \<Rightarrow> (db, string) act" where
  "enqueue e c token =
    (let expected = getenv_or_empty e ''PANOPTICON_COMMAND_TOKEN''
     in seqM (raise_if (expected = []) (HTTPException 401 ''command authorization required''))
        (bindM (compare_digest expected token) (\<lambda>same.
          seqM (raise_if (\<not> same) (HTTPException 401 ''command authorization required''))
          (seqM (authorize_and_enqueue e True c ''system:command-token'' None) (ret (cmd_command_id c))))))"

section \<open>Retiring commands\<close>

abbreviation OPEN_STATES :: "lifecycle set" where
  "OPEN_STATES \<equiv> {PENDING, AUTHORIZED, DISPATCHED, ACCEPTED}"

definition set_command :: "(command_row \<Rightarrow> command_row) \<Rightarrow> string \<Rightarrow> db \<Rightarrow> db" where
  "set_command f command_id d = d\<lparr>commands := update_where (\<lambda>r. cm_command_id r = command_id) f (commands d)\<rparr>"

definition stale_commands :: "string \<Rightarrow> db \<Rightarrow> string list" where
  "stale_commands now_iso d =
    map cm_command_id (filter (\<lambda>r. cm_lifecycle_state r \<in> OPEN_STATES \<and> cm_expires_at r \<le> now_iso) (commands d))"

definition expire_stale_commands :: "env \<Rightarrow> string \<Rightarrow> (db, unit) act" where
  "expire_stale_commands e now_iso = bindM (gets (stale_commands now_iso)) (\<lambda>ids.
     forM (\<lambda>c. seqM (modify (set_command (\<lambda>r. r\<lparr>cm_lifecycle_state := EXPIRED\<rparr>) c))
                (audit e c ''expired'' ''system:expiry-sweep'' None)) ids)"

text \<open>The command of a response: \<open>response_actions ra JOIN commands c ON c.command_id = ra.command_id\<close>.\<close>

definition command_of :: "db \<Rightarrow> response_row \<Rightarrow> command_row option" where
  "command_of d ra =
    (case ra_command_id ra of None \<Rightarrow> None | Some c \<Rightarrow> find_by cm_command_id c (commands d))"

definition command_of_response :: "db \<Rightarrow> string \<Rightarrow> command_row option" where
  "command_of_response d response_id =
    (case find_by ra_response_id response_id (response_actions d) of
       None \<Rightarrow> None | Some ra \<Rightarrow> command_of d ra)"

definition cancel_queued :: "env \<Rightarrow> string \<Rightarrow> string \<Rightarrow> string \<Rightarrow> (db, unit) act" where
  "cancel_queued e response_id actor reason =
    bindM (gets (\<lambda>d. command_of_response d response_id)) (\<lambda>found.
    bindM (require_some found (HTTPException 404 ''response has no queued command'')) (\<lambda>row.
    if cm_lifecycle_state row = CANCELLED then ret ()
    else seqM (raise_if (cm_lifecycle_state row \<noteq> AUTHORIZED)
                 (HTTPException 409 ''only commands awaiting dispatch can be cancelled''))
         (seqM (modify (set_command (\<lambda>r. r\<lparr>cm_lifecycle_state := CANCELLED\<rparr>) (cm_command_id row)))
         (seqM (audit e (cm_command_id row) ''cancelled'' actor (Some reason))
         (record_decision e response_id ''cancelled'' actor (Some [(''reason'', JStr reason)]))))))"

section \<open>The contract of the queue\<close>

text \<open>The states a command can be in later. Terminal states are final.\<close>

fun reaches :: "lifecycle \<Rightarrow> lifecycle \<Rightarrow> bool" where
  "reaches PENDING s = (s \<in> {PENDING, EXPIRED})"
| "reaches AUTHORIZED s = (s \<noteq> PENDING)"
| "reaches DISPATCHED s = (s \<notin> {PENDING, AUTHORIZED, CANCELLED})"
| "reaches ACCEPTED s = (s \<notin> {PENDING, AUTHORIZED, DISPATCHED, CANCELLED})"
| "reaches s t = (t = s)"

definition terminal :: "lifecycle \<Rightarrow> bool" where
  "terminal s \<longleftrightarrow> s \<notin> OPEN_STATES"

lemma reaches_refl [simp]: "reaches s s"
  by (cases s) auto

lemma reaches_trans: "reaches s t \<Longrightarrow> reaches t u \<Longrightarrow> reaches s u"
  by (cases s; cases t; cases u) auto

lemma terminal_final: "terminal s \<Longrightarrow> reaches s t \<Longrightarrow> t = s"
  by (cases s) (auto simp: terminal_def)

definition command_moves :: "command_row \<Rightarrow> command_row \<Rightarrow> bool" where
  "command_moves r r' \<longleftrightarrow>
    cm_command_id r' = cm_command_id r \<and> cm_agent_id r' = cm_agent_id r \<and>
    cm_command_json r' = cm_command_json r \<and> cm_created_at r' = cm_created_at r \<and>
    cm_expires_at r' = cm_expires_at r \<and> cm_alert_id r' = cm_alert_id r \<and>
    (cm_delivered_at r \<noteq> None \<longrightarrow> cm_delivered_at r' = cm_delivered_at r) \<and>
    reaches (cm_lifecycle_state r) (cm_lifecycle_state r')"

interpretation command_rows: table_evolution commands cm_command_id command_moves
  by unfold_locales (auto simp: command_moves_def intro: reaches_trans)

definition commands_keyed :: "db \<Rightarrow> bool" where
  "commands_keyed d \<longleftrightarrow> distinct (map cm_command_id (commands d))"

text \<open>
  On a table whose primary key holds, the primary key is kept and every command moves along
  \<open>command_moves\<close>.
\<close>

definition commands_evolve :: "db \<Rightarrow> db \<Rightarrow> bool" where
  "commands_evolve d d' \<longleftrightarrow>
    (commands_keyed d \<longrightarrow> commands_keyed d' \<and> rows_evolve commands cm_command_id command_moves d d')"

lemma commands_evolve_same: "commands d' = commands d \<Longrightarrow> commands_evolve d d'"
  by (simp add: commands_evolve_def commands_keyed_def command_rows.evolve_same)

lemma identities_onlyD:
  assumes "identities_only d d'"
  shows "commands d' = commands d" "response_actions d' = response_actions d" "alerts d' = alerts d"
    "command_results d' = command_results d" "command_result_receipts d' = command_result_receipts d"
    "response_request_keys d' = response_request_keys d" "triage_runs d' = triage_runs d"
    "agent_response_channels d' = agent_response_channels d" "triage_items d' = triage_items d"
  using assms
  by (cases d, cases d', simp add: identities_only_def erase_identities_def erase_audit_def)+

interpretation queue: blind_to_identities commands_evolve
proof unfold_locales
  show "commands_evolve s s" for s by (simp add: commands_evolve_same)
  show "commands_evolve s t \<Longrightarrow> commands_evolve t u \<Longrightarrow> commands_evolve s u" for s t u
    unfolding commands_evolve_def by (metis command_rows.R_trans)
  show "audit_only d d' \<Longrightarrow> commands_evolve d d'" for d d'
    by (simp add: commands_evolve_same audit_onlyD)
  show "identities_only d d' \<Longrightarrow> commands_evolve d d'" for d d'
    by (simp add: commands_evolve_same identities_onlyD)
qed

section \<open>Every queue operation keeps the contract\<close>

lemma set_command_evolves:
  assumes "\<And>r. cm_command_id (f r) = cm_command_id r"
    and "\<And>r. r \<in> set (commands d) \<Longrightarrow> cm_command_id r = c \<Longrightarrow> command_moves r (f r)"
  shows "commands_evolve d (set_command f c d)"
  using assms unfolding commands_evolve_def commands_keyed_def
  by (auto simp: set_command_def map_key_update_where intro!: command_rows.evolve_update)

text \<open>
  A loop that sets the rows of a list of keys: it keeps the contract when each row satisfies, before the
  loop, a condition \<open>Q\<close> under which the step is a move and which the step keeps.
\<close>

lemma set_loop_evolves:
  assumes id: "\<And>r. cm_command_id (f r) = cm_command_id r"
    and move: "\<And>r. Q r \<Longrightarrow> command_moves r (f r) \<and> Q (f r)"
    and w: "\<And>c. stays audit_only (w c)"
    and "\<forall>c\<in>set cs. \<forall>r\<in>set (commands d). cm_command_id r = c \<longrightarrow> Q r"
  shows "commands_evolve d (snd (forM (\<lambda>c. seqM (modify (set_command f c)) (w c)) cs d))"
  using assms(4)
proof (induction cs arbitrary: d)
  case Nil
  then show ?case by (simp add: queue.R_refl)
next
  case (Cons c cs)
  let ?d1 = "set_command f c d"
  obtain x d2 where w2: "w c ?d1 = (x, d2)" by fastforce
  then have "audit_only ?d1 d2" using w by (metis stays_run)
  then have cmd: "commands d2 = commands ?d1" by (rule audit_onlyD)
  have "commands_evolve d ?d1" using Cons.prems id move by (intro set_command_evolves) auto
  then have step: "commands_evolve d d2" using queue.R_trans commands_evolve_same [OF cmd] by blast
  show ?case
  proof (cases x)
    case (Inl y)
    then show ?thesis using step w2 by (simp add: bindM_def)
  next
    case (Inr u)
    have "\<forall>c'\<in>set cs. \<forall>r\<in>set (commands d2). cm_command_id r = c' \<longrightarrow> Q r"
      using Cons.prems id move by (auto simp: cmd set_command_def set_update_where)
    from Cons.IH [OF this] step show ?thesis
      using Inr w2 queue.R_trans by (simp add: bindM_def)
  qed
qed

lemma insert_command_evolves: "stays commands_evolve (insert_command r)"
  by (rule staysI)
    (auto simp: insert_command_def bindM_raise_if commands_evolve_def commands_keyed_def
      command_rows.R_refl intro: command_rows.evolve_append)

lemma reads_only:
  "stays (\<lambda>d d'. d' = d) (current_profile e agent_id host_id)"
  "stays (\<lambda>d d'. d' = d) (sign_authorization e key payload)"
  "stays (\<lambda>d d'. d' = d) (signer e)"
  "stays (\<lambda>d d'. d' = d) (sign_payload e agent_id payload)"
  "stays (\<lambda>d d'. d' = d) (parse_header e header)"
  unfolding current_profile_def sign_authorization_def signer_def sign_payload_def parse_header_def
  by (intro unchanged.stays_structural stays_cases)+

lemma stays_read: "stays (\<lambda>d d'. d' = d) m \<Longrightarrow> (\<And>d. R d d) \<Longrightarrow> stays R m"
  by (simp add: stays_def)

lemmas queue_reads = reads_only [THEN stays_read, of commands_evolve, OF queue.R_refl]
  checks_change_nothing [THEN stays_read, of commands_evolve, OF queue.R_refl]

lemma stays_owned: "stays R (transaction m) \<Longrightarrow> stays R m \<Longrightarrow> stays R ((if b then transaction else (\<lambda>m. m)) m)"
  by simp

lemma authorize_and_enqueue_evolves: "stays commands_evolve (authorize_and_enqueue e owns c actor alert_id)"
  unfolding authorize_and_enqueue_def enqueue_body_def on_integrity_error_def
  by (intro queue.stays_structural queue.writers queue_reads insert_command_evolves stays_cases stays_owned)

lemma enqueue_evolves: "stays commands_evolve (enqueue e c token)"
  unfolding enqueue_def Let_def
  by (intro queue.stays_structural authorize_and_enqueue_evolves)

lemma expire_stale_commands_evolves: "stays commands_evolve (expire_stale_commands e now_iso)"
proof (rule staysI)
  fix d
  have "commands_evolve d (snd (forM (\<lambda>c. seqM (modify (set_command (\<lambda>r. r\<lparr>cm_lifecycle_state := EXPIRED\<rparr>) c))
                (audit e c ''expired'' ''system:expiry-sweep'' None)) (stale_commands now_iso d) d))"
    if "commands_keyed d"
  proof (rule set_loop_evolves [where Q = "\<lambda>r. cm_lifecycle_state r \<in> insert EXPIRED OPEN_STATES"])
    show "\<forall>c\<in>set (stale_commands now_iso d). \<forall>r\<in>set (commands d). cm_command_id r = c \<longrightarrow>
        cm_lifecycle_state r \<in> insert EXPIRED OPEN_STATES"
      using that unfolding commands_keyed_def stale_commands_def distinct_map by (auto dest: inj_onD)
  qed (auto simp: command_moves_def intro: audit_only_writers)
  then show "commands_evolve d (snd (expire_stale_commands e now_iso d))"
    by (auto simp: expire_stale_commands_def commands_evolve_def)
qed

lemma command_of_response_key:
  assumes "command_of_response d response_id = Some r" and "commands_keyed d" and "x \<in> set (commands d)"
    and "cm_command_id x = cm_command_id r"
  shows "x = r"
proof -
  have "r \<in> set (commands d)"
    using assms(1) by (auto simp: command_of_response_def command_of_def split: option.splits dest: find_by_SomeD)
  then show ?thesis using assms(2-4) by (auto simp: commands_keyed_def distinct_map dest: inj_onD)
qed

lemma cancel_queued_evolves: "stays commands_evolve (cancel_queued e response_id actor reason)"
proof (rule staysI)
  fix d
  show "commands_evolve d (snd (cancel_queued e response_id actor reason d))"
  proof (cases "\<exists>r. command_of_response d response_id = Some r \<and> cm_lifecycle_state r = AUTHORIZED")
    case False
    then show ?thesis
      by (cases "command_of_response d response_id") (auto simp: cancel_queued_def bindM_raise_if queue.R_refl)
  next
    case True
    then obtain r where r: "command_of_response d response_id = Some r" "cm_lifecycle_state r = AUTHORIZED" by blast
    let ?d = "set_command (\<lambda>r. r\<lparr>cm_lifecycle_state := CANCELLED\<rparr>) (cm_command_id r) d"
      and ?w = "seqM (audit e (cm_command_id r) ''cancelled'' actor (Some reason))
         (record_decision e response_id ''cancelled'' actor (Some [(''reason'', JStr reason)]))"
    have "commands_evolve d ?d" if "commands_keyed d"
      using command_of_response_key [OF r(1) that] r(2)
      by (intro set_command_evolves) (fastforce simp: command_moves_def)+
    then have 1: "commands_evolve d ?d" by (auto simp: commands_evolve_def)
    have "stays commands_evolve ?w" by (intro queue.stays_structural queue.writers)
    then have "commands_evolve ?d (snd (?w ?d))" by (rule staysD)
    with 1 show ?thesis using r by (auto simp: cancel_queued_def intro: queue.R_trans)
  qed
qed

section \<open>And the audit\<close>

lemma audit_set_command: "stays (audit_grows h) (modify (set_command f c))"
  by (simp add: stays_def set_command_def audit_grows_same)

lemma audit_insert_command: "stays (audit_grows h) (insert_command r)"
  by (rule staysI) (simp add: insert_command_def bindM_raise_if audit_grows_same)

lemmas audit_reads = reads_only [THEN stays_read, of "audit_grows h" for h, OF audit.R_refl]
  checks_change_nothing [THEN stays_read, of "audit_grows h" for h, OF audit.R_refl]

lemma audit_queue:
  "stays (audit_grows (sha256 e)) (authorize_and_enqueue e owns c actor alert_id)"
  "stays (audit_grows (sha256 e)) (enqueue e c token)"
  "stays (audit_grows (sha256 e)) (expire_stale_commands e now_iso)"
  "stays (audit_grows (sha256 e)) (cancel_queued e response_id actor reason)"
  unfolding enqueue_def Let_def expire_stale_commands_def cancel_queued_def authorize_and_enqueue_def enqueue_body_def
    on_integrity_error_def
  by (intro audit.stays_structural audit_writers audit_reads audit_set_command audit_insert_command stays_cases stays_owned)+

section \<open>What an enqueued command is\<close>

lemma tryM_Inr_iff: "tryM m h d = (Inr a, d') \<longleftrightarrow> m d = (Inr a, d') \<or> (\<exists>x d1. m d = (Inl x, d1) \<and> h x d1 = (Inr a, d'))"
  by (auto simp: tryM_def split: prod.splits sum.splits)

definition requires_signature :: "db \<Rightarrow> string \<Rightarrow> bool" where
  "requires_signature d agent_id \<longleftrightarrow>
    (\<exists>r\<in>set (agent_response_channels d). pc_agent_id r = agent_id \<and> pc_command_auth r = Some ''ES256'')"

lemma sign_payload_Inr:
  assumes "sign_payload e agent_id payload d = (Inr (p, detail), d')"
  shows "d' = d \<and> ((p = payload \<and> \<not> requires_signature d agent_id \<and>
       getenv_or_empty e ''PANOPTICON_COMMAND_SIGNING_KEY'' = []) \<or>
    (\<exists>key a. key_file e (getenv_or_empty e ''PANOPTICON_COMMAND_SIGNING_KEY'') = Some key \<and>
       sign_authorization e key payload d = (Inr a, d) \<and> p = jset ''authorization'' (JObj a) payload))"
proof -
  have "stays (\<lambda>d d'. d' = d) (sign_payload e agent_id payload)" by (rule reads_only)
  then have "d' = d" using assms by (rule stays_run)
  then show ?thesis
    using assms
    by (auto simp: sign_payload_def tryM_Inr_iff bindM_Inr_iff signer_def Let_def requires_signature_def
        split: option.splits if_splits dest: authorization_Inr)
qed

lemma jget_payload:
  "jget ''host_id'' (command_payload e c host_id) = JStr host_id"
  "jget ''created_at'' (command_payload e c host_id) = JStr (now_text e)"
  by (simp_all add: command_payload_def jupdate_def Let_def)

definition new_command :: "env \<Rightarrow> command \<Rightarrow> string option \<Rightarrow> jobj \<Rightarrow> command_row" where
  "new_command e c alert_id payload =
    \<lparr>cm_command_id = cmd_command_id c, cm_agent_id = cmd_agent_id c, cm_command_json = payload,
     cm_created_at = iso_now e, cm_expires_at = isoformat (cmd_expires_at c), cm_delivered_at = None,
     cm_alert_id = alert_id, cm_lifecycle_state = AUTHORIZED\<rparr>"

lemma audit_only_commands: "stays audit_only m \<Longrightarrow> m d = (r, d') \<Longrightarrow> commands d' = commands d"
  by (metis audit_onlyD(1) stays_run)

lemma read_result: "stays (\<lambda>d d'. d' = d) m \<Longrightarrow> m d = (r, d') \<Longrightarrow> d' = d"
  by (rule stays_run)

lemma authorize_and_enqueue_Inr:
  assumes "authorize_and_enqueue e owns c actor alert_id d = (Inr u, d')"
  shows "\<exists>enrolled profile payload detail.
    \<not> has_passed e (cmd_expires_at c) \<and> active_agent d (cmd_agent_id c) = Some enrolled \<and>
    current_profile e (cmd_agent_id c) (ea_host_id enrolled) d = (Inr profile, d) \<and>
    policy_block profile (cmd_action c) (cmd_target c) = None \<and>
    sign_payload e (cmd_agent_id c) (command_payload e c (ea_host_id enrolled)) d = (Inr (payload, detail), d) \<and>
    cmd_command_id c \<notin> cm_command_id ` set (commands d) \<and>
    commands d' = commands d @ [new_command e c alert_id payload]"
proof -
  have body: "enqueue_body e c actor alert_id d = (Inr u, d')" and t: "\<not> has_passed e (cmd_expires_at c)"
    using assms by (auto simp: authorize_and_enqueue_def bindM_Inr_iff split: if_splits)
  obtain enrolled where ag: "active_agent d (cmd_agent_id c) = Some enrolled"
    using body by (auto simp: enqueue_body_def bindM_Inr_iff)
  obtain profile d1 payload detail d2 d3 v d4 where
    p: "current_profile e (cmd_agent_id c) (ea_host_id enrolled) d = (Inr profile, d1)"
    and b: "policy_block profile (cmd_action c) (cmd_target c) = None"
    and s: "sign_payload e (cmd_agent_id c) (command_payload e c (ea_host_id enrolled)) d1 = (Inr (payload, detail), d2)"
    and i: "insert_command (new_command e c alert_id payload) d2 = (Inr (), d3)"
    and a: "audit e (cmd_command_id c) ''created'' actor detail d3 = (Inr v, d4)"
    and last: "(if cmd_action c \<in> COLLECTIONS
     then bindM (gets (\<lambda>d. response_of_command d (cmd_command_id c))) (\<lambda>request.
            record_event e ''artifact_requested'' actor (Some (ea_host_id enrolled)) request
              [(''command_id'', JStr (cmd_command_id c)), (''action'', JStr (cmd_action c)),
               (''maximum_artifact_bytes'', JInt 1048576)])
     else ret ()) d4 = (Inr u, d')"
    using body ag unfolding enqueue_body_def new_command_def
    by (auto simp: bindM_Inr_iff split: option.splits prod.splits)
  have d1: "d1 = d" using p by (rule read_result [OF reads_only(1)])
  have d2: "d2 = d1" using s by (rule read_result [OF reads_only(4)])
  have i': "cmd_command_id c \<notin> cm_command_id ` set (commands d)" "commands d3 = commands d @ [new_command e c alert_id payload]"
    using i d1 d2 by (auto simp: insert_command_def bindM_raise_if new_command_def split: if_splits)
  have "commands d4 = commands d3" using a by (rule audit_only_commands [OF audit_only_writers(5)])
  moreover have "commands d' = commands d4"
    using last by (rule audit_only_commands [rotated])
      (intro stays_if audit_only.stays_structural audit_only_writers)
  ultimately show ?thesis using t ag p b s i' d1 d2 by auto
qed

text \<open>
  C6. What authorizing a command means: it succeeds only for an unexpired command to a live enrolled
  agent whose recent runtime profile does not object, under an unused command id; then the queue gains
  exactly this command, AUTHORIZED, bound to the enrolled host. When a signing key is configured the
  payload carries its signature, and an agent that has negotiated ES256 never gets an unsigned one.
\<close>

theorem authorized_command_is_bound:
  assumes "authorize_and_enqueue e owns c actor alert_id d = (Inr u, d')"
  shows "\<exists>enrolled profile payload.
    \<not> has_passed e (cmd_expires_at c) \<and> active_agent d (cmd_agent_id c) = Some enrolled \<and>
    current_profile e (cmd_agent_id c) (ea_host_id enrolled) d = (Inr profile, d) \<and>
    policy_block profile (cmd_action c) (cmd_target c) = None \<and>
    cmd_command_id c \<notin> cm_command_id ` set (commands d) \<and>
    commands d' = commands d @ [new_command e c alert_id payload] \<and>
    jget ''host_id'' payload = JStr (ea_host_id enrolled) \<and>
    (getenv_or_empty e ''PANOPTICON_COMMAND_SIGNING_KEY'' \<noteq> [] \<or> requires_signature d (cmd_agent_id c) \<longrightarrow>
       has_key ''authorization'' payload)"
proof -
  obtain enrolled profile payload detail where h: "\<not> has_passed e (cmd_expires_at c)"
    "active_agent d (cmd_agent_id c) = Some enrolled"
    "current_profile e (cmd_agent_id c) (ea_host_id enrolled) d = (Inr profile, d)"
    "policy_block profile (cmd_action c) (cmd_target c) = None"
    "sign_payload e (cmd_agent_id c) (command_payload e c (ea_host_id enrolled)) d = (Inr (payload, detail), d)"
    "cmd_command_id c \<notin> cm_command_id ` set (commands d)"
    "commands d' = commands d @ [new_command e c alert_id payload]"
    using authorize_and_enqueue_Inr [OF assms] by blast
  have "jget ''host_id'' payload = JStr (ea_host_id enrolled)"
    "getenv_or_empty e ''PANOPTICON_COMMAND_SIGNING_KEY'' \<noteq> [] \<or> requires_signature d (cmd_agent_id c) \<longrightarrow>
       has_key ''authorization'' payload"
    using sign_payload_Inr [OF h(5)] jget_payload(1) by auto
  then show ?thesis using h by blast
qed

definition demo_plain_env :: env where
  "demo_plain_env = demo_env\<lparr>environ := (\<lambda>k. if k = ''PANOPTICON_COMMAND_SIGNING_KEY'' then None else Some ''secret'')\<rparr>"

definition demo_agent :: "string \<Rightarrow> string \<Rightarrow> string \<Rightarrow> agent_row" where
  "demo_agent i host token = \<lparr>ea_agent_id = i, ea_host_id = host, ea_token_digest = token,
    ea_enrolled_at = ''2026'', ea_revoked_at = None, ea_public_key = None\<rparr>"

definition demo_command :: "string \<Rightarrow> command" where
  "demo_command i = \<lparr>cmd_command_id = i, cmd_agent_id = ''agent-1'', cmd_schema_version = ''1'',
    cmd_action = ''ISOLATE_HOST'', cmd_expires_at = of_micros (micros demo_now + 900000000),
    cmd_target = [], cmd_other = []\<rparr>"

lemma sha256_plain [simp]: "sha256 demo_plain_env = (\<lambda>t. t)"
  by (simp add: demo_plain_env_def sha256_demo_env)

lemma plain_env_simps [simp]:
  "now demo_plain_env = demo_now" "uuid4 demo_plain_env = uuid4 demo_env"
  "environ demo_plain_env k = (if k = ''PANOPTICON_COMMAND_SIGNING_KEY'' then None else Some ''secret'')"
  "dump_command demo_plain_env = demo_dump"
  by (simp_all add: demo_plain_env_def)

definition demo_fleet :: db where
  "demo_fleet = empty_db\<lparr>enrolled_agents := [demo_agent ''agent-1'' ''host-1'' ''tok'']\<rparr>"

lemma demo_command_fresh: "\<not> has_passed demo_plain_env (cmd_expires_at (demo_command i))"
proof -
  have "86400000000 \<le> micros demo_now + 900000000" using micros_pos [OF utc_demo_now] by simp
  from of_micros_fields(1,2) [OF this] show ?thesis by (simp add: has_passed_def demo_command_def)
qed

lemma demo_enqueued:
  "\<exists>d' p. authorize_and_enqueue demo_plain_env True (demo_command ''c1'') actor None demo_fleet = (Inr (), d') \<and>
    commands d' = [new_command demo_plain_env (demo_command ''c1'') None p]"
proof -
  let ?e = demo_plain_env and ?c = "demo_command ''c1''"
  define p where "p = command_payload ?e ?c ''host-1''"
  define d1 where "d1 = demo_fleet\<lparr>commands := [new_command ?e ?c None p]\<rparr>"
  have 1: "current_profile ?e ''agent-1'' ''host-1'' demo_fleet = (Inr no_profile, demo_fleet)"
    by (simp add: current_profile_def demo_fleet_def)
  have 2: "sign_payload ?e ''agent-1'' p demo_fleet = (Inr (p, None), demo_fleet)"
    by (simp add: sign_payload_def signer_def getenv_or_empty_def demo_fleet_def tryM_def)
  have inv: "audit_inv (sha256 ?e) d1"
    using audit_inv_empty [of "\<lambda>t. t"]
    by (simp add: d1_def demo_fleet_def audit_inv_def audit_inv_at_def keyed_def source_rows_def)
  obtain d' where 3: "audit ?e ''c1'' ''created'' actor None d1 = (Inr (), d')"
    using audit_runs [OF inv, of "''c1''" "''created''" actor None] by (auto simp: d1_def demo_fleet_def new_command_def demo_command_def)
  have sel: "cmd_agent_id ?c = ''agent-1''" "cmd_command_id ?c = ''c1''" "cmd_action ?c = ''ISOLATE_HOST''"
    by (simp_all add: demo_command_def)
  have ag: "active_agent demo_fleet ''agent-1'' = Some (demo_agent ''agent-1'' ''host-1'' ''tok'')"
    by (simp add: active_agent_def demo_fleet_def demo_agent_def)
  have h: "ea_host_id (demo_agent ''agent-1'' ''host-1'' ''tok'') = ''host-1''" by (simp add: demo_agent_def)
  have no: "policy_block no_profile a t = None" for a t by (simp add: policy_block_def no_profile_def)
  have ins: "insert_command (new_command ?e ?c None p) demo_fleet = (Inr (), d1)"
    by (simp add: insert_command_def d1_def bindM_raise_if demo_fleet_def)
  have "commands d' = commands d1" using stays_run [OF audit_only_writers(5) 3] by (rule audit_onlyD)
  moreover have "enqueue_body ?e ?c actor None demo_fleet = (Inr (), d')"
    unfolding enqueue_body_def sel new_command_def [of ?e ?c None, unfolded sel, symmetric]
    using 1 2 3 ins by (simp add: ag h no bindM_Inr p_def [symmetric])
  ultimately show ?thesis using demo_command_fresh by (auto simp: authorize_and_enqueue_def d1_def)
qed

theorem authorized_command_is_bound_witness:
  "\<exists>d' payload. authorize_and_enqueue demo_plain_env True (demo_command ''c1'') ''system:demo'' None demo_fleet = (Inr (), d') \<and>
     commands d' = commands demo_fleet @ [new_command demo_plain_env (demo_command ''c1'') None payload] \<and>
     jget ''host_id'' payload = JStr ''host-1''"
proof -
  obtain d' where r: "authorize_and_enqueue demo_plain_env True (demo_command ''c1'') ''system:demo'' None demo_fleet = (Inr (), d')"
    using demo_enqueued by blast
  have "active_agent demo_fleet ''agent-1'' = Some (demo_agent ''agent-1'' ''host-1'' ''tok'')"
    by (simp add: active_agent_def demo_fleet_def demo_agent_def)
  then show ?thesis
    using authorized_command_is_bound [OF r] r by (auto simp: demo_command_def demo_agent_def)
qed

end
