(* ===== verification/Guard.thy ===== *)
theory Guard
  imports Queue
begin

text \<open>
  What a response may target, and whether automatic work may still run:
  \<^verbatim>\<open>manager/analyst_response.py\<close> (\<open>resolve_manual_target\<close>), the reads of
  \<^verbatim>\<open>manager/triage_store.py\<close>, \<open>current\<close> of \<^verbatim>\<open>manager/artifact_keys.py\<close>, and the deciding half of
  \<^verbatim>\<open>manager/auto_triage.py\<close> (\<open>endpoint\<close>, \<open>usage\<close>, \<open>collection_target\<close>, \<open>guard\<close>, \<open>deadline\<close>,
  \<open>dispatchable\<close>). None of them writes a row; resolving a target only draws an identifier.
\<close>

section \<open>JSON values of unknown shape\<close>

text \<open>\<open>v.get(k)\<close> on a value that may not be a dictionary, and \<open>v or {}\<close>.\<close>

definition get_attr :: "string \<Rightarrow> json \<Rightarrow> ('s, json) act" where
  "get_attr k v = (case v of JObj d \<Rightarrow> ret (jget k d) | _ \<Rightarrow> throw (AttributeError ''get''))"

definition or_empty :: "json \<Rightarrow> json" where
  "or_empty v = (if truthy v then v else JObj [])"

text \<open>\<open>d.get(k, {})\<close>: the default only stands in for a missing key.\<close>

definition get_or_empty :: "string \<Rightarrow> json \<Rightarrow> json" where
  "get_or_empty k v =
    (case v of JObj d \<Rightarrow> (case map_of d k of None \<Rightarrow> JObj [] | Some x \<Rightarrow> x) | _ \<Rightarrow> JObj [])"

section \<open>Catching HTTP errors\<close>

text \<open>\<open>try: m / except HTTPException\<close>, with the status and detail as a value.\<close>

definition catch_http :: "('s, 'a) act \<Rightarrow> ('s, (int \<times> string) + 'a) act" where
  "catch_http m = (\<lambda>s. case m s of
      (Inl x, s') \<Rightarrow> (case x of HTTPException c t \<Rightarrow> (Inr (Inl (c, t)), s') | _ \<Rightarrow> (Inl x, s'))
    | (Inr a, s') \<Rightarrow> (Inr (Inr a), s'))"

lemma snd_catch_http: "snd (catch_http m s) = snd (m s)"
  by (simp add: catch_http_def split: prod.splits sum.splits exn.splits)

lemma stays_catch_http: "stays R m \<Longrightarrow> stays R (catch_http m)"
  by (simp add: stays_def snd_catch_http)

lemma catch_http_Inr_iff:
  "catch_http m s = (Inr (Inr a), s') \<longleftrightarrow> m s = (Inr a, s')"
  "catch_http m s = (Inr (Inl (c, t)), s') \<longleftrightarrow> m s = (Inl (HTTPException c t), s')"
  by (auto simp: catch_http_def split: prod.splits sum.splits exn.splits)

section \<open>Targets of manual responses\<close>

text \<open>An alert with the live enrollment of its agent.\<close>

definition bound_alert :: "db \<Rightarrow> string \<Rightarrow> (alert_row \<times> agent_row) option" where
  "bound_alert d alert_id =
    (case find_by al_alert_id alert_id (alerts d) of
       None \<Rightarrow> None
     | Some a \<Rightarrow>
        (case al_agent_id a of
           None \<Rightarrow> None
         | Some g \<Rightarrow> (case active_agent d g of None \<Rightarrow> None | Some r \<Rightarrow> Some (a, r))))"

text \<open>The endpoint named by a retained context must be the enrolled one.\<close>

definition check_context :: "json \<Rightarrow> string \<Rightarrow> string \<Rightarrow> ('s, unit) act" where
  "check_context context agent host =
    (if context = JNull then ret ()
     else (case get_or_empty ''endpoint'' context of
             JObj endpoint \<Rightarrow>
               raise_if (jget ''agent_id'' endpoint \<noteq> JStr agent \<or> jget ''host_id'' endpoint \<noteq> JStr host)
                 (HTTPException 409 ''canonical endpoint binding disagrees with enrollment'')
           | _ \<Rightarrow> throw (HTTPException 422 ''invalid retained endpoint context'')))"

definition isdecimal :: "string \<Rightarrow> bool" where
  "isdecimal t \<longleftrightarrow> t \<noteq> [] \<and> list_all is_digit t"

definition native_ticks :: "json \<Rightarrow> json" where
  "native_ticks v =
    (case v of JStr t \<Rightarrow> if isdecimal t \<and> length t \<le> 20 then JInt (int (str_nat t)) else JNull | _ \<Rightarrow> JNull)"

text \<open>The recommendation a process target is recomputed from.\<close>

definition process_recommendation :: "jobj \<Rightarrow> json \<Rightarrow> ('s, jobj) act" where
  "process_recommendation rec context =
    (case or_empty (jget ''active_response'' rec) of
       JObj recommendation \<Rightarrow>
         if context = JNull then ret recommendation
         else (case get_or_empty ''subject'' context of
                 JObj subject \<Rightarrow>
                   ret [(''target_pid'', jget ''observed_pid'' subject),
                        (''target_start_time_ticks'', native_ticks (jget ''native_creation_ticks'' subject))]
               | _ \<Rightarrow> throw (HTTPException 422 ''invalid retained process subject''))
     | _ \<Rightarrow> throw (HTTPException 422 ''invalid retained process recommendation''))"

text \<open>A process target comes from the alert; a target that was given must agree with it.\<close>

definition process_target :: "env \<Rightarrow> jobj \<Rightarrow> json \<Rightarrow> string \<Rightarrow> jobj \<Rightarrow> ('s, jobj) act" where
  "process_target e rec context action target =
    (if action \<in> PROCESS_ACTIONS
     then bindM (process_recommendation rec context) (\<lambda>recommendation.
            case translate_recommendation e
                   (JStr (if action = ''KILL_PROCESS'' then ''TERMINATE_PROCESS'' else action))
                   recommendation (Some context) of
              None \<Rightarrow> throw (HTTPException 422 ''process target must match verified alert identity'')
            | Some (_, mapped, _) \<Rightarrow>
                seqM (raise_if (target \<noteq> [] \<and> \<not> py_eq (JObj target) (JObj mapped))
                        (HTTPException 422 ''process target must match verified alert identity''))
                (ret mapped))
     else ret target)"

definition command_version :: "jobj \<Rightarrow> string" where
  "command_version target = (if has_key ''boot_id'' target then ''2'' else ''1'')"

definition resolve_manual_target :: "env \<Rightarrow> string \<Rightarrow> string \<Rightarrow> jobj \<Rightarrow> (db, string \<times> string \<times> jobj) act" where
  "resolve_manual_target e alert_id action target =
    bindM (gets (\<lambda>d. bound_alert d alert_id)) (\<lambda>found.
    bindM (require_some found (HTTPException 422 ''alert must belong to an actively enrolled endpoint'')) (\<lambda>(a, enrolled).
    let agent = ea_agent_id enrolled; host = ea_host_id enrolled in
    case al_alert_json a of
      JObj rec \<Rightarrow>
        (let context = jget ''endpoint_context'' rec in
         seqM (raise_if (al_host_id a \<noteq> None \<and> al_host_id a \<noteq> Some host)
                 (HTTPException 409 ''alert and enrolled host binding disagree''))
         (seqM (check_context context agent host)
         (bindM (process_target e rec context action target) (\<lambda>target.
          bindM (draw (uuid4 e)) (\<lambda>i.
          bindM (require_some
                   (make_command e \<lparr>cmd_command_id = i, cmd_agent_id = agent,
                      cmd_schema_version = command_version target, cmd_action = action,
                      cmd_expires_at = plus_delta (now e) (seconds 900), cmd_target = target, cmd_other = []\<rparr>)
                   (HTTPException 422 ''invalid target for response action'')) (\<lambda>c.
          ret (agent, host, cmd_target c)))))))
    | _ \<Rightarrow> throw (HTTPException 422 ''invalid retained alert context'')))"

section \<open>Reads of the triage store\<close>

definition policy_for :: "db \<Rightarrow> string \<Rightarrow> jobj option" where
  "policy_for d rule_id =
    (case find_by th_rule_id rule_id (triage_policy_heads d) of
       None \<Rightarrow> None
     | Some h \<Rightarrow>
        map_option tp_policy_json
          (List.find (\<lambda>p. tp_rule_id p = th_rule_id h \<and> tp_version p = th_version h) (triage_policy_revisions d)))"

definition asset_for :: "db \<Rightarrow> string \<Rightarrow> string \<times> int" where
  "asset_for d host_id =
    (case find_by as_host_id host_id (triage_asset_classes d) of
       None \<Rightarrow> (''unknown'', 0) | Some r \<Rightarrow> (as_asset_class r, as_version r))"

text \<open>The newest usable signing key of a live agent.\<close>

definition current_key :: "db \<Rightarrow> string \<Rightarrow> artifact_key_row option" where
  "current_key d agent_id =
    (case rev (order_by ak_key_version
        (filter (\<lambda>k. ak_agent_id k = agent_id \<and> ak_retired_at k = None \<and> ak_compromised_at k = None \<and>
                     (\<exists>a\<in>set (enrolled_agents d). ea_agent_id a = ak_agent_id k \<and> ea_host_id a = ak_host_id k \<and>
                        ea_revoked_at a = None)) (artifact_signing_keys d))) of
       [] \<Rightarrow> None | k # _ \<Rightarrow> Some k)"

section \<open>Capability and budget of an endpoint\<close>

text \<open>An alert may name no agent; the queries then match nothing.\<close>

definition profile_of :: "env \<Rightarrow> string option \<Rightarrow> string \<Rightarrow> (db, profile) act" where
  "profile_of e agent host = (case agent of None \<Rightarrow> ret no_profile | Some a \<Rightarrow> current_profile e a host)"

definition report_default :: "string \<Rightarrow> json \<Rightarrow> jobj \<Rightarrow> json" where
  "report_default k v report = (case map_of report k of None \<Rightarrow> v | Some x \<Rightarrow> x)"

definition endpoint :: "env \<Rightarrow> string option \<Rightarrow> string \<Rightarrow> (db, capability) act" where
  "endpoint e agent host =
    bindM (profile_of e agent host) (\<lambda>profile.
    bindM (gets (\<lambda>d. case agent of None \<Rightarrow> None | Some a \<Rightarrow> current_key d a)) (\<lambda>key.
    let report = pr_report profile;
        c = \<lparr>cap_platform = report_default ''platform'' (JStr ''linux'') report, cap_recent = (pr_state profile = Recent),
             cap_mode = report_default ''mode'' (JStr ''off'') report,
             cap_implemented_actions = report_default ''implemented_actions'' (JArr []) report,
             cap_allowed_actions = report_default ''allowed_actions'' (JArr []) report,
             cap_authenticated_command_channel = True,
             cap_collection_acceptance_gate = (jget ''require_collection_acceptance'' report = JBool True),
             cap_artifact_protocol = (if key = None then JNull else jget ''artifact_protocol'' report)\<rparr>
    in seqM (raise_if (\<not> valid_capability e c) ValidationError) (ret c)))"

text \<open>
  The rows of \<open>usage\<close>: an item that reserved bytes, its run, and the states of its response and command.
\<close>

record usage_row =
  us_item :: item_row
  us_run :: run_row
  us_response_state :: "lifecycle option"
  us_command_state :: "lifecycle option"

definition response_of_item :: "db \<Rightarrow> item_row \<Rightarrow> response_row option" where
  "response_of_item d i =
    (case ti_response_id i of None \<Rightarrow> None | Some r \<Rightarrow> find_by ra_response_id r (response_actions d))"

definition command_state_of :: "db \<Rightarrow> response_row option \<Rightarrow> lifecycle option" where
  "command_state_of d ra =
    (case ra of None \<Rightarrow> None | Some r \<Rightarrow> map_option cm_lifecycle_state (command_of d r))"

abbreviation IN_FLIGHT :: "lifecycle option set" where
  "IN_FLIGHT \<equiv> {Some AUTHORIZED, Some DISPATCHED, Some ACCEPTED}"

definition us_active :: "usage_row \<Rightarrow> bool" where
  "us_active u \<longleftrightarrow> us_response_state u = Some PENDING \<or> us_command_state u \<in> IN_FLIGHT"

definition usage_rows :: "db \<Rightarrow> string \<Rightarrow> usage_row list" where
  "usage_rows d cutoff =
    filter (\<lambda>u. 0 < ti_reserved_bytes (us_item u) \<and> (cutoff \<le> tr_created_at (us_run u) \<or> us_active u))
      (map (\<lambda>(i, r). \<lparr>us_item = i, us_run = r,
              us_response_state = map_option ra_lifecycle_state (response_of_item d i),
              us_command_state = command_state_of d (response_of_item d i)\<rparr>)
        (triage_pairs d (\<lambda>_. True)))"

definition count_usage :: "string option \<Rightarrow> string \<Rightarrow> string \<Rightarrow> string option \<Rightarrow> usage_row \<Rightarrow> budget_usage \<Rightarrow> budget_usage" where
  "count_usage agent alert cutoff exclude_action u v =
    (let i = us_item u; b = ti_reserved_bytes i; mine = (Some (tr_agent_id (us_run u)) = agent) in
     if ti_alert_id i = alert \<and> Some (ti_action i) = exclude_action then v
     else
       (let v = (if ti_alert_id i = alert
                 then v\<lparr>actions_for_alert := actions_for_alert v + 1, bytes_for_alert := bytes_for_alert v + b\<rparr> else v);
            v = (if mine \<and> cutoff \<le> tr_created_at (us_run u)
                 then v\<lparr>actions_in_endpoint_window := actions_in_endpoint_window v + 1,
                        bytes_in_endpoint_window := bytes_in_endpoint_window v + b\<rparr> else v)
        in if us_active u
           then v\<lparr>active_global := active_global v + 1,
                  active_for_endpoint := active_for_endpoint v + (if mine then 1 else 0)\<rparr> else v))"

definition usage :: "env \<Rightarrow> string option \<Rightarrow> string \<Rightarrow> policy \<Rightarrow> string option \<Rightarrow> (db, budget_usage) act" where
  "usage e agent alert po exclude_action =
    (let cutoff = isoformat (plus_delta (now e) (- seconds (po_endpoint_window_seconds po)))
     in bindM (gets (\<lambda>d. usage_rows d cutoff)) (\<lambda>rows.
        require_some (make_usage e (fold (count_usage agent alert cutoff exclude_action) rows (initial_usage e)))
          ValidationError))"

section \<open>Targets of automatic collection\<close>

text \<open>The paths retained with an alert; two sources must agree.\<close>

definition file_paths :: "jobj \<Rightarrow> json list" where
  "file_paths rec =
    (let evidence = or_empty (jget ''evidence'' rec);
         file = (case evidence of JObj ev \<Rightarrow> or_empty (jget ''file'' ev) | _ \<Rightarrow> JObj []);
         get = (\<lambda>k v. case v of JObj d \<Rightarrow> jget k d | _ \<Rightarrow> JNull)
     in filter (\<lambda>v. v \<noteq> JNull) [get ''target_file'' (or_empty (jget ''active_response'' rec)), get ''path'' file])"

definition collection_target :: "env \<Rightarrow> string \<Rightarrow> string \<Rightarrow> (db, string \<times> string \<times> jobj) act" where
  "collection_target e alert action =
    bindM (if action = ''COLLECT_FILE''
           then bindM (gets (\<lambda>d. find_by al_alert_id alert (alerts d))) (\<lambda>row.
                bindM (require_some row (TypeError ''NoneType is not subscriptable'')) (\<lambda>a.
                case al_alert_json a of
                  JObj rec \<Rightarrow>
                    (case file_paths rec of
                       JStr p # ps \<Rightarrow>
                         seqM (raise_if (\<exists>x\<in>set ps. x \<noteq> JStr p)
                                 (HTTPException 422 ''alert file target is missing or ambiguous''))
                         (ret [(''path'', JStr p)])
                     | _ \<Rightarrow> throw (HTTPException 422 ''alert file target is missing or ambiguous''))
                | _ \<Rightarrow> throw (AttributeError ''get'')))
           else ret [])
    (\<lambda>target. resolve_manual_target e alert action target)"

section \<open>The live guard\<close>

text \<open>\<open>fromisoformat(t) <= datetime.now(timezone.utc)\<close>; a naive time cannot be compared.\<close>

definition text_passed :: "env \<Rightarrow> string \<Rightarrow> ('s, bool) act" where
  "text_passed e t =
    bindM (require_some (fromisoformat t) (ValueError ''Invalid isoformat string'')) (\<lambda>x.
    seqM (raise_if (utcoffset x = None) (TypeError ''cannot compare offset-naive and offset-aware datetimes''))
    (ret (micros x \<le> micros (now e))))"

definition guarded_item :: "db \<Rightarrow> string option \<Rightarrow> string option \<Rightarrow> (item_row \<times> run_row) option" where
  "guarded_item d command_id response_id =
    (case triage_pairs d (\<lambda>i. ti_response_id i \<noteq> None \<and>
        (ti_response_id i = response_id \<or> (case command_id of None \<Rightarrow> False | Some c \<Rightarrow> item_of_command c i))) of
       [] \<Rightarrow> None | p # _ \<Rightarrow> Some p)"

text \<open>The checks after the policy revision: target, runtime policy, and the pure evaluation again.\<close>

definition guard_target :: "env \<Rightarrow> item_row \<Rightarrow> run_row \<Rightarrow> policy \<Rightarrow> (db, string option) act" where
  "guard_target e i r po =
    bindM (catch_http (collection_target e (ti_alert_id i) (ti_action i))) (\<lambda>resolved.
    case resolved of
      Inl _ \<Rightarrow> ret (Some ''triage_target_no_longer_valid'')
    | Inr (agent, host, target) \<Rightarrow>
       if agent \<noteq> tr_agent_id r \<or> host \<noteq> tr_host_id r \<or> \<not> py_eq (JObj target) (JObj (ti_target_json i))
       then ret (Some ''triage_target_binding_changed'')
       else
         bindM (current_profile e agent host) (\<lambda>profile.
         if policy_block profile (ti_action i) target \<noteq> None then ret (Some ''triage_runtime_policy_changed'')
         else
           bindM (endpoint e (Some agent) host) (\<lambda>capability.
           bindM (usage e (Some agent) (ti_alert_id i) po (Some (ti_action i))) (\<lambda>used.
           let result = evaluate e po (ti_action i) (tr_asset_class r) capability used
                          (has_key ''boot_id'' target) (jget ''path'' target)
           in ret (if td_decision result \<noteq> ti_decision i then Some (td_reason result) else None)))))"

definition guard :: "env \<Rightarrow> string option \<Rightarrow> string option \<Rightarrow> (db, string option) act" where
  "guard e command_id response_id =
    bindM (gets (\<lambda>d. guarded_item d command_id response_id)) (\<lambda>found.
    case found of
      None \<Rightarrow> ret None
    | Some (i, r) \<Rightarrow>
       if tr_cancelled_at r \<noteq> None \<and> tr_cancelled_at r \<noteq> Some [] then ret (Some ''triage_run_cancelled'')
       else
         bindM (text_passed e (tr_deadline r)) (\<lambda>late.
         if late then ret (Some ''triage_deadline_expired'')
         else
           bindM (gets (\<lambda>d. policy_for d (tr_rule_id r))) (\<lambda>configuration.
           case configuration of
             None \<Rightarrow> ret (Some ''triage_policy_revision_changed'')
           | Some c \<Rightarrow>
              if c = [] then ret (Some ''triage_policy_revision_changed'')
              else
                seqM (raise_if (\<not> has_key ''version'' c) (KeyError ''version''))
                (if \<not> py_eq (jget ''version'' c) (JInt (tr_policy_version r))
                 then ret (Some ''triage_policy_revision_changed'')
                 else
                   bindM (gets (\<lambda>d. asset_for d (tr_host_id r))) (\<lambda>asset.
                   if asset \<noteq> (tr_asset_class r, tr_asset_version r)
                   then ret (Some ''triage_asset_classification_changed'')
                   else
                     bindM (require_some (validate_policy e c) ValidationError) (\<lambda>po.
                     guard_target e i r po))))))"

text \<open>Callers test the answer for truth: an empty reason blocks nothing.\<close>

definition blocks :: "string option \<Rightarrow> bool" where
  "blocks b \<longleftrightarrow> (\<exists>t. b = Some t \<and> t \<noteq> [])"

definition deadline :: "string \<Rightarrow> (db, datetime option) act" where
  "deadline response_id =
    bindM (gets (\<lambda>d. triage_pairs d (\<lambda>i. ti_response_id i = Some response_id))) (\<lambda>ps.
    case ps of
      [] \<Rightarrow> ret None
    | (i, r) # _ \<Rightarrow>
        bindM (require_some (fromisoformat (tr_deadline r)) (ValueError ''Invalid isoformat string'')) (\<lambda>t. ret (Some t)))"

text \<open>
  \<open>dispatchable\<close> threads the runs already chosen in this poll: a run gets one command at a time.
\<close>

definition run_busy :: "db \<Rightarrow> string \<Rightarrow> string \<Rightarrow> bool" where
  "run_busy d alert_id command_id \<longleftrightarrow>
    (\<exists>i\<in>set (triage_items d). ti_alert_id i = alert_id \<and>
      (case response_of_item d i of
         None \<Rightarrow> False
       | Some ra \<Rightarrow> (case command_of d ra of
            None \<Rightarrow> False
          | Some c \<Rightarrow> cm_command_id c \<noteq> command_id \<and> cm_lifecycle_state c \<in> {DISPATCHED, ACCEPTED})))"

definition dispatchable :: "env \<Rightarrow> string \<Rightarrow> string list \<Rightarrow> (db, bool \<times> string list) act" where
  "dispatchable e command_id selected_runs =
    bindM (gets (\<lambda>d. List.find (item_of_command command_id) (triage_items d))) (\<lambda>item.
    case item of
      None \<Rightarrow> ret (True, selected_runs)
    | Some i \<Rightarrow>
       bindM (guard e (Some command_id) None) (\<lambda>blocker.
       if blocks blocker then ret (False, selected_runs)
       else
         bindM (gets (\<lambda>d. run_busy d (ti_alert_id i) command_id)) (\<lambda>busy.
         if busy \<or> ti_alert_id i \<in> set selected_runs then ret (False, selected_runs)
         else ret (True, ti_alert_id i # selected_runs))))"

section \<open>Nothing here writes a row\<close>

definition draws_only :: "db \<Rightarrow> db \<Rightarrow> bool" where
  "draws_only d d' \<longleftrightarrow> (\<exists>n. d' = d\<lparr>draws := n\<rparr>)"

interpretation draws_only: frame draws_only
proof unfold_locales
  show "draws_only s s" for s
    unfolding draws_only_def by (rule exI [of _ "draws s"]) simp
  show "draws_only s t \<Longrightarrow> draws_only t u \<Longrightarrow> draws_only s u" for s t u
    by (auto simp: draws_only_def)
qed

lemma draws_only_audit_only: "draws_only d d' \<Longrightarrow> audit_only d d'"
  by (auto simp: draws_only_def audit_only_def erase_audit_def)

lemma draws_only_draw: "stays draws_only (draw g)"
  by (auto simp: stays_def draw_def draws_only_def)

lemmas draws_only_reads = reads_only [THEN stays_read, of draws_only, OF draws_only.R_refl]

lemma stays_case_list:
  "(xs = [] \<Longrightarrow> stays R m) \<Longrightarrow> (\<And>x ys. xs = x # ys \<Longrightarrow> stays R (f x ys)) \<Longrightarrow>
    stays R (case xs of [] \<Rightarrow> m | x # ys \<Rightarrow> f x ys)"
  by (cases xs) auto

lemma stays_case_json:
  "stays R m0 \<Longrightarrow> (\<And>b. stays R (m1 b)) \<Longrightarrow> (\<And>b. stays R (m2 b)) \<Longrightarrow> (\<And>b. stays R (m3 b)) \<Longrightarrow>
    (\<And>b. stays R (m4 b)) \<Longrightarrow> (\<And>b. stays R (m5 b)) \<Longrightarrow> (\<And>b. stays R (m6 b)) \<Longrightarrow>
    stays R (case v of JNull \<Rightarrow> m0 | JBool b \<Rightarrow> m1 b | JInt b \<Rightarrow> m2 b | JFloat b \<Rightarrow> m3 b | JStr b \<Rightarrow> m4 b
      | JArr b \<Rightarrow> m5 b | JObj b \<Rightarrow> m6 b)"
  by (cases v) auto

lemmas stays_splits = stays_cases stays_case_list stays_case_json stays_catch_http

lemma draws_only_targets:
  "stays draws_only (check_context context agent host)"
  "stays draws_only (process_recommendation rec context)"
  "stays draws_only (process_target e rec context action target)"
  "stays draws_only (resolve_manual_target e alert_id action target)"
  "stays draws_only (collection_target e alert_id action)"
  unfolding check_context_def process_recommendation_def process_target_def resolve_manual_target_def
    collection_target_def Let_def
  by (intro draws_only.stays_structural draws_only_draw stays_splits)+

lemma draws_only_triage:
  "stays draws_only (endpoint e agent' host)"
  "stays draws_only (usage e agent' alert_id po exclude)"
  "stays draws_only (text_passed e t)"
  "stays draws_only (deadline response_id)"
  unfolding endpoint_def profile_of_def usage_def text_passed_def deadline_def Let_def
  by (intro draws_only.stays_structural draws_only_reads stays_splits)+

lemma draws_only_guard:
  "stays draws_only (guard_target e i r po)"
  "stays draws_only (guard e command_id response_id)"
  "stays draws_only (dispatchable e c selected)"
  unfolding guard_def guard_target_def dispatchable_def Let_def
  by (intro draws_only.stays_structural draws_only_reads draws_only_targets draws_only_triage stays_splits)+

lemmas draws_only_operations = draws_only_targets draws_only_triage draws_only_guard

lemma draws_only_stays: "stays draws_only m \<Longrightarrow> stays audit_only m"
  by (auto simp: stays_def intro: draws_only_audit_only)

lemmas guard_audit_only = draws_only_operations [THEN draws_only_stays]

section \<open>A resolved target is the alert's own\<close>






definition demo_alert :: "string \<Rightarrow> alert_row" where
  "demo_alert i = \<lparr>al_alert_id = i, al_rule_id = ''R1'', al_level = None, al_severity = None, al_host_id = Some ''host-1'',
    al_agent_id = Some ''agent-1'', al_event_id = None, al_alert_timestamp = None, al_created_at = ''2026'',
    al_mitre_tactic = None, al_mitre_technique = None, al_alert_json = JObj [], al_detection_source = None,
    al_incident_id = None\<rparr>"

definition demo_alerted :: db where
  "demo_alerted = demo_fleet\<lparr>alerts := [demo_alert ''a1'']\<rparr>"

lemma demo_resolves:
  assumes "alerts d = [demo_alert ''a1'']" and "enrolled_agents d = enrolled_agents demo_fleet"
  shows "resolve_manual_target demo_plain_env ''a1'' ''COLLECT_NETWORK_CONNECTIONS'' [] d =
    (Inr (''agent-1'', ''host-1'', []), d\<lparr>draws := draws d + 1\<rparr>)"
proof -
  have b: "bound_alert d ''a1'' = Some (demo_alert ''a1'', demo_agent ''agent-1'' ''host-1'' ''tok'')"
    using assms by (simp add: bound_alert_def demo_alert_def active_agent_def demo_fleet_def demo_agent_def)
  have m: "make_command demo_plain_env = Some" by (simp add: demo_plain_env_def)
  show ?thesis
    by (simp add: resolve_manual_target_def b demo_alert_def demo_agent_def Let_def check_context_def process_target_def m)
qed


section \<open>What passing the guard means\<close>

lemma text_passed_False:
  "text_passed e t d = (Inr False, d') \<Longrightarrow>
    d' = d \<and> (\<exists>x. fromisoformat t = Some x \<and> utcoffset x \<noteq> None \<and> micros (now e) < micros x)"
  by (auto simp: text_passed_def bindM_Inr_iff)

lemma text_passed_unchanged: "text_passed e t d = (r, d') \<Longrightarrow> d' = d"
  by (auto simp: text_passed_def bindM_def require_some_def raise_if_def split: option.splits prod.splits sum.splits if_splits)

lemma guard_target_None:
  assumes "guard_target e i r po d = (Inr None, d')"
  shows "\<exists>target profile capability used d1.
    collection_target e (ti_alert_id i) (ti_action i) d = (Inr (tr_agent_id r, tr_host_id r, target), d1) \<and>
    py_eq (JObj target) (JObj (ti_target_json i)) \<and>
    current_profile e (tr_agent_id r) (tr_host_id r) d1 = (Inr profile, d1) \<and>
    policy_block profile (ti_action i) target = None \<and>
    endpoint e (Some (tr_agent_id r)) (tr_host_id r) d1 = (Inr capability, d1) \<and>
    usage e (Some (tr_agent_id r)) (ti_alert_id i) po (Some (ti_action i)) d1 = (Inr used, d1) \<and>
    td_decision (evaluate e po (ti_action i) (tr_asset_class r) capability used (has_key ''boot_id'' target)
      (jget ''path'' target)) = ti_decision i"
proof -
  have reads: "stays (\<lambda>d d'. d' = d) (endpoint e g h)" "stays (\<lambda>d d'. d' = d) (usage e g a p x)" for g h a p x
    unfolding endpoint_def profile_of_def usage_def Let_def
    by (intro unchanged.stays_structural reads_only stays_splits)+
  obtain x d0 where x: "catch_http (collection_target e (ti_alert_id i) (ti_action i)) d = (Inr x, d0)"
    using assms by (auto simp: guard_target_def bindM_Inr_iff [of "catch_http m" for m])
  obtain agent host target0 where xr: "x = Inr (agent, host, target0)"
    using assms by (cases x) (auto simp: guard_target_def bindM_Inr [where m = "catch_http m" for m, OF x])
  obtain target d1 where t: "collection_target e (ti_alert_id i) (ti_action i) d = (Inr (tr_agent_id r, tr_host_id r, target), d1)"
      "py_eq (JObj target) (JObj (ti_target_json i))"
    and rest: "bindM (current_profile e (tr_agent_id r) (tr_host_id r)) (\<lambda>profile.
         if policy_block profile (ti_action i) target \<noteq> None then ret (Some ''triage_runtime_policy_changed'')
         else
           bindM (endpoint e (Some (tr_agent_id r)) (tr_host_id r)) (\<lambda>capability.
           bindM (usage e (Some (tr_agent_id r)) (ti_alert_id i) po (Some (ti_action i))) (\<lambda>used.
           let result = evaluate e po (ti_action i) (tr_asset_class r) capability used
                          (has_key ''boot_id'' target) (jget ''path'' target)
           in ret (if td_decision result \<noteq> ti_decision i then Some (td_reason result) else None)))) d1 = (Inr None, d')"
    using assms x unfolding guard_target_def bindM_Inr [where m = "catch_http m" for m, OF x] xr catch_http_Inr_iff
    by (auto simp del: py_eq.simps split: if_splits)
  obtain profile d2 capability d3 used d4 where p: "current_profile e (tr_agent_id r) (tr_host_id r) d1 = (Inr profile, d2)"
    "policy_block profile (ti_action i) target = None"
    and c: "endpoint e (Some (tr_agent_id r)) (tr_host_id r) d2 = (Inr capability, d3)"
    and u: "usage e (Some (tr_agent_id r)) (ti_alert_id i) po (Some (ti_action i)) d3 = (Inr used, d4)"
    and v: "td_decision (evaluate e po (ti_action i) (tr_asset_class r) capability used (has_key ''boot_id'' target)
      (jget ''path'' target)) = ti_decision i"
    using rest by (auto simp: bindM_Inr_iff Let_def split: if_splits)
  have "d2 = d1" using reads_only(1) p(1) by (rule read_result)
  moreover have "d3 = d2" using reads(1) c by (rule read_result)
  moreover have "d4 = d3" using reads(2) u by (rule read_result)
  ultimately show ?thesis using t p c u v by blast
qed

text \<open>
  Automatic work runs only while everything it was decided on still holds. When the guard of approval,
  dispatch and acceptance lets the work of a triage item pass, its run is not cancelled, its deadline lies
  ahead, the policy revision and the asset class are the ones of the run, the target recomputed from the
  alert is the stored one for the run's agent and host, the runtime profile does not object, and the policy,
  evaluated again against the current budget without this item, gives the decision of the item.
\<close>

lemma guard_passes_only_live_work:
  assumes "guard e command_id response_id d = (Inr None, d')"
    and "guarded_item d command_id response_id = Some (i, r)"
  shows "(tr_cancelled_at r = None \<or> tr_cancelled_at r = Some []) \<and>
    (\<exists>t. fromisoformat (tr_deadline r) = Some t \<and> micros (now e) < micros t) \<and>
    (\<exists>c po target profile capability used d1.
      policy_for d (tr_rule_id r) = Some c \<and> py_eq (jget ''version'' c) (JInt (tr_policy_version r)) \<and>
      validate_policy e c = Some po \<and> asset_for d (tr_host_id r) = (tr_asset_class r, tr_asset_version r) \<and>
      collection_target e (ti_alert_id i) (ti_action i) d = (Inr (tr_agent_id r, tr_host_id r, target), d1) \<and>
      py_eq (JObj target) (JObj (ti_target_json i)) \<and>
      current_profile e (tr_agent_id r) (tr_host_id r) d1 = (Inr profile, d1) \<and>
      policy_block profile (ti_action i) target = None \<and>
      endpoint e (Some (tr_agent_id r)) (tr_host_id r) d1 = (Inr capability, d1) \<and>
      usage e (Some (tr_agent_id r)) (ti_alert_id i) po (Some (ti_action i)) d1 = (Inr used, d1) \<and>
      td_decision (evaluate e po (ti_action i) (tr_asset_class r) capability used (has_key ''boot_id'' target)
        (jget ''path'' target)) = ti_decision i)"
proof -
  have cancelled: "tr_cancelled_at r = None \<or> tr_cancelled_at r = Some []"
    using assms unfolding guard_def by (auto split: if_splits)
  obtain late d0 where late: "text_passed e (tr_deadline r) d = (Inr late, d0)"
    using assms cancelled unfolding guard_def by (auto simp: bindM_Inr_iff split: if_splits)
  have d0: "d0 = d" using late by (rule text_passed_unchanged)
  have nl: "\<not> late" using assms cancelled late unfolding guard_def by (auto simp: bindM_Inr)
  have late': "text_passed e (tr_deadline r) d = (Inr False, d0)" using late nl by simp
  obtain c po where c: "policy_for d (tr_rule_id r) = Some c" "py_eq (jget ''version'' c) (JInt (tr_policy_version r))"
    "asset_for d (tr_host_id r) = (tr_asset_class r, tr_asset_version r)" "validate_policy e c = Some po"
    and g: "guard_target e i r po d = (Inr None, d')"
    using assms cancelled late nl d0 unfolding guard_def
    by (auto simp: bindM_Inr bindM_raise_if bindM_Inr_iff split: if_splits option.splits)
  show ?thesis
    using cancelled text_passed_False [OF late'] c guard_target_None [OF g] by blast
qed

definition demo_run :: run_row where
  "demo_run = \<lparr>tr_alert_id = ''a1'', tr_rule_id = ''R1'', tr_policy_version = 1, tr_policy_json = [(''version'', JInt 1)],
    tr_agent_id = ''agent-1'', tr_host_id = ''host-1'', tr_asset_class = ''unknown'', tr_asset_version = 0,
    tr_created_at = ''2026'', tr_deadline = isoformat (plus_delta demo_now (seconds 600)), tr_cancelled_at = None\<rparr>"

definition demo_item :: item_row where
  "demo_item = \<lparr>ti_alert_id = ''a1'', ti_action = ''COLLECT_NETWORK_CONNECTIONS'', ti_decision = ''auto_dispatch'',
    ti_reason = ''demo'', ti_target_json = [], ti_reserved_bytes = 1048576, ti_response_id = Some ''r1''\<rparr>"

definition demo_triaged :: db where
  "demo_triaged = demo_alerted\<lparr>triage_runs := [demo_run], triage_items := [demo_item],
    triage_policy_heads := [\<lparr>th_rule_id = ''R1'', th_version = 1\<rparr>],
    triage_policy_revisions := [\<lparr>tp_rule_id = ''R1'', tp_version = 1, tp_policy_json = [(''version'', JInt 1)],
      tp_actor = ''analyst:a'', tp_created_at = ''2026''\<rparr>]\<rparr>"

lemma demo_deadline:
  "utc (plus_delta demo_now (seconds 600))" "micros (plus_delta demo_now (seconds 600)) = micros demo_now + 600000000"
proof -
  have "micros demo_now < 3652059 * 86400000000"
    by (simp add: micros_def wall_def toordinal_def days_before_year_def days_before_month_def days_in_month_def demo_now_def
        upt_rec)
  then show "utc (plus_delta demo_now (seconds 600))"
    using micros_pos [OF utc_demo_now] unfolding plus_delta_def by (intro of_micros_utc) simp_all
  show "micros (plus_delta demo_now (seconds 600)) = micros demo_now + 600000000"
    using micros_pos [OF utc_demo_now] micros_plus_delta [of demo_now "seconds 600"] by simp
qed

lemma demo_guarded:
  "guarded_item demo_triaged None (Some ''r1'') = Some (demo_item, demo_run)"
  by (simp add: guarded_item_def triage_pairs_def demo_triaged_def demo_item_def demo_run_def)

lemma demo_guard_target:
  "guard_target demo_plain_env demo_item demo_run demo_policy demo_triaged = (Inr None, demo_triaged\<lparr>draws := 1\<rparr>)"
proof -
  define dx where dx: "dx = demo_triaged\<lparr>draws := 1\<rparr>"
  have c: "collection_target demo_plain_env ''a1'' ''COLLECT_NETWORK_CONNECTIONS'' demo_triaged =
      (Inr (''agent-1'', ''host-1'', []), dx)"
    using demo_resolves [of demo_triaged]
    by (simp add: collection_target_def demo_triaged_def demo_alerted_def demo_fleet_def dx)
  then have x: "catch_http (collection_target demo_plain_env ''a1'' ''COLLECT_NETWORK_CONNECTIONS'') demo_triaged =
      (Inr (Inr (''agent-1'', ''host-1'', [])), dx)"
    by (simp add: catch_http_def)
  have p: "current_profile demo_plain_env ''agent-1'' ''host-1'' dx = (Inr no_profile, dx)"
    by (simp add: current_profile_def demo_triaged_def demo_alerted_def demo_fleet_def dx)
  have b: "policy_block no_profile a t = None" for a t by (simp add: policy_block_def no_profile_def)
  have vc: "valid_capability demo_plain_env c" for c by (simp add: demo_plain_env_def)
  obtain cap where cap: "endpoint demo_plain_env (Some ''agent-1'') ''host-1'' dx = (Inr cap, dx)"
    by (simp add: endpoint_def profile_of_def bindM_Inr p Let_def vc)
  have mu: "make_usage demo_plain_env = Some" by (simp add: demo_plain_env_def)
  obtain u where u: "usage demo_plain_env (Some ''agent-1'') ''a1'' demo_policy (Some ''COLLECT_NETWORK_CONNECTIONS'') dx = (Inr u, dx)"
    by (simp add: usage_def Let_def mu)
  have ev: "td_decision (evaluate demo_plain_env a b c d f g h) = ''auto_dispatch''" for a b c d f g h
    by (simp add: demo_plain_env_def demo_decision_def)
  have sel: "ti_alert_id demo_item = ''a1''" "ti_action demo_item = ''COLLECT_NETWORK_CONNECTIONS''"
    "ti_decision demo_item = ''auto_dispatch''" "ti_target_json demo_item = []" "tr_agent_id demo_run = ''agent-1''"
    "tr_host_id demo_run = ''host-1''" by (simp_all add: demo_item_def demo_run_def)
  show ?thesis
    unfolding guard_target_def sel dx [symmetric]
    by (simp add: bindM_Inr x p cap u b ev)
qed

lemma demo_guard:
  "guard demo_plain_env None (Some ''r1'') demo_triaged = (Inr None, demo_triaged\<lparr>draws := 1\<rparr>)"
proof -
  have f: "fromisoformat (tr_deadline demo_run) = Some (plus_delta demo_now (seconds 600))"
    using fromisoformat_isoformat demo_deadline(1) by (simp add: demo_run_def utc_def)
  have late: "text_passed demo_plain_env (tr_deadline demo_run) demo_triaged = (Inr False, demo_triaged)"
    using demo_deadline by (simp add: text_passed_def f utc_def)
  have p: "policy_for demo_triaged ''R1'' = Some [(''version'', JInt 1)]"
    by (simp add: policy_for_def demo_triaged_def)
  have a: "asset_for demo_triaged ''host-1'' = (''unknown'', 0)"
    by (simp add: asset_for_def demo_triaged_def demo_alerted_def demo_fleet_def)
  have v: "validate_policy demo_plain_env c = Some demo_policy" for c by (simp add: demo_plain_env_def)
  have sel: "tr_cancelled_at demo_run = None" "tr_rule_id demo_run = ''R1''" "tr_policy_version demo_run = 1"
    "tr_host_id demo_run = ''host-1''" "tr_asset_class demo_run = ''unknown''" "tr_asset_version demo_run = 0"
    by (simp_all add: demo_run_def)
  show ?thesis
    unfolding guard_def
    by (simp add: demo_guarded sel bindM_Inr [where m = "text_passed demo_plain_env (tr_deadline demo_run)", OF late] p a v demo_guard_target bindM_raise_if has_key_def jget_def)
qed

lemma guard_passes_only_live_work_witness:
  "guard demo_plain_env None (Some ''r1'') demo_triaged = (Inr None, demo_triaged\<lparr>draws := 1\<rparr>) \<and>
   (\<exists>t. fromisoformat (tr_deadline demo_run) = Some t \<and> micros demo_now < micros t)"
  using guard_passes_only_live_work [OF demo_guard demo_guarded] demo_guard by simp

end
