(* ===== verification/Response.thy ===== *)
theory Response
  imports Guard
begin

text \<open>
  The response engine: \<^verbatim>\<open>manager/detection/response.py\<close> with \<open>capture_plan\<close> of
  \<^verbatim>\<open>manager/forensic_context.py\<close> and the writing half of \<^verbatim>\<open>manager/auto_triage.py\<close> (\<open>start\<close>,
  \<open>reconcile\<close>, \<open>cancel_run\<close>). A response row is staged PENDING or REJECTED; a decision moves it once,
  and authorizing it puts its command \<open>resp-<response id>\<close> into the queue in the same transaction. The
  relation \<open>responses_evolve\<close> is the contract of the table.
\<close>

section \<open>Updates of response rows\<close>

definition set_response :: "(response_row \<Rightarrow> response_row) \<Rightarrow> string \<Rightarrow> db \<Rightarrow> db" where
  "set_response f response_id d =
    d\<lparr>response_actions := update_where (\<lambda>r. ra_response_id r = response_id) f (response_actions d)\<rparr>"

text \<open>\<open>UPDATE ... WHERE response_id = ? AND lifecycle_state = 'PENDING'\<close>\<close>

definition decide_pending :: "(response_row \<Rightarrow> response_row) \<Rightarrow> string \<Rightarrow> db \<Rightarrow> db" where
  "decide_pending f response_id d =
    d\<lparr>response_actions :=
       update_where (\<lambda>r. ra_response_id r = response_id \<and> ra_lifecycle_state r = PENDING) f (response_actions d)\<rparr>"

definition pending :: "db \<Rightarrow> string \<Rightarrow> response_row option" where
  "pending d response_id =
    List.find (\<lambda>r. ra_response_id r = response_id \<and> ra_lifecycle_state r = PENDING) (response_actions d)"

definition rejected :: "string \<Rightarrow> response_row \<Rightarrow> response_row" where
  "rejected reason r = r\<lparr>ra_lifecycle_state := REJECTED, ra_decided_reason := Some reason\<rparr>"

section \<open>Expiry\<close>

definition response_cutoff :: "env \<Rightarrow> string" where
  "response_cutoff e = isoformat (plus_delta (now e) (- seconds 900))"

definition expire_stale_response_actions :: "env \<Rightarrow> (db, unit) act" where
  "expire_stale_response_actions e =
    bindM (gets (\<lambda>d. map ra_response_id
        (filter (\<lambda>r. ra_lifecycle_state r = PENDING \<and> ra_created_at r \<le> response_cutoff e) (response_actions d)))) (\<lambda>ids.
    forM (\<lambda>i. seqM (modify (decide_pending (\<lambda>r. r\<lparr>ra_lifecycle_state := EXPIRED,
                    ra_decided_reason := Some ''no analyst decision within the authorization window''\<rparr>) i))
               (record_decision e i ''expired'' ''system:expiry-sweep'' None)) ids)"

section \<open>The forensic plan of a collection\<close>

text \<open>
  \<open>str.strip()\<close>: the characters Python counts as white space, as their UTF-8 bytes, taken off both ends.
\<close>

definition spaces :: "string list" where
  "spaces = [
    [CHR 0x09], [CHR 0x0A], [CHR 0x0B], [CHR 0x0C], [CHR 0x0D], [CHR 0x1C], [CHR 0x1D], [CHR 0x1E],
    [CHR 0x1F], [CHR 0x20], [CHR 0xC2, CHR 0x85], [CHR 0xC2, CHR 0xA0], [CHR 0xE1, CHR 0x9A, CHR 0x80],
    [CHR 0xE2, CHR 0x80, CHR 0x80], [CHR 0xE2, CHR 0x80, CHR 0x81], [CHR 0xE2, CHR 0x80, CHR 0x82],
    [CHR 0xE2, CHR 0x80, CHR 0x83], [CHR 0xE2, CHR 0x80, CHR 0x84], [CHR 0xE2, CHR 0x80, CHR 0x85],
    [CHR 0xE2, CHR 0x80, CHR 0x86], [CHR 0xE2, CHR 0x80, CHR 0x87], [CHR 0xE2, CHR 0x80, CHR 0x88],
    [CHR 0xE2, CHR 0x80, CHR 0x89], [CHR 0xE2, CHR 0x80, CHR 0x8A], [CHR 0xE2, CHR 0x80, CHR 0xA8],
    [CHR 0xE2, CHR 0x80, CHR 0xA9], [CHR 0xE2, CHR 0x80, CHR 0xAF], [CHR 0xE2, CHR 0x81, CHR 0x9F],
    [CHR 0xE3, CHR 0x80, CHR 0x80]]"

function strip_with :: "string list \<Rightarrow> string \<Rightarrow> string" where
  "strip_with ss t =
    (case List.find (\<lambda>s. s \<noteq> [] \<and> starts_with s t) ss of
       None \<Rightarrow> t | Some s \<Rightarrow> strip_with ss (drop (length s) t))"
  by pat_completeness auto
termination
proof (relation "measure (\<lambda>(ss, t). length t)")
  show "((ss, drop (length s) t), ss, t) \<in> measure (\<lambda>(ss, t). length t)"
    if "List.find (\<lambda>s. s \<noteq> [] \<and> starts_with s t) ss = Some s" for ss t s
    using find_SomeD [OF that] by (cases t) (auto simp: starts_with_def)
qed simp

declare strip_with.simps [simp del]

definition strip :: "string \<Rightarrow> string" where
  "strip t = rev (strip_with (map rev spaces) (rev (strip_with spaces t)))"

text \<open>\<open>int(t)\<close> on a text of ASCII digits: white space around, a sign, single underscores between digits.\<close>

fun digit_groups :: "bool \<Rightarrow> string \<Rightarrow> bool" where
  "digit_groups after_digit [] = after_digit"
| "digit_groups after_digit (c # cs) =
    (if is_digit c then digit_groups True cs else c = CHR ''_'' \<and> after_digit \<and> digit_groups False cs)"

definition py_int :: "string \<Rightarrow> int option" where
  "py_int t =
    (let s = strip t;
         body = (case s of c # cs \<Rightarrow> if c = CHR ''-'' \<or> c = CHR ''+'' then cs else s | [] \<Rightarrow> []);
         digits = filter is_digit body
     in if digit_groups False body \<and> length digits \<le> 4300
        then Some (if take 1 s = ''-'' then - int (str_nat digits) else int (str_nat digits)) else None)"

definition unavailable_plan :: jobj where
  "unavailable_plan =
    [(''schema_version'', JStr ''1''), (''state'', JStr ''unavailable''),
     (''reason'', JStr ''Retained alert lacks complete forensic provenance or native target context.'')]"

text \<open>\<open>a or b\<close> on JSON values.\<close>

definition jor :: "json \<Rightarrow> json \<Rightarrow> json" where
  "jor a b = (if truthy a then a else b)"

text \<open>The fields of the request that depend on the action.\<close>

definition plan_fields :: "env \<Rightarrow> response_row \<Rightarrow> alert_row \<Rightarrow> (db, jobj) act" where
  "plan_fields e ra a =
    (let target = ra_target_json ra in
     if ra_action ra = ''COLLECT_PROCESS_INFO''
     then bindM (case jget ''start_time_ticks'' target of
                   JStr t \<Rightarrow> bindM (require_some (py_int t) (ValueError ''invalid literal for int()'')) (\<lambda>i. ret (JInt i))
                 | v \<Rightarrow> ret v) (\<lambda>ticks.
          ret [(''process'', JObj ([(''pid'', jget ''pid'' target), (''start_time_ticks'', ticks)] @
            (if has_key ''boot_id'' target then [(''boot_id'', jget ''boot_id'' target)] else [])))])
     else if ra_action ra = ''COLLECT_FILE''
     then bindM (profile_of e (al_agent_id a) (case al_host_id a of None \<Rightarrow> [] | Some h \<Rightarrow> h)) (\<lambda>profile.
          seqM (raise_if (pr_report profile = []) (ValueError ''endpoint platform is not reported''))
          (seqM (raise_if (\<not> has_key ''platform'' (pr_report profile)) (KeyError ''platform''))
          (ret [(''file'', JObj [(''platform'', jget ''platform'' (pr_report profile)), (''path'', jget ''path'' target)])])))
     else ret [])"

text \<open>\<open>datetime.fromisoformat(observed.replace("Z", "+00:00"))\<close>; in the request the time stands as its text.\<close>

definition observed_time :: "json \<Rightarrow> ('s, json) act" where
  "observed_time v =
    (case v of
       JStr t \<Rightarrow> bindM (require_some (fromisoformat (replace_Z t)) (ValueError ''Invalid isoformat string''))
                 (\<lambda>x. ret (JStr (isoformat x)))
     | _ \<Rightarrow> throw (AttributeError ''replace''))"

definition planned_context :: "env \<Rightarrow> response_row \<Rightarrow> alert_row \<Rightarrow> (db, jobj) act" where
  "planned_context e ra a =
    bindM (get_attr ''endpoint_context'' (al_alert_json a)) (\<lambda>context0.
    bindM (get_attr ''detection_source'' (al_alert_json a)) (\<lambda>detection_source.
    let context = or_empty context0 in
    bindM (get_attr ''provenance'' context) (\<lambda>provenance0.
    let provenance = or_empty provenance0 in
    bindM (get_attr ''provider'' provenance) (\<lambda>provider.
    bindM (get_attr ''kind'' provenance) (\<lambda>kind.
    bindM (get_attr ''record_id'' context) (\<lambda>record_id.
    bindM (get_attr ''observed_at'' context) (\<lambda>observed_at.
    let source = jor provider (jor kind detection_source);
        source_record = jor record_id (jopt (al_event_id a));
        observed = jor observed_at (jopt (al_alert_timestamp a)) in
    seqM (raise_if (\<not> truthy source \<or> \<not> truthy source_record \<or> \<not> truthy observed)
            (ValueError ''original source identifiers and timestamp required''))
    (bindM (plan_fields e ra a) (\<lambda>fields.
    bindM (observed_time observed) (\<lambda>observed_text.
    bindM (gets (\<lambda>d. case al_host_id a of None \<Rightarrow> (''unknown'', 0) | Some h \<Rightarrow> asset_for d h)) (\<lambda>(asset, version).
    bindM (require_some
             (forensic_plan e
               ([(''request_id'', JStr (ra_response_id ra)), (''action'', JStr (ra_action ra))] @ fields @
                [(''context'', JObj [(''alert_id'', JStr (al_alert_id a)), (''agent_id'', jopt (al_agent_id a)),
                   (''host_id'', jopt (al_host_id a)), (''rule_id'', JStr (al_rule_id a)), (''source_id'', source),
                   (''source_record_id'', source_record), (''observed_at'', observed_text)])]) asset)
             ValidationError) (\<lambda>plan.
    ret [(''schema_version'', JStr ''1''), (''state'', JStr ''planned''), (''plan'', JObj plan),
         (''asset_classification_version'', JInt version), (''advisory_only'', JBool True),
         (''notice'', JStr ''Forensic context is advisory. Existing response approval and explicit versioned auto-triage policy remain the execution authority.'')]))))))))))))"

text \<open>\<open>except (ValueError, TypeError, AttributeError, KeyError)\<close>; a validation error is a \<open>ValueError\<close>.\<close>

fun value_error :: "exn \<Rightarrow> bool" where
  "value_error (ValueError t) = True"
| "value_error (TypeError t) = True"
| "value_error (AttributeError t) = True"
| "value_error (KeyError t) = True"
| "value_error ValidationError = True"
| "value_error _ = False"

definition capture_plan :: "env \<Rightarrow> string \<Rightarrow> string \<Rightarrow> (db, unit) act" where
  "capture_plan e response_id actor =
    bindM (gets (\<lambda>d. find_by fp_response_id response_id (response_forensic_plans d))) (\<lambda>saved.
    bindM (gets (\<lambda>d. case find_by ra_response_id response_id (response_actions d) of
                       None \<Rightarrow> None
                     | Some ra \<Rightarrow> map_option (Pair ra) (find_by al_alert_id (ra_alert_id ra) (alerts d)))) (\<lambda>row.
    case row of
      None \<Rightarrow> ret ()
    | Some (ra, a) \<Rightarrow>
       if saved \<noteq> None \<or> ra_action ra \<notin> set (collect_actions e) then ret ()
       else
         bindM (tryM (planned_context e ra a) (\<lambda>x. if value_error x then ret unavailable_plan else throw x)) (\<lambda>value.
         seqM (modify (\<lambda>d. d\<lparr>response_forensic_plans := response_forensic_plans d @
                 [\<lparr>fp_response_id = response_id, fp_plan_json = sort_json (JObj value), fp_actor = actor,
                   fp_created_at = iso_now e\<rparr>]\<rparr>))
         (record_event e ''forensic_collection_planned'' actor (al_host_id a) (Some response_id)
           [(''state'', jget ''state'' value), (''policy_id'', JStr (forensic_policy_id e)),
            (''policy_version'', JInt (forensic_policy_version e)), (''alert_id'', JStr (al_alert_id a)),
            (''action'', JStr (ra_action ra)), (''advisory_only'', JBool True), (''context'', JObj value)]))))"

section \<open>Staging\<close>

definition staged_row ::
  "env \<Rightarrow> string \<Rightarrow> string \<Rightarrow> string \<Rightarrow> string \<Rightarrow> lifecycle \<Rightarrow> jobj \<Rightarrow> string option \<Rightarrow> response_row" where
  "staged_row e response_id alert_id action tier state target reason =
    \<lparr>ra_response_id = response_id, ra_alert_id = alert_id, ra_action = action, ra_tier = tier,
     ra_lifecycle_state = state, ra_target_json = target, ra_command_id = None, ra_created_at = iso_now e,
     ra_authorized_at = None, ra_authorized_by = None, ra_decided_reason = reason, ra_origin = ''detection'',
     ra_requested_by = None, ra_request_reason = None, ra_requested_agent_id = None, ra_requested_host_id = None\<rparr>"

definition insert_response_row :: "response_row \<Rightarrow> (db, unit) act" where
  "insert_response_row r = bindM (gets (\<lambda>d. d)) (\<lambda>d.
     seqM (raise_if (ra_response_id r \<in> ra_response_id ` set (response_actions d) \<or>
                     ra_alert_id r \<notin> al_alert_id ` set (alerts d)) IntegrityError)
     (modify (\<lambda>d. d\<lparr>response_actions := response_actions d @ [r]\<rparr>)))"

definition insert_response_action ::
  "env \<Rightarrow> string \<Rightarrow> string \<Rightarrow> string \<Rightarrow> lifecycle \<Rightarrow> jobj \<Rightarrow> string option \<Rightarrow> string \<Rightarrow> (db, string) act" where
  "insert_response_action e alert_id action tier state target reason actor =
    bindM (draw (uuid4 e)) (\<lambda>response_id.
    seqM (insert_response_row (staged_row e response_id alert_id action tier state target reason))
    (seqM (record_decision e response_id ''staged'' actor
             (Some [(''state'', JStr (state_text state)), (''action'', JStr action), (''reason'', jopt reason)]))
    (seqM (capture_plan e response_id actor)
    (ret response_id))))"

text \<open>The UPDATE that stamps a staged request with who asked for it.\<close>

definition requested_by :: "string \<Rightarrow> string \<Rightarrow> string \<Rightarrow> string option \<Rightarrow> string \<Rightarrow> response_row \<Rightarrow> response_row" where
  "requested_by origin actor reason agent host r =
    r\<lparr>ra_origin := origin, ra_requested_by := Some actor, ra_request_reason := Some reason,
      ra_requested_agent_id := agent, ra_requested_host_id := Some host\<rparr>"

text \<open>Staging a request with who asked for it.\<close>

definition stage_requested ::
  "env \<Rightarrow> string \<Rightarrow> string \<Rightarrow> string \<Rightarrow> jobj \<Rightarrow> string \<Rightarrow> string \<Rightarrow> string \<Rightarrow> string option \<Rightarrow> string \<Rightarrow> (db, string) act" where
  "stage_requested e alert_id action tier target reason actor origin agent host =
    bindM (insert_response_action e alert_id action tier PENDING target (Some reason) actor) (\<lambda>response_id.
      seqM (modify (set_response (requested_by origin actor reason agent host) response_id)) (ret response_id))"

definition untranslatable_reason :: "string \<Rightarrow> jobj \<Rightarrow> string" where
  "untranslatable_reason action active_response =
    (if action \<in> {''TERMINATE_PROCESS'', ''COLLECT_PROCESS_INFO''} \<and>
        (case jget ''target_start_time_ticks'' active_response of JInt i \<Rightarrow> i \<le> 0 | _ \<Rightarrow> True)
     then ''fail closed: '' @ action @ '' recommendation carries no target_start_time_ticks, so the target process cannot be guarded against PID reuse''
     else ''no safe command mapping for '' @ action)"

definition open_response :: "env \<Rightarrow> db \<Rightarrow> response_row \<Rightarrow> bool" where
  "open_response e d ra \<longleftrightarrow>
    (ra_lifecycle_state ra = PENDING \<and> response_cutoff e < ra_created_at ra) \<or>
    (ra_lifecycle_state ra = AUTHORIZED \<and>
      (case command_of d ra of None \<Rightarrow> False | Some c \<Rightarrow> cm_lifecycle_state c \<in> OPEN_STATES))"

definition find_open_duplicate :: "env \<Rightarrow> db \<Rightarrow> string option \<Rightarrow> string \<Rightarrow> jobj \<Rightarrow> string option" where
  "find_open_duplicate e d host_id action target =
    (case host_id of
       None \<Rightarrow> None
     | Some h \<Rightarrow>
        map_option ra_response_id
          (List.find (\<lambda>ra. py_eq (JObj (ra_target_json ra)) (JObj target))
            (order_by ra_created_at (order_by ra_response_id
              (filter (\<lambda>ra. (\<exists>a\<in>set (alerts d). al_alert_id a = ra_alert_id ra \<and> al_host_id a = Some h) \<and>
                            ra_action ra = action \<and> open_response e d ra)
                (response_actions d))))))"

section \<open>Decisions\<close>

text \<open>The update and audit of a refusal, without a test of the state.\<close>

definition reject_row :: "env \<Rightarrow> string \<Rightarrow> string \<Rightarrow> string \<Rightarrow> string \<Rightarrow> (db, unit) act" where
  "reject_row e response_id actor decided_reason audited_reason =
    seqM (modify (set_response (rejected decided_reason) response_id))
    (record_decision e response_id ''rejected'' actor (Some [(''reason'', JStr audited_reason)]))"

text \<open>
  The binding of a stored target: \<open>auto_triage\<close> work passes its guard, work of an analyst or of triage is
  resolved again, and a boot-bound detection target must still be what its alert recommends.
\<close>

definition check_requested :: "env \<Rightarrow> response_row \<Rightarrow> (db, unit) act" where
  "check_requested e row =
    seqM (if ra_origin row = ''auto_triage''
          then bindM (guard e None (Some (ra_response_id row))) (\<lambda>blocker.
                 raise_if (blocks blocker) (HTTPException 409 (case blocker of None \<Rightarrow> [] | Some t \<Rightarrow> t)))
          else ret ())
    (if ra_origin row \<in> {''analyst'', ''auto_triage''}
     then bindM (resolve_manual_target e (ra_alert_id row) (ra_action row) (ra_target_json row)) (\<lambda>(agent_id, host_id, verified).
            raise_if (Some agent_id \<noteq> ra_requested_agent_id row \<or> Some host_id \<noteq> ra_requested_host_id row \<or>
                      \<not> py_eq (JObj verified) (JObj (ra_target_json row)))
              (HTTPException 409 ''manual response endpoint binding changed''))
     else ret ())"

definition detection_target_changed :: "env \<Rightarrow> response_row \<Rightarrow> alert_row \<Rightarrow> string \<Rightarrow> (db, bool) act" where
  "detection_target_changed e row a agent =
    bindM (get_attr ''endpoint_context'' (al_alert_json a)) (\<lambda>context.
    bindM (get_attr ''active_response'' (al_alert_json a)) (\<lambda>recommendation0.
    bindM (case or_empty recommendation0 of JObj r \<Rightarrow> ret r | _ \<Rightarrow> throw (AttributeError ''get'')) (\<lambda>recommendation.
    bindM (gets (\<lambda>d. active_agent d agent)) (\<lambda>enrolled.
    ret (case translate_recommendation e (jget ''action'' recommendation) recommendation (Some context) of
           None \<Rightarrow> True
         | Some (mapped_action, mapped_target, _) \<Rightarrow>
             mapped_action \<noteq> ra_action row \<or> \<not> py_eq (JObj mapped_target) (JObj (ra_target_json row)) \<or>
             (case enrolled of
                None \<Rightarrow> True
              | Some r \<Rightarrow>
                 (case get_or_empty ''endpoint'' context of
                    JObj ep \<Rightarrow> jget ''agent_id'' ep \<noteq> JStr agent \<or> jget ''host_id'' ep \<noteq> JStr (ea_host_id r)
                  | _ \<Rightarrow> True)))))))"

definition response_command_of :: "env \<Rightarrow> response_row \<Rightarrow> string \<Rightarrow> datetime option \<Rightarrow> command" where
  "response_command_of e row agent limit =
    \<lparr>cmd_command_id = ''resp-'' @ ra_response_id row, cmd_agent_id = agent,
     cmd_schema_version = command_version (ra_target_json row), cmd_action = ra_action row,
     cmd_expires_at = (case limit of Some t \<Rightarrow> t | None \<Rightarrow> plus_delta (now e) (seconds 900)),
     cmd_target = ra_target_json row, cmd_other = []\<rparr>"

definition authorized :: "env \<Rightarrow> string \<Rightarrow> response_row \<Rightarrow> response_row" where
  "authorized e actor r =
    r\<lparr>ra_lifecycle_state := AUTHORIZED, ra_command_id := Some (''resp-'' @ ra_response_id r),
      ra_authorized_at := Some (iso_now e), ra_authorized_by := Some actor\<rparr>"

definition mark_authorized :: "env \<Rightarrow> response_row \<Rightarrow> string \<Rightarrow> (db, unit) act" where
  "mark_authorized e row actor = bindM (gets commands) (\<lambda>rows.
     seqM (raise_if (''resp-'' @ ra_response_id row \<notin> cm_command_id ` set rows) IntegrityError)
     (modify (set_response (authorized e actor) (ra_response_id row))))"

text \<open>The common end: build the command, enqueue it in the open transaction, mark the row.\<close>

definition enqueue_response :: "env \<Rightarrow> response_row \<Rightarrow> string \<Rightarrow> string \<Rightarrow> (db, unit) act" where
  "enqueue_response e row agent actor =
    bindM (deadline (ra_response_id row)) (\<lambda>limit.
    bindM (require_some (make_command e (response_command_of e row agent limit)) ValidationError) (\<lambda>c.
    seqM (authorize_and_enqueue e False c actor (Some (ra_alert_id row)))
    (seqM (mark_authorized e row actor)
    (record_decision e (ra_response_id row) ''authorized'' actor
       (Some [(''command_id'', JStr (''resp-'' @ ra_response_id row))])))))"

definition authorize_response_action :: "env \<Rightarrow> string \<Rightarrow> string \<Rightarrow> (db, unit) act" where
  "authorize_response_action e response_id actor =
    bindM (gets (\<lambda>d. pending d response_id)) (\<lambda>found.
    case found of
      None \<Rightarrow> ret ()
    | Some row \<Rightarrow>
       bindM (gets (\<lambda>d. find_by al_alert_id (ra_alert_id row) (alerts d))) (\<lambda>alert.
       case (alert, (case alert of None \<Rightarrow> None | Some a \<Rightarrow> al_agent_id a)) of
         (Some a, Some agent) \<Rightarrow>
           seqM (check_requested e row)
           (bindM (if ra_origin row \<notin> {''analyst'', ''auto_triage''} \<and> has_key ''boot_id'' (ra_target_json row)
                   then detection_target_changed e row a agent else ret False) (\<lambda>changed.
           if changed
           then reject_row e response_id actor ''canonical target or enrolled host changed before authorization''
                  ''canonical target or enrolled host changed''
           else enqueue_response e row agent actor))
       | _ \<Rightarrow> reject_row e response_id actor ''originating alert has no agent_id to target''
                ''originating alert has no agent_id to target''))"

definition reject_response_action :: "env \<Rightarrow> string \<Rightarrow> string \<Rightarrow> string \<Rightarrow> (db, unit) act" where
  "reject_response_action e response_id actor reason =
    bindM (gets (\<lambda>d. pending d response_id)) (\<lambda>found.
    seqM (modify (decide_pending (\<lambda>r. (rejected reason r)\<lparr>ra_authorized_by := Some actor\<rparr>) response_id))
    (if found \<noteq> None then record_decision e response_id ''rejected'' actor (Some [(''reason'', JStr reason)]) else ret ()))"

section \<open>Automatic triage\<close>

definition insert_run :: "run_row \<Rightarrow> (db, unit) act" where
  "insert_run r = bindM (gets (\<lambda>d. d)) (\<lambda>d.
     seqM (raise_if (tr_alert_id r \<in> tr_alert_id ` set (triage_runs d) \<or> tr_alert_id r \<notin> al_alert_id ` set (alerts d) \<or>
                     (tr_rule_id r, tr_policy_version r) \<notin> (\<lambda>p. (tp_rule_id p, tp_version p)) ` set (triage_policy_revisions d))
             IntegrityError)
     (modify (\<lambda>d. d\<lparr>triage_runs := triage_runs d @ [r]\<rparr>)))"

definition insert_item :: "item_row \<Rightarrow> (db, unit) act" where
  "insert_item i = bindM (gets (\<lambda>d. d)) (\<lambda>d.
     seqM (raise_if ((ti_alert_id i, ti_action i) \<in> (\<lambda>x. (ti_alert_id x, ti_action x)) ` set (triage_items d) \<or>
                     ti_alert_id i \<notin> tr_alert_id ` set (triage_runs d) \<or> ti_action i \<notin> COLLECTIONS \<or>
                     ti_decision i \<notin> {''auto_dispatch'', ''skip'', ''require_approval''} \<or>
                     ti_reserved_bytes i \<notin> {0, 1048576} \<or>
                     (case ti_response_id i of None \<Rightarrow> False
                      | Some r \<Rightarrow> Some r \<in> ti_response_id ` set (triage_items d) \<or>
                                  r \<notin> ra_response_id ` set (response_actions d)))
             IntegrityError)
     (modify (\<lambda>d. d\<lparr>triage_items := triage_items d @ [i]\<rparr>)))"

text \<open>
  The target of one collection, and why it cannot be used. A target that was resolved is kept even when a
  later check of the block raises.
\<close>

definition triage_target :: "env \<Rightarrow> string \<Rightarrow> string option \<Rightarrow> string \<Rightarrow> string \<Rightarrow> (db, jobj \<times> string option) act" where
  "triage_target e alert_id agent_id host action =
    bindM (catch_http (collection_target e alert_id action)) (\<lambda>resolved.
    case resolved of
      Inl (_, detail) \<Rightarrow> ret ([], Some detail)
    | Inr (agent, bound_host, target) \<Rightarrow>
       if Some agent \<noteq> agent_id \<or> bound_host \<noteq> host then ret (target, Some ''endpoint binding changed'')
       else bindM (current_profile e agent host) (\<lambda>profile. ret (target, policy_block profile action target)))"

definition skip_invalid :: "triage_decision \<Rightarrow> triage_decision" where
  "skip_invalid t =
    t\<lparr>td_decision := ''skip'', td_reason := ''invalid_target'',
      td_dump := jset ''reason'' (JStr ''invalid_target'') (jset ''decision'' (JStr ''skip'') (td_dump t))\<rparr>"

definition triage_action ::
  "env \<Rightarrow> alert_row \<Rightarrow> string \<Rightarrow> string \<Rightarrow> policy \<Rightarrow> capability \<Rightarrow> string \<Rightarrow> (db, unit) act" where
  "triage_action e retained host asset po capability action =
    (let alert_id = al_alert_id retained; actor = auto_triage_actor e in
     bindM (triage_target e alert_id (al_agent_id retained) host action) (\<lambda>(target, target_error).
     bindM (usage e (al_agent_id retained) alert_id po None) (\<lambda>used.
     let first = evaluate e po action asset capability used
                   (target_error = None \<and> has_key ''boot_id'' target) (jget ''path'' target);
         decision = (if target_error \<noteq> None \<and> td_decision first \<noteq> ''skip'' then skip_invalid first else first) in
     bindM (if td_decision decision \<noteq> ''skip''
            then bindM (stage_requested e alert_id action
                          (if td_decision decision = ''auto_dispatch'' then ''AUTO_SAFE'' else ''ANALYST_APPROVAL'')
                          target (td_reason decision) actor ''auto_triage'' (al_agent_id retained) host) (\<lambda>i. ret (Some i))
            else ret None) (\<lambda>response_id.
     seqM (insert_item \<lparr>ti_alert_id = alert_id, ti_action = action, ti_decision = td_decision decision,
             ti_reason = td_reason decision, ti_target_json = target,
             ti_reserved_bytes = (if response_id \<noteq> None then artifact_reservation_bytes e else 0),
             ti_response_id = response_id\<rparr>)
     (seqM (record_event e (if response_id \<noteq> None then ''auto_triage_created'' else ''auto_triage_skipped'') actor
              (Some host) (Some (case response_id of Some r \<Rightarrow> r | None \<Rightarrow> alert_id))
              (jupdate (td_dump decision) [(''alert_id'', JStr alert_id), (''target_error'', jopt target_error)]))
     (if td_decision decision = ''auto_dispatch''
      then authorize_response_action e (case response_id of Some r \<Rightarrow> r | None \<Rightarrow> []) actor else ret ()))))))"

definition start_host :: "db \<Rightarrow> alert_row \<Rightarrow> string" where
  "start_host d a =
    (case al_host_id a of
       Some h \<Rightarrow> if h \<noteq> [] then h
                 else (case (case al_agent_id a of None \<Rightarrow> None | Some g \<Rightarrow> active_agent d g) of
                         Some r \<Rightarrow> ea_host_id r | None \<Rightarrow> ''unknown'')
     | None \<Rightarrow> (case (case al_agent_id a of None \<Rightarrow> None | Some g \<Rightarrow> active_agent d g) of
                  Some r \<Rightarrow> ea_host_id r | None \<Rightarrow> ''unknown''))"

definition start :: "env \<Rightarrow> string \<Rightarrow> (db, bool) act" where
  "start e alert_id =
    bindM (gets (\<lambda>d. find_by al_alert_id alert_id (alerts d))) (\<lambda>row.
    case row of
      None \<Rightarrow> ret False
    | Some retained \<Rightarrow>
       bindM (gets (\<lambda>d. policy_for d (al_rule_id retained))) (\<lambda>configuration.
       case configuration of
         None \<Rightarrow> ret False
       | Some c \<Rightarrow>
          bindM (gets (\<lambda>d. alert_id \<in> tr_alert_id ` set (triage_runs d))) (\<lambda>known.
          if known then ret True
          else
            bindM (require_some (validate_policy e c) ValidationError) (\<lambda>po.
            bindM (gets (\<lambda>d. start_host d retained)) (\<lambda>host.
            bindM (gets (\<lambda>d. asset_for d host)) (\<lambda>(asset, asset_version).
            seqM (insert_run \<lparr>tr_alert_id = alert_id, tr_rule_id = po_rule_id po, tr_policy_version = po_version po,
                    tr_policy_json = po_dump po,
                    tr_agent_id = (case al_agent_id retained of Some g \<Rightarrow> if g = [] then ''unknown'' else g | None \<Rightarrow> ''unknown''),
                    tr_host_id = host, tr_asset_class = asset, tr_asset_version = asset_version,
                    tr_created_at = now_text e,
                    tr_deadline = isoformat (plus_delta (now e) (seconds (po_workflow_ttl_seconds po))),
                    tr_cancelled_at = None\<rparr>)
            (bindM (endpoint e (al_agent_id retained) host) (\<lambda>capability.
            seqM (forM (triage_action e retained host asset po capability) (collect_actions e))
            (ret True)))))))))"

definition PERMANENT :: "string set" where
  "PERMANENT = {''triage_run_cancelled'', ''triage_deadline_expired'', ''triage_policy_revision_changed'',
     ''triage_asset_classification_changed'', ''triage_target_no_longer_valid'', ''triage_target_binding_changed''}"

text \<open>The queued work of triage: items with their response, and the state of its command.\<close>

definition queued_work :: "db \<Rightarrow> string option \<Rightarrow> response_row list" where
  "queued_work d agent_id =
    List.map_filter (\<lambda>(i, r).
        case response_of_item d i of
          None \<Rightarrow> None
        | Some ra \<Rightarrow>
           if (ra_lifecycle_state ra = PENDING \<or> command_state_of d (Some ra) = Some AUTHORIZED) \<and>
              (agent_id = None \<or> agent_id = Some (tr_agent_id r)) then Some ra else None)
      (triage_pairs d (\<lambda>_. True))"

definition reconcile :: "env \<Rightarrow> string option \<Rightarrow> (db, unit) act" where
  "reconcile e agent_id =
    bindM (gets (\<lambda>d. queued_work d agent_id)) (\<lambda>rows.
    forM (\<lambda>ra. bindM (guard e None (Some (ra_response_id ra))) (\<lambda>blocker.
      case blocker of
        None \<Rightarrow> ret ()
      | Some b \<Rightarrow>
         if b \<notin> PERMANENT then ret ()
         else if ra_lifecycle_state ra = PENDING then reject_response_action e (ra_response_id ra) (auto_triage_actor e) b
         else cancel_queued e (ra_response_id ra) (auto_triage_actor e) b)) rows)"

definition run_responses :: "db \<Rightarrow> string \<Rightarrow> (response_row \<times> lifecycle option) list" where
  "run_responses d alert_id =
    List.map_filter (\<lambda>i. case response_of_item d i of None \<Rightarrow> None | Some ra \<Rightarrow> Some (ra, command_state_of d (Some ra)))
      (filter (\<lambda>i. ti_alert_id i = alert_id) (triage_items d))"

definition cancel_run :: "env \<Rightarrow> string \<Rightarrow> string \<Rightarrow> string \<Rightarrow> (db, unit) act" where
  "cancel_run e alert_id actor reason =
    bindM (gets (\<lambda>d. find_by tr_alert_id alert_id (triage_runs d))) (\<lambda>found.
    bindM (require_some found (HTTPException 404 ''triage run not found'')) (\<lambda>run.
    if tr_cancelled_at run \<noteq> None \<and> tr_cancelled_at run \<noteq> Some [] then ret ()
    else
      seqM (modify (\<lambda>d. d\<lparr>triage_runs := update_where (\<lambda>r. tr_alert_id r = alert_id)
                (\<lambda>r. r\<lparr>tr_cancelled_at := Some (iso_now e)\<rparr>) (triage_runs d)\<rparr>))
      (bindM (gets (\<lambda>d. run_responses d alert_id)) (\<lambda>items.
      seqM (forM (\<lambda>(ra, command_state).
              if ra_lifecycle_state ra = PENDING then reject_response_action e (ra_response_id ra) actor reason
              else if command_state = Some AUTHORIZED then cancel_queued e (ra_response_id ra) actor reason
              else ret ()) items)
      (record_event e ''auto_triage_run_cancelled'' actor (Some (tr_host_id run)) (Some alert_id)
        [(''rule_id'', JStr (tr_rule_id run)), (''policy_version'', JInt (tr_policy_version run)),
         (''reason'', JStr reason)])))))"

section \<open>New alerts\<close>

text \<open>
  An alert whose context names a process must be of the enrolled agent and host it claims.
\<close>

definition unbound_context :: "db \<Rightarrow> json \<Rightarrow> string \<Rightarrow> bool" where
  "unbound_context d context alert_id =
    (case bound_alert d alert_id of
       None \<Rightarrow> True
     | Some (_, r) \<Rightarrow>
        (case get_or_empty ''endpoint'' context of
           JObj ep \<Rightarrow> jget ''agent_id'' ep \<noteq> JStr (ea_agent_id r) \<or> jget ''host_id'' ep \<noteq> JStr (ea_host_id r)
         | _ \<Rightarrow> True))"

definition translated :: "env \<Rightarrow> db \<Rightarrow> jobj \<Rightarrow> string \<Rightarrow> jobj \<Rightarrow> string \<Rightarrow> (string \<times> jobj \<times> string option) option" where
  "translated e d rec action active_response alert_id =
    (let context = jget ''endpoint_context'' rec in
     if context \<noteq> JNull \<and> action \<in> {''TERMINATE_PROCESS'', ''COLLECT_PROCESS_INFO''} \<and> unbound_context d context alert_id
     then None
     else translate_recommendation e (JStr action) active_response (if context = JNull then None else Some context))"

definition engine :: string where
  "engine = ''system:response-engine''"

text \<open>The immediate authorization of an \<open>AUTO_SAFE\<close> action; a refusal is recorded on the row.\<close>

definition auto_authorize :: "env \<Rightarrow> string \<Rightarrow> (db, unit) act" where
  "auto_authorize e response_id =
    bindM (catch_http (authorize_response_action e response_id engine)) (\<lambda>outcome.
    case outcome of
      Inr _ \<Rightarrow> ret ()
    | Inl (_, detail) \<Rightarrow>
       seqM (modify (decide_pending (rejected (''automatic authorization failed: '' @ detail)) response_id))
       (record_decision e response_id ''rejected'' engine
          (Some [(''reason'', JStr (''automatic authorization failed: '' @ detail))])))"

text \<open>The recommendation of an alert, once it is known to be a text.\<close>

definition respond :: "env \<Rightarrow> jobj \<Rightarrow> string \<Rightarrow> jobj \<Rightarrow> string \<Rightarrow> (db, unit) act" where
  "respond e rec alert_id active_response eyedetect_action =
    bindM (gets (\<lambda>d. translated e d rec eyedetect_action active_response alert_id)) (\<lambda>mapped.
    case mapped of
      None \<Rightarrow>
        seqM (insert_response_action e alert_id eyedetect_action ''AUTO_SAFE'' REJECTED active_response
                (Some (untranslatable_reason eyedetect_action active_response)) engine) (ret ())
    | Some (action, target, decided_reason) \<Rightarrow>
       (let tier = classify_tier e action in
        if tier \<noteq> ''AUTO_SAFE'' \<and> jget ''detection_source'' rec = JStr ''behavioral''
        then seqM (insert_response_action e alert_id action tier REJECTED target
               (Some (''record only: '' @ action @ '' is disruptive and this is a behavioral detection (evidence, not a verdict); it needs a rule, stateful or correlation detection to be proposed for approval''))
               engine) (ret ())
        else
          bindM (gets (\<lambda>d. find_open_duplicate e d
                   (jstr (jor (jget ''host_id'' rec) (jget ''host_id'' active_response))) action target)) (\<lambda>duplicate_of.
          case duplicate_of of
            Some r \<Rightarrow>
              seqM (insert_response_action e alert_id action tier REJECTED target (Some (''duplicate of '' @ r)) engine) (ret ())
          | None \<Rightarrow>
              bindM (insert_response_action e alert_id action tier PENDING target decided_reason engine) (\<lambda>response_id.
              if tier = ''AUTO_SAFE'' then auto_authorize e response_id else ret ()))))"

text \<open>
  \<open>_on_alert_created\<close> on \<open>alert.to_dict()\<close>. A list or a dictionary cannot be looked up in a set. The action of a recommendation is one of eyedetect's texts; another
  kind of value would not be stored as it is, and the model raises for it.
\<close>

fun unhashable :: "json \<Rightarrow> bool" where
  "unhashable (JArr xs) = True"
| "unhashable (JObj d) = True"
| "unhashable _ = False"

definition on_alert_created_body :: "env \<Rightarrow> jobj \<Rightarrow> (db, unit) act" where
  "on_alert_created_body e rec =
    bindM (require_some (map_of rec ''alert_id'') (KeyError ''alert_id'')) (\<lambda>alert_id0.
    bindM (require_some (jstr alert_id0) (TypeError ''alert_id'')) (\<lambda>alert_id.
    bindM (start e alert_id) (\<lambda>triage_owned.
    let active_response0 = jget ''active_response'' rec in
    if \<not> truthy active_response0 then ret ()
    else
      bindM (case active_response0 of JObj r \<Rightarrow> ret r | _ \<Rightarrow> throw (AttributeError ''get'')) (\<lambda>active_response.
      seqM (raise_if (triage_owned \<and> unhashable (jget ''action'' active_response)) (TypeError ''unhashable type''))
      (if \<not> truthy (jget ''action'' active_response) then ret ()
       else
         bindM (require_some (jstr (jget ''action'' active_response)) (TypeError ''action'')) (\<lambda>action.
         if triage_owned \<and> action \<in> COLLECTIONS then ret ()
         else respond e rec alert_id active_response action))))))"

text \<open>Never raises: SAVEPOINT, and on any exception ROLLBACK TO it.\<close>

definition on_alert_created :: "env \<Rightarrow> jobj \<Rightarrow> (db, unit) act" where
  "on_alert_created e rec = tryM (transaction (on_alert_created_body e rec)) (\<lambda>_. ret ())"

end
