(* ===== verification/Contract.thy ===== *)
theory Contract
  imports Response
begin

text \<open>
  The contract of the response table, and that every operation of the response engine keeps it together
  with the contracts of the queue and of the audit.
\<close>

section \<open>Rows of the response table\<close>

text \<open>
  A row that was decided never changes again. A pending row keeps what was asked, and is decided once:
  authorized (with the command \<open>resp-<id>\<close>), rejected or expired.
\<close>

definition response_moves :: "response_row \<Rightarrow> response_row \<Rightarrow> bool" where
  "response_moves r r' \<longleftrightarrow> r' = r \<or>
    (ra_lifecycle_state r = PENDING \<and> ra_lifecycle_state r' \<in> {PENDING, AUTHORIZED, REJECTED, EXPIRED} \<and>
     ra_response_id r' = ra_response_id r \<and> ra_alert_id r' = ra_alert_id r \<and> ra_action r' = ra_action r \<and>
     ra_tier r' = ra_tier r \<and> ra_target_json r' = ra_target_json r \<and> ra_created_at r' = ra_created_at r \<and>
     ra_origin r' = ra_origin r \<and> ra_requested_by r' = ra_requested_by r \<and>
     ra_request_reason r' = ra_request_reason r \<and> ra_requested_agent_id r' = ra_requested_agent_id r \<and>
     ra_requested_host_id r' = ra_requested_host_id r)"

lemma response_moves_trans: "response_moves r s \<Longrightarrow> response_moves s t \<Longrightarrow> response_moves r t"
  unfolding response_moves_def by metis

interpretation response_rows: table_evolution response_actions ra_response_id response_moves
proof unfold_locales
  show "response_moves r r" for r by (simp add: response_moves_def)
  show "response_moves r s \<Longrightarrow> response_moves s t \<Longrightarrow> response_moves r t" for r s t
    by (rule response_moves_trans)
qed

definition responses_keyed :: "db \<Rightarrow> bool" where
  "responses_keyed d \<longleftrightarrow> distinct (map ra_response_id (response_actions d))"

definition responses_evolve :: "db \<Rightarrow> db \<Rightarrow> bool" where
  "responses_evolve d d' \<longleftrightarrow>
    (responses_keyed d \<longrightarrow> responses_keyed d' \<and> rows_evolve response_actions ra_response_id response_moves d d')"

lemma responses_evolve_same: "response_actions d' = response_actions d \<Longrightarrow> responses_evolve d d'"
  by (simp add: responses_evolve_def responses_keyed_def response_rows.evolve_same)

section \<open>Authorized responses and their commands\<close>

text \<open>
  The vendored command model keeps the identifiers it is given.
\<close>

definition keeps_command_ids :: "env \<Rightarrow> bool" where
  "keeps_command_ids e \<longleftrightarrow>
    (\<forall>c c'. make_command e c = Some c' \<longrightarrow> cmd_command_id c' = cmd_command_id c \<and> cmd_agent_id c' = cmd_agent_id c)"

definition linked_row :: "db \<Rightarrow> response_row \<Rightarrow> bool" where
  "linked_row d r \<longleftrightarrow> ra_command_id r = Some (''resp-'' @ ra_response_id r) \<and>
    (\<exists>c a. find_by cm_command_id (''resp-'' @ ra_response_id r) (commands d) = Some c \<and>
       cm_alert_id c = Some (ra_alert_id r) \<and> find_by al_alert_id (ra_alert_id r) (alerts d) = Some a \<and>
       al_agent_id a = Some (cm_agent_id c))"

definition linked :: "db \<Rightarrow> bool" where
  "linked d \<longleftrightarrow> commands_keyed d \<and> responses_keyed d \<and>
    (\<forall>r\<in>set (response_actions d). ra_lifecycle_state r = AUTHORIZED \<longrightarrow> linked_row d r)"

text \<open>The alerts of a database are kept: their identity and their agent.\<close>

definition alerts_kept :: "db \<Rightarrow> db \<Rightarrow> bool" where
  "alerts_kept d d' \<longleftrightarrow>
    (\<forall>i a. find_by al_alert_id i (alerts d) = Some a \<longrightarrow>
       (\<exists>a'. find_by al_alert_id i (alerts d') = Some a' \<and> al_agent_id a' = al_agent_id a))"

lemma linked_row_kept:
  assumes "linked_row d r" and "commands_keyed d" and "commands_evolve d d'" and "alerts_kept d d'"
  shows "linked_row d' r"
proof -
  obtain c a where c: "ra_command_id r = Some (''resp-'' @ ra_response_id r)"
    "find_by cm_command_id (''resp-'' @ ra_response_id r) (commands d) = Some c" "cm_alert_id c = Some (ra_alert_id r)"
    "find_by al_alert_id (ra_alert_id r) (alerts d) = Some a" "al_agent_id a = Some (cm_agent_id c)"
    using assms(1) by (auto simp: linked_row_def)
  obtain c' where c': "find_by cm_command_id (''resp-'' @ ra_response_id r) (commands d') = Some c'" "command_moves c c'"
    using assms(2,3) c(2) by (auto simp: commands_evolve_def rows_evolve_def)
  obtain a' where "find_by al_alert_id (ra_alert_id r) (alerts d') = Some a'" "al_agent_id a' = al_agent_id a"
    using assms(4) c(4) by (auto simp: alerts_kept_def)
  then show ?thesis using c c' by (auto simp: linked_row_def command_moves_def)
qed

lemma linked_kept:
  assumes "linked d" and "commands_evolve d d'" and "responses_evolve d d'" and "alerts_kept d d'"
    and "\<And>r. r \<in> set (response_actions d') \<Longrightarrow> ra_lifecycle_state r = AUTHORIZED \<Longrightarrow> r \<in> set (response_actions d)"
  shows "linked d'"
proof -
  have "commands_keyed d'" "responses_keyed d'"
    using assms(1-3) by (auto simp: linked_def commands_evolve_def responses_evolve_def)
  moreover have "linked_row d' r" if "r \<in> set (response_actions d')" "ra_lifecycle_state r = AUTHORIZED" for r
    using linked_row_kept [OF _ _ assms(2,4)] assms(1,5) that by (auto simp: linked_def)
  ultimately show ?thesis by (simp add: linked_def)
qed

section \<open>The contract of the response work\<close>

definition work :: "env \<Rightarrow> db \<Rightarrow> db \<Rightarrow> bool" where
  "work e d d' \<longleftrightarrow> commands_evolve d d' \<and> responses_evolve d d' \<and> alerts_kept d d' \<and>
    (keeps_command_ids e \<and> linked d \<longrightarrow> linked d')"

lemma work_same:
  assumes "commands d' = commands d" and "response_actions d' = response_actions d" and "alerts d' = alerts d"
  shows "work e d d'"
proof -
  have k: "commands_evolve d d'" "responses_evolve d d'" "alerts_kept d d'"
    using assms by (simp_all add: commands_evolve_same responses_evolve_same alerts_kept_def)
  then show ?thesis using linked_kept [of d d'] assms(2) by (auto simp: work_def)
qed

interpretation work: blind_to_identities "work e"
proof unfold_locales
  show "work e s s" for s by (rule work_same) simp_all
  show "work e s u" if "work e s t" "work e t u" for s t u
  proof -
    have "commands_evolve s u" using that queue.R_trans by (auto simp: work_def)
    moreover have "responses_evolve s u"
      using that response_rows.R_trans unfolding work_def responses_evolve_def by blast
    moreover have "alerts_kept s u" using that unfolding work_def alerts_kept_def by (metis (no_types, lifting))
    ultimately show ?thesis using that by (simp add: work_def)
  qed
  show "audit_only d d' \<Longrightarrow> work e d d'" for d d' by (simp add: work_same audit_onlyD)
  show "identities_only d d' \<Longrightarrow> work e d d'" for d d' by (simp add: work_same identities_onlyD)
qed

text \<open>A change of the queue alone, and a change of response rows that authorizes nothing.\<close>

lemma work_queue:
  assumes "commands_evolve d d'" and "response_actions d' = response_actions d" and "alerts d' = alerts d"
  shows "work e d d'"
proof -
  have "responses_evolve d d'" "alerts_kept d d'" using assms by (simp_all add: responses_evolve_same alerts_kept_def)
  then show ?thesis using linked_kept [of d d'] assms by (auto simp: work_def)
qed

lemma work_responses:
  assumes "responses_evolve d d'" and "commands d' = commands d" and "alerts d' = alerts d"
    and "\<And>r. r \<in> set (response_actions d') \<Longrightarrow> ra_lifecycle_state r = AUTHORIZED \<Longrightarrow> r \<in> set (response_actions d)"
  shows "work e d d'"
proof -
  have "commands_evolve d d'" "alerts_kept d d'" using assms by (simp_all add: commands_evolve_same alerts_kept_def)
  then show ?thesis using linked_kept [of d d'] assms by (auto simp: work_def)
qed

lemma work_modify:
  assumes "\<And>d. commands (f d) = commands d" "\<And>d. response_actions (f d) = response_actions d"
    "\<And>d. alerts (f d) = alerts d"
  shows "stays (work e) (modify f)"
  using assms by (simp add: stays_def work_same)

lemma work_decide_pending:
  assumes "\<And>r. ra_lifecycle_state r = PENDING \<Longrightarrow> response_moves r (f r) \<and> ra_lifecycle_state (f r) \<noteq> AUTHORIZED"
    and "\<And>r. ra_response_id (f r) = ra_response_id r"
  shows "stays (work e) (modify (decide_pending f i))"
proof (rule staysI)
  fix d
  let ?d = "decide_pending f i d"
  have 1: "responses_evolve d ?d"
    using assms unfolding responses_evolve_def responses_keyed_def
    by (auto simp: decide_pending_def map_key_update_where intro!: response_rows.evolve_update)
  have 2: "r \<in> set (response_actions d)" if "r \<in> set (response_actions ?d)" "ra_lifecycle_state r = AUTHORIZED" for r
    using that assms(1) by (auto simp: decide_pending_def set_update_where split: if_splits)
  have 3: "commands ?d = commands d" "alerts ?d = alerts d" by (simp_all add: decide_pending_def)
  show "work e d (snd (modify (decide_pending f i) d))" using work_responses [OF 1 3 2] by simp
qed

lemma work_insert_response_row:
  assumes "ra_lifecycle_state r \<noteq> AUTHORIZED"
  shows "stays (work e) (insert_response_row r)"
proof (rule staysI)
  fix d :: db
  let ?d = "d\<lparr>response_actions := response_actions d @ [r]\<rparr>"
  have "work e d ?d" if "ra_response_id r \<notin> ra_response_id ` set (response_actions d)"
  proof (rule work_responses)
    show "responses_evolve d ?d"
      using that by (auto simp: responses_evolve_def responses_keyed_def intro: response_rows.evolve_append)
  qed (use assms in auto)
  then show "work e d (snd (insert_response_row r d))"
    by (auto simp: insert_response_row_def bindM_raise_if work.R_refl)
qed

section \<open>Every operation keeps the contract\<close>

lemmas work_reads = reads_only [THEN stays_read, of "work e" for e, OF work.R_refl]
  checks_change_nothing [THEN stays_read, of "work e" for e, OF work.R_refl]
  draws_only_operations [THEN draws_only_stays, THEN work.stays_blind]

text \<open>The queue operations leave responses and alerts alone.\<close>

definition responses_same :: "db \<Rightarrow> db \<Rightarrow> bool" where
  "responses_same d d' \<longleftrightarrow> response_actions d' = response_actions d \<and> alerts d' = alerts d"

interpretation responses_same: blind_frame responses_same
  by unfold_locales (auto simp: responses_same_def audit_onlyD)

lemmas responses_same_reads = reads_only [THEN stays_read, of responses_same, OF responses_same.R_refl]
  draws_only_operations [THEN draws_only_stays, THEN responses_same.stays_blind]

lemma responses_same_modify:
  assumes "\<And>d. response_actions (f d) = response_actions d" "\<And>d. alerts (f d) = alerts d"
  shows "stays responses_same (modify f)"
  using assms by (simp add: stays_def responses_same_def)

lemma responses_same_set_command: "stays responses_same (modify (set_command f c))"
  by (rule responses_same_modify) (simp_all add: set_command_def)

lemma responses_same_insert_command: "stays responses_same (insert_command r)"
  by (rule staysI) (simp add: insert_command_def bindM_raise_if responses_same_def)

lemma responses_same_queue:
  "stays responses_same (authorize_and_enqueue e owns c actor alert_id)"
  "stays responses_same (enqueue e c token)"
  "stays responses_same (expire_stale_commands e now_iso)"
  "stays responses_same (cancel_queued e response_id actor reason)"
  unfolding enqueue_def Let_def expire_stale_commands_def cancel_queued_def authorize_and_enqueue_def enqueue_body_def
    on_integrity_error_def
  by (intro responses_same.stays_structural responses_same.writers responses_same_reads responses_same_set_command
      responses_same_insert_command stays_splits stays_owned)+

lemma work_queue_operation: "stays commands_evolve m \<Longrightarrow> stays responses_same m \<Longrightarrow> stays (work e) m"
  unfolding stays_def by (metis work_queue responses_same_def)

lemma work_queue_operations:
  "stays (work e) (authorize_and_enqueue e' owns c actor alert_id)"
  "stays (work e) (enqueue e' c token)"
  "stays (work e) (expire_stale_commands e' now_iso)"
  "stays (work e) (cancel_queued e' response_id actor reason)"
  by (intro work_queue_operation responses_same_queue authorize_and_enqueue_evolves enqueue_evolves
      expire_stale_commands_evolves cancel_queued_evolves)+

lemma rejected_moves:
  "ra_lifecycle_state r = PENDING \<Longrightarrow> response_moves r (rejected reason r) \<and> ra_lifecycle_state (rejected reason r) \<noteq> AUTHORIZED"
  "ra_lifecycle_state r = PENDING \<Longrightarrow> response_moves r ((rejected reason r)\<lparr>ra_authorized_by := by\<rparr>) \<and>
     ra_lifecycle_state ((rejected reason r)\<lparr>ra_authorized_by := by\<rparr>) \<noteq> AUTHORIZED"
  "ra_lifecycle_state r = PENDING \<Longrightarrow> response_moves r (r\<lparr>ra_lifecycle_state := EXPIRED, ra_decided_reason := why\<rparr>) \<and>
     ra_lifecycle_state (r\<lparr>ra_lifecycle_state := EXPIRED, ra_decided_reason := why\<rparr>) \<noteq> AUTHORIZED"
  by (simp_all add: response_moves_def rejected_def)

lemma work_decisions:
  "stays (work e) (expire_stale_response_actions e')"
  "stays (work e) (reject_response_action e' response_id actor reason)"
  "stays (work e) (modify (decide_pending (rejected reason) response_id))"
  unfolding expire_stale_response_actions_def reject_response_action_def
  by (intro work.stays_structural work.writers work_decide_pending rejected_moves stays_splits; simp add: rejected_def)+

lemma capture_plan_reads:
  "stays (\<lambda>d d'. d' = d) (planned_context e ra a)"
  unfolding planned_context_def plan_fields_def observed_time_def get_attr_def profile_of_def Let_def
  by (intro unchanged.stays_structural reads_only stays_splits)

lemmas work_plan_reads = capture_plan_reads [THEN stays_read, of "work e" for e, OF work.R_refl]

lemma work_capture_plan: "stays (work e) (capture_plan e' response_id actor)"
  unfolding capture_plan_def
  by (intro work.stays_structural work.writers work_modify work_plan_reads stays_splits; simp)

lemma work_insert_response_action:
  "state \<noteq> AUTHORIZED \<Longrightarrow> stays (work e) (insert_response_action e' alert_id action tier state target reason actor)"
  unfolding insert_response_action_def
  by (intro work.stays_structural work.writers work_insert_response_row work_capture_plan) (simp add: staged_row_def)

section \<open>Authorizing a pending row\<close>

lemma pending_SomeD: "pending d i = Some r \<Longrightarrow> r \<in> set (response_actions d) \<and> ra_response_id r = i \<and> ra_lifecycle_state r = PENDING"
  by (auto simp: pending_def dest: find_SomeD)

lemma pending_unique:
  assumes "pending d i = Some r" and "responses_keyed d" and "x \<in> set (response_actions d)" and "ra_response_id x = i"
  shows "x = r"
  using pending_SomeD [OF assms(1)] assms(2-4) by (auto simp: responses_keyed_def distinct_map dest: inj_onD)

lemma set_response_evolves:
  assumes "pending d i = Some row" and "response_moves row (f row)" and "\<And>r. ra_response_id (f r) = ra_response_id r"
  shows "responses_evolve d (set_response f i d)"
  unfolding responses_evolve_def
proof
  assume k: "responses_keyed d"
  have "rows_evolve response_actions ra_response_id response_moves d (set_response f i d)"
  proof (rule response_rows.evolve_update)
    show "response_actions (set_response f i d) = update_where (\<lambda>r. ra_response_id r = i) f (response_actions d)"
      by (simp add: set_response_def)
    show "response_moves r (f r)" if "r \<in> set (response_actions d)" "ra_response_id r = i" for r
      using pending_unique [OF assms(1) k that] assms(2) by simp
  qed (rule assms(3))
  then show "responses_keyed (set_response f i d) \<and>
      rows_evolve response_actions ra_response_id response_moves d (set_response f i d)"
    using k assms(3) by (simp add: responses_keyed_def set_response_def map_key_update_where)
qed

lemma work_set_response:
  assumes "pending d i = Some row" and "response_moves row (f row)" and "ra_lifecycle_state (f row) \<noteq> AUTHORIZED"
    and "\<And>r. ra_response_id (f r) = ra_response_id r"
  shows "work e d (set_response f i d)"
proof -
  let ?d = "set_response f i d"
  have 1: "responses_evolve d ?d" using assms(1,2,4) by (rule set_response_evolves)
  have c: "commands_evolve d ?d" "alerts_kept d ?d"
    by (simp_all add: commands_evolve_same alerts_kept_def set_response_def)
  have "linked ?d" if l: "linked d"
  proof (rule linked_kept [OF l c(1) 1 c(2)])
    fix r assume r: "r \<in> set (response_actions ?d)" "ra_lifecycle_state r = AUTHORIZED"
    then show "r \<in> set (response_actions d)"
      using pending_unique [OF assms(1)] assms(3) l
      by (auto simp: set_response_def set_update_where linked_def split: if_splits)
  qed
  then show ?thesis using 1 c by (simp add: work_def)
qed

lemma work_reject_row:
  "stays_on (\<lambda>d. pending d i = Some row) (work e) (reject_row e' i actor why note)"
  unfolding reject_row_def
proof (rule work.stays_on_seqM)
  show "stays_on (\<lambda>d. pending d i = Some row) (work e) (modify (set_response (rejected why) i))"
  proof (rule stays_onI)
    fix d assume p: "pending d i = Some row"
    have m: "response_moves row (rejected why row) \<and> ra_lifecycle_state (rejected why row) \<noteq> AUTHORIZED"
      using rejected_moves(1) pending_SomeD [OF p] by blast
    have "work e d (set_response (rejected why) i d)"
      using p m by (intro work_set_response) (simp_all add: rejected_def)
    then show "work e d (snd (modify (set_response (rejected why) i) d))" by simp
  qed
qed (intro work.writers)

lemma deadline_reads: "stays (\<lambda>d d'. d' = d) (deadline i)"
  unfolding deadline_def by (intro unchanged.stays_structural stays_splits)

lemma authorized_moves:
  "ra_lifecycle_state r = PENDING \<Longrightarrow> response_moves r (authorized e actor r)"
  by (simp add: response_moves_def authorized_def)

text \<open>
  After the command is in the queue, marking its response completes the link.
\<close>

lemma work_mark_authorized:
  assumes p: "pending d (ra_response_id row) = Some row"
    and a: "find_by al_alert_id (ra_alert_id row) (alerts d) = Some a" "al_agent_id a = Some agent"
    and c: "make_command e (response_command_of e row agent limit) = Some c"
    and q: "authorize_and_enqueue e owns c actor (Some (ra_alert_id row)) d = (Inr u, d1)"
  shows "work e d (set_response (authorized e actor) (ra_response_id row) d1)"
proof -
  let ?i = "ra_response_id row" and ?d = "set_response (authorized e actor) (ra_response_id row) d1"
  have w: "commands_evolve d d1" using authorize_and_enqueue_evolves q by (rule stays_run)
  have s: "response_actions d1 = response_actions d" "alerts d1 = alerts d"
    using stays_run [OF responses_same_queue(1) q] by (simp_all add: responses_same_def)
  have p1: "pending d1 ?i = Some row" using p s by (simp add: pending_def)
  have st: "ra_lifecycle_state row = PENDING" using pending_SomeD [OF p] by simp
  have "responses_evolve d1 ?d"
    using p1 authorized_moves [OF st] by (rule set_response_evolves) (simp add: authorized_def)
  then have r: "responses_evolve d ?d" using s by (simp add: responses_evolve_def responses_keyed_def rows_evolve_def)
  have ce: "commands_evolve d ?d" using w by (simp add: commands_evolve_def commands_keyed_def rows_evolve_def set_response_def)
  have ak: "alerts_kept d ?d" using s by (simp add: alerts_kept_def set_response_def)
  have "linked ?d" if k: "keeps_command_ids e" and l: "linked d"
  proof -
    obtain payload where pl: "cmd_command_id c \<notin> cm_command_id ` set (commands d)"
        "commands d1 = commands d @ [new_command e c (Some (ra_alert_id row)) payload]"
      using authorize_and_enqueue_Inr [OF q] by blast
    have id: "cmd_command_id c = ''resp-'' @ ?i" "cmd_agent_id c = agent"
      using k c unfolding keeps_command_ids_def by (auto simp: response_command_of_def)
    have "find_by cm_command_id (''resp-'' @ ?i) (commands d) = None"
      using pl(1) unfolding id(1) by (auto simp: find_by_None_iff image_iff)
    then have f: "find_by cm_command_id (''resp-'' @ ?i) (commands ?d) = Some (new_command e c (Some (ra_alert_id row)) payload)"
      using id pl(2) by (simp add: set_response_def find_by_append new_command_def)
    have keyed: "commands_keyed ?d" "responses_keyed ?d" "responses_keyed d"
      using ce r l by (auto simp: linked_def commands_evolve_def responses_evolve_def)
    have "linked_row ?d x" if x: "x \<in> set (response_actions ?d)" "ra_lifecycle_state x = AUTHORIZED" for x
    proof (cases "ra_response_id x = ?i")
      case True
      then have "x = authorized e actor row"
        using x(1) pending_unique [OF p keyed(3)] s
        by (auto simp: set_response_def set_update_where authorized_def split: if_splits)
      then show ?thesis
        using f a s id by (simp add: linked_row_def authorized_def new_command_def set_response_def)
    next
      case False
      then have "x \<in> set (response_actions d)"
        using x(1) s by (auto simp: set_response_def set_update_where authorized_def split: if_splits)
      then show ?thesis using linked_row_kept [OF _ _ ce ak] l x(2) by (auto simp: linked_def)
    qed
    then show ?thesis using keyed by (simp add: linked_def)
  qed
  then show ?thesis using ce r ak by (simp add: work_def)
qed

lemma work_enqueue_response:
  "stays_on (\<lambda>d. pending d (ra_response_id row) = Some row \<and>
      find_by al_alert_id (ra_alert_id row) (alerts d) = Some a \<and> al_agent_id a = Some agent)
    (work e) (enqueue_response e row agent actor)"
proof (rule stays_onI, elim conjE)
  fix d assume p: "pending d (ra_response_id row) = Some row"
    "find_by al_alert_id (ra_alert_id row) (alerts d) = Some a" "al_agent_id a = Some agent"
  let ?mark = "seqM (mark_authorized e row actor) (record_decision e (ra_response_id row) ''authorized'' actor
       (Some [(''command_id'', JStr (''resp-'' @ ra_response_id row))]))"
  have mark: "work e d (snd (?mark d1))"
    if c: "make_command e (response_command_of e row agent limit) = Some c"
      and q: "authorize_and_enqueue e False c actor (Some (ra_alert_id row)) d = (Inr u, d1)" for limit c u d1
  proof (cases "''resp-'' @ ra_response_id row \<in> cm_command_id ` set (commands d1)")
    case False
    have "stays (work e) (authorize_and_enqueue e False c actor (Some (ra_alert_id row)))"
      by (rule work_queue_operations)
    then have "work e d d1" using q by (rule stays_run)
    then show ?thesis using False by (simp add: mark_authorized_def bindM_raise_if bindM_assoc)
  next
    case True
    let ?d2 = "set_response (authorized e actor) (ra_response_id row) d1"
    have "work e d ?d2" using work_mark_authorized [OF p c q] .
    moreover have "work e ?d2 (snd (record_decision e (ra_response_id row) ''authorized'' actor
       (Some [(''command_id'', JStr (''resp-'' @ ra_response_id row))]) ?d2))"
      by (rule staysD [OF work.writers(6)])
    ultimately have "work e d (snd (record_decision e (ra_response_id row) ''authorized'' actor
       (Some [(''command_id'', JStr (''resp-'' @ ra_response_id row))]) ?d2))"
      by (rule work.R_trans)
    then show ?thesis using True by (simp add: mark_authorized_def bindM_raise_if bindM_assoc)
  qed
  show "work e d (snd (enqueue_response e row agent actor d))"
  proof (cases "deadline (ra_response_id row) d")
    case (Pair x d0)
    have d0: "d0 = d" using deadline_reads Pair by (rule stays_run)
    show ?thesis
    proof (cases x)
      case (Inl y)
      then show ?thesis using Pair d0 by (simp add: enqueue_response_def bindM_Inl work.R_refl)
    next
      case (Inr limit)
      then have dl: "deadline (ra_response_id row) d = (Inr limit, d)" using Pair d0 by simp
      show ?thesis
      proof (cases "make_command e (response_command_of e row agent limit)")
        case None
        then show ?thesis using dl by (simp add: enqueue_response_def bindM_Inr work.R_refl)
      next
        case (Some c)
        obtain y d1 where q: "authorize_and_enqueue e False c actor (Some (ra_alert_id row)) d = (y, d1)" by fastforce
        have "work e d d1"
          by (rule stays_run [OF work_queue_operations(1) q])
        then show ?thesis
          using dl Some q mark [OF Some, of _ d1] by (cases y) (simp_all add: enqueue_response_def bindM_Inr bindM_Inl)
      qed
    qed
  qed
qed

lemma work_authorize_response_action: "stays (work e) (authorize_response_action e response_id actor)"
proof (rule staysI)
  fix d
  show "work e d (snd (authorize_response_action e response_id actor d))"
  proof (cases "pending d response_id")
    case None
    then show ?thesis by (simp add: authorize_response_action_def work.R_refl)
  next
    case (Some row)
    have id: "ra_response_id row = response_id" using pending_SomeD [OF Some] by simp
    show ?thesis
    proof (cases "\<exists>a agent. find_by al_alert_id (ra_alert_id row) (alerts d) = Some a \<and> al_agent_id a = Some agent")
      case False
      then have "snd (authorize_response_action e response_id actor d) =
          snd (reject_row e response_id actor ''originating alert has no agent_id to target''
                ''originating alert has no agent_id to target'' d)"
        using Some by (auto simp: authorize_response_action_def split: option.splits)
      then show ?thesis using stays_onD [OF work_reject_row Some] by simp
    next
      case True
      then obtain a agent where a: "find_by al_alert_id (ra_alert_id row) (alerts d) = Some a" "al_agent_id a = Some agent"
        by blast
      let ?P = "\<lambda>d. pending d response_id = Some row \<and> find_by al_alert_id (ra_alert_id row) (alerts d) = Some a"
      let ?m = "seqM (check_requested e row)
           (bindM (if ra_origin row \<notin> {''analyst'', ''auto_triage''} \<and> has_key ''boot_id'' (ra_target_json row)
                   then detection_target_changed e row a agent else ret False) (\<lambda>changed.
           if changed
           then reject_row e response_id actor ''canonical target or enrolled host changed before authorization''
                  ''canonical target or enrolled host changed''
           else enqueue_response e row agent actor))"
      have keeps: "?P t" if "?P s" "draws_only s t" for s t
        using that by (auto simp: draws_only_def pending_def)
      have dw: "work e s t" if "draws_only s t" for s t
        using that by (blast intro: work.blind draws_only_audit_only)
      have "stays_on ?P (work e) (reject_row e response_id actor why msg)" for why msg
        using work_reject_row by (auto simp: stays_on_def)
      moreover have "stays_on ?P (work e) (enqueue_response e row agent actor)"
        using work_enqueue_response [of row a agent e actor] a(2) id by (auto simp: stays_on_def)
      ultimately have "stays_on ?P (work e) (if changed then reject_row e response_id actor ''canonical target or enrolled host changed before authorization''
                  ''canonical target or enrolled host changed'' else enqueue_response e row agent actor)" for changed
        by simp
      then have "stays_on ?P (work e) ?m"
        unfolding check_requested_def detection_target_changed_def get_attr_def
        by (intro work.stays_on_bindM [where B = draws_only, OF _ dw keeps] draws_only.stays_structural
            draws_only_operations stays_splits)
      moreover have "authorize_response_action e response_id actor d = ?m d"
        using Some a by (simp add: authorize_response_action_def)
      ultimately show ?thesis using stays_onD [of ?P "work e" ?m d] Some a(1) by simp
    qed
  qed
qed

section \<open>Triage and new alerts\<close>

definition idle :: "db \<Rightarrow> db \<Rightarrow> bool" where
  "idle d d' \<longleftrightarrow> commands d' = commands d \<and> response_actions d' = response_actions d \<and> alerts d' = alerts d"

interpretation idle: blind_frame idle
  by unfold_locales (auto simp: idle_def audit_onlyD)

lemma idle_modify:
  assumes "\<And>d. commands (f d) = commands d" "\<And>d. response_actions (f d) = response_actions d" "\<And>d. alerts (f d) = alerts d"
  shows "stays idle (modify f)"
  using assms by (simp add: stays_def idle_def)

lemma idle_capture_plan: "stays idle (capture_plan e response_id actor)"
  unfolding capture_plan_def
  by (intro idle.stays_structural idle.writers idle_modify
      capture_plan_reads [THEN stays_read, of idle, OF idle.R_refl] stays_splits; simp)

lemma insert_response_action_Inr:
  assumes "insert_response_action e alert_id action tier state target reason actor d = (Inr i, d')"
  shows "i = uuid4 e (draws d) \<and> i \<notin> ra_response_id ` set (response_actions d) \<and>
    response_actions d' = response_actions d @ [staged_row e i alert_id action tier state target reason] \<and>
    alerts d' = alerts d \<and> commands d' = commands d"
proof -
  define r where "r = staged_row e (uuid4 e (draws d)) alert_id action tier state target reason"
  obtain u1 d1 u2 d2 u3 where i: "i = uuid4 e (draws d)"
    and 1: "insert_response_row r (d\<lparr>draws := draws d + 1\<rparr>) = (Inr u1, d1)"
    and 2: "record_decision e i ''staged'' actor
             (Some [(''state'', JStr (state_text state)), (''action'', JStr action), (''reason'', jopt reason)]) d1 = (Inr u2, d2)"
    and 3: "capture_plan e i actor d2 = (Inr u3, d')"
    using assms by (auto simp: insert_response_action_def bindM_Inr_iff r_def)
  have "idle d1 d2" using idle.writers(6) 2 by (rule stays_run)
  moreover have "idle d2 d'" using idle_capture_plan 3 by (rule stays_run)
  ultimately have "idle d1 d'" by (rule idle.R_trans)
  moreover have "ra_response_id r = i" by (simp add: r_def staged_row_def i)
  ultimately show ?thesis
    using 1 i by (auto simp: insert_response_row_def bindM_raise_if idle_def r_def split: if_splits)
qed

lemma stage_requested_Inr:
  assumes "stage_requested e alert_id action tier target reason actor origin agent host d = (Inr i, d')"
  shows "i = uuid4 e (draws d) \<and> i \<notin> ra_response_id ` set (response_actions d) \<and>
    response_actions d' = response_actions d @ [requested_by origin actor reason agent host
      (staged_row e i alert_id action tier PENDING target (Some reason))] \<and>
    alerts d' = alerts d \<and> commands d' = commands d"
proof -
  let ?f = "requested_by origin actor reason agent host"
  let ?row = "staged_row e i alert_id action tier PENDING target (Some reason)"
  obtain d1 where 1: "insert_response_action e alert_id action tier PENDING target (Some reason) actor d = (Inr i, d1)"
    and 2: "d' = set_response ?f i d1"
    using assms by (auto simp: stage_requested_def bindM_Inr_iff)
  note i = insert_response_action_Inr [OF 1]
  then have n: "i \<notin> ra_response_id ` set (response_actions d)" by blast
  have "update_where (\<lambda>r. ra_response_id r = i) ?f (response_actions d) = response_actions d"
    using n unfolding update_where_def by (intro map_idI) auto
  then have "response_actions d' = response_actions d @ [?f ?row]"
    using i by (simp add: 2 set_response_def staged_row_def update_where_def)
  moreover have "alerts d' = alerts d1" "commands d' = commands d1" by (simp_all add: 2 set_response_def)
  ultimately show ?thesis using i n by simp
qed

lemma work_stage_requested: "stays (work e) (stage_requested e' alert_id action tier target reason actor origin agent host)"
proof (rule staysI)
  fix d
  let ?m = "stage_requested e' alert_id action tier target reason actor origin agent host"
  obtain x d' where r: "?m d = (x, d')" by fastforce
  show "work e d (snd (?m d))"
  proof (cases x)
    case (Inl y)
    then have "insert_response_action e' alert_id action tier PENDING target (Some reason) actor d = (Inl y, d')"
      using r by (auto simp: stage_requested_def bindM_Inl_iff)
    then have "work e d d'" using stays_run [OF work_insert_response_action] by blast
    then show ?thesis using r by simp
  next
    case (Inr i)
    then have s: "?m d = (Inr i, d')" using r by simp
    note n = stage_requested_Inr [OF s]
    have "work e d d'"
    proof (rule work_responses)
      show "responses_evolve d d'"
        using n by (auto simp: responses_evolve_def responses_keyed_def requested_by_def staged_row_def
            intro: response_rows.evolve_append)
      show "r \<in> set (response_actions d)" if "r \<in> set (response_actions d')" "ra_lifecycle_state r = AUTHORIZED" for r
        using that n by (auto simp: requested_by_def staged_row_def)
    qed (use n in simp_all)
    then show ?thesis using r by simp
  qed
qed

lemma work_inserts:
  "stays (work e) (insert_run r)" "stays (work e) (insert_item i)"
  unfolding insert_run_def insert_item_def
  by (intro work.stays_structural work_modify; simp)+

lemma draws_only_triage_target: "stays draws_only (triage_target e alert_id agent host action)"
  unfolding triage_target_def by (intro draws_only.stays_structural draws_only_operations draws_only_reads stays_splits)

lemmas work_triage_target = draws_only_triage_target [THEN draws_only_stays, THEN work.stays_blind]

lemma work_triage_action: "stays (work e) (triage_action e retained host asset po capability action)"
  unfolding triage_action_def Let_def
  by (intro work.stays_structural work.writers work_triage_target work_reads work_inserts work_stage_requested
      work_authorize_response_action stays_splits)

lemma work_start: "stays (work e) (start e alert_id)"
  unfolding start_def
  by (intro work.stays_structural work_inserts work_reads work_triage_action stays_splits)

lemma work_reconcile: "stays (work e) (reconcile e' agent_id)"
  unfolding reconcile_def
  by (intro work.stays_structural work_reads work_decisions work_queue_operations stays_splits)

lemma work_cancel_run: "stays (work e) (cancel_run e' alert_id actor reason)"
  unfolding cancel_run_def
  by (intro work.stays_structural work.writers work_modify work_decisions work_queue_operations stays_splits; simp)

lemma work_on_alert_created: "stays (work e) (on_alert_created e rec)"
  unfolding on_alert_created_def on_alert_created_body_def respond_def auto_authorize_def Let_def
  by (intro work.stays_structural work.writers work_start work_insert_response_action work_authorize_response_action
      work_decisions stays_splits; simp)

lemmas work_responses_operations = work_decisions work_authorize_response_action work_start work_reconcile
  work_cancel_run work_on_alert_created work_stage_requested

section \<open>The audit, and what the response engine leaves alone\<close>

lemma audit_modify:
  assumes "\<And>d. response_audit_ledger (f d) = response_audit_ledger d" "\<And>d. command_audit (f d) = command_audit d"
    "\<And>d. response_decision_audit (f d) = response_decision_audit d"
    "\<And>d. response_artifact_custody (f d) = response_artifact_custody d"
    "\<And>d. response_security_audit (f d) = response_security_audit d" "\<And>d. ledger_id (f d) = ledger_id d"
  shows "stays (audit_grows h) (modify f)"
  using assms by (simp add: stays_def audit_grows_same)

lemma audit_draws_only: "draws_only d d' \<Longrightarrow> audit_grows h d d'"
  by (auto simp: draws_only_def intro: audit_grows_same)

lemma audit_drawing: "stays draws_only m \<Longrightarrow> stays (audit_grows h) m"
  by (auto simp: stays_def intro: audit_draws_only)

lemmas audit_draws = draws_only_operations [THEN audit_drawing] draws_only_triage_target [THEN audit_drawing]
  capture_plan_reads [THEN stays_read, of "audit_grows h" for h, OF audit.R_refl]

lemma audit_response_rows:
  "stays (audit_grows h) (modify (set_response f i))" "stays (audit_grows h) (modify (decide_pending f i))"
  "stays (audit_grows h) (insert_response_row r)" "stays (audit_grows h) (insert_run run)"
  "stays (audit_grows h) (insert_item it)"
  unfolding insert_response_row_def insert_run_def insert_item_def
  by (intro audit.stays_structural audit_modify; simp add: set_response_def decide_pending_def)+

lemma audit_capture_plan: "stays (audit_grows (sha256 e)) (capture_plan e response_id actor)"
  unfolding capture_plan_def
  by (intro audit.stays_structural audit_writers audit_draws audit_modify stays_splits; simp)

lemma audit_insert_response_action:
  "stays (audit_grows (sha256 e)) (insert_response_action e alert_id action tier state target reason actor)"
  unfolding insert_response_action_def
  by (intro audit.stays_structural audit_writers audit_response_rows audit_capture_plan)

lemma audit_decisions:
  "stays (audit_grows (sha256 e)) (expire_stale_response_actions e)"
  "stays (audit_grows (sha256 e)) (reject_response_action e response_id actor reason)"
  "stays (audit_grows (sha256 e)) (stage_requested e alert_id action tier target why actor origin agent host)"
  unfolding expire_stale_response_actions_def reject_response_action_def stage_requested_def
  by (intro audit.stays_structural audit_writers audit_response_rows audit_insert_response_action stays_splits)+

lemma audit_authorize_response_action: "stays (audit_grows (sha256 e)) (authorize_response_action e response_id actor)"
  unfolding authorize_response_action_def check_requested_def detection_target_changed_def get_attr_def reject_row_def
    enqueue_response_def mark_authorized_def
  by (intro audit.stays_structural audit_writers audit_response_rows audit_draws audit_queue stays_splits)

lemma audit_start: "stays (audit_grows (sha256 e)) (start e alert_id)"
  unfolding start_def triage_action_def Let_def
  by (intro audit.stays_structural audit_writers audit_response_rows audit_draws audit_decisions
      audit_authorize_response_action stays_splits)

lemma audit_reconcile: "stays (audit_grows (sha256 e)) (reconcile e agent_id)"
  unfolding reconcile_def
  by (intro audit.stays_structural audit_draws audit_decisions audit_queue stays_splits)

lemma audit_cancel_run: "stays (audit_grows (sha256 e)) (cancel_run e alert_id actor reason)"
  unfolding cancel_run_def
  by (intro audit.stays_structural audit_writers audit_modify audit_decisions audit_queue stays_splits; simp)

lemma audit_on_alert_created: "stays (audit_grows (sha256 e)) (on_alert_created e rec)"
  unfolding on_alert_created_def on_alert_created_body_def respond_def auto_authorize_def Let_def
  by (intro audit.stays_structural audit_writers audit_start audit_response_rows audit_insert_response_action
      audit_authorize_response_action stays_splits)

lemmas audit_responses = audit_decisions audit_authorize_response_action audit_start audit_reconcile audit_cancel_run
  audit_on_alert_created

text \<open>
  The evidence the manager holds, and who may act on it. Both are the business of the artifact components alone.
\<close>

definition evidence :: "db \<Rightarrow> artifact_row list \<times> attestation_row list \<times> transfer_row list \<times> chunk_row list \<times>
    artifact_usage_row \<times> transfer_usage_row" where
  "evidence d = (response_artifacts d, artifact_manifest_attestations d, response_artifact_transfers d,
     response_artifact_chunks d, response_artifact_usage d, response_artifact_transfer_usage d)"

definition entitlements :: "db \<Rightarrow> rotation_row list \<times> identity_operation_row list \<times> grant_row list \<times>
    access_operation_row list \<times> view_row list" where
  "entitlements d = (artifact_key_rotations d, artifact_identity_operations d, artifact_access_grants d,
     artifact_access_operations d, artifact_view_receipts d)"

lemma evidence_elsewhere [simp]:
  "evidence (d\<lparr>enrolled_agents := x_enrolled_agents\<rparr>) = evidence d"
  "evidence (d\<lparr>enrollment_nonces := x_enrollment_nonces\<rparr>) = evidence d"
  "evidence (d\<lparr>analyst_credentials := x_analyst_credentials\<rparr>) = evidence d"
  "evidence (d\<lparr>alerts := x_alerts\<rparr>) = evidence d"
  "evidence (d\<lparr>commands := x_commands\<rparr>) = evidence d"
  "evidence (d\<lparr>command_results := x_command_results\<rparr>) = evidence d"
  "evidence (d\<lparr>command_result_receipts := x_command_result_receipts\<rparr>) = evidence d"
  "evidence (d\<lparr>response_actions := x_response_actions\<rparr>) = evidence d"
  "evidence (d\<lparr>response_request_keys := x_response_request_keys\<rparr>) = evidence d"
  "evidence (d\<lparr>agent_response_channels := x_agent_response_channels\<rparr>) = evidence d"
  "evidence (d\<lparr>response_campaigns := x_response_campaigns\<rparr>) = evidence d"
  "evidence (d\<lparr>command_audit := x_command_audit\<rparr>) = evidence d"
  "evidence (d\<lparr>response_decision_audit := x_response_decision_audit\<rparr>) = evidence d"
  "evidence (d\<lparr>response_security_audit := x_response_security_audit\<rparr>) = evidence d"
  "evidence (d\<lparr>response_artifact_custody := x_response_artifact_custody\<rparr>) = evidence d"
  "evidence (d\<lparr>response_audit_ledger := x_response_audit_ledger\<rparr>) = evidence d"
  "evidence (d\<lparr>response_audit_checkpoints := x_response_audit_checkpoints\<rparr>) = evidence d"
  "evidence (d\<lparr>triage_policy_revisions := x_triage_policy_revisions\<rparr>) = evidence d"
  "evidence (d\<lparr>triage_policy_heads := x_triage_policy_heads\<rparr>) = evidence d"
  "evidence (d\<lparr>triage_asset_classes := x_triage_asset_classes\<rparr>) = evidence d"
  "evidence (d\<lparr>triage_runs := x_triage_runs\<rparr>) = evidence d"
  "evidence (d\<lparr>triage_items := x_triage_items\<rparr>) = evidence d"
  "evidence (d\<lparr>triage_admin_requests := x_triage_admin_requests\<rparr>) = evidence d"
  "evidence (d\<lparr>response_forensic_plans := x_response_forensic_plans\<rparr>) = evidence d"
  "evidence (d\<lparr>ledger_id := x_ledger_id\<rparr>) = evidence d"
  "evidence (d\<lparr>draws := x_draws\<rparr>) = evidence d"
  "evidence (d\<lparr>artifact_signing_keys := x_artifact_signing_keys\<rparr>) = evidence d"
  "evidence (d\<lparr>artifact_key_rotations := x_artifact_key_rotations\<rparr>) = evidence d"
  "evidence (d\<lparr>artifact_identity_operations := x_artifact_identity_operations\<rparr>) = evidence d"
  "evidence (d\<lparr>artifact_access_grants := x_artifact_access_grants\<rparr>) = evidence d"
  "evidence (d\<lparr>artifact_access_operations := x_artifact_access_operations\<rparr>) = evidence d"
  "evidence (d\<lparr>artifact_view_receipts := x_artifact_view_receipts\<rparr>) = evidence d"
  by (simp_all add: evidence_def)

lemma entitlements_elsewhere [simp]:
  "entitlements (d\<lparr>enrolled_agents := x_enrolled_agents\<rparr>) = entitlements d"
  "entitlements (d\<lparr>enrollment_nonces := x_enrollment_nonces\<rparr>) = entitlements d"
  "entitlements (d\<lparr>analyst_credentials := x_analyst_credentials\<rparr>) = entitlements d"
  "entitlements (d\<lparr>alerts := x_alerts\<rparr>) = entitlements d"
  "entitlements (d\<lparr>commands := x_commands\<rparr>) = entitlements d"
  "entitlements (d\<lparr>command_results := x_command_results\<rparr>) = entitlements d"
  "entitlements (d\<lparr>command_result_receipts := x_command_result_receipts\<rparr>) = entitlements d"
  "entitlements (d\<lparr>response_actions := x_response_actions\<rparr>) = entitlements d"
  "entitlements (d\<lparr>response_request_keys := x_response_request_keys\<rparr>) = entitlements d"
  "entitlements (d\<lparr>agent_response_channels := x_agent_response_channels\<rparr>) = entitlements d"
  "entitlements (d\<lparr>response_campaigns := x_response_campaigns\<rparr>) = entitlements d"
  "entitlements (d\<lparr>command_audit := x_command_audit\<rparr>) = entitlements d"
  "entitlements (d\<lparr>response_decision_audit := x_response_decision_audit\<rparr>) = entitlements d"
  "entitlements (d\<lparr>response_security_audit := x_response_security_audit\<rparr>) = entitlements d"
  "entitlements (d\<lparr>response_artifact_custody := x_response_artifact_custody\<rparr>) = entitlements d"
  "entitlements (d\<lparr>response_audit_ledger := x_response_audit_ledger\<rparr>) = entitlements d"
  "entitlements (d\<lparr>response_audit_checkpoints := x_response_audit_checkpoints\<rparr>) = entitlements d"
  "entitlements (d\<lparr>triage_policy_revisions := x_triage_policy_revisions\<rparr>) = entitlements d"
  "entitlements (d\<lparr>triage_policy_heads := x_triage_policy_heads\<rparr>) = entitlements d"
  "entitlements (d\<lparr>triage_asset_classes := x_triage_asset_classes\<rparr>) = entitlements d"
  "entitlements (d\<lparr>triage_runs := x_triage_runs\<rparr>) = entitlements d"
  "entitlements (d\<lparr>triage_items := x_triage_items\<rparr>) = entitlements d"
  "entitlements (d\<lparr>triage_admin_requests := x_triage_admin_requests\<rparr>) = entitlements d"
  "entitlements (d\<lparr>response_forensic_plans := x_response_forensic_plans\<rparr>) = entitlements d"
  "entitlements (d\<lparr>ledger_id := x_ledger_id\<rparr>) = entitlements d"
  "entitlements (d\<lparr>draws := x_draws\<rparr>) = entitlements d"
  "entitlements (d\<lparr>artifact_signing_keys := x_artifact_signing_keys\<rparr>) = entitlements d"
  "entitlements (d\<lparr>response_artifacts := x_response_artifacts\<rparr>) = entitlements d"
  "entitlements (d\<lparr>artifact_manifest_attestations := x_artifact_manifest_attestations\<rparr>) = entitlements d"
  "entitlements (d\<lparr>response_artifact_transfers := x_response_artifact_transfers\<rparr>) = entitlements d"
  "entitlements (d\<lparr>response_artifact_chunks := x_response_artifact_chunks\<rparr>) = entitlements d"
  "entitlements (d\<lparr>response_artifact_usage := x_response_artifact_usage\<rparr>) = entitlements d"
  "entitlements (d\<lparr>response_artifact_transfer_usage := x_response_artifact_transfer_usage\<rparr>) = entitlements d"
  by (simp_all add: entitlements_def)

text \<open>
  Identities, alerts, results, checkpoints and evidence: none of these operations touches them.
\<close>

definition background :: "db \<Rightarrow> (agent_row list \<times> nonce_row list \<times> analyst_row list \<times> alert_row list \<times>
    result_row list \<times> receipt_row list \<times> checkpoint_row list \<times> string) \<times> artifact_key_row list \<times>
    (artifact_row list \<times> attestation_row list \<times> transfer_row list \<times> chunk_row list \<times> artifact_usage_row \<times> transfer_usage_row) \<times>
    rotation_row list \<times> identity_operation_row list \<times> grant_row list \<times> access_operation_row list \<times> view_row list" where
  "background d = ((enrolled_agents d, enrollment_nonces d, analyst_credentials d, alerts d, command_results d,
     command_result_receipts d, response_audit_checkpoints d, ledger_id d), artifact_signing_keys d, evidence d, entitlements d)"

definition foreground :: "db \<Rightarrow> db \<Rightarrow> bool" where
  "foreground d d' \<longleftrightarrow> background d' = background d"

interpretation foreground: blind_frame foreground
  by unfold_locales (auto simp: foreground_def background_def evidence_def entitlements_def audit_onlyD)

lemma foreground_modify: "(\<And>d. background (f d) = background d) \<Longrightarrow> stays foreground (modify f)"
  by (simp add: stays_def foreground_def)

lemmas foreground_reads = reads_only [THEN stays_read, of foreground, OF foreground.R_refl]
  checks_change_nothing [THEN stays_read, of foreground, OF foreground.R_refl]
  draws_only_operations [THEN draws_only_stays, THEN foreground.stays_blind]
  draws_only_triage_target [THEN draws_only_stays, THEN foreground.stays_blind]
  capture_plan_reads [THEN stays_read, of foreground, OF foreground.R_refl]

lemma foreground_rows:
  "stays foreground (modify (set_response f i))" "stays foreground (modify (decide_pending f i))"
  "stays foreground (modify (set_command g c))" "stays foreground (insert_command cr)"
  "stays foreground (insert_response_row r)" "stays foreground (insert_run run)" "stays foreground (insert_item it)"
  unfolding insert_response_row_def insert_run_def insert_item_def insert_command_def
  by (intro foreground.stays_structural foreground_modify;
      simp add: background_def set_response_def decide_pending_def set_command_def)+

lemma foreground_queue:
  "stays foreground (authorize_and_enqueue e owns c actor alert_id)"
  "stays foreground (enqueue e c token)"
  "stays foreground (expire_stale_commands e now_iso)"
  "stays foreground (cancel_queued e response_id actor reason)"
  unfolding enqueue_def Let_def expire_stale_commands_def cancel_queued_def authorize_and_enqueue_def enqueue_body_def
    on_integrity_error_def
  by (intro foreground.stays_structural foreground.writers foreground_reads foreground_rows stays_splits stays_owned)+

lemma foreground_insert_response_action:
  "stays foreground (insert_response_action e alert_id action tier state target reason actor)"
  unfolding insert_response_action_def capture_plan_def
  by (intro foreground.stays_structural foreground.writers foreground_reads foreground_rows foreground_modify stays_splits;
      simp add: background_def)

lemma foreground_decisions:
  "stays foreground (expire_stale_response_actions e)"
  "stays foreground (reject_response_action e response_id actor reason)"
  "stays foreground (stage_requested e alert_id action tier target why actor origin agent host)"
  unfolding expire_stale_response_actions_def reject_response_action_def stage_requested_def
  by (intro foreground.stays_structural foreground.writers foreground_rows foreground_insert_response_action stays_splits)+

lemma foreground_authorize_response_action: "stays foreground (authorize_response_action e response_id actor)"
  unfolding authorize_response_action_def check_requested_def detection_target_changed_def get_attr_def reject_row_def
    enqueue_response_def mark_authorized_def
  by (intro foreground.stays_structural foreground.writers foreground_rows foreground_reads foreground_queue stays_splits)

lemma foreground_start: "stays foreground (start e alert_id)"
  unfolding start_def triage_action_def Let_def
  by (intro foreground.stays_structural foreground.writers foreground_rows foreground_reads foreground_decisions
      foreground_authorize_response_action stays_splits)

lemma foreground_triage:
  "stays foreground (reconcile e agent_id)"
  "stays foreground (cancel_run e alert_id actor reason)"
  unfolding reconcile_def cancel_run_def
  by (intro foreground.stays_structural foreground.writers foreground_reads foreground_decisions foreground_queue
      foreground_modify stays_splits; simp add: background_def)+

lemma foreground_on_alert_created: "stays foreground (on_alert_created e rec)"
  unfolding on_alert_created_def on_alert_created_body_def respond_def auto_authorize_def Let_def
  by (intro foreground.stays_structural foreground.writers foreground_start foreground_rows
      foreground_insert_response_action foreground_authorize_response_action stays_splits)

lemmas foreground_responses = foreground_decisions foreground_authorize_response_action foreground_start foreground_triage
  foreground_on_alert_created

end
