(* ===== verification/Commands.thy ===== *)
theory Commands
  imports Contract
begin

text \<open>
  The agent's side of the command queue: \<open>poll\<close>, \<open>accept\<close> and \<open>submit_result\<close> of
  \<^verbatim>\<open>manager/routers/commands.py\<close>. A poll records the channel and the runtime profile, retires triage
  work that lost its ground, and hands out at most 32 commands; accepting and reporting move a command
  towards its one outcome.
\<close>

section \<open>Polling\<close>

definition channel_of ::
  "env \<Rightarrow> string \<Rightarrow> string \<Rightarrow> bool \<Rightarrow> bool \<Rightarrow> jobj option \<Rightarrow> channel_row" where
  "channel_of e agent_id host_id durable es256 profile =
    \<lparr>pc_agent_id = agent_id, pc_last_polled_at = now_text e,
     pc_delivery_mode = (if durable then ''durable'' else ''single''),
     pc_command_auth =
       (case profile of
          Some p \<Rightarrow> if truthy (jget ''require_signature'' p) \<or> es256 then Some ''ES256'' else None
        | None \<Rightarrow> if es256 then Some ''ES256'' else None),
     pc_profile_json = profile,
     pc_profile_observed_at = (if profile = None then None else Some (now_text e)),
     pc_profile_host_id = (if profile = None then None else Some host_id)\<rparr>"

text \<open>\<open>INSERT ... ON CONFLICT(agent_id) DO UPDATE\<close>: a negotiated signature requirement is never dropped.\<close>

definition upsert_channel :: "channel_row \<Rightarrow> db \<Rightarrow> db" where
  "upsert_channel r d =
    d\<lparr>agent_response_channels :=
       (if pc_agent_id r \<in> pc_agent_id ` set (agent_response_channels d)
        then update_where (\<lambda>x. pc_agent_id x = pc_agent_id r)
               (\<lambda>x. r\<lparr>pc_command_auth := (case pc_command_auth r of Some a \<Rightarrow> Some a | None \<Rightarrow> pc_command_auth x)\<rparr>)
               (agent_response_channels d)
        else agent_response_channels d @ [r])\<rparr>"

definition eligible :: "bool \<Rightarrow> command_row \<Rightarrow> bool" where
  "eligible durable c \<longleftrightarrow>
    (if durable then cm_lifecycle_state c \<in> {AUTHORIZED, DISPATCHED}
     else cm_delivered_at c = None \<and> cm_lifecycle_state c = AUTHORIZED)"

definition accepts_collections :: "capability \<Rightarrow> bool" where
  "accepts_collections c \<longleftrightarrow> cap_recent c \<and> cap_collection_acceptance_gate c \<and> truthy (cap_artifact_protocol c)"

text \<open>The SELECT of a poll, with its ORDER BY and LIMIT.\<close>

definition deliverable :: "db \<Rightarrow> string \<Rightarrow> bool \<Rightarrow> string \<Rightarrow> profile \<Rightarrow> capability \<Rightarrow> command_row list" where
  "deliverable d agent_id durable now_iso profile capability =
    take 32 (order_by cm_created_at
      (filter (\<lambda>c. cm_agent_id c = agent_id \<and> eligible durable c \<and> now_iso < cm_expires_at c \<and>
                   delivery_predicate profile (cm_command_json c) \<and>
                   (accepts_collections capability \<or> (\<forall>i\<in>set (triage_items d). \<not> item_of_command (cm_command_id c) i)))
        (commands d)))"

definition command_action :: "jobj \<Rightarrow> ('s, string) act" where
  "command_action c =
    bindM (require_some (map_of c ''action'') (KeyError ''action'')) (\<lambda>v.
    ret (case v of JStr t \<Rightarrow> t | _ \<Rightarrow> []))"

fun filterM :: "('b \<Rightarrow> ('s, bool) act) \<Rightarrow> 'b list \<Rightarrow> ('s, 'b list) act" where
  "filterM p [] = ret []"
| "filterM p (x # xs) = bindM (p x) (\<lambda>ok. bindM (filterM p xs) (\<lambda>rest. ret (if ok then x # rest else rest)))"

definition unblocked :: "profile \<Rightarrow> command_row \<Rightarrow> ('s, bool) act" where
  "unblocked profile c =
    bindM (command_action (cm_command_json c)) (\<lambda>action.
    seqM (raise_if (\<not> has_key ''target'' (cm_command_json c)) (KeyError ''target''))
    (ret (policy_block profile action (command_target (cm_command_json c)) = None)))"

fun choose_rows :: "env \<Rightarrow> string list \<Rightarrow> command_row list \<Rightarrow> (db, command_row list) act" where
  "choose_rows e selected_runs [] = ret []"
| "choose_rows e selected_runs (c # cs) =
    bindM (dispatchable e (cm_command_id c) selected_runs) (\<lambda>(ok, selected_runs').
    bindM (choose_rows e selected_runs' cs) (\<lambda>rest. ret (if ok then c # rest else rest)))"

definition dispatched :: "string \<Rightarrow> command_row \<Rightarrow> command_row" where
  "dispatched now_iso r =
    r\<lparr>cm_delivered_at := (case cm_delivered_at r of Some t \<Rightarrow> Some t | None \<Rightarrow> Some now_iso),
      cm_lifecycle_state := DISPATCHED\<rparr>"

text \<open>
  The body of the transaction. A value \<open>Inl x\<close> is an exception raised after the commit: the channel
  observation is kept, nothing is dispatched.
\<close>

definition hand_out :: "env \<Rightarrow> string \<Rightarrow> bool \<Rightarrow> command_row list \<Rightarrow> (db, exn + jobj list) act" where
  "hand_out e agent_id es256 rows =
    (if es256 \<and> (\<exists>c\<in>set rows. \<not> has_key ''authorization'' (cm_command_json c))
     then ret (Inl (HTTPException 409 ''queued unsigned commands require cancellation and new approval''))
     else
       seqM (forM (\<lambda>c. seqM (modify (set_command (dispatched (now_text e)) c))
                   (audit e c ''dispatched'' (''agent:'' @ agent_id) None)) (map cm_command_id rows))
       (ret (Inr (map cm_command_json rows))))"

definition deliver :: "env \<Rightarrow> string \<Rightarrow> bool \<Rightarrow> bool \<Rightarrow> profile \<Rightarrow> capability \<Rightarrow> (db, exn + jobj list) act" where
  "deliver e agent_id durable es256 observed capability =
    bindM (gets (\<lambda>d. deliverable d agent_id durable (now_text e) observed capability)) (\<lambda>rows.
    bindM (filterM (unblocked observed) rows) (\<lambda>rows.
    bindM (choose_rows e [] rows) (\<lambda>rows.
    hand_out e agent_id es256 rows)))"

definition poll_body ::
  "env \<Rightarrow> string \<Rightarrow> string option \<Rightarrow> bool \<Rightarrow> bool \<Rightarrow> jobj option \<Rightarrow> (db, exn + jobj list) act" where
  "poll_body e agent_id authorization_header durable es256 profile =
    seqM (require_agent_token e agent_id authorization_header)
    (bindM (gets (\<lambda>d. active_agent d agent_id)) (\<lambda>found.
     bindM (require_some (case found of
              None \<Rightarrow> None
            | Some a \<Rightarrow> (case profile of None \<Rightarrow> Some a
                         | Some p \<Rightarrow> if jget ''host_id'' p = JStr (ea_host_id a) then Some a else None))
              (HTTPException 403 ''runtime profile disagrees with active host enrollment'')) (\<lambda>enrolled.
     let host_id = ea_host_id enrolled in
     seqM (expire_stale_commands e (now_text e))
     (seqM (modify (upsert_channel (channel_of e agent_id host_id durable es256 profile)))
     (if (case profile of None \<Rightarrow> False | Some p \<Rightarrow> truthy (jget ''require_signature'' p)) \<and> \<not> es256
      then ret (Inl (HTTPException 409 ''signature-requiring runtime must negotiate ES256 delivery''))
      else
        bindM (current_profile e agent_id host_id) (\<lambda>observed.
        seqM (reconcile e (Some agent_id))
        (bindM (endpoint e (Some agent_id) host_id) (\<lambda>capability.
         deliver e agent_id durable es256 observed capability))))))))"

definition poll ::
  "env \<Rightarrow> string \<Rightarrow> string option \<Rightarrow> bool \<Rightarrow> bool \<Rightarrow> string option \<Rightarrow> (db, jobj list) act" where
  "poll e agent_id authorization_header durable es256 header =
    seqM (require_agent_token e agent_id authorization_header)
    (bindM (parse_header e header) (\<lambda>profile.
     bindM (raise_committed (transaction (poll_body e agent_id authorization_header durable es256 profile))) (\<lambda>queued.
     ret (if es256 then queued else map (jpop ''authorization'') queued))))"

section \<open>Accepting\<close>

definition owned_command :: "string \<Rightarrow> string \<Rightarrow> (db, command_row) act" where
  "owned_command agent_id command_id =
    bindM (gets (\<lambda>d. find_by cm_command_id command_id (commands d))) (\<lambda>row.
    require_some (case row of Some c \<Rightarrow> if cm_agent_id c = agent_id then Some c else None | None \<Rightarrow> None)
      (HTTPException 422 ''command does not belong to agent''))"

text \<open>The decision on a command of the agent. A refusal is audited, committed and raised.\<close>

definition refuse_acceptance :: "env \<Rightarrow> string \<Rightarrow> string \<Rightarrow> string \<Rightarrow> string \<Rightarrow> (db, exn + unit) act" where
  "refuse_acceptance e agent_id command_id detail message =
    seqM (audit e command_id ''collection_acceptance_refused'' (''agent:'' @ agent_id) (Some detail))
    (ret (Inl (HTTPException 409 message)))"

definition accept_owned :: "env \<Rightarrow> string \<Rightarrow> string \<Rightarrow> command_row \<Rightarrow> (db, exn + unit) act" where
  "accept_owned e agent_id command_id c =
    bindM (guard e (Some command_id) None) (\<lambda>blocker.
    if blocks blocker
    then refuse_acceptance e agent_id command_id (case blocker of Some b \<Rightarrow> b | None \<Rightarrow> [])
           (case blocker of Some b \<Rightarrow> b | None \<Rightarrow> [])
    else
      bindM (command_action (cm_command_json c)) (\<lambda>action.
      if action \<in> COLLECTIONS \<and> cm_lifecycle_state c \<notin> {DISPATCHED, ACCEPTED}
      then refuse_acceptance e agent_id command_id (state_text (cm_lifecycle_state c))
             ''collection command is not authorized for execution''
      else if cm_lifecycle_state c = DISPATCHED
      then seqM (modify (set_command (\<lambda>r. r\<lparr>cm_lifecycle_state := ACCEPTED\<rparr>) command_id))
           (seqM (audit e command_id ''accepted'' (''agent:'' @ agent_id) None)
           (ret (Inr ())))
      else ret (Inr ())))"

definition accept_body :: "env \<Rightarrow> string \<Rightarrow> string \<Rightarrow> string option \<Rightarrow> (db, exn + unit) act" where
  "accept_body e agent_id command_id authorization_header =
    seqM (require_agent_token e agent_id authorization_header)
    (seqM (expire_stale_commands e (now_text e))
    (bindM (owned_command agent_id command_id) (accept_owned e agent_id command_id)))"

definition accept :: "env \<Rightarrow> string \<Rightarrow> string \<Rightarrow> string option \<Rightarrow> (db, unit) act" where
  "accept e agent_id command_id authorization_header =
    seqM (require_agent_token e agent_id authorization_header)
    (raise_committed (transaction (accept_body e agent_id command_id authorization_header)))"

section \<open>Reporting the outcome\<close>

fun final_state :: "string \<Rightarrow> lifecycle option" where
  "final_state t =
    (if t = ''succeeded'' then Some SUCCEEDED else if t = ''failed'' then Some FAILED
     else if t = ''rejected'' then Some REJECTED else if t = ''indeterminate'' then Some INDETERMINATE else None)"

text \<open>The checks of a report against the command it answers.\<close>

definition check_result :: "env \<Rightarrow> command_row \<Rightarrow> command_result \<Rightarrow> ('s, unit) act" where
  "check_result e c result =
    bindM (require_some (fromisoformat (cm_expires_at c)) (ValueError ''Invalid isoformat string'')) (\<lambda>expires_at.
    seqM (raise_if (res_schema_version result = ''1'' \<and> has_passed e expires_at) (HTTPException 422 ''command expired''))
    (seqM (raise_if (res_execution result \<noteq> None \<and> jget ''action'' (cm_command_json c) \<noteq> JStr ''KILL_PROCESS'')
             (HTTPException 422 ''execution evidence does not match command action''))
    (raise_if (case res_correlation_id result of None \<Rightarrow> False
               | Some i \<Rightarrow> JStr i \<noteq> jget ''correlation_id'' (cm_command_json c))
       (HTTPException 422 ''result correlation does not match command''))))"

text \<open>\<open>json.dumps(retained, sort_keys=True, separators=(",", ":"))\<close> of a version 2 report.\<close>

definition result_text :: "command_result \<Rightarrow> string" where
  "result_text result =
    encode esc_ascii '','' '':''
      (sort_json (JObj (if res_execution result = None then jpop ''execution'' (res_dump result) else res_dump result)))"

definition keep_receipt :: "env \<Rightarrow> string \<Rightarrow> command_result \<Rightarrow> (db, unit) act" where
  "keep_receipt e agent_id result =
    (let raw = result_text result; digest = sha256 e raw in
     bindM (gets (\<lambda>d. find_by rc_result_id (res_result_id result) (command_result_receipts d))) (\<lambda>prior.
     case prior of
       Some p \<Rightarrow>
         raise_if (rc_agent_id p \<noteq> agent_id \<or> rc_command_id p \<noteq> res_command_id result \<or> rc_payload_digest p \<noteq> digest)
           (HTTPException 409 ''immutable result identity collision'')
     | None \<Rightarrow>
         modify (\<lambda>d. d\<lparr>command_result_receipts := command_result_receipts d @
           [\<lparr>rc_result_id = res_result_id result, rc_agent_id = agent_id, rc_command_id = res_command_id result,
             rc_payload_digest = digest, rc_raw_json = raw, rc_received_at = iso_now e\<rparr>]\<rparr>)))"

text \<open>\<open>INSERT OR IGNORE INTO command_results\<close>, and the state the first outcome gives its command.\<close>

definition keep_outcome :: "env \<Rightarrow> string \<Rightarrow> command_result \<Rightarrow> (db, unit) act" where
  "keep_outcome e agent_id result =
    bindM (gets (\<lambda>d. res_result_id result \<in> cr_result_id ` set (command_results d))) (\<lambda>known.
    if known then ret ()
    else
      seqM (modify (\<lambda>d. d\<lparr>command_results := command_results d @
              [\<lparr>cr_result_id = res_result_id result, cr_command_id = res_command_id result, cr_agent_id = agent_id,
                cr_outcome = res_outcome result, cr_detail = res_detail result, cr_received_at = iso_now e\<rparr>]\<rparr>))
      (bindM (require_some (final_state (res_outcome result)) (KeyError (res_outcome result))) (\<lambda>s.
       modify (set_command (\<lambda>r. r\<lparr>cm_lifecycle_state := s\<rparr>) (res_command_id result)))))"

text \<open>
  A command takes one outcome, while it is dispatched or accepted. A later report is retained and audited
  and changes nothing.
\<close>

definition submit_owned :: "env \<Rightarrow> string \<Rightarrow> command_result \<Rightarrow> command_row \<Rightarrow> (db, unit) act" where
  "submit_owned e agent_id result c =
    seqM (check_result e c result)
    (seqM (if res_schema_version result = ''2'' then keep_receipt e agent_id result else ret ())
    (if cm_lifecycle_state c \<notin> {DISPATCHED, ACCEPTED}
     then audit e (res_command_id result) ''duplicate_result_ignored'' (''agent:'' @ agent_id) (Some (res_outcome result))
     else
       seqM (keep_outcome e agent_id result)
       (audit e (res_command_id result) ''result_received'' (''agent:'' @ agent_id) (Some (res_outcome result)))))"

definition submit_body :: "env \<Rightarrow> string \<Rightarrow> command_result \<Rightarrow> (db, unit) act" where
  "submit_body e agent_id result =
    seqM (expire_stale_commands e (now_text e))
    (bindM (owned_command agent_id (res_command_id result)) (submit_owned e agent_id result))"

definition submit_result :: "env \<Rightarrow> string \<Rightarrow> command_result \<Rightarrow> string option \<Rightarrow> (db, string \<times> bool) act" where
  "submit_result e agent_id result authorization_header =
    seqM (require_agent_token e agent_id authorization_header)
    (seqM (transaction (submit_body e agent_id result))
    (ret (res_result_id result, res_schema_version result = ''2'')))"

section \<open>The agent's operations keep the contracts\<close>

lemma set_one_evolves:
  assumes "find_by cm_command_id i (commands d) = Some c" and "command_moves c (f c)"
    and "\<And>r. cm_command_id (f r) = cm_command_id r"
  shows "commands_evolve d (set_command f i d)"
proof -
  have "command_moves r (f r)" if "commands_keyed d" "r \<in> set (commands d)" "cm_command_id r = i" for r
    using assms(1,2) that find_by_SomeD [OF assms(1)]
    by (auto simp: commands_keyed_def distinct_map dest: inj_onD)
  then have "commands_evolve d (set_command f i d)" if "commands_keyed d"
    using that assms(3) by (intro set_command_evolves) auto
  then show ?thesis by (auto simp: commands_evolve_def)
qed

lemma work_drawn: "draws_only d d' \<Longrightarrow> work e d d'"
  by (blast intro: work.blind draws_only_audit_only)

lemma draws_only_commands: "draws_only d d' \<Longrightarrow> commands d' = commands d"
  by (auto simp: draws_only_def)

lemma work_set_command:
  "commands_evolve d (set_command f i d) \<Longrightarrow> work e d (set_command f i d)"
  by (rule work_queue) (simp_all add: set_command_def)

lemma read_checks:
  "stays (\<lambda>d d'. d' = d) (owned_command agent_id command_id)"
  "stays (\<lambda>d d'. d' = d) (command_action j :: (db, string) act)"
  "stays (\<lambda>d d'. d' = d) (unblocked profile c :: (db, bool) act)"
  "stays (\<lambda>d d'. d' = d) (check_result e c result :: (db, unit) act)"
  unfolding owned_command_def command_action_def unblocked_def check_result_def
  by (intro unchanged.stays_structural stays_splits)+

lemma filterM_reads: "(\<And>x. stays (\<lambda>d d'. d' = d) (p x)) \<Longrightarrow> stays (\<lambda>d d'. d' = (d :: db)) (filterM p xs)"
  by (induction xs) (auto intro!: unchanged.stays_structural)

lemma filterM_subset: "filterM p xs d = (Inr ys, d') \<Longrightarrow> set ys \<subseteq> set xs"
proof (induction xs arbitrary: d ys)
  case (Cons x xs)
  then show ?case by (fastforce simp: bindM_Inr_iff split: if_splits)
qed simp

lemma draws_only_choose_rows: "stays draws_only (choose_rows e selected rows)"
proof (induction rows arbitrary: selected)
  case Nil
  show ?case by (simp only: choose_rows.simps draws_only.stays_ret)
next
  case (Cons c cs)
  then show ?case
    unfolding choose_rows.simps by (intro draws_only.stays_structural draws_only_operations stays_splits) auto
qed

lemma choose_rows_subset: "choose_rows e selected xs d = (Inr ys, d') \<Longrightarrow> set ys \<subseteq> set xs"
proof (induction xs arbitrary: d selected ys)
  case (Cons x xs)
  then show ?case by (fastforce simp: bindM_Inr_iff split: if_splits prod.splits)
qed simp

lemma work_hand_out:
  "stays_on (\<lambda>d. commands_keyed d \<longrightarrow> (\<forall>c\<in>set rows. c \<in> set (commands d) \<and> cm_lifecycle_state c \<in> {AUTHORIZED, DISPATCHED}))
    (work e) (hand_out e' agent_id es256 rows)"
proof (rule stays_onI)
  fix d assume p: "commands_keyed d \<longrightarrow> (\<forall>c\<in>set rows. c \<in> set (commands d) \<and> cm_lifecycle_state c \<in> {AUTHORIZED, DISPATCHED})"
  let ?loop = "forM (\<lambda>c. seqM (modify (set_command (dispatched (now_text e')) c))
                   (audit e' c ''dispatched'' (''agent:'' @ agent_id) None)) (map cm_command_id rows)"
  have "commands_evolve d (snd (?loop d))" if k: "commands_keyed d"
  proof (rule set_loop_evolves [where Q = "\<lambda>r. cm_lifecycle_state r \<in> {AUTHORIZED, DISPATCHED}"])
    show "\<forall>c\<in>set (map cm_command_id rows). \<forall>r\<in>set (commands d). cm_command_id r = c \<longrightarrow>
        cm_lifecycle_state r \<in> {AUTHORIZED, DISPATCHED}"
      using p k unfolding commands_keyed_def distinct_map by (auto dest: inj_onD)
  qed (auto simp: dispatched_def command_moves_def split: option.splits intro: audit_only_writers)
  then have "commands_evolve d (snd (?loop d))" by (auto simp: commands_evolve_def)
  moreover have "stays responses_same ?loop"
    by (intro responses_same.stays_structural responses_same.writers responses_same_set_command)
  then have "responses_same d (snd (?loop d))" by (rule staysD)
  ultimately have "work e d (snd (?loop d))" by (intro work_queue) (simp_all add: responses_same_def)
  then show "work e d (snd (hand_out e' agent_id es256 rows d))"
    by (auto simp: hand_out_def work.R_refl bindM_def split: prod.splits sum.splits)
qed

lemma work_deliver:
  "stays (work e) (deliver e' agent_id durable es256 observed capability)"
proof (rule staysI)
  fix d
  let ?rows = "deliverable d agent_id durable (now_text e') observed capability"
  let ?P = "\<lambda>d'. commands d' = commands d"
  have all: "c \<in> set (commands d) \<and> cm_lifecycle_state c \<in> {AUTHORIZED, DISPATCHED}" if "c \<in> set ?rows" for c
    using in_set_takeD [OF that [unfolded deliverable_def]] by (auto simp: eligible_def split: if_splits)
  have last: "stays_on ?P (work e) (hand_out e' agent_id es256 rows)" if "set rows \<subseteq> set ?rows" for rows
  proof (rule stays_onI)
    fix s :: db assume "commands s = commands d"
    then show "work e s (snd (hand_out e' agent_id es256 rows s))"
      using all that by (intro stays_onD [OF work_hand_out]) auto
  qed
  have ch: "stays_on ?P (work e) (bindM (choose_rows e' [] rows) (hand_out e' agent_id es256))" if "set rows \<subseteq> set ?rows" for rows
  proof (rule work.stays_on_result [where B = draws_only and Q = "\<lambda>rows. set rows \<subseteq> set ?rows"])
    show "set a \<subseteq> set ?rows" if "choose_rows e' [] rows s = (Inr a, t)" for s a t
      using choose_rows_subset [OF that] \<open>set rows \<subseteq> set ?rows\<close> by blast
  qed (auto intro: draws_only_choose_rows last work_drawn dest: draws_only_commands)
  have "stays_on ?P (work e) (bindM (filterM (unblocked observed) ?rows) (\<lambda>rows. bindM (choose_rows e' [] rows) (hand_out e' agent_id es256)))"
  proof (rule work.stays_on_result [where B = "\<lambda>d d'. d' = d" and Q = "\<lambda>rows. set rows \<subseteq> set ?rows"])
    show "set a \<subseteq> set ?rows" if "filterM (unblocked observed) ?rows s = (Inr a, t)" for s a t
      using filterM_subset [OF that] .
  qed (auto intro: filterM_reads read_checks ch work.R_refl)
  then have "work e d (snd (bindM (filterM (unblocked observed) ?rows) (\<lambda>rows. bindM (choose_rows e' [] rows) (hand_out e' agent_id es256)) d))"
    by (rule stays_onD) simp
  then show "work e d (snd (deliver e' agent_id durable es256 observed capability d))" by (simp add: deliver_def)
qed

lemma work_poll: "stays (work e) (poll e' agent_id auth durable es256 header)"
  unfolding poll_def poll_body_def Let_def
  by (intro work.stays_structural work_reads work_queue_operations work_modify work_reconcile work_deliver stays_splits;
      simp add: upsert_channel_def)

lemma owned_command_Inr:
  "owned_command agent_id i d = (Inr c, d') \<Longrightarrow>
    find_by cm_command_id i (commands d) = Some c \<and> cm_agent_id c = agent_id \<and> d' = d"
  by (auto simp: owned_command_def split: option.splits if_splits)

text \<open>After the read of the command, its row is the one found until the write.\<close>

lemma work_owned:
  assumes "\<And>c. stays_on (\<lambda>d. find_by cm_command_id i (commands d) = Some c) (work e) (f c)"
  shows "stays (work e) (bindM (owned_command agent_id i) f)"
proof (rule staysI)
  fix d
  obtain r d1 where r: "owned_command agent_id i d = (r, d1)" by fastforce
  have d1: "d1 = d" using read_checks(1) r by (rule stays_run)
  show "work e d (snd (bindM (owned_command agent_id i) f d))"
  proof (cases r)
    case (Inl x)
    then show ?thesis using r d1 by (simp add: bindM_Inl work.R_refl)
  next
    case (Inr c)
    then show ?thesis
      using r d1 stays_onD [OF assms, of d c] owned_command_Inr [of agent_id i d c d] by (simp add: bindM_Inr)
  qed
qed

lemma work_set_found:
  assumes "command_moves c (f c)" and "\<And>r. cm_command_id (f r) = cm_command_id r"
  shows "stays_on (\<lambda>d. find_by cm_command_id i (commands d) = Some c) (work e) (modify (set_command f i))"
  using assms by (intro stays_onI) (simp add: work_set_command set_one_evolves)

lemma work_refuse_acceptance: "stays (work e) (refuse_acceptance e' agent_id i detail message)"
  unfolding refuse_acceptance_def by (intro work.stays_structural work.writers)

lemma work_accept_owned:
  "stays_on (\<lambda>d. find_by cm_command_id i (commands d) = Some c) (work e) (accept_owned e' agent_id i c)"
  unfolding accept_owned_def
proof (rule work.stays_on_bindM [where B = draws_only], goal_cases)
  case (4 blocker)
  let ?accepted = "modify (set_command (\<lambda>r. r\<lparr>cm_lifecycle_state := ACCEPTED\<rparr>) i)"
  have "stays_on (\<lambda>d. find_by cm_command_id i (commands d) = Some c) (work e) ?accepted"
    if "cm_lifecycle_state c = DISPATCHED"
    using that by (intro work_set_found) (simp_all add: command_moves_def)
  then show ?case
    by (intro stays_on_if stays_stays_on [OF work_refuse_acceptance] stays_stays_on [OF work.stays_ret]
        work.stays_on_bindM [where B = draws_only and f = "\<lambda>action. if action \<in> COLLECTIONS \<and> P then _ else _" for P]
        work.stays_on_seqM [where m = ?accepted] work.stays_structural work.writers)
      (auto intro: work_drawn stays_read [OF read_checks(2)] draws_only.R_refl dest: draws_only_commands)
qed (auto intro: draws_only_operations work_drawn dest: draws_only_commands)

lemma work_accept: "stays (work e) (accept e' agent_id command_id auth)"
  unfolding accept_def accept_body_def
  by (intro work.stays_structural work_reads work_queue_operations work_owned work_accept_owned)

lemma final_state_moves:
  "final_state t = Some s \<Longrightarrow> cm_lifecycle_state c \<in> {DISPATCHED, ACCEPTED} \<Longrightarrow>
    command_moves c (c\<lparr>cm_lifecycle_state := s\<rparr>)"
  by (auto simp: command_moves_def split: if_splits)

lemma work_keep_outcome:
  assumes "cm_lifecycle_state c \<in> {DISPATCHED, ACCEPTED}"
  shows "stays_on (\<lambda>d. find_by cm_command_id (res_command_id result) (commands d) = Some c) (work e)
    (keep_outcome e' agent_id result)"
proof (rule stays_onI)
  fix d :: db assume f: "find_by cm_command_id (res_command_id result) (commands d) = Some c"
  let ?r = "\<lparr>cr_result_id = res_result_id result, cr_command_id = res_command_id result, cr_agent_id = agent_id,
                cr_outcome = res_outcome result, cr_detail = res_detail result, cr_received_at = iso_now e'\<rparr>"
  let ?d = "d\<lparr>command_results := command_results d @ [?r]\<rparr>"
  have 1: "work e d ?d" by (rule work_same) simp_all
  have "work e ?d (set_command (\<lambda>r. r\<lparr>cm_lifecycle_state := s\<rparr>) (res_command_id result) ?d)"
    if "final_state (res_outcome result) = Some s" for s
    using f final_state_moves [OF that assms] by (intro work_set_command set_one_evolves) simp_all
  then show "work e d (snd (keep_outcome e' agent_id result d))"
    using 1 work.R_trans [OF 1]
    by (cases "final_state (res_outcome result)") (auto simp: keep_outcome_def work.R_refl simp del: final_state.simps)
qed

lemma work_keep_receipt: "stays (work e) (keep_receipt e' agent_id result)"
  unfolding keep_receipt_def Let_def
  by (intro work.stays_structural work_modify stays_splits; simp)

lemma idle_keep_receipt: "stays idle (keep_receipt e' agent_id result)"
  unfolding keep_receipt_def Let_def
  by (intro idle.stays_structural idle_modify stays_splits; simp)

lemma idle_work: "idle d d' \<Longrightarrow> work e d d'"
  by (simp add: idle_def work_same)

lemma work_submit_owned:
  "stays_on (\<lambda>d. find_by cm_command_id (res_command_id result) (commands d) = Some c) (work e)
    (submit_owned e' agent_id result c)"
  unfolding submit_owned_def
proof (rule work.stays_on_bindM [where B = idle], goal_cases)
  case 1
  show ?case by (rule stays_read [OF read_checks(4)]) (rule idle.R_refl)
next
  case (4 a)
  show ?case
  proof (rule work.stays_on_bindM [where B = idle], goal_cases)
    case 1
    show ?case by (intro stays_if idle_keep_receipt idle.stays_structural)
  next
    case (4 a)
    show ?case
    proof (rule stays_on_if)
      show "stays_on (\<lambda>d. find_by cm_command_id (res_command_id result) (commands d) = Some c) (work e)
          (audit e' (res_command_id result) ''duplicate_result_ignored'' (''agent:'' @ agent_id) (Some (res_outcome result)))"
        by (intro stays_stays_on work.writers)
    next
      assume "\<not> cm_lifecycle_state c \<notin> {DISPATCHED, ACCEPTED}"
      then have "cm_lifecycle_state c \<in> {DISPATCHED, ACCEPTED}" by simp
      then show "stays_on (\<lambda>d. find_by cm_command_id (res_command_id result) (commands d) = Some c) (work e)
         (seqM (keep_outcome e' agent_id result)
           (audit e' (res_command_id result) ''result_received'' (''agent:'' @ agent_id) (Some (res_outcome result))))"
        by (intro work.stays_on_seqM [OF work_keep_outcome] work.writers)
    qed
  qed (auto simp: idle_def intro: work_same)
qed (auto simp: idle_def intro: work_same)

lemma work_submit_result: "stays (work e) (submit_result e' agent_id result auth)"
  unfolding submit_result_def submit_body_def
  by (intro work.stays_structural work_reads work_queue_operations work_owned work_submit_owned)

lemmas work_agent_operations = work_poll work_accept work_submit_result

lemmas audit_checks = read_checks [THEN stays_read, of "audit_grows h" for h, OF audit.R_refl]
  filterM_reads [OF read_checks(3), THEN stays_read, of "audit_grows h" for h, OF audit.R_refl]
  draws_only_choose_rows [THEN audit_drawing]

lemma audit_agent_operations:
  "stays (audit_grows (sha256 e)) (poll e agent_id auth durable es256 header)"
  "stays (audit_grows (sha256 e)) (accept e agent_id command_id auth)"
  "stays (audit_grows (sha256 e)) (submit_result e agent_id result auth)"
  unfolding poll_def poll_body_def deliver_def hand_out_def accept_def accept_body_def accept_owned_def refuse_acceptance_def
    submit_result_def submit_body_def submit_owned_def keep_receipt_def keep_outcome_def Let_def
  by (intro audit.stays_structural audit_writers audit_reads audit_draws audit_checks audit_queue audit_responses
      audit_set_command audit_modify stays_splits; simp add: upsert_channel_def)+

lemmas foreground_checks = read_checks [THEN stays_read, of foreground, OF foreground.R_refl]
  filterM_reads [OF read_checks(3), THEN stays_read, of foreground, OF foreground.R_refl]
  draws_only_choose_rows [THEN draws_only_stays, THEN foreground.stays_blind]

lemma foreground_agent_operations:
  "stays foreground (poll e agent_id auth durable es256 header)"
  "stays foreground (accept e agent_id command_id auth)"
  unfolding poll_def poll_body_def deliver_def hand_out_def accept_def accept_body_def accept_owned_def refuse_acceptance_def Let_def
  by (intro foreground.stays_structural foreground.writers foreground_reads foreground_checks foreground_queue
      foreground_responses foreground_rows foreground_modify stays_splits; simp add: upsert_channel_def background_def)+

text \<open>A report leaves identities, alerts and checkpoints alone.\<close>

definition settled :: "db \<Rightarrow> db \<Rightarrow> bool" where
  "settled d d' \<longleftrightarrow> enrolled_agents d' = enrolled_agents d \<and> enrollment_nonces d' = enrollment_nonces d \<and>
    analyst_credentials d' = analyst_credentials d \<and> alerts d' = alerts d \<and>
    response_audit_checkpoints d' = response_audit_checkpoints d \<and> ledger_id d' = ledger_id d \<and>
    artifact_signing_keys d' = artifact_signing_keys d \<and> evidence d' = evidence d \<and> entitlements d' = entitlements d"

interpretation settled: blind_frame settled
  by unfold_locales (auto simp: settled_def audit_onlyD evidence_def entitlements_def)

lemma foreground_settled: "foreground d d' \<Longrightarrow> settled d d'"
  by (simp add: foreground_def background_def settled_def)

lemma stays_foreground_settled: "stays foreground m \<Longrightarrow> stays settled m"
  by (auto simp: stays_def intro: foreground_settled)

lemma settled_modify: "(\<And>d. settled d (f d)) \<Longrightarrow> stays settled (modify f)"
  by (simp add: stays_def)

lemma settled_submit_result: "stays settled (submit_result e agent_id result auth)"
  unfolding submit_result_def submit_body_def submit_owned_def keep_receipt_def keep_outcome_def Let_def
  by (intro settled.stays_structural settled.writers stays_foreground_settled [OF foreground_reads(6)]
      stays_foreground_settled [OF foreground_checks(1)] stays_foreground_settled [OF foreground_checks(4)]
      stays_foreground_settled [OF foreground_queue(3)] stays_foreground_settled [OF foreground_rows(3)]
      settled_modify stays_splits; simp add: settled_def)

section \<open>One outcome per command\<close>

text \<open>
  Every retained outcome is that of a command of the reporting agent, the command is in the matching final
  state, and no command has two.
\<close>

definition outcome_row :: "db \<Rightarrow> result_row \<Rightarrow> bool" where
  "outcome_row d x \<longleftrightarrow>
    (\<exists>c. find_by cm_command_id (cr_command_id x) (commands d) = Some c \<and> cm_agent_id c = cr_agent_id x \<and>
      final_state (cr_outcome x) = Some (cm_lifecycle_state c))"

definition outcome_inv :: "db \<Rightarrow> bool" where
  "outcome_inv d \<longleftrightarrow> commands_keyed d \<and> distinct (map cr_command_id (command_results d)) \<and>
    (\<forall>x\<in>set (command_results d). outcome_row d x)"

definition outcomes :: "db \<Rightarrow> db \<Rightarrow> bool" where
  "outcomes d d' \<longleftrightarrow> (outcome_inv d \<longrightarrow> outcome_inv d')"

lemma final_state_final: "final_state t = Some s \<Longrightarrow> reaches s s' \<Longrightarrow> s' = s"
  by (auto split: if_splits)

lemma outcome_row_kept:
  assumes "outcome_row d x" and "commands_keyed d" and "commands_evolve d d'"
  shows "outcome_row d' x"
proof -
  obtain c where c: "find_by cm_command_id (cr_command_id x) (commands d) = Some c" "cm_agent_id c = cr_agent_id x"
    "final_state (cr_outcome x) = Some (cm_lifecycle_state c)"
    using assms(1) by (auto simp: outcome_row_def simp del: final_state.simps)
  obtain c' where c': "find_by cm_command_id (cr_command_id x) (commands d') = Some c'" "command_moves c c'"
    using assms(2,3) c(1) by (auto simp: commands_evolve_def rows_evolve_def)
  have "cm_lifecycle_state c' = cm_lifecycle_state c" "cm_agent_id c' = cm_agent_id c"
    using c'(2) final_state_final [OF c(3)] by (simp_all add: command_moves_def)
  then show ?thesis using c c'(1) by (simp add: outcome_row_def del: final_state.simps)
qed

lemma outcomes_kept:
  assumes "commands_evolve d d'" and "command_results d' = command_results d"
  shows "outcomes d d'"
  using assms outcome_row_kept [OF _ _ assms(1)]
  by (auto simp: outcomes_def outcome_inv_def commands_evolve_def)

interpretation outcomes: blind_to_identities outcomes
proof unfold_locales
  show "outcomes s s" for s by (simp add: outcomes_def)
  show "outcomes s t \<Longrightarrow> outcomes t u \<Longrightarrow> outcomes s u" for s t u by (simp add: outcomes_def)
  show "audit_only d d' \<Longrightarrow> outcomes d d'" for d d'
    by (rule outcomes_kept) (simp_all add: commands_evolve_same audit_onlyD)
  show "identities_only d d' \<Longrightarrow> outcomes d d'" for d d'
    by (rule outcomes_kept) (simp_all add: commands_evolve_same identities_onlyD)
qed

lemma outcomes_foreground: "stays (work e) m \<Longrightarrow> stays foreground m \<Longrightarrow> stays outcomes m"
  unfolding stays_def by (simp add: outcomes_kept work_def foreground_def background_def)

lemma set_loop_Inr:
  assumes "\<And>r. f (f r) = f r" and "\<And>r. cm_command_id (f r) = cm_command_id r" and "\<And>c. stays audit_only (w c)"
    and "forM (\<lambda>c. seqM (modify (set_command f c)) (w c)) cs d = (Inr u, d')"
  shows "commands d' = map (\<lambda>r. if cm_command_id r \<in> set cs then f r else r) (commands d)"
proof -
  define step where "step = (\<lambda>c. seqM (modify (set_command f c)) (w c))"
  have step: "step c d = w c (set_command f c d)" for c d by (simp add: step_def)
  have "forM step cs d = (Inr u, d') \<Longrightarrow> ?thesis"
  proof (induction cs arbitrary: d)
    case (Cons c cs)
    obtain v d1 where w: "w c (set_command f c d) = (Inr v, d1)" and r: "forM step cs d1 = (Inr u, d')"
      using Cons.prems step [of c d] by (auto simp: bindM_Inr_iff)
    have "commands d1 = commands (set_command f c d)" using audit_onlyD(1) [OF stays_run [OF assms(3) w]] .
    then show ?case
      using Cons.IH [OF r] assms(1,2) by (auto simp: set_command_def update_where_def)
  qed simp
  then show ?thesis using assms(4) by (simp only: step_def)
qed

definition stale :: "string \<Rightarrow> command_row \<Rightarrow> bool" where
  "stale now_iso r \<longleftrightarrow> cm_lifecycle_state r \<in> OPEN_STATES \<and> cm_expires_at r \<le> now_iso"

lemma expire_stale_commands_Inr:
  assumes "expire_stale_commands e now_iso d = (Inr u, d')" and "commands_keyed d"
  shows "commands d' = map (\<lambda>r. if stale now_iso r then r\<lparr>cm_lifecycle_state := EXPIRED\<rparr> else r) (commands d)"
proof -
  have "commands d' = map (\<lambda>r. if cm_command_id r \<in> set (stale_commands now_iso d)
      then r\<lparr>cm_lifecycle_state := EXPIRED\<rparr> else r) (commands d)"
    using assms(1) unfolding expire_stale_commands_def bindM_gets
    by (rule set_loop_Inr [rotated 3]) (auto intro: audit_only_writers)
  moreover have "cm_command_id r \<in> set (stale_commands now_iso d) \<longleftrightarrow> stale now_iso r" if "r \<in> set (commands d)" for r
    using that assms(2) unfolding stale_commands_def stale_def commands_keyed_def distinct_map by (auto dest: inj_onD)
  ultimately show ?thesis by (simp cong: map_cong)
qed

lemma find_by_map:
  assumes "\<And>r. key (f r) = key r"
  shows "find_by key k (map f rows) = map_option f (find_by key k rows)"
  using assms by (induction rows) auto

lemma expire_one:
  assumes "expire_stale_commands e now_iso d = (Inr u, d')" and "commands_keyed d"
  shows "find_by cm_command_id i (commands d') =
    map_option (\<lambda>r. if stale now_iso r then r\<lparr>cm_lifecycle_state := EXPIRED\<rparr> else r) (find_by cm_command_id i (commands d))"
  unfolding expire_stale_commands_Inr [OF assms] by (rule find_by_map) simp

section \<open>What a report does\<close>

lemma submit_owned_Inr:
  assumes "submit_owned e agent_id result c d = (Inr u, d')"
    and "find_by cm_command_id (res_command_id result) (commands d) = Some c"
  shows "if cm_lifecycle_state c \<in> {DISPATCHED, ACCEPTED} \<and> res_result_id result \<notin> cr_result_id ` set (command_results d)
    then (\<exists>s. final_state (res_outcome result) = Some s \<and>
        find_by cm_command_id (res_command_id result) (commands d') = Some (c\<lparr>cm_lifecycle_state := s\<rparr>)) \<and>
      command_results d' = command_results d @
        [\<lparr>cr_result_id = res_result_id result, cr_command_id = res_command_id result, cr_agent_id = agent_id,
          cr_outcome = res_outcome result, cr_detail = res_detail result, cr_received_at = iso_now e\<rparr>]
    else commands d' = commands d \<and> command_results d' = command_results d"
proof -
  obtain u1 d1 u2 d2 where 1: "check_result e c result d = (Inr u1, d1)"
    and 2: "(if res_schema_version result = ''2'' then keep_receipt e agent_id result else ret ()) d1 = (Inr u2, d2)"
    and 3: "(if cm_lifecycle_state c \<notin> {DISPATCHED, ACCEPTED}
     then audit e (res_command_id result) ''duplicate_result_ignored'' (''agent:'' @ agent_id) (Some (res_outcome result))
     else seqM (keep_outcome e agent_id result)
       (audit e (res_command_id result) ''result_received'' (''agent:'' @ agent_id) (Some (res_outcome result)))) d2 = (Inr u, d')"
    using assms(1) unfolding submit_owned_def by (auto simp: bindM_Inr_iff)
  have d1: "d1 = d" using read_checks(4) 1 by (rule stays_run)
  have d2: "commands d2 = commands d" "command_results d2 = command_results d"
    using 2 d1 by (auto simp: keep_receipt_def Let_def split: if_splits option.splits)
  show ?thesis
  proof (cases "cm_lifecycle_state c \<in> {DISPATCHED, ACCEPTED}")
    case False
    then have "audit_only d2 d'" using 3 stays_run [OF audit_only_writers(5)] by auto
    then show ?thesis using d2 False by (simp add: audit_onlyD)
  next
    case True
    then obtain v d3 where k: "keep_outcome e agent_id result d2 = (Inr v, d3)"
      and a: "audit e (res_command_id result) ''result_received'' (''agent:'' @ agent_id) (Some (res_outcome result)) d3 = (Inr u, d')"
      using 3 by (auto simp: bindM_Inr_iff)
    have "audit_only d3 d'" using stays_run [OF audit_only_writers(5) a] .
    then show ?thesis
      using True k d2 assms(2)
      by (auto simp: keep_outcome_def bindM_Inr_iff set_command_def find_by_update_where audit_onlyD
          simp del: final_state.simps dest: find_by_SomeD split: if_splits)
  qed
qed

text \<open>
  C7. What a report of an agent does. It is accepted only for a command of that agent. It decides the command,
  and is kept as its outcome, exactly when the command is dispatched or accepted, not past its expiry, and the
  result id is new. Otherwise the command keeps its state, except that an open command past its expiry
  becomes EXPIRED, and no outcome is recorded: a repeated, late or contradicting report never overwrites an outcome.
\<close>

theorem report_decides_once:
  assumes "submit_result e agent_id result auth d = (Inr r, d')" and "commands_keyed d"
  shows "\<exists>c c'. find_by cm_command_id (res_command_id result) (commands d) = Some c \<and> cm_agent_id c = agent_id \<and>
    find_by cm_command_id (res_command_id result) (commands d') = Some c' \<and>
    (if cm_lifecycle_state c \<in> {DISPATCHED, ACCEPTED} \<and> now_text e < cm_expires_at c \<and>
        res_result_id result \<notin> cr_result_id ` set (command_results d)
     then final_state (res_outcome result) = Some (cm_lifecycle_state c') \<and>
       command_results d' = command_results d @
        [\<lparr>cr_result_id = res_result_id result, cr_command_id = res_command_id result, cr_agent_id = agent_id,
          cr_outcome = res_outcome result, cr_detail = res_detail result, cr_received_at = iso_now e\<rparr>]
     else cm_lifecycle_state c' = (if stale (now_text e) c then EXPIRED else cm_lifecycle_state c) \<and>
       command_results d' = command_results d)"
proof -
  let ?i = "res_command_id result"
  have body: "submit_body e agent_id result d = (Inr (), d')"
    using assms(1) by (auto simp: submit_result_def bindM_Inr_iff dest: read_result [OF checks_change_nothing(1)])
  obtain u1 d1 c1 d2 where ex: "expire_stale_commands e (now_text e) d = (Inr u1, d1)"
    and ow: "owned_command agent_id ?i d1 = (Inr c1, d2)" and so: "submit_owned e agent_id result c1 d2 = (Inr (), d')"
    using body by (auto simp: submit_body_def bindM_Inr_iff)
  have o: "find_by cm_command_id ?i (commands d1) = Some c1" "cm_agent_id c1 = agent_id" "d2 = d1"
    using owned_command_Inr [OF ow] by auto
  obtain c where c: "find_by cm_command_id ?i (commands d) = Some c"
    "c1 = (if stale (now_text e) c then c\<lparr>cm_lifecycle_state := EXPIRED\<rparr> else c)"
    using expire_one [OF ex assms(2), of ?i] o(1) by (cases "find_by cm_command_id ?i (commands d)") auto
  have "foreground d d1" using foreground_queue(3) ex by (rule stays_run)
  then have res: "command_results d1 = command_results d" by (simp add: foreground_def background_def)
  have so': "submit_owned e agent_id result c1 d1 = (Inr (), d')" using so o(3) by simp
  have ag: "cm_agent_id c = agent_id" using o(2) c(2) by (simp split: if_splits)
  show ?thesis
    using submit_owned_Inr [OF so' o(1)] c ag res o(1)
    by (auto simp: stale_def not_le simp del: final_state.simps split: if_splits)
qed

lemma outcomes_submit_owned:
  assumes so: "submit_owned e agent_id result c d = (Inr u, d')"
    and f: "find_by cm_command_id (res_command_id result) (commands d) = Some c" and ag: "cm_agent_id c = agent_id"
  shows "outcomes d d'"
proof -
  have "work e d d'" using stays_onD [OF work_submit_owned f, of e e agent_id] so by simp
  then have ev: "commands_evolve d d'" by (simp add: work_def)
  show ?thesis
  proof (cases "cm_lifecycle_state c \<in> {DISPATCHED, ACCEPTED} \<and> res_result_id result \<notin> cr_result_id ` set (command_results d)")
    case False
    then show ?thesis using submit_owned_Inr [OF so f] ev by (auto intro: outcomes_kept)
  next
    case True
    let ?x = "\<lparr>cr_result_id = res_result_id result, cr_command_id = res_command_id result, cr_agent_id = agent_id,
          cr_outcome = res_outcome result, cr_detail = res_detail result, cr_received_at = iso_now e\<rparr>"
    obtain s where s: "final_state (res_outcome result) = Some s"
      "find_by cm_command_id (res_command_id result) (commands d') = Some (c\<lparr>cm_lifecycle_state := s\<rparr>)"
      and r: "command_results d' = command_results d @ [?x]"
      using submit_owned_Inr [OF so f] True by (auto simp del: final_state.simps)
    have "outcome_inv d'" if inv: "outcome_inv d"
    proof -
      have "res_command_id result \<notin> cr_command_id ` set (command_results d)"
        using inv f True by (fastforce simp: outcome_inv_def outcome_row_def split: if_splits)
      moreover have "outcome_row d' x" if "x \<in> set (command_results d)" for x
        using inv that outcome_row_kept [OF _ _ ev] by (auto simp: outcome_inv_def)
      moreover have "outcome_row d' ?x" using s ag by (simp add: outcome_row_def del: final_state.simps)
      ultimately show ?thesis using inv ev r by (auto simp: outcome_inv_def commands_evolve_def)
    qed
    then show ?thesis by (simp add: outcomes_def)
  qed
qed

lemma outcomes_submit_result: "stays outcomes (submit_result e agent_id result auth)"
proof -
  have "outcomes d d'" if b: "submit_body e agent_id result d = (Inr u, d')" for u d d'
  proof -
    obtain u1 d1 c where ex: "expire_stale_commands e (now_text e) d = (Inr u1, d1)"
      and ow: "owned_command agent_id (res_command_id result) d1 = (Inr c, d1)"
      and so: "submit_owned e agent_id result c d1 = (Inr (), d')"
      using b read_result [OF read_checks(1)] by (fastforce simp: submit_body_def bindM_Inr_iff)
    have "stays outcomes (expire_stale_commands e (now_text e))"
      by (intro outcomes_foreground [where e = e] work_queue_operations foreground_queue)
    then have 1: "outcomes d d1" using ex by (rule stays_run)
    have o: "find_by cm_command_id (res_command_id result) (commands d1) = Some c" "cm_agent_id c = agent_id"
      using owned_command_Inr [OF ow] by auto
    have "outcomes d1 d'" using so o by (rule outcomes_submit_owned)
    with 1 show ?thesis by (rule outcomes.R_trans)
  qed
  then have t: "stays outcomes (transaction (submit_body e agent_id result))"
    by (auto simp: stays_def snd_transaction outcomes.R_refl split: sum.splits) (metis prod.collapse)
  show ?thesis
    unfolding submit_result_def
    by (intro outcomes.stays_bindM t outcomes.stays_ret stays_read [OF checks_change_nothing(1)] outcomes.R_refl)
qed

section \<open>What a poll hands out\<close>

lemma raise_committed_Inr_iff: "raise_committed m s = (Inr a, s') \<longleftrightarrow> m s = (Inr (Inr a), s')"
  by (auto simp: raise_committed_def bindM_def split: prod.splits sum.splits)

text \<open>Expiry and reconciliation change states of commands, never the set of commands.\<close>

definition same_ids :: "db \<Rightarrow> db \<Rightarrow> bool" where
  "same_ids d d' \<longleftrightarrow> map cm_command_id (commands d') = map cm_command_id (commands d)"

interpretation same_ids: blind_frame same_ids
  by unfold_locales (auto simp: same_ids_def audit_onlyD)

lemma same_ids_set_command: "(\<And>r. cm_command_id (f r) = cm_command_id r) \<Longrightarrow> stays same_ids (modify (set_command f c))"
  by (simp add: stays_def same_ids_def set_command_def map_key_update_where)

lemma same_ids_modify: "(\<And>d. commands (f d) = commands d) \<Longrightarrow> stays same_ids (modify f)"
  by (simp add: stays_def same_ids_def)

lemmas same_ids_reads = draws_only_operations [THEN draws_only_stays, THEN same_ids.stays_blind]

lemma same_ids_operations:
  "stays same_ids (expire_stale_commands e now_iso)"
  "stays same_ids (reconcile e agent_id)"
  unfolding expire_stale_commands_def reconcile_def reject_response_action_def cancel_queued_def
  by (intro same_ids.stays_structural same_ids.writers same_ids_reads same_ids_set_command same_ids_modify stays_splits;
      simp add: decide_pending_def)+

lemma find_same_ids:
  assumes "same_ids d d'" and "commands_evolve d d'" and "commands_keyed d" and "c' \<in> set (commands d')"
  shows "\<exists>c. find_by cm_command_id (cm_command_id c') (commands d) = Some c \<and> command_moves c c'"
proof -
  have "cm_command_id c' \<in> cm_command_id ` set (commands d)"
    using assms(1,4) unfolding same_ids_def by (metis image_eqI set_map)
  then obtain c where c: "find_by cm_command_id (cm_command_id c') (commands d) = Some c"
    by (metis find_by_ex imageE)
  have k: "commands_keyed d'" and e: "rows_evolve commands cm_command_id command_moves d d'"
    using assms(2,3) by (auto simp: commands_evolve_def)
  have "find_by cm_command_id (cm_command_id c') (commands d') = Some c'"
    using k assms(4) by (intro find_by_distinct) (simp_all add: commands_keyed_def)
  then show ?thesis using c e unfolding rows_evolve_def by (metis option.inject)
qed

lemma filterM_holds:
  assumes "\<And>x. stays (\<lambda>d d'. d' = (d :: db)) (p x)" and "filterM p xs d = (Inr ys, d')"
  shows "length ys \<le> length xs \<and> (\<forall>y\<in>set ys. p y d = (Inr True, d))"
  using assms(2)
proof (induction xs arbitrary: ys d')
  case (Cons x xs)
  obtain ok d1 zs d2 where p: "p x d = (Inr ok, d1)" and f: "filterM p xs d1 = (Inr zs, d2)" and y: "ys = (if ok then x # zs else zs)"
    using Cons.prems by (auto simp: bindM_Inr_iff)
  have "d1 = d" using assms(1) p by (rule stays_run)
  then show ?case using Cons.IH [of zs d2] p f y by auto
qed simp

lemma choose_rows_length: "choose_rows e selected xs d = (Inr ys, d') \<Longrightarrow> length ys \<le> length xs"
proof (induction xs arbitrary: d selected ys)
  case (Cons x xs)
  then show ?case by (fastforce simp: bindM_Inr_iff split: if_splits prod.splits)
qed simp

lemma hand_out_Inr:
  assumes "hand_out e agent_id es256 rows d = (Inr (Inr queued), d')"
  shows "queued = map cm_command_json rows \<and> (es256 \<longrightarrow> (\<forall>c\<in>set rows. has_key ''authorization'' (cm_command_json c))) \<and>
    commands d' = map (\<lambda>r. if cm_command_id r \<in> cm_command_id ` set rows then dispatched (now_text e) r else r) (commands d)"
proof -
  obtain u where l: "forM (\<lambda>c. seqM (modify (set_command (dispatched (now_text e)) c))
                   (audit e c ''dispatched'' (''agent:'' @ agent_id) None)) (map cm_command_id rows) d = (Inr u, d')"
    and q: "queued = map cm_command_json rows" "es256 \<longrightarrow> (\<forall>c\<in>set rows. has_key ''authorization'' (cm_command_json c))"
    using assms unfolding hand_out_def
    by (auto simp: bindM_Inr_iff [of "forM f xs" for f xs] split: if_splits)
  have "commands d' = map (\<lambda>r. if cm_command_id r \<in> set (map cm_command_id rows) then dispatched (now_text e) r else r) (commands d)"
    using l by (rule set_loop_Inr [rotated 3]) (auto simp: dispatched_def split: option.splits intro: audit_only_writers)
  then show ?thesis using q by simp
qed

lemma reaches_live:
  "reaches s AUTHORIZED \<Longrightarrow> s = AUTHORIZED" "reaches s DISPATCHED \<Longrightarrow> s = AUTHORIZED \<or> s = DISPATCHED"
  by (cases s; simp)+

lemma deliverable_row:
  assumes "c \<in> set (deliverable d agent_id durable t observed capability)"
  shows "c \<in> set (commands d)" "cm_agent_id c = agent_id" "eligible durable c" "t < cm_expires_at c"
  using in_set_takeD [OF assms [unfolded deliverable_def]] by auto

lemma deliver_Inr:
  assumes "deliver e agent_id durable es256 observed capability d = (Inr (Inr queued), d')"
  shows "\<exists>rows d5. length rows \<le> 32 \<and>
    set rows \<subseteq> set (deliverable d agent_id durable (now_text e) observed capability) \<and>
    (\<forall>c\<in>set rows. unblocked observed c d = (Inr True, d)) \<and> draws_only d d5 \<and>
    hand_out e agent_id es256 rows d5 = (Inr (Inr queued), d')"
proof -
  let ?rows = "deliverable d agent_id durable (now_text e) observed capability"
  obtain rows1 d1 rows2 d2 where f: "filterM (unblocked observed) ?rows d = (Inr rows1, d1)"
    and c: "choose_rows e [] rows1 d1 = (Inr rows2, d2)" and h: "hand_out e agent_id es256 rows2 d2 = (Inr (Inr queued), d')"
    using assms by (auto simp: deliver_def bindM_Inr_iff)
  have d1: "d1 = d" using filterM_reads [OF read_checks(3)] f by (rule stays_run)
  have "length ?rows \<le> 32" by (simp add: deliverable_def)
  then have "length rows2 \<le> 32"
    using choose_rows_length [OF c] filterM_holds [OF read_checks(3) f] by linarith
  moreover have "draws_only d d2" using draws_only_choose_rows c unfolding d1 by (rule stays_run)
  ultimately show ?thesis
    using h choose_rows_subset [OF c] filterM_subset [OF f] filterM_holds [OF read_checks(3) f] by blast
qed

text \<open>The phases of a poll that returns commands.\<close>

lemma poll_Inr:
  assumes "poll e agent_id auth durable es256 header d = (Inr queued, d')"
  shows "\<exists>profile js. parse_header e header d = (Inr profile, d) \<and>
    poll_body e agent_id auth durable es256 profile d = (Inr (Inr js), d') \<and>
    queued = (if es256 then js else map (jpop ''authorization'') js)"
proof -
  have tok: "require_agent_token e agent_id auth d = (Inr (), d)"
    using assms by (auto simp: poll_def bindM_Inr_iff dest: read_result [OF checks_change_nothing(1)])
  obtain profile where ph: "parse_header e header d = (Inr profile, d)"
    using assms by (auto simp: poll_def bindM_Inr_iff bindM_Inr tok dest: read_result [OF reads_only(5)])
  show ?thesis
    using assms by (auto simp: poll_def bindM_Inr tok ph bindM_Inr_iff [of "raise_committed m" for m] raise_committed_Inr_iff)
qed

lemma poll_body_Inr:
  assumes body: "poll_body e agent_id auth durable es256 profile d = (Inr (Inr js), d')"
  obtains enrolled d1 observed d3 d4 capability where "active_agent d agent_id = Some enrolled"
    "expire_stale_commands e (now_text e) d = (Inr (), d1)"
    "current_profile e agent_id (ea_host_id enrolled)
       (upsert_channel (channel_of e agent_id (ea_host_id enrolled) durable es256 profile) d1) =
     (Inr observed, upsert_channel (channel_of e agent_id (ea_host_id enrolled) durable es256 profile) d1)"
    "reconcile e (Some agent_id) (upsert_channel (channel_of e agent_id (ea_host_id enrolled) durable es256 profile) d1) = (Inr (), d3)"
    "draws_only d3 d4" "deliver e agent_id durable es256 observed capability d4 = (Inr (Inr js), d')"
proof -
  have tok: "require_agent_token e agent_id auth d = (Inr (), d)"
    using body by (auto simp: poll_body_def bindM_Inr_iff dest: read_result [OF checks_change_nothing(1)])
  define check :: "(db, agent_row) act" where "check = require_some (case active_agent d agent_id of
              None \<Rightarrow> None
            | Some a \<Rightarrow> (case profile of None \<Rightarrow> Some a
                         | Some p \<Rightarrow> if jget ''host_id'' p = JStr (ea_host_id a) then Some a else None))
              (HTTPException 403 ''runtime profile disagrees with active host enrollment'')"
  obtain enrolled where ck: "check d = (Inr enrolled, d)"
    using body by (auto simp: poll_body_def bindM_Inr tok check_def bindM_Inr_iff [of "require_some x y" for x y])
  then have en: "active_agent d agent_id = Some enrolled"
    by (auto simp: check_def split: option.splits if_splits)
  let ?up = "upsert_channel (channel_of e agent_id (ea_host_id enrolled) durable es256 profile)"
  obtain d1 where ex: "expire_stale_commands e (now_text e) d = (Inr (), d1)"
    and tail: "(if (case profile of None \<Rightarrow> False | Some p \<Rightarrow> truthy (jget ''require_signature'' p)) \<and> \<not> es256
      then ret (Inl (HTTPException 409 ''signature-requiring runtime must negotiate ES256 delivery''))
      else bindM (current_profile e agent_id (ea_host_id enrolled)) (\<lambda>observed.
        seqM (reconcile e (Some agent_id)) (bindM (endpoint e (Some agent_id) (ea_host_id enrolled)) (\<lambda>capability.
         deliver e agent_id durable es256 observed capability)))) (?up d1) = (Inr (Inr js), d')"
    using body ck unfolding poll_body_def Let_def bindM_Inr [where m = "require_agent_token e agent_id auth", OF tok] bindM_gets check_def [symmetric]
    by (simp add: bindM_Inr) (auto simp: bindM_Inr_iff [of "expire_stale_commands x y" for x y])
  obtain observed d2 d3 capability d4 where p: "current_profile e agent_id (ea_host_id enrolled) (?up d1) = (Inr observed, d2)"
    and r: "reconcile e (Some agent_id) d2 = (Inr (), d3)"
    and ep: "endpoint e (Some agent_id) (ea_host_id enrolled) d3 = (Inr capability, d4)"
    and dl: "deliver e agent_id durable es256 observed capability d4 = (Inr (Inr js), d')"
    using tail by (auto simp: bindM_Inr_iff split: if_splits)
  have "d2 = ?up d1" using reads_only(1) p by (rule stays_run)
  moreover have "draws_only d3 d4" using draws_only_triage(1) ep by (rule stays_run)
  ultimately show thesis using that en ex p r dl by blast
qed

lemma polled_commands:
  assumes "poll e agent_id auth durable es256 header d = (Inr queued, d')" and "commands_keyed d"
  shows "length queued \<le> 32 \<and> (\<forall>q\<in>set queued. \<exists>c c'.
    c \<in> set (commands d) \<and> cm_agent_id c = agent_id \<and> cm_lifecycle_state c \<in> {AUTHORIZED, DISPATCHED} \<and>
    now_text e < cm_expires_at c \<and>
    (\<not> durable \<longrightarrow> cm_lifecycle_state c = AUTHORIZED \<and> cm_delivered_at c = None) \<and>
    (es256 \<longrightarrow> has_key ''authorization'' (cm_command_json c)) \<and>
    q = (if es256 then cm_command_json c else jpop ''authorization'' (cm_command_json c)) \<and>
    find_by cm_command_id (cm_command_id c) (commands d') = Some c' \<and>
    cm_lifecycle_state c' = DISPATCHED \<and> cm_delivered_at c' \<noteq> None)"
proof -
  obtain profile js where body: "poll_body e agent_id auth durable es256 profile d = (Inr (Inr js), d')"
    and q: "queued = (if es256 then js else map (jpop ''authorization'') js)"
    using poll_Inr [OF assms(1)] by blast
  obtain enrolled d1 observed d3 d4 capability where en: "active_agent d agent_id = Some enrolled"
    and ex: "expire_stale_commands e (now_text e) d = (Inr (), d1)"
    and cp: "current_profile e agent_id (ea_host_id enrolled)
       (upsert_channel (channel_of e agent_id (ea_host_id enrolled) durable es256 profile) d1) =
     (Inr observed, upsert_channel (channel_of e agent_id (ea_host_id enrolled) durable es256 profile) d1)"
    and rc: "reconcile e (Some agent_id) (upsert_channel (channel_of e agent_id (ea_host_id enrolled) durable es256 profile) d1) = (Inr (), d3)"
    and dr: "draws_only d3 d4" and dl: "deliver e agent_id durable es256 observed capability d4 = (Inr (Inr js), d')"
    by (rule poll_body_Inr [OF body])
  let ?up = "upsert_channel (channel_of e agent_id (ea_host_id enrolled) durable es256 profile)"
  have up: "commands (?up d1) = commands d1" by (simp add: upsert_channel_def)
  have e1: "commands_evolve d d1" using expire_stale_commands_evolves ex by (rule stays_run)
  have "work e (?up d1) d3" using work_reconcile rc by (rule stays_run)
  then have e3: "commands_evolve (?up d1) d3" by (simp add: work_def)
  have ev: "commands_evolve d d4"
    using queue.R_trans [OF queue.R_trans [OF queue.R_trans [OF e1 commands_evolve_same [OF up]] e3]
        commands_evolve_same [OF draws_only_commands [OF dr]]] .
  have ids: "same_ids d d4"
    using stays_run [OF same_ids_operations(1) ex] stays_run [OF same_ids_operations(2) rc] up draws_only_commands [OF dr]
    by (simp add: same_ids_def)
  obtain rows d5 where len: "length rows \<le> 32" and sub: "set rows \<subseteq> set (deliverable d4 agent_id durable (now_text e) observed capability)"
    and d5: "draws_only d4 d5" and h: "hand_out e agent_id es256 rows d5 = (Inr (Inr js), d')"
    using deliver_Inr [OF dl] by blast
  have js: "js = map cm_command_json rows" "es256 \<longrightarrow> (\<forall>c\<in>set rows. has_key ''authorization'' (cm_command_json c))"
    and cd: "commands d' = map (\<lambda>r. if cm_command_id r \<in> cm_command_id ` set rows then dispatched (now_text e) r else r) (commands d4)"
    using hand_out_Inr [OF h] draws_only_commands [OF d5] by auto
  have k4: "commands_keyed d4" using ev assms(2) by (simp add: commands_evolve_def)
  have one: "\<exists>c c'. c \<in> set (commands d) \<and> cm_agent_id c = agent_id \<and> cm_lifecycle_state c \<in> {AUTHORIZED, DISPATCHED} \<and>
      now_text e < cm_expires_at c \<and> (\<not> durable \<longrightarrow> cm_lifecycle_state c = AUTHORIZED \<and> cm_delivered_at c = None) \<and>
      cm_command_json c = cm_command_json c4 \<and> find_by cm_command_id (cm_command_id c) (commands d') = Some c' \<and>
      cm_lifecycle_state c' = DISPATCHED \<and> cm_delivered_at c' \<noteq> None" if c4: "c4 \<in> set rows" for c4
  proof -
    have m: "c4 \<in> set (commands d4)" "cm_agent_id c4 = agent_id" "eligible durable c4" "now_text e < cm_expires_at c4"
      using deliverable_row [OF subsetD [OF sub c4]] by simp_all
    obtain c where c: "find_by cm_command_id (cm_command_id c4) (commands d) = Some c" "command_moves c c4"
      using find_same_ids [OF ids ev assms(2) m(1)] by blast
    have mv: "reaches (cm_lifecycle_state c) (cm_lifecycle_state c4)"
      "cm_delivered_at c4 = None \<longrightarrow> cm_delivered_at c = None" "cm_agent_id c = cm_agent_id c4"
      "cm_expires_at c = cm_expires_at c4" "cm_command_json c = cm_command_json c4" "cm_command_id c = cm_command_id c4"
      using c(2) by (auto simp: command_moves_def)
    have f4: "find_by cm_command_id (cm_command_id c4) (commands d4) = Some c4"
      using k4 m(1) by (intro find_by_distinct) (simp_all add: commands_keyed_def)
    have "find_by cm_command_id (cm_command_id c4) (commands d') = Some (dispatched (now_text e) c4)"
      unfolding cd using f4 c4 by (subst find_by_map) (auto simp: dispatched_def)
    moreover have st: "cm_lifecycle_state c \<in> {AUTHORIZED, DISPATCHED}"
      "\<not> durable \<longrightarrow> cm_lifecycle_state c = AUTHORIZED \<and> cm_delivered_at c = None"
      using m(3) mv(1,2) by (auto simp: eligible_def split: if_splits dest: reaches_live)
    moreover have "cm_lifecycle_state (dispatched (now_text e) c4) = DISPATCHED"
      "cm_delivered_at (dispatched (now_text e) c4) \<noteq> None"
      by (simp_all add: dispatched_def split: option.splits)
    ultimately show ?thesis using c(1) m mv find_by_SomeD [OF c(1)] by metis
  qed
  have "length queued \<le> 32" using len q js(1) by simp
  moreover have "\<exists>c4\<in>set rows. x = (if es256 then cm_command_json c4 else jpop ''authorization'' (cm_command_json c4))"
    if "x \<in> set queued" for x
    using that q js(1) by (auto split: if_splits)
  ultimately show ?thesis using one js(2) by (metis (no_types, lifting))
qed

text \<open>
  C13. A poll gives an agent its own open work and nothing else. At most 32 commands are returned, each a command of the
  polling agent. On a single-delivery channel it was AUTHORIZED and never handed out before; on a durable channel it was
  AUTHORIZED or is handed out again while DISPATCHED. Its expiry text is later than the text of the current time, which
  for an expiry stored in UTC means that it lies ahead. It is now DISPATCHED with a delivery time. On an ES256 channel
  every command carries its authorization; without one the signature is left out.
\<close>

theorem poll_hands_out_own_live_commands:
  assumes "poll e agent_id auth durable es256 header d = (Inr queued, d')" and "commands_keyed d"
  shows "length queued \<le> 32 \<and> (\<forall>q\<in>set queued. \<exists>c c'.
    c \<in> set (commands d) \<and> cm_agent_id c = agent_id \<and> cm_lifecycle_state c \<in> {AUTHORIZED, DISPATCHED} \<and>
    now_text e < cm_expires_at c \<and>
    (\<forall>t. utc t \<and> utc (now e) \<and> cm_expires_at c = isoformat t \<longrightarrow> micros (now e) < micros t) \<and>
    (\<not> durable \<longrightarrow> cm_lifecycle_state c = AUTHORIZED \<and> cm_delivered_at c = None) \<and>
    (es256 \<longrightarrow> has_key ''authorization'' (cm_command_json c)) \<and>
    q = (if es256 then cm_command_json c else jpop ''authorization'' (cm_command_json c)) \<and>
    find_by cm_command_id (cm_command_id c) (commands d') = Some c' \<and>
    cm_lifecycle_state c' = DISPATCHED \<and> cm_delivered_at c' \<noteq> None)"
proof -
  note base = polled_commands [OF assms]
  have live: "\<forall>t. utc t \<and> utc (now e) \<and> x = isoformat t \<longrightarrow> micros (now e) < micros t" if "now_text e < x" for x
    using that isoformat_order by (auto simp: now_text_def)
  show ?thesis
  proof (intro conjI ballI)
    show "length queued \<le> 32" using base by blast
    fix q assume "q \<in> set queued"
    then obtain c c' where c: "c \<in> set (commands d)" "cm_agent_id c = agent_id" "cm_lifecycle_state c \<in> {AUTHORIZED, DISPATCHED}"
      "now_text e < cm_expires_at c" "\<not> durable \<longrightarrow> cm_lifecycle_state c = AUTHORIZED \<and> cm_delivered_at c = None"
      "es256 \<longrightarrow> has_key ''authorization'' (cm_command_json c)"
      "q = (if es256 then cm_command_json c else jpop ''authorization'' (cm_command_json c))"
      "find_by cm_command_id (cm_command_id c) (commands d') = Some c'" "cm_lifecycle_state c' = DISPATCHED" "cm_delivered_at c' \<noteq> None"
      using base by blast
    note all = c(1-4) live [OF c(4)] c(5-10)
    show "\<exists>c c'. c \<in> set (commands d) \<and> cm_agent_id c = agent_id \<and> cm_lifecycle_state c \<in> {AUTHORIZED, DISPATCHED} \<and>
    now_text e < cm_expires_at c \<and>
    (\<forall>t. utc t \<and> utc (now e) \<and> cm_expires_at c = isoformat t \<longrightarrow> micros (now e) < micros t) \<and>
    (\<not> durable \<longrightarrow> cm_lifecycle_state c = AUTHORIZED \<and> cm_delivered_at c = None) \<and>
    (es256 \<longrightarrow> has_key ''authorization'' (cm_command_json c)) \<and>
    q = (if es256 then cm_command_json c else jpop ''authorization'' (cm_command_json c)) \<and>
    find_by cm_command_id (cm_command_id c) (commands d') = Some c' \<and>
    cm_lifecycle_state c' = DISPATCHED \<and> cm_delivered_at c' \<noteq> None"
      by (rule exI [of _ c], rule exI [of _ c'], intro conjI all)
  qed
qed

lemma find_by_set_key:
  "(\<And>x. key (f x) = k) \<Longrightarrow> find_by key k (update_where (\<lambda>x. key x = k) f rows) = map_option f (find_by key k rows)"
  by (induction rows) auto

lemma upserted_channel:
  "\<exists>r'. find_by pc_agent_id (pc_agent_id r) (agent_response_channels (upsert_channel r d)) = Some r' \<and>
    pc_profile_json r' = pc_profile_json r \<and> pc_profile_observed_at r' = pc_profile_observed_at r \<and>
    pc_profile_host_id r' = pc_profile_host_id r"
proof (cases "pc_agent_id r \<in> pc_agent_id ` set (agent_response_channels d)")
  case True
  then obtain x where "find_by pc_agent_id (pc_agent_id r) (agent_response_channels d) = Some x"
    by (metis find_by_ex imageE)
  then show ?thesis using True by (simp add: upsert_channel_def find_by_set_key)
next
  case False
  then have "find_by pc_agent_id (pc_agent_id r) (agent_response_channels d) = None"
    by (auto simp: find_by_None_iff image_iff)
  then show ?thesis using False by (simp add: upsert_channel_def find_by_append)
qed

text \<open>
  C27. The profile an agent sends with a poll governs that poll: none of the commands it gets back is one the
  reported configuration blocks (mode off, an action not implemented or not allowed, a changing action in
  dry-run, a process target of another boot).
\<close>

theorem poll_respects_reported_profile:
  assumes "poll_body e agent_id auth durable es256 (Some p) d = (Inr (Inr queued), d')" and "utc (now e)"
  shows "\<forall>q\<in>set queued.
    policy_block \<lparr>pr_state = Recent, pr_report = p, pr_observed_at = Some (now_text e), pr_seconds_since_report = 0\<rparr>
      (case jget ''action'' q of JStr t \<Rightarrow> t | _ \<Rightarrow> []) (command_target q) = None"
proof -
  obtain enrolled d1 observed d3 d4 capability where en: "active_agent d agent_id = Some enrolled"
    and ex: "expire_stale_commands e (now_text e) d = (Inr (), d1)"
    and cp: "current_profile e agent_id (ea_host_id enrolled)
       (upsert_channel (channel_of e agent_id (ea_host_id enrolled) durable es256 (Some p)) d1) =
     (Inr observed, upsert_channel (channel_of e agent_id (ea_host_id enrolled) durable es256 (Some p)) d1)"
    and rc: "reconcile e (Some agent_id) (upsert_channel (channel_of e agent_id (ea_host_id enrolled) durable es256 (Some p)) d1) = (Inr (), d3)"
    and dr: "draws_only d3 d4" and dl: "deliver e agent_id durable es256 observed capability d4 = (Inr (Inr queued), d')"
    by (rule poll_body_Inr [OF assms(1)])
  let ?r = "channel_of e agent_id (ea_host_id enrolled) durable es256 (Some p)"
  let ?profile = "\<lparr>pr_state = Recent, pr_report = p, pr_observed_at = Some (now_text e), pr_seconds_since_report = 0\<rparr>"
  have r: "pc_agent_id ?r = agent_id" "pc_profile_json ?r = Some p" "pc_profile_observed_at ?r = Some (now_text e)"
    "pc_profile_host_id ?r = Some (ea_host_id enrolled)" by (simp_all add: channel_of_def)
  obtain r' where r': "find_by pc_agent_id agent_id (agent_response_channels (upsert_channel ?r d1)) = Some r'"
    "pc_profile_json r' = Some p" "pc_profile_observed_at r' = Some (now_text e)"
    "pc_profile_host_id r' = Some (ea_host_id enrolled)"
    using upserted_channel [of ?r d1] unfolding r by blast
  have "fromisoformat (now_text e) = Some (now e)"
    using assms(2) fromisoformat_isoformat by (simp add: now_text_def utc_def)
  then have ob: "observed = ?profile"
    using cp r' by (simp add: current_profile_def Let_def)
  obtain rows d5 where un: "\<forall>c\<in>set rows. unblocked observed c d4 = (Inr True, d4)"
    and h: "hand_out e agent_id es256 rows d5 = (Inr (Inr queued), d')"
    using deliver_Inr [OF dl] by blast
  have js: "queued = map cm_command_json rows" using hand_out_Inr [OF h] by simp
  show "\<forall>q\<in>set queued. policy_block ?profile (case jget ''action'' q of JStr t \<Rightarrow> t | _ \<Rightarrow> []) (command_target q) = None"
    using un unfolding js ob
    by (auto simp: unblocked_def command_action_def bindM_Inr_iff jget_def)
qed

section \<open>Concrete runs\<close>

definition demo_json :: jobj where
  "demo_json = [(''action'', JStr ''ISOLATE_HOST''), (''target'', JObj []), (''host_id'', JStr ''host-1'')]"

definition demo_row :: "lifecycle \<Rightarrow> command_row" where
  "demo_row s = \<lparr>cm_command_id = ''c1'', cm_agent_id = ''agent-1'', cm_command_json = demo_json, cm_created_at = ''2026'',
    cm_expires_at = isoformat (plus_delta demo_now (seconds 600)), cm_delivered_at = None, cm_alert_id = None,
    cm_lifecycle_state = s\<rparr>"

definition demo_queued :: "lifecycle \<Rightarrow> db" where
  "demo_queued s = demo_fleet\<lparr>commands := [demo_row s]\<rparr>"

lemma demo_live: "now_text demo_plain_env < isoformat (plus_delta demo_now (seconds 600))"
  using isoformat_order [OF utc_demo_now demo_deadline(1)] demo_deadline(2) by (simp add: now_text_def)

lemma demo_token: "require_agent_token demo_plain_env ''agent-1'' (Some ''Bearer tok'') (demo_queued s) = (Inr (), demo_queued s)"
proof -
  have "active_agent (demo_queued s) ''agent-1'' = Some (demo_agent ''agent-1'' ''host-1'' ''tok'')"
    by (simp add: active_agent_def demo_queued_def demo_fleet_def demo_agent_def)
  moreover have "py_len ''tok'' \<le> 512" by (simp add: py_len_def)
  ultimately show ?thesis
    unfolding require_agent_token_iff by (auto simp: demo_agent_def intro!: exI [of _ "''tok''"])
qed

lemma demo_expire: "expire_stale_commands demo_plain_env (now_text demo_plain_env) (demo_queued s) = (Inr (), demo_queued s)"
proof -
  have "\<not> isoformat (plus_delta demo_now (seconds 600)) \<le> now_text demo_plain_env"
    using demo_live by (simp only: not_le)
  then show ?thesis by (simp add: expire_stale_commands_def stale_commands_def demo_queued_def demo_row_def)
qed

lemma demo_audit_runs:
  assumes "command_audit d = []" "response_decision_audit d = []" "response_security_audit d = []"
    "response_artifact_custody d = []" "response_audit_ledger d = []" "triage_items d = []"
    "c \<in> cm_command_id ` set (commands d)"
  shows "\<exists>d'. audit demo_plain_env c ev actor detail d = (Inr (), d')"
proof -
  have "audit_inv (sha256 demo_plain_env) d"
    using assms audit_inv_empty [of "\<lambda>t. t"] by (simp add: audit_inv_def audit_inv_at_def keyed_def source_rows_def)
  then show ?thesis using assms by (intro audit_runs) auto
qed

lemma demo_poll:
  assumes "profile = None \<or> profile = Some demo_report"
  shows "\<exists>d'. poll_body demo_plain_env ''agent-1'' (Some ''Bearer tok'') False False profile (demo_queued AUTHORIZED) =
    (Inr (Inr [demo_json]), d')"
proof -
  let ?e = demo_plain_env and ?a = "''agent-1''"
  define d where "d = demo_queued AUTHORIZED"
  define up where "up = upsert_channel (channel_of ?e ?a ''host-1'' False False profile) d"
  have ag: "active_agent d ?a = Some (demo_agent ?a ''host-1'' ''tok'')"
    by (simp add: active_agent_def d_def demo_queued_def demo_fleet_def demo_agent_def)
  have host: "ea_host_id (demo_agent ?a ''host-1'' ''tok'') = ''host-1''" by (simp add: demo_agent_def)
  let ?g = "demo_agent ?a ''host-1'' ''tok''"
  have ok: "(case profile of None \<Rightarrow> Some ?g | Some p \<Rightarrow> if jget ''host_id'' p = JStr (ea_host_id ?g) then Some ?g else None) = Some ?g"
    using assms by (auto simp: demo_report_def jget_def demo_agent_def)
  have sig: "(case profile of None \<Rightarrow> False | Some p \<Rightarrow> truthy (jget ''require_signature'' p)) = False"
    using assms by (auto simp: demo_report_def jget_def)
  have tok: "require_agent_token ?e ?a (Some ''Bearer tok'') d = (Inr (), d)" unfolding d_def by (rule demo_token)
  have ex: "expire_stale_commands ?e (now_text ?e) d = (Inr (), d)" unfolding d_def by (rule demo_expire)
  have t: "commands up = [demo_row AUTHORIZED]" "triage_items up = []" "triage_runs up = []" "command_audit up = []"
    "response_decision_audit up = []" "response_security_audit up = []" "response_artifact_custody up = []"
    "response_audit_ledger up = []" "agent_response_channels up = [channel_of ?e ?a ''host-1'' False False profile]"
    by (simp_all add: up_def d_def upsert_channel_def demo_queued_def demo_fleet_def)
  have now: "fromisoformat (now_text ?e) = Some demo_now"
    using utc_demo_now fromisoformat_isoformat by (simp add: now_text_def utc_def)
  obtain observed where p: "current_profile ?e ?a ''host-1'' up = (Inr observed, up)"
    and ob: "observed = no_profile \<or> (pr_state observed = Recent \<and> pr_report observed = demo_report)"
    using assms now by (auto simp: current_profile_def t channel_of_def Let_def)
  have rc: "reconcile ?e (Some ?a) up = (Inr (), up)"
    by (simp add: reconcile_def queued_work_def triage_pairs_def t map_filter_def)
  have vc: "valid_capability ?e c" for c by (simp add: demo_plain_env_def)
  obtain cap where ep: "endpoint ?e (Some ?a) ''host-1'' up = (Inr cap, up)"
    by (simp add: endpoint_def profile_of_def bindM_Inr p Let_def vc)
  have del: "delivery_predicate observed demo_json" "policy_block observed ''ISOLATE_HOST'' [] = None"
    using ob by (auto simp: delivery_predicate_def demo_report_def allowed_now_def jlist_def command_target_def demo_json_def
        no_profile_def policy_block_def Let_def jmember_def)
  have rows: "deliverable up ?a False (now_text ?e) observed cap = [demo_row AUTHORIZED]"
    using demo_live del(1) by (simp add: deliverable_def t demo_row_def eligible_def order_by_def)
  have un: "filterM (unblocked observed) [demo_row AUTHORIZED] up = (Inr [demo_row AUTHORIZED], up)"
    using del(2) by (simp add: unblocked_def command_action_def demo_row_def demo_json_def has_key_def command_target_def jget_def bindM_def)
  have ch: "choose_rows ?e [] [demo_row AUTHORIZED] up = (Inr [demo_row AUTHORIZED], up)"
    by (simp add: dispatchable_def t bindM_def)
  obtain d' where au: "audit ?e ''c1'' ''dispatched'' ''agent:agent-1'' None (set_command (dispatched (now_text ?e)) ''c1'' up) = (Inr (), d')"
    using demo_audit_runs [of "set_command (dispatched (now_text ?e)) ''c1'' up" "''c1''" "''dispatched''" "''agent:agent-1''" None]
    by (auto simp: set_command_def t demo_row_def dispatched_def)
  have h: "hand_out ?e ?a False [demo_row AUTHORIZED] up = (Inr (Inr [demo_json]), d')"
    using au by (simp add: hand_out_def demo_row_def bindM_assoc bindM_Inr)
  have "deliver ?e ?a False False observed cap up = (Inr (Inr [demo_json]), d')"
    unfolding deliver_def using un ch h by (simp add: rows bindM_Inr del: filterM.simps choose_rows.simps)
  then have "poll_body ?e ?a (Some ''Bearer tok'') False False profile d = (Inr (Inr [demo_json]), d')"
    using tok ex p rc ep
    by (simp add: poll_body_def bindM_Inr ag ok sig host Let_def up_def [symmetric])
  then show ?thesis by (auto simp: d_def)
qed

theorem poll_respects_reported_profile_witness:
  "\<exists>d'. poll_body demo_plain_env ''agent-1'' (Some ''Bearer tok'') False False (Some demo_report) (demo_queued AUTHORIZED) =
      (Inr (Inr [demo_json]), d') \<and>
    policy_block \<lparr>pr_state = Recent, pr_report = demo_report, pr_observed_at = Some (now_text demo_plain_env),
      pr_seconds_since_report = 0\<rparr> ''ISOLATE_HOST'' [] = None"
proof -
  obtain d' where r: "poll_body demo_plain_env ''agent-1'' (Some ''Bearer tok'') False False (Some demo_report) (demo_queued AUTHORIZED) =
      (Inr (Inr [demo_json]), d')" using demo_poll by blast
  show ?thesis
    using poll_respects_reported_profile [OF r] utc_demo_now r by (auto simp: demo_json_def jget_def command_target_def)
qed

lemma demo_keyed: "commands_keyed (demo_queued s)"
  by (simp add: commands_keyed_def demo_queued_def)

theorem poll_hands_out_own_live_commands_witness:
  "\<exists>d' c'. poll demo_plain_env ''agent-1'' (Some ''Bearer tok'') False False None (demo_queued AUTHORIZED) = (Inr [demo_json], d') \<and>
    find_by cm_command_id ''c1'' (commands d') = Some c' \<and> cm_lifecycle_state c' = DISPATCHED"
proof -
  obtain d' where r: "poll_body demo_plain_env ''agent-1'' (Some ''Bearer tok'') False False None (demo_queued AUTHORIZED) =
      (Inr (Inr [demo_json]), d')" using demo_poll by blast
  have p: "poll demo_plain_env ''agent-1'' (Some ''Bearer tok'') False False None (demo_queued AUTHORIZED) = (Inr [demo_json], d')"
    using r demo_token [of AUTHORIZED]
    by (simp add: poll_def bindM_Inr parse_header_def raise_committed_def transaction_def jpop_def demo_json_def)
  show ?thesis
    using poll_hands_out_own_live_commands [OF p demo_keyed] p by (auto simp: demo_queued_def demo_row_def)
qed

definition demo_result :: command_result where
  "demo_result = \<lparr>res_schema_version = ''1'', res_result_id = ''res-1'', res_command_id = ''c1'', res_outcome = ''succeeded'',
    res_detail = None, res_correlation_id = None, res_execution = None, res_dump = []\<rparr>"

lemma demo_submit:
  "\<exists>d'. submit_result demo_plain_env ''agent-1'' demo_result (Some ''Bearer tok'') (demo_queued DISPATCHED) =
    (Inr (''res-1'', False), d')"
proof -
  let ?e = demo_plain_env and ?a = "''agent-1''"
  define d where "d = demo_queued DISPATCHED"
  define d1 where "d1 = snd (keep_outcome ?e ?a demo_result d)"
  have tok: "require_agent_token ?e ?a (Some ''Bearer tok'') d = (Inr (), d)" unfolding d_def by (rule demo_token)
  have ex: "expire_stale_commands ?e (now_text ?e) d = (Inr (), d)" unfolding d_def by (rule demo_expire)
  have own: "owned_command ?a ''c1'' d = (Inr (demo_row DISPATCHED), d)"
    by (simp add: owned_command_def d_def demo_queued_def demo_row_def)
  have f: "fromisoformat (cm_expires_at (demo_row DISPATCHED)) = Some (plus_delta demo_now (seconds 600))"
    using fromisoformat_isoformat demo_deadline(1) by (simp add: demo_row_def utc_def)
  have ck: "check_result ?e (demo_row DISPATCHED) demo_result d = (Inr (), d)"
    using demo_deadline by (simp add: check_result_def f demo_result_def has_passed_def utc_def)
  have k: "keep_outcome ?e ?a demo_result d = (Inr (), d1)"
    by (simp add: d1_def keep_outcome_def demo_result_def d_def demo_queued_def demo_fleet_def)
  have t: "command_audit d1 = []" "response_decision_audit d1 = []" "response_security_audit d1 = []"
    "response_artifact_custody d1 = []" "response_audit_ledger d1 = []" "triage_items d1 = []"
    "''c1'' \<in> cm_command_id ` set (commands d1)"
    by (simp_all add: d1_def keep_outcome_def demo_result_def d_def demo_queued_def demo_fleet_def set_command_def demo_row_def)
  obtain d' where au: "audit ?e ''c1'' ''result_received'' ''agent:agent-1'' (Some ''succeeded'') d1 = (Inr (), d')"
    using demo_audit_runs [OF t] by blast
  have sel: "res_command_id demo_result = ''c1''" "res_schema_version demo_result = ''1''" "res_outcome demo_result = ''succeeded''"
    "res_result_id demo_result = ''res-1''" by (simp_all add: demo_result_def)
  have st: "cm_lifecycle_state (demo_row DISPATCHED) = DISPATCHED" by (simp add: demo_row_def)
  have so: "submit_owned ?e ?a demo_result (demo_row DISPATCHED) d = (Inr (), d')"
    using ck k au by (simp add: submit_owned_def bindM_Inr sel st)
  then have "submit_body ?e ?a demo_result d = (Inr (), d')"
    using ex own by (simp add: submit_body_def bindM_Inr sel)
  then have "submit_result ?e ?a demo_result (Some ''Bearer tok'') d = (Inr (''res-1'', False), d')"
    using tok by (simp add: submit_result_def bindM_Inr transaction_def sel)
  then show ?thesis by (auto simp: d_def)
qed

theorem report_decides_once_witness:
  "\<exists>d' c'. submit_result demo_plain_env ''agent-1'' demo_result (Some ''Bearer tok'') (demo_queued DISPATCHED) =
      (Inr (''res-1'', False), d') \<and>
    find_by cm_command_id ''c1'' (commands d') = Some c' \<and> cm_lifecycle_state c' = SUCCEEDED"
proof -
  obtain d' where r: "submit_result demo_plain_env ''agent-1'' demo_result (Some ''Bearer tok'') (demo_queued DISPATCHED) =
      (Inr (''res-1'', False), d')" using demo_submit by blast
  have "now_text demo_plain_env < cm_expires_at (demo_row DISPATCHED)" using demo_live by (simp add: demo_row_def)
  then show ?thesis
    using report_decides_once [OF r demo_keyed] r
    by (auto simp: demo_queued_def demo_row_def demo_result_def demo_fleet_def)
qed

end
