(* ===== verification/ResponseActions.thy ===== *)
theory ResponseActions
  imports Commands
begin

text \<open>
  The analysts' surface: \<^verbatim>\<open>manager/routers/response_actions.py\<close> and
  \<^verbatim>\<open>manager/routers/triage.py\<close>. Request bodies are parsed as their pydantic models do; manual
  requests and campaigns are staged under a retry identity; authorizing, rejecting and cancelling are one
  transaction each; policy and asset changes are versioned.
\<close>

section \<open>Request bodies\<close>

text \<open>\<open>[A-Za-z0-9._:-]+\<close>, at most 128 characters.\<close>

definition is_id_char :: "char \<Rightarrow> bool" where
  "is_id_char c \<longleftrightarrow> is_digit c \<or> (let n = of_char c :: nat in 65 \<le> n \<and> n \<le> 90 \<or> 97 \<le> n \<and> n \<le> 122) \<or> c \<in> set ''._:-''"

definition id_text :: "string \<Rightarrow> bool" where
  "id_text t \<longleftrightarrow> len_between 1 128 t \<and> list_all is_id_char t"

definition text_field :: "nat \<Rightarrow> nat \<Rightarrow> string \<Rightarrow> jobj \<Rightarrow> string option" where
  "text_field lo hi k body =
    (case jstr (jget k body) of None \<Rightarrow> None | Some t \<Rightarrow> if len_between lo hi t then Some t else None)"

definition only_keys :: "string list \<Rightarrow> jobj \<Rightarrow> bool" where
  "only_keys allowed body \<longleftrightarrow> list_all (\<lambda>(k, v). k \<in> set allowed) body"

text \<open>\<open>RejectRequest\<close>: a reason that is not blank, without the white space around it.\<close>

definition reason_field :: "jobj \<Rightarrow> string option" where
  "reason_field body =
    (case text_field 1 512 ''reason'' body of
       None \<Rightarrow> None | Some t \<Rightarrow> if strip t = [] then None else Some (strip t))"

definition parse_reject :: "jobj \<Rightarrow> string option" where
  "parse_reject body = (if only_keys [''reason''] body then reason_field body else None)"

record manual_request =
  mr_reason :: string
  mr_alert_id :: string
  mr_action :: string
  mr_target :: jobj
  mr_request_id :: "string option"

text \<open>A target may be omitted; a \<open>request_id\<close> may be omitted but not null.\<close>

definition target_field :: "jobj \<Rightarrow> jobj option" where
  "target_field body =
    (case map_of body ''target'' of
       None \<Rightarrow> Some []
     | Some (JObj t) \<Rightarrow> if length t \<le> 16 then Some t else None
     | Some _ \<Rightarrow> None)"

definition request_id_field :: "jobj \<Rightarrow> string option option" where
  "request_id_field body =
    (case map_of body ''request_id'' of
       None \<Rightarrow> Some None
     | Some (JStr t) \<Rightarrow> if id_text t then Some (Some t) else None
     | Some _ \<Rightarrow> None)"

definition parse_manual :: "env \<Rightarrow> jobj \<Rightarrow> manual_request option" where
  "parse_manual e body =
    (if only_keys [''reason'', ''alert_id'', ''action'', ''target'', ''request_id''] body
     then (case (reason_field body, text_field 1 128 ''alert_id'' body, jstr (jget ''action'' body),
                 target_field body, request_id_field body) of
             (Some reason, Some alert_id, Some action, Some target, Some request_id) \<Rightarrow>
               if action \<in> set (actions e)
               then Some \<lparr>mr_reason = reason, mr_alert_id = alert_id, mr_action = action, mr_target = target,
                          mr_request_id = request_id\<rparr> else None
           | _ \<Rightarrow> None)
     else None)"

record campaign_request =
  cq_campaign_id :: string
  cq_items :: "manual_request list"

text \<open>The items of a campaign carry no retry identity of their own.\<close>

definition parse_items :: "env \<Rightarrow> json \<Rightarrow> manual_request list option" where
  "parse_items e v =
    (case v of
       JArr xs \<Rightarrow>
         if 1 \<le> length xs \<and> length xs \<le> max_campaign_actions e
         then those (map (\<lambda>x. case x of
                JObj b \<Rightarrow> (case parse_manual e b of
                             Some q \<Rightarrow> if mr_request_id q = None then Some q else None | None \<Rightarrow> None)
              | _ \<Rightarrow> None) xs)
         else None
     | _ \<Rightarrow> None)"

definition parse_campaign :: "env \<Rightarrow> jobj \<Rightarrow> campaign_request option" where
  "parse_campaign e body =
    (if only_keys [''campaign_id'', ''items''] body
     then (case (jstr (jget ''campaign_id'' body), parse_items e (jget ''items'' body)) of
             (Some i, Some items) \<Rightarrow> if id_text i then Some \<lparr>cq_campaign_id = i, cq_items = items\<rparr> else None
           | _ \<Rightarrow> None)
     else None)"

section \<open>Configuration and sweeps\<close>

definition lower_char :: "char \<Rightarrow> char" where
  "lower_char c = (let n = of_char c :: nat in if 65 \<le> n \<and> n \<le> 90 then char_of (n + 32) else c)"

definition separate_approver :: "env \<Rightarrow> ('s, bool) act" where
  "separate_approver e =
    (let v = map lower_char (strip (case environ e ''PANOPTICON_REQUIRE_SEPARATE_APPROVER'' of
                                      None \<Rightarrow> ''false'' | Some t \<Rightarrow> t))
     in seqM (raise_if (v \<notin> {''true'', ''false'', ''1'', ''0''})
                (HTTPException 503 ''separate-approver policy configuration is invalid''))
        (ret (v \<in> {''true'', ''1''})))"

definition expire_pending :: "env \<Rightarrow> (db, unit) act" where
  "expire_pending e =
    transaction (seqM (expire_stale_response_actions e) (expire_stale_commands e (now_text e)))"

section \<open>Manual requests\<close>

definition manual_dump :: "manual_request \<Rightarrow> jobj" where
  "manual_dump q = [(''reason'', JStr (mr_reason q)), (''alert_id'', JStr (mr_alert_id q)),
     (''action'', JStr (mr_action q)), (''target'', JObj (mr_target q))]"

text \<open>SHA-256 of \<open>json.dumps(request.model_dump(exclude={"request_id"}), sort_keys=True, separators=(",", ":"))\<close>.\<close>

definition manual_digest :: "env \<Rightarrow> manual_request \<Rightarrow> string" where
  "manual_digest e q = sha256 e (encode esc_ascii '','' '':'' (sort_json (JObj (manual_dump q))))"

record staged =
  sg_response_id :: string
  sg_lifecycle_state :: lifecycle
  sg_target :: jobj
  sg_replayed :: bool

definition staged_json :: "staged \<Rightarrow> jobj" where
  "staged_json s = [(''response_id'', JStr (sg_response_id s)), (''lifecycle_state'', JStr (state_text (sg_lifecycle_state s))),
     (''target'', JObj (sg_target s))] @ (if sg_replayed s then [(''replayed'', JBool True)] else [])"

text \<open>The retry identity of an earlier request, with the response it staged.\<close>

definition prior_request :: "db \<Rightarrow> string \<Rightarrow> string \<Rightarrow> (request_key_row \<times> response_row) option" where
  "prior_request d actor request_id =
    (case List.find (\<lambda>k. rk_analyst_id k = actor \<and> rk_request_id k = request_id) (response_request_keys d) of
       None \<Rightarrow> None
     | Some k \<Rightarrow> map_option (Pair k) (find_by ra_response_id (rk_response_id k) (response_actions d)))"

definition insert_request_key :: "request_key_row \<Rightarrow> (db, unit) act" where
  "insert_request_key k = bindM (gets (\<lambda>d. d)) (\<lambda>d.
     seqM (raise_if ((\<exists>x\<in>set (response_request_keys d). rk_analyst_id x = rk_analyst_id k \<and> rk_request_id x = rk_request_id k) \<or>
                     rk_response_id k \<notin> ra_response_id ` set (response_actions d)) IntegrityError)
     (modify (\<lambda>d. d\<lparr>response_request_keys := response_request_keys d @ [k]\<rparr>)))"

text \<open>Open responses of an agent's alerts, whatever host the alert names.\<close>

definition agent_duplicate :: "db \<Rightarrow> string \<Rightarrow> string \<Rightarrow> jobj \<Rightarrow> bool" where
  "agent_duplicate d agent action target \<longleftrightarrow>
    (\<exists>ra\<in>set (response_actions d).
       (\<exists>a\<in>set (alerts d). al_alert_id a = ra_alert_id ra \<and> al_agent_id a = Some agent) \<and> ra_action ra = action \<and>
       (ra_lifecycle_state ra = PENDING \<or>
        (ra_lifecycle_state ra = AUTHORIZED \<and>
          (case command_of d ra of None \<Rightarrow> False | Some c \<Rightarrow> cm_lifecycle_state c \<in> {AUTHORIZED, DISPATCHED, ACCEPTED}))) \<and>
       py_eq (JObj (ra_target_json ra)) (JObj target))"

text \<open>The part after the retry check: sweeps, target, duplicates, the row and its retry identity.\<close>

definition stage_fresh :: "env \<Rightarrow> manual_request \<Rightarrow> string \<Rightarrow> (db, staged) act" where
  "stage_fresh e q actor =
    seqM (expire_stale_response_actions e)
    (seqM (expire_stale_commands e (now_text e))
    (bindM (resolve_manual_target e (mr_alert_id q) (mr_action q) (mr_target q)) (\<lambda>(agent, host, target).
     bindM (gets (\<lambda>d. (case find_open_duplicate e d (Some host) (mr_action q) target of None \<Rightarrow> False | Some r \<Rightarrow> r \<noteq> []) \<or>
                      agent_duplicate d agent (mr_action q) target)) (\<lambda>duplicate.
     seqM (raise_if duplicate (HTTPException 409 ''an equivalent response is already pending or in flight''))
     (bindM (stage_requested e (mr_alert_id q) (mr_action q) ''ANALYST_APPROVAL'' target (mr_reason q) actor ''analyst''
               (Some agent) host) (\<lambda>response_id.
      seqM (case mr_request_id q of
              None \<Rightarrow> ret ()
            | Some k \<Rightarrow> insert_request_key \<lparr>rk_analyst_id = actor, rk_request_id = k, rk_payload_digest = manual_digest e q,
                          rk_response_id = response_id\<rparr>)
      (ret \<lparr>sg_response_id = response_id, sg_lifecycle_state = PENDING, sg_target = target, sg_replayed = False\<rparr>)))))))"

definition stage_manual_request :: "env \<Rightarrow> manual_request \<Rightarrow> string \<Rightarrow> (db, staged) act" where
  "stage_manual_request e q actor =
    bindM (gets (\<lambda>d. case mr_request_id q of None \<Rightarrow> None | Some k \<Rightarrow> prior_request d actor k)) (\<lambda>prior.
    case prior of
      Some (k, ra) \<Rightarrow>
        seqM (raise_if (rk_payload_digest k \<noteq> manual_digest e q)
                (HTTPException 409 ''request_id is already bound to a different request''))
        (ret \<lparr>sg_response_id = ra_response_id ra, sg_lifecycle_state = ra_lifecycle_state ra,
              sg_target = ra_target_json ra, sg_replayed = True\<rparr>)
    | None \<Rightarrow> stage_fresh e q actor)"

definition as_analyst :: "env \<Rightarrow> string option \<Rightarrow> string \<Rightarrow> (db, string) act" where
  "as_analyst e authorization permission =
    bindM (require_analyst_permission e authorization permission) (\<lambda>a. ret (''analyst:'' @ a))"

definition create_manual :: "env \<Rightarrow> jobj \<Rightarrow> string option \<Rightarrow> (db, staged) act" where
  "create_manual e body authorization =
    bindM (require_some (parse_manual e body) ValidationError) (\<lambda>q.
    bindM (as_analyst e authorization ''response:request'') (\<lambda>actor.
    transaction (stage_manual_request e q actor)))"

section \<open>Campaigns\<close>

definition campaign_dump :: "campaign_request \<Rightarrow> jobj" where
  "campaign_dump q = [(''campaign_id'', JStr (cq_campaign_id q)),
     (''items'', JArr (map (\<lambda>i. JObj (manual_dump i @ [(''request_id'', jopt (mr_request_id i))])) (cq_items q)))]"

definition campaign_digest :: "env \<Rightarrow> campaign_request \<Rightarrow> string" where
  "campaign_digest e q = sha256 e (json_dumps (JObj (campaign_dump q)))"

definition campaign_key :: "env \<Rightarrow> campaign_request \<Rightarrow> nat \<Rightarrow> string" where
  "campaign_key e q index = ''campaign:'' @ sha256 e (cq_campaign_id q) @ '':'' @ nat_str index"

text \<open>One item, in its savepoint: an HTTP error rolls it back and becomes its report.\<close>

definition campaign_item :: "env \<Rightarrow> campaign_request \<Rightarrow> string \<Rightarrow> nat \<Rightarrow> manual_request \<Rightarrow> (db, jobj) act" where
  "campaign_item e q actor index item =
    (let report = [(''index'', JInt (int index)), (''alert_id'', JStr (mr_alert_id item)), (''action'', JStr (mr_action item))] in
     bindM (catch_http (transaction
              (bindM (stage_manual_request e (item\<lparr>mr_request_id := Some (campaign_key e q index)\<rparr>) actor) (\<lambda>result.
               seqM (if sg_replayed result then ret ()
                     else record_decision e (sg_response_id result) ''campaign_linked'' actor
                            (Some [(''campaign_id'', JStr (cq_campaign_id q)), (''index'', JInt (int index))]))
               (ret result))))) (\<lambda>outcome.
     case outcome of
       Inr result \<Rightarrow> ret (jset ''status_code'' (JInt 201) (jupdate report (staged_json result)))
     | Inl (code, detail) \<Rightarrow> ret (jupdate report [(''status_code'', JInt code), (''error'', JStr detail)])))"

primrec campaign_items :: "env \<Rightarrow> campaign_request \<Rightarrow> string \<Rightarrow> nat \<Rightarrow> manual_request list \<Rightarrow> (db, jobj list) act" where
  "campaign_items e q actor index [] = ret []"
| "campaign_items e q actor index (item # items) =
    bindM (campaign_item e q actor index item) (\<lambda>report.
    bindM (campaign_items e q actor (Suc index) items) (\<lambda>reports. ret (report # reports)))"

definition created_item :: "jobj \<Rightarrow> bool" where
  "created_item report \<longleftrightarrow> jget ''status_code'' report = JInt 201"

definition campaign_report :: "env \<Rightarrow> campaign_request \<Rightarrow> string \<Rightarrow> jobj list \<Rightarrow> jobj" where
  "campaign_report e q actor items =
    [(''campaign_id'', JStr (cq_campaign_id q)), (''actor'', JStr actor), (''created_at'', JStr (iso_now e)),
     (''items'', JArr (map JObj items)),
     (''created_count'', JInt (int (length (filter created_item items)))),
     (''failed_count'', JInt (int (length (filter (\<lambda>i. \<not> created_item i) items)))),
     (''replayed'', JBool False)]"

definition prior_campaign :: "db \<Rightarrow> string \<Rightarrow> string \<Rightarrow> campaign_row option" where
  "prior_campaign d actor campaign_id =
    List.find (\<lambda>c. cp_actor c = actor \<and> cp_campaign_id c = campaign_id) (response_campaigns d)"

definition insert_campaign :: "campaign_row \<Rightarrow> (db, unit) act" where
  "insert_campaign c = bindM (gets response_campaigns) (\<lambda>rows.
     seqM (raise_if (\<exists>x\<in>set rows. cp_actor x = cp_actor c \<and> cp_campaign_id x = cp_campaign_id c) IntegrityError)
     (modify (\<lambda>d. d\<lparr>response_campaigns := response_campaigns d @ [c]\<rparr>)))"

definition run_campaign :: "env \<Rightarrow> campaign_request \<Rightarrow> string \<Rightarrow> (db, json) act" where
  "run_campaign e q actor =
    bindM (gets (\<lambda>d. prior_campaign d actor (cq_campaign_id q))) (\<lambda>prior.
    case prior of
      Some c \<Rightarrow>
        seqM (raise_if (cp_payload_digest c \<noteq> campaign_digest e q)
                (HTTPException 409 ''campaign_id is already bound to a different campaign''))
        (case cp_result_json c of
           JObj report \<Rightarrow> ret (JObj (jset ''replayed'' (JBool True) report))
         | _ \<Rightarrow> throw (TypeError ''object is not a mapping''))
    | None \<Rightarrow>
        bindM (campaign_items e q actor 0 (cq_items q)) (\<lambda>items.
        let report = campaign_report e q actor items in
        seqM (insert_campaign \<lparr>cp_actor = actor, cp_campaign_id = cq_campaign_id q, cp_payload_digest = campaign_digest e q,
                cp_result_json = JObj report, cp_created_at = iso_now e\<rparr>)
        (ret (JObj report))))"

definition create_campaign :: "env \<Rightarrow> jobj \<Rightarrow> string option \<Rightarrow> (db, json) act" where
  "create_campaign e body authorization =
    bindM (require_some (parse_campaign e body) ValidationError) (\<lambda>q.
    bindM (as_analyst e authorization ''response:request'') (\<lambda>actor.
    transaction (run_campaign e q actor)))"

definition list_campaigns :: "env \<Rightarrow> string option \<Rightarrow> nat \<Rightarrow> (db, json list) act" where
  "list_campaigns e authorization limit =
    seqM (raise_if (\<not> (1 \<le> limit \<and> limit \<le> 50)) ValidationError)
    (bindM (require_analyst_token e authorization) (\<lambda>a.
     gets (\<lambda>d. map cp_result_json (take limit (rev (order_by cp_created_at (order_by cp_campaign_id
       (filter (\<lambda>c. cp_actor c = ''analyst:'' @ a) (response_campaigns d)))))))))"

section \<open>Decisions\<close>

definition cancel :: "env \<Rightarrow> string \<Rightarrow> jobj \<Rightarrow> string option \<Rightarrow> (db, unit) act" where
  "cancel e response_id body authorization =
    bindM (require_some (parse_reject body) ValidationError) (\<lambda>reason.
    bindM (as_analyst e authorization ''response:decide'') (\<lambda>actor.
    transaction (seqM (expire_stale_commands e (now_text e)) (cancel_queued e response_id actor reason))))"

abbreviation no_pending :: exn where
  "no_pending \<equiv> HTTPException 404 ''no pending response action with that id''"

text \<open>With a separate approver configured, who asked for a response cannot authorize it.\<close>

definition check_approver :: "env \<Rightarrow> string \<Rightarrow> string \<Rightarrow> (db, unit) act" where
  "check_approver e response_id actor =
    bindM (separate_approver e) (\<lambda>separate.
    if separate
    then bindM (gets (\<lambda>d. find_by ra_response_id response_id (response_actions d))) (\<lambda>found.
         bindM (require_some found (TypeError ''NoneType is not subscriptable'')) (\<lambda>row.
         raise_if (ra_requested_by row = Some actor) (HTTPException 403 ''a different analyst must approve this manual request'')))
    else ret ())"

definition authorize_body :: "env \<Rightarrow> string \<Rightarrow> string \<Rightarrow> (db, unit) act" where
  "authorize_body e response_id actor =
    seqM (expire_stale_response_actions e)
    (bindM (gets (\<lambda>d. pending d response_id)) (\<lambda>found.
     seqM (raise_if (found = None) no_pending)
     (seqM (check_approver e response_id actor)
     (authorize_response_action e response_id actor))))"

definition authorize :: "env \<Rightarrow> string \<Rightarrow> string option \<Rightarrow> (db, lifecycle \<times> string option) act" where
  "authorize e response_id authorization =
    bindM (as_analyst e authorization ''response:decide'') (\<lambda>actor.
    seqM (transaction (authorize_body e response_id actor))
    (bindM (gets (\<lambda>d. find_by ra_response_id response_id (response_actions d))) (\<lambda>found.
     bindM (require_some found (TypeError ''NoneType is not subscriptable'')) (\<lambda>row.
     ret (ra_lifecycle_state row, ra_decided_reason row)))))"

definition reject :: "env \<Rightarrow> string \<Rightarrow> jobj \<Rightarrow> string option \<Rightarrow> (db, unit) act" where
  "reject e response_id body authorization =
    bindM (require_some (parse_reject body) ValidationError) (\<lambda>reason.
    bindM (as_analyst e authorization ''response:decide'') (\<lambda>actor.
    transaction
      (seqM (expire_stale_response_actions e)
      (bindM (gets (\<lambda>d. pending d response_id)) (\<lambda>found.
       seqM (raise_if (found = None) no_pending)
       (reject_response_action e response_id actor reason))))))"

section \<open>Every handler keeps the contracts\<close>

lemma as_analyst_reads:
  "stays (\<lambda>d d'. d' = d) (as_analyst e authorization permission)"
  "stays (\<lambda>d d'. d' = d) (require_analyst_token e authorization)"
  unfolding as_analyst_def require_analyst_token_def
  by (intro unchanged.stays_structural checks_change_nothing stays_splits)+

lemmas analyst_reads = as_analyst_reads [THEN stays_read]

lemma work_request_rows:
  "stays (work e) (insert_request_key k)" "stays (work e) (insert_campaign c)"
  unfolding insert_request_key_def insert_campaign_def
  by (intro work.stays_structural work_modify; simp)+

lemma work_stage_manual_request: "stays (work e) (stage_manual_request e q actor)"
  unfolding stage_manual_request_def stage_fresh_def
  by (intro work.stays_structural work_reads work_queue_operations work_responses_operations work_request_rows stays_splits)

lemma work_campaign_items: "stays (work e) (campaign_items e q actor index items)"
proof (induction items arbitrary: index)
  case (Cons item items)
  show ?case
    unfolding campaign_items.simps campaign_item_def Let_def
    by (intro work.stays_structural work.writers work_stage_manual_request Cons.IH stays_splits)
qed (simp add: work.stays_ret)

lemma work_analyst_operations:
  "stays (work e) (expire_pending e)"
  "stays (work e) (create_manual e body auth)"
  "stays (work e) (create_campaign e body auth)"
  "stays (work e) (cancel e response_id body auth)"
  "stays (work e) (authorize e response_id auth)"
  "stays (work e) (reject e response_id body auth)"
  unfolding expire_pending_def create_manual_def create_campaign_def run_campaign_def cancel_def authorize_def
    authorize_body_def check_approver_def separate_approver_def reject_def Let_def
  by (intro work.stays_structural work_reads analyst_reads work.R_refl work_queue_operations work_responses_operations
      work_stage_manual_request work_campaign_items work_request_rows stays_splits)+

lemma audit_request_rows:
  "stays (audit_grows h) (insert_request_key k)" "stays (audit_grows h) (insert_campaign c)"
  unfolding insert_request_key_def insert_campaign_def
  by (intro audit.stays_structural audit_modify; simp)+

lemma audit_stage_manual_request: "stays (audit_grows (sha256 e)) (stage_manual_request e q actor)"
  unfolding stage_manual_request_def stage_fresh_def
  by (intro audit.stays_structural audit_draws audit_queue audit_responses audit_request_rows stays_splits)

lemma audit_campaign_items: "stays (audit_grows (sha256 e)) (campaign_items e q actor index items)"
proof (induction items arbitrary: index)
  case (Cons item items)
  show ?case
    unfolding campaign_items.simps campaign_item_def Let_def
    by (intro audit.stays_structural audit_writers audit_stage_manual_request Cons.IH stays_splits)
qed (simp add: audit.stays_ret)

lemma audit_analyst_operations:
  "stays (audit_grows (sha256 e)) (expire_pending e)"
  "stays (audit_grows (sha256 e)) (create_manual e body auth)"
  "stays (audit_grows (sha256 e)) (create_campaign e body auth)"
  "stays (audit_grows (sha256 e)) (cancel e response_id body auth)"
  "stays (audit_grows (sha256 e)) (authorize e response_id auth)"
  "stays (audit_grows (sha256 e)) (reject e response_id body auth)"
  unfolding expire_pending_def create_manual_def create_campaign_def run_campaign_def cancel_def authorize_def
    authorize_body_def check_approver_def separate_approver_def reject_def Let_def
  by (intro audit.stays_structural analyst_reads audit.R_refl audit_queue audit_responses
      audit_stage_manual_request audit_campaign_items audit_request_rows stays_splits)+

lemma foreground_request_rows:
  "stays foreground (insert_request_key k)" "stays foreground (insert_campaign c)"
  unfolding insert_request_key_def insert_campaign_def
  by (intro foreground.stays_structural foreground_modify; simp add: background_def)+

lemma foreground_stage_manual_request: "stays foreground (stage_manual_request e q actor)"
  unfolding stage_manual_request_def stage_fresh_def
  by (intro foreground.stays_structural foreground_reads foreground_queue foreground_responses foreground_request_rows stays_splits)

lemma foreground_campaign_items: "stays foreground (campaign_items e q actor index items)"
proof (induction items arbitrary: index)
  case (Cons item items)
  show ?case
    unfolding campaign_items.simps campaign_item_def Let_def
    by (intro foreground.stays_structural foreground.writers foreground_stage_manual_request Cons.IH stays_splits)
qed (simp add: foreground.stays_ret)

lemma foreground_analyst_operations:
  "stays foreground (expire_pending e)"
  "stays foreground (create_manual e body auth)"
  "stays foreground (create_campaign e body auth)"
  "stays foreground (cancel e response_id body auth)"
  "stays foreground (authorize e response_id auth)"
  "stays foreground (reject e response_id body auth)"
  unfolding expire_pending_def create_manual_def create_campaign_def run_campaign_def cancel_def authorize_def
    authorize_body_def check_approver_def separate_approver_def reject_def Let_def
  by (intro foreground.stays_structural foreground_reads analyst_reads foreground.R_refl foreground_queue
      foreground_responses foreground_stage_manual_request foreground_campaign_items foreground_request_rows stays_splits)+

end
