(* ===== verification/Decisions.thy ===== *)
theory Decisions
  imports ResponseActions
begin

text \<open>
  What the analysts' surface guarantees: who may authorize, that a retry takes effect once, that a campaign accounts
  for its items, that an open response is not asked for twice, and what the sweep before a read leaves.
\<close>

section \<open>What a decision does to the table\<close>

lemma draws_only_check_requested: "stays draws_only (check_requested e row)"
  unfolding check_requested_def by (intro draws_only.stays_structural draws_only_operations stays_splits)

lemma draws_only_detection_target_changed: "stays draws_only (detection_target_changed e row a agent)"
  unfolding detection_target_changed_def get_attr_def
  by (intro draws_only.stays_structural draws_only_operations stays_splits)

lemma reject_row_Inr:
  assumes "reject_row e i actor why note d = (Inr u, d')"
  shows "response_actions d' = update_where (\<lambda>r. ra_response_id r = i) (rejected why) (response_actions d)"
proof -
  have "audit_only (set_response (rejected why) i d) d'"
    using assms stays_run [OF audit_only_writers(6)] by (auto simp: reject_row_def)
  then show ?thesis using audit_onlyD(2) by (fastforce simp: set_response_def)
qed

lemma enqueue_response_Inr:
  assumes "enqueue_response e row agent actor d = (Inr u, d')"
  shows "response_actions d' =
    update_where (\<lambda>r. ra_response_id r = ra_response_id row) (authorized e actor) (response_actions d)"
proof -
  obtain limit d1 c d2 u2 d3 where 1: "deadline (ra_response_id row) d = (Inr limit, d1)"
    and 2: "authorize_and_enqueue e False c actor (Some (ra_alert_id row)) d1 = (Inr u2, d2)"
    and 3: "mark_authorized e row actor d2 = (Inr (), d3)"
    and 4: "record_decision e (ra_response_id row) ''authorized'' actor
       (Some [(''command_id'', JStr (''resp-'' @ ra_response_id row))]) d3 = (Inr u, d')"
    using assms by (auto simp: enqueue_response_def bindM_Inr_iff)
  have "d1 = d" using deadline_reads 1 by (rule stays_run)
  moreover have "response_actions d2 = response_actions d1"
    using stays_run [OF responses_same_queue(1) 2] by (simp add: responses_same_def)
  moreover have "response_actions d3 = update_where (\<lambda>r. ra_response_id r = ra_response_id row) (authorized e actor) (response_actions d2)"
    using 3 by (auto simp: mark_authorized_def bindM_Inr_iff set_response_def)
  moreover have "response_actions d' = response_actions d3"
    using stays_run [OF audit_only_writers(6) 4] audit_onlyD(2) by blast
  ultimately show ?thesis by simp
qed

lemma authorize_response_action_Inr:
  assumes "authorize_response_action e i actor d = (Inr u, d')" and "pending d i = Some row"
  shows "\<exists>f. response_actions d' = update_where (\<lambda>r. ra_response_id r = i) f (response_actions d) \<and>
    (f = authorized e actor \<or> (\<exists>why. f = rejected why))"
proof (cases "\<exists>a agent. find_by al_alert_id (ra_alert_id row) (alerts d) = Some a \<and> al_agent_id a = Some agent")
  case False
  then have "reject_row e i actor ''originating alert has no agent_id to target''
      ''originating alert has no agent_id to target'' d = (Inr u, d')"
    using assms by (auto simp: authorize_response_action_def split: option.splits)
  then show ?thesis using reject_row_Inr by blast
next
  case True
  then obtain a agent where a: "find_by al_alert_id (ra_alert_id row) (alerts d) = Some a" "al_agent_id a = Some agent" by blast
  obtain u1 d1 changed d2 where 1: "check_requested e row d = (Inr u1, d1)"
    and 2: "(if ra_origin row \<notin> {''analyst'', ''auto_triage''} \<and> has_key ''boot_id'' (ra_target_json row)
             then detection_target_changed e row a agent else ret False) d1 = (Inr changed, d2)"
    and 3: "(if changed then reject_row e i actor ''canonical target or enrolled host changed before authorization''
               ''canonical target or enrolled host changed'' else enqueue_response e row agent actor) d2 = (Inr u, d')"
    using assms a by (auto simp: authorize_response_action_def bindM_Inr_iff split del: if_split)
  have "draws_only d d1" using draws_only_check_requested 1 by (rule stays_run)
  moreover have "draws_only d1 d2"
    using 2 stays_run [OF draws_only_detection_target_changed] draws_only.R_refl by (auto split: if_splits)
  ultimately have "response_actions d2 = response_actions d"
    by (auto dest!: draws_only_audit_only audit_onlyD(2))
  moreover have "ra_response_id row = i" using pending_SomeD [OF assms(2)] by simp
  ultimately show ?thesis
    using 3 reject_row_Inr [of e i actor] enqueue_response_Inr [of e row agent actor d2 u d'] by (auto split: if_splits)
qed

lemma as_analyst_Inr:
  "as_analyst e auth p d = (Inr actor, d') \<longleftrightarrow>
    d' = d \<and> (\<exists>a. actor = ''analyst:'' @ a \<and> require_analyst_permission e auth p d = (Inr a, d))"
  using read_result [OF checks_change_nothing(2)] by (fastforce simp: as_analyst_def bindM_Inr_iff)

lemma separate_approver_reads: "separate_approver e s = (Inr b, s') \<longleftrightarrow> s' = s \<and> separate_approver e t = (Inr b, t)"
  by (auto simp: separate_approver_def Let_def bindM_raise_if)

lemma responses_keyed_find:
  "responses_keyed d \<Longrightarrow> pending d i = Some row \<Longrightarrow> find_by ra_response_id i (response_actions d) = Some row"
  using pending_SomeD [of d i row] find_by_distinct [of ra_response_id "response_actions d" row]
  by (auto simp: responses_keyed_def)

text \<open>
  C5. The two-person rule. When a separate approver is required, a response that an analyst asked for is
  never authorized by that analyst: a call that returns was made with the decision permission by somebody
  else than the requester, and has decided the row, as AUTHORIZED in the caller's name or as REJECTED.
\<close>

theorem separate_approver_is_enforced:
  assumes "authorize e i auth d = (Inr (s, why), d')" and "separate_approver e d = (Inr True, d)" and "responses_keyed d"
  shows "\<exists>a row. require_analyst_permission e auth ''response:decide'' d = (Inr a, d) \<and>
    find_by ra_response_id i (response_actions d') = Some row \<and> ra_lifecycle_state row = s \<and>
    ra_requested_by row \<noteq> Some (''analyst:'' @ a) \<and>
    (s = AUTHORIZED \<and> ra_authorized_by row = Some (''analyst:'' @ a) \<or> s = REJECTED)"
proof -
  obtain a u r where p: "require_analyst_permission e auth ''response:decide'' d = (Inr a, d)"
    and b: "authorize_body e i (''analyst:'' @ a) d = (Inr u, d')"
    and f: "find_by ra_response_id i (response_actions d') = Some r" "s = ra_lifecycle_state r"
    using assms(1) by (auto simp: authorize_def bindM_Inr_iff as_analyst_Inr)
  obtain u1 d1 row u2 d2 where 1: "expire_stale_response_actions e d = (Inr u1, d1)"
    and row: "pending d1 i = Some row"
    and 2: "check_approver e i (''analyst:'' @ a) d1 = (Inr u2, d2)"
    and 3: "authorize_response_action e i (''analyst:'' @ a) d2 = (Inr u, d')"
    using b by (auto simp: authorize_body_def bindM_Inr_iff)
  have "work e d d1" using work_decisions(1) 1 by (rule stays_run)
  then have k: "responses_keyed d1" using assms(3) by (simp add: work_def responses_evolve_def)
  have "separate_approver e d1 = (Inr True, d1)"
    using assms(2) separate_approver_reads [of e d True d d1] by simp
  then have d2: "d2 = d1" and req: "ra_requested_by row \<noteq> Some (''analyst:'' @ a)"
    using 2 responses_keyed_find [OF k row] by (auto simp: check_approver_def bindM_Inr)
  obtain g where g: "response_actions d' = update_where (\<lambda>r. ra_response_id r = i) g (response_actions d1)"
    "g = authorized e (''analyst:'' @ a) \<or> (\<exists>why. g = rejected why)"
    using authorize_response_action_Inr [OF 3] row d2 by blast
  have "find_by ra_response_id i (response_actions d') = Some (g row)"
    using g responses_keyed_find [OF k row] pending_SomeD [OF row]
    by (subst g(1), subst find_by_update_where) (auto simp: authorized_def rejected_def)
  then show ?thesis using p f g(2) req by (auto simp: authorized_def rejected_def)
qed


definition demo_analysts :: db where
  "demo_analysts = demo_alerted\<lparr>analyst_credentials := [demo_analyst ''ana'' ''tok'' ''analyst'']\<rparr>"

text \<open>A request of another analyst, about an alert that names no agent.\<close>

definition demo_requested :: db where
  "demo_requested = demo_analysts\<lparr>response_actions :=
    [requested_by ''analyst'' ''analyst:bob'' ''contain'' None ''host-1''
      ((staged_row demo_env ''r1'' ''a2'' ''ISOLATE_HOST'' ''ANALYST_APPROVAL'' PENDING [] None)\<lparr>ra_created_at := now_text demo_env\<rparr>)]\<rparr>"

definition demo_separate_env :: env where
  "demo_separate_env = demo_env\<lparr>environ := (\<lambda>k. Some '' True'')\<rparr>"

lemma demo_separate [simp]:
  "sha256 demo_separate_env = (\<lambda>t. t)" "now demo_separate_env = demo_now" "uuid4 demo_separate_env = uuid4 demo_env"
  by (simp_all add: demo_separate_env_def sha256_demo_env)

lemma demo_separate_permission:
  "require_analyst_permission (demo_env\<lparr>environ := f\<rparr>) = require_analyst_permission demo_env"
  by (simp add: fun_eq_iff require_analyst_permission_def analyst_access_def require_analyst_token_def digest_def)

lemma demo_cutoff: "response_cutoff demo_env < now_text demo_env"
proof -
  let ?t = "plus_delta demo_now (- seconds 900)"
  have m: "86400000000 + 900000000 \<le> micros demo_now" "micros demo_now < 3652059 * 86400000000"
    by (simp_all add: micros_def wall_def toordinal_def days_before_year_def days_before_month_def days_in_month_def
        demo_now_def upt_rec)
  then have "utc ?t" unfolding plus_delta_def by (intro of_micros_utc) simp_all
  moreover have "micros ?t = micros demo_now - 900000000"
    using m micros_plus_delta [of demo_now "- seconds 900"] by simp
  ultimately show ?thesis
    using isoformat_order [OF _ utc_demo_now, of ?t] by (simp add: response_cutoff_def now_text_def)
qed

lemma demo_uncut: "\<not> now_text demo_env \<le> response_cutoff demo_env"
  using demo_cutoff by (simp only: not_le)

lemma demo_separates: "separate_approver demo_separate_env d = (Inr True, d)"
proof -
  have "map lower_char (strip '' True'') = ''true''" by code_simp
  then show ?thesis by (simp add: separate_approver_def demo_separate_env_def)
qed

lemma demo_fresh_audit:
  assumes "command_audit d = []" "response_decision_audit d = []" "response_security_audit d = []"
    "response_artifact_custody d = []" "response_audit_ledger d = []" "triage_items d = []"
    "r \<in> ra_response_id ` set (response_actions d)" "sha256 e = (\<lambda>t. t)"
  shows "\<exists>d'. record_decision e r ev actor detail d = (Inr (), d')"
proof -
  have "audit_inv (sha256 e) d"
    using assms audit_inv_empty [of "\<lambda>t. t"] by (simp add: audit_inv_def audit_inv_at_def keyed_def source_rows_def)
  then show ?thesis using assms by (intro record_decision_runs) auto
qed

lemma demo_authorize:
  "\<exists>d' why. authorize demo_separate_env ''r1'' (Some ''Bearer tok'') demo_requested = (Inr (REJECTED, why), d')"
proof -
  let ?e = demo_separate_env and ?i = "''r1''" and ?actor = "''analyst:ana''"
  define d where "d = demo_requested"
  have perm: "as_analyst ?e (Some ''Bearer tok'') ''response:decide'' d = (Inr ?actor, d)"
    using demo_permission [of d "''ana''" "''tok''" "''analyst''" "''response:decide''"]
    by (simp add: as_analyst_Inr demo_separate_env_def demo_separate_permission d_def demo_requested_def demo_analysts_def py_len_def)
  have cut: "response_cutoff ?e = response_cutoff demo_env" by (simp add: response_cutoff_def)
  obtain row where rows: "response_actions d = [row]" and row: "ra_response_id row = ?i" "ra_lifecycle_state row = PENDING"
    "ra_created_at row = now_text demo_env" "ra_requested_by row = Some ''analyst:bob''" "ra_alert_id row = ''a2''"
    by (simp add: d_def demo_requested_def requested_by_def staged_row_def)
  have ex: "expire_stale_response_actions ?e d = (Inr (), d)"
    using demo_uncut by (simp add: expire_stale_response_actions_def rows row cut)
  have p: "pending d ?i = Some row" by (simp add: pending_def rows row)
  have sep: "separate_approver ?e d = (Inr True, d)" by (rule demo_separates)
  have ck: "check_approver ?e ?i ?actor d = (Inr (), d)"
    using sep by (simp add: check_approver_def bindM_Inr [where m = "separate_approver ?e", OF sep] rows row)
  let ?why = "''originating alert has no agent_id to target''"
  let ?d1 = "set_response (rejected ?why) ?i d"
  have "\<exists>d'. record_decision ?e ?i ''rejected'' ?actor (Some [(''reason'', JStr ?why)]) ?d1 = (Inr (), d')"
    by (rule demo_fresh_audit)
      (simp_all add: set_response_def rejected_def d_def demo_requested_def demo_analysts_def demo_alerted_def demo_fleet_def
        requested_by_def staged_row_def)
  then obtain d' where rj: "reject_row ?e ?i ?actor ?why ?why d = (Inr (), d')" by (auto simp: reject_row_def)
  have "find_by al_alert_id ''a2'' (alerts d) = None"
    by (simp add: d_def demo_requested_def demo_analysts_def demo_alerted_def demo_alert_def)
  then have au: "authorize_response_action ?e ?i ?actor d = (Inr (), d')"
    using rj by (simp add: authorize_response_action_def p row)
  have "authorize_body ?e ?i ?actor d = (Inr (), d')"
    using ex ck au by (simp add: authorize_body_def bindM_Inr p)
  moreover have "response_actions d' = [rejected ?why row]"
    using reject_row_Inr [OF rj] by (simp add: rows row)
  ultimately have "authorize ?e ?i (Some ''Bearer tok'') d = (Inr (REJECTED, Some ?why), d')"
    using perm by (simp add: authorize_def bindM_Inr transaction_def row rejected_def)
  then show ?thesis by (auto simp: d_def)
qed

theorem separate_approver_is_enforced_witness:
  "\<exists>why d' row. authorize demo_separate_env ''r1'' (Some ''Bearer tok'') demo_requested = (Inr (REJECTED, why), d') \<and>
    find_by ra_response_id ''r1'' (response_actions d') = Some row \<and> ra_lifecycle_state row = REJECTED"
proof -
  obtain d' why where r: "authorize demo_separate_env ''r1'' (Some ''Bearer tok'') demo_requested = (Inr (REJECTED, why), d')"
    using demo_authorize by blast
  have "separate_approver demo_separate_env demo_requested = (Inr True, demo_requested)" by (rule demo_separates)
  moreover have "responses_keyed demo_requested" by (simp add: responses_keyed_def demo_requested_def)
  ultimately show ?thesis using separate_approver_is_enforced [OF r] r by blast
qed

section \<open>Retries\<close>

text \<open>The sweeps and the staging of a row leave the retry identities alone.\<close>

definition keys_same :: "db \<Rightarrow> db \<Rightarrow> bool" where
  "keys_same d d' \<longleftrightarrow> response_request_keys d' = response_request_keys d"

interpretation keys_same: blind_frame keys_same
  by unfold_locales (auto simp: keys_same_def audit_onlyD)

lemma keys_same_modify: "(\<And>d. response_request_keys (f d) = response_request_keys d) \<Longrightarrow> stays keys_same (modify f)"
  by (simp add: stays_def keys_same_def)

lemmas keys_same_reads = reads_only [THEN stays_read, of keys_same, OF keys_same.R_refl]
  draws_only_operations [THEN draws_only_stays, THEN keys_same.stays_blind]
  capture_plan_reads [THEN stays_read, of keys_same, OF keys_same.R_refl]

lemma keys_same_operations:
  "stays keys_same (expire_stale_response_actions e)"
  "stays keys_same (expire_stale_commands e now_iso)"
  "stays keys_same (resolve_manual_target e alert_id action target)"
  "stays keys_same (stage_requested e alert_id action tier target reason actor origin agent host)"
  unfolding expire_stale_response_actions_def expire_stale_commands_def stage_requested_def insert_response_action_def
    insert_response_row_def capture_plan_def
  by (intro keys_same.stays_structural keys_same.writers keys_same_reads keys_same_modify stays_splits;
      simp add: decide_pending_def set_command_def set_response_def)+

text \<open>The row a fresh manual request leaves at the end of the table.\<close>

definition manual_row :: "env \<Rightarrow> manual_request \<Rightarrow> string \<Rightarrow> string \<Rightarrow> string \<Rightarrow> staged \<Rightarrow> response_row" where
  "manual_row e q actor agent host s =
    requested_by ''analyst'' actor (mr_reason q) (Some agent) host
      (staged_row e (sg_response_id s) (mr_alert_id q) (mr_action q) ''ANALYST_APPROVAL'' PENDING (sg_target s) (Some (mr_reason q)))"

lemma manual_row_simps [simp]:
  "ra_response_id (manual_row e q actor agent host s) = sg_response_id s"
  "ra_lifecycle_state (manual_row e q actor agent host s) = PENDING"
  "ra_target_json (manual_row e q actor agent host s) = sg_target s"
  "ra_alert_id (manual_row e q actor agent host s) = mr_alert_id q"
  "ra_action (manual_row e q actor agent host s) = mr_action q"
  "ra_requested_by (manual_row e q actor agent host s) = Some actor"
  by (simp_all add: manual_row_def requested_by_def staged_row_def)

lemma stage_fresh_Inr:
  assumes "stage_fresh e q actor d = (Inr s, d')"
  obtains d1 d2 agent host where "keys_same d d1" "work e d d1" "alerts d2 = alerts d1" "commands d' = commands d2"
    "alerts d' = alerts d2"
    "resolve_manual_target e (mr_alert_id q) (mr_action q) (mr_target q) d1 = (Inr (agent, host, sg_target s), d2)"
    "\<not> agent_duplicate d2 agent (mr_action q) (sg_target s)"
    "sg_response_id s \<notin> ra_response_id ` set (response_actions d2)"
    "response_actions d' = response_actions d2 @ [manual_row e q actor agent host s]"
    "sg_lifecycle_state s = PENDING" "\<not> sg_replayed s"
    "\<And>k. mr_request_id q = Some k \<Longrightarrow> \<forall>x\<in>set (response_request_keys d). \<not> (rk_analyst_id x = actor \<and> rk_request_id x = k)"
    "\<And>k. mr_request_id q = Some k \<Longrightarrow> response_request_keys d' = response_request_keys d @ [\<lparr>rk_analyst_id = actor,
       rk_request_id = k, rk_payload_digest = manual_digest e q, rk_response_id = sg_response_id s\<rparr>]"
proof -
  obtain u0 d0 u1 d1 agent host target d2 i d3 u4 where
    0: "expire_stale_response_actions e d = (Inr u0, d0)" and
    1: "expire_stale_commands e (now_text e) d0 = (Inr u1, d1)" and
    2: "resolve_manual_target e (mr_alert_id q) (mr_action q) (mr_target q) d1 = (Inr (agent, host, target), d2)" and
    dup: "\<not> agent_duplicate d2 agent (mr_action q) target" and
    3: "stage_requested e (mr_alert_id q) (mr_action q) ''ANALYST_APPROVAL'' target (mr_reason q) actor ''analyst''
          (Some agent) host d2 = (Inr i, d3)" and
    4: "(case mr_request_id q of None \<Rightarrow> ret () | Some k \<Rightarrow> insert_request_key \<lparr>rk_analyst_id = actor, rk_request_id = k,
          rk_payload_digest = manual_digest e q, rk_response_id = i\<rparr>) d3 = (Inr u4, d')" and
    s: "s = \<lparr>sg_response_id = i, sg_lifecycle_state = PENDING, sg_target = target, sg_replayed = False\<rparr>"
    using assms by (auto simp: stage_fresh_def bindM_Inr_iff)
  have k: "keys_same d d1" "keys_same d1 d3"
    using stays_run [OF keys_same_operations(1) 0] stays_run [OF keys_same_operations(2) 1]
      stays_run [OF keys_same_operations(3) 2] stays_run [OF keys_same_operations(4) 3] keys_same.R_trans by blast+
  have w: "work e d d1"
    using stays_run [OF work_decisions(1) 0] stays_run [OF work_queue_operations(3) 1] work.R_trans by blast
  have al: "alerts d2 = alerts d1"
    using stays_run [OF draws_only_targets(4) 2] by (auto dest!: draws_only_audit_only audit_onlyD(3))
  have r: "response_actions d' = response_actions d3" "commands d' = commands d3" "alerts d' = alerts d3"
    using 4 by (auto simp: insert_request_key_def bindM_Inr_iff split: option.splits)
  note n = stage_requested_Inr [OF 3]
  show thesis
  proof (rule that [OF k(1) w al])
    show "commands d' = commands d2" "alerts d' = alerts d2" using n r by simp_all
    show "sg_response_id s \<notin> ra_response_id ` set (response_actions d2)" using n s by auto
    show "response_actions d' = response_actions d2 @ [manual_row e q actor agent host s]"
      using n r s by (simp add: manual_row_def)
    show "\<forall>x\<in>set (response_request_keys d). \<not> (rk_analyst_id x = actor \<and> rk_request_id x = k)"
      "response_request_keys d' = response_request_keys d @ [\<lparr>rk_analyst_id = actor,
       rk_request_id = k, rk_payload_digest = manual_digest e q, rk_response_id = sg_response_id s\<rparr>]"
      if "mr_request_id q = Some k" for k
      using 4 that k s by (auto simp: insert_request_key_def bindM_Inr_iff keys_same_def)
  qed (use 2 dup n s in simp_all)
qed

lemma find_append_new:
  "(\<forall>x\<in>set xs. \<not> P x) \<Longrightarrow> P y \<Longrightarrow> List.find P (xs @ [y]) = Some y"
  by (induction xs) auto

lemma find_by_append_new:
  "key r \<notin> key ` set xs \<Longrightarrow> find_by key (key r) (xs @ [r]) = Some r"
  unfolding find_by_def by (rule find_append_new) (auto simp: image_iff)

lemma create_manual_Inr:
  "create_manual e body auth d = (Inr s, d') \<longleftrightarrow>
    (\<exists>q a. parse_manual e body = Some q \<and> require_analyst_permission e auth ''response:request'' d = (Inr a, d) \<and>
      stage_manual_request e q (''analyst:'' @ a) d = (Inr s, d'))"
  by (auto simp: create_manual_def bindM_Inr_iff as_analyst_Inr)


lemma permission_from_credentials:
  assumes "require_analyst_permission e auth p d = (Inr a, d)" and "analyst_credentials d' = analyst_credentials d"
  shows "require_analyst_permission e auth p d' = (Inr a, d')"
  using assms
  by (auto simp: require_analyst_permission_def analyst_access_def require_analyst_token_def bindM_Inr_iff)

text \<open>
  C29. A manual request with a retry identity takes effect once. Sent again to the state it left, the same
  body returns the same response and changes nothing; another content under the same identity is refused
  with 409, again without a change.
\<close>

theorem manual_request_takes_effect_once:
  assumes "create_manual e body auth d = (Inr s, d')" and "parse_manual e body = Some q" and "mr_request_id q = Some k"
    and "parse_manual e other = Some q'" and "mr_request_id q' = Some k"
  shows "create_manual e other auth d' =
    (if manual_digest e q' = manual_digest e q then Inr (s\<lparr>sg_replayed := True\<rparr>)
     else Inl (HTTPException 409 ''request_id is already bound to a different request''), d')"
proof -
  obtain a where a: "require_analyst_permission e auth ''response:request'' d = (Inr a, d)"
    and st: "stage_manual_request e q (''analyst:'' @ a) d = (Inr s, d')"
    using assms(1,2) by (auto simp: create_manual_Inr)
  let ?actor = "''analyst:'' @ a"
  have "foreground d d'" using foreground_stage_manual_request st by (rule stays_run)
  then have a': "require_analyst_permission e auth ''response:request'' d' = (Inr a, d')"
    using permission_from_credentials [OF a] by (simp add: foreground_def background_def)
  have "\<exists>kr ra. prior_request d' ?actor k = Some (kr, ra) \<and> rk_payload_digest kr = manual_digest e q \<and>
      s\<lparr>sg_replayed := True\<rparr> = \<lparr>sg_response_id = ra_response_id ra, sg_lifecycle_state = ra_lifecycle_state ra,
        sg_target = ra_target_json ra, sg_replayed = True\<rparr>"
  proof (cases "prior_request d ?actor k")
    case (Some p)
    then obtain kr ra where p: "p = (kr, ra)" by fastforce
    then show ?thesis using st Some assms(3) by (auto simp: stage_manual_request_def bindM_Inr_iff)
  next
    case None
    then have f: "stage_fresh e q ?actor d = (Inr s, d')" using st assms(3) by (simp add: stage_manual_request_def)
    let ?key = "\<lparr>rk_analyst_id = ?actor, rk_request_id = k, rk_payload_digest = manual_digest e q, rk_response_id = sg_response_id s\<rparr>"
    show ?thesis
    proof (rule stage_fresh_Inr [OF f])
      fix d2 agent host
      let ?row = "manual_row e q ?actor agent host s"
      assume new: "sg_response_id s \<notin> ra_response_id ` set (response_actions d2)"
          "response_actions d' = response_actions d2 @ [?row]" and sg: "sg_lifecycle_state s = PENDING"
        and k: "\<And>k. mr_request_id q = Some k \<Longrightarrow> \<forall>x\<in>set (response_request_keys d). \<not> (rk_analyst_id x = ?actor \<and> rk_request_id x = k)"
          "\<And>k. mr_request_id q = Some k \<Longrightarrow> response_request_keys d' = response_request_keys d @ [\<lparr>rk_analyst_id = ?actor,
            rk_request_id = k, rk_payload_digest = manual_digest e q, rk_response_id = sg_response_id s\<rparr>]"
      have "List.find (\<lambda>x. rk_analyst_id x = ?actor \<and> rk_request_id x = k) (response_request_keys d') = Some ?key"
        unfolding k(2) [OF assms(3)] using k(1) [OF assms(3)] by (intro find_append_new) auto
      moreover have "find_by ra_response_id (sg_response_id s) (response_actions d') = Some ?row"
        using find_by_append_new [of ra_response_id ?row "response_actions d2"] new by simp
      ultimately have "prior_request d' ?actor k = Some (?key, ?row)" by (simp add: prior_request_def)
      then show ?thesis using sg by (cases s) auto
    qed
  qed
  then obtain kr ra where p: "prior_request d' ?actor k = Some (kr, ra)" "rk_payload_digest kr = manual_digest e q"
    "s\<lparr>sg_replayed := True\<rparr> = \<lparr>sg_response_id = ra_response_id ra, sg_lifecycle_state = ra_lifecycle_state ra,
        sg_target = ra_target_json ra, sg_replayed = True\<rparr>" by blast
  have "stage_manual_request e q' ?actor d' = (if manual_digest e q' = manual_digest e q then Inr (s\<lparr>sg_replayed := True\<rparr>)
     else Inl (HTTPException 409 ''request_id is already bound to a different request''), d')"
    using p assms(5) by (simp add: stage_manual_request_def bindM_raise_if)
  then show ?thesis
    using assms(4) a' by (simp add: create_manual_def as_analyst_def bindM_Inr transaction_def)
qed

definition demo_body :: jobj where
  "demo_body = [(''reason'', JStr ''contain''), (''alert_id'', JStr ''a1''), (''action'', JStr ''ISOLATE_HOST''),
    (''request_id'', JStr ''k1'')]"

definition demo_manual :: manual_request where
  "demo_manual = \<lparr>mr_reason = ''contain'', mr_alert_id = ''a1'', mr_action = ''ISOLATE_HOST'', mr_target = [],
    mr_request_id = Some ''k1''\<rparr>"

lemma demo_parse: "parse_manual demo_plain_env demo_body = Some demo_manual"
proof -
  have "strip ''contain'' = ''contain''" "id_text ''k1''" by code_simp+
  then show ?thesis
    by (simp add: parse_manual_def demo_body_def demo_manual_def only_keys_def reason_field_def text_field_def len_between_def
        py_len_def target_field_def request_id_field_def demo_plain_env_def jget_def)
qed

lemma demo_create:
  "\<exists>s d'. create_manual demo_plain_env demo_body (Some ''Bearer tok'') demo_analysts = (Inr s, d')"
proof -
  let ?e = demo_plain_env and ?actor = "''analyst:ana''"
  define d where "d = demo_analysts"
  define d1 where "d1 = d\<lparr>draws := draws d + 1\<rparr>"
  have tables: "response_actions d = []" "commands d = []" "response_request_keys d = []" "triage_items d = []"
    "alerts d = [demo_alert ''a1'']" "enrolled_agents d = enrolled_agents demo_fleet" "command_audit d = []"
    "response_decision_audit d = []" "response_security_audit d = []" "response_artifact_custody d = []"
    "response_audit_ledger d = []" "analyst_credentials d = [demo_analyst ''ana'' ''tok'' ''analyst'']"
    by (simp_all add: d_def demo_analysts_def demo_alerted_def demo_fleet_def)
  have perm: "as_analyst ?e (Some ''Bearer tok'') ''response:request'' d = (Inr ?actor, d)"
    using demo_permission [of d "''ana''" "''tok''" "''analyst''" "''response:request''"]
    by (simp add: as_analyst_Inr demo_plain_env_def demo_separate_permission tables py_len_def)
  have b: "bound_alert d ''a1'' = Some (demo_alert ''a1'', demo_agent ''agent-1'' ''host-1'' ''tok'')"
    by (simp add: bound_alert_def demo_alert_def active_agent_def demo_fleet_def demo_agent_def tables)
  have res: "resolve_manual_target ?e ''a1'' ''ISOLATE_HOST'' [] d = (Inr (''agent-1'', ''host-1'', []), d1)"
    by (simp add: resolve_manual_target_def b demo_alert_def demo_agent_def Let_def check_context_def process_target_def
        demo_plain_env_def d1_def)
  let ?i = "uuid4 ?e (draws d1)"
  define d2 where "d2 = d1\<lparr>draws := draws d1 + 1, response_actions :=
    [staged_row ?e ?i ''a1'' ''ISOLATE_HOST'' ''ANALYST_APPROVAL'' PENDING [] (Some ''contain'')]\<rparr>"
  have ins: "insert_response_row (staged_row ?e ?i ''a1'' ''ISOLATE_HOST'' ''ANALYST_APPROVAL'' PENDING [] (Some ''contain''))
      (d1\<lparr>draws := draws d1 + 1\<rparr>) = (Inr (), d2)"
    by (simp add: insert_response_row_def bindM_raise_if tables d1_def d2_def staged_row_def demo_alert_def)
  have "\<exists>d3. record_decision ?e ?i ''staged'' ?actor (Some [(''state'', JStr ''PENDING''),
      (''action'', JStr ''ISOLATE_HOST''), (''reason'', JStr ''contain'')]) d2 = (Inr (), d3)"
    by (rule demo_fresh_audit) (simp_all add: d2_def d1_def tables staged_row_def)
  then obtain d3 where dec: "record_decision ?e ?i ''staged'' ?actor (Some [(''state'', JStr ''PENDING''),
      (''action'', JStr ''ISOLATE_HOST''), (''reason'', JStr ''contain'')]) d2 = (Inr (), d3)"
    by blast
  have "audit_only d2 d3" using audit_only_writers(6) dec by (rule stays_run)
  then have d3: "response_actions d3 = [staged_row ?e ?i ''a1'' ''ISOLATE_HOST'' ''ANALYST_APPROVAL'' PENDING [] (Some ''contain'')]"
      "response_request_keys d3 = []" "alerts d3 = [demo_alert ''a1'']"
    using audit_onlyD(2,3,9) by (fastforce simp: d2_def d1_def tables)+
  have cap: "capture_plan ?e ?i ?actor d3 = (Inr (), d3)"
    by (simp add: capture_plan_def d3 staged_row_def demo_alert_def demo_plain_env_def)
  have "insert_response_action ?e ''a1'' ''ISOLATE_HOST'' ''ANALYST_APPROVAL'' PENDING [] (Some ''contain'') ?actor d1 = (Inr ?i, d3)"
    using ins dec cap by (simp add: insert_response_action_def bindM_Inr jopt_def)
  then have "\<exists>d4. stage_requested ?e ''a1'' ''ISOLATE_HOST'' ''ANALYST_APPROVAL'' [] ''contain'' ?actor ''analyst''
      (Some ''agent-1'') ''host-1'' d1 = (Inr ?i, d4) \<and> response_request_keys d4 = [] \<and> ?i \<in> ra_response_id ` set (response_actions d4)"
    by (simp add: stage_requested_def bindM_Inr d3 set_response_def requested_by_def staged_row_def)
  then obtain d4 where sr: "stage_requested ?e ''a1'' ''ISOLATE_HOST'' ''ANALYST_APPROVAL'' [] ''contain'' ?actor ''analyst''
      (Some ''agent-1'') ''host-1'' d1 = (Inr ?i, d4)" "response_request_keys d4 = []" "?i \<in> ra_response_id ` set (response_actions d4)"
    by blast
  have sweep: "expire_stale_response_actions ?e d = (Inr (), d)" "expire_stale_commands ?e (now_text ?e) d = (Inr (), d)"
    by (simp_all add: expire_stale_response_actions_def expire_stale_commands_def stale_commands_def tables)
  have dup: "find_open_duplicate ?e d1 (Some ''host-1'') ''ISOLATE_HOST'' [] = None" "\<not> agent_duplicate d1 ''agent-1'' ''ISOLATE_HOST'' []"
    by (simp_all add: find_open_duplicate_def agent_duplicate_def d1_def tables order_by_def)
  have "\<exists>s d'. stage_fresh ?e demo_manual ?actor d = (Inr s, d')"
    using sweep res dup sr
    by (simp add: stage_fresh_def bindM_Inr demo_manual_def insert_request_key_def bindM_raise_if)
  then have "\<exists>s d'. stage_manual_request ?e demo_manual ?actor d = (Inr s, d')"
    by (simp add: stage_manual_request_def prior_request_def tables demo_manual_def)
  then show ?thesis
    using perm demo_parse by (fastforce simp: create_manual_def bindM_Inr d_def [symmetric])
qed

theorem manual_request_takes_effect_once_witness:
  "\<exists>s d'. create_manual demo_plain_env demo_body (Some ''Bearer tok'') demo_analysts = (Inr s, d') \<and>
     create_manual demo_plain_env demo_body (Some ''Bearer tok'') d' = (Inr (s\<lparr>sg_replayed := True\<rparr>), d')"
proof -
  obtain s d' where r: "create_manual demo_plain_env demo_body (Some ''Bearer tok'') demo_analysts = (Inr s, d')"
    using demo_create by blast
  then show ?thesis
    using manual_request_takes_effect_once [OF r demo_parse _ demo_parse] by (simp add: demo_manual_def)
qed

section \<open>Campaigns\<close>

lemma campaign_item_Inr:
  assumes "campaign_item e q actor index item d = (Inr report, d')"
  shows "jget ''index'' report = JInt (int index) \<and> jget ''alert_id'' report = JStr (mr_alert_id item) \<and>
    jget ''action'' report = JStr (mr_action item)"
proof -
  let ?r = "[(''index'', JInt (int index)), (''alert_id'', JStr (mr_alert_id item)), (''action'', JStr (mr_action item))]"
  obtain outcome d1 where "(case outcome of
       Inr result \<Rightarrow> ret (jset ''status_code'' (JInt 201) (jupdate ?r (staged_json result)))
     | Inl (code, detail) \<Rightarrow> ret (jupdate ?r [(''status_code'', JInt code), (''error'', JStr detail)])) d1 = (Inr report, d')"
    using assms unfolding campaign_item_def Let_def bindM_Inr_iff by blast
  then show ?thesis
    by (cases outcome) (auto simp: staged_json_def jupdate_def jget_def split: if_splits)
qed

lemma campaign_items_Inr:
  assumes "campaign_items e q actor n items d = (Inr reports, d')"
  shows "length reports = length items \<and> (\<forall>i<length items. jget ''index'' (reports ! i) = JInt (int (n + i)) \<and>
    jget ''alert_id'' (reports ! i) = JStr (mr_alert_id (items ! i)) \<and>
    jget ''action'' (reports ! i) = JStr (mr_action (items ! i)))"
  using assms
proof (induction items arbitrary: n d reports)
  case Nil
  then show ?case by simp
next
  case (Cons item items)
  then obtain r d1 rs where 1: "campaign_item e q actor n item d = (Inr r, d1)"
    and 2: "campaign_items e q actor (Suc n) items d1 = (Inr rs, d')" and rs: "reports = r # rs"
    by (auto simp: bindM_Inr_iff)
  show ?case
    using campaign_item_Inr [OF 1] Cons.IH [OF 2] rs by (auto simp: nth_Cons split: nat.splits)
qed

lemma parse_campaign_bounds:
  assumes "parse_campaign e body = Some q"
  shows "1 \<le> length (cq_items q) \<and> length (cq_items q) \<le> max_campaign_actions e"
proof -
  have "length ys = length xs" if "those xs = Some ys" for xs :: "'a option list" and ys
    using that by (induction xs arbitrary: ys) (auto split: option.splits)
  then show ?thesis
    using assms by (fastforce simp: parse_campaign_def parse_items_def split: if_splits option.splits json.splits)
qed

text \<open>
  C30. A new campaign reports every item exactly once and in order, under the number, alert and action of
  the request; it has between 1 and the maximum number of items, and its counts of created and failed
  items add up to them.
\<close>

theorem campaign_accounts_for_every_item:
  assumes "create_campaign e body auth d = (Inr (JObj report), d')" and "jget ''replayed'' report = JBool False"
  shows "\<exists>q items c f. parse_campaign e body = Some q \<and> jget ''items'' report = JArr (map JObj items) \<and>
    length items = length (cq_items q) \<and> 1 \<le> length items \<and> length items \<le> max_campaign_actions e \<and>
    jget ''created_count'' report = JInt c \<and> jget ''failed_count'' report = JInt f \<and> 0 \<le> c \<and> 0 \<le> f \<and>
    c + f = int (length items) \<and>
    (\<forall>i<length items. jget ''index'' (items ! i) = JInt (int i) \<and>
      jget ''alert_id'' (items ! i) = JStr (mr_alert_id (cq_items q ! i)) \<and>
      jget ''action'' (items ! i) = JStr (mr_action (cq_items q ! i)))"
proof -
  obtain q actor where q: "parse_campaign e body = Some q" and r: "run_campaign e q actor d = (Inr (JObj report), d')"
    using assms(1) by (auto simp: create_campaign_def bindM_Inr_iff as_analyst_Inr)
  have jset: "jget ''replayed'' (jset ''replayed'' v o') = v" for v o'
    by (induction o') (auto simp: jget_def)
  then have "prior_campaign d actor (cq_campaign_id q) = None"
    using r assms(2) by (auto simp: run_campaign_def bindM_Inr_iff split: option.splits json.splits)
  then obtain items d1 where 1: "campaign_items e q actor 0 (cq_items q) d = (Inr items, d1)"
    and rep: "report = campaign_report e q actor items"
    using r by (auto simp: run_campaign_def bindM_Inr_iff Let_def)
  have "int (length (filter created_item items)) + int (length (filter (\<lambda>i. \<not> created_item i) items)) = int (length items)"
    using sum_length_filter_compl [of created_item items] by linarith
  then show ?thesis
    using q campaign_items_Inr [OF 1] parse_campaign_bounds [OF q] unfolding rep
    by (intro exI [of _ q] exI [of _ items]) (simp add: campaign_report_def jget_def)
qed

definition demo_campaign :: jobj where
  "demo_campaign = [(''campaign_id'', JStr ''c1''), (''items'', JArr [JObj [(''reason'', JStr ''contain''),
    (''alert_id'', JStr ''gone''), (''action'', JStr ''ISOLATE_HOST'')]])]"

definition demo_campaign_request :: campaign_request where
  "demo_campaign_request = \<lparr>cq_campaign_id = ''c1'', cq_items = [\<lparr>mr_reason = ''contain'', mr_alert_id = ''gone'',
    mr_action = ''ISOLATE_HOST'', mr_target = [], mr_request_id = None\<rparr>]\<rparr>"

lemma demo_parse_campaign: "parse_campaign demo_plain_env demo_campaign = Some demo_campaign_request"
proof -
  have "strip ''contain'' = ''contain''" "id_text ''c1''" by code_simp+
  then show ?thesis
    by (simp add: parse_campaign_def parse_items_def parse_manual_def demo_campaign_def demo_campaign_request_def only_keys_def
        reason_field_def text_field_def len_between_def py_len_def target_field_def request_id_field_def demo_plain_env_def
        jget_def)
qed

lemma demo_create_campaign:
  "\<exists>report d'. create_campaign demo_plain_env demo_campaign (Some ''Bearer tok'') demo_analysts = (Inr (JObj report), d') \<and>
    jget ''replayed'' report = JBool False"
proof -
  let ?e = demo_plain_env and ?actor = "''analyst:ana''" and ?q = demo_campaign_request
  define d where "d = demo_analysts"
  have tables: "response_actions d = []" "commands d = []" "response_request_keys d = []" "response_campaigns d = []"
    "alerts d = [demo_alert ''a1'']" "analyst_credentials d = [demo_analyst ''ana'' ''tok'' ''analyst'']"
    by (simp_all add: d_def demo_analysts_def demo_alerted_def demo_fleet_def)
  have perm: "as_analyst ?e (Some ''Bearer tok'') ''response:request'' d = (Inr ?actor, d)"
    using demo_permission [of d "''ana''" "''tok''" "''analyst''" "''response:request''"]
    by (simp add: as_analyst_Inr demo_plain_env_def demo_separate_permission tables py_len_def)
  have sweep: "expire_stale_response_actions ?e d = (Inr (), d)" "expire_stale_commands ?e (now_text ?e) d = (Inr (), d)"
    by (simp_all add: expire_stale_response_actions_def expire_stale_commands_def stale_commands_def tables)
  have res: "resolve_manual_target ?e ''gone'' ''ISOLATE_HOST'' [] d =
      (Inl (HTTPException 422 ''alert must belong to an actively enrolled endpoint''), d)"
    by (simp add: resolve_manual_target_def bound_alert_def tables demo_alert_def)
  have "stage_manual_request ?e ((cq_items ?q ! 0)\<lparr>mr_request_id := Some k\<rparr>) ?actor d =
      (Inl (HTTPException 422 ''alert must belong to an actively enrolled endpoint''), d)" for k
    using sweep res
    by (simp add: stage_manual_request_def prior_request_def tables stage_fresh_def demo_campaign_request_def bindM_Inr bindM_Inl)
  then have "\<exists>r. campaign_item ?e ?q ?actor 0 (cq_items ?q ! 0) d = (Inr r, d)"
    by (simp add: campaign_item_def Let_def bindM_def transaction_def catch_http_def)
  then obtain r where "campaign_items ?e ?q ?actor 0 (cq_items ?q) d = (Inr [r], d)"
    by (auto simp: demo_campaign_request_def bindM_Inr)
  then have "\<exists>d'. run_campaign ?e ?q ?actor d = (Inr (JObj (campaign_report ?e ?q ?actor [r])), d')"
    by (simp add: run_campaign_def prior_campaign_def tables bindM_Inr Let_def insert_campaign_def)
  then have "\<exists>d'. create_campaign ?e demo_campaign (Some ''Bearer tok'') d =
      (Inr (JObj (campaign_report ?e ?q ?actor [r])), d')"
    using perm demo_parse_campaign by (auto simp: create_campaign_def bindM_Inr)
  then show ?thesis by (auto simp: d_def campaign_report_def jget_def)
qed

theorem campaign_accounts_for_every_item_witness:
  "\<exists>report d' items. create_campaign demo_plain_env demo_campaign (Some ''Bearer tok'') demo_analysts = (Inr (JObj report), d') \<and>
    jget ''items'' report = JArr (map JObj items) \<and> length items = 1"
proof -
  obtain report d' where r: "create_campaign demo_plain_env demo_campaign (Some ''Bearer tok'') demo_analysts = (Inr (JObj report), d')"
    "jget ''replayed'' report = JBool False" using demo_create_campaign by blast
  show ?thesis
    using campaign_accounts_for_every_item [OF r] r(1) demo_parse_campaign by (auto simp: demo_campaign_request_def)
qed

section \<open>Duplicates and sweeps\<close>

text \<open>
  An open response is not asked for twice. When a manual request stages a new response, no other response of
  the same agent with the same action and an equal target is pending or in flight.
\<close>

lemma no_open_twin_of_manual_request:
  assumes "create_manual e body auth d = (Inr s, d')" and "\<not> sg_replayed s"
  shows "\<exists>q agent row. parse_manual e body = Some q \<and> row \<in> set (response_actions d') \<and> ra_response_id row = sg_response_id s \<and>
    ra_lifecycle_state row = PENDING \<and> ra_requested_agent_id row = Some agent \<and>
    (\<forall>other\<in>set (response_actions d'). ra_response_id other \<noteq> sg_response_id s \<and> ra_action other = mr_action q \<and>
       py_eq (JObj (ra_target_json other)) (JObj (sg_target s)) \<and>
       (\<exists>a\<in>set (alerts d'). al_alert_id a = ra_alert_id other \<and> al_agent_id a = Some agent) \<longrightarrow>
       ra_lifecycle_state other \<noteq> PENDING \<and>
       (ra_lifecycle_state other = AUTHORIZED \<longrightarrow>
         (\<forall>c. command_of d' other = Some c \<longrightarrow> cm_lifecycle_state c \<notin> {AUTHORIZED, DISPATCHED, ACCEPTED})))"
proof -
  obtain q a where q: "parse_manual e body = Some q"
    and st: "stage_manual_request e q (''analyst:'' @ a) d = (Inr s, d')"
    using assms(1) by (auto simp: create_manual_Inr)
  then have f: "stage_fresh e q (''analyst:'' @ a) d = (Inr s, d')"
    using assms(2) by (auto simp: stage_manual_request_def bindM_Inr_iff split: option.splits)
  show ?thesis
  proof (rule stage_fresh_Inr [OF f])
    fix d2 :: db and agent host
    let ?row = "manual_row e q (''analyst:'' @ a) agent host s"
    assume k: "commands d' = commands d2" "alerts d' = alerts d2" "\<not> agent_duplicate d2 agent (mr_action q) (sg_target s)"
      "response_actions d' = response_actions d2 @ [?row]"
    have "ra_requested_agent_id ?row = Some agent" by (simp add: manual_row_def requested_by_def)
    moreover have "command_of d' r = command_of d2 r" for r using k(1) by (simp add: command_of_def split: option.split)
    ultimately show ?thesis
      using q k by (intro exI [of _ q] exI [of _ agent] exI [of _ ?row]) (auto simp: agent_duplicate_def split: option.splits)
  qed
qed

lemma no_open_twin_of_manual_request_witness:
  "\<exists>s d' row. create_manual demo_plain_env demo_body (Some ''Bearer tok'') demo_analysts = (Inr s, d') \<and>
     row \<in> set (response_actions d') \<and> ra_response_id row = sg_response_id s \<and> ra_lifecycle_state row = PENDING"
proof -
  obtain s d' where r: "create_manual demo_plain_env demo_body (Some ''Bearer tok'') demo_analysts = (Inr s, d')"
    using demo_create by blast
  have "\<not> sg_replayed s"
    using r by (auto simp: create_manual_Inr stage_manual_request_def prior_request_def demo_analysts_def demo_alerted_def
        demo_fleet_def stage_fresh_def bindM_Inr_iff split: option.splits)
  then show ?thesis using no_open_twin_of_manual_request [OF r] r by blast
qed

lemma decide_loop_Inr:
  assumes "\<And>r. ra_response_id (f r) = ra_response_id r" and "\<And>r. ra_lifecycle_state (f r) \<noteq> PENDING"
    and "\<And>i. stays audit_only (w i)"
    and "forM (\<lambda>i. seqM (modify (decide_pending f i)) (w i)) ids d = (Inr u, d')"
  shows "response_actions d' = map (\<lambda>r. if ra_response_id r \<in> set ids \<and> ra_lifecycle_state r = PENDING then f r else r) (response_actions d)"
proof -
  define step where "step = (\<lambda>i. seqM (modify (decide_pending f i)) (w i))"
  have step: "step i d = w i (decide_pending f i d)" for i d by (simp add: step_def)
  have "response_actions d' = map (\<lambda>r. if ra_response_id r \<in> set ids \<and> ra_lifecycle_state r = PENDING then f r else r) (response_actions d)"
    if "forM step ids d = (Inr u, d')" for d
    using that
  proof (induction ids arbitrary: d)
    case (Cons i ids)
    obtain v d1 where w: "w i (decide_pending f i d) = (Inr v, d1)" and r: "forM step ids d1 = (Inr u, d')"
      using Cons.prems step [of i d] by (auto simp: bindM_Inr_iff)
    have "response_actions d1 = response_actions (decide_pending f i d)" using audit_onlyD(2) [OF stays_run [OF assms(3) w]] .
    then show ?case
      using Cons.IH [OF r] assms(1,2) by (auto simp: decide_pending_def update_where_def)
  qed simp
  then show ?thesis using assms(4) by (simp only: step_def)
qed

lemma expire_stale_response_actions_Inr:
  assumes "expire_stale_response_actions e d = (Inr u, d')" and "r \<in> set (response_actions d')"
    and "ra_lifecycle_state r = PENDING"
  shows "r \<in> set (response_actions d) \<and> response_cutoff e < ra_created_at r"
proof -
  let ?f = "\<lambda>r. r\<lparr>ra_lifecycle_state := EXPIRED, ra_decided_reason := Some ''no analyst decision within the authorization window''\<rparr>"
  let ?ids = "map ra_response_id (filter (\<lambda>r. ra_lifecycle_state r = PENDING \<and> ra_created_at r \<le> response_cutoff e) (response_actions d))"
  have "response_actions d' = map (\<lambda>r. if ra_response_id r \<in> set ?ids \<and> ra_lifecycle_state r = PENDING then ?f r else r) (response_actions d)"
    using assms(1) unfolding expire_stale_response_actions_def bindM_gets
    by (rule decide_loop_Inr [rotated 3]) (auto intro: audit_only_writers)
  then show ?thesis using assms(2,3) by (auto split: if_splits)
qed

definition commands_same :: "db \<Rightarrow> db \<Rightarrow> bool" where
  "commands_same d d' \<longleftrightarrow> commands d' = commands d"

interpretation commands_same: blind_frame commands_same
  by unfold_locales (auto simp: commands_same_def audit_onlyD)

lemma commands_same_expiry: "stays commands_same (expire_stale_response_actions e)"
proof -
  have "stays commands_same (modify (decide_pending f i))" for f i
    by (simp add: stays_def commands_same_def decide_pending_def)
  then show ?thesis
    unfolding expire_stale_response_actions_def by (intro commands_same.stays_structural commands_same.writers)
qed

text \<open>
  After the sweep that precedes every read, no pending response is older than the authorization window and no open
  command is past its expiry text; what the sweep touches is expired, never decided otherwise.
\<close>

lemma sweep_leaves_nothing_stale:
  assumes "expire_pending e d = (Inr u, d')" and "commands_keyed d"
  shows "(\<forall>r\<in>set (response_actions d'). ra_lifecycle_state r = PENDING \<longrightarrow> response_cutoff e < ra_created_at r) \<and>
    commands d' = map (\<lambda>c. if cm_lifecycle_state c \<in> OPEN_STATES \<and> cm_expires_at c \<le> now_text e
      then c\<lparr>cm_lifecycle_state := EXPIRED\<rparr> else c) (commands d)"
proof -
  obtain u1 d1 where 1: "expire_stale_response_actions e d = (Inr u1, d1)" and 2: "expire_stale_commands e (now_text e) d1 = (Inr u, d')"
    using assms(1) by (auto simp: expire_pending_def bindM_Inr_iff)
  have "response_actions d' = response_actions d1"
    using stays_run [OF responses_same_queue(3) 2] by (simp add: responses_same_def)
  moreover have c: "commands d1 = commands d" using stays_run [OF commands_same_expiry 1] by (simp add: commands_same_def)
  moreover have "commands_keyed d1" using assms(2) c by (simp add: commands_keyed_def)
  ultimately show ?thesis
    using expire_stale_response_actions_Inr [OF 1] expire_stale_commands_Inr [OF 2] by (simp add: stale_def)
qed

lemma sweep_leaves_nothing_stale_witness:
  "\<exists>d'. expire_pending demo_env demo_requested = (Inr (), d') \<and> commands d' = [] \<and>
    (\<forall>r\<in>set (response_actions d'). ra_lifecycle_state r = PENDING \<longrightarrow> response_cutoff demo_env < ra_created_at r)"
proof -
  have "expire_stale_response_actions demo_env demo_requested = (Inr (), demo_requested)"
    using demo_uncut by (simp add: expire_stale_response_actions_def demo_requested_def requested_by_def staged_row_def)
  moreover have "expire_stale_commands demo_env (now_text demo_env) demo_requested = (Inr (), demo_requested)"
    by (simp add: expire_stale_commands_def stale_commands_def demo_requested_def demo_analysts_def demo_alerted_def demo_fleet_def)
  ultimately have r: "expire_pending demo_env demo_requested = (Inr (), demo_requested)"
    by (simp add: expire_pending_def transaction_def bindM_Inr)
  have k: "commands demo_requested = []" by (simp add: demo_requested_def demo_analysts_def demo_alerted_def demo_fleet_def)
  then show ?thesis using sweep_leaves_nothing_stale [OF r] r by (simp add: commands_keyed_def)
qed

end
