(* ===== verification/Automatic.thy ===== *)
theory Automatic
  imports Decisions
begin

text \<open>
  What handling a new alert guarantees: it never raises, it is kept whole or not at all, and the only responses it
  authorizes on its own are of the safe tier.
\<close>

section \<open>New alerts\<close>

text \<open>
  Handling a new alert never raises, whatever the alert and the state: either everything the response engine did for it
  is kept, or nothing is.
\<close>

lemma alert_handling_never_raises:
  "\<exists>d'. on_alert_created e rec d = (Inr (), d') \<and>
    (on_alert_created_body e rec d = (Inr (), d') \<or> ((\<exists>x d''. on_alert_created_body e rec d = (Inl x, d'')) \<and> d' = d))"
  by (cases "on_alert_created_body e rec d"; cases "fst (on_alert_created_body e rec d)")
    (auto simp: on_alert_created_def tryM_def transaction_def)

section \<open>Deciding on one response\<close>

text \<open>
  The interface between a contract of the response table and the code that authorizes or rejects one response \<open>i\<close>: a contract
  that lets the row of \<open>i\<close> be decided, and that does not look at the other tables, is kept by the whole authorization.
\<close>

locale decider = blind_frame R for R :: "db \<Rightarrow> db \<Rightarrow> bool" +
  fixes e :: env and i :: string
  assumes beside: "responses_same d d' \<Longrightarrow> R d d'"
    and rejects: "stays R (modify (set_response (rejected why) i))"
    and authorizes: "stays R (modify (set_response (authorized e actor) i))"
    and withdraws: "stays R (modify (decide_pending (rejected why) i))"
begin

lemma stays_beside: "stays responses_same m \<Longrightarrow> stays R m"
  by (auto simp: stays_def intro: beside)

lemma stays_authorize_response_action: "stays R (authorize_response_action e i actor)"
proof (rule staysI)
  fix d
  show "R d (snd (authorize_response_action e i actor d))"
  proof (cases "pending d i")
    case None
    then show ?thesis by (simp add: authorize_response_action_def R_refl)
  next
    case (Some row)
    then have id: "ra_response_id row = i" using pending_SomeD by blast
    have mark: "stays R (mark_authorized e row actor)"
      unfolding mark_authorized_def id by (intro stays_structural authorizes)
    have "stays R (enqueue_response e row agent actor)" for agent
      unfolding enqueue_response_def
      by (intro stays_structural writers stays_beside [OF responses_same_queue(1)] mark deadline_reads [THEN stays_read] R_refl)
    moreover have "stays R (reject_row e i actor why msg)" for why msg
      unfolding reject_row_def by (intro stays_structural writers rejects)
    moreover note draws_only_check_requested [THEN draws_only_stays, THEN stays_blind]
      draws_only_detection_target_changed [THEN draws_only_stays, THEN stays_blind]
    ultimately have "stays R (case (alert, (case alert of None \<Rightarrow> None | Some a \<Rightarrow> al_agent_id a)) of
         (Some a, Some agent) \<Rightarrow>
           seqM (check_requested e row)
           (bindM (if ra_origin row \<notin> {''analyst'', ''auto_triage''} \<and> has_key ''boot_id'' (ra_target_json row)
                   then detection_target_changed e row a agent else ret False) (\<lambda>changed.
           if changed
           then reject_row e i actor ''canonical target or enrolled host changed before authorization''
                  ''canonical target or enrolled host changed''
           else enqueue_response e row agent actor))
       | _ \<Rightarrow> reject_row e i actor ''originating alert has no agent_id to target''
                ''originating alert has no agent_id to target'')" for alert
      by (intro stays_structural stays_splits)
    from staysD [OF this] show ?thesis by (simp add: authorize_response_action_def Some)
  qed
qed

lemma stays_auto_authorize: "stays R (auto_authorize e i)"
  unfolding auto_authorize_def
  by (intro stays_structural writers withdraws stays_authorize_response_action stays_splits)

end

section \<open>What an alert may authorize\<close>

text \<open>
  A row that may be authorized without an analyst: its tier is \<open>AUTO_SAFE\<close>, and when the response engine staged it,
  that is how the vendored policy classifies its action.
\<close>

definition automatic :: "env \<Rightarrow> response_row \<Rightarrow> bool" where
  "automatic e r \<longleftrightarrow> ra_tier r = ''AUTO_SAFE'' \<and> (ra_origin r = ''detection'' \<longrightarrow> classify_tier e (ra_action r) = ''AUTO_SAFE'')"

definition only_automatic :: "env \<Rightarrow> db \<Rightarrow> db \<Rightarrow> bool" where
  "only_automatic e d d' \<longleftrightarrow>
    (\<forall>r\<in>set (response_actions d'). ra_lifecycle_state r = AUTHORIZED \<longrightarrow> r \<in> set (response_actions d) \<or> automatic e r)"

definition automatic_id :: "env \<Rightarrow> string \<Rightarrow> db \<Rightarrow> bool" where
  "automatic_id e i d \<longleftrightarrow> (\<forall>r\<in>set (response_actions d). ra_response_id r = i \<longrightarrow> automatic e r)"

text \<open>The same, for a step that may authorize the response \<open>i\<close>.\<close>

definition authorizing :: "env \<Rightarrow> string \<Rightarrow> db \<Rightarrow> db \<Rightarrow> bool" where
  "authorizing e i d d' \<longleftrightarrow> (automatic_id e i d \<longrightarrow> automatic_id e i d' \<and> only_automatic e d d')"

interpretation only_automatic: blind_frame "only_automatic e"
  by unfold_locales (auto simp: only_automatic_def audit_onlyD)

interpretation authorizing: blind_frame "authorizing e i"
  by unfold_locales (auto simp: authorizing_def only_automatic_def automatic_id_def audit_onlyD)

lemma responses_same_automatic:
  "responses_same d d' \<Longrightarrow> only_automatic e d d'" "responses_same d d' \<Longrightarrow> authorizing e i d d'"
  by (auto simp: responses_same_def only_automatic_def authorizing_def automatic_id_def)

lemma stays_responses_same:
  "stays responses_same m \<Longrightarrow> stays (only_automatic e) m" "stays responses_same m \<Longrightarrow> stays (authorizing e i) m"
  by (auto simp: stays_def intro: responses_same_automatic)

lemma authorizing_decisions:
  assumes "\<And>r. automatic e r \<Longrightarrow> automatic e (f r)"
  shows "stays (authorizing e i) (modify (set_response f i))" and "stays (authorizing e i) (modify (decide_pending f i))"
  using assms
  by (auto simp: stays_def authorizing_def automatic_id_def only_automatic_def set_response_def decide_pending_def set_update_where)

interpretation authorizing_decider: decider "authorizing e i" e i
  by unfold_locales (auto intro!: authorizing_decisions responses_same_automatic simp: automatic_def rejected_def authorized_def)

lemma only_automatic_rows:
  "state \<noteq> AUTHORIZED \<Longrightarrow>
    stays (only_automatic e) (insert_response_row (staged_row e' i alert_id action tier state target reason))"
  "stays (only_automatic e) (modify (decide_pending (rejected why) i))"
  by (auto simp: stays_def insert_response_row_def bindM_raise_if only_automatic_def decide_pending_def set_update_where
      rejected_def staged_row_def)

lemma only_automatic_capture_plan: "stays (only_automatic e) (capture_plan e' i actor)"
  by (rule stays_responses_same) (use idle_capture_plan in \<open>auto simp: stays_def idle_def responses_same_def\<close>)

lemma only_automatic_insert:
  "state \<noteq> AUTHORIZED \<Longrightarrow> stays (only_automatic e) (insert_response_action e' alert_id action tier state target reason actor)"
  unfolding insert_response_action_def
  by (intro only_automatic.stays_structural only_automatic.writers only_automatic_rows only_automatic_capture_plan)

lemma only_automatic_stage_requested:
  "stays (only_automatic e) (stage_requested e' alert_id action tier target reason actor origin agent host)"
proof (rule staysI)
  fix d
  obtain x d' where r: "stage_requested e' alert_id action tier target reason actor origin agent host d = (x, d')" by fastforce
  show "only_automatic e d (snd (stage_requested e' alert_id action tier target reason actor origin agent host d))"
  proof (cases x)
    case (Inl y)
    then have "insert_response_action e' alert_id action tier PENDING target (Some reason) actor d = (Inl y, d')"
      using r by (auto simp: stage_requested_def bindM_Inl_iff)
    then show ?thesis using stays_run [OF only_automatic_insert] r by force
  next
    case (Inr i)
    then show ?thesis
      using stage_requested_Inr [of e' alert_id action tier target reason actor origin agent host d i d'] r
      by (auto simp: only_automatic_def requested_by_def staged_row_def)
  qed
qed

text \<open>Staging an automatic row, then a step that may authorize it.\<close>

lemma only_automatic_then:
  assumes "stays (only_automatic e) m" and "\<And>d x d'. m d = (Inr x, d') \<Longrightarrow> automatic_id e (g x) d'"
    and "\<And>x. stays (authorizing e (g x)) (f x)"
  shows "stays (only_automatic e) (bindM m f)"
proof (rule staysI)
  fix d
  obtain x d1 where m: "m d = (x, d1)" by fastforce
  then have 1: "only_automatic e d d1" using assms(1) by (metis stays_run)
  show "only_automatic e d (snd (bindM m f d))"
  proof (cases x)
    case (Inl y)
    then show ?thesis using m 1 by (simp add: bindM_Inl)
  next
    case (Inr i)
    then have "automatic_id e (g i) d1" using m assms(2) by blast
    moreover have "authorizing e (g i) d1 (snd (f i d1))" by (rule staysD [OF assms(3)])
    ultimately have "only_automatic e d1 (snd (f i d1))" by (simp add: authorizing_def)
    then show ?thesis using m Inr 1 only_automatic.R_trans by (auto simp: bindM_Inr)
  qed
qed

lemma automatic_id_append:
  assumes "response_actions d' = response_actions d @ [r]" and "i \<notin> ra_response_id ` set (response_actions d)" and "automatic e r"
  shows "automatic_id e i d'"
  using assms by (auto simp: automatic_id_def)

lemma authorizing_inserts:
  "stays responses_same (insert_run r)" "stays responses_same (insert_item it)"
  unfolding insert_run_def insert_item_def
  by (intro responses_same.stays_structural responses_same_modify; simp)+

lemmas only_automatic_reads = draws_only_operations [THEN draws_only_stays, THEN only_automatic.stays_blind]
  draws_only_triage_target [THEN draws_only_stays, THEN only_automatic.stays_blind]
  authorizing_inserts [THEN stays_responses_same(1)]

lemma only_automatic_triage_stage:
  "stays (only_automatic e)
    (bindM (bindM (stage_requested e alert_id action ''AUTO_SAFE'' target reason actor ''auto_triage'' agent host) (\<lambda>i. ret (Some i)))
      (\<lambda>response_id. seqM (insert_item (it response_id)) (seqM (record_event e (ev response_id) actor asset (req response_id) detail)
        (authorize_response_action e (case response_id of Some r \<Rightarrow> r | None \<Rightarrow> []) actor))))"
proof (rule only_automatic_then [where g = "\<lambda>x. case x of Some r \<Rightarrow> r | None \<Rightarrow> []"])
  show "stays (only_automatic e) (bindM (stage_requested e alert_id action ''AUTO_SAFE'' target reason actor ''auto_triage''
      agent host) (\<lambda>i. ret (Some i)))"
    by (intro only_automatic.stays_structural only_automatic_stage_requested)
  show "automatic_id e (case x of Some r \<Rightarrow> r | None \<Rightarrow> []) d'"
    if run: "bindM (stage_requested e alert_id action ''AUTO_SAFE'' target reason actor ''auto_triage'' agent host)
      (\<lambda>i. ret (Some i)) d = (Inr x, d')" for d x d'
  proof -
    obtain i where i: "stage_requested e alert_id action ''AUTO_SAFE'' target reason actor ''auto_triage'' agent host d = (Inr i, d')"
      "x = Some i" using run by (auto simp: bindM_Inr_iff)
    have "automatic_id e i d'"
      by (rule automatic_id_append) (use stage_requested_Inr [OF i(1)] in \<open>auto simp: automatic_def requested_by_def staged_row_def\<close>)
    then show ?thesis using i(2) by simp
  qed
qed (intro authorizing.stays_structural authorizing.writers authorizing_decider.stays_authorize_response_action
      authorizing_inserts [THEN stays_responses_same(2)])

lemma only_automatic_triage_decision:
  "stays (only_automatic e) (bindM
     (if td_decision decision \<noteq> ''skip''
      then bindM (stage_requested e alert_id action
             (if td_decision decision = ''auto_dispatch'' then ''AUTO_SAFE'' else ''ANALYST_APPROVAL'')
             target (td_reason decision) actor ''auto_triage'' agent host) (\<lambda>i. ret (Some i))
      else ret None) (\<lambda>response_id.
     seqM (insert_item (it response_id)) (seqM (record_event e (ev response_id) actor a (req response_id) detail)
     (if td_decision decision = ''auto_dispatch''
      then authorize_response_action e (case response_id of Some r \<Rightarrow> r | None \<Rightarrow> []) actor else ret ()))))"
proof (cases "td_decision decision = ''auto_dispatch''")
  case True
  then show ?thesis by (simp add: only_automatic_triage_stage)
next
  case False
  then show ?thesis
    by (simp only: if_False)
      (intro only_automatic.stays_structural only_automatic.writers only_automatic_reads only_automatic_stage_requested stays_splits)
qed

lemma only_automatic_triage_action: "stays (only_automatic e) (triage_action e retained host asset po capability action)"
  unfolding triage_action_def Let_def
  apply (rule only_automatic.stays_bindM)
   apply (intro only_automatic_reads)
  apply (rule stays_case_prod)
  apply (rule only_automatic.stays_bindM)
   apply (intro only_automatic_reads)
  apply (rule only_automatic_triage_decision)
  done

lemma only_automatic_start: "stays (only_automatic e) (start e alert_id)"
  unfolding start_def
  by (intro only_automatic.stays_structural only_automatic_reads only_automatic_triage_action stays_splits)

lemma only_automatic_staged:
  assumes "tier = classify_tier e action"
  shows "stays (only_automatic e) (bindM (insert_response_action e alert_id action tier PENDING target reason engine)
    (\<lambda>response_id. if tier = ''AUTO_SAFE'' then auto_authorize e response_id else ret ()))"
proof (cases "tier = ''AUTO_SAFE''")
  case True
  have "stays (only_automatic e) (bindM (insert_response_action e alert_id action tier PENDING target reason engine) (auto_authorize e))"
  proof (rule only_automatic_then [where g = "\<lambda>i. i"])
    show "automatic_id e i d'"
      if run: "insert_response_action e alert_id action tier PENDING target reason engine d = (Inr i, d')" for d i d'
      by (rule automatic_id_append)
        (use insert_response_action_Inr [OF run] True assms in \<open>auto simp: automatic_def staged_row_def\<close>)
  qed (use only_automatic_insert authorizing_decider.stays_auto_authorize in auto)
  then show ?thesis using True by simp
next
  case False
  have "stays (only_automatic e) (bindM (insert_response_action e alert_id action tier PENDING target reason engine) (\<lambda>_. ret ()))"
    by (intro only_automatic.stays_structural only_automatic_insert) simp
  then show ?thesis using False by simp
qed

lemma only_automatic_on_alert_created: "stays (only_automatic e) (on_alert_created e rec)"
proof -
  have "stays (only_automatic e) (respond e rec alert_id active_response action)" for alert_id active_response action
    unfolding respond_def Let_def
    by (intro only_automatic.stays_gets only_automatic.stays_ret only_automatic_staged refl stays_splits
        only_automatic.stays_bindM [OF only_automatic.stays_gets]
        only_automatic.stays_bindM [OF only_automatic_insert]; simp)
  then show ?thesis
    unfolding on_alert_created_def on_alert_created_body_def Let_def
    by (intro only_automatic.stays_structural only_automatic_start stays_splits)
qed

text \<open>
  C26. No alert makes the manager act on its own beyond what is safe. A response that is AUTHORIZED after a new
  alert was handled was so before, or was staged as \<open>AUTO_SAFE\<close>; and when the response engine staged it, the
  response policy classifies its action as \<open>AUTO_SAFE\<close>. Everything else waits for an analyst.
\<close>

theorem alerts_authorize_only_safe_actions:
  assumes "on_alert_created e rec d = (x, d')" and "r \<in> set (response_actions d')" and "ra_lifecycle_state r = AUTHORIZED"
    and "r \<notin> set (response_actions d)"
  shows "ra_tier r = ''AUTO_SAFE'' \<and> (ra_origin r = ''detection'' \<longrightarrow> classify_tier e (ra_action r) = ''AUTO_SAFE'')"
  using stays_run [OF only_automatic_on_alert_created assms(1)] assms(2-4)
  by (auto simp: only_automatic_def automatic_def)

section \<open>Scenarios\<close>

text \<open>What one audit write leaves, outside triage.\<close>

lemma record_decision_adds:
  assumes inv: "audit_inv (sha256 e) d" and fresh: "uuid4 e (draws d) \<notin> da_event_id ` set (response_decision_audit d)"
    and "r \<in> ra_response_id ` set (response_actions d)" and "triage_items d = []"
  obtains d' where "record_decision e r ev actor detail d = (Inr (), d')" "audit_only d d'" "audit_inv (sha256 e) d'"
    "draws d' = Suc (draws d)" "command_audit d' = command_audit d"
    "da_event_id ` set (response_decision_audit d') = insert (uuid4 e (draws d)) (da_event_id ` set (response_decision_audit d))"
proof -
  obtain d' where r: "record_decision e r ev actor detail d = (Inr (), d')" using record_decision_runs [OF assms] by blast
  have "audit_only d d'" using audit_only_writers(6) r by (rule stays_run)
  moreover have "audit_inv (sha256 e) d'"
    using stays_run [OF stays_record_decision r] inv by (simp add: audit_grows_def audit_inv_def)
  moreover have "draws d' = Suc (draws d) \<and> command_audit d' = command_audit d \<and>
     da_event_id ` set (response_decision_audit d') = insert (uuid4 e (draws d)) (da_event_id ` set (response_decision_audit d))"
    using r assms(4)
    by (auto simp: record_decision_def insert_decision_audit_def bindM_Inr_iff triggers_def chain_decision_audit_def
        mirror_decision_audit_def no_triage_pairs insert_ledger_def bindM_raise_if split: if_splits)
  ultimately show ?thesis using that r by blast
qed

lemma mirrors_nothing:
  "triage_items d = [] \<Longrightarrow> mirror_command_audit e r d = (Inr (), d)"
  "triage_items d = [] \<Longrightarrow> mirror_decision_audit e r' d = (Inr (), d)"
  by (simp_all add: mirror_command_audit_def mirror_decision_audit_def no_triage_pairs)

lemma audit_adds:
  assumes inv: "audit_inv (sha256 e) d" and fresh: "uuid4 e (draws d) \<notin> ca_audit_id ` set (command_audit d)"
    and "c \<in> cm_command_id ` set (commands d)" and "triage_items d = []"
  obtains d' where "audit e c ev actor detail d = (Inr (), d')" "audit_only d d'" "audit_inv (sha256 e) d'"
    "draws d' = Suc (draws d)" "response_decision_audit d' = response_decision_audit d"
    "ca_audit_id ` set (command_audit d') = insert (uuid4 e (draws d)) (ca_audit_id ` set (command_audit d))"
proof -
  obtain d' where r: "audit e c ev actor detail d = (Inr (), d')" using audit_runs [OF assms] by blast
  have "audit_only d d'" using audit_only_writers(5) r by (rule stays_run)
  moreover have "audit_inv (sha256 e) d'"
    using stays_run [OF stays_audit r] inv by (simp add: audit_grows_def audit_inv_def)
  moreover have "draws d' = Suc (draws d) \<and> response_decision_audit d' = response_decision_audit d \<and>
     ca_audit_id ` set (command_audit d') = insert (uuid4 e (draws d)) (ca_audit_id ` set (command_audit d))"
    using r assms(4)
    by (auto simp: audit_def insert_command_audit_def bindM_Inr_iff triggers_def chain_command_audit_def
        mirrors_nothing insert_ledger_def split: if_splits)
  ultimately show ?thesis using that r by blast
qed

lemma audit_inv_no_history:
  assumes "command_audit d = []" "response_decision_audit d = []" "response_security_audit d = []"
    "response_artifact_custody d = []" "response_audit_ledger d = []" "sha256 e = (\<lambda>t. t)"
  shows "audit_inv (sha256 e) d"
  using assms audit_inv_empty [of "\<lambda>t. t"] by (simp add: audit_inv_def audit_inv_at_def keyed_def source_rows_def)

lemma demo_digits: "digit 0 = CHR ''0''" "digit (Suc 0) = CHR ''1''" "digit 3 = CHR ''3''"
  by code_simp+

definition demo_auto_env :: env where
  "demo_auto_env = demo_plain_env\<lparr>classify_tier := (\<lambda>a. ''AUTO_SAFE''),
    translate_recommendation := (\<lambda>a r c. Some (''ISOLATE_HOST'', [], None))\<rparr>"

lemma demo_auto_simps [simp]:
  "sha256 demo_auto_env = (\<lambda>t. t)" "now demo_auto_env = demo_now" "uuid4 demo_auto_env = (\<lambda>n. ''u'' @ nat_str n)"
  "classify_tier demo_auto_env a = ''AUTO_SAFE''" "collect_actions demo_auto_env = [''COLLECT_PROCESS_INFO'']"
  "translate_recommendation demo_auto_env b c w = Some (''ISOLATE_HOST'', [], None)" "make_command demo_auto_env = Some"
  "environ demo_auto_env k = (if k = ''PANOPTICON_COMMAND_SIGNING_KEY'' then None else Some ''secret'')"
  by (simp_all add: demo_auto_env_def demo_plain_env_def fun_eq_iff)

definition demo_alert_json :: jobj where
  "demo_alert_json = [(''alert_id'', JStr ''a1''), (''host_id'', JStr ''host-1''),
    (''active_response'', JObj [(''action'', JStr ''ISOLATE_HOST'')])]"

definition demo_staged :: response_row where
  "demo_staged = staged_row demo_auto_env ''u0'' ''a1'' ''ISOLATE_HOST'' ''AUTO_SAFE'' PENDING [] None"

lemma demo_staged_simps [simp]:
  "ra_response_id demo_staged = ''u0''" "ra_alert_id demo_staged = ''a1''" "ra_lifecycle_state demo_staged = PENDING"
  "ra_origin demo_staged = ''detection''" "ra_target_json demo_staged = []" "ra_action demo_staged = ''ISOLATE_HOST''"
  by (simp_all add: demo_staged_def staged_row_def)

lemma demo_stages:
  "\<exists>d1. insert_response_action demo_auto_env ''a1'' ''ISOLATE_HOST'' ''AUTO_SAFE'' PENDING [] None engine demo_alerted = (Inr ''u0'', d1) \<and>
    audit_only (demo_alerted\<lparr>response_actions := [demo_staged]\<rparr>) d1 \<and> audit_inv (\<lambda>t. t) d1 \<and> draws d1 = 2 \<and>
    command_audit d1 = [] \<and> da_event_id ` set (response_decision_audit d1) = {''u1''}"
proof -
  let ?e = demo_auto_env
  define d where "d = demo_alerted\<lparr>draws := Suc 0, response_actions := [demo_staged]\<rparr>"
  have t: "response_actions d = [demo_staged]" "triage_items d = []" "command_audit d = []" "response_decision_audit d = []"
    "response_security_audit d = []" "response_artifact_custody d = []" "response_audit_ledger d = []" "draws d = Suc 0"
    "alerts d = [demo_alert ''a1'']" "response_forensic_plans d = []"
    by (simp_all add: d_def demo_alerted_def demo_fleet_def)
  have ins: "insert_response_row demo_staged (demo_alerted\<lparr>draws := Suc 0\<rparr>) = (Inr (), d)"
    by (simp add: insert_response_row_def bindM_raise_if d_def demo_alerted_def demo_fleet_def demo_alert_def)
  have inv: "audit_inv (sha256 ?e) d" using t by (intro audit_inv_no_history) simp_all
  obtain d1 where d1: "record_decision ?e ''u0'' ''staged'' engine (Some [(''state'', JStr ''PENDING''),
      (''action'', JStr ''ISOLATE_HOST''), (''reason'', JNull)]) d = (Inr (), d1)" "audit_only d d1" "audit_inv (sha256 ?e) d1"
      "draws d1 = Suc (draws d)" "command_audit d1 = command_audit d"
      "da_event_id ` set (response_decision_audit d1) = insert (uuid4 ?e (draws d)) (da_event_id ` set (response_decision_audit d))"
    by (rule record_decision_adds [OF inv, of "''u0''"]) (simp_all add: t)
  have "capture_plan ?e ''u0'' engine d1 = (Inr (), d1)"
    using audit_onlyD(2,3) [OF d1(2)] by (simp add: capture_plan_def t demo_alert_def)
  then have "insert_response_action ?e ''a1'' ''ISOLATE_HOST'' ''AUTO_SAFE'' PENDING [] None engine demo_alerted = (Inr ''u0'', d1)"
    using ins d1(1) unfolding demo_staged_def
    by (simp add: insert_response_action_def bindM_Inr jopt_def demo_alerted_def demo_fleet_def demo_digits)
  moreover have "audit_only (demo_alerted\<lparr>response_actions := [demo_staged]\<rparr>) d1"
    using d1(2) by (simp add: audit_only_def erase_audit_def d_def)
  ultimately show ?thesis using d1 t by (simp add: demo_digits)
qed

lemma demo_auto_authorizes:
  "\<exists>d'. on_alert_created demo_auto_env demo_alert_json demo_alerted = (Inr (), d') \<and>
     response_actions d' = [authorized demo_auto_env engine demo_staged]"
proof -
  let ?e = demo_auto_env and ?i = "''u0''"
  obtain d1 where d1: "insert_response_action ?e ''a1'' ''ISOLATE_HOST'' ''AUTO_SAFE'' PENDING [] None engine demo_alerted = (Inr ?i, d1)"
    "audit_only (demo_alerted\<lparr>response_actions := [demo_staged]\<rparr>) d1" "audit_inv (\<lambda>t. t) d1" "draws d1 = 2"
    "command_audit d1 = []" "da_event_id ` set (response_decision_audit d1) = {''u1''}"
    using demo_stages by blast
  note tb = audit_onlyD [OF d1(2)]
  have t: "response_actions d1 = [demo_staged]" "alerts d1 = [demo_alert ''a1'']" "triage_items d1 = []" "commands d1 = []"
    "agent_response_channels d1 = []" "enrolled_agents d1 = enrolled_agents demo_fleet"
    using tb by (simp_all add: demo_alerted_def demo_fleet_def)
  have p: "pending d1 ?i = Some demo_staged" by (simp add: pending_def t)
  define c where "c = response_command_of ?e demo_staged ''agent-1'' None"
  have c: "cmd_command_id c = ''resp-u0''" "cmd_agent_id c = ''agent-1''" "cmd_action c = ''ISOLATE_HOST''"
    by (simp_all add: c_def response_command_of_def)
  have live: "\<not> has_passed ?e (cmd_expires_at c)"
  proof -
    have "86400000000 \<le> micros demo_now + 900000000" using micros_pos [OF utc_demo_now] by simp
    from of_micros_fields(1,2) [OF this] show ?thesis
      by (simp add: has_passed_def c_def response_command_of_def plus_delta_def)
  qed
  have ag: "active_agent d1 ''agent-1'' = Some (demo_agent ''agent-1'' ''host-1'' ''tok'')"
    by (simp add: active_agent_def t demo_fleet_def demo_agent_def)
  define pl where "pl = command_payload ?e c ''host-1''"
  define d2 where "d2 = d1\<lparr>commands := [new_command ?e c (Some ''a1'') pl]\<rparr>"
  have 1: "current_profile ?e ''agent-1'' ''host-1'' d1 = (Inr no_profile, d1)" by (simp add: current_profile_def t)
  have 2: "sign_payload ?e ''agent-1'' pl d1 = (Inr (pl, None), d1)"
    by (simp add: sign_payload_def signer_def getenv_or_empty_def tryM_def t)
  have inv2: "audit_inv (sha256 ?e) d2" using d1(3) by (simp add: d2_def audit_inv_def audit_inv_at_def keyed_def source_rows_def)
  obtain d3 where d3: "audit ?e ''resp-u0'' ''created'' engine None d2 = (Inr (), d3)" "audit_only d2 d3" "audit_inv (sha256 ?e) d3"
    "draws d3 = Suc (draws d2)" "response_decision_audit d3 = response_decision_audit d2"
    by (rule audit_adds [OF inv2, of "''resp-u0''" "''created''" engine None])
      (simp_all add: d2_def d1 t new_command_def c)
  have no: "policy_block no_profile a t = None" for a t by (simp add: policy_block_def no_profile_def)
  have ins: "insert_command (new_command ?e c (Some ''a1'') pl) d1 = (Inr (), d2)"
    by (simp add: insert_command_def d2_def bindM_raise_if t)
  have h: "ea_host_id (demo_agent ''agent-1'' ''host-1'' ''tok'') = ''host-1''" by (simp add: demo_agent_def)
  have "enqueue_body ?e c engine (Some ''a1'') d1 = (Inr (), d3)"
    unfolding enqueue_body_def c new_command_def [of ?e c "Some ''a1''", unfolded c, symmetric]
    using 1 2 d3(1) ins by (simp add: ag h no bindM_Inr pl_def [symmetric])
  then have en: "authorize_and_enqueue ?e False c engine (Some ''a1'') d1 = (Inr (), d3)"
    using live by (simp add: authorize_and_enqueue_def on_integrity_error_def tryM_def)
  note tc = audit_onlyD [OF d3(2)]
  define d4 where "d4 = set_response (authorized ?e engine) ?i d3"
  have m: "mark_authorized ?e demo_staged engine d3 = (Inr (), d4)"
    by (simp add: mark_authorized_def tc d2_def new_command_def c d4_def)
  have rows: "response_actions d4 = [authorized ?e engine demo_staged]"
    by (simp add: d4_def set_response_def tc d2_def t)
  have inv4: "audit_inv (sha256 ?e) d4"
    using d3(3) by (simp add: d4_def set_response_def audit_inv_def audit_inv_at_def keyed_def source_rows_def)
  obtain d5 where d5: "record_decision ?e ?i ''authorized'' engine (Some [(''command_id'', JStr ''resp-u0'')]) d4 = (Inr (), d5)"
    "audit_only d4 d5"
    by (rule record_decision_adds [OF inv4, of ?i "''authorized''" engine "Some [(''command_id'', JStr ''resp-u0'')]"])
      (simp_all add: d4_def set_response_def d3 d2_def d1 t tc authorized_def demo_digits)
  have "enqueue_response ?e demo_staged ''agent-1'' engine d1 = (Inr (), d5)"
    using en m d5(1)
    by (simp add: enqueue_response_def deadline_def no_triage_pairs t bindM_Inr c_def [symmetric])
  moreover have "check_requested ?e demo_staged d1 = (Inr (), d1)" by (simp add: check_requested_def)
  ultimately have "authorize_response_action ?e ?i engine d1 = (Inr (), d5)"
    by (simp add: authorize_response_action_def p t demo_alert_def has_key_def bindM_Inr)
  then have "auto_authorize ?e ?i d1 = (Inr (), d5)"
    by (simp add: auto_authorize_def bindM_def catch_http_def)
  moreover have "find_open_duplicate ?e demo_alerted (Some ''host-1'') ''ISOLATE_HOST'' [] = None"
    by (simp add: find_open_duplicate_def demo_alerted_def demo_fleet_def order_by_def)
  ultimately have "respond ?e demo_alert_json ''a1'' [(''action'', JStr ''ISOLATE_HOST'')] ''ISOLATE_HOST'' demo_alerted = (Inr (), d5)"
    using d1(1)
    by (simp add: respond_def translated_def Let_def demo_alert_json_def jget_def jor_def bindM_Inr)
  moreover have st: "start ?e ''a1'' demo_alerted = (Inr False, demo_alerted)"
    by (simp add: start_def demo_alerted_def demo_fleet_def demo_alert_def policy_for_def)
  ultimately have "on_alert_created_body ?e demo_alert_json demo_alerted = (Inr (), d5)"
    by (simp add: on_alert_created_body_def bindM_Inr [where m = "start ?e ''a1''", OF st] demo_alert_json_def jget_def)
  then show ?thesis
    using audit_onlyD(2) [OF d5(2)] rows by (simp add: on_alert_created_def tryM_def transaction_def)
qed

theorem alerts_authorize_only_safe_actions_witness:
  "\<exists>d' r. on_alert_created demo_auto_env demo_alert_json demo_alerted = (Inr (), d') \<and> r \<in> set (response_actions d') \<and>
    ra_lifecycle_state r = AUTHORIZED \<and> ra_tier r = ''AUTO_SAFE''"
proof -
  obtain d' where r: "on_alert_created demo_auto_env demo_alert_json demo_alerted = (Inr (), d')"
    "response_actions d' = [authorized demo_auto_env engine demo_staged]" using demo_auto_authorizes by blast
  then show ?thesis
    using alerts_authorize_only_safe_actions [OF r(1), of "authorized demo_auto_env engine demo_staged"]
    by (auto simp: authorized_def demo_alerted_def demo_fleet_def)
qed

end
