(* ===== verification/TriageAdmin.thy ===== *)
theory TriageAdmin
  imports Decisions
begin

text \<open>
  \<^verbatim>\<open>manager/routers/triage.py\<close>: versioned policy and asset changes under a retry identity, and the
  views and cancellation of triage runs.
\<close>

section \<open>Request bodies\<close>

datatype change_detail =
    PolicyChange policy
  | AssetChange (host_id: string) (asset_class: string) (why: string)

record change =
  cg_request_id :: string
  cg_expected_version :: int
  cg_detail :: change_detail

text \<open>The pattern \<open>\S\<close>: some character that is not white space (which here excludes the separators 28 to 31).\<close>

definition not_blank :: "string \<Rightarrow> bool" where
  "not_blank t \<longleftrightarrow> strip_with (filter (\<lambda>s. s \<notin> {[CHR 0x1C], [CHR 0x1D], [CHR 0x1E], [CHR 0x1F]}) spaces) t \<noteq> []"

definition parse_cancel :: "jobj \<Rightarrow> string option" where
  "parse_cancel body =
    (if only_keys [''reason''] body
     then (case text_field 1 512 ''reason'' body of None \<Rightarrow> None | Some t \<Rightarrow> if not_blank t then Some t else None)
     else None)"

definition version_field :: "jobj \<Rightarrow> int option" where
  "version_field body =
    (case jget ''expected_version'' body of JInt i \<Rightarrow> if 0 \<le> i \<and> i \<le> 2147483646 then Some i else None | _ \<Rightarrow> None)"

definition parse_policy_change :: "env \<Rightarrow> jobj \<Rightarrow> change option" where
  "parse_policy_change e body =
    (if only_keys [''request_id'', ''expected_version'', ''policy''] body
     then (case (jstr (jget ''request_id'' body), version_field body,
                 case jget ''policy'' body of JObj p \<Rightarrow> validate_policy e p | _ \<Rightarrow> None) of
             (Some i, Some v, Some p) \<Rightarrow>
               if id_text i then Some \<lparr>cg_request_id = i, cg_expected_version = v, cg_detail = PolicyChange p\<rparr> else None
           | _ \<Rightarrow> None)
     else None)"

definition parse_asset_change :: "jobj \<Rightarrow> change option" where
  "parse_asset_change body =
    (if only_keys [''request_id'', ''expected_version'', ''host_id'', ''asset_class'', ''reason''] body
     then (case (jstr (jget ''request_id'' body), version_field body, text_field 1 256 ''host_id'' body,
                 jstr (jget ''asset_class'' body), text_field 1 512 ''reason'' body) of
             (Some i, Some v, Some host, Some cls, Some reason) \<Rightarrow>
               if id_text i \<and> cls \<in> {''standard'', ''critical'', ''unknown''} \<and> not_blank reason
               then Some \<lparr>cg_request_id = i, cg_expected_version = v, cg_detail = AssetChange host cls reason\<rparr> else None
           | _ \<Rightarrow> None)
     else None)"

definition change_dump :: "change \<Rightarrow> jobj" where
  "change_dump c =
    [(''request_id'', JStr (cg_request_id c)), (''expected_version'', JInt (cg_expected_version c))] @
    (case cg_detail c of
       PolicyChange p \<Rightarrow> [(''policy'', JObj (po_dump p))]
     | AssetChange host cls reason \<Rightarrow>
         [(''host_id'', JStr host), (''asset_class'', JStr cls), (''reason'', JStr reason)])"

definition operation :: "change \<Rightarrow> string" where
  "operation c = (case cg_detail c of PolicyChange _ \<Rightarrow> ''policy'' | AssetChange _ _ _ \<Rightarrow> ''asset'')"

definition change_payload :: "change \<Rightarrow> string" where
  "change_payload c = json_dumps (JObj (jupdate [(''operation'', JStr (operation c))] (change_dump c)))"

section \<open>Changes\<close>

definition insert_policy_revision :: "policy_revision_row \<Rightarrow> (db, unit) act" where
  "insert_policy_revision p = bindM (gets triage_policy_revisions) (\<lambda>rows.
     seqM (raise_if (tp_version p \<le> 0 \<or> (tp_rule_id p, tp_version p) \<in> (\<lambda>x. (tp_rule_id x, tp_version x)) ` set rows)
             IntegrityError)
     (modify (\<lambda>d. d\<lparr>triage_policy_revisions := triage_policy_revisions d @ [p]\<rparr>)))"

text \<open>\<open>INSERT ... ON CONFLICT(key) DO UPDATE\<close>.\<close>

definition upsert :: "('r \<Rightarrow> 'k) \<Rightarrow> 'r \<Rightarrow> 'r list \<Rightarrow> 'r list" where
  "upsert key r rows =
    (if key r \<in> key ` set rows then update_where (\<lambda>x. key x = key r) (\<lambda>x. r) rows else rows @ [r])"

definition head_version :: "db \<Rightarrow> string \<Rightarrow> json option" where
  "head_version d rule_id =
    (case policy_for d rule_id of
       None \<Rightarrow> Some (JInt 0) | Some p \<Rightarrow> if p = [] then Some (JInt 0) else map_of p ''version'')"

definition save_policy_revision :: "env \<Rightarrow> policy \<Rightarrow> int \<Rightarrow> string \<Rightarrow> (db, jobj) act" where
  "save_policy_revision e p expected actor =
    bindM (gets (\<lambda>d. head_version d (po_rule_id p))) (\<lambda>found.
    bindM (require_some found (KeyError ''version'')) (\<lambda>version.
    seqM (raise_if (\<not> py_eq version (JInt expected) \<or> po_version p \<noteq> expected + 1)
            (HTTPException 409 ''policy revision changed; refresh before saving''))
    (seqM (insert_policy_revision \<lparr>tp_rule_id = po_rule_id p, tp_version = po_version p, tp_policy_json = po_dump p,
             tp_actor = actor, tp_created_at = iso_now e\<rparr>)
    (seqM (modify (\<lambda>d. d\<lparr>triage_policy_heads :=
             upsert th_rule_id \<lparr>th_rule_id = po_rule_id p, th_version = po_version p\<rparr> (triage_policy_heads d)\<rparr>))
    (ret [(''policy'', JObj (po_dump p))])))))"

definition save_asset_class :: "env \<Rightarrow> string \<Rightarrow> string \<Rightarrow> int \<Rightarrow> string \<Rightarrow> (db, jobj) act" where
  "save_asset_class e host cls expected actor =
    bindM (gets (\<lambda>d. \<exists>a\<in>set (enrolled_agents d). ea_host_id a = host \<and> ea_revoked_at a = None)) (\<lambda>enrolled.
    seqM (raise_if (\<not> enrolled) (HTTPException 422 ''asset must be an actively enrolled host''))
    (bindM (gets (\<lambda>d. snd (asset_for d host))) (\<lambda>version.
    seqM (raise_if (version \<noteq> expected) (HTTPException 409 ''asset classification changed; refresh before saving''))
    (seqM (modify (\<lambda>d. d\<lparr>triage_asset_classes :=
             upsert as_host_id \<lparr>as_host_id = host, as_asset_class = cls, as_version = version + 1, as_actor = actor,
               as_updated_at = iso_now e\<rparr> (triage_asset_classes d)\<rparr>))
    (ret [(''host_id'', JStr host), (''asset_class'', JStr cls), (''version'', JInt (version + 1))])))))"

definition insert_admin_request :: "triage_request_row \<Rightarrow> (db, unit) act" where
  "insert_admin_request r = bindM (gets triage_admin_requests) (\<lambda>rows.
     seqM (raise_if (\<exists>x\<in>set rows. ta_actor x = ta_actor r \<and> ta_request_id x = ta_request_id r) IntegrityError)
     (modify (\<lambda>d. d\<lparr>triage_admin_requests := triage_admin_requests d @ [r]\<rparr>)))"

definition change_body :: "env \<Rightarrow> change \<Rightarrow> string \<Rightarrow> (db, json) act" where
  "change_body e c actor =
    bindM (gets (\<lambda>d. List.find (\<lambda>r. ta_actor r = actor \<and> ta_request_id r = cg_request_id c) (triage_admin_requests d))) (\<lambda>prior.
    case prior of
      Some r \<Rightarrow>
        seqM (raise_if (ta_payload_json r \<noteq> change_payload c)
                (HTTPException 409 ''retry identity already binds another policy change''))
        (ret (ta_result_json r))
    | None \<Rightarrow>
        bindM (case cg_detail c of
                 PolicyChange p \<Rightarrow> save_policy_revision e p (cg_expected_version c) actor
               | AssetChange host cls reason \<Rightarrow> save_asset_class e host cls (cg_expected_version c) actor) (\<lambda>result.
        seqM (record_event e (''auto_triage_'' @ operation c @ ''_changed'') actor
                (case cg_detail c of PolicyChange _ \<Rightarrow> None | AssetChange host _ _ \<Rightarrow> Some host) (Some (cg_request_id c))
                (jupdate [(''access_policy_version'', JInt 3)] (change_dump c)))
        (seqM (insert_admin_request \<lparr>ta_actor = actor, ta_request_id = cg_request_id c, ta_payload_json = change_payload c,
                 ta_result_json = JObj result\<rparr>)
        (ret (JObj result)))))"

text \<open>The permission is checked before the transaction and again inside it.\<close>

definition admin_change :: "env \<Rightarrow> change \<Rightarrow> string option \<Rightarrow> (db, json) act" where
  "admin_change e c authorization =
    bindM (as_analyst e authorization ''triage:manage'') (\<lambda>actor.
    transaction (seqM (require_analyst_permission e authorization ''triage:manage'') (change_body e c actor)))"

definition save_policy :: "env \<Rightarrow> jobj \<Rightarrow> string option \<Rightarrow> (db, json) act" where
  "save_policy e body authorization =
    bindM (require_some (parse_policy_change e body) ValidationError) (\<lambda>c. admin_change e c authorization)"

definition save_asset :: "env \<Rightarrow> jobj \<Rightarrow> string option \<Rightarrow> (db, json) act" where
  "save_asset e body authorization =
    bindM (require_some (parse_asset_change body) ValidationError) (\<lambda>c. admin_change e c authorization)"

section \<open>Views and runs\<close>

text \<open>\<open>policies\<close>; \<open>default_policy(rule).model_dump()\<close> of the vendored package is an argument.\<close>

definition configured_rules :: "db \<Rightarrow> string list" where
  "configured_rules d = take 200 (sort (map th_rule_id (triage_policy_heads d)))"

definition policies :: "env \<Rightarrow> (string \<Rightarrow> jobj) \<Rightarrow> string option \<Rightarrow> (db, jobj) act" where
  "policies e default_policy authorization =
    seqM (require_analyst_permission e authorization ''triage:manage'')
    (gets (\<lambda>d.
      let rules = take 200 (sort (remdups (map th_rule_id (triage_policy_heads d) @ map al_rule_id (alerts d))));
          hosts = take 200 (sort (map ea_host_id (filter (\<lambda>a. ea_revoked_at a = None) (enrolled_agents d))))
      in [(''policies'', JArr (map (\<lambda>r. JObj (case policy_for d r of
              None \<Rightarrow> default_policy r | Some p \<Rightarrow> if p = [] then default_policy r else p)) rules)),
          (''configured_rules'', JArr (map JStr (configured_rules d))),
          (''assets'', JArr (map (\<lambda>h. JObj [(''host_id'', JStr h), (''asset_class'', JStr (fst (asset_for d h))),
              (''version'', JInt (snd (asset_for d h)))]) hosts)),
          (''notice'', JStr ''Unconfigured rules are disabled. New policies start at revision 1.'')]))"

record item_view =
  iv_item :: item_row
  iv_lifecycle_state :: "lifecycle option"
  iv_command_state :: "lifecycle option"
  iv_live_blocker :: "string option"

definition item_view_of :: "env \<Rightarrow> item_row \<Rightarrow> (db, item_view) act" where
  "item_view_of e i =
    bindM (gets (\<lambda>d. (map_option ra_lifecycle_state (response_of_item d i), command_state_of d (response_of_item d i)))) (\<lambda>(s, c).
    bindM (if ti_response_id i \<noteq> None \<and> ti_response_id i \<noteq> Some [] \<and> (s = Some PENDING \<or> c \<in> {Some AUTHORIZED, Some DISPATCHED})
           then guard e None (ti_response_id i) else ret None) (\<lambda>blocker.
    ret \<lparr>iv_item = i, iv_lifecycle_state = s, iv_command_state = c, iv_live_blocker = blocker\<rparr>))"

definition run_view_of :: "env \<Rightarrow> run_row \<Rightarrow> (db, run_row \<times> item_view list) act" where
  "run_view_of e r =
    bindM (gets (\<lambda>d. order_by ti_action (filter (\<lambda>i. ti_alert_id i = tr_alert_id r) (triage_items d)))) (\<lambda>items.
    bindM (mapM (item_view_of e) items) (\<lambda>views. ret (r, views)))"

definition runs :: "env \<Rightarrow> string option \<Rightarrow> nat \<Rightarrow> nat \<Rightarrow> (db, (run_row \<times> item_view list) list \<times> nat option) act" where
  "runs e authorization limit offset =
    seqM (raise_if (\<not> (1 \<le> limit \<and> limit \<le> 100 \<and> offset \<le> 1000000)) ValidationError)
    (bindM (analyst_access e authorization) (\<lambda>access.
     seqM (raise_if (set (acc_permissions access) \<inter> {''response:request'', ''response:decide''} = {})
             (HTTPException 403 ''response operator permission required''))
     (seqM (transaction (reconcile e None))
     (bindM (gets (\<lambda>d. take limit (drop offset (rev (order_by tr_created_at (rev (triage_runs d))))))) (\<lambda>rows.
      bindM (mapM (run_view_of e) rows) (\<lambda>result.
      ret (result, if length rows = limit then Some (offset + limit) else None)))))))"

definition cancel_triage_run :: "env \<Rightarrow> string \<Rightarrow> jobj \<Rightarrow> string option \<Rightarrow> (db, unit) act" where
  "cancel_triage_run e alert_id body authorization =
    bindM (require_some (parse_cancel body) ValidationError) (\<lambda>reason.
    bindM (as_analyst e authorization ''response:decide'') (\<lambda>actor.
    transaction (seqM (require_analyst_permission e authorization ''response:decide'') (cancel_run e alert_id actor reason))))"

section \<open>Every handler keeps the contracts\<close>

lemma stays_case_change:
  "(\<And>p. x = PolicyChange p \<Longrightarrow> stays R (f p)) \<Longrightarrow> (\<And>h c w. x = AssetChange h c w \<Longrightarrow> stays R (g h c w)) \<Longrightarrow>
    stays R (case x of PolicyChange p \<Rightarrow> f p | AssetChange h c w \<Rightarrow> g h c w)"
  by (cases x) auto

lemma work_triage_admin:
  "stays (work e) (admin_change e c auth)"
  "stays (work e) (save_policy e body auth)"
  "stays (work e) (save_asset e body auth)"
  "stays (work e) (runs e auth limit offset)"
  "stays (work e) (cancel_triage_run e alert_id body auth)"
  unfolding save_policy_def save_asset_def admin_change_def change_body_def save_policy_revision_def save_asset_class_def
    insert_policy_revision_def insert_admin_request_def runs_def run_view_of_def item_view_of_def cancel_triage_run_def
  by (intro work.stays_structural work.writers work_reads analyst_reads work.R_refl work_modify work_responses_operations
      stays_case_change stays_splits; simp)+

lemma audit_triage_admin:
  "stays (audit_grows (sha256 e)) (admin_change e c auth)"
  "stays (audit_grows (sha256 e)) (save_policy e body auth)"
  "stays (audit_grows (sha256 e)) (save_asset e body auth)"
  "stays (audit_grows (sha256 e)) (runs e auth limit offset)"
  "stays (audit_grows (sha256 e)) (cancel_triage_run e alert_id body auth)"
  unfolding save_policy_def save_asset_def admin_change_def change_body_def save_policy_revision_def save_asset_class_def
    insert_policy_revision_def insert_admin_request_def runs_def run_view_of_def item_view_of_def cancel_triage_run_def
  by (intro audit.stays_structural audit_writers audit_reads audit_draws analyst_reads audit.R_refl audit_modify audit_responses
      stays_case_change stays_splits; simp)+

lemma foreground_triage_admin:
  "stays foreground (admin_change e c auth)"
  "stays foreground (save_policy e body auth)"
  "stays foreground (save_asset e body auth)"
  "stays foreground (runs e auth limit offset)"
  "stays foreground (cancel_triage_run e alert_id body auth)"
  unfolding save_policy_def save_asset_def admin_change_def change_body_def save_policy_revision_def save_asset_class_def
    insert_policy_revision_def insert_admin_request_def runs_def run_view_of_def item_view_of_def cancel_triage_run_def
  by (intro foreground.stays_structural foreground.writers foreground_reads analyst_reads foreground.R_refl foreground_modify
      foreground_responses stays_case_change stays_splits; simp add: background_def)+

section \<open>Versioned policies\<close>

text \<open>The triage configuration, which audit writes do not touch.\<close>

lemma find_by_upsert:
  "find_by key k (upsert key r rows) = (if k = key r then Some r else find_by key k rows)"
proof (cases "key r \<in> key ` set rows")
  case True
  have "find_by key k (update_where (\<lambda>x. key x = key r) (\<lambda>x. r) rows) =
      (if k = key r \<and> (\<exists>x\<in>set rows. key x = k) then Some r else find_by key k rows)"
    by (induction rows) auto
  then show ?thesis using True by (auto simp: upsert_def)
next
  case False
  then have "find_by key (key r) rows = None" by (auto simp: find_by_None_iff image_iff)
  then show ?thesis using False by (auto simp: upsert_def find_by_append split: option.splits)
qed

definition revision :: "env \<Rightarrow> policy \<Rightarrow> string \<Rightarrow> policy_revision_row" where
  "revision e p actor = \<lparr>tp_rule_id = po_rule_id p, tp_version = po_version p, tp_policy_json = po_dump p,
     tp_actor = actor, tp_created_at = iso_now e\<rparr>"

lemma save_policy_revision_Inr:
  assumes "save_policy_revision e p expected actor d = (Inr result, d')"
  shows "\<exists>v. head_version d (po_rule_id p) = Some v \<and> py_eq v (JInt expected) \<and> po_version p = expected + 1 \<and>
    (po_rule_id p, po_version p) \<notin> (\<lambda>x. (tp_rule_id x, tp_version x)) ` set (triage_policy_revisions d) \<and>
    triage_policy_revisions d' = triage_policy_revisions d @ [revision e p actor] \<and>
    triage_policy_heads d' = upsert th_rule_id \<lparr>th_rule_id = po_rule_id p, th_version = po_version p\<rparr> (triage_policy_heads d) \<and>
    result = [(''policy'', JObj (po_dump p))]"
  using assms
  by (auto simp: save_policy_revision_def insert_policy_revision_def bindM_Inr_iff revision_def)

lemma policy_for_saved:
  assumes "triage_policy_revisions d' = triage_policy_revisions d @ [revision e p actor]"
    and "triage_policy_heads d' = upsert th_rule_id \<lparr>th_rule_id = po_rule_id p, th_version = po_version p\<rparr> (triage_policy_heads d)"
    and "(po_rule_id p, po_version p) \<notin> (\<lambda>x. (tp_rule_id x, tp_version x)) ` set (triage_policy_revisions d)"
  shows "policy_for d' (po_rule_id p) = Some (po_dump p)"
proof -
  have "List.find (\<lambda>x. tp_rule_id x = po_rule_id p \<and> tp_version x = po_version p) (triage_policy_revisions d') = Some (revision e p actor)"
    unfolding assms(1) using assms(3) by (intro find_append_new) (auto simp: revision_def image_iff)
  then show ?thesis by (simp add: policy_for_def assms(2) find_by_upsert revision_def)
qed

lemma save_policy_Inr:
  assumes "save_policy e body auth d = (Inr r, d')"
  obtains c p a where "parse_policy_change e body = Some c" "cg_detail c = PolicyChange p"
    "require_analyst_permission e auth ''triage:manage'' d = (Inr a, d)" "change_body e c (''analyst:'' @ a) d = (Inr r, d')"
proof -
  obtain c a where c: "parse_policy_change e body = Some c" "require_analyst_permission e auth ''triage:manage'' d = (Inr a, d)"
    "change_body e c (''analyst:'' @ a) d = (Inr r, d')"
    using assms by (auto simp: save_policy_def admin_change_def bindM_Inr_iff as_analyst_Inr)
  moreover obtain p where "cg_detail c = PolicyChange p"
    using c(1) by (auto simp: parse_policy_change_def split: if_splits option.splits)
  ultimately show thesis using that by blast
qed

text \<open>
  C32. A saved policy is what the manager reads back, and concurrent edits cannot be lost. A new policy change
  returns only when it was made against the current revision; it then is the current policy of its rule, one
  revision later. Anybody who edits the revision that was replaced is refused with 409 and changes nothing.
  (The hypothesis on \<open>po_dump\<close> says that \<open>model_dump\<close> of a policy carries its version.)
\<close>

theorem policy_edits_are_not_lost:
  assumes "save_policy e body auth d = (Inr r, d')" and "parse_policy_change e body = Some c" and "cg_detail c = PolicyChange p"
    and "\<forall>x\<in>set (triage_admin_requests d). ta_request_id x \<noteq> cg_request_id c"
    and "map_of (po_dump p) ''version'' = Some (JInt (po_version p))"
    and "save_policy e body' auth' d' = (r', d'')" and "parse_policy_change e body' = Some c'" and "cg_detail c' = PolicyChange p'"
    and "po_rule_id p' = po_rule_id p" and "cg_expected_version c' = cg_expected_version c" and "cg_request_id c' \<noteq> cg_request_id c"
    and "\<forall>x\<in>set (triage_admin_requests d). ta_request_id x \<noteq> cg_request_id c'"
    and "require_analyst_permission e auth' ''triage:manage'' d' = (Inr b, d')"
  shows "policy_for d' (po_rule_id p) = Some (po_dump p) \<and> po_version p = cg_expected_version c + 1 \<and>
    r' = Inl (HTTPException 409 ''policy revision changed; refresh before saving'') \<and> d'' = d'"
proof -
  obtain a where body: "change_body e c (''analyst:'' @ a) d = (Inr r, d')"
    by (rule save_policy_Inr [OF assms(1)]) (use assms(2) in auto)
  have none: "List.find (\<lambda>x. ta_actor x = actor \<and> ta_request_id x = cg_request_id c) (triage_admin_requests d) = None" for actor
    using assms(4) by (auto simp: find_None_iff)
  obtain result d1 d2 where 1: "save_policy_revision e p (cg_expected_version c) (''analyst:'' @ a) d = (Inr result, d1)"
    and 2: "record_event e (''auto_triage_'' @ operation c @ ''_changed'') (''analyst:'' @ a) None (Some (cg_request_id c))
      (jupdate [(''access_policy_version'', JInt 3)] (change_dump c)) d1 = (Inr (), d2)"
    and 3: "insert_admin_request \<lparr>ta_actor = ''analyst:'' @ a, ta_request_id = cg_request_id c, ta_payload_json = change_payload c,
                 ta_result_json = JObj result\<rparr> d2 = (Inr (), d')"
    using body assms(3) none by (auto simp: change_body_def bindM_Inr_iff)
  note s = save_policy_revision_Inr [OF 1]
  have "audit_only d1 d2" using audit_only_writers(4) 2 by (rule stays_run)
  then have t2: "triage_policy_revisions d' = triage_policy_revisions d1" "triage_policy_heads d' = triage_policy_heads d1"
      "triage_admin_requests d' = triage_admin_requests d1 @ [\<lparr>ta_actor = ''analyst:'' @ a, ta_request_id = cg_request_id c,
         ta_payload_json = change_payload c, ta_result_json = JObj result\<rparr>]"
    using 3 audit_onlyD(15,16,25) by (auto simp: insert_admin_request_def bindM_Inr_iff)
  have r1: "triage_admin_requests d1 = triage_admin_requests d"
    using 1 by (auto simp: save_policy_revision_def insert_policy_revision_def bindM_Inr_iff)
  have pf: "policy_for d' (po_rule_id p) = Some (po_dump p)"
    using s t2 by (intro policy_for_saved [of d' d e p "''analyst:'' @ a"]) auto
  have hv: "head_version d' (po_rule_id p') = Some (JInt (po_version p))"
    using pf assms(5,9) by (auto simp: head_version_def)
  have none': "List.find (\<lambda>x. ta_actor x = actor \<and> ta_request_id x = cg_request_id c') (triage_admin_requests d') = None" for actor
    using assms(11,12) t2 r1 by (auto simp: find_None_iff)
  have v: "po_version p = cg_expected_version c + 1" using s by blast
  have "save_policy_revision e p' (cg_expected_version c') actor d' =
      (Inl (HTTPException 409 ''policy revision changed; refresh before saving''), d')" for actor
    using hv v assms(10) by (simp add: save_policy_revision_def)
  then have "change_body e c' actor d' = (Inl (HTTPException 409 ''policy revision changed; refresh before saving''), d')" for actor
    using none' assms(8) by (simp add: change_body_def bindM_Inl)
  then have "save_policy e body' auth' d' = (Inl (HTTPException 409 ''policy revision changed; refresh before saving''), d')"
    using assms(7,13) by (simp add: save_policy_def admin_change_def as_analyst_def bindM_Inr bindM_Inl transaction_def)
  then show ?thesis using pf v assms(6) by simp
qed

definition demo_admin_env :: env where
  "demo_admin_env = demo_env\<lparr>permissions_for := (\<lambda>r. [''triage:manage''])\<rparr>"

definition demo_edit :: "string \<Rightarrow> jobj" where
  "demo_edit i = [(''request_id'', JStr i), (''expected_version'', JInt 0), (''policy'', JObj [])]"

definition demo_change :: "string \<Rightarrow> change" where
  "demo_change i = \<lparr>cg_request_id = i, cg_expected_version = 0, cg_detail = PolicyChange demo_policy\<rparr>"

lemma demo_parse_edit: "id_text i \<Longrightarrow> parse_policy_change demo_admin_env (demo_edit i) = Some (demo_change i)"
  by (simp add: parse_policy_change_def demo_edit_def demo_change_def only_keys_def version_field_def demo_admin_env_def jget_def)

lemma demo_admin_permission:
  assumes "analyst_credentials d = [demo_analyst ''ana'' ''tok'' ''admin'']"
  shows "require_analyst_permission demo_admin_env (Some ''Bearer tok'') ''triage:manage'' d = (Inr ''ana'', d)"
proof -
  have "bearer_token (Some (''Bearer '' @ ''tok'')) = Some ''tok''" by (subst bearer_token_iff) (simp add: py_len_def)
  then have r: "require_analyst_token demo_admin_env (Some ''Bearer tok'') d = (Inr ''ana'', d)"
    unfolding require_analyst_token_def using assms by (simp add: digest_def demo_admin_env_def)
  then show ?thesis
    using assms by (simp add: require_analyst_permission_def analyst_access_def bindM_Inr demo_admin_env_def)
qed

lemma demo_saves:
  "\<exists>r d'. save_policy demo_admin_env (demo_edit ''q1'') (Some ''Bearer tok'')
      (empty_db\<lparr>analyst_credentials := [demo_analyst ''ana'' ''tok'' ''admin'']\<rparr>) = (Inr r, d') \<and>
    analyst_credentials d' = [demo_analyst ''ana'' ''tok'' ''admin'']"
proof -
  let ?e = demo_admin_env and ?c = "demo_change ''q1''" and ?actor = "''analyst:ana''"
  define d where "d = empty_db\<lparr>analyst_credentials := [demo_analyst ''ana'' ''tok'' ''admin'']\<rparr>"
  have id: "id_text ''q1''" by code_simp
  have perm: "require_analyst_permission ?e (Some ''Bearer tok'') ''triage:manage'' d = (Inr ''ana'', d)"
    by (rule demo_admin_permission) (simp add: d_def)
  have c: "cg_detail ?c = PolicyChange demo_policy" "cg_request_id ?c = ''q1''" "cg_expected_version ?c = 0" "operation ?c = ''policy''"
    "triage_admin_requests d = []"
    by (simp_all add: demo_change_def operation_def d_def)
  have sel: "po_rule_id demo_policy = ''R1''" "po_version demo_policy = 1" by (simp_all add: demo_policy_def)
  define d1 where "d1 = d\<lparr>triage_policy_revisions := [revision ?e demo_policy ?actor],
     triage_policy_heads := [\<lparr>th_rule_id = ''R1'', th_version = 1\<rparr>]\<rparr>"
  have 1: "save_policy_revision ?e demo_policy 0 ?actor d = (Inr [(''policy'', JObj (po_dump demo_policy))], d1)"
    by (simp add: save_policy_revision_def head_version_def policy_for_def d_def insert_policy_revision_def sel upsert_def
        d1_def revision_def bindM_assoc bindM_raise_if)
  have "audit_inv (sha256 ?e) d1"
    using audit_inv_empty [of "\<lambda>t. t"]
    by (simp add: d1_def d_def audit_inv_def audit_inv_at_def keyed_def source_rows_def demo_admin_env_def sha256_demo_env)
  moreover have "uuid4 ?e (draws d1) \<notin> sa_event_id ` set (response_security_audit d1)" by (simp add: d1_def d_def)
  ultimately obtain d2 where 2: "record_event ?e ''auto_triage_policy_changed'' ?actor None (Some ''q1'')
      (jupdate [(''access_policy_version'', JInt 3)] (change_dump ?c)) d1 = (Inr (), d2)"
    using record_event_runs by blast
  have a: "audit_only d1 d2" using audit_only_writers(4) 2 by (rule stays_run)
  then have t: "triage_admin_requests d2 = []" "analyst_credentials d2 = [demo_analyst ''ana'' ''tok'' ''admin'']"
    using audit_onlyD(6,25) by (fastforce simp: d1_def d_def)+
  have "\<exists>r d'. change_body ?e ?c ?actor d = (Inr r, d') \<and> analyst_credentials d' = [demo_analyst ''ana'' ''tok'' ''admin'']"
    using 1 2 t by (simp add: change_body_def c bindM_Inr insert_admin_request_def bindM_assoc bindM_raise_if)
  then show ?thesis
    using perm demo_parse_edit [OF id]
    by (auto simp: save_policy_def admin_change_def as_analyst_def bindM_Inr d_def [symmetric])
qed

theorem policy_edits_are_not_lost_witness:
  "\<exists>r d'. save_policy demo_admin_env (demo_edit ''q1'') (Some ''Bearer tok'')
      (empty_db\<lparr>analyst_credentials := [demo_analyst ''ana'' ''tok'' ''admin'']\<rparr>) = (Inr r, d') \<and>
    policy_for d' ''R1'' = Some (po_dump demo_policy) \<and>
    save_policy demo_admin_env (demo_edit ''q2'') (Some ''Bearer tok'') d' =
      (Inl (HTTPException 409 ''policy revision changed; refresh before saving''), d')"
proof -
  obtain r d' where s: "save_policy demo_admin_env (demo_edit ''q1'') (Some ''Bearer tok'')
      (empty_db\<lparr>analyst_credentials := [demo_analyst ''ana'' ''tok'' ''admin'']\<rparr>) = (Inr r, d')"
    "analyst_credentials d' = [demo_analyst ''ana'' ''tok'' ''admin'']" using demo_saves by blast
  obtain r' d'' where t: "save_policy demo_admin_env (demo_edit ''q2'') (Some ''Bearer tok'') d' = (r', d'')" by fastforce
  have id: "id_text ''q1''" "id_text ''q2''" by code_simp+
  show ?thesis
    using policy_edits_are_not_lost [OF s(1) demo_parse_edit [OF id(1)] _ _ _ t demo_parse_edit [OF id(2)],
        where b = "''ana''" and p = demo_policy and p' = demo_policy] demo_admin_permission [OF s(2)] s(1) t
    by (simp add: demo_change_def demo_policy_def)
qed

end
