(* ===== verification/Lifecycle.thy ===== *)
theory Lifecycle
  imports Automatic TriageAdmin
begin

text \<open>
  The states the code ever writes: no command is pending, and a response is only ever pending, authorized, rejected or
  expired. Every handler keeps this, whatever it finds in the tables.
\<close>

definition verdict_state :: "lifecycle \<Rightarrow> bool" where
  "verdict_state s \<longleftrightarrow> s \<in> {PENDING, AUTHORIZED, REJECTED, EXPIRED}"

definition lawful_states :: "db \<Rightarrow> bool" where
  "lawful_states d \<longleftrightarrow> (\<forall>c\<in>set (commands d). cm_lifecycle_state c \<noteq> PENDING) \<and>
    (\<forall>r\<in>set (response_actions d). verdict_state (ra_lifecycle_state r))"

definition lawful :: "db \<Rightarrow> db \<Rightarrow> bool" where
  "lawful d d' \<longleftrightarrow> (lawful_states d \<longrightarrow> lawful_states d')"

lemma lawful_same: "commands d' = commands d \<Longrightarrow> response_actions d' = response_actions d \<Longrightarrow> lawful d d'"
  by (simp add: lawful_def lawful_states_def)

interpretation lawful: blind_to_identities lawful
  by unfold_locales (auto simp: lawful_same audit_onlyD identities_onlyD, auto simp: lawful_def)

lemma lawful_modify:
  "(\<And>d. commands (f d) = commands d) \<Longrightarrow> (\<And>d. response_actions (f d) = response_actions d) \<Longrightarrow> stays lawful (modify f)"
  by (simp add: stays_def lawful_same)

lemmas lawful_reads = reads_only [THEN stays_read, of lawful, OF lawful.R_refl]
  checks_change_nothing [THEN stays_read, of lawful, OF lawful.R_refl]
  draws_only_operations [THEN draws_only_stays, THEN lawful.stays_blind]
  draws_only_triage_target [THEN draws_only_stays, THEN lawful.stays_blind]
  capture_plan_reads [THEN stays_read, of lawful, OF lawful.R_refl]
  read_checks [THEN stays_read, of lawful, OF lawful.R_refl]
  filterM_reads [OF read_checks(3), THEN stays_read, of lawful, OF lawful.R_refl]
  draws_only_choose_rows [THEN draws_only_stays, THEN lawful.stays_blind]

lemma lawful_set_command:
  "(\<And>r. cm_lifecycle_state (f r) \<noteq> PENDING) \<Longrightarrow> stays lawful (modify (set_command f i))"
  by (auto simp: stays_def lawful_def lawful_states_def set_command_def set_update_where)

lemma lawful_insert_command: "cm_lifecycle_state c \<noteq> PENDING \<Longrightarrow> stays lawful (insert_command c)"
  unfolding insert_command_def
  by (intro lawful.stays_structural) (auto simp: stays_def lawful_def lawful_states_def)

lemma lawful_responses:
  assumes "\<And>r. verdict_state (ra_lifecycle_state r) \<Longrightarrow> verdict_state (ra_lifecycle_state (f r))"
  shows "stays lawful (modify (set_response f i))" "stays lawful (modify (decide_pending f i))"
  using assms by (auto simp: stays_def lawful_def lawful_states_def set_response_def decide_pending_def set_update_where)

lemma lawful_insert_response_row: "verdict_state (ra_lifecycle_state r) \<Longrightarrow> stays lawful (insert_response_row r)"
  unfolding insert_response_row_def
  by (intro lawful.stays_structural) (auto simp: stays_def lawful_def lawful_states_def)

lemma lawful_inserts: "stays lawful (insert_run run)" "stays lawful (insert_item it)" "stays lawful (insert_request_key k)"
  "stays lawful (insert_campaign g)"
  unfolding insert_run_def insert_item_def insert_request_key_def insert_campaign_def
  by (intro lawful.stays_structural lawful_modify; simp)+

lemma lawful_queue:
  "stays lawful (authorize_and_enqueue e owns c actor alert_id)"
  "stays lawful (enqueue e c token)"
  "stays lawful (expire_stale_commands e now_iso)"
  "stays lawful (cancel_queued e response_id actor reason)"
  unfolding enqueue_def Let_def expire_stale_commands_def cancel_queued_def authorize_and_enqueue_def enqueue_body_def
    on_integrity_error_def
  by (intro lawful.stays_structural lawful.writers lawful_reads lawful_set_command lawful_insert_command stays_splits
      stays_owned; simp)+

lemma lawful_insert_response_action:
  "verdict_state state \<Longrightarrow> stays lawful (insert_response_action e alert_id action tier state target reason actor)"
  unfolding insert_response_action_def capture_plan_def
  by (intro lawful.stays_structural lawful.writers lawful_reads lawful_insert_response_row lawful_modify stays_splits;
      simp add: staged_row_def)

lemma verdict_states [simp]: "verdict_state PENDING" "verdict_state AUTHORIZED" "verdict_state REJECTED" "verdict_state EXPIRED"
  by (simp_all add: verdict_state_def)

lemmas verdict_writes = requested_by_def rejected_def authorized_def

lemma lawful_decisions:
  "stays lawful (expire_stale_response_actions e)"
  "stays lawful (reject_response_action e response_id actor reason)"
  "stays lawful (stage_requested e alert_id action tier target reason actor origin agent host)"
  unfolding expire_stale_response_actions_def reject_response_action_def stage_requested_def
  by (intro lawful.stays_structural lawful.writers lawful_responses lawful_insert_response_action stays_splits;
      simp add: verdict_writes)+

lemma lawful_authorize_response_action: "stays lawful (authorize_response_action e response_id actor)"
  unfolding authorize_response_action_def check_requested_def detection_target_changed_def get_attr_def reject_row_def
    enqueue_response_def mark_authorized_def
  by (intro lawful.stays_structural lawful.writers lawful_responses lawful_reads lawful_queue stays_splits; simp add: verdict_writes)

lemma lawful_start: "stays lawful (start e alert_id)"
  unfolding start_def triage_action_def Let_def
  by (intro lawful.stays_structural lawful.writers lawful_inserts lawful_reads lawful_decisions
      lawful_authorize_response_action stays_splits)

lemma lawful_triage:
  "stays lawful (reconcile e agent_id)"
  "stays lawful (cancel_run e alert_id actor reason)"
  unfolding reconcile_def cancel_run_def
  by (intro lawful.stays_structural lawful.writers lawful_reads lawful_decisions lawful_queue lawful_modify stays_splits; simp)+

lemma lawful_on_alert_created: "stays lawful (on_alert_created e rec)"
  unfolding on_alert_created_def on_alert_created_body_def respond_def auto_authorize_def Let_def
  by (intro lawful.stays_structural lawful.writers lawful_start lawful_responses
      lawful_insert_response_action lawful_authorize_response_action stays_splits; simp add: verdict_writes)

lemmas lawful_response_work = lawful_decisions lawful_authorize_response_action lawful_start lawful_triage lawful_on_alert_created

lemma final_state_lawful: "final_state t = Some s \<Longrightarrow> s \<noteq> PENDING"
  by (auto split: if_splits)

lemma lawful_known_state:
  assumes "\<And>s. x = Some s \<Longrightarrow> s \<noteq> PENDING"
  shows "stays lawful (bindM (require_some x y) (\<lambda>s. modify (set_command (\<lambda>r. r\<lparr>cm_lifecycle_state := s\<rparr>) i)))"
proof (cases x)
  case (Some s)
  have "stays lawful (modify (set_command (\<lambda>r. r\<lparr>cm_lifecycle_state := s\<rparr>) i))"
    using assms Some by (intro lawful_set_command) simp
  then show ?thesis by (simp add: Some stays_def)
qed (simp add: lawful.stays_structural)

lemma lawful_agent_operations:
  "stays lawful (poll e agent_id auth durable es256 header)"
  "stays lawful (accept e agent_id command_id auth)"
  "stays lawful (submit_result e agent_id result auth)"
  unfolding poll_def poll_body_def deliver_def hand_out_def accept_def accept_body_def accept_owned_def refuse_acceptance_def
    submit_result_def submit_body_def submit_owned_def keep_receipt_def keep_outcome_def Let_def
  by (intro lawful_known_state lawful.stays_structural lawful.writers lawful_reads lawful_queue lawful_response_work lawful_set_command
      lawful_modify stays_splits; simp add: upsert_channel_def dispatched_def final_state_lawful del: final_state.simps)+

lemma lawful_stage_manual_request: "stays lawful (stage_manual_request e q actor)"
  unfolding stage_manual_request_def stage_fresh_def
  by (intro lawful.stays_structural lawful_reads lawful_queue lawful_response_work lawful_inserts stays_splits)

lemma lawful_campaign_items: "stays lawful (campaign_items e q actor index items)"
proof (induction items arbitrary: index)
  case (Cons item items)
  show ?case
    unfolding campaign_items.simps campaign_item_def Let_def
    by (intro lawful.stays_structural lawful.writers lawful_stage_manual_request Cons.IH stays_splits)
qed (simp add: lawful.stays_ret)

lemma lawful_analyst_operations:
  "stays lawful (expire_pending e)"
  "stays lawful (create_manual e body auth)"
  "stays lawful (create_campaign e body auth)"
  "stays lawful (cancel e response_id body auth)"
  "stays lawful (authorize e response_id auth)"
  "stays lawful (reject e response_id body auth)"
  unfolding expire_pending_def create_manual_def create_campaign_def run_campaign_def cancel_def authorize_def
    authorize_body_def check_approver_def separate_approver_def reject_def Let_def
  by (intro lawful.stays_structural lawful_reads analyst_reads lawful.R_refl lawful_queue
      lawful_response_work lawful_stage_manual_request lawful_campaign_items lawful_inserts stays_splits)+

lemma lawful_triage_admin:
  "stays lawful (save_policy e body auth)"
  "stays lawful (save_asset e body auth)"
  "stays lawful (cancel_triage_run e alert_id body auth)"
  "stays lawful (runs e auth limit offset)"
  unfolding save_policy_def save_asset_def admin_change_def change_body_def save_policy_revision_def save_asset_class_def
    insert_policy_revision_def insert_admin_request_def cancel_triage_run_def runs_def run_view_of_def item_view_of_def
  by (intro lawful.stays_structural lawful.writers lawful_reads analyst_reads lawful.R_refl lawful_modify
      lawful_response_work stays_case_change stays_splits; simp)+

end
