(* ===== verification/Telemetry.thy ===== *)
theory Telemetry
  imports Guard
begin

text \<open>
  The tables of the telemetry and incident side of the database, which the response side never touches:
  the three detection queues, the projections of canonical endpoint state, the Linux streams, and incidents.
  As in \<open>Schema\<close> a table is the list of its rows in rowid order.
\<close>

section \<open>Detection queues\<close>

datatype detect_state = Pending | Claimed | Done | Failed

record event_row =
  ev_event_id :: string
  ev_agent_id :: string
  ev_host_id :: string
  ev_category :: string
  ev_event_timestamp :: string
  ev_ingested_at :: string
  ev_schema_version :: string
  ev_clock_skew :: int
  ev_raw_json :: string
  ev_detect_state :: detect_state
  ev_detect_attempts :: int
  ev_claimed_at :: "string option"

record endpoint_record_row =
  er_agent_id :: string
  er_host_id :: string
  er_record_id :: string
  er_kind :: string
  er_category :: string
  er_observed_at :: string
  er_ingested_at :: string
  er_payload_digest :: string
  er_raw_json :: string
  er_detect_state :: detect_state
  er_detect_attempts :: int
  er_claimed_at :: "string option"

section \<open>Canonical endpoint state\<close>

text \<open>The newest projection per agent, category and kind; its ordering columns are NULL for unordered records.\<close>

record latest_row =
  la_agent_id :: string
  la_category :: string
  la_kind :: string
  la_observed_at :: string
  la_record_id :: string
  la_raw_json :: string
  la_installation_id :: "string option"
  la_generation :: "string option"
  la_collector_epoch :: "string option"
  la_sequence :: "string option"

record generation_row =
  ge_agent_id :: string
  ge_installation_id :: string
  ge_generation :: string
  ge_collector_epoch :: string

record active_row =
  as_agent_id :: string
  as_installation_id :: string
  as_generation :: string
  as_collector_epoch :: string

record freshness_row =
  fr_agent_id :: string
  fr_nonce_digest :: string
  fr_server_epoch :: string
  fr_issued_ns :: string
  fr_consumed :: int

record capture_age_row =
  cg_agent_id :: string
  cg_record_id :: string
  cg_server_epoch :: string
  cg_received_ns :: string
  cg_age_upper_bound_ms :: string

section \<open>Linux sensor streams\<close>

record linux_record_row =
  lr_agent_id :: string
  lr_record_id :: string
  lr_sensor_id :: string
  lr_boot_id :: string
  lr_seq :: int
  lr_host_id :: string
  lr_record_type :: string
  lr_type :: string
  lr_event_time :: string
  lr_ingested_at :: string
  lr_digest :: string
  lr_raw_json :: string

record linux_stream_row =
  ls_agent_id :: string
  ls_sensor_id :: string
  ls_boot_id :: string
  ls_host_id :: string
  ls_first_seq :: int
  ls_highest_seq :: int
  ls_acked_through :: int
  ls_record_count :: int
  ls_updated_at :: string

record linux_detection_row =
  ld_agent_id :: string
  ld_record_id :: string
  ld_state :: detect_state
  ld_attempts :: int
  ld_claimed_at :: "string option"

record linux_health_row =
  lh_host_id :: string
  lh_agent_id :: string
  lh_record_id :: string
  lh_event_time :: string
  lh_received_at :: string
  lh_health_json :: json

section \<open>Incidents\<close>

text \<open>Scores are REAL columns and keep the number they were given.\<close>

record incident_row =
  in_incident_id :: string
  in_host_id :: "string option"
  in_agent_id :: "string option"
  in_status :: string
  in_severity :: "string option"
  in_level :: "int option"
  in_score :: "json option"
  in_confidence :: "json option"
  in_tactics_json :: "json list"
  in_stage_count :: int
  in_root_process :: "string option"
  in_root_pid :: "int option"
  in_revision :: int
  in_latest_alert_id :: string
  in_first_seen :: "string option"
  in_last_seen :: "string option"
  in_incident_json :: json
  in_created_at :: string
  in_updated_at :: string

record member_row =
  ia_incident_id :: string
  ia_alert_id :: string
  ia_role :: string

record incident_audit_row =
  iu_audit_id :: string
  iu_incident_id :: string
  iu_event :: string
  iu_actor :: string
  iu_detail :: "json option"
  iu_occurred_at :: string

section \<open>The tables together\<close>

record telemetry =
  events :: "event_row list"
  endpoint_records :: "endpoint_record_row list"
  endpoint_latest :: "latest_row list"
  endpoint_generations :: "generation_row list"
  endpoint_active_streams :: "active_row list"
  endpoint_freshness_challenges :: "freshness_row list"
  endpoint_capture_age :: "capture_age_row list"
  linux_endpoint_records :: "linux_record_row list"
  linux_endpoint_streams :: "linux_stream_row list"
  linux_endpoint_detection :: "linux_detection_row list"
  linux_endpoint_health :: "linux_health_row list"
  incidents :: "incident_row list"
  incident_alerts :: "member_row list"
  incident_audit :: "incident_audit_row list"

definition empty_telemetry :: telemetry where
  "empty_telemetry = \<lparr>events = [], endpoint_records = [], endpoint_latest = [], endpoint_generations = [],
    endpoint_active_streams = [], endpoint_freshness_challenges = [], endpoint_capture_age = [], linux_endpoint_records = [],
    linux_endpoint_streams = [], linux_endpoint_detection = [], linux_endpoint_health = [], incidents = [],
    incident_alerts = [], incident_audit = []\<rparr>"

text \<open>\<open>INSERT ... ON CONFLICT(key) DO UPDATE\<close>, with the row an existing one becomes.\<close>

definition upsert_by :: "('r \<Rightarrow> 'k) \<Rightarrow> 'r \<Rightarrow> ('r \<Rightarrow> 'r) \<Rightarrow> 'r list \<Rightarrow> 'r list" where
  "upsert_by key r f rows =
    (if key r \<in> key ` set rows then update_where (\<lambda>x. key x = key r) f rows else rows @ [r])"

lemma find_by_upsert_by:
  assumes "\<And>x. key x = key r \<Longrightarrow> key (f x) = key r"
  shows "find_by key k (upsert_by key r f rows) =
    (if k = key r then Some (case find_by key k rows of None \<Rightarrow> r | Some x \<Rightarrow> f x) else find_by key k rows)"
proof (cases "key r \<in> key ` set rows")
  case True
  have "find_by key k (update_where (\<lambda>x. key x = key r) f rows) =
      (if k = key r then map_option f (find_by key k rows) else find_by key k rows)"
    using assms by (induction rows) auto
  moreover have "\<exists>x. find_by key (key r) rows = Some x" using True by (metis find_by_ex imageE)
  ultimately show ?thesis using True by (auto simp: upsert_by_def)
next
  case False
  then have "find_by key (key r) rows = None" by (auto simp: find_by_None_iff image_iff)
  then show ?thesis using False by (auto simp: upsert_by_def find_by_append split: option.splits)
qed

section \<open>The detection worker's state\<close>

text \<open>
  The worker sees the whole database, and two things outside it: the console's alert file \<open>'f\<close>, which the vendored
  writer appends to, and the engine's provenance graph \<open>'g\<close>. A rollback undoes neither.
\<close>

record ('f, 'g) world =
  core :: db
  telem :: telemetry
  alerts_file :: 'f
  graph :: 'g

definition on_core :: "(db, 'a) act \<Rightarrow> (('f, 'g) world, 'a) act" where
  "on_core m = (\<lambda>w. case m (core w) of (r, d) \<Rightarrow> (r, w\<lparr>core := d\<rparr>))"

definition on_telem :: "(telemetry, 'a) act \<Rightarrow> (('f, 'g) world, 'a) act" where
  "on_telem m = (\<lambda>w. case m (telem w) of (r, t) \<Rightarrow> (r, w\<lparr>telem := t\<rparr>))"

definition on_file :: "('f, 'a) act \<Rightarrow> (('f, 'g) world, 'a) act" where
  "on_file m = (\<lambda>w. case m (alerts_file w) of (r, f) \<Rightarrow> (r, w\<lparr>alerts_file := f\<rparr>))"

definition world_transaction :: "(('f, 'g) world, 'a) act \<Rightarrow> (('f, 'g) world, 'a) act" where
  "world_transaction m = (\<lambda>w. case m w of
     (Inl x, w') \<Rightarrow> (Inl x, w'\<lparr>core := core w, telem := telem w\<rparr>)
   | (Inr a, w') \<Rightarrow> (Inr a, w'))"

lemma on_core_Inr_iff: "on_core m w = (Inr a, w') \<longleftrightarrow> (\<exists>d. m (core w) = (Inr a, d) \<and> w' = w\<lparr>core := d\<rparr>)"
  by (auto simp: on_core_def split: prod.splits)

lemma on_telem_Inr_iff: "on_telem m w = (Inr a, w') \<longleftrightarrow> (\<exists>t. m (telem w) = (Inr a, t) \<and> w' = w\<lparr>telem := t\<rparr>)"
  by (auto simp: on_telem_def split: prod.splits)

lemma on_file_Inr_iff: "on_file m w = (Inr a, w') \<longleftrightarrow> (\<exists>f. m (alerts_file w) = (Inr a, f) \<and> w' = w\<lparr>alerts_file := f\<rparr>)"
  by (auto simp: on_file_def split: prod.splits)

lemma world_transaction_Inr_iff [simp]: "world_transaction m w = (Inr a, w') \<longleftrightarrow> m w = (Inr a, w')"
  by (auto simp: world_transaction_def split: prod.splits sum.splits)

text \<open>Relations on the database alone, and on the telemetry alone.\<close>

abbreviation of_core :: "(db \<Rightarrow> db \<Rightarrow> bool) \<Rightarrow> ('f, 'g) world \<Rightarrow> ('f, 'g) world \<Rightarrow> bool" where
  "of_core R \<equiv> (\<lambda>w w'. R (core w) (core w'))"

abbreviation of_telem :: "(telemetry \<Rightarrow> telemetry \<Rightarrow> bool) \<Rightarrow> ('f, 'g) world \<Rightarrow> ('f, 'g) world \<Rightarrow> bool" where
  "of_telem R \<equiv> (\<lambda>w w'. R (telem w) (telem w'))"

lemma stays_on_core: "stays R m \<Longrightarrow> stays (of_core R) (on_core m)"
  by (auto simp: stays_def on_core_def split: prod.splits) (metis snd_conv)

lemma stays_on_telem: "stays R m \<Longrightarrow> stays (of_telem R) (on_telem m)"
  by (auto simp: stays_def on_telem_def split: prod.splits) (metis snd_conv)

end
