(* ===== verification/Incidents.thy ===== *)
theory Incidents
  imports Telemetry Response
begin

text \<open>
  \<^verbatim>\<open>manager/detection/store.py\<close>: persisting the engine's alerts and folding incident alerts into incidents; and
  the status change of \<^verbatim>\<open>manager/routers/incidents.py\<close>. An alert is its \<open>to_dict()\<close>.
\<close>

section \<open>Values bound to columns\<close>

text \<open>A TEXT column turns the other scalars into text; SQLite cannot bind a list or a dictionary.\<close>

definition bind_text :: "json \<Rightarrow> ('s, string option) act" where
  "bind_text v =
    (case v of
       JNull \<Rightarrow> ret None
     | JStr t \<Rightarrow> ret (Some t)
     | JInt i \<Rightarrow> ret (Some (int_str i))
     | JBool b \<Rightarrow> ret (Some (if b then ''1'' else ''0''))
     | JFloat t \<Rightarrow> ret (Some t)
     | _ \<Rightarrow> throw (TypeError ''type is not supported''))"

text \<open>An INTEGER of SQLite has 64 bits; Python refuses to bind a larger one.\<close>

definition bind_int :: "int option \<Rightarrow> ('s, int option) act" where
  "bind_int x =
    (case x of
       None \<Rightarrow> ret None
     | Some i \<Rightarrow> if - (2 ^ 63) \<le> i \<and> i < 2 ^ 63 then ret (Some i) else throw (RuntimeError ''Python int too large to convert to SQLite INTEGER''))"

definition as_int :: "json \<Rightarrow> int option" where
  "as_int v = (case v of JInt i \<Rightarrow> Some i | _ \<Rightarrow> None)"

text \<open>The number of a REAL column; \<open>float\<close> of an integer is the same number.\<close>

definition as_float :: "json \<Rightarrow> json option" where
  "as_float v = (case v of JInt i \<Rightarrow> Some v | JFloat t \<Rightarrow> Some v | _ \<Rightarrow> None)"

text \<open>The level of an alert is an integer or absent; the column keeps no other kind here.\<close>

definition bind_level :: "json \<Rightarrow> ('s, int option) act" where
  "bind_level v =
    (case v of JNull \<Rightarrow> ret None | JInt i \<Rightarrow> bind_int (Some i) | JBool b \<Rightarrow> ret (Some (if b then 1 else 0))
     | _ \<Rightarrow> throw (TypeError ''level''))"

section \<open>Alerts\<close>

text \<open>
  The row of an alert, for the time it is written at. Without the rule that the schema requires there is no row.
\<close>

definition bind_alert :: "jobj \<Rightarrow> string option \<Rightarrow> ('s, string \<times> (string \<Rightarrow> alert_row) option) act" where
  "bind_alert rec agent_id =
    bindM (require_some (map_of rec ''alert_id'') (KeyError ''alert_id'')) (\<lambda>alert_id0.
    bindM (require_some (map_of rec ''rule_id'') (KeyError ''rule_id'')) (\<lambda>rule_id0.
    bindM (bind_text alert_id0) (\<lambda>alert_id1.
    bindM (require_some alert_id1 (TypeError ''alert_id'')) (\<lambda>alert_id.
    bindM (bind_text rule_id0) (\<lambda>rule_id1.
    bindM (bind_level (jget ''level'' rec)) (\<lambda>level.
    bindM (bind_text (jget ''severity'' rec)) (\<lambda>severity.
    bindM (bind_text (jget ''host_id'' rec)) (\<lambda>host_id.
    bindM (bind_text (jget ''event_id'' rec)) (\<lambda>event_id.
    bindM (bind_text (jget ''timestamp'' rec)) (\<lambda>stamp.
    bindM (bind_text (jget ''mitre_tactic'' rec)) (\<lambda>tactic.
    bindM (bind_text (jget ''mitre_technique'' rec)) (\<lambda>technique.
    bindM (bind_text (jget ''detection_source'' rec)) (\<lambda>source.
    bindM (bind_text (jget ''incident_id'' rec)) (\<lambda>incident_id.
    ret (alert_id, map_option (\<lambda>rule_id created_at.
      \<lparr>al_alert_id = alert_id, al_rule_id = rule_id, al_level = level, al_severity = severity, al_host_id = host_id,
       al_agent_id = agent_id, al_event_id = event_id, al_alert_timestamp = stamp, al_created_at = created_at,
       al_mitre_tactic = tactic, al_mitre_technique = technique, al_alert_json = JObj rec,
       al_detection_source = source, al_incident_id = incident_id\<rparr>) rule_id1)))))))))))))))"

text \<open>INSERT OR IGNORE: a row whose key is taken is left out.\<close>

definition insert_alert :: "env \<Rightarrow> jobj \<Rightarrow> string option \<Rightarrow> (db, bool) act" where
  "insert_alert e rec agent_id =
    bindM (bind_alert rec agent_id) (\<lambda>(alert_id, row).
    bindM (gets alerts) (\<lambda>rows.
    case row of
      None \<Rightarrow> ret False
    | Some r \<Rightarrow>
       if alert_id \<in> al_alert_id ` set rows then ret False
       else seqM (modify (\<lambda>d. d\<lparr>alerts := alerts d @ [r (iso_now e)]\<rparr>)) (ret True)))"

section \<open>Reading an incident alert\<close>

text \<open>
  \<open>str(v)\<close> of a scalar. The text of a list or a dictionary starts with a bracket: it is no time and no identifier of an alert.
\<close>

definition str_of :: "json \<Rightarrow> string option" where
  "str_of v =
    (case v of JStr t \<Rightarrow> Some t | JInt i \<Rightarrow> Some (int_str i) | JFloat t \<Rightarrow> Some t
     | JBool b \<Rightarrow> Some (if b then ''True'' else ''False'') | JNull \<Rightarrow> Some ''None'' | _ \<Rightarrow> None)"

text \<open>The characters of a text, and what a \<open>for\<close> loop sees of a JSON value.\<close>

function py_chars :: "string \<Rightarrow> string list" where
  "py_chars [] = []"
| "py_chars (c # cs) = (c # takeWhile continuation cs) # py_chars (dropWhile continuation cs)"
  by pat_completeness auto
termination
  by (relation "measure length") (auto simp: length_dropWhile_le less_Suc_eq_le)

definition py_iter :: "json \<Rightarrow> ('s, json list) act" where
  "py_iter v =
    (case v of
       JArr xs \<Rightarrow> ret xs
     | JObj d \<Rightarrow> ret (map (JStr \<circ> fst) d)
     | JStr t \<Rightarrow> ret (map JStr (py_chars t))
     | _ \<Rightarrow> throw (TypeError ''object is not iterable''))"

text \<open>The part after the last \<open>-R\<close>, if there is one; a revision is read from ASCII digits.\<close>

fun after_revision_mark :: "string \<Rightarrow> string option" where
  "after_revision_mark [] = None"
| "after_revision_mark (c # cs) =
    (case after_revision_mark cs of
       Some t \<Rightarrow> Some t
     | None \<Rightarrow> if c = CHR ''-'' \<and> take 1 cs = ''R'' then Some (drop 1 cs) else None)"

definition revision_of :: "jobj \<Rightarrow> jobj \<Rightarrow> int" where
  "revision_of rec evidence =
    (case as_int (jget ''revision'' evidence) of
       Some n \<Rightarrow> n
     | None \<Rightarrow>
        (case str_of (jor (jget ''alert_id'' rec) (JStr [])) of
           None \<Rightarrow> 0
         | Some t \<Rightarrow>
            (case after_revision_mark t of
               Some suffix \<Rightarrow> if isdecimal suffix then int (str_nat suffix) else 0
             | None \<Rightarrow> 0)))"

definition drop_Z :: "string \<Rightarrow> string" where
  "drop_Z t = (if t \<noteq> [] \<and> last t = CHR ''Z'' then butlast t else t)"

definition normalize_ts :: "json \<Rightarrow> string option" where
  "normalize_ts v =
    (if \<not> truthy v then None
     else (case str_of v of
             None \<Rightarrow> None
           | Some t \<Rightarrow>
              (case fromisoformat (drop_Z (strip t)) of
                 None \<Rightarrow> None
               | Some m \<Rightarrow> Some (iso_at (if utcoffset m = None then m else of_micros (micros m))))))"

fun stage_dict :: "json \<Rightarrow> jobj option" where
  "stage_dict (JObj d) = Some d"
| "stage_dict _ = None"

definition stages_of :: "jobj \<Rightarrow> ('s, jobj list) act" where
  "stages_of evidence = bindM (py_iter (jor (jget ''stages'' evidence) (JArr []))) (\<lambda>xs. ret (List.map_filter stage_dict xs))"

definition least :: "string list \<Rightarrow> string option" where
  "least ts = (case ts of [] \<Rightarrow> None | t # r \<Rightarrow> Some (foldl min t r))"

definition greatest :: "string list \<Rightarrow> string option" where
  "greatest ts = (case ts of [] \<Rightarrow> None | t # r \<Rightarrow> Some (foldl max t r))"

definition seen_window :: "jobj \<Rightarrow> jobj \<Rightarrow> ('s, string option \<times> string option) act" where
  "seen_window rec evidence =
    bindM (stages_of evidence) (\<lambda>stages.
    let times = List.map_filter normalize_ts (map (jget ''time'') stages @ [jget ''timestamp'' rec])
    in ret (least times, greatest times))"

section \<open>Members and audit\<close>

text \<open>INSERT OR IGNORE into \<open>incident_alerts\<close>; a foreign key that fails is not ignored.\<close>

definition link :: "string \<Rightarrow> string \<Rightarrow> string \<Rightarrow> (('f, 'g) world, unit) act" where
  "link incident_id alert_id role =
    bindM (gets telem) (\<lambda>t.
    if \<exists>m\<in>set (incident_alerts t). ia_incident_id m = incident_id \<and> ia_alert_id m = alert_id then ret ()
    else bindM (gets core) (\<lambda>d.
      seqM (raise_if (incident_id \<notin> in_incident_id ` set (incidents t) \<or> alert_id \<notin> al_alert_id ` set (alerts d)) IntegrityError)
      (on_telem (modify (\<lambda>t. t\<lparr>incident_alerts := incident_alerts t @
         [\<lparr>ia_incident_id = incident_id, ia_alert_id = alert_id, ia_role = role\<rparr>]\<rparr>)))))"

definition stage_ids :: "jobj list \<Rightarrow> string list" where
  "stage_ids stages = sort (remdups (List.map_filter str_of (filter truthy (map (jget ''alert_id'') stages))))"

text \<open>A stage whose alert is not held is skipped.\<close>

definition link_stage :: "string \<Rightarrow> string \<Rightarrow> (('f, 'g) world, unit) act" where
  "link_stage incident_id stage_alert_id =
    bindM (gets core) (\<lambda>d.
    if stage_alert_id \<in> al_alert_id ` set (alerts d) then link incident_id stage_alert_id ''stage'' else ret ())"

definition link_members :: "string \<Rightarrow> string \<Rightarrow> jobj \<Rightarrow> (('f, 'g) world, unit) act" where
  "link_members incident_id alert_id evidence =
    seqM (link incident_id alert_id ''revision'')
    (bindM (stages_of evidence) (\<lambda>stages. forM (link_stage incident_id) (stage_ids stages)))"

definition audit_incident :: "env \<Rightarrow> string \<Rightarrow> string \<Rightarrow> string \<Rightarrow> jobj \<Rightarrow> (('f, 'g) world, unit) act" where
  "audit_incident e incident_id event actor detail =
    bindM (on_core (draw (uuid4 e))) (\<lambda>audit_id.
    bindM (gets telem) (\<lambda>t.
    seqM (raise_if (audit_id \<in> iu_audit_id ` set (incident_audit t) \<or> incident_id \<notin> in_incident_id ` set (incidents t)) IntegrityError)
    (on_telem (modify (\<lambda>t. t\<lparr>incident_audit := incident_audit t @
       [\<lparr>iu_audit_id = audit_id, iu_incident_id = incident_id, iu_event = event, iu_actor = actor,
         iu_detail = Some (JObj detail), iu_occurred_at = iso_now e\<rparr>]\<rparr>)))))"

section \<open>Folding an incident alert\<close>

definition SYSTEM_ACTOR :: string where
  "SYSTEM_ACTOR = ''system:detection''"

text \<open>The columns an incident alert gives; its identity, agent, status and times are the caller's.\<close>

record incident_summary =
  sm_host_id :: "string option"
  sm_severity :: "string option"
  sm_level :: "int option"
  sm_score :: "json option"
  sm_confidence :: "json option"
  sm_tactics :: "json list"
  sm_stage_count :: int
  sm_root_process :: "string option"
  sm_root_pid :: "int option"
  sm_revision :: int
  sm_alert_id :: string
  sm_evidence :: jobj

definition evidence_of :: "jobj \<Rightarrow> jobj" where
  "evidence_of rec = (case jget ''evidence'' rec of JObj d \<Rightarrow> d | _ \<Rightarrow> [])"

definition stage_count_of :: "jobj \<Rightarrow> int" where
  "stage_count_of evidence =
    (case as_int (jget ''stage_count'' evidence) of
       Some n \<Rightarrow> n
     | None \<Rightarrow> (case jor (jget ''stages'' evidence) (JArr []) of JArr xs \<Rightarrow> int (length xs) | _ \<Rightarrow> 0))"

text \<open>What is read of an incident alert before any statement: its tactics, revision and identifier.\<close>

record reading =
  rd_alert_id :: string
  rd_tactics :: "json list"
  rd_revision :: int
  rd_evidence :: jobj

definition read_incident :: "jobj \<Rightarrow> ('s, reading) act" where
  "read_incident rec =
    (let evidence = evidence_of rec in
     bindM (py_iter (jor (jget ''tactics_covered'' evidence) (JArr []))) (\<lambda>tactics.
     bindM (require_some (map_of rec ''alert_id'') (KeyError ''alert_id'')) (\<lambda>alert_id0.
     bindM (bind_text alert_id0) (\<lambda>alert_id1.
     bindM (require_some alert_id1 (TypeError ''alert_id'')) (\<lambda>alert_id.
     ret \<lparr>rd_alert_id = alert_id, rd_tactics = tactics, rd_revision = revision_of rec evidence, rd_evidence = evidence\<rparr>)))))"

text \<open>The summary tuple, bound to the statement that writes it.\<close>

definition bind_summary :: "jobj \<Rightarrow> reading \<Rightarrow> ('s, incident_summary) act" where
  "bind_summary rec rd =
    (let evidence = rd_evidence rd in
     bindM (bind_text (jget ''host_id'' rec)) (\<lambda>host_id.
     bindM (bind_text (jget ''severity'' rec)) (\<lambda>severity.
     bindM (bind_int (as_int (jget ''level'' rec))) (\<lambda>level.
     seqM (bind_int (Some (stage_count_of evidence)))
     (bindM (bind_text (jget ''root_cause_process'' evidence)) (\<lambda>root_process.
      bindM (bind_int (as_int (jget ''root_pid'' evidence))) (\<lambda>root_pid.
      seqM (bind_int (Some (rd_revision rd)))
      (ret \<lparr>sm_host_id = host_id, sm_severity = severity, sm_level = level, sm_score = as_float (jget ''incident_score'' evidence),
            sm_confidence = as_float (jget ''confidence'' rec), sm_tactics = rd_tactics rd, sm_stage_count = stage_count_of evidence,
            sm_root_process = root_process, sm_root_pid = root_pid, sm_revision = rd_revision rd,
            sm_alert_id = rd_alert_id rd, sm_evidence = evidence\<rparr>))))))))"

definition new_incident :: "env \<Rightarrow> string \<Rightarrow> string option \<Rightarrow> incident_summary \<Rightarrow> string option \<Rightarrow> string option \<Rightarrow> incident_row" where
  "new_incident e incident_id agent_id s first_seen last_seen =
    \<lparr>in_incident_id = incident_id, in_host_id = sm_host_id s, in_agent_id = agent_id, in_status = ''open'', in_severity = sm_severity s,
     in_level = sm_level s, in_score = sm_score s, in_confidence = sm_confidence s, in_tactics_json = sm_tactics s,
     in_stage_count = sm_stage_count s, in_root_process = sm_root_process s, in_root_pid = sm_root_pid s, in_revision = sm_revision s,
     in_latest_alert_id = sm_alert_id s, in_first_seen = first_seen, in_last_seen = last_seen,
     in_incident_json = JObj (sm_evidence s), in_created_at = iso_now e, in_updated_at = iso_now e\<rparr>"

definition merge_seen :: "(string list \<Rightarrow> string option) \<Rightarrow> string option \<Rightarrow> string option \<Rightarrow> string option" where
  "merge_seen pick a b = pick (filter (\<lambda>t. t \<noteq> []) (List.map_filter id [a, b]))"

definition revised_incident ::
  "env \<Rightarrow> string option \<Rightarrow> incident_summary \<Rightarrow> string option \<Rightarrow> string option \<Rightarrow> incident_row \<Rightarrow> incident_row" where
  "revised_incident e agent_id s first_seen last_seen r =
    r\<lparr>in_host_id := sm_host_id s, in_severity := sm_severity s, in_level := sm_level s, in_score := sm_score s,
      in_confidence := sm_confidence s, in_tactics_json := sm_tactics s, in_stage_count := sm_stage_count s,
      in_root_process := sm_root_process s, in_root_pid := sm_root_pid s, in_revision := sm_revision s,
      in_latest_alert_id := sm_alert_id s, in_incident_json := JObj (sm_evidence s),
      in_agent_id := (case in_agent_id r of None \<Rightarrow> agent_id | Some g \<Rightarrow> Some g),
      in_first_seen := first_seen, in_last_seen := last_seen, in_updated_at := iso_now e\<rparr>"

definition open_incident ::
  "env \<Rightarrow> jobj \<Rightarrow> string \<Rightarrow> string option \<Rightarrow> reading \<Rightarrow> string option \<times> string option \<Rightarrow> (('f, 'g) world, string) act" where
  "open_incident e rec incident_id agent_id rd seen =
    bindM (bind_summary rec rd) (\<lambda>s.
    seqM (on_telem (modify (\<lambda>t. t\<lparr>incidents := incidents t @ [new_incident e incident_id agent_id s (fst seen) (snd seen)]\<rparr>)))
    (seqM (link_members incident_id (rd_alert_id rd) (rd_evidence rd))
    (seqM (audit_incident e incident_id ''opened'' SYSTEM_ACTOR
            [(''revision'', JInt (rd_revision rd)), (''alert_id'', JStr (rd_alert_id rd)), (''tactics'', JArr (rd_tactics rd))])
    (ret ''opened''))))"

definition revise_incident ::
  "env \<Rightarrow> jobj \<Rightarrow> string \<Rightarrow> string option \<Rightarrow> reading \<Rightarrow> string option \<times> string option \<Rightarrow> incident_row \<Rightarrow> (('f, 'g) world, string) act" where
  "revise_incident e rec incident_id agent_id rd seen existing =
    seqM (link_members incident_id (rd_alert_id rd) (rd_evidence rd))
    (if rd_revision rd \<le> in_revision existing then ret ''unchanged''
     else
       bindM (bind_summary rec rd) (\<lambda>s.
       seqM (on_telem (modify (\<lambda>t. t\<lparr>incidents :=
               update_where (\<lambda>r. in_incident_id r = incident_id \<and> in_revision r < sm_revision s)
                 (revised_incident e agent_id s (merge_seen least (in_first_seen existing) (fst seen))
                    (merge_seen greatest (in_last_seen existing) (snd seen))) (incidents t)\<rparr>)))
       (seqM (audit_incident e incident_id ''revised'' SYSTEM_ACTOR
               [(''from_revision'', JInt (in_revision existing)), (''revision'', JInt (rd_revision rd)),
                (''alert_id'', JStr (rd_alert_id rd)), (''tactics'', JArr (rd_tactics rd))])
       (ret ''revised''))))"

definition fold_incident :: "env \<Rightarrow> jobj \<Rightarrow> string option \<Rightarrow> (('f, 'g) world, string) act" where
  "fold_incident e rec agent_id =
    bindM (seen_window rec (evidence_of rec)) (\<lambda>seen.
    bindM (read_incident rec) (\<lambda>rd.
    bindM (bind_text (jget ''incident_id'' rec)) (\<lambda>incident_id0.
    bindM (require_some incident_id0 IntegrityError) (\<lambda>incident_id.
    bindM (gets telem) (\<lambda>t.
    case find_by in_incident_id incident_id (incidents t) of
      None \<Rightarrow> open_incident e rec incident_id agent_id rd seen
    | Some r \<Rightarrow> revise_incident e rec incident_id agent_id rd seen r)))))"

definition upsert_incident :: "env \<Rightarrow> jobj \<Rightarrow> string option \<Rightarrow> (('f, 'g) world, string option) act" where
  "upsert_incident e rec agent_id =
    (if \<not> truthy (jget ''incident_id'' rec) then ret None
     else bindM (fold_incident e rec agent_id) (\<lambda>outcome. ret (Some outcome)))"

section \<open>The analyst's status\<close>

definition INCIDENT_STATUSES :: "string list" where
  "INCIDENT_STATUSES = [''open'', ''investigating'', ''resolved'', ''false_positive'']"

definition set_incident_status :: "env \<Rightarrow> string \<Rightarrow> string \<Rightarrow> string \<Rightarrow> string option \<Rightarrow> (('f, 'g) world, bool) act" where
  "set_incident_status e incident_id status actor note =
    seqM (raise_if (status \<notin> set INCIDENT_STATUSES) (ValueError ''unknown incident status''))
    (bindM (gets (\<lambda>w. find_by in_incident_id incident_id (incidents (telem w)))) (\<lambda>existing.
     case existing of
       None \<Rightarrow> ret False
     | Some r \<Rightarrow>
        seqM (on_telem (modify (\<lambda>t. t\<lparr>incidents := update_where (\<lambda>x. in_incident_id x = incident_id)
                (\<lambda>x. x\<lparr>in_status := status, in_updated_at := iso_now e\<rparr>) (incidents t)\<rparr>)))
        (seqM (audit_incident e incident_id ''status_changed'' actor
                [(''from'', JStr (in_status r)), (''to'', JStr status), (''note'', jopt note)])
        (ret True))))"

text \<open>\<open>StatusRequest\<close>: exactly a known status and an optional note of at most 2000 characters.\<close>

definition parse_status :: "json \<Rightarrow> ('s, string \<times> string option) act" where
  "parse_status body =
    (case body of
       JObj d \<Rightarrow>
         (case (jget ''status'' d, jget ''note'' d) of
            (JStr status, note) \<Rightarrow>
              if set (map fst d) \<subseteq> {''status'', ''note''} \<and> status \<in> set INCIDENT_STATUSES \<and>
                 (case note of JNull \<Rightarrow> True | JStr t \<Rightarrow> py_len t \<le> 2000 | _ \<Rightarrow> False)
              then ret (status, jstr note) else throw ValidationError
          | _ \<Rightarrow> throw ValidationError)
     | _ \<Rightarrow> throw ValidationError)"

definition update_status :: "env \<Rightarrow> string \<Rightarrow> json \<Rightarrow> string option \<Rightarrow> (('f, 'g) world, incident_row) act" where
  "update_status e incident_id body authorization =
    bindM (parse_status body) (\<lambda>(status, note).
    bindM (on_core (require_analyst_permission e authorization ''incident:write'')) (\<lambda>analyst_id.
    seqM (world_transaction (
      bindM (set_incident_status e incident_id status (''analyst:'' @ analyst_id) note) (\<lambda>found.
      raise_if (\<not> found) (HTTPException 404 ''no incident with that id''))))
    (bindM (gets (\<lambda>w. find_by in_incident_id incident_id (incidents (telem w)))) (\<lambda>row.
     require_some row (TypeError ''row'')))))"


section \<open>Linking members\<close>

definition member :: "('f, 'g) world \<Rightarrow> string \<Rightarrow> string \<Rightarrow> bool" where
  "member w i a \<longleftrightarrow> (\<exists>m\<in>set (incident_alerts (telem w)). ia_incident_id m = i \<and> ia_alert_id m = a)"

definition links_only :: "('f, 'g) world \<Rightarrow> ('f, 'g) world \<Rightarrow> bool" where
  "links_only w w' \<longleftrightarrow> (\<exists>new. w' = w\<lparr>telem := (telem w)\<lparr>incident_alerts := incident_alerts (telem w) @ new\<rparr>\<rparr>)"

interpretation links_only: frame "links_only :: ('f, 'g) world \<Rightarrow> ('f, 'g) world \<Rightarrow> bool"
proof
  show "links_only s s" for s :: "('f, 'g) world" by (auto simp: links_only_def intro: exI [of _ "[]"])
  show "links_only s u" if st: "links_only s t" and tu: "links_only t u" for s t u :: "('f, 'g) world"
  proof -
    obtain n1 where t: "t = s\<lparr>telem := (telem s)\<lparr>incident_alerts := incident_alerts (telem s) @ n1\<rparr>\<rparr>"
      using st unfolding links_only_def by blast
    obtain n2 where u: "u = t\<lparr>telem := (telem t)\<lparr>incident_alerts := incident_alerts (telem t) @ n2\<rparr>\<rparr>"
      using tu unfolding links_only_def by blast
    have "u = s\<lparr>telem := (telem s)\<lparr>incident_alerts := incident_alerts (telem s) @ n1 @ n2\<rparr>\<rparr>" unfolding u t by simp
    then show ?thesis unfolding links_only_def by blast
  qed
qed

lemma links_onlyD:
  assumes "links_only w w'"
  shows "core w' = core w" "incidents (telem w') = incidents (telem w)" "incident_audit (telem w') = incident_audit (telem w)"
    "member w i a \<Longrightarrow> member w' i a"
  using assms by (auto simp: links_only_def member_def)

lemma link_again: "member w i a \<Longrightarrow> link i a role w = (Inr (), w)"
  by (auto simp: link_def member_def)

lemma links_only_add: "stays links_only (on_telem (modify (\<lambda>t. t\<lparr>incident_alerts := incident_alerts t @ new\<rparr>)))"
  unfolding links_only_def by (rule staysI, rule exI [of _ new]) (simp add: on_telem_def)

lemma links_only_link: "stays links_only (link i a role)"
  unfolding link_def by (intro links_only.stays_structural links_only_add stays_if)

lemma link_member: "link i a role w = (Inr u, w') \<Longrightarrow> member w' i a"
  by (auto simp: link_def member_def on_telem_def bindM_raise_if split: if_splits)

lemma stages_of_read: "stages_of ev w = (fst (stages_of ev ()), w)"
  by (auto simp: stages_of_def py_iter_def bindM_def split: json.splits)

lemma links_only_stages_of: "stays links_only (stages_of ev)"
  by (rule staysI, subst stages_of_read) (simp add: links_only.R_refl)

lemma links_only_link_stage: "stays links_only (link_stage i a)"
  unfolding link_stage_def by (intro links_only.stays_structural links_only_link stays_if)

lemma links_only_link_stages: "stays links_only (forM (link_stage i) as)"
  by (intro links_only.stays_forM links_only_link_stage)

lemma link_stages_members:
  assumes "forM (link_stage i) as w = (Inr u, w')" and "a \<in> set as" and "a \<in> al_alert_id ` set (alerts (core w))"
  shows "member w' i a"
  using assms
proof (induction as arbitrary: w)
  case (Cons b as)
  obtain v w1 where w1: "link_stage i b w = (Inr v, w1)" "forM (link_stage i) as w1 = (Inr u, w')"
    using Cons.prems(1) unfolding forM.simps bindM_Inr_iff by blast
  have o: "links_only w w1" "links_only w1 w'"
    using w1 stays_run [OF links_only_link_stage] stays_run [OF links_only_link_stages] by blast+
  show ?case
  proof (cases "a = b")
    case True
    then have "link i a ''stage'' w = (Inr v, w1)" using w1(1) Cons.prems(3) by (simp add: link_stage_def)
    then show ?thesis using link_member links_onlyD(4) [OF o(2)] by blast
  next
    case False
    then show ?thesis using Cons.IH [OF w1(2)] Cons.prems(2,3) links_onlyD(1) [OF o(1)] by auto
  qed
qed simp

lemma link_stages_again:
  assumes "\<And>a. a \<in> set as \<Longrightarrow> a \<in> al_alert_id ` set (alerts (core w)) \<Longrightarrow> member w i a"
  shows "forM (link_stage i) as w = (Inr (), w)"
  using assms
proof (induction as)
  case (Cons a as)
  have "link_stage i a w = (Inr (), w)" using Cons.prems by (simp add: link_stage_def link_again)
  then show ?case using Cons by (simp add: bindM_Inr)
qed simp

lemma links_only_link_members: "stays links_only (link_members i a ev)"
  unfolding link_members_def
  by (intro links_only.stays_structural links_only_link links_only_link_stage links_only_stages_of)

definition all_linked :: "('f, 'g) world \<Rightarrow> string \<Rightarrow> string \<Rightarrow> jobj \<Rightarrow> bool" where
  "all_linked w i a ev \<longleftrightarrow> member w i a \<and> (\<exists>stages. fst (stages_of ev ()) = Inr stages \<and>
     (\<forall>b\<in>set (stage_ids stages). b \<in> al_alert_id ` set (alerts (core w)) \<longrightarrow> member w i b))"

lemma link_members_links:
  assumes "link_members i a ev w = (Inr u, w')"
  shows "all_linked w' i a ev"
proof -
  obtain v w1 where w1: "link i a ''revision'' w = (Inr v, w1)"
      "bindM (stages_of ev) (\<lambda>stages. forM (link_stage i) (stage_ids stages)) w1 = (Inr u, w')"
    using assms unfolding link_members_def bindM_Inr_iff by blast
  obtain stages where st: "fst (stages_of ev ()) = Inr stages" "forM (link_stage i) (stage_ids stages) w1 = (Inr u, w')"
    using w1(2) stages_of_read [of ev w1] unfolding bindM_Inr_iff by auto
  have o: "links_only w1 w'" using st(2) stays_run [OF links_only_link_stages] by blast
  have "member w' i a" using link_member [OF w1(1)] links_onlyD(4) [OF o] by blast
  moreover have "member w' i b" if "b \<in> set (stage_ids stages)" "b \<in> al_alert_id ` set (alerts (core w'))" for b
    using link_stages_members [OF st(2) that(1)] that(2) links_onlyD(1) [OF o] by simp
  ultimately show ?thesis using st(1) unfolding all_linked_def by blast
qed

lemma link_members_again:
  assumes "all_linked w i a ev"
  shows "link_members i a ev w = (Inr (), w)"
proof -
  obtain stages where st: "stages_of ev w = (Inr stages, w)"
      "\<And>b. b \<in> set (stage_ids stages) \<Longrightarrow> b \<in> al_alert_id ` set (alerts (core w)) \<Longrightarrow> member w i b"
    using assms stages_of_read [of ev w] unfolding all_linked_def by auto
  have "member w i a" using assms by (simp add: all_linked_def)
  then show ?thesis unfolding link_members_def bindM_Inr [where m = "link _ _ _", OF link_again [OF \<open>member w i a\<close>]]
      bindM_Inr [where m = "stages_of _", OF st(1)] by (intro link_stages_again st(2))
qed


section \<open>Incidents only move forward\<close>

text \<open>
  What the engine may do to an incident: nothing, or replace its summary by one of a greater revision. Its status,
  its identity, its creation and an agent it already has stay.
\<close>

definition incident_moves :: "incident_row \<Rightarrow> incident_row \<Rightarrow> bool" where
  "incident_moves r r' \<longleftrightarrow> in_incident_id r' = in_incident_id r \<and> in_status r' = in_status r \<and> in_created_at r' = in_created_at r \<and>
     (in_agent_id r \<noteq> None \<longrightarrow> in_agent_id r' = in_agent_id r) \<and> (r' = r \<or> in_revision r < in_revision r')"

definition incidents_of :: "('f, 'g) world \<Rightarrow> incident_row list" where
  "incidents_of w = incidents (telem w)"

abbreviation incidents_advance :: "('f, 'g) world \<Rightarrow> ('f, 'g) world \<Rightarrow> bool" where
  "incidents_advance \<equiv> rows_evolve incidents_of in_incident_id incident_moves"

interpretation incident_rows: table_evolution "incidents_of :: ('f, 'g) world \<Rightarrow> _" in_incident_id incident_moves
  by unfold_locales (auto simp: incident_moves_def)

lemma incidents_advance_core: "stays incidents_advance (on_core m)"
  by (rule staysI, rule incident_rows.evolve_same) (auto simp: on_core_def incidents_of_def split: prod.splits)

lemma incidents_advance_modify:
  "(\<And>t. incidents (f t) = incidents t) \<Longrightarrow> stays incidents_advance (on_telem (modify f))"
  by (rule staysI, rule incident_rows.evolve_same) (auto simp: on_telem_def incidents_of_def)

lemma incidents_advance_insert: "stays incidents_advance (on_telem (modify (\<lambda>t. t\<lparr>incidents := incidents t @ rs\<rparr>)))"
  by (rule staysI, rule incident_rows.evolve_append [where rows = rs]) (auto simp: on_telem_def incidents_of_def)

lemma incidents_advance_revise:
  "stays incidents_advance (on_telem (modify (\<lambda>t. t\<lparr>incidents :=
     update_where (\<lambda>r. in_incident_id r = i \<and> in_revision r < sm_revision s) (revised_incident e ag s a b) (incidents t)\<rparr>)))"
  by (rule staysI, rule incident_rows.evolve_update [where P = "\<lambda>r. in_incident_id r = i \<and> in_revision r < sm_revision s" and f = "revised_incident e ag s a b"])
    (auto simp: on_telem_def incidents_of_def revised_incident_def incident_moves_def)

lemma incidents_advance_reads:
  "stays incidents_advance (bind_text v)" "stays incidents_advance (bind_int x)" "stays incidents_advance (py_iter v)"
  "stays incidents_advance (stages_of ev)"
  unfolding stages_of_def bind_text_def bind_int_def py_iter_def
  by (intro incident_rows.stays_structural stays_splits; simp)+

lemma incidents_advance_links: "stays incidents_advance (link_members i a ev)"
  unfolding link_members_def link_stage_def link_def
  by (intro incident_rows.stays_structural incidents_advance_reads incidents_advance_modify stays_splits; simp)+

lemma incidents_advance_audit: "stays incidents_advance (audit_incident e i ev actor detail)"
  unfolding audit_incident_def
  by (intro incident_rows.stays_structural incidents_advance_core incidents_advance_modify; simp)+

lemma incidents_advance_upsert: "stays incidents_advance (upsert_incident e rec agent_id)"
  unfolding upsert_incident_def fold_incident_def seen_window_def read_incident_def open_incident_def revise_incident_def bind_summary_def Let_def
  by (intro incident_rows.stays_structural incidents_advance_reads incidents_advance_links incidents_advance_audit
      incidents_advance_insert incidents_advance_revise stays_splits)+


section \<open>Replays\<close>

lemma incident_reads:
  "bind_text v w = (fst (bind_text v ()), w)" "py_iter v w = (fst (py_iter v ()), w)"
  "seen_window rec ev w = (fst (seen_window rec ev ()), w)" "read_incident rec w = (fst (read_incident rec ()), w)"
proof -
  show b: "bind_text v w = (fst (bind_text v ()), w)" for v w by (simp add: bind_text_def split: json.splits)
  show i: "py_iter v w = (fst (py_iter v ()), w)" for v w by (simp add: py_iter_def split: json.splits)
  show "seen_window rec ev w = (fst (seen_window rec ev ()), w)"
    using stages_of_read [of ev w] stages_of_read [of ev "()"] unfolding seen_window_def bindM_def
    by (auto simp: Let_def split: prod.splits sum.splits)
  show "read_incident rec w = (fst (read_incident rec ()), w)"
    using i [of "jor (jget ''tactics_covered'' (evidence_of rec)) (JArr [])" w] b [of _ w]
    by (auto simp: read_incident_def Let_def bindM_def require_some_def bind_text_def py_iter_def split: option.splits json.splits)
qed

text \<open>An incident alert is folded in when its incident holds its revision or a later one and its members are linked.\<close>

definition folded :: "jobj \<Rightarrow> ('f, 'g) world \<Rightarrow> bool" where
  "folded rec w \<longleftrightarrow> \<not> truthy (jget ''incident_id'' rec) \<or>
    (\<exists>seen rd i r. fst (seen_window rec (evidence_of rec) ()) = Inr seen \<and> fst (read_incident rec ()) = Inr rd \<and>
       fst (bind_text (jget ''incident_id'' rec) ()) = Inr (Some i) \<and> find_by in_incident_id i (incidents_of w) = Some r \<and>
       rd_revision rd \<le> in_revision r \<and> all_linked w i (rd_alert_id rd) (rd_evidence rd))"

text \<open>Writing the audit row of an incident changes neither incidents nor members.\<close>

definition beside_incidents :: "('f, 'g) world \<Rightarrow> ('f, 'g) world \<Rightarrow> bool" where
  "beside_incidents w w' \<longleftrightarrow> incidents_of w' = incidents_of w \<and> incident_alerts (telem w') = incident_alerts (telem w) \<and>
     alerts (core w') = alerts (core w)"

lemma beside_audit: "audit_incident e i ev actor detail w = (Inr u, w') \<Longrightarrow> beside_incidents w w'"
  by (auto simp: audit_incident_def beside_incidents_def incidents_of_def bindM_Inr_iff on_core_Inr_iff on_telem_Inr_iff draw_def)

lemma all_linked_beside:
  "incident_alerts (telem w') = incident_alerts (telem w) \<Longrightarrow> alerts (core w') = alerts (core w) \<Longrightarrow>
    all_linked w' i a ev = all_linked w i a ev"
  by (simp add: all_linked_def member_def)

lemma bind_same: "bind_text v w = (r, w') \<Longrightarrow> w' = w" "bind_int x w = (r', w') \<Longrightarrow> w' = w"
  by (auto simp: bind_text_def bind_int_def split: json.splits option.splits if_splits)

lemma bind_summary_revision:
  "bind_summary rec rd w = (Inr s, w') \<Longrightarrow> sm_revision s = rd_revision rd \<and> w' = w"
  unfolding bind_summary_def Let_def by (auto simp: bindM_Inr_iff dest!: bind_same)

lemma open_incident_settles:
  assumes "find_by in_incident_id i (incidents_of w) = None" and "open_incident e rec i ag rd seen w = (Inr out, w')"
  shows "\<exists>r. find_by in_incident_id i (incidents_of w') = Some r \<and> rd_revision rd \<le> in_revision r \<and> all_linked w' i (rd_alert_id rd) (rd_evidence rd)"
proof -
  let ?row = "\<lambda>s. new_incident e i ag s (fst seen) (snd seen)"
  obtain s w0 w2 where b: "bind_summary rec rd w = (Inr s, w0)"
    and l: "link_members i (rd_alert_id rd) (rd_evidence rd)
        (w0\<lparr>telem := (telem w0)\<lparr>incidents := incidents (telem w0) @ [?row s]\<rparr>\<rparr>) = (Inr (), w2)"
    and a: "audit_incident e i ''opened'' SYSTEM_ACTOR
        [(''revision'', JInt (rd_revision rd)), (''alert_id'', JStr (rd_alert_id rd)), (''tactics'', JArr (rd_tactics rd))] w2 = (Inr (), w')"
    using assms(2) unfolding open_incident_def by (auto simp: bindM_Inr_iff on_telem_Inr_iff)
  define w1 where "w1 = w\<lparr>telem := (telem w)\<lparr>incidents := incidents (telem w) @ [?row s]\<rparr>\<rparr>"
  have s: "sm_revision s = rd_revision rd" "w0 = w" using bind_summary_revision [OF b] by auto
  have w1: "link_members i (rd_alert_id rd) (rd_evidence rd) w1 = (Inr (), w2)" using l unfolding s(2) w1_def by simp
  have w': "beside_incidents w2 w'" by (rule beside_audit [OF a])
  have "find_by in_incident_id i (incidents_of w1) = Some (?row s)"
    using assms(1) by (simp add: w1_def incidents_of_def find_by_append new_incident_def)
  moreover have "incidents_of w' = incidents_of w1"
    using w' links_onlyD(2) [OF stays_run [OF links_only_link_members w1]] by (simp add: beside_incidents_def incidents_of_def)
  moreover have "all_linked w' i (rd_alert_id rd) (rd_evidence rd)"
    using link_members_links [OF w1] w' all_linked_beside unfolding beside_incidents_def by blast
  moreover have "in_revision (?row s) = rd_revision rd" using s(1) by (simp add: new_incident_def)
  ultimately show ?thesis by auto
qed

lemma revise_incident_settles:
  assumes f: "find_by in_incident_id i (incidents_of w) = Some r" and run: "revise_incident e rec i ag rd seen r w = (Inr out, w')"
  shows "\<exists>r. find_by in_incident_id i (incidents_of w') = Some r \<and> rd_revision rd \<le> in_revision r \<and> all_linked w' i (rd_alert_id rd) (rd_evidence rd)"
proof -
  obtain w1 where l: "link_members i (rd_alert_id rd) (rd_evidence rd) w = (Inr (), w1)"
    using run unfolding revise_incident_def bindM_Inr_iff by auto
  have inc: "incidents_of w1 = incidents_of w" using links_onlyD(2) [OF stays_run [OF links_only_link_members l]] by (simp add: incidents_of_def)
  note al = link_members_links [OF l]
  note rest = run [unfolded revise_incident_def bindM_Inr [where m = "link_members _ _ _", OF l]]
  show ?thesis
  proof (cases "rd_revision rd \<le> in_revision r")
    case True
    then have "w' = w1" using rest by simp
    then show ?thesis using True al f inc by auto
  next
    case False
    define F where "F = (\<lambda>s :: incident_summary. revised_incident e ag s (merge_seen least (in_first_seen r) (fst seen)) (merge_seen greatest (in_last_seen r) (snd seen)))"
    define P where "P = (\<lambda>(s :: incident_summary) (x :: incident_row). in_incident_id x = i \<and> in_revision x < sm_revision s)"
    obtain s w2 where b: "bind_summary rec rd w1 = (Inr s, w2)" and a: "audit_incident e i ''revised'' SYSTEM_ACTOR
               [(''from_revision'', JInt (in_revision r)), (''revision'', JInt (rd_revision rd)),
                (''alert_id'', JStr (rd_alert_id rd)), (''tactics'', JArr (rd_tactics rd))]
               (w2\<lparr>telem := (telem w2)\<lparr>incidents := update_where (P s) (F s) (incidents (telem w2))\<rparr>\<rparr>) = (Inr (), w')"
      using rest False unfolding F_def P_def by (auto simp: bindM_Inr_iff on_telem_Inr_iff)
    have s: "sm_revision s = rd_revision rd" "w2 = w1" using bind_summary_revision [OF b] by auto
    have w': "incidents_of w' = update_where (P s) (F s) (incidents_of w)" "incident_alerts (telem w') = incident_alerts (telem w1)"
        "alerts (core w') = alerts (core w1)"
      using beside_audit [OF a] inc unfolding s(2) by (simp_all add: beside_incidents_def incidents_of_def)
    have "P s r" using False find_by_SomeD [OF f] s(1) by (simp add: P_def)
    then have "find_by in_incident_id i (incidents_of w') = Some (F s r)"
      unfolding w'(1) using f by (subst find_by_update_where) (auto simp: F_def revised_incident_def)
    moreover have "in_revision (F s r) = rd_revision rd" by (simp add: F_def revised_incident_def s(1))
    ultimately show ?thesis using al all_linked_beside [OF w'(2,3)] by auto
  qed
qed

lemma fold_incident_run:
  assumes "fst (seen_window rec (evidence_of rec) ()) = Inr seen" and "fst (read_incident rec ()) = Inr rd"
    and "fst (bind_text (jget ''incident_id'' rec) ()) = Inr (Some i)"
  shows "fold_incident e rec ag w = (case find_by in_incident_id i (incidents_of w) of
      None \<Rightarrow> open_incident e rec i ag rd seen w | Some r \<Rightarrow> revise_incident e rec i ag rd seen r w)"
proof -
  have 1: "seen_window rec (evidence_of rec) w = (Inr seen, w)" using assms(1) incident_reads(3) [of rec "evidence_of rec" w] by simp
  have 2: "read_incident rec w = (Inr rd, w)" using assms(2) incident_reads(4) [of rec w] by simp
  have 3: "bind_text (jget ''incident_id'' rec) w = (Inr (Some i), w)" using assms(3) incident_reads(1) [of "jget ''incident_id'' rec" w] by simp
  show ?thesis unfolding fold_incident_def bindM_Inr [where m = "seen_window _ _", OF 1] bindM_Inr [where m = "read_incident _", OF 2]
      bindM_Inr [where m = "bind_text _", OF 3] by (simp add: incidents_of_def split: option.split)
qed

lemma fold_incident_reads:
  assumes "fold_incident e rec ag w = (Inr out, w')"
  shows "\<exists>seen rd i. fst (seen_window rec (evidence_of rec) ()) = Inr seen \<and> fst (read_incident rec ()) = Inr rd \<and>
    fst (bind_text (jget ''incident_id'' rec) ()) = Inr (Some i)"
proof -
  obtain seen w1 where 1: "seen_window rec (evidence_of rec) w = (Inr seen, w1)" and r1: "\<exists>a. bindM (read_incident rec) a w1 = (Inr out, w')"
    using assms unfolding fold_incident_def bindM_Inr_iff [where m = "seen_window _ _"] by blast
  obtain rd w2 where 2: "read_incident rec w1 = (Inr rd, w2)" using r1 by (auto simp: bindM_Inr_iff)
  have s: "fst (seen_window rec (evidence_of rec) ()) = Inr seen" "w1 = w" "fst (read_incident rec ()) = Inr rd" "w2 = w"
    using 1 2 incident_reads(3) [of rec "evidence_of rec" w] incident_reads(4) [of rec w] by auto
  have "\<exists>i w3. bind_text (jget ''incident_id'' rec) w = (Inr (Some i), w3)"
    using assms 1 2 s(2,4) unfolding fold_incident_def by (auto simp: bindM_Inr_iff)
  then show ?thesis using s incident_reads(1) [of "jget ''incident_id'' rec" w] by auto
qed

lemma upsert_settles:
  assumes "upsert_incident e rec ag w = (Inr out, w')"
  shows "folded rec w'"
proof (cases "truthy (jget ''incident_id'' rec)")
  case True
  then obtain o' where run: "fold_incident e rec ag w = (Inr o', w')"
    using assms by (auto simp: upsert_incident_def bindM_Inr_iff)
  obtain seen rd i where rd: "fst (seen_window rec (evidence_of rec) ()) = Inr seen" "fst (read_incident rec ()) = Inr rd"
      "fst (bind_text (jget ''incident_id'' rec) ()) = Inr (Some i)"
    using fold_incident_reads [OF run] by blast
  have "\<exists>r. find_by in_incident_id i (incidents_of w') = Some r \<and> rd_revision rd \<le> in_revision r \<and> all_linked w' i (rd_alert_id rd) (rd_evidence rd)"
  proof (cases "find_by in_incident_id i (incidents_of w)")
    case None
    then show ?thesis using run open_incident_settles [OF None] unfolding fold_incident_run [OF rd] by simp
  next
    case (Some r)
    then show ?thesis using run revise_incident_settles [OF Some] unfolding fold_incident_run [OF rd] by simp
  qed
  then show ?thesis using rd unfolding folded_def by blast
qed (simp add: folded_def)

lemma upsert_again:
  assumes "folded rec w"
  shows "\<exists>out. upsert_incident e rec ag w = (Inr out, w)"
proof (cases "truthy (jget ''incident_id'' rec)")
  case True
  then obtain seen rd i r where rd: "fst (seen_window rec (evidence_of rec) ()) = Inr seen" "fst (read_incident rec ()) = Inr rd"
      "fst (bind_text (jget ''incident_id'' rec) ()) = Inr (Some i)" and s: "find_by in_incident_id i (incidents_of w) = Some r"
      "rd_revision rd \<le> in_revision r" "all_linked w i (rd_alert_id rd) (rd_evidence rd)"
    using assms unfolding folded_def by auto
  have "revise_incident e rec i ag rd seen r w = (Inr ''unchanged'', w)"
    unfolding revise_incident_def bindM_Inr [where m = "link_members _ _ _", OF link_members_again [OF s(3)]] using s(2) by simp
  then have "fold_incident e rec ag w = (Inr ''unchanged'', w)" unfolding fold_incident_run [OF rd] by (simp add: s(1))
  then show ?thesis using True by (simp add: upsert_incident_def bindM_Inr)
qed (simp add: upsert_incident_def)

end
