(* ===== verification/LinuxMapper.thy ===== *)
theory LinuxMapper
  imports Incidents
begin

text \<open>
  \<^verbatim>\<open>manager/detection/linux_mapper.py\<close>: the engine event of a Linux \<open>process.exec\<close> record. A missing field stays null.
\<close>

text \<open>\<open>str(v)\<close>; the record's validation leaves no list or dictionary where the mapper needs the text.\<close>

definition py_str :: "json \<Rightarrow> ('s, string) act" where
  "py_str v = require_some (str_of v) (TypeError ''str'')"

fun join_spaces :: "string list \<Rightarrow> string" where
  "join_spaces [] = []"
| "join_spaces [t] = t"
| "join_spaces (t # u # ts) = t @ '' '' @ join_spaces (u # ts)"

definition command_line :: "jobj \<Rightarrow> ('s, string) act" where
  "command_line process =
    (case jget ''args'' process of
       JArr args \<Rightarrow> bindM (mapM py_str args) (\<lambda>texts. ret (join_spaces texts))
     | _ \<Rightarrow> ret [])"

text \<open>\<open>ancestry[0] if ancestry and isinstance(ancestry[0], dict) else {}\<close>\<close>

definition first_ancestor :: "json \<Rightarrow> ('s, jobj) act" where
  "first_ancestor ancestry =
    (case ancestry of
       JArr xs \<Rightarrow> ret (case xs of JObj d # _ \<Rightarrow> d | _ \<Rightarrow> [])
     | JStr t \<Rightarrow> ret []
     | JObj d \<Rightarrow> if d = [] then ret [] else throw (KeyError ''0'')
     | _ \<Rightarrow> if truthy ancestry then throw (TypeError ''object is not subscriptable'') else ret [])"

definition dict_or_empty :: "json \<Rightarrow> jobj" where
  "dict_or_empty v = (case v of JObj d \<Rightarrow> d | _ \<Rightarrow> [])"

definition is_zero :: "json \<Rightarrow> bool" where
  "is_zero v \<longleftrightarrow> v \<in> {JInt 0, JBool False, JFloat ''0.0'', JFloat ''-0.0''}"

definition user_name :: "json \<Rightarrow> ('s, string) act" where
  "user_name uid = (if is_zero uid then ret ''root'' else if uid = JNull then ret [] else py_str uid)"

text \<open>\<open>record.get(k) or {}\<close>, on which every later read is a \<open>get\<close>.\<close>

definition sub_record :: "string \<Rightarrow> jobj \<Rightarrow> ('s, jobj) act" where
  "sub_record k rec = (case or_empty (jget k rec) of JObj d \<Rightarrow> ret d | _ \<Rightarrow> throw (AttributeError ''get''))"

text \<open>\<open>record.get(k, d)\<close>: the default only stands in for a missing key.\<close>

definition dflt :: "string \<Rightarrow> json \<Rightarrow> jobj \<Rightarrow> json" where
  "dflt k d rec = (case map_of rec k of None \<Rightarrow> d | Some v \<Rightarrow> v)"

definition engine_event ::
  "jobj \<Rightarrow> json \<Rightarrow> jobj \<Rightarrow> jobj \<Rightarrow> jobj \<Rightarrow> jobj \<Rightarrow> jobj \<Rightarrow> jobj \<Rightarrow> string \<Rightarrow> string \<Rightarrow> json \<Rightarrow> jobj" where
  "engine_event rec rid proc host sensor prov parent executable user cmdline sha =
    (let host_id = dflt ''id'' (JStr []) host in
     [(''schema_version'', dflt ''schema_version'' (JStr ''1.0'') rec),
      (''event_id'', rid),
      (''timestamp'', dflt ''time'' (JStr []) rec),
      (''event_type'', JStr ''process_create''),
      (''host_id'', host_id),
      (''source'', JObj [(''kind'', JStr ''linux_endpoint''), (''provider'', dflt ''provider'' (JStr []) prov),
         (''channel'', jget ''mechanism'' prov), (''record_id'', rid)]),
      (''agent'', JObj [(''id'', dflt ''id'' (JStr []) sensor), (''version'', dflt ''version'' (JStr []) sensor)]),
      (''host'', JObj [(''id'', host_id), (''hostname'', dflt ''hostname'' host_id host), (''os'', JObj [(''family'', JStr ''linux'')])]),
      (''user'', JObj [(''name'', JStr user), (''domain'', JNull), (''sid'', JNull), (''full'', JStr user)]),
      (''process'', JObj [(''entity_id'', jget ''entity_id'' proc), (''process_guid'', jget ''entity_id'' proc), (''pid'', jget ''pid'' proc),
         (''ppid'', jget ''ppid'' proc), (''name'', jget ''name'' proc), (''executable'', jget ''path'' executable), (''command_line'', JStr cmdline),
         (''user'', JStr user), (''user_sid'', JNull), (''file_hash'', sha), (''sha256'', sha), (''start_time_ticks'', jget ''start_ticks'' proc)]),
      (''parent'', JObj [(''entity_id'', jget ''entity_id'' parent), (''process_guid'', jget ''entity_id'' parent), (''pid'', jget ''ppid'' proc),
         (''name'', jget ''name'' parent)]),
      (''file'', JObj [(''path'', jget ''path'' executable), (''hash'', sha)]),
      (''_raw_linux_record'', JObj rec)])"

definition to_engine_event :: "jobj \<Rightarrow> ('s, jobj option) act" where
  "to_engine_event rec =
    (if jget ''type'' rec \<noteq> JStr ''process.exec'' then ret None
     else
       bindM (sub_record ''process'' rec) (\<lambda>proc.
       bindM (sub_record ''host'' rec) (\<lambda>host.
       bindM (sub_record ''sensor'' rec) (\<lambda>sensor.
       bindM (sub_record ''provenance'' rec) (\<lambda>prov.
       bindM (first_ancestor (jor (jget ''ancestry'' proc) (JArr []))) (\<lambda>parent.
       let executable = dict_or_empty (jget ''executable'' proc);
           sha = jget ''sha256'' (dict_or_empty (jget ''hash'' executable)) in
       bindM (sub_record ''creds'' proc) (\<lambda>creds.
       bindM (user_name (jget ''uid'' creds)) (\<lambda>user.
       bindM (require_some (map_of rec ''id'') (KeyError ''id'')) (\<lambda>rid.
       bindM (command_line proc) (\<lambda>cmdline.
       ret (Some (engine_event rec rid proc host sensor prov parent executable user cmdline sha))))))))))))"

end
