(* ===== verification/Worker.thy ===== *)
theory Worker
  imports LinuxMapper Contract
begin

text \<open>
  The detection worker: \<open>AlertSink\<close> of \<^verbatim>\<open>manager/detection/factory.py\<close> and \<open>DetectionWorker\<close> of
  \<^verbatim>\<open>manager/detection/worker.py\<close>. Three queues feed it: legacy events, canonical endpoint records and Linux records.
\<close>

section \<open>What the vendored engine gives\<close>

text \<open>
  The adapters return a value or raise. \<open>process_event\<close> is the run of the detection engine on one event: it calls the
  \<open>emit\<close> it was built with, and keeps its own state in \<open>graph\<close>. \<open>write_alert\<close> appends to the console's file.
\<close>

record ('f, 'g) detection =
  linux_endpoint_context :: "jobj \<Rightarrow> string \<Rightarrow> exn + jobj option"
  is_endpoint_record :: "json \<Rightarrow> bool"
  transform_endpoint :: "json \<Rightarrow> exn + json"
  is_officer_event :: "jobj \<Rightarrow> bool"
  transform_officer_event :: "jobj \<Rightarrow> exn + json"
  process_event :: "(jobj \<Rightarrow> (('f, 'g) world, unit) act) \<Rightarrow> json \<Rightarrow> (('f, 'g) world, unit) act"
  write_alert :: "jobj \<Rightarrow> ('f, unit) act"
  prune :: "'g \<Rightarrow> 'g"

definition from_sum :: "exn + 'a \<Rightarrow> ('s, 'a) act" where
  "from_sum x = (case x of Inl e \<Rightarrow> throw e | Inr a \<Rightarrow> ret a)"

section \<open>The alert sink\<close>

definition upper_char :: "char \<Rightarrow> char" where
  "upper_char c = (if 97 \<le> (of_char c :: nat) \<and> (of_char c :: nat) \<le> 122 then char_of ((of_char c :: nat) - 32) else c)"

definition linux_alert_id :: "env \<Rightarrow> string option \<Rightarrow> jobj \<Rightarrow> string" where
  "linux_alert_id e agent_id alert =
    ''ALT-'' @ map upper_char (sha256 e (encode esc_ascii '','' '':'' (sort_json (JArr
      [JStr ''linux_endpoint_v1'', jopt agent_id, jget ''event_id'' alert, jget ''rule_id'' alert, jget ''evidence'' alert]))))"

text \<open>
  An alert about the very record of a Linux event carries that record's context and an identifier of its own; any other
  alert raised by a Linux event carries an empty context, so that no response falls back to a bare process number.
\<close>

definition contextualize :: "env \<Rightarrow> string option \<Rightarrow> jobj option \<Rightarrow> jobj \<Rightarrow> ('s, jobj) act" where
  "contextualize e agent_id linux_context alert =
    (case linux_context of
       None \<Rightarrow> ret alert
     | Some c \<Rightarrow>
        bindM (require_some (map_of c ''record_id'') (KeyError ''record_id'')) (\<lambda>record_id.
        if py_eq (jget ''event_id'' alert) record_id \<and> jget ''detection_source'' alert \<noteq> JStr ''correlation''
        then ret (jset ''alert_id'' (JStr (linux_alert_id e agent_id alert)) (jset ''endpoint_context'' (JObj c) alert))
        else ret (jset ''endpoint_context'' (JObj [(''identity_model'', JStr ''linux_endpoint_v1''), (''endpoint'', JObj []),
               (''subject'', JObj [])]) alert)))"

definition emit :: "env \<Rightarrow> ('f, 'g) detection \<Rightarrow> string option \<Rightarrow> jobj option \<Rightarrow> jobj \<Rightarrow> (('f, 'g) world, unit) act" where
  "emit e P agent_id linux_context alert0 =
    bindM (contextualize e agent_id linux_context alert0) (\<lambda>alert.
    bindM (on_core (insert_alert e alert agent_id)) (\<lambda>inserted.
    seqM (upsert_incident e alert agent_id)
    (seqM (on_file (write_alert P alert))
    (if inserted then on_core (on_alert_created e alert) else ret ()))))"

section \<open>The queues\<close>

datatype queue_kind = Legacy | Endpoint | Linux

record claimed_row =
  qi_event_id :: string
  qi_agent_id :: string
  qi_raw_json :: string
  qi_queue :: queue_kind

text \<open>An UPDATE of the row that a claim names; legacy events have their identifier as key.\<close>

definition on_item ::
  "queue_kind \<Rightarrow> string \<Rightarrow> string \<Rightarrow> (event_row \<Rightarrow> event_row) \<Rightarrow> (endpoint_record_row \<Rightarrow> endpoint_record_row) \<Rightarrow>
   (linux_detection_row \<Rightarrow> linux_detection_row) \<Rightarrow> telemetry \<Rightarrow> telemetry" where
  "on_item q agent_id event_id f g h t =
    (case q of
       Legacy \<Rightarrow> t\<lparr>events := update_where (\<lambda>r. ev_event_id r = event_id) f (events t)\<rparr>
     | Endpoint \<Rightarrow> t\<lparr>endpoint_records := update_where (\<lambda>r. er_agent_id r = agent_id \<and> er_record_id r = event_id) g (endpoint_records t)\<rparr>
     | Linux \<Rightarrow> t\<lparr>linux_endpoint_detection :=
         update_where (\<lambda>r. ld_agent_id r = agent_id \<and> ld_record_id r = event_id) h (linux_endpoint_detection t)\<rparr>)"

definition mark_claimed :: "string \<Rightarrow> claimed_row \<Rightarrow> telemetry \<Rightarrow> telemetry" where
  "mark_claimed stamp row = on_item (qi_queue row) (qi_agent_id row) (qi_event_id row)
     (\<lambda>r. r\<lparr>ev_detect_state := Claimed, ev_claimed_at := Some stamp\<rparr>)
     (\<lambda>r. r\<lparr>er_detect_state := Claimed, er_claimed_at := Some stamp\<rparr>)
     (\<lambda>r. r\<lparr>ld_state := Claimed, ld_claimed_at := Some stamp\<rparr>)"

definition mark_done :: "claimed_row \<Rightarrow> telemetry \<Rightarrow> telemetry" where
  "mark_done row = on_item (qi_queue row) (qi_agent_id row) (qi_event_id row)
     (\<lambda>r. r\<lparr>ev_detect_state := Done\<rparr>)
     (\<lambda>r. r\<lparr>er_detect_state := Done, er_claimed_at := None\<rparr>)
     (\<lambda>r. r\<lparr>ld_state := Done, ld_claimed_at := None\<rparr>)"

definition mark_failed :: "claimed_row \<Rightarrow> telemetry \<Rightarrow> telemetry" where
  "mark_failed row = on_item (qi_queue row) (qi_agent_id row) (qi_event_id row)
     (\<lambda>r. r\<lparr>ev_detect_state := Failed, ev_detect_attempts := ev_detect_attempts r + 1\<rparr>)
     (\<lambda>r. r\<lparr>er_detect_state := Failed, er_claimed_at := None, er_detect_attempts := er_detect_attempts r + 1\<rparr>)
     (\<lambda>r. r\<lparr>ld_state := Failed, ld_claimed_at := None, ld_attempts := ld_attempts r + 1\<rparr>)"

section \<open>Stale claims\<close>

definition LEASE_SECONDS :: int where
  "LEASE_SECONDS = 60"

definition lease_cutoff :: "env \<Rightarrow> string" where
  "lease_cutoff e = iso_at (plus_delta (now e) (- seconds LEASE_SECONDS))"

definition stale :: "string \<Rightarrow> detect_state \<Rightarrow> string option \<Rightarrow> bool" where
  "stale cutoff s claimed_at \<longleftrightarrow> s = Claimed \<and> (case claimed_at of None \<Rightarrow> True | Some t \<Rightarrow> t < cutoff)"

definition stale_event :: "string \<Rightarrow> event_row \<Rightarrow> bool" where
  "stale_event cutoff r = stale cutoff (ev_detect_state r) (ev_claimed_at r)"

definition stale_record :: "string \<Rightarrow> endpoint_record_row \<Rightarrow> bool" where
  "stale_record cutoff r = stale cutoff (er_detect_state r) (er_claimed_at r)"

definition stale_linux :: "string \<Rightarrow> linux_detection_row \<Rightarrow> bool" where
  "stale_linux cutoff r = stale cutoff (ld_state r) (ld_claimed_at r)"

definition revert_stale :: "string \<Rightarrow> telemetry \<Rightarrow> telemetry" where
  "revert_stale cutoff t = t\<lparr>
     events := update_where (stale_event cutoff) (\<lambda>r. r\<lparr>ev_detect_state := Pending, ev_claimed_at := None\<rparr>) (events t),
     endpoint_records := update_where (stale_record cutoff) (\<lambda>r. r\<lparr>er_detect_state := Pending, er_claimed_at := None\<rparr>) (endpoint_records t),
     linux_endpoint_detection := update_where (stale_linux cutoff) (\<lambda>r. r\<lparr>ld_state := Pending, ld_claimed_at := None\<rparr>)
       (linux_endpoint_detection t)\<rparr>"

definition revert_stale_claims :: "env \<Rightarrow> (('f, 'g) world, nat) act" where
  "revert_stale_claims e = world_transaction (
    bindM (gets telem) (\<lambda>t.
    seqM (on_telem (modify (revert_stale (lease_cutoff e))))
    (ret (length (filter (stale_event (lease_cutoff e)) (events t)) + length (filter (stale_record (lease_cutoff e)) (endpoint_records t)) +
          length (filter (stale_linux (lease_cutoff e)) (linux_endpoint_detection t))))))"

section \<open>Claiming a batch\<close>

definition CLAIM_LIMIT :: nat where
  "CLAIM_LIMIT = 256"

definition legacy_queue :: "telemetry \<Rightarrow> claimed_row list" where
  "legacy_queue t = take CLAIM_LIMIT (map
     (\<lambda>r. \<lparr>qi_event_id = ev_event_id r, qi_agent_id = ev_agent_id r, qi_raw_json = ev_raw_json r, qi_queue = Legacy\<rparr>)
     (order_by ev_event_timestamp (filter (\<lambda>r. ev_detect_state r = Pending) (events t))))"

definition canonical_queue :: "telemetry \<Rightarrow> claimed_row list" where
  "canonical_queue t = take CLAIM_LIMIT (map
     (\<lambda>r. \<lparr>qi_event_id = er_record_id r, qi_agent_id = er_agent_id r, qi_raw_json = er_raw_json r, qi_queue = Endpoint\<rparr>)
     (order_by er_ingested_at (order_by er_agent_id (order_by er_record_id
       (filter (\<lambda>r. er_detect_state r = Pending) (endpoint_records t))))))"

definition linux_queue :: "telemetry \<Rightarrow> claimed_row list" where
  "linux_queue t = take CLAIM_LIMIT (map
     (\<lambda>r. \<lparr>qi_event_id = lr_record_id r, qi_agent_id = lr_agent_id r, qi_raw_json = lr_raw_json r, qi_queue = Linux\<rparr>)
     (order_by lr_ingested_at (filter (\<lambda>r. \<exists>d\<in>set (linux_endpoint_detection t).
        ld_agent_id d = lr_agent_id r \<and> ld_record_id d = lr_record_id r \<and> ld_state d = Pending) (linux_endpoint_records t))))"

text \<open>
  One pass of the \<open>for\<close> loop over the queues: their lengths, what is taken of each, what remains; the flag says
  whether any queue gave.
\<close>

fun share_round :: "nat list \<Rightarrow> nat list \<Rightarrow> nat \<Rightarrow> nat list \<times> nat \<times> bool" where
  "share_round (l # ls) (t # ts) remaining =
    (if 0 < remaining \<and> t < l
     then (case share_round ls ts (remaining - 1) of (ts', r, _) \<Rightarrow> (Suc t # ts', r, True))
     else (case share_round ls ts remaining of (ts', r, changed) \<Rightarrow> (t # ts', r, changed)))"
| "share_round ls ts remaining = ([], remaining, False)"

lemma share_round_remaining:
  "share_round ls ts remaining = (ts', r, changed) \<Longrightarrow> r \<le> remaining \<and> (changed \<longrightarrow> r < remaining)"
proof (induction ls ts remaining arbitrary: ts' r changed rule: share_round.induct)
  case (1 l ls t ts remaining)
  show ?case
  proof (cases "0 < remaining \<and> t < l")
    case True
    obtain us r' c where "share_round ls ts (remaining - 1) = (us, r', c)" by (metis prod.exhaust)
    then show ?thesis using 1 True by fastforce
  next
    case False
    obtain us r' c where "share_round ls ts remaining = (us, r', c)" by (metis prod.exhaust)
    then show ?thesis using 1 False by fastforce
  qed
qed auto

text \<open>The \<open>while\<close> loop: until nothing remains or no queue gave.\<close>

function share :: "nat list \<Rightarrow> nat list \<Rightarrow> nat \<Rightarrow> nat list" where
  "share ls ts remaining =
    (if remaining = 0 then ts
     else (case share_round ls ts remaining of (ts', r, changed) \<Rightarrow> if changed then share ls ts' r else ts'))"
  by pat_completeness auto
termination
  by (relation "measure (\<lambda>(ls, ts, remaining). remaining)") (auto dest: share_round_remaining [OF sym])

declare share.simps [simp del]

definition batch_of :: "claimed_row list list \<Rightarrow> claimed_row list" where
  "batch_of queues = concat (map2 take (share (map length queues) (map (\<lambda>_. 0) queues) CLAIM_LIMIT) queues)"

definition claim_batch :: "env \<Rightarrow> (('f, 'g) world, claimed_row list) act" where
  "claim_batch e = world_transaction (
    bindM (gets telem) (\<lambda>t.
    let rows = batch_of [legacy_queue t, canonical_queue t, linux_queue t] in
    seqM (on_telem (modify (\<lambda>t. foldl (\<lambda>t row. mark_claimed (iso_now e) row t) t rows)))
    (ret rows)))"

section \<open>Processing\<close>

definition normalize_raw :: "('f, 'g) detection \<Rightarrow> string \<Rightarrow> ('s, json) act" where
  "normalize_raw P raw_json =
    bindM (require_some (json_loads raw_json) (ValueError ''JSONDecodeError'')) (\<lambda>raw.
    case raw of
      JObj d \<Rightarrow>
        if truthy (jget ''record_type'' d) \<and> jget ''schema_version'' d = JStr ''1.0''
        then bindM (to_engine_event d) (\<lambda>event.
               case event of None \<Rightarrow> throw (ValueError ''Linux record is not a detectable process event'') | Some x \<Rightarrow> ret (JObj x))
        else if is_endpoint_record P raw then from_sum (transform_endpoint P raw)
        else (case jget ''event'' d of
                JObj _ \<Rightarrow> if is_officer_event P d then from_sum (transform_officer_event P d) else ret raw
              | _ \<Rightarrow> ret raw)
    | _ \<Rightarrow> if is_endpoint_record P raw then from_sum (transform_endpoint P raw) else ret raw)"

text \<open>\<open>raw[k]\<close> on a JSON value.\<close>

definition subscript :: "string \<Rightarrow> json \<Rightarrow> ('s, json) act" where
  "subscript k v =
    (case v of JObj d \<Rightarrow> require_some (map_of d k) (KeyError k) | _ \<Rightarrow> throw (TypeError ''indices must be integers''))"

definition linux_context_of :: "('f, 'g) detection \<Rightarrow> claimed_row \<Rightarrow> ('s, jobj option) act" where
  "linux_context_of P row =
    (if qi_queue row \<noteq> Linux then ret None
     else
       bindM (require_some (json_loads (qi_raw_json row)) (ValueError ''JSONDecodeError'')) (\<lambda>raw.
       bindM (case raw of JObj d \<Rightarrow> ret d | _ \<Rightarrow> throw (AttributeError ''get'')) (\<lambda>d.
       bindM (from_sum (linux_endpoint_context P d (qi_agent_id row))) (\<lambda>native.
       bindM (case native of
                Some (kv # c) \<Rightarrow> ret (kv # c)
              | _ \<Rightarrow>
                 bindM (subscript ''id'' raw) (\<lambda>rid.
                 bindM (bindM (subscript ''host'' raw) (subscript ''id'')) (\<lambda>host_id.
                 ret [(''identity_model'', JStr ''linux_endpoint_v1''), (''record_id'', rid),
                      (''endpoint'', JObj [(''agent_id'', JStr (qi_agent_id row)), (''host_id'', host_id)]), (''subject'', JObj [])]))) (\<lambda>c.
       ret (Some (jset ''provenance'' (dflt ''provenance'' (JObj []) d) c)))))))"

text \<open>One event in its transaction; any exception rolls it back and marks the event failed.\<close>

definition detect :: "env \<Rightarrow> ('f, 'g) detection \<Rightarrow> claimed_row \<Rightarrow> (('f, 'g) world, unit) act" where
  "detect e P row =
    bindM (normalize_raw P (qi_raw_json row)) (\<lambda>event.
    bindM (linux_context_of P row) (\<lambda>linux_context.
    world_transaction (
      seqM (process_event P (emit e P (Some (qi_agent_id row)) linux_context) event)
      (on_telem (modify (mark_done row))))))"

definition process_one :: "env \<Rightarrow> ('f, 'g) detection \<Rightarrow> claimed_row \<Rightarrow> (('f, 'g) world, unit) act" where
  "process_one e P row = tryM (detect e P row) (\<lambda>_. world_transaction (on_telem (modify (mark_failed row))))"

definition process_claimed :: "env \<Rightarrow> ('f, 'g) detection \<Rightarrow> claimed_row list \<Rightarrow> (('f, 'g) world, unit) act" where
  "process_claimed e P rows = forM (process_one e P) rows"

definition run_once :: "env \<Rightarrow> ('f, 'g) detection \<Rightarrow> (('f, 'g) world, nat) act" where
  "run_once e P =
    bindM (claim_batch e) (\<lambda>rows.
    seqM (if rows \<noteq> [] then process_claimed e P rows else ret ()) (ret (length rows)))"

section \<open>Pruning\<close>

record worker =
  idle_rounds :: nat
  events_since_prune :: nat

definition PRUNE_EVERY_IDLE_ROUNDS :: nat where
  "PRUNE_EVERY_IDLE_ROUNDS = 60"

definition PRUNE_EVERY_EVENTS :: nat where
  "PRUNE_EVERY_EVENTS = 10000"

definition count_round :: "nat \<Rightarrow> worker \<Rightarrow> worker" where
  "count_round claimed k =
    (if 0 < claimed then k\<lparr>idle_rounds := 0, events_since_prune := events_since_prune k + claimed\<rparr>
     else k\<lparr>idle_rounds := idle_rounds k + 1\<rparr>)"

definition maybe_prune :: "('f, 'g) detection \<Rightarrow> nat \<Rightarrow> worker \<Rightarrow> 'g \<Rightarrow> worker \<times> 'g" where
  "maybe_prune P claimed k0 g =
    (let k = count_round claimed k0 in
     if events_since_prune k < PRUNE_EVERY_EVENTS \<and> idle_rounds k < PRUNE_EVERY_IDLE_ROUNDS then (k, g)
     else (k\<lparr>idle_rounds := 0, events_since_prune := 0\<rparr>, prune P g))"

text \<open>One turn of the worker's loop, with its counters.\<close>

definition turn :: "env \<Rightarrow> ('f, 'g) detection \<Rightarrow> worker \<Rightarrow> (('f, 'g) world, worker) act" where
  "turn e P k =
    bindM (run_once e P) (\<lambda>claimed.
    bindM (gets graph) (\<lambda>g.
    case maybe_prune P claimed k g of (k', g') \<Rightarrow> seqM (modify (\<lambda>w. w\<lparr>graph := g'\<rparr>)) (ret k')))"


section \<open>Sharing the batch\<close>

text \<open>
  After the \<open>k\<close>-th pass every queue gave \<open>k\<close> or all it had. The last pass may stop halfway.
\<close>

lemma share_round_level:
  assumes "share_round ls (map (min k) ls) remaining = (ts, r, changed)"
  shows "list_all2 (\<lambda>l t. min k l \<le> t \<and> t \<le> min (Suc k) l) ls ts \<and> sum_list ts + r = sum_list (map (min k) ls) + remaining \<and>
    (0 < r \<longrightarrow> ts = map (min (Suc k)) ls) \<and> (\<not> changed \<longrightarrow> ts = map (min k) ls \<and> r = remaining)"
  using assms
proof (induction ls arbitrary: remaining ts r changed)
  case (Cons l ls)
  show ?case
  proof (cases "0 < remaining \<and> min k l < l")
    case True
    obtain us c where rest: "share_round ls (map (min k) ls) (remaining - 1) = (us, r, c)" "ts = Suc (min k l) # us" changed
      using Cons.prems True by (auto split: prod.splits)
    have "Suc (min k l) = min (Suc k) l" using True by auto
    then show ?thesis using Cons.IH [OF rest(1)] rest(2,3) True by auto
  next
    case False
    obtain us where rest: "share_round ls (map (min k) ls) remaining = (us, r, changed)" "ts = min k l # us"
      using Cons.prems False by (auto split: prod.splits)
    note IH = Cons.IH [OF rest(1)]
    have "min k l = min (Suc k) l" if "0 < r"
    proof -
      have "0 < remaining" using that share_round_remaining [OF rest(1)] by simp
      then show ?thesis using False by auto
    qed
    then show ?thesis using IH rest(2) by auto
  qed
qed simp

lemma level_sum: "list_all2 (\<lambda>l t. min k l \<le> t \<and> t \<le> min (Suc k) l) ls ts \<Longrightarrow> sum_list ts \<le> sum_list (ls :: nat list)"
  by (induction rule: list_all2_induct) auto

lemma level_map: "list_all2 (\<lambda>l t. min k l \<le> t \<and> t \<le> min (Suc k) l) ls (map (min k) ls)"
  by (induction ls) auto

lemma share_spec:
  "\<exists>k'. list_all2 (\<lambda>l t. min k' l \<le> t \<and> t \<le> min (Suc k') l) ls (share ls (map (min k) ls) remaining) \<and>
    sum_list (share ls (map (min k) ls) remaining) = min (sum_list (map (min k) ls) + remaining) (sum_list ls)"
proof (induction remaining arbitrary: k rule: less_induct)
  case (less remaining)
  have map_le: "sum_list (map (min k) ls) \<le> sum_list ls" using level_sum [OF level_map] .
  obtain ts r changed where round: "share_round ls (map (min k) ls) remaining = (ts, r, changed)" by (metis prod.exhaust)
  note R = share_round_level [OF round]
  show ?case
  proof (cases "remaining = 0")
    case True
    then show ?thesis using level_map map_le by (auto simp: share.simps)
  next
    case False
    then have unfold: "share ls (map (min k) ls) remaining = (if changed then share ls ts r else ts)"
      by (subst share.simps) (simp add: round)
    consider (full) "changed" "r = 0" | (go) "changed" "0 < r" | (stop) "\<not> changed" by auto
    then show ?thesis
    proof cases
      case full
      then have "share ls (map (min k) ls) remaining = ts" using unfold by (simp add: share.simps)
      moreover have "sum_list ts = sum_list (map (min k) ls) + remaining" using R full(2) by linarith
      moreover have "sum_list ts \<le> sum_list ls" using R level_sum by blast
      ultimately show ?thesis using R by (intro exI [of _ k]) simp
    next
      case go
      then have "share ls (map (min k) ls) remaining = share ls (map (min (Suc k)) ls) r" using unfold R by simp
      moreover have "r < remaining" using share_round_remaining [OF round] go by simp
      moreover have "sum_list (map (min (Suc k)) ls) + r = sum_list (map (min k) ls) + remaining" using R go(2) by blast
      ultimately show ?thesis using less.IH [of r "Suc k"] by simp
    next
      case stop
      then have same: "ts = map (min k) ls" "0 < r" using R False by simp_all
      have "ts = map (min (Suc k)) ls" using R same(2) by blast
      then have "map (min k) ls = map (min (Suc k)) ls" using same(1) by simp
      then have "\<forall>l\<in>set ls. min k l = min (Suc k) l" by simp
      then have all: "map (min k) ls = ls" by (intro map_idI) auto
      then show ?thesis using unfold stop R level_map [of k ls] by (auto intro: exI [of _ k])
    qed
  qed
qed

text \<open>What the batch takes of each queue.\<close>

definition fair_shares :: "nat list \<Rightarrow> nat list \<Rightarrow> bool" where
  "fair_shares ls ts \<longleftrightarrow> length ts = length ls \<and> sum_list ts = min CLAIM_LIMIT (sum_list ls) \<and> (\<forall>i<length ls. ts ! i \<le> ls ! i) \<and>
     (\<forall>i<length ls. \<forall>j<length ls. ts ! i < ls ! i \<longrightarrow> ts ! j \<le> Suc (ts ! i))"

lemma share_fair: "fair_shares ls (share ls (map (\<lambda>_. 0) ls) CLAIM_LIMIT)"
proof -
  let ?ts = "share ls (map (\<lambda>_. 0) ls) CLAIM_LIMIT"
  have zero: "map (\<lambda>_. 0) ls = map (min 0) ls" by simp
  have sum0: "sum_list (map (min 0) ls) = 0" by (induction ls) auto
  obtain k where k: "list_all2 (\<lambda>l t. min k l \<le> t \<and> t \<le> min (Suc k) l) ls ?ts" "sum_list ?ts = min CLAIM_LIMIT (sum_list ls)"
    using share_spec [of ls 0 CLAIM_LIMIT] unfolding zero sum0 by auto
  have len: "length ?ts = length ls" using list_all2_lengthD [OF k(1)] by simp
  have bound: "min k (ls ! i) \<le> ?ts ! i" "?ts ! i \<le> min (Suc k) (ls ! i)" if "i < length ls" for i
    using k(1) that by (auto simp: list_all2_conv_all_nth)
  have "?ts ! j \<le> Suc (?ts ! i)" if "i < length ls" "j < length ls" "?ts ! i < ls ! i" for i j
    using bound [of i] bound [of j] that by auto
  moreover have "?ts ! i \<le> ls ! i" if "i < length ls" for i using bound [OF that] by simp
  ultimately show ?thesis using len k(2) by (auto simp: fair_shares_def)
qed


section \<open>What a step does to the queues\<close>

definition item_state :: "queue_kind \<Rightarrow> string \<Rightarrow> string \<Rightarrow> telemetry \<Rightarrow> detect_state option" where
  "item_state q a i t =
    (case q of
       Legacy \<Rightarrow> map_option ev_detect_state (find_by ev_event_id i (events t))
     | Endpoint \<Rightarrow> map_option er_detect_state (find_by (\<lambda>r. (er_agent_id r, er_record_id r)) (a, i) (endpoint_records t))
     | Linux \<Rightarrow> map_option ld_state (find_by (\<lambda>r. (ld_agent_id r, ld_record_id r)) (a, i) (linux_endpoint_detection t)))"

definition names_item :: "claimed_row \<Rightarrow> queue_kind \<Rightarrow> string \<Rightarrow> string \<Rightarrow> bool" where
  "names_item row q a i \<longleftrightarrow> qi_queue row = q \<and> qi_event_id row = i \<and> (q = Legacy \<or> qi_agent_id row = a)"

lemma item_state_on_item:
  assumes "\<And>r. ev_event_id (f r) = ev_event_id r" "\<And>r. ev_detect_state (f r) = s"
    and "\<And>r. er_agent_id (g r) = er_agent_id r" "\<And>r. er_record_id (g r) = er_record_id r" "\<And>r. er_detect_state (g r) = s"
    and "\<And>r. ld_agent_id (h r) = ld_agent_id r" "\<And>r. ld_record_id (h r) = ld_record_id r" "\<And>r. ld_state (h r) = s"
  shows "item_state q a i (on_item (qi_queue row) (qi_agent_id row) (qi_event_id row) f g h t) =
    (if names_item row q a i then map_option (\<lambda>_. s) (item_state q a i t) else item_state q a i t)"
proof -
  have "(find_by ev_event_id i (update_where (\<lambda>r. ev_event_id r = j) f (events t))) =
      map_option (\<lambda>r. if ev_event_id r = j then f r else r) (find_by ev_event_id i (events t))" for j
    by (rule find_by_update_where) (rule assms)
  moreover have "find_by (\<lambda>r. (er_agent_id r, er_record_id r)) (a, i) (update_where (\<lambda>r. er_agent_id r = b \<and> er_record_id r = j) g (endpoint_records t)) =
      map_option (\<lambda>r. if er_agent_id r = b \<and> er_record_id r = j then g r else r)
        (find_by (\<lambda>r. (er_agent_id r, er_record_id r)) (a, i) (endpoint_records t))" for b j
    by (rule find_by_update_where) (simp add: assms)
  moreover have "find_by (\<lambda>r. (ld_agent_id r, ld_record_id r)) (a, i) (update_where (\<lambda>r. ld_agent_id r = b \<and> ld_record_id r = j) h (linux_endpoint_detection t)) =
      map_option (\<lambda>r. if ld_agent_id r = b \<and> ld_record_id r = j then h r else r)
        (find_by (\<lambda>r. (ld_agent_id r, ld_record_id r)) (a, i) (linux_endpoint_detection t))" for b j
    by (rule find_by_update_where) (simp add: assms)
  ultimately show ?thesis
    by (cases q; cases "qi_queue row")
      (auto simp: on_item_def item_state_def names_item_def assms option.map_comp comp_def dest!: find_by_SomeD intro!: map_option_cong split: if_splits)
qed

lemma item_state_marks:
  "item_state q a i (mark_claimed stamp row t) = (if names_item row q a i then map_option (\<lambda>_. Claimed) (item_state q a i t) else item_state q a i t)"
  "item_state q a i (mark_done row t) = (if names_item row q a i then map_option (\<lambda>_. Done) (item_state q a i t) else item_state q a i t)"
  "item_state q a i (mark_failed row t) = (if names_item row q a i then map_option (\<lambda>_. Failed) (item_state q a i t) else item_state q a i t)"
  unfolding mark_claimed_def mark_done_def mark_failed_def by (rule item_state_on_item; simp)+


section \<open>What the engine may do\<close>

text \<open>
  The engine reaches the manager only through the \<open>emit\<close> it was built with: whatever \<open>emit\<close> keeps, and changes of
  the engine's own graph keep, a whole run keeps.
\<close>

definition acts_through_emit :: "('f, 'g) detection \<Rightarrow> bool" where
  "acts_through_emit P \<longleftrightarrow> (\<forall>R em event.
     (\<forall>w. R w w) \<and> (\<forall>u v w. R u v \<longrightarrow> R v w \<longrightarrow> R u w) \<and> (\<forall>w g. R w (w\<lparr>graph := g\<rparr>)) \<and> (\<forall>alert. stays R (em alert)) \<longrightarrow>
     stays R (process_event P em event))"

text \<open>Relations that the file and the graph do not matter for.\<close>

locale database_frame = frame R for R :: "('f, 'g) world \<Rightarrow> ('f, 'g) world \<Rightarrow> bool" +
  assumes outside: "core w' = core w \<Longrightarrow> telem w' = telem w \<Longrightarrow> R w w'"
begin

lemma stays_on_file: "stays R (on_file m)"
  by (rule staysI, rule outside) (auto simp: on_file_def split: prod.splits)

lemma stays_world_transaction:
  assumes "stays R m"
  shows "stays R (world_transaction m)"
proof (rule staysI)
  fix w
  obtain r v where m: "m w = (r, v)" by fastforce
  show "R w (snd (world_transaction m w))"
  proof (cases r)
    case (Inl x)
    then show ?thesis using m outside [of "v\<lparr>core := core w, telem := telem w\<rparr>" w] by (simp add: world_transaction_def)
  next
    case (Inr a)
    then show ?thesis using m stays_run [OF assms m] by (simp add: world_transaction_def)
  qed
qed

lemma stays_from_sum: "stays R (from_sum x)"
  unfolding from_sum_def by (intro stays_structural stays_splits)

lemma stays_binds: "stays R (bind_text v)" "stays R (bind_int x)" "stays R (bind_level v)" "stays R (py_iter v)"
  unfolding bind_text_def bind_int_def bind_level_def py_iter_def by (intro stays_structural stays_splits; simp)+

lemma stays_contextualize: "stays R (contextualize e a c alert)"
  unfolding contextualize_def by (intro stays_structural stays_splits)

lemma stays_to_engine_event: "stays R (to_engine_event rec)"
  unfolding to_engine_event_def sub_record_def first_ancestor_def user_name_def command_line_def py_str_def Let_def
  by (intro stays_structural stays_splits)

lemma stays_normalize_raw: "stays R (normalize_raw P raw)"
  unfolding normalize_raw_def by (intro stays_structural stays_splits stays_from_sum stays_to_engine_event)

lemma stays_linux_context_of: "stays R (linux_context_of P row)"
  unfolding linux_context_of_def subscript_def by (intro stays_structural stays_splits stays_from_sum)

lemma stays_process_event:
  assumes "acts_through_emit P" and "\<And>alert. stays R (em alert)"
  shows "stays R (process_event P em event)"
proof -
  have "(\<forall>w. R w w) \<and> (\<forall>u v w. R u v \<longrightarrow> R v w \<longrightarrow> R u w) \<and> (\<forall>w g. R w (w\<lparr>graph := g\<rparr>)) \<and> (\<forall>alert. stays R (em alert))"
    using R_refl R_trans outside assms(2) by (auto intro: R_trans)
  then show ?thesis using assms(1) unfolding acts_through_emit_def by blast
qed

text \<open>A client's obligation: what its relation says of the four writes of \<open>emit\<close> and of marking a row.\<close>

lemma stays_emit:
  assumes "\<And>rec. stays R (on_core (insert_alert e rec agent_id))" and "\<And>rec. stays R (upsert_incident e rec agent_id)"
    and "\<And>rec. stays R (on_core (on_alert_created e rec))"
  shows "stays R (emit e P agent_id c alert)"
  unfolding emit_def by (intro stays_structural stays_if assms stays_on_file stays_contextualize)

lemma stays_process_one:
  assumes "acts_through_emit P" and "\<And>a c alert. stays R (emit e P a c alert)"
    and "stays R (on_telem (modify (mark_done row)))" and "stays R (on_telem (modify (mark_failed row)))"
  shows "stays R (process_one e P row)"
  unfolding process_one_def detect_def
  by (intro stays_structural stays_world_transaction stays_process_event assms stays_normalize_raw stays_linux_context_of)

end

section \<open>Queues and incidents under the worker\<close>

definition queues_same :: "('f, 'g) world \<Rightarrow> ('f, 'g) world \<Rightarrow> bool" where
  "queues_same w w' \<longleftrightarrow> events (telem w') = events (telem w) \<and> endpoint_records (telem w') = endpoint_records (telem w) \<and>
     linux_endpoint_detection (telem w') = linux_endpoint_detection (telem w)"

interpretation queues: database_frame "queues_same :: ('f, 'g) world \<Rightarrow> ('f, 'g) world \<Rightarrow> bool"
  by unfold_locales (auto simp: queues_same_def)

interpretation advancing: database_frame "incidents_advance :: ('f, 'g) world \<Rightarrow> ('f, 'g) world \<Rightarrow> bool"
proof (unfold_locales, goal_cases)
  case (1 w' w)
  then show ?case by (intro incident_rows.evolve_same) (simp add: incidents_of_def)
qed

lemma queues_core: "stays queues_same (on_core m)"
  by (rule staysI) (simp add: queues_same_def on_core_def split: prod.splits)

lemma queues_incident_writes:
  "(\<And>t. events (f t) = events t) \<Longrightarrow> (\<And>t. endpoint_records (f t) = endpoint_records t) \<Longrightarrow>
   (\<And>t. linux_endpoint_detection (f t) = linux_endpoint_detection t) \<Longrightarrow> stays queues_same (on_telem (modify f))"
  by (rule staysI) (simp add: queues_same_def on_telem_def)

lemma queues_upsert: "stays queues_same (upsert_incident e rec agent_id)"
  unfolding upsert_incident_def fold_incident_def seen_window_def read_incident_def open_incident_def revise_incident_def bind_summary_def
    link_members_def link_stage_def link_def audit_incident_def stages_of_def Let_def
  by (intro queues.stays_structural queues.stays_binds queues_core queues_incident_writes stays_splits; simp)+

lemma queues_emit: "stays queues_same (emit e P a c alert)"
  by (intro queues.stays_emit queues_core queues_upsert)

lemma incidents_advance_emit: "stays incidents_advance (emit e P a c alert)"
  by (intro advancing.stays_emit incidents_advance_core incidents_advance_upsert)


section \<open>One event\<close>

text \<open>The pure reads before the transaction.\<close>

definition database_same :: "('f, 'g) world \<Rightarrow> ('f, 'g) world \<Rightarrow> bool" where
  "database_same w w' \<longleftrightarrow> core w' = core w \<and> telem w' = telem w"

interpretation reading: database_frame "database_same :: ('f, 'g) world \<Rightarrow> ('f, 'g) world \<Rightarrow> bool"
  by unfold_locales (auto simp: database_same_def)

lemma rollback_clean: "world_transaction m v = (Inl y, v') \<Longrightarrow> database_same v v'"
  by (auto simp: world_transaction_def database_same_def split: prod.splits sum.splits)

text \<open>Work that leaves the database as it was whenever it raises.\<close>

definition fails_clean :: "(('f, 'g) world, 'a) act \<Rightarrow> bool" where
  "fails_clean m \<longleftrightarrow> (\<forall>w x w'. m w = (Inl x, w') \<longrightarrow> database_same w w')"

lemma fails_cleanD: "fails_clean m \<Longrightarrow> m w = (Inl x, w') \<Longrightarrow> database_same w w'"
  by (simp add: fails_clean_def)

lemma fails_clean_reading: "stays database_same m \<Longrightarrow> fails_clean m"
  unfolding fails_clean_def by (blast dest: stays_run)

lemma fails_clean_transaction: "fails_clean (world_transaction m)"
  unfolding fails_clean_def by (blast dest: rollback_clean)

lemma fails_clean_bindM:
  assumes "stays database_same m" and "\<And>a. fails_clean (f a)"
  shows "fails_clean (bindM m f)"
  unfolding fails_clean_def
proof (intro allI impI)
  fix w x w' assume "bindM m f w = (Inl x, w')"
  then consider "m w = (Inl x, w')" | a v where "m w = (Inr a, v)" "f a v = (Inl x, w')" unfolding bindM_Inl_iff by blast
  then show "database_same w w'"
  proof cases
    case 1
    then show ?thesis by (rule stays_run [OF assms(1)])
  next
    case (2 a v)
    then show ?thesis using stays_run [OF assms(1)] fails_cleanD [OF assms(2)] by (metis reading.R_trans)
  qed
qed

lemma fails_clean_result: "fails_clean m \<Longrightarrow> fails_clean (bindM m (\<lambda>a. ret (g a)))"
  unfolding fails_clean_def by (auto simp: bindM_Inl_iff)

lemma detect_fails_clean: "detect e P row w = (Inl x, w') \<Longrightarrow> database_same w w'"
proof (rule fails_cleanD)
  show "fails_clean (detect e P row)" unfolding detect_def
    by (intro fails_clean_bindM fails_clean_transaction reading.stays_normalize_raw reading.stays_linux_context_of)
qed


lemma item_state_queues: "queues_same w w' \<Longrightarrow> item_state q a i (telem w') = item_state q a i (telem w)"
  by (simp add: queues_same_def item_state_def split: queue_kind.splits)

lemma detect_marks_done:
  assumes "acts_through_emit P" and "detect e P row w = (Inr u, w')"
  shows "item_state q a i (telem w') =
    (if names_item row q a i then map_option (\<lambda>_. Done) (item_state q a i (telem w)) else item_state q a i (telem w))"
proof -
  obtain ev w1 c w2 w3 where run: "normalize_raw P (qi_raw_json row) w = (Inr ev, w1)" "linux_context_of P row w1 = (Inr c, w2)"
      "process_event P (emit e P (Some (qi_agent_id row)) c) ev w2 = (Inr (), w3)" "w' = w3\<lparr>telem := mark_done row (telem w3)\<rparr>"
    using assms(2) unfolding detect_def by (auto simp: bindM_Inr_iff on_telem_Inr_iff)
  have "queues_same w w1" by (rule stays_run [OF queues.stays_normalize_raw run(1)])
  moreover have "queues_same w1 w2" by (rule stays_run [OF queues.stays_linux_context_of run(2)])
  moreover have "queues_same w2 w3" by (rule stays_run [OF queues.stays_process_event [OF assms(1) queues_emit] run(3)])
  ultimately have "queues_same w w3" using queues.R_trans by blast
  then have "item_state q a i (telem w3) = item_state q a i (telem w)" by (rule item_state_queues)
  then show ?thesis using run(4) by (simp add: item_state_marks)
qed

lemma process_one_marks:
  assumes "acts_through_emit P" and "process_one e P row w = (r, w')"
  shows "\<exists>s. s \<in> {Done, Failed} \<and> (\<forall>q a i. item_state q a i (telem w') =
    (if names_item row q a i then map_option (\<lambda>_. s) (item_state q a i (telem w)) else item_state q a i (telem w)))"
proof (cases "detect e P row w")
  case (Pair d v)
  show ?thesis
  proof (cases d)
    case (Inl x)
    then have "database_same w v" using detect_fails_clean Pair by blast
    then have "telem w' = mark_failed row (telem w)"
      using assms(2) Pair Inl by (auto simp: process_one_def tryM_def world_transaction_def on_telem_def database_same_def)
    then show ?thesis by (intro exI [of _ Failed]) (simp add: item_state_marks)
  next
    case (Inr u)
    then have "w' = v" using assms(2) Pair by (simp add: process_one_def tryM_def)
    then show ?thesis using detect_marks_done [OF assms(1), of e row w u v] Pair Inr by (intro exI [of _ Done]) simp
  qed
qed

section \<open>A batch\<close>

text \<open>
  C33. Processing a batch never raises, and it settles exactly the events it was given: each of them ends done or failed,
  whatever happened to the others, and no other event of any queue changes its state.
\<close>

theorem batch_settles_exactly_its_events:
  assumes "acts_through_emit P"
  shows "\<exists>w'. process_claimed e P rows w = (Inr (), w') \<and>
    (\<forall>q a i. item_state q a i (telem w') \<in>
      (if (\<exists>row\<in>set rows. names_item row q a i) \<and> item_state q a i (telem w) \<noteq> None then {Some Done, Some Failed}
       else {item_state q a i (telem w)}))"
  unfolding process_claimed_def
proof (induction rows arbitrary: w)
  case (Cons row rows)
  obtain w1 where w1: "process_one e P row w = (Inr (), w1)"
    by (cases "process_one e P row w"; cases "fst (process_one e P row w)")
      (auto simp: process_one_def tryM_def world_transaction_def on_telem_def split: prod.splits sum.splits)
  obtain s where s: "s \<in> {Done, Failed}" "\<And>q a i. item_state q a i (telem w1) =
      (if names_item row q a i then map_option (\<lambda>_. s) (item_state q a i (telem w)) else item_state q a i (telem w))"
    using process_one_marks [OF assms w1] by blast
  obtain w' where w': "forM (process_one e P) rows w1 = (Inr (), w')"
      "\<And>q a i. item_state q a i (telem w') \<in> (if (\<exists>row\<in>set rows. names_item row q a i) \<and> item_state q a i (telem w1) \<noteq> None
        then {Some Done, Some Failed} else {item_state q a i (telem w1)})"
    using Cons.IH [of w1] by blast
  have "item_state q a i (telem w') \<in> (if (\<exists>r\<in>set (row # rows). names_item r q a i) \<and> item_state q a i (telem w) \<noteq> None
      then {Some Done, Some Failed} else {item_state q a i (telem w)})" for q a i
    using w'(2) [of q a i] s(1) s(2) [of q a i] by (auto split: if_splits)
  then show ?case using w1 w'(1) by (intro exI [of _ w']) (auto simp: bindM_Inr)
qed simp


section \<open>Claims\<close>

lemma item_state_claims:
  "item_state q a i (foldl (\<lambda>t row. mark_claimed stamp row t) t rows) =
    (if \<exists>row\<in>set rows. names_item row q a i then map_option (\<lambda>_. Claimed) (item_state q a i t) else item_state q a i t)"
  by (induction rows arbitrary: t) (auto simp: item_state_marks option.map_comp comp_def)

text \<open>
  C34. A claim takes a bounded and fair batch. The loop that shares the capacity ends; the batch is 256 events or all
  there are, in the order of each queue; a queue that still has events gave at most one less than any other; and exactly
  the events of the batch become claimed, with the rest of the database untouched.
\<close>

theorem worker_shares_its_batch:
  "\<exists>shares rows w'. claim_batch e w = (Inr rows, w') \<and>
    rows = concat (map2 take shares [legacy_queue (telem w), canonical_queue (telem w), linux_queue (telem w)]) \<and>
    fair_shares (map length [legacy_queue (telem w), canonical_queue (telem w), linux_queue (telem w)]) shares \<and> core w' = core w \<and>
    (\<forall>q a i. item_state q a i (telem w') =
      (if \<exists>row\<in>set rows. names_item row q a i then map_option (\<lambda>_. Claimed) (item_state q a i (telem w)) else item_state q a i (telem w)))"
proof -
  define qs where "qs = [legacy_queue (telem w), canonical_queue (telem w), linux_queue (telem w)]"
  define shares where "shares = share (map length qs) (map (\<lambda>_. 0) (map length qs)) CLAIM_LIMIT"
  have "fair_shares (map length qs) shares" unfolding shares_def by (rule share_fair)
  moreover have "claim_batch e w = (Inr (batch_of qs), w\<lparr>telem := foldl (\<lambda>t row. mark_claimed (iso_now e) row t) (telem w) (batch_of qs)\<rparr>)"
    by (simp add: claim_batch_def world_transaction_def on_telem_def qs_def Let_def bindM_def)
  moreover have "batch_of qs = concat (map2 take shares qs)" by (simp add: batch_of_def shares_def comp_def)
  moreover define w' where "w' = w\<lparr>telem := foldl (\<lambda>t row. mark_claimed (iso_now e) row t) (telem w) (batch_of qs)\<rparr>"
  moreover have "core w' = core w" "item_state q a i (telem w') = (if \<exists>row\<in>set (batch_of qs). names_item row q a i
      then map_option (\<lambda>_. Claimed) (item_state q a i (telem w)) else item_state q a i (telem w))" for q a i
    by (simp_all add: w'_def item_state_claims)
  ultimately show ?thesis unfolding qs_def by blast
qed

lemma incidents_marks [simp]:
  "incidents (mark_claimed stamp row t) = incidents t" "incidents (mark_done row t) = incidents t" "incidents (mark_failed row t) = incidents t"
  by (simp_all add: mark_claimed_def mark_done_def mark_failed_def on_item_def split: queue_kind.splits)

lemma incidents_claims: "incidents (foldl (\<lambda>t row. mark_claimed stamp row t) t rows) = incidents t"
  by (induction rows arbitrary: t) simp_all

lemma incidents_advance_run_once: "acts_through_emit P \<Longrightarrow> stays incidents_advance (run_once e P)"
  unfolding run_once_def claim_batch_def process_claimed_def Let_def
  by (intro incident_rows.stays_structural advancing.stays_world_transaction advancing.stays_process_one incidents_advance_emit
      incidents_advance_modify stays_if) (simp_all add: incidents_claims)

text \<open>
  C35. The engine never overrules the analyst. A round of the worker keeps every incident, with its status, its creation
  and its agent; and either the incident is unchanged or its revision went up.
\<close>

theorem engine_never_overrules_the_analyst:
  assumes "acts_through_emit P" and "run_once e P w = (r, w')" and "find_by in_incident_id i (incidents (telem w)) = Some x"
  shows "\<exists>x'. find_by in_incident_id i (incidents (telem w')) = Some x' \<and> in_status x' = in_status x \<and> in_created_at x' = in_created_at x \<and>
    (in_agent_id x \<noteq> None \<longrightarrow> in_agent_id x' = in_agent_id x) \<and> (x' = x \<or> in_revision x < in_revision x')"
  using stays_run [OF incidents_advance_run_once [OF assms(1)] assms(2)] assms(3)
  unfolding rows_evolve_def incidents_of_def incident_moves_def by blast

section \<open>Replayed alerts\<close>

text \<open>An action that only computes: its result does not depend on the state.\<close>

definition reads_as :: "('s, 'a) act \<Rightarrow> (unit, 'a) act \<Rightarrow> 's \<Rightarrow> bool" where
  "reads_as m m' s \<longleftrightarrow> m s = (fst (m' ()), s)"

lemma reads_as_structural:
  "reads_as (ret a) (ret a) s" "reads_as (throw x) (throw x) s" "reads_as (require_some v x) (require_some v x) s"
  by (simp_all add: reads_as_def require_some_def split: option.splits)

lemma reads_as_bindM:
  assumes "reads_as m m' s" and "\<And>a. reads_as (f a) (f' a) s"
  shows "reads_as (bindM m f) (bindM m' f') s"
proof (cases "m' ()")
  case (Pair r u)
  then show ?thesis using assms by (cases r) (auto simp: reads_as_def bindM_def)
qed

lemma reads_as_binds: "reads_as (bind_text v) (bind_text v) s" "reads_as (bind_level v) (bind_level v) s"
  by (simp_all add: reads_as_def bind_text_def bind_level_def bind_int_def split: json.splits)

lemma bind_alert_read: "bind_alert rec ag d = (fst (bind_alert rec ag ()), d)"
  unfolding reads_as_def [symmetric] bind_alert_def by (intro reads_as_bindM reads_as_structural reads_as_binds)

lemma contextualize_read: "contextualize e ag c alert w = (fst (contextualize e ag c alert ()), w)"
proof (cases c)
  case (Some k)
  have "reads_as (contextualize e ag (Some k) alert) (contextualize e ag (Some k) alert) w"
    unfolding contextualize_def option.case
    by (intro reads_as_bindM reads_as_structural) (simp add: reads_as_def)
  then show ?thesis using Some by (simp add: reads_as_def)
qed (simp add: contextualize_def)

lemma contextualize_sha:
  assumes "sha256 e' = sha256 e"
  shows "contextualize e' = contextualize e"
  unfolding contextualize_def linux_alert_id_def assms by (rule refl)

lemma bind_alert_key: "bind_alert rec ag d = (Inr (i, Some r), d') \<Longrightarrow> al_alert_id (r stamp) = i"
  unfolding bind_alert_def by (auto simp: bindM_Inr_iff)

text \<open>The second insertion of an alert finds the first.\<close>

lemma insert_alert_again:
  assumes "insert_alert e rec ag d = (Inr b, d1)" and "alerts d2 = alerts d1"
  shows "insert_alert e' rec ag d2 = (Inr False, d2)"
proof -
  obtain i row where bind: "fst (bind_alert rec ag ()) = Inr (i, row)"
    using assms(1) bind_alert_read [of rec ag d] unfolding insert_alert_def
    by (cases "fst (bind_alert rec ag ())") (auto simp: bindM_def)
  have run: "bind_alert rec ag x = (Inr (i, row), x)" for x :: db using bind bind_alert_read [of rec ag x] by simp
  have "i \<in> al_alert_id ` set (alerts d2)" if r: "row = Some r" for r
  proof -
    have "al_alert_id (r (iso_now e)) = i" using bind_alert_key [OF run [of d, unfolded r]] .
    then show ?thesis
      using assms r unfolding insert_alert_def bindM_Inr [where m = "bind_alert _ _", OF run] by (auto split: if_splits)
  qed
  then show ?thesis unfolding insert_alert_def bindM_Inr [where m = "bind_alert _ _", OF run] by (cases row) auto
qed

lemma on_alert_created_alerts: "on_alert_created e rec d = (r, d') \<Longrightarrow> alerts d' = alerts d"
  using stays_run [OF foreground_on_alert_created] by (auto simp: foreground_def background_def)

lemma folded_same:
  "telem w' = telem w \<Longrightarrow> alerts (core w') = alerts (core w) \<Longrightarrow> folded rec w \<Longrightarrow> folded rec w'"
  by (auto simp: folded_def incidents_of_def all_linked_def member_def)

text \<open>What upserting leaves of the alerts.\<close>

definition alerts_same :: "('f, 'g) world \<Rightarrow> ('f, 'g) world \<Rightarrow> bool" where
  "alerts_same w w' \<longleftrightarrow> alerts (core w') = alerts (core w)"

interpretation alerts_same: database_frame "alerts_same :: ('f, 'g) world \<Rightarrow> ('f, 'g) world \<Rightarrow> bool"
  by unfold_locales (auto simp: alerts_same_def)

lemma alerts_same_writes: "stays alerts_same (on_telem m)" "stays alerts_same (on_core (draw g))"
  by (auto intro!: staysI simp: alerts_same_def on_telem_def on_core_def draw_def split: prod.splits)

lemma alerts_same_upsert: "stays alerts_same (upsert_incident e rec agent_id)"
  unfolding upsert_incident_def fold_incident_def seen_window_def read_incident_def open_incident_def revise_incident_def bind_summary_def
    link_members_def link_stage_def link_def audit_incident_def stages_of_def Let_def
  by (intro alerts_same.stays_structural alerts_same.stays_binds alerts_same_writes stays_splits)

text \<open>
  C36. Replaying an alert changes nothing. Once an alert was emitted, emitting it again, at any later time, leaves every
  table as it is: no second alert, no second incident row, member or audit entry, and no second response.
\<close>

theorem replayed_alert_changes_nothing:
  assumes "emit e P agent_id lc alert w = (Inr (), w1)" and "sha256 e' = sha256 e"
  shows "core (snd (emit e' P agent_id lc alert w1)) = core w1 \<and> telem (snd (emit e' P agent_id lc alert w1)) = telem w1"
proof -
  obtain a where a: "fst (contextualize e agent_id lc alert ()) = Inr a"
    using assms(1) contextualize_read [of e agent_id lc alert w] unfolding emit_def
    by (cases "fst (contextualize e agent_id lc alert ())") (auto simp: bindM_def)
  have ctx: "contextualize e agent_id lc alert v = (Inr a, v)" for v :: "('a, 'b) world"
    using a contextualize_read [of e agent_id lc alert v] by simp
  obtain b d1 out w2 f where run: "insert_alert e a agent_id (core w) = (Inr b, d1)"
      "upsert_incident e a agent_id (w\<lparr>core := d1\<rparr>) = (Inr out, w2)"
      "(if b then on_core (on_alert_created e a) else ret ()) (w2\<lparr>alerts_file := f\<rparr>) = (Inr (), w1)"
    using assms(1) unfolding emit_def bindM_Inr [where m = "contextualize _ _ _ _", OF ctx] bindM_Inr_iff on_core_Inr_iff on_file_Inr_iff by blast
  have t: "telem w1 = telem w2" and d: "alerts (core w1) = alerts (core w2)"
    using run(3) on_alert_created_alerts by (auto simp: on_core_def split: if_splits prod.splits)
  have d2: "alerts (core w2) = alerts d1" using stays_run [OF alerts_same_upsert run(2)] by (simp add: alerts_same_def)
  have again: "insert_alert e' a agent_id (core w1) = (Inr False, core w1)"
    using insert_alert_again [OF run(1)] d d2 by simp
  have "folded a w1" using folded_same [OF t d] upsert_settles [OF run(2)] by blast
  then obtain out' where up: "upsert_incident e' a agent_id w1 = (Inr out', w1)" using upsert_again by blast
  have ins: "on_core (insert_alert e' a agent_id) w1 = (Inr False, w1)" using again by (simp add: on_core_def)
  have "emit e' P agent_id lc alert w1 = seqM (on_file (write_alert P a)) (ret ()) w1"
    unfolding emit_def contextualize_sha [OF assms(2)] bindM_Inr [where m = "contextualize _ _ _ _", OF ctx]
      bindM_Inr [where m = "on_core _", OF ins] bindM_Inr [where m = "upsert_incident _ _ _", OF up] by simp
  then show ?thesis by (auto simp: bindM_def on_file_def split: prod.splits sum.splits)
qed


section \<open>A concrete engine\<close>

text \<open>It raises one alert for every event that is a dictionary, and writes no file.\<close>

definition demo_detection :: "(unit, unit) detection" where
  "demo_detection = \<lparr>linux_endpoint_context = (\<lambda>d a. Inr None), is_endpoint_record = (\<lambda>v. False), transform_endpoint = (\<lambda>v. Inr v),
     is_officer_event = (\<lambda>d. False), transform_officer_event = (\<lambda>d. Inr (JObj d)),
     process_event = (\<lambda>em event. case event of JObj d \<Rightarrow> em d | _ \<Rightarrow> ret ()), write_alert = (\<lambda>a. ret ()), prune = (\<lambda>g. g)\<rparr>"

lemma demo_engine: "acts_through_emit demo_detection"
  by (auto simp: acts_through_emit_def demo_detection_def stays_def split: json.splits)

definition demo_event :: event_row where
  "demo_event = \<lparr>ev_event_id = ''e1'', ev_agent_id = ''a'', ev_host_id = ''h'', ev_category = ''process'', ev_event_timestamp = ''t'',
     ev_ingested_at = ''t'', ev_schema_version = ''0.3'', ev_clock_skew = 0, ev_raw_json = ''not json'', ev_detect_state = Claimed,
     ev_detect_attempts = 0, ev_claimed_at = None\<rparr>"

definition demo_incident :: incident_row where
  "demo_incident = \<lparr>in_incident_id = ''INC-1'', in_host_id = None, in_agent_id = None, in_status = ''resolved'', in_severity = None,
     in_level = None, in_score = None, in_confidence = None, in_tactics_json = [], in_stage_count = 0, in_root_process = None,
     in_root_pid = None, in_revision = 2, in_latest_alert_id = ''INC-1-R2'', in_first_seen = None, in_last_seen = None,
     in_incident_json = JNull, in_created_at = ''t'', in_updated_at = ''t''\<rparr>"

definition demo_world :: "(unit, unit) world" where
  "demo_world = \<lparr>core = empty_db, telem = empty_telemetry\<lparr>events := [demo_event], incidents := [demo_incident]\<rparr>, alerts_file = (), graph = ()\<rparr>"

definition demo_claim :: claimed_row where
  "demo_claim = \<lparr>qi_event_id = ''e1'', qi_agent_id = ''a'', qi_raw_json = ''not json'', qi_queue = Legacy\<rparr>"

theorem batch_settles_exactly_its_events_witness:
  "acts_through_emit demo_detection \<and>
   (\<exists>w'. process_claimed demo_env demo_detection [demo_claim] demo_world = (Inr (), w') \<and>
     item_state Legacy ''a'' ''e1'' (telem w') \<in> {Some Done, Some Failed} \<and> item_state Legacy ''a'' ''e2'' (telem w') = None)"
proof -
  obtain w' where w': "process_claimed demo_env demo_detection [demo_claim] demo_world = (Inr (), w')"
      "\<And>q a i. item_state q a i (telem w') \<in>
        (if (\<exists>row\<in>set [demo_claim]. names_item row q a i) \<and> item_state q a i (telem demo_world) \<noteq> None then {Some Done, Some Failed}
         else {item_state q a i (telem demo_world)})"
    using batch_settles_exactly_its_events [OF demo_engine, of demo_env "[demo_claim]" demo_world] by blast
  have "item_state Legacy ''a'' ''e1'' (telem w') \<in> {Some Done, Some Failed}" "item_state Legacy ''a'' ''e2'' (telem w') = None"
    using w'(2) [of Legacy "''a''" "''e1''"] w'(2) [of Legacy "''a''" "''e2''"]
    by (simp_all add: names_item_def demo_claim_def item_state_def demo_world_def demo_event_def)
  then show ?thesis using w'(1) demo_engine by blast
qed

theorem engine_never_overrules_the_analyst_witness:
  "\<exists>x'. find_by in_incident_id ''INC-1'' (incidents (telem (snd (run_once demo_env demo_detection demo_world)))) = Some x' \<and>
     in_status x' = ''resolved''"
proof -
  have "find_by in_incident_id ''INC-1'' (incidents (telem demo_world)) = Some demo_incident"
    by (simp add: demo_world_def demo_incident_def)
  then show ?thesis
    using engine_never_overrules_the_analyst [OF demo_engine, of demo_env demo_world "fst (run_once demo_env demo_detection demo_world)"
        "snd (run_once demo_env demo_detection demo_world)" "''INC-1''" demo_incident]
    by (auto simp: demo_incident_def)
qed

definition demo_raised :: jobj where
  "demo_raised = [(''alert_id'', JStr ''ALT-1''), (''rule_id'', JStr ''R1'')]"

lemma on_alert_created_returns: "\<exists>d'. on_alert_created e rec d = (Inr (), d')"
  by (auto simp: on_alert_created_def tryM_def split: prod.splits sum.splits)

lemma demo_emit: "\<exists>w'. emit demo_env demo_detection None None demo_raised demo_world = (Inr (), w')"
proof -
  have "\<exists>d. insert_alert demo_env demo_raised None (core demo_world) = (Inr True, d)"
    by (simp add: insert_alert_def bind_alert_def demo_raised_def bind_text_def bind_level_def jget_def demo_world_def bindM_def)
  then obtain d where ins: "on_core (insert_alert demo_env demo_raised None) demo_world = (Inr True, demo_world\<lparr>core := d\<rparr>)"
    by (auto simp: on_core_def)
  have up: "upsert_incident demo_env demo_raised None w = (Inr None, w)" for w :: "(unit, unit) world"
    by (simp add: upsert_incident_def demo_raised_def jget_def)
  have wr: "on_file (write_alert demo_detection demo_raised) w = (Inr (), w)" for w :: "(unit, unit) world"
    by (simp add: on_file_def demo_detection_def)
  obtain d' where "on_core (on_alert_created demo_env demo_raised) (demo_world\<lparr>core := d\<rparr>) = (Inr (), demo_world\<lparr>core := d'\<rparr>)"
    using on_alert_created_returns [of demo_env demo_raised d] by (auto simp: on_core_def)
  then show ?thesis unfolding emit_def contextualize_def option.case bindM_simps bindM_Inr [where m = "on_core _", OF ins]
      bindM_Inr [where m = "upsert_incident _ _ _", OF up] bindM_Inr [where m = "on_file _", OF wr] by auto
qed

theorem replayed_alert_changes_nothing_witness:
  "\<exists>w1. emit demo_env demo_detection None None demo_raised demo_world = (Inr (), w1) \<and>
     core (snd (emit demo_env demo_detection None None demo_raised w1)) = core w1"
proof -
  obtain w1 where run: "emit demo_env demo_detection None None demo_raised demo_world = (Inr (), w1)" using demo_emit by blast
  show ?thesis using replayed_alert_changes_nothing [OF run refl] run by blast
qed

end
