(* ===== verification/Service.thy ===== *)
theory Service
  imports Lifecycle Worker
begin

text \<open>
  One contract for every handler of the response plane: it only extends the audit and keeps its chain, moves commands and
  responses along their life cycles, keeps authorized responses linked to their commands, one outcome per command, and the
  keys of agents and alerts.
\<close>

section \<open>Identities and alerts\<close>

definition alerts_keyed :: "db \<Rightarrow> bool" where
  "alerts_keyed d \<longleftrightarrow> distinct (map al_alert_id (alerts d))"

definition identified :: "db \<Rightarrow> db \<Rightarrow> bool" where
  "identified d d' \<longleftrightarrow> (agents_unique d \<longrightarrow> agents_unique d') \<and> (alerts_keyed d \<longrightarrow> alerts_keyed d')"

lemma identified_same: "enrolled_agents d' = enrolled_agents d \<Longrightarrow> alerts d' = alerts d \<Longrightarrow> identified d d'"
  by (simp add: identified_def agents_unique_def alerts_keyed_def active_hosts_def)

interpretation identified: blind_frame identified
  by unfold_locales (simp_all add: identified_same audit_onlyD, simp_all add: identified_def)

lemma identified_modify:
  "(\<And>d. enrolled_agents (f d) = enrolled_agents d) \<Longrightarrow> (\<And>d. alerts (f d) = alerts d) \<Longrightarrow> stays identified (modify f)"
  by (simp add: stays_def identified_same)

lemma identified_enroll: "stays identified (enroll e agent_id host bootstrap public_key nonce signature)"
proof (rule staysI)
  fix d
  obtain r d' where run: "enroll e agent_id host bootstrap public_key nonce signature d = (r, d')" by fastforce
  show "identified d (snd (enroll e agent_id host bootstrap public_key nonce signature d))"
  proof (cases r)
    case (Inl x)
    then have "d' = d" using run enroll_fails_unchanged by blast
    then show ?thesis using run by (simp add: identified.R_refl)
  next
    case (Inr t)
    note b = enroll_body_Inr [OF enroll_Inr(1) [OF run [unfolded Inr]]]
    have "agents_unique d'" if "agents_unique d"
      using that b by (auto simp: agents_unique_def active_hosts_def new_agent_def)
    moreover have o: "stays identities_only (enroll e agent_id host bootstrap public_key nonce signature)"
      unfolding identity_defs by (intro identities.stays_structural identities.writers stays_cases identities_modifies)
    have "alerts d' = alerts d" by (rule identities_onlyD(3) [OF stays_run [OF o run]])
    ultimately show ?thesis using run by (simp add: identified_def alerts_keyed_def)
  qed
qed

lemma identified_identities:
  "stays identified (issue_enrollment_challenge e)"
  "stays identified (enrollment e agent_id host public_key nonce signature bootstrap)"
  "stays identified (enroll_analyst e analyst_id bootstrap role)"
  unfolding issue_enrollment_challenge_def enrollment_def enroll_analyst_def check_enrollment_secret_def on_integrity_error_def
  by (intro identified.stays_structural identified.writers identified_enroll identified_modify stays_cases; simp)+

section \<open>The contract\<close>

definition serves :: "env \<Rightarrow> db \<Rightarrow> db \<Rightarrow> bool" where
  "serves e d d' \<longleftrightarrow> audit_grows (sha256 e) d d' \<and> work e d d' \<and> lawful d d' \<and> outcomes d d' \<and> identified d d'"

interpretation serves: frame "serves e"
proof
  show "serves e s s" for s
    by (simp add: serves_def audit.R_refl work.R_refl lawful.R_refl outcomes.R_refl identified.R_refl)
  show "serves e s u" if "serves e s t" "serves e t u" for s t u
    using that audit.R_trans work.R_trans lawful.R_trans outcomes.R_trans identified.R_trans
    unfolding serves_def by blast
qed

lemma servesI:
  assumes "stays (audit_grows (sha256 e)) m" and "stays (work e) m" and "stays lawful m" and "stays outcomes m" and "stays identified m"
  shows "stays (serves e) m"
  using assms by (simp add: stays_def serves_def)

text \<open>A handler that leaves identities, alerts and results alone.\<close>

lemma serves_foreground:
  assumes "stays (audit_grows (sha256 e)) m" and "stays (work e) m" and "stays lawful m" and "stays foreground m"
  shows "stays (serves e) m"
proof (intro servesI assms outcomes_foreground [OF assms(2,4)])
  show "stays identified m" using assms(4)
    by (auto simp: stays_def foreground_def background_def intro: identified_same)
qed

lemma serves_draw: "stays (serves e) (draw g)"
  by (rule staysI, simp add: draw_def serves_def)
    (intro conjI audit_grows_same work_same lawful_same outcomes_kept commands_evolve_same identified_same; simp)

lemma serves_identities:
  "stays (serves e) (issue_enrollment_challenge e)"
  "stays (serves e) (enrollment e agent_id host public_key nonce signature bootstrap)"
  "stays (serves e) (enroll_analyst e analyst_id bootstrap role)"
  by (intro servesI audit_grows_identities work.identity_operations lawful.identity_operations outcomes.identity_operations
      identified_identities)+

lemma serves_agents:
  "stays (serves e) (enqueue e c token)"
  "stays (serves e) (poll e agent_id auth durable es256 header)"
  "stays (serves e) (accept e agent_id command_id auth)"
  by (intro serves_foreground audit_queue work_queue_operations lawful_queue foreground_queue audit_agent_operations
      work_agent_operations lawful_agent_operations foreground_agent_operations)+

lemma serves_submit_result: "stays (serves e) (submit_result e agent_id result auth)"
proof (intro servesI audit_agent_operations work_agent_operations lawful_agent_operations outcomes_submit_result)
  show "stays identified (submit_result e agent_id result auth)"
    using settled_submit_result [of e agent_id result auth] by (auto simp: stays_def settled_def intro: identified_same)
qed

lemma serves_analysts:
  "stays (serves e) (expire_pending e)"
  "stays (serves e) (create_manual e body auth)"
  "stays (serves e) (create_campaign e body auth)"
  "stays (serves e) (cancel e response_id body auth)"
  "stays (serves e) (authorize e response_id auth)"
  "stays (serves e) (reject e response_id body auth)"
  by (intro serves_foreground audit_analyst_operations work_analyst_operations lawful_analyst_operations
      foreground_analyst_operations)+

lemma serves_triage_admin:
  "stays (serves e) (save_policy e body auth)"
  "stays (serves e) (save_asset e body auth)"
  "stays (serves e) (cancel_triage_run e alert_id body auth)"
  "stays (serves e) (runs e auth limit offset)"
  by (intro serves_foreground audit_triage_admin work_triage_admin lawful_triage_admin foreground_triage_admin)+

text \<open>A checkpoint touches none of the tables the contract is about.\<close>

definition tables_same :: "db \<Rightarrow> db \<Rightarrow> bool" where
  "tables_same d d' \<longleftrightarrow> commands d' = commands d \<and> response_actions d' = response_actions d \<and> alerts d' = alerts d \<and>
     command_results d' = command_results d \<and> enrolled_agents d' = enrolled_agents d"

interpretation tables_same: blind_frame tables_same
  by unfold_locales (auto simp: tables_same_def audit_onlyD)

lemma tables_same_checkpoint: "stays tables_same (checkpoint e key actor)"
proof -
  have "stays tables_same (modify (\<lambda>d. d\<lparr>response_audit_checkpoints := f d\<rparr>))" for f by (simp add: stays_def tables_same_def)
  then show ?thesis unfolding checkpoint_def Let_def by (intro tables_same.stays_structural stays_cases)
qed

lemma serves_tables_same: "stays (audit_grows (sha256 e)) m \<Longrightarrow> stays tables_same m \<Longrightarrow> stays (serves e) m"
  by (auto simp: stays_def serves_def tables_same_def
      intro: work_same lawful_same outcomes_kept commands_evolve_same identified_same)

text \<open>What every audit writer satisfies, and a write outside the tables of the contract and of the audit.\<close>

lemmas serves_writers = serves_tables_same [OF audit_writers(1) tables_same.writers(8)]
  serves_tables_same [OF audit_writers(2) tables_same.writers(4)] serves_tables_same [OF audit_writers(8) tables_same.writers(7)]

definition outside_plane :: "(db \<Rightarrow> db) \<Rightarrow> bool" where
  "outside_plane f \<longleftrightarrow> (\<forall>d. tables_same d (f d) \<and> response_audit_ledger (f d) = response_audit_ledger d \<and>
     command_audit (f d) = command_audit d \<and> response_decision_audit (f d) = response_decision_audit d \<and>
     response_artifact_custody (f d) = response_artifact_custody d \<and>
     response_security_audit (f d) = response_security_audit d \<and> ledger_id (f d) = ledger_id d)"

lemma serves_modify: "outside_plane f \<Longrightarrow> stays (serves e) (modify f)"
  by (intro serves_tables_same) (auto simp: stays_def outside_plane_def intro: audit_grows_same)

text \<open>A revoked enrollment frees its host and its name stays taken.\<close>

lemma revoked_hosts:
  "map ea_host_id (filter (\<lambda>r. ea_revoked_at r = None) (update_where P (\<lambda>x. x\<lparr>ea_revoked_at := Some t\<rparr>) rows)) =
    map ea_host_id (filter (\<lambda>a. \<not> P a) (filter (\<lambda>r. ea_revoked_at r = None) rows))"
  by (induction rows) auto

lemma identified_revoke:
  "identified d (d\<lparr>enrolled_agents := update_where P (\<lambda>x. x\<lparr>ea_revoked_at := Some t\<rparr>) (enrolled_agents d)\<rparr>)"
proof -
  have "map ea_agent_id (update_where P (\<lambda>x. x\<lparr>ea_revoked_at := Some t\<rparr>) (enrolled_agents d)) = map ea_agent_id (enrolled_agents d)"
    by (rule map_key_update_where) simp
  then show ?thesis
    by (simp add: identified_def agents_unique_def alerts_keyed_def active_hosts_def revoked_hosts distinct_map_filter
        del: filter_filter)
qed

lemma serves_revoke_agent:
  "stays (serves e) (modify (\<lambda>d. d\<lparr>enrolled_agents := update_where P (\<lambda>x. x\<lparr>ea_revoked_at := Some t\<rparr>) (enrolled_agents d)\<rparr>))"
  by (simp add: stays_def serves_def audit_grows_same work_same lawful_same outcomes_kept commands_evolve_same identified_revoke)

lemma serves_checkpoint: "stays (serves e) (checkpoint e key actor)"
  by (intro serves_tables_same stays_checkpoint tables_same_checkpoint)

lemma serves_on_alert_created: "stays (serves e) (on_alert_created e rec)"
  by (intro serves_foreground audit_on_alert_created work_on_alert_created lawful_on_alert_created foreground_on_alert_created)

text \<open>A new alert is appended under a fresh key.\<close>

lemma serves_new_alert:
  assumes "al_alert_id a \<notin> al_alert_id ` set (alerts d)"
  shows "serves e d (d\<lparr>alerts := alerts d @ [a]\<rparr>)"
proof -
  let ?d = "d\<lparr>alerts := alerts d @ [a]\<rparr>"
  have w: "work e d ?d"
  proof -
    have k: "commands_evolve d ?d" "responses_evolve d ?d" "alerts_kept d ?d"
      by (simp_all add: commands_evolve_same responses_evolve_same alerts_kept_def find_by_append)
    then show ?thesis using linked_kept [of d ?d] by (auto simp: work_def)
  qed
  have "identified d ?d" using assms by (simp add: identified_def agents_unique_def active_hosts_def alerts_keyed_def)
  then show ?thesis using w
    by (simp add: serves_def audit_grows_same lawful_same outcomes_kept commands_evolve_same)
qed

lemma serves_insert_alert: "stays (serves e) (insert_alert e rec agent_id)"
proof (rule staysI)
  fix d :: db
  obtain out where b: "bind_alert rec agent_id d = (out, d)" using bind_alert_read by metis
  show "serves e d (snd (insert_alert e rec agent_id d))"
  proof (cases out)
    case (Inl x)
    then show ?thesis using b by (simp add: insert_alert_def bindM_Inl serves.R_refl)
  next
    case (Inr p)
    obtain i row where p: "p = (i, row)" by fastforce
    have "al_alert_id (r (iso_now e)) = i" if "row = Some r" for r using bind_alert_key b Inr p that by metis
    then show ?thesis using b Inr p serves_new_alert [of _ d e]
      by (auto simp: insert_alert_def bindM_Inr serves.R_refl split: option.splits)
  qed
qed

end
