(* ===== verification/ArtifactKeys.thy ===== *)
theory ArtifactKeys
  imports Service
begin

text \<open>
  \<^verbatim>\<open>manager/artifact_keys.py\<close> and \<^verbatim>\<open>manager/routers/artifact_keys.py\<close>: the keys that agents sign
  artifacts with. A key is replaced by a rotation that both keys sign and an analyst approves; keys are marked
  compromised and enrollments revoked by analysts; a manifest is verified against the key it names. Keys are
  never deleted and never change what they are.
\<close>

section \<open>Keys and signatures\<close>

definition server_time :: "string \<Rightarrow> ('s, datetime) act" where
  "server_time v =
    bindM (require_some (fromisoformat (replace_Z v)) (ValueError ''Invalid isoformat string'')) (\<lambda>t.
    seqM (raise_if (utcoffset t = None) (ValueError ''artifact key timestamp requires a timezone''))
    (ret t))"

definition verify_signature :: "env \<Rightarrow> string \<Rightarrow> string \<Rightarrow> string \<Rightarrow> bool" where
  "verify_signature e encoded_key signature data =
    (case b64decode signature of
       None \<Rightarrow> False
     | Some raw \<Rightarrow>
        length raw = 64 \<and>
        (case public_point e encoded_key of None \<Rightarrow> False | Some point \<Rightarrow> ecdsa_verify e point raw data))"

definition enrolled_for :: "db \<Rightarrow> artifact_key_row \<Rightarrow> agent_row \<Rightarrow> bool" where
  "enrolled_for d k a \<longleftrightarrow> a \<in> set (enrolled_agents d) \<and> ea_agent_id a = ak_agent_id k \<and> ea_host_id a = ak_host_id k"

text \<open>\<open>current\<close>: the newest usable key of a live enrollment.\<close>

definition current_artifact_key :: "db \<Rightarrow> string \<Rightarrow> artifact_key_row option" where
  "current_artifact_key d agent_id =
    (case order_by (\<lambda>k. - ak_key_version k)
            (filter (\<lambda>k. ak_agent_id k = agent_id \<and> active_key k \<and>
                (\<exists>a\<in>set (enrolled_agents d). enrolled_for d k a \<and> ea_revoked_at a = None)) (artifact_signing_keys d)) of
       [] \<Rightarrow> None
     | k # _ \<Rightarrow> Some k)"

text \<open>
  The trigger \<open>artifact_key_material_immutable\<close>: what a key is never changes, and a mark is never taken back.
\<close>

definition key_frozen :: "artifact_key_row \<Rightarrow> artifact_key_row \<Rightarrow> bool" where
  "key_frozen k k' \<longleftrightarrow>
    ak_agent_id k' = ak_agent_id k \<and> ak_host_id k' = ak_host_id k \<and> ak_key_id k' = ak_key_id k \<and>
    ak_key_version k' = ak_key_version k \<and> ak_public_key k' = ak_public_key k \<and> ak_valid_from k' = ak_valid_from k \<and>
    (ak_retired_at k \<noteq> None \<longrightarrow> ak_retired_at k' = ak_retired_at k) \<and>
    (ak_compromised_at k \<noteq> None \<longrightarrow>
       ak_compromised_at k' = ak_compromised_at k \<and> ak_compromise_reason k' = ak_compromise_reason k)"

definition update_keys :: "(artifact_key_row \<Rightarrow> bool) \<Rightarrow> (artifact_key_row \<Rightarrow> artifact_key_row) \<Rightarrow> (db, unit) act" where
  "update_keys P f = bindM (gets artifact_signing_keys) (\<lambda>rows.
     seqM (raise_if (\<exists>k\<in>set rows. P k \<and> \<not> key_frozen k (f k)) IntegrityError)
     (modify (\<lambda>d. d\<lparr>artifact_signing_keys := update_where P f (artifact_signing_keys d)\<rparr>)))"

definition retire_key :: "string \<Rightarrow> artifact_key_row \<Rightarrow> artifact_key_row" where
  "retire_key t k = k\<lparr>ak_retired_at := Some t\<rparr>"

definition compromise_key :: "string \<Rightarrow> string \<Rightarrow> artifact_key_row \<Rightarrow> artifact_key_row" where
  "compromise_key t reason k = k\<lparr>ak_compromised_at := Some t, ak_compromise_reason := Some reason\<rparr>"

section \<open>Asking for a new key\<close>

record rotation_request =
  rq_request_id :: string
  rq_old_key_id :: string
  rq_new_public_key :: string
  rq_nonce :: string
  rq_old_signature :: string
  rq_new_signature :: string

definition hex_text :: "nat \<Rightarrow> string \<Rightarrow> bool" where
  "hex_text n t \<longleftrightarrow> length t = n \<and> list_all is_lower_hex t"

text \<open>The pattern \<open>^[A-Za-z0-9+/]{86}==$\<close>.\<close>

definition signature_text :: "string \<Rightarrow> bool" where
  "signature_text t \<longleftrightarrow> length t = 88 \<and> drop 86 t = ''=='' \<and> list_all (\<lambda>c. c \<in> set b64_alphabet) (take 86 t)"

definition parse_rotation :: "jobj \<Rightarrow> rotation_request option" where
  "parse_rotation body =
    (if only_keys [''schema_version'', ''request_id'', ''old_key_id'', ''new_public_key'', ''nonce'', ''old_signature'',
          ''new_signature''] body \<and> jget ''schema_version'' body = JStr ''1''
     then (case (jstr (jget ''request_id'' body), jstr (jget ''old_key_id'' body), text_field 88 88 ''new_public_key'' body,
                 text_field 44 44 ''nonce'' body, jstr (jget ''old_signature'' body), jstr (jget ''new_signature'' body)) of
             (Some i, Some old, Some key, Some nonce, Some s, Some t) \<Rightarrow>
               if id_text i \<and> hex_text 16 old \<and> signature_text s \<and> signature_text t
               then Some \<lparr>rq_request_id = i, rq_old_key_id = old, rq_new_public_key = key, rq_nonce = nonce,
                          rq_old_signature = s, rq_new_signature = t\<rparr>
               else None
           | _ \<Rightarrow> None)
     else None)"

definition rotation_dump :: "rotation_request \<Rightarrow> jobj" where
  "rotation_dump q =
    [(''schema_version'', JStr ''1''), (''request_id'', JStr (rq_request_id q)), (''old_key_id'', JStr (rq_old_key_id q)),
     (''new_public_key'', JStr (rq_new_public_key q)), (''nonce'', JStr (rq_nonce q)),
     (''old_signature'', JStr (rq_old_signature q)), (''new_signature'', JStr (rq_new_signature q))]"

text \<open>The bytes both keys sign: each field with its name and its length.\<close>

definition signed_field :: "string \<times> string \<Rightarrow> string" where
  "signed_field = (\<lambda>(name, v). name @ '':'' @ nat_str (length v) @ '':'' @ v @ newline)"

definition rotation_input :: "string \<Rightarrow> string \<Rightarrow> string \<Rightarrow> string \<Rightarrow> string \<Rightarrow> string \<Rightarrow> string \<Rightarrow> string \<Rightarrow> string" where
  "rotation_input agent_id host request_id nonce expires_at old_key_id new_key_id new_public_key =
    ''panopticon-artifact-key-rotation/1'' @ newline @
    concat (map signed_field
      [(''agent_id'', agent_id), (''host_id'', host), (''request_id'', request_id), (''nonce'', nonce),
       (''expires_at'', expires_at), (''old_key_id'', old_key_id), (''new_key_id'', new_key_id),
       (''new_public_key'', new_public_key)])"

fun rotation_text :: "rotation_state \<Rightarrow> string" where
  "rotation_text ROTATION_PENDING = ''PENDING''"
| "rotation_text ROTATION_APPROVED = ''APPROVED''"

definition rotation_answer :: "string \<Rightarrow> rotation_state \<Rightarrow> bool \<Rightarrow> jobj" where
  "rotation_answer request_id state replayed =
    [(''request_id'', JStr request_id), (''state'', JStr (rotation_text state)), (''replayed'', JBool replayed)]"

definition find_rotation :: "db \<Rightarrow> string \<Rightarrow> string \<Rightarrow> rotation_row option" where
  "find_rotation d agent_id request_id =
    List.find (\<lambda>r. kr_agent_id r = agent_id \<and> kr_request_id r = request_id) (artifact_key_rotations d)"

definition insert_rotation :: "rotation_row \<Rightarrow> (db, unit) act" where
  "insert_rotation r = bindM (gets (\<lambda>d. d)) (\<lambda>d.
     seqM (raise_if (find_rotation d (kr_agent_id r) (kr_request_id r) \<noteq> None \<or>
                     kr_agent_id r \<notin> ea_agent_id ` set (enrolled_agents d)) IntegrityError)
     (modify (\<lambda>d. d\<lparr>artifact_key_rotations := artifact_key_rotations d @ [r]\<rparr>)))"

text \<open>The challenge of a rotation: known, not consumed and not expired. Its expiry is returned.\<close>

definition live_challenge :: "env \<Rightarrow> string \<Rightarrow> (db, string) act" where
  "live_challenge e nonce =
    bindM (gets (\<lambda>d. find_by en_nonce nonce (enrollment_nonces d))) (\<lambda>found.
    bindM (require_some (case found of Some r \<Rightarrow> if en_consumed_at r = None then Some r else None | None \<Rightarrow> None)
             (HTTPException 401 ''invalid rotation challenge'')) (\<lambda>r.
    bindM (server_time (en_expires_at r)) (\<lambda>t.
    seqM (raise_if (micros t \<le> micros (now e)) (HTTPException 401 ''invalid rotation challenge''))
    (ret (en_expires_at r)))))"

definition spend_challenge :: "env \<Rightarrow> string \<Rightarrow> (db, unit) act" where
  "spend_challenge e nonce = modify (\<lambda>d. d\<lparr>enrollment_nonces :=
     update_where (\<lambda>x. en_nonce x = nonce) (\<lambda>x. x\<lparr>en_consumed_at := Some (iso_now e)\<rparr>) (enrollment_nonces d)\<rparr>)"

definition new_rotation :: "env \<Rightarrow> string \<Rightarrow> rotation_request \<Rightarrow> string \<Rightarrow> (db, jobj) act" where
  "new_rotation e agent_id q dig =
    bindM (gets (\<lambda>d. current_artifact_key d agent_id)) (\<lambda>found.
    bindM (require_some (case found of Some k \<Rightarrow> if ak_key_id k = rq_old_key_id q then Some k else None | None \<Rightarrow> None)
             (HTTPException 409 ''no matching active artifact key'')) (\<lambda>old.
    bindM (require_some (public_key_id e (rq_new_public_key q)) (HTTPException 422 ''invalid new artifact public key'')) (\<lambda>new_id.
    bindM (gets (\<lambda>d. \<exists>k\<in>set (artifact_signing_keys d). ak_agent_id k = agent_id \<and> ak_key_id k = new_id)) (\<lambda>known.
    seqM (raise_if known (HTTPException 409 ''historical artifact keys cannot be reactivated''))
    (bindM (live_challenge e (rq_nonce q)) (\<lambda>expires_at.
     let encoded = rotation_input agent_id (ak_host_id old) (rq_request_id q) (rq_nonce q) expires_at (ak_key_id old)
                     new_id (rq_new_public_key q)
     in seqM (raise_if (\<not> (verify_signature e (ak_public_key old) (rq_old_signature q) encoded \<and>
                          verify_signature e (rq_new_public_key q) (rq_new_signature q) encoded))
                (HTTPException 403 ''rotation requires proof of old and new private keys''))
        (seqM (spend_challenge e (rq_nonce q))
        (seqM (insert_rotation
           \<lparr>kr_agent_id = agent_id, kr_request_id = rq_request_id q, kr_old_key_id = ak_key_id old, kr_new_key_id = new_id,
            kr_new_public_key = rq_new_public_key q, kr_payload_digest = dig, kr_state = ROTATION_PENDING,
            kr_created_at = iso_now e, kr_expires_at = expires_at, kr_approved_by = None, kr_approved_at = None\<rparr>)
        (seqM (record_event e ''artifact_key_rotation_requested'' (''agent:'' @ agent_id) (Some (ak_host_id old))
                (Some (rq_request_id q)) [(''old_key_id'', JStr (ak_key_id old)), (''new_key_id'', JStr new_id)])
        (ret (rotation_answer (rq_request_id q) ROTATION_PENDING False)))))))))))"

definition request_rotation :: "env \<Rightarrow> string \<Rightarrow> rotation_request \<Rightarrow> (db, jobj) act" where
  "request_rotation e agent_id q =
    (let dig = sha256 e (canonical (JObj (rotation_dump q))) in
     bindM (gets (\<lambda>d. find_rotation d agent_id (rq_request_id q))) (\<lambda>prior.
     case prior of
       Some r \<Rightarrow>
         seqM (raise_if (kr_payload_digest r \<noteq> dig)
                 (HTTPException 409 ''rotation retry identity binds another request''))
         (ret (rotation_answer (kr_request_id r) (kr_state r) True))
     | None \<Rightarrow> new_rotation e agent_id q dig))"

section \<open>Approving it\<close>

definition approve_pending :: "env \<Rightarrow> string \<Rightarrow> string \<Rightarrow> string \<Rightarrow> rotation_row \<Rightarrow> (db, jobj) act" where
  "approve_pending e agent_id request_id actor row =
    bindM (server_time (kr_expires_at row)) (\<lambda>t.
    seqM (raise_if (micros t \<le> micros (now e)) (HTTPException 409 ''artifact key rotation approval window expired''))
    (bindM (gets (\<lambda>d. current_artifact_key d agent_id)) (\<lambda>found.
     bindM (require_some (case found of Some k \<Rightarrow> if ak_key_id k = kr_old_key_id row then Some k else None | None \<Rightarrow> None)
              (HTTPException 409 ''artifact key binding changed before approval'')) (\<lambda>old.
     seqM (update_keys (\<lambda>k. ak_agent_id k = agent_id \<and> ak_key_id k = ak_key_id old) (retire_key (iso_now e)))
     (seqM (insert_artifact_key
        \<lparr>ak_agent_id = agent_id, ak_host_id = ak_host_id old, ak_key_id = kr_new_key_id row,
         ak_key_version = ak_key_version old + 1, ak_public_key = kr_new_public_key row, ak_valid_from = iso_now e,
         ak_retired_at = None, ak_compromised_at = None, ak_compromise_reason = None\<rparr>)
     (seqM (modify (\<lambda>d. d\<lparr>artifact_key_rotations := update_where
              (\<lambda>r. kr_agent_id r = agent_id \<and> kr_request_id r = request_id)
              (\<lambda>r. r\<lparr>kr_state := ROTATION_APPROVED, kr_approved_by := Some actor, kr_approved_at := Some (iso_now e)\<rparr>)
              (artifact_key_rotations d)\<rparr>))
     (seqM (record_event e ''artifact_key_rotation_approved'' actor (Some (ak_host_id old)) (Some request_id)
              [(''old_key_id'', JStr (ak_key_id old)), (''new_key_id'', JStr (kr_new_key_id row))])
     (ret (rotation_answer request_id ROTATION_APPROVED False)))))))))"

definition approve_rotation :: "env \<Rightarrow> string \<Rightarrow> string \<Rightarrow> string \<Rightarrow> (db, jobj) act" where
  "approve_rotation e agent_id request_id actor =
    bindM (gets (\<lambda>d. find_rotation d agent_id request_id)) (\<lambda>found.
    bindM (require_some found (HTTPException 404 ''artifact key rotation unavailable'')) (\<lambda>row.
    if kr_state row = ROTATION_APPROVED then ret (rotation_answer request_id ROTATION_APPROVED True)
    else approve_pending e agent_id request_id actor row))"

section \<open>Verifying a manifest\<close>

text \<open>\<open>model_dump\<close> of a manifest: each attribute under its name.\<close>

definition dump_manifest :: "manifest \<Rightarrow> jobj" where
  "dump_manifest m =
    [(''artifact_id'', JStr (mf_artifact_id m)), (''agent_id'', JStr (mf_agent_id m)), (''command_id'', JStr (mf_command_id m)),
     (''correlation_id'', JStr (mf_correlation_id m)), (''host_id'', JStr (mf_host_id m)), (''kind'', JStr (mf_kind m)),
     (''media_type'', JStr (mf_media_type m)), (''content_bytes'', JInt (mf_content_bytes m)), (''sha256'', JStr (mf_sha256 m)),
     (''produced_at_unix'', mf_produced_at_unix m),
     (''authorization'', JObj ([(''key_id'', JStr (mf_key_id m)), (''signature'', JStr (mf_signature m))] @ mf_authorization_other m))]
    @ mf_other m"

text \<open>The key a manifest names, with the enrollment it belongs to.\<close>

definition manifest_signer :: "db \<Rightarrow> string \<Rightarrow> string \<Rightarrow> (artifact_key_row \<times> agent_row) option" where
  "manifest_signer d agent_id kid =
    (case List.find (\<lambda>k. ak_agent_id k = agent_id \<and> ak_key_id k = kid) (artifact_signing_keys d) of
       None \<Rightarrow> None
     | Some k \<Rightarrow> map_option (Pair k)
         (List.find (\<lambda>a. ea_agent_id a = ak_agent_id k \<and> ea_host_id a = ak_host_id k) (enrolled_agents d)))"

text \<open>A retired key only finishes what was admitted before its retirement.\<close>

definition retired_before :: "artifact_key_row \<Rightarrow> string option \<Rightarrow> ('s, bool) act" where
  "retired_before k admitted_at =
    (case ak_retired_at k of
       None \<Rightarrow> ret False
     | Some r \<Rightarrow>
        (case admitted_at of
           None \<Rightarrow> ret True
         | Some a \<Rightarrow>
             bindM (server_time a) (\<lambda>ta. bindM (server_time r) (\<lambda>tr. ret (micros tr < micros ta)))))"

definition verify_as :: "env \<Rightarrow> manifest \<Rightarrow> manifest \<Rightarrow> string option \<Rightarrow> artifact_key_row \<Rightarrow> agent_row \<Rightarrow> (db, artifact_key_row) act" where
  "verify_as e manifest v admitted_at k a =
    seqM (raise_if (ak_host_id k \<noteq> mf_host_id v) (HTTPException 403 ''artifact signer is not enrolled for this endpoint''))
    (seqM (raise_if (ea_revoked_at a \<noteq> None \<or> ak_compromised_at k \<noteq> None)
            (HTTPException 403 ''artifact signing identity is revoked or compromised''))
    (bindM (retired_before k admitted_at) (\<lambda>late.
     seqM (raise_if late (HTTPException 403 ''retired key cannot admit a new artifact transfer''))
     (bindM (require_some (artifact_signing_input e (dump_manifest manifest))
               (HTTPException 422 ''artifact manifest has invalid UTF-8 signing fields'')) (\<lambda>data.
      seqM (raise_if (\<not> verify_signature e (ak_public_key k) (mf_signature v) data)
              (HTTPException 422 ''artifact manifest signature disagrees''))
      (ret k))))))"

definition verify_manifest :: "env \<Rightarrow> string \<Rightarrow> manifest \<Rightarrow> string option \<Rightarrow> (db, artifact_key_row) act" where
  "verify_manifest e agent_id manifest admitted_at =
    bindM (require_some (make_manifest e (JObj (dump_manifest manifest))) ValidationError) (\<lambda>v.
    seqM (raise_if (mf_agent_id v \<noteq> agent_id) (HTTPException 403 ''artifact signing agent disagrees''))
    (bindM (gets (\<lambda>d. manifest_signer d agent_id (mf_key_id v))) (\<lambda>found.
     case found of
       None \<Rightarrow> throw (HTTPException 403 ''artifact signer is not enrolled for this endpoint'')
     | Some (k, a) \<Rightarrow> verify_as e manifest v admitted_at k a)))"

text \<open>The trust in retained evidence: that of the key that signed it.\<close>

definition key_status :: "artifact_key_row \<Rightarrow> string" where
  "key_status k =
    (if truthy (jopt (ak_compromised_at k)) then ''compromised_key''
     else if truthy (jopt (ak_retired_at k)) then ''retired_key'' else ''active_key'')"

definition retained_status :: "db \<Rightarrow> string \<Rightarrow> (attestation_row \<times> artifact_key_row) option" where
  "retained_status d artifact_id =
    (case find_by at_artifact_id artifact_id (artifact_manifest_attestations d) of
       None \<Rightarrow> None
     | Some a \<Rightarrow> map_option (Pair a)
         (List.find (\<lambda>k. ak_agent_id k = at_agent_id a \<and> ak_key_id k = at_key_id a) (artifact_signing_keys d)))"

definition trust_status :: "(attestation_row \<times> artifact_key_row) option \<Rightarrow> string" where
  "trust_status s = (case s of None \<Rightarrow> ''unsigned_legacy'' | Some (a, k) \<Rightarrow> key_status k)"

definition status_json :: "(attestation_row \<times> artifact_key_row) option \<Rightarrow> jobj" where
  "status_json s =
    (case s of
       None \<Rightarrow> [(''trust_status'', JStr ''unsigned_legacy''), (''signature_state'', JStr ''unverified'')]
     | Some (a, k) \<Rightarrow>
         [(''key_id'', JStr (at_key_id a)), (''key_version'', JInt (at_key_version a)), (''verified_at'', JStr (at_verified_at a)),
          (''public_key'', JStr (ak_public_key k)), (''retired_at'', jopt (ak_retired_at k)),
          (''compromised_at'', jopt (ak_compromised_at k)), (''compromise_reason'', jopt (ak_compromise_reason k)),
          (''trust_status'', JStr (key_status k)), (''signature_state'', JStr ''verified_at_ingest'')])"

section \<open>Decisions on identities\<close>

record identity_decision =
  idn_request_id :: string
  idn_reason :: string

definition parse_identity_decision :: "jobj \<Rightarrow> identity_decision option" where
  "parse_identity_decision body =
    (if only_keys [''request_id'', ''reason''] body
     then (case (jstr (jget ''request_id'' body), text_field 1 1000 ''reason'' body) of
             (Some i, Some r) \<Rightarrow> if id_text i then Some \<lparr>idn_request_id = i, idn_reason = r\<rparr> else None
           | _ \<Rightarrow> None)
     else None)"

definition identity_digest :: "env \<Rightarrow> string \<Rightarrow> string option \<Rightarrow> identity_decision \<Rightarrow> string" where
  "identity_digest e agent_id kid q =
    sha256 e (canonical (JObj [(''agent_id'', JStr agent_id), (''key_id'', jopt kid),
      (''request_id'', JStr (idn_request_id q)), (''reason'', JStr (idn_reason q))]))"

definition insert_identity_operation :: "identity_operation_row \<Rightarrow> (db, unit) act" where
  "insert_identity_operation r = bindM (gets artifact_identity_operations) (\<lambda>rows.
     seqM (raise_if (\<exists>x\<in>set rows. io_actor x = io_actor r \<and> io_request_id x = io_request_id r) IntegrityError)
     (modify (\<lambda>d. d\<lparr>artifact_identity_operations := artifact_identity_operations d @ [r]\<rparr>)))"

text \<open>What the decision changes, and whether it changed anything.\<close>

definition mark_compromised :: "env \<Rightarrow> string \<Rightarrow> string \<Rightarrow> string \<Rightarrow> (db, bool) act" where
  "mark_compromised e agent_id kid reason =
    bindM (gets (\<lambda>d. List.find (\<lambda>k. ak_agent_id k = agent_id \<and> ak_key_id k = kid) (artifact_signing_keys d))) (\<lambda>found.
    bindM (require_some found (HTTPException 404 ''artifact key unavailable'')) (\<lambda>k.
    if ak_compromised_at k = None
    then seqM (update_keys (\<lambda>x. ak_agent_id x = agent_id \<and> ak_key_id x = kid) (compromise_key (iso_now e) reason)) (ret True)
    else ret False))"

definition revoke_agent :: "env \<Rightarrow> string \<Rightarrow> agent_row \<Rightarrow> (db, bool) act" where
  "revoke_agent e agent_id a =
    (if ea_revoked_at a = None
     then
       seqM (modify (\<lambda>d. d\<lparr>enrolled_agents := update_where (\<lambda>x. ea_agent_id x = agent_id)
               (\<lambda>x. x\<lparr>ea_revoked_at := Some (iso_now e)\<rparr>) (enrolled_agents d)\<rparr>))
       (seqM (update_keys (\<lambda>k. ak_agent_id k = agent_id \<and> ak_retired_at k = None) (retire_key (iso_now e)))
       (ret True))
     else ret False)"

definition identity_result :: "string \<Rightarrow> string option \<Rightarrow> bool \<Rightarrow> jobj" where
  "identity_result agent_id kid changed =
    [(''agent_id'', JStr agent_id), (''key_id'', jopt kid),
     (''state'', JStr (if kid = None then ''revoked_enrollment'' else ''compromised_key'')), (''changed'', JBool changed)]"

definition conclude_identity :: "env \<Rightarrow> string \<Rightarrow> string \<Rightarrow> identity_decision \<Rightarrow> string option \<Rightarrow> agent_row \<Rightarrow> bool \<Rightarrow> (db, json) act" where
  "conclude_identity e agent_id actor q kid a changed =
    seqM (if changed
          then record_event e (if kid = None then ''artifact_enrollment_revoked'' else ''artifact_key_compromised'') actor
                 (Some (ea_host_id a)) (Some (idn_request_id q))
                 [(''agent_id'', JStr agent_id), (''key_id'', jopt kid), (''reason'', JStr (idn_reason q))]
          else ret ())
    (seqM (insert_identity_operation \<lparr>io_actor = actor, io_request_id = idn_request_id q,
             io_payload_digest = identity_digest e agent_id kid q, io_result_json = JObj (identity_result agent_id kid changed)\<rparr>)
    (ret (JObj (identity_result agent_id kid changed))))"

definition decide_identity :: "env \<Rightarrow> string \<Rightarrow> string \<Rightarrow> identity_decision \<Rightarrow> string option \<Rightarrow> (db, json) act" where
  "decide_identity e agent_id actor q kid =
    bindM (gets (\<lambda>d. find_by ea_agent_id agent_id (enrolled_agents d))) (\<lambda>found.
    bindM (require_some found (HTTPException 404 ''endpoint identity unavailable'')) (\<lambda>a.
    bindM (case kid of Some k \<Rightarrow> mark_compromised e agent_id k (idn_reason q) | None \<Rightarrow> revoke_agent e agent_id a)
      (conclude_identity e agent_id actor q kid a)))"

definition identity_operation :: "env \<Rightarrow> string \<Rightarrow> string \<Rightarrow> identity_decision \<Rightarrow> string option \<Rightarrow> (db, json) act" where
  "identity_operation e agent_id actor q kid =
    bindM (gets (\<lambda>d. List.find (\<lambda>x. io_actor x = actor \<and> io_request_id x = idn_request_id q) (artifact_identity_operations d)))
      (\<lambda>prior.
        case prior of
          Some x \<Rightarrow>
            seqM (raise_if (io_payload_digest x \<noteq> identity_digest e agent_id kid q)
                    (HTTPException 409 ''identity retry key binds another decision''))
            (ret (io_result_json x))
        | None \<Rightarrow> decide_identity e agent_id actor q kid)"

section \<open>The requests\<close>

text \<open>
  A transaction whose refusals are recorded: after the rollback a transaction of its own writes the record, and the
  refusal is raised.
\<close>

definition recording_refusals :: "(string \<Rightarrow> ('s, unit) act) \<Rightarrow> ('s, 'a) act \<Rightarrow> ('s, 'a) act" where
  "recording_refusals record m =
    tryM (transaction m)
      (\<lambda>x. case x of HTTPException code detail \<Rightarrow> seqM (transaction (record detail)) (throw x) | _ \<Rightarrow> throw x)"

definition identity_refusal :: "env \<Rightarrow> string \<Rightarrow> string \<Rightarrow> string \<Rightarrow> string \<Rightarrow> (db, unit) act" where
  "identity_refusal e agent_id request_id actor detail =
    bindM (gets (\<lambda>d. find_by ea_agent_id agent_id (enrolled_agents d))) (\<lambda>row.
    record_event e ''artifact_identity_refused'' actor (map_option ea_host_id row) (Some request_id)
      [(''reason'', JStr detail)])"

definition rotate_key :: "env \<Rightarrow> string \<Rightarrow> jobj \<Rightarrow> string option \<Rightarrow> (db, jobj) act" where
  "rotate_key e agent_id body authorization =
    bindM (require_some (parse_rotation body) ValidationError) (\<lambda>q.
    seqM (require_agent_token e agent_id authorization)
    (recording_refusals (identity_refusal e agent_id (rq_request_id q) (''agent:'' @ agent_id))
      (seqM (require_agent_token e agent_id authorization) (request_rotation e agent_id q))))"

definition rotation_status :: "env \<Rightarrow> string \<Rightarrow> string \<Rightarrow> string option \<Rightarrow> (db, jobj) act" where
  "rotation_status e agent_id request_id authorization =
    seqM (require_agent_token e agent_id authorization)
    (bindM (gets (\<lambda>d. find_rotation d agent_id request_id)) (\<lambda>found.
     bindM (require_some found (HTTPException 404 ''artifact key rotation unavailable'')) (\<lambda>r.
     ret [(''request_id'', JStr (kr_request_id r)), (''state'', JStr (rotation_text (kr_state r))),
          (''new_key_id'', JStr (kr_new_key_id r)), (''approved_at'', jopt (kr_approved_at r))])))"

definition approve_key :: "env \<Rightarrow> string \<Rightarrow> string \<Rightarrow> string option \<Rightarrow> (db, jobj) act" where
  "approve_key e agent_id request_id authorization =
    bindM (as_analyst e authorization ''response:decide'') (\<lambda>actor.
    recording_refusals (identity_refusal e agent_id request_id actor)
      (seqM (require_analyst_permission e authorization ''response:decide'')
      (approve_rotation e agent_id request_id actor)))"

definition decide_on_identity :: "env \<Rightarrow> string \<Rightarrow> string option \<Rightarrow> jobj \<Rightarrow> string option \<Rightarrow> (db, json) act" where
  "decide_on_identity e agent_id kid body authorization =
    bindM (require_some (parse_identity_decision body) ValidationError) (\<lambda>q.
    bindM (as_analyst e authorization ''response:decide'') (\<lambda>actor.
    recording_refusals (identity_refusal e agent_id (idn_request_id q) actor)
      (seqM (require_analyst_permission e authorization ''response:decide'')
      (identity_operation e agent_id actor q kid))))"

definition revoke_key :: "env \<Rightarrow> string \<Rightarrow> string \<Rightarrow> jobj \<Rightarrow> string option \<Rightarrow> (db, json) act" where
  "revoke_key e agent_id kid body authorization = decide_on_identity e agent_id (Some kid) body authorization"

definition revoke_enrollment :: "env \<Rightarrow> string \<Rightarrow> jobj \<Rightarrow> string option \<Rightarrow> (db, json) act" where
  "revoke_enrollment e agent_id body authorization = decide_on_identity e agent_id None body authorization"

definition key_history :: "env \<Rightarrow> string \<Rightarrow> string option \<Rightarrow> (db, (artifact_key_row \<times> string) list) act" where
  "key_history e agent_id authorization =
    seqM (require_analyst_permission e authorization ''response:decide'')
    (gets (\<lambda>d. map (\<lambda>k. (k, key_status k))
       (order_by ak_key_version (filter (\<lambda>k. ak_agent_id k = agent_id) (artifact_signing_keys d)))))"

section \<open>The requests keep the contract of the response plane\<close>

context frame
begin

lemma stays_recording:
  assumes "\<And>t. stays R (record t)" and "stays R m"
  shows "stays R (recording_refusals record m)"
  unfolding recording_refusals_def using assms
  by (intro stays_tryM stays_transaction) (auto intro!: stays_throw stays_bindM stays_transaction split: exn.split)

end

lemma serves_analyst_check: "stays (serves e) (as_analyst e' auth permission)"
  unfolding as_analyst_def by (intro serves.stays_structural stays_read [OF checks_change_nothing(2)] serves.R_refl)

lemma serves_token_check:
  "stays (serves e) (require_agent_token e' agent_id auth)" "stays (serves e) (require_analyst_permission e' auth permission)"
  by (intro stays_read [OF checks_change_nothing(1)] stays_read [OF checks_change_nothing(2)] serves.R_refl)+

lemmas serves_checks = serves_analyst_check serves_token_check

lemma serves_update_keys: "stays (serves e) (update_keys P f)"
  unfolding update_keys_def by (intro serves.stays_structural serves_modify) (simp add: outside_plane_def tables_same_def)

lemma serves_insert_key: "stays (serves e) (insert_artifact_key k)"
  unfolding insert_artifact_key_def by (intro serves.stays_structural serves_modify) (simp add: outside_plane_def tables_same_def)

lemma serves_server_time: "stays (serves e) (server_time t)"
  unfolding server_time_def by (intro serves.stays_structural)

lemma serves_rotation:
  "stays (serves e) (request_rotation e agent_id q)" "stays (serves e) (approve_rotation e agent_id request_id actor)"
  unfolding request_rotation_def new_rotation_def live_challenge_def spend_challenge_def insert_rotation_def approve_rotation_def
    approve_pending_def Let_def
  by (intro serves.stays_structural serves_writers serves_update_keys serves_insert_key serves_server_time serves_modify stays_cases;
      simp add: outside_plane_def tables_same_def)+

lemma serves_identity_operation: "stays (serves e) (identity_operation e agent_id actor q kid)"
  unfolding identity_operation_def decide_identity_def conclude_identity_def mark_compromised_def revoke_agent_def
    insert_identity_operation_def
  by (intro serves.stays_structural serves_writers serves_update_keys serves_revoke_agent serves_modify stays_cases;
      simp add: outside_plane_def tables_same_def)

lemma serves_artifact_keys:
  "stays (serves e) (rotate_key e agent_id body auth)"
  "stays (serves e) (approve_key e agent_id request_id auth)"
  "stays (serves e) (revoke_key e agent_id kid body auth)"
  "stays (serves e) (revoke_enrollment e agent_id body auth)"
  unfolding rotate_key_def approve_key_def revoke_key_def revoke_enrollment_def decide_on_identity_def identity_refusal_def
  by (intro serves.stays_structural serves.stays_recording serves_writers serves_checks serves_rotation serves_identity_operation)+

section \<open>Keys only move forward\<close>

text \<open>
  Two keys of one agent never share an identifier or a version, and at most one of them is usable.
\<close>

definition keys_clash :: "artifact_key_row \<Rightarrow> artifact_key_row \<Rightarrow> bool" where
  "keys_clash x k \<longleftrightarrow> ak_agent_id x = ak_agent_id k \<and>
     (ak_key_id x = ak_key_id k \<or> ak_key_version x = ak_key_version k \<or> (active_key x \<and> active_key k))"

definition keys_sound :: "db \<Rightarrow> bool" where
  "keys_sound d \<longleftrightarrow> sorted_wrt (\<lambda>x k. \<not> keys_clash x k) (artifact_signing_keys d)"

text \<open>Rows are only added, and the rows there are only move along \<open>ev\<close>.\<close>

definition extends :: "('r \<Rightarrow> 'r \<Rightarrow> bool) \<Rightarrow> 'r list \<Rightarrow> 'r list \<Rightarrow> bool" where
  "extends ev rows rows' \<longleftrightarrow> (\<exists>olds news. rows' = olds @ news \<and> list_all2 ev rows olds)"

text \<open>An enrollment is revoked at most once, and nothing else of it changes.\<close>

definition agent_frozen :: "agent_row \<Rightarrow> agent_row \<Rightarrow> bool" where
  "agent_frozen a a' \<longleftrightarrow>
    a' = a\<lparr>ea_revoked_at := ea_revoked_at a'\<rparr> \<and> (ea_revoked_at a \<noteq> None \<longrightarrow> ea_revoked_at a' = ea_revoked_at a)"

definition agents_keyed :: "db \<Rightarrow> bool" where
  "agents_keyed d \<longleftrightarrow> distinct (map ea_agent_id (enrolled_agents d))"

definition keys_kept :: "db \<Rightarrow> db \<Rightarrow> bool" where
  "keys_kept d d' \<longleftrightarrow> extends key_frozen (artifact_signing_keys d) (artifact_signing_keys d') \<and>
     (keys_sound d \<longrightarrow> keys_sound d') \<and>
     (agents_keyed d \<longrightarrow> agents_keyed d' \<and> extends agent_frozen (enrolled_agents d) (enrolled_agents d'))"

lemma key_frozen_refl [simp]: "key_frozen k k"
  by (simp add: key_frozen_def)

lemma key_frozen_trans: "key_frozen k k' \<Longrightarrow> key_frozen k' k'' \<Longrightarrow> key_frozen k k''"
  unfolding key_frozen_def by (elim conjE, intro conjI impI) simp_all

lemma key_frozen_active: "key_frozen k k' \<Longrightarrow> active_key k' \<Longrightarrow> active_key k"
  by (auto simp: key_frozen_def active_key_def)

lemma keys_clash_frozen: "key_frozen x x' \<Longrightarrow> key_frozen k k' \<Longrightarrow> keys_clash x' k' \<Longrightarrow> keys_clash x k"
  by (auto simp: keys_clash_def dest: key_frozen_active) (auto simp: key_frozen_def)

lemma agent_frozen_refl [simp]: "agent_frozen a a"
  by (simp add: agent_frozen_def)

lemma agent_frozen_trans: "agent_frozen a a' \<Longrightarrow> agent_frozen a' a'' \<Longrightarrow> agent_frozen a a''"
  by (cases a; cases a'; cases a'') (auto simp: agent_frozen_def)

lemma extends_refl: "(\<And>x. ev x x) \<Longrightarrow> extends ev rows rows"
  unfolding extends_def by (rule exI [of _ rows]) (simp add: list_all2_refl)

lemma extends_append: "(\<And>x. ev x x) \<Longrightarrow> extends ev rows (rows @ news)"
  unfolding extends_def by (intro exI [of _ rows] exI [of _ news]) (simp add: list_all2_refl)

lemma extends_moved: "list_all2 ev rows rows' \<Longrightarrow> extends ev rows rows'"
  unfolding extends_def by (intro exI [of _ rows'] exI [of _ "[]"]) simp

lemma extends_trans:
  assumes "extends ev rows rows'" and "extends ev rows' rows''" and "\<And>x y z. ev x y \<Longrightarrow> ev y z \<Longrightarrow> ev x z"
  shows "extends ev rows rows''"
proof -
  obtain olds news where o: "rows' = olds @ news" "list_all2 ev rows olds" using assms(1) by (auto simp: extends_def)
  obtain olds' news' where n: "rows'' = olds' @ news'" "list_all2 ev (olds @ news) olds'"
    using assms(2) o(1) by (auto simp: extends_def)
  obtain a b where ab: "olds' = a @ b" "list_all2 ev olds a" using n(2) by (auto simp: list_all2_append1)
  have "list_all2 ev rows a" using o(2) ab(2) by (rule list_all2_trans [rotated]) (rule assms(3))
  then show ?thesis unfolding extends_def using n(1) ab(1) by (intro exI [of _ a] exI [of _ "b @ news'"]) simp
qed

lemma extends_row: "extends ev rows rows' \<Longrightarrow> x \<in> set rows \<Longrightarrow> \<exists>y\<in>set rows'. ev x y"
  unfolding extends_def list_all2_conv_all_nth by (force simp: in_set_conv_nth nth_append)

lemmas frozen_extends = extends_refl [of key_frozen, OF key_frozen_refl] extends_refl [of agent_frozen, OF agent_frozen_refl]
  extends_append [of key_frozen, OF key_frozen_refl] extends_append [of agent_frozen, OF agent_frozen_refl]

lemma keys_kept_same:
  "artifact_signing_keys d' = artifact_signing_keys d \<Longrightarrow> enrolled_agents d' = enrolled_agents d \<Longrightarrow> keys_kept d d'"
  by (simp add: keys_kept_def keys_sound_def agents_keyed_def frozen_extends)

interpretation keys_kept: blind_frame keys_kept
proof
  show "keys_kept s s" for s by (simp add: keys_kept_same)
  show "keys_kept s u" if "keys_kept s t" "keys_kept t u" for s t u
    using that extends_trans [of key_frozen "artifact_signing_keys s" "artifact_signing_keys t" "artifact_signing_keys u"]
      extends_trans [of agent_frozen "enrolled_agents s" "enrolled_agents t" "enrolled_agents u"] key_frozen_trans agent_frozen_trans
    unfolding keys_kept_def by blast
  show "keys_kept d d'" if "audit_only d d'" for d d' using that by (simp add: keys_kept_same audit_onlyD)
qed

lemma keys_kept_modify:
  "(\<And>d. artifact_signing_keys (f d) = artifact_signing_keys d) \<Longrightarrow> (\<And>d. enrolled_agents (f d) = enrolled_agents d) \<Longrightarrow>
    stays keys_kept (modify f)"
  by (simp add: stays_def keys_kept_same)

lemma sorted_wrt_frozen:
  "list_all2 key_frozen ks ks' \<Longrightarrow> sorted_wrt (\<lambda>x k. \<not> keys_clash x k) ks \<Longrightarrow> sorted_wrt (\<lambda>x k. \<not> keys_clash x k) ks'"
proof (induction rule: list_all2_induct)
  case (Cons x xs y ys)
  have "\<not> keys_clash y k'" if k': "k' \<in> set ys" for k'
  proof -
    obtain i where "i < length ys" "k' = ys ! i" using k' unfolding in_set_conv_nth by blast
    then have "xs ! i \<in> set xs" "key_frozen (xs ! i) k'" using Cons.hyps(2) by (auto simp: list_all2_conv_all_nth)
    then show ?thesis using Cons.prems Cons.hyps(1) keys_clash_frozen by auto
  qed
  then show ?case using Cons by simp
qed simp

lemma keys_kept_update: "stays keys_kept (update_keys P f)"
proof (rule staysI)
  fix d :: db
  let ?rows = "update_where P f (artifact_signing_keys d)"
  show "keys_kept d (snd (update_keys P f d))"
  proof (cases "\<exists>k\<in>set (artifact_signing_keys d). P k \<and> \<not> key_frozen k (f k)")
    case True
    then show ?thesis by (simp add: update_keys_def keys_kept.R_refl)
  next
    case False
    then have all: "list_all2 key_frozen (artifact_signing_keys d) ?rows" by (intro list_all2_update_where) auto
    then show ?thesis
      using False sorted_wrt_frozen [OF all] by (simp add: update_keys_def bindM_raise_if keys_kept_def keys_sound_def agents_keyed_def extends_moved frozen_extends)
  qed
qed

lemma keys_kept_insert: "stays keys_kept (insert_artifact_key k)"
proof (rule staysI)
  fix d :: db
  show "keys_kept d (snd (insert_artifact_key k d))"
    by (auto simp: insert_artifact_key_def bindM_raise_if keys_kept_def keys_sound_def agents_keyed_def sorted_wrt_append keys_clash_def
        artifact_key_conflict_def frozen_extends)
qed

text \<open>Writes that rest on what was read first.\<close>

lemma stays_gets_on: "(\<And>x. stays_on (\<lambda>s. g s = x) R (F x)) \<Longrightarrow> stays R (bindM (gets g) F)"
  by (simp add: stays_def stays_on_def)

context frame
begin

lemma stays_on_raise_if: "(\<not> b \<Longrightarrow> stays_on P R m) \<Longrightarrow> stays_on P R (seqM (raise_if b x) m)"
  by (cases b) (simp_all add: stays_on_def R_refl)

lemma stays_on_require_some: "(\<And>a. x = Some a \<Longrightarrow> stays_on P R (f a)) \<Longrightarrow> stays_on P R (bindM (require_some x y) f)"
  by (cases x) (simp_all add: stays_on_def R_refl)

end

lemma keys_kept_new_agent:
  "ea_agent_id a \<notin> ea_agent_id ` set rows \<Longrightarrow>
    stays_on (\<lambda>d. enrolled_agents d = rows) keys_kept (modify (\<lambda>d. d\<lparr>enrolled_agents := enrolled_agents d @ [a]\<rparr>))"
  by (auto simp: stays_on_def keys_kept_def keys_sound_def agents_keyed_def frozen_extends)

lemma keys_kept_insert_agent: "stays keys_kept (insert_enrolled_agent e a)"
  unfolding insert_enrolled_agent_def artifact_key_enrollment_def
  by (intro keys_kept.stays_transaction stays_gets_on keys_kept.stays_on_raise_if keys_kept.stays_on_seqM keys_kept_new_agent)
    (auto intro!: keys_kept.stays_structural keys_kept.writers keys_kept_insert stays_cases)

lemma keys_kept_revoke_agent:
  "stays_on (\<lambda>d. find_by ea_agent_id agent_id (enrolled_agents d) = Some a) keys_kept (revoke_agent e agent_id a)"
proof -
  have "list_all2 agent_frozen (enrolled_agents d)
      (update_where (\<lambda>x. ea_agent_id x = agent_id) (\<lambda>x. x\<lparr>ea_revoked_at := Some t\<rparr>) (enrolled_agents d))"
    if "find_by ea_agent_id agent_id (enrolled_agents d) = Some a" "ea_revoked_at a = None" "agents_keyed d" for d t
  proof (rule list_all2_update_where)
    fix x assume "x \<in> set (enrolled_agents d)" "ea_agent_id x = agent_id"
    then have "x = a" using that(1,3) find_by_distinct [of ea_agent_id "enrolled_agents d" x] by (simp add: agents_keyed_def)
    then show "agent_frozen x (x\<lparr>ea_revoked_at := Some t\<rparr>)" using that(2) by (simp add: agent_frozen_def)
  qed simp
  then have revoking: "stays_on (\<lambda>d. find_by ea_agent_id agent_id (enrolled_agents d) = Some a) keys_kept
      (modify (\<lambda>d. d\<lparr>enrolled_agents := update_where (\<lambda>x. ea_agent_id x = agent_id) (\<lambda>x. x\<lparr>ea_revoked_at := Some t\<rparr>) (enrolled_agents d)\<rparr>))"
    if "ea_revoked_at a = None" for t
    using that by (auto simp: stays_on_def keys_kept_def keys_sound_def agents_keyed_def frozen_extends extends_moved map_key_update_where)
  show ?thesis
  proof (cases "ea_revoked_at a = None")
    case True
    then show ?thesis unfolding revoke_agent_def
      by (simp, intro keys_kept.stays_on_seqM revoking keys_kept.stays_structural keys_kept_update)
  next
    case False
    then show ?thesis by (auto simp: revoke_agent_def intro: stays_stays_on keys_kept.stays_ret)
  qed
qed

lemma keys_kept_rotation:
  "stays keys_kept (request_rotation e agent_id q)" "stays keys_kept (approve_rotation e agent_id request_id actor)"
  unfolding request_rotation_def new_rotation_def live_challenge_def spend_challenge_def insert_rotation_def approve_rotation_def
    approve_pending_def server_time_def Let_def
  by (intro keys_kept.stays_structural keys_kept.writers keys_kept_update keys_kept_insert keys_kept_modify stays_cases; simp)+

lemma keys_kept_conclude: "stays keys_kept (conclude_identity e agent_id actor q kid a changed)"
  unfolding conclude_identity_def insert_identity_operation_def
  by (intro keys_kept.stays_structural keys_kept.writers keys_kept_modify stays_cases; simp)

lemma keys_kept_identity_operation: "stays keys_kept (identity_operation e agent_id actor q kid)"
proof -
  have m: "stays keys_kept (mark_compromised e agent_id k reason)" for k reason
    unfolding mark_compromised_def by (intro keys_kept.stays_structural keys_kept_update stays_cases)
  have "stays_on (\<lambda>d. find_by ea_agent_id agent_id (enrolled_agents d) = Some a) keys_kept
      (case kid of Some k \<Rightarrow> mark_compromised e agent_id k (idn_reason q) | None \<Rightarrow> revoke_agent e agent_id a)" for a
    by (cases kid) (simp_all add: keys_kept_revoke_agent stays_stays_on m)
  then have "stays keys_kept (decide_identity e agent_id actor q kid)"
    unfolding decide_identity_def
    by (intro stays_gets_on keys_kept.stays_on_require_some keys_kept.stays_on_seqM keys_kept_conclude) simp
  then show ?thesis
    unfolding identity_operation_def by (intro keys_kept.stays_structural stays_cases)
qed

lemma keys_kept_checks:
  "stays keys_kept (require_agent_token e agent_id auth)" "stays keys_kept (require_analyst_permission e auth permission)"
  "stays keys_kept (as_analyst e auth permission)"
  unfolding as_analyst_def
  by (intro keys_kept.stays_structural stays_read [OF checks_change_nothing(1)] stays_read [OF checks_change_nothing(2)] keys_kept.R_refl)+

lemma keys_kept_requests:
  "stays keys_kept (rotate_key e agent_id body auth)"
  "stays keys_kept (approve_key e agent_id request_id auth)"
  "stays keys_kept (revoke_key e agent_id kid body auth)"
  "stays keys_kept (revoke_enrollment e agent_id body auth)"
  unfolding rotate_key_def approve_key_def revoke_key_def revoke_enrollment_def decide_on_identity_def identity_refusal_def
  by (intro keys_kept.stays_structural keys_kept.stays_recording keys_kept.writers keys_kept_checks keys_kept_rotation
      keys_kept_identity_operation)+

text \<open>Enrolling adds a key; the other requests of the response plane leave the keys alone.\<close>

lemma keys_kept_identities:
  "stays keys_kept (issue_enrollment_challenge e)"
  "stays keys_kept (enrollment e agent_id host public_key nonce signature bootstrap)"
  "stays keys_kept (enroll_analyst e analyst_id bootstrap role)"
  unfolding issue_enrollment_challenge_def enrollment_def enroll_def enroll_body_def consume_nonce_def verify_proof_of_possession_def
    decode_b64_def on_integrity_error_def enroll_analyst_def check_enrollment_secret_def
  by (intro keys_kept.stays_structural keys_kept.writers keys_kept_insert_agent keys_kept_modify stays_cases; simp)+

lemma keys_kept_foreground: "stays foreground m \<Longrightarrow> stays keys_kept m"
  by (auto simp: stays_def foreground_def background_def intro: keys_kept_same)

lemma keys_kept_settled: "stays settled m \<Longrightarrow> stays keys_kept m"
  by (auto simp: stays_def settled_def intro: keys_kept_same)

section \<open>What a rotation takes\<close>

lemma server_time_Inr_iff:
  "server_time v s = (Inr t, s') \<longleftrightarrow> fromisoformat (replace_Z v) = Some t \<and> utcoffset t \<noteq> None \<and> s' = s"
  by (auto simp: server_time_def bindM_Inr_iff)

lemma recording_refusals_Inr_iff [simp]: "recording_refusals record m s = (Inr a, s') \<longleftrightarrow> m s = (Inr a, s')"
  by (auto simp: recording_refusals_def tryM_def bindM_Inr_iff split: prod.splits sum.splits exn.splits
      dest: transaction_Inr_iff [THEN iffD1] transaction_Inr_iff [THEN iffD2])

lemma live_challenge_Inr:
  assumes "live_challenge e nonce d = (Inr t, d')"
  obtains r where "d' = d" and "find_by en_nonce nonce (enrollment_nonces d) = Some r" and "en_consumed_at r = None"
    and "en_expires_at r = t" and "\<exists>x. fromisoformat (replace_Z t) = Some x \<and> micros (now e) < micros x"
  using assms unfolding live_challenge_def
  by (auto simp: bindM_Inr_iff server_time_Inr_iff split: option.splits if_splits)

lemma new_rotation_Inr:
  assumes "new_rotation e agent_id q dig d = (Inr a, d')"
  shows "\<exists>k new_id n r. current_artifact_key d agent_id = Some k \<and> ak_key_id k = rq_old_key_id q \<and>
    public_key_id e (rq_new_public_key q) = Some new_id \<and>
    (\<forall>x\<in>set (artifact_signing_keys d). ak_agent_id x = agent_id \<longrightarrow> ak_key_id x \<noteq> new_id) \<and>
    find_by en_nonce (rq_nonce q) (enrollment_nonces d) = Some n \<and> en_consumed_at n = None \<and>
    (\<exists>t. fromisoformat (replace_Z (en_expires_at n)) = Some t \<and> micros (now e) < micros t) \<and>
    (let data = rotation_input agent_id (ak_host_id k) (rq_request_id q) (rq_nonce q) (en_expires_at n) (ak_key_id k) new_id
                  (rq_new_public_key q)
     in verify_signature e (ak_public_key k) (rq_old_signature q) data \<and>
        verify_signature e (rq_new_public_key q) (rq_new_signature q) data) \<and>
    enrollment_nonces d' = update_where (\<lambda>x. en_nonce x = rq_nonce q) (\<lambda>x. x\<lparr>en_consumed_at := Some (iso_now e)\<rparr>) (enrollment_nonces d) \<and>
    artifact_signing_keys d' = artifact_signing_keys d \<and> artifact_key_rotations d' = artifact_key_rotations d @ [r] \<and>
    kr_agent_id r = agent_id \<and> kr_request_id r = rq_request_id q \<and> kr_expires_at r = en_expires_at n \<and>
    kr_state r = ROTATION_PENDING \<and> kr_old_key_id r = ak_key_id k \<and> kr_new_key_id r = new_id \<and>
    kr_new_public_key r = rq_new_public_key q"
proof -
  obtain k new_id t d1 d2 where k: "current_artifact_key d agent_id = Some k" "ak_key_id k = rq_old_key_id q"
    and i: "public_key_id e (rq_new_public_key q) = Some new_id"
    and fresh: "\<forall>x\<in>set (artifact_signing_keys d). ak_agent_id x = agent_id \<longrightarrow> ak_key_id x \<noteq> new_id"
    and c: "live_challenge e (rq_nonce q) d = (Inr t, d1)"
    and v: "let data = rotation_input agent_id (ak_host_id k) (rq_request_id q) (rq_nonce q) t (ak_key_id k) new_id (rq_new_public_key q)
       in verify_signature e (ak_public_key k) (rq_old_signature q) data \<and>
          verify_signature e (rq_new_public_key q) (rq_new_signature q) data"
    and ins: "insert_rotation \<lparr>kr_agent_id = agent_id, kr_request_id = rq_request_id q, kr_old_key_id = ak_key_id k,
        kr_new_key_id = new_id, kr_new_public_key = rq_new_public_key q, kr_payload_digest = dig, kr_state = ROTATION_PENDING,
        kr_created_at = iso_now e, kr_expires_at = t, kr_approved_by = None, kr_approved_at = None\<rparr>
      (snd (spend_challenge e (rq_nonce q) d1)) = (Inr (), d2)"
    and rec: "record_event e ''artifact_key_rotation_requested'' (''agent:'' @ agent_id) (Some (ak_host_id k))
        (Some (rq_request_id q)) [(''old_key_id'', JStr (ak_key_id k)), (''new_key_id'', JStr new_id)] d2 = (Inr (), d')"
    using assms unfolding new_rotation_def Let_def
    by (auto simp: bindM_Inr_iff spend_challenge_def split: option.splits if_splits)
  obtain n where n: "d1 = d" "find_by en_nonce (rq_nonce q) (enrollment_nonces d) = Some n" "en_consumed_at n = None"
    "en_expires_at n = t" "\<exists>x. fromisoformat (replace_Z t) = Some x \<and> micros (now e) < micros x"
    using c by (rule live_challenge_Inr)
  note a = audit_onlyD [OF stays_run [OF audit_only_writers(4) rec]]
  have d2: "artifact_signing_keys d2 = artifact_signing_keys d" "\<exists>r. artifact_key_rotations d2 = artifact_key_rotations d @ [r] \<and>
      kr_agent_id r = agent_id \<and> kr_request_id r = rq_request_id q \<and> kr_expires_at r = t \<and>
      kr_state r = ROTATION_PENDING \<and> kr_old_key_id r = ak_key_id k \<and> kr_new_key_id r = new_id \<and> kr_new_public_key r = rq_new_public_key q"
    "enrollment_nonces d2 = update_where (\<lambda>x. en_nonce x = rq_nonce q) (\<lambda>x. x\<lparr>en_consumed_at := Some (iso_now e)\<rparr>) (enrollment_nonces d)"
    using ins unfolding insert_rotation_def by (auto simp: bindM_raise_if spend_challenge_def n(1) split: if_splits)
  show ?thesis using k i fresh n v d2 a by (simp add: Let_def)
qed

section \<open>The approved key takes over\<close>

lemma current_key_SomeD:
  assumes "current_artifact_key d i = Some k"
  shows "k \<in> set (artifact_signing_keys d)" and "ak_agent_id k = i" and "active_key k"
    and "\<exists>a. enrolled_for d k a \<and> ea_revoked_at a = None"
proof -
  let ?rows = "filter (\<lambda>k. ak_agent_id k = i \<and> active_key k \<and>
      (\<exists>a\<in>set (enrolled_agents d). enrolled_for d k a \<and> ea_revoked_at a = None)) (artifact_signing_keys d)"
  obtain ks where "order_by (\<lambda>k. - ak_key_version k) ?rows = k # ks"
    using assms by (simp add: current_artifact_key_def split: list.splits)
  then have "k \<in> set (order_by (\<lambda>k. - ak_key_version k) ?rows)" by (simp only: list.set_intros)
  then have k: "k \<in> set ?rows" by simp
  then show "k \<in> set (artifact_signing_keys d)" "ak_agent_id k = i" "active_key k"
    "\<exists>a. enrolled_for d k a \<and> ea_revoked_at a = None" by auto
qed

lemma current_key_unique:
  assumes "keys_sound d" and k: "k \<in> set (artifact_signing_keys d)" "active_key k" and "enrolled_for d k a" and "ea_revoked_at a = None"
  shows "current_artifact_key d (ak_agent_id k) = Some k"
proof -
  let ?P = "\<lambda>x. ak_agent_id x = ak_agent_id k \<and> active_key x \<and>
      (\<exists>a\<in>set (enrolled_agents d). enrolled_for d x a \<and> ea_revoked_at a = None)"
  obtain xs ys where split: "artifact_signing_keys d = xs @ k # ys" using k(1) by (meson split_list)
  have "\<not> ?P x" if "x \<in> set xs \<union> set ys" for x
    using assms(1) that k(2) unfolding keys_sound_def split by (auto simp: sorted_wrt_append keys_clash_def)
  then have "filter ?P xs = []" "filter ?P ys = []" by (auto simp: filter_empty_conv)
  moreover have "?P k" using assms by (auto simp: enrolled_for_def)
  ultimately have "filter ?P (artifact_signing_keys d) = [k]" by (simp add: split)
  then show ?thesis by (simp add: current_artifact_key_def order_by_def)
qed

lemma approve_pending_Inr:
  assumes "approve_pending e agent_id request_id actor row d = (Inr v, d')"
  obtains k where "current_artifact_key d agent_id = Some k" and "ak_key_id k = kr_old_key_id row"
    and "\<exists>t. fromisoformat (replace_Z (kr_expires_at row)) = Some t \<and> micros (now e) < micros t"
    and "artifact_signing_keys d' =
      update_where (\<lambda>x. ak_agent_id x = agent_id \<and> ak_key_id x = ak_key_id k) (retire_key (iso_now e)) (artifact_signing_keys d) @
      [\<lparr>ak_agent_id = agent_id, ak_host_id = ak_host_id k, ak_key_id = kr_new_key_id row, ak_key_version = ak_key_version k + 1,
        ak_public_key = kr_new_public_key row, ak_valid_from = iso_now e, ak_retired_at = None, ak_compromised_at = None,
        ak_compromise_reason = None\<rparr>]"
    and "enrolled_agents d' = enrolled_agents d"
proof -
  let ?new = "\<lambda>k. \<lparr>ak_agent_id = agent_id, ak_host_id = ak_host_id k, ak_key_id = kr_new_key_id row,
        ak_key_version = ak_key_version k + 1, ak_public_key = kr_new_public_key row, ak_valid_from = iso_now e,
        ak_retired_at = None, ak_compromised_at = None, ak_compromise_reason = None\<rparr>"
  obtain t k d1 d2 d3 where t: "server_time (kr_expires_at row) d = (Inr t, d)" "micros (now e) < micros t"
    and k: "current_artifact_key d agent_id = Some k" "ak_key_id k = kr_old_key_id row"
    and u: "update_keys (\<lambda>x. ak_agent_id x = agent_id \<and> ak_key_id x = ak_key_id k) (retire_key (iso_now e)) d = (Inr (), d1)"
    and i: "insert_artifact_key (?new k) d1 = (Inr (), d2)"
    and r: "record_event e ''artifact_key_rotation_approved'' actor (Some (ak_host_id k)) (Some request_id)
        [(''old_key_id'', JStr (ak_key_id k)), (''new_key_id'', JStr (kr_new_key_id row))] d3 = (Inr (), d')"
    and d3: "artifact_signing_keys d3 = artifact_signing_keys d2" "enrolled_agents d3 = enrolled_agents d2"
    using assms unfolding approve_pending_def
    by (auto simp: bindM_Inr_iff server_time_Inr_iff split: option.splits if_splits)
  note a = audit_onlyD [OF stays_run [OF audit_only_writers(4) r]]
  have "artifact_signing_keys d2 = artifact_signing_keys d1 @ [?new k]" "enrolled_agents d2 = enrolled_agents d1"
    using i by (auto simp: insert_artifact_key_def bindM_raise_if split: if_splits)
  moreover have "artifact_signing_keys d1 =
      update_where (\<lambda>x. ak_agent_id x = agent_id \<and> ak_key_id x = ak_key_id k) (retire_key (iso_now e)) (artifact_signing_keys d)"
    "enrolled_agents d1 = enrolled_agents d"
    using u by (auto simp: update_keys_def bindM_raise_if split: if_splits)
  ultimately show ?thesis using that [of k] k t a d3 by (auto simp: server_time_Inr_iff)
qed

text \<open>
  C39. A new key is only put up for approval by an agent that proves it holds both the key in use and the new one: both
  signatures verify over one message that binds the agent, its host, the request, a live challenge with its expiry and
  both keys. Live means that the challenge was issued, was not consumed and that its expiry, read as a time, lies ahead.
  The new key was never a key of this agent before, the challenge is spent, the request can be approved until the challenge
  would have expired, and the keys stay as they are.
\<close>

theorem rotation_needs_both_keys:
  assumes "request_rotation e agent_id q d = (Inr a, d')" and "find_rotation d agent_id (rq_request_id q) = None"
  shows "\<exists>k new_id n r. current_artifact_key d agent_id = Some k \<and> ak_key_id k = rq_old_key_id q \<and>
    public_key_id e (rq_new_public_key q) = Some new_id \<and>
    (\<forall>x\<in>set (artifact_signing_keys d). ak_agent_id x = agent_id \<longrightarrow> ak_key_id x \<noteq> new_id) \<and>
    find_by en_nonce (rq_nonce q) (enrollment_nonces d) = Some n \<and> en_consumed_at n = None \<and>
    (\<exists>t. fromisoformat (replace_Z (en_expires_at n)) = Some t \<and> micros (now e) < micros t) \<and>
    (let data = rotation_input agent_id (ak_host_id k) (rq_request_id q) (rq_nonce q) (en_expires_at n) (ak_key_id k) new_id
                  (rq_new_public_key q)
     in verify_signature e (ak_public_key k) (rq_old_signature q) data \<and>
        verify_signature e (rq_new_public_key q) (rq_new_signature q) data) \<and>
    enrollment_nonces d' = update_where (\<lambda>x. en_nonce x = rq_nonce q) (\<lambda>x. x\<lparr>en_consumed_at := Some (iso_now e)\<rparr>) (enrollment_nonces d) \<and>
    artifact_signing_keys d' = artifact_signing_keys d \<and> artifact_key_rotations d' = artifact_key_rotations d @ [r] \<and>
    kr_agent_id r = agent_id \<and> kr_request_id r = rq_request_id q \<and> kr_expires_at r = en_expires_at n \<and>
    kr_state r = ROTATION_PENDING \<and> kr_old_key_id r = ak_key_id k \<and> kr_new_key_id r = new_id \<and>
    kr_new_public_key r = rq_new_public_key q"
proof -
  have "new_rotation e agent_id q (sha256 e (canonical (JObj (rotation_dump q)))) d = (Inr a, d')"
    using assms by (simp add: request_rotation_def Let_def)
  then show ?thesis by (rule new_rotation_Inr)
qed

text \<open>
  C40. An approval replaces the key: it is given inside the window of the request and only while the key the agent signed
  with is still the one in use. From then on the new key, one version up, is the only usable key of the agent, the old
  one is retired, and the keys of the other agents are untouched.
\<close>

theorem approval_replaces_the_key:
  assumes "approve_rotation e agent_id i actor d = (Inr v, d')" and "find_rotation d agent_id i = Some r"
    and "kr_state r = ROTATION_PENDING" and "keys_sound d"
  shows "\<exists>k k' t. current_artifact_key d agent_id = Some k \<and> ak_key_id k = kr_old_key_id r \<and>
    fromisoformat (replace_Z (kr_expires_at r)) = Some t \<and> micros (now e) < micros t \<and>
    current_artifact_key d' agent_id = Some k' \<and> ak_key_id k' = kr_new_key_id r \<and> ak_public_key k' = kr_new_public_key r \<and>
    ak_key_version k' = ak_key_version k + 1 \<and> ak_host_id k' = ak_host_id k \<and>
    (\<forall>x\<in>set (artifact_signing_keys d'). ak_agent_id x = agent_id \<longrightarrow> active_key x \<longrightarrow> x = k') \<and>
    filter (\<lambda>x. ak_agent_id x \<noteq> agent_id) (artifact_signing_keys d') = filter (\<lambda>x. ak_agent_id x \<noteq> agent_id) (artifact_signing_keys d)"
proof -
  have run: "approve_pending e agent_id i actor r d = (Inr v, d')" using assms by (simp add: approve_rotation_def)
  obtain k where k: "current_artifact_key d agent_id = Some k" "ak_key_id k = kr_old_key_id r"
    and window: "\<exists>t. fromisoformat (replace_Z (kr_expires_at r)) = Some t \<and> micros (now e) < micros t"
    and keys: "artifact_signing_keys d' =
      update_where (\<lambda>x. ak_agent_id x = agent_id \<and> ak_key_id x = ak_key_id k) (retire_key (iso_now e)) (artifact_signing_keys d) @
      [\<lparr>ak_agent_id = agent_id, ak_host_id = ak_host_id k, ak_key_id = kr_new_key_id r, ak_key_version = ak_key_version k + 1,
        ak_public_key = kr_new_public_key r, ak_valid_from = iso_now e, ak_retired_at = None, ak_compromised_at = None,
        ak_compromise_reason = None\<rparr>]"
    and agents: "enrolled_agents d' = enrolled_agents d"
    by (rule approve_pending_Inr [OF run])
  obtain t where t: "fromisoformat (replace_Z (kr_expires_at r)) = Some t" "micros (now e) < micros t" using window by blast
  let ?new = "\<lparr>ak_agent_id = agent_id, ak_host_id = ak_host_id k, ak_key_id = kr_new_key_id r, ak_key_version = ak_key_version k + 1,
        ak_public_key = kr_new_public_key r, ak_valid_from = iso_now e, ak_retired_at = None, ak_compromised_at = None,
        ak_compromise_reason = None\<rparr>"
  have sound: "keys_sound d'" using assms(4) stays_run [OF keys_kept_rotation(2) assms(1)] by (simp add: keys_kept_def)
  obtain a where a: "enrolled_for d k a" "ea_revoked_at a = None" using current_key_SomeD(4) [OF k(1)] by blast
  have new: "?new \<in> set (artifact_signing_keys d')" "active_key ?new" by (simp_all add: keys active_key_def)
  have "enrolled_for d' ?new a" using a(1) current_key_SomeD(2) [OF k(1)] by (simp add: enrolled_for_def agents)
  from current_key_unique [OF sound new this a(2)] have cur: "current_artifact_key d' agent_id = Some ?new" by simp
  have "x = ?new" if "x \<in> set (artifact_signing_keys d')" "ak_agent_id x = agent_id" "active_key x" for x
    using sound that unfolding keys_sound_def keys by (auto simp: sorted_wrt_append keys_clash_def active_key_def)
  then have only: "\<forall>x\<in>set (artifact_signing_keys d'). ak_agent_id x = agent_id \<longrightarrow> active_key x \<longrightarrow> x = ?new" by blast
  have "filter (\<lambda>x. ak_agent_id x \<noteq> agent_id) (update_where (\<lambda>x. ak_agent_id x = agent_id \<and> ak_key_id x = ak_key_id k)
      (retire_key (iso_now e)) rows) = filter (\<lambda>x. ak_agent_id x \<noteq> agent_id) rows" for rows
    by (induction rows) (auto simp: retire_key_def)
  then have "filter (\<lambda>x. ak_agent_id x \<noteq> agent_id) (artifact_signing_keys d') = filter (\<lambda>x. ak_agent_id x \<noteq> agent_id) (artifact_signing_keys d)"
    by (simp add: keys)
  then show ?thesis using k t cur only by (intro exI [of _ k] exI [of _ ?new] exI [of _ t]) simp
qed

section \<open>A revoked enrollment stays locked out\<close>

definition locked_out :: "db \<Rightarrow> string \<Rightarrow> bool" where
  "locked_out d agent_id \<longleftrightarrow> agents_keyed d \<and>
     (\<exists>a\<in>set (enrolled_agents d). ea_agent_id a = agent_id \<and> ea_revoked_at a \<noteq> None)"

lemma agent_frozenD:
  "agent_frozen a a' \<Longrightarrow> ea_agent_id a' = ea_agent_id a"
  "agent_frozen a a' \<Longrightarrow> ea_revoked_at a \<noteq> None \<Longrightarrow> ea_revoked_at a' \<noteq> None"
  by (cases a; cases a'; auto simp: agent_frozen_def)+

lemma locked_out_kept: "keys_kept d d' \<Longrightarrow> locked_out d agent_id \<Longrightarrow> locked_out d' agent_id"
  unfolding locked_out_def keys_kept_def using extends_row [of agent_frozen] agent_frozenD by metis

lemma locked_out_row: "locked_out d i \<Longrightarrow> a \<in> set (enrolled_agents d) \<Longrightarrow> ea_agent_id a = i \<Longrightarrow> ea_revoked_at a \<noteq> None"
  unfolding locked_out_def agents_keyed_def by (metis distinct_map inj_onD)

lemma retired_before_read: "retired_before k admitted d = (r, d') \<Longrightarrow> d' = d"
  by (auto simp: retired_before_def server_time_def bindM_def require_some_def raise_if_def split: option.splits sum.splits prod.splits if_splits)

lemma verify_as_Inr:
  "verify_as e m v admitted x a d = (Inr k, d') \<longleftrightarrow>
    d' = d \<and> k = x \<and> ak_host_id k = mf_host_id v \<and> ea_revoked_at a = None \<and> ak_compromised_at k = None \<and>
    retired_before k admitted d = (Inr False, d) \<and>
    (\<exists>data. artifact_signing_input e (dump_manifest m) = Some data \<and> verify_signature e (ak_public_key k) (mf_signature v) data)"
  unfolding verify_as_def by (auto simp: bindM_Inr_iff dest: retired_before_read)

lemma verify_manifest_Inr:
  assumes "verify_manifest e agent_id m admitted d = (Inr k, d')"
  obtains v a where "make_manifest e (JObj (dump_manifest m)) = Some v" and "mf_agent_id v = agent_id"
    and "manifest_signer d agent_id (mf_key_id v) = Some (k, a)" and "verify_as e m v admitted k a d = (Inr k, d)" and "d' = d"
proof -
  obtain v where v: "make_manifest e (JObj (dump_manifest m)) = Some v" "mf_agent_id v = agent_id"
    and r: "(case manifest_signer d agent_id (mf_key_id v) of
        None \<Rightarrow> throw (HTTPException 403 ''artifact signer is not enrolled for this endpoint'')
      | Some (k, a) \<Rightarrow> verify_as e m v admitted k a) d = (Inr k, d')"
    using assms unfolding verify_manifest_def by (auto simp: bindM_Inr_iff)
  obtain x a where x: "manifest_signer d agent_id (mf_key_id v) = Some (x, a)" "verify_as e m v admitted x a d = (Inr k, d')"
    using r by (cases "manifest_signer d agent_id (mf_key_id v)") auto
  then have "x = k" "d' = d" by (simp_all add: verify_as_Inr)
  then show ?thesis using that [OF v] x by simp
qed

lemma locked_out_refused:
  assumes "locked_out d i"
  shows "require_agent_token e i auth d = (Inl agent_auth_required, d)" and "current_artifact_key d i = None"
    and "fst (verify_manifest e i m admitted d) \<noteq> Inr k"
proof -
  have "active_agent d i = None" using locked_out_row [OF assms] by (auto simp: active_agent_def find_None_iff)
  then show "require_agent_token e i auth d = (Inl agent_auth_required, d)"
    by (cases "bearer_token auth") (simp_all add: require_agent_token_def)
  show "current_artifact_key d i = None"
  proof (cases "current_artifact_key d i")
    case (Some x)
    obtain a where "enrolled_for d x a" "ea_revoked_at a = None" using current_key_SomeD(4) [OF Some] by blast
    then show ?thesis using locked_out_row [OF assms, of a] current_key_SomeD(2) [OF Some] by (simp add: enrolled_for_def)
  qed simp
  show "fst (verify_manifest e i m admitted d) \<noteq> Inr k"
  proof
    assume "fst (verify_manifest e i m admitted d) = Inr k"
    then obtain d' where "verify_manifest e i m admitted d = (Inr k, d')" by (metis prod.collapse)
    then obtain v a where "manifest_signer d i (mf_key_id v) = Some (k, a)" "verify_as e m v admitted k a d = (Inr k, d)"
      by (rule verify_manifest_Inr)
    then have "manifest_signer d i (mf_key_id v) = Some (k, a)" "ea_revoked_at a = None" by (simp_all add: verify_as_Inr)
    then show False using locked_out_row [OF assms, of a]
      by (auto simp: manifest_signer_def find_Some_iff split: option.splits)
  qed
qed

lemma permission_read: "require_analyst_permission e auth p d = (r, d') \<Longrightarrow> d' = d"
  using stays_run [OF checks_change_nothing(2)] .

lemma revoke_enrollment_locks:
  assumes "revoke_enrollment e agent_id body auth d = (Inr v, d')" and "agents_keyed d"
    and "\<And>q x. parse_identity_decision body = Some q \<Longrightarrow> x \<in> set (artifact_identity_operations d) \<Longrightarrow> io_request_id x \<noteq> idn_request_id q"
  shows "locked_out d' agent_id"
proof -
  obtain q actor d0 where q: "parse_identity_decision body = Some q" and d0: "as_analyst e auth ''response:decide'' d = (Inr actor, d0)"
    and run0: "seqM (require_analyst_permission e auth ''response:decide'') (identity_operation e agent_id actor q None) d0 = (Inr v, d')"
    using assms(1) unfolding revoke_enrollment_def decide_on_identity_def by (auto simp: bindM_Inr_iff)
  have "d0 = d" using d0 permission_read unfolding as_analyst_def by (auto simp: bindM_Inr_iff)
  moreover obtain u d1 where "require_analyst_permission e auth ''response:decide'' d0 = (Inr u, d1)"
      "identity_operation e agent_id actor q None d1 = (Inr v, d')"
    using run0 by (auto simp: bindM_Inr_iff)
  ultimately have run: "identity_operation e agent_id actor q None d = (Inr v, d')" using permission_read by metis
  have fresh: "List.find (\<lambda>x. io_actor x = actor \<and> io_request_id x = idn_request_id q) (artifact_identity_operations d) = None"
    using assms(3) [OF q] by (auto simp: find_None_iff)
  have "decide_identity e agent_id actor q None d = (Inr v, d')" using run fresh by (simp add: identity_operation_def)
  then obtain a changed d1 where a: "find_by ea_agent_id agent_id (enrolled_agents d) = Some a"
    and r: "revoke_agent e agent_id a d = (Inr changed, d1)"
    and rest: "conclude_identity e agent_id actor q None a changed d1 = (Inr v, d')"
    unfolding decide_identity_def by (auto simp: bindM_Inr_iff)
  have keyed: "agents_keyed d1"
    using stays_onD [OF keys_kept_revoke_agent a, of e] r assms(2) by (simp add: keys_kept_def)
  have "\<exists>x\<in>set (enrolled_agents d1). ea_agent_id x = agent_id \<and> ea_revoked_at x \<noteq> None"
  proof (cases "ea_revoked_at a = None")
    case True
    then have "enrolled_agents d1 = update_where (\<lambda>x. ea_agent_id x = agent_id) (\<lambda>x. x\<lparr>ea_revoked_at := Some (iso_now e)\<rparr>) (enrolled_agents d)"
      using r by (auto simp: revoke_agent_def update_keys_def bindM_raise_if bindM_Inr_iff split: if_splits)
    then show ?thesis using find_by_SomeD [OF a]
      by (intro bexI [of _ "a\<lparr>ea_revoked_at := Some (iso_now e)\<rparr>"]) (auto simp: set_update_where)
  next
    case False
    then show ?thesis using r find_by_SomeD [OF a] by (auto simp: revoke_agent_def)
  qed
  then have "locked_out d1 agent_id" using keyed by (simp add: locked_out_def)
  then show ?thesis by (rule locked_out_kept [OF stays_run [OF keys_kept_conclude rest]])
qed

section \<open>A rotation of one agent\<close>

definition demo_point :: "char \<Rightarrow> string" where
  "demo_point c = CHR 0x04 # replicate 64 c"

lemma demo_key_id: "public_key_id demo_env (b64encode (demo_point c)) = Some (take 16 (demo_point c))"
  by (simp add: public_key_id_def public_point_def b64decode_b64encode demo_point_def key_id_def)

lemma demo_signature: "verify_signature demo_env (b64encode (demo_point c)) (b64encode (replicate 64 CHR ''s'')) data"
  by (simp add: verify_signature_def public_point_def b64decode_b64encode demo_point_def)

definition demo_artifact_key :: artifact_key_row where
  "demo_artifact_key = \<lparr>ak_agent_id = ''agent-1'', ak_host_id = ''host-1'', ak_key_id = take 16 (demo_point CHR ''a''),
     ak_key_version = 1, ak_public_key = b64encode (demo_point CHR ''a''), ak_valid_from = ''2026'', ak_retired_at = None,
     ak_compromised_at = None, ak_compromise_reason = None\<rparr>"

definition demo_expiry :: string where
  "demo_expiry = iso_at (demo_now\<lparr>minute := 5\<rparr>)"

lemma server_time_Inr: "fromisoformat (replace_Z v) = Some t \<Longrightarrow> utcoffset t \<noteq> None \<Longrightarrow> server_time v s = (Inr t, s)"
  by (simp add: server_time_Inr_iff)

lemma demo_expiry_time: "\<exists>t. (\<forall>s. server_time demo_expiry s = (Inr t, s)) \<and> micros demo_now < micros t"
proof -
  have "valid_datetime (demo_now\<lparr>minute := 5\<rparr>)" by (simp add: valid_datetime_def demo_now_def days_in_month_def)
  from fromisoformat_iso_at [OF this] show ?thesis
    by (auto simp: demo_expiry_def demo_now_def micros_def wall_def intro!: exI server_time_Inr)
qed

definition demo_keyring :: "rotation_row list \<Rightarrow> db" where
  "demo_keyring rows = demo_fleet\<lparr>artifact_signing_keys := [demo_artifact_key], artifact_key_rotations := rows,
     enrollment_nonces := [\<lparr>en_nonce = ''n'', en_created_at = ''2026'', en_expires_at = demo_expiry, en_consumed_at = None\<rparr>]\<rparr>"

lemma demo_keyring_simps [simp]:
  "artifact_signing_keys (demo_keyring rows) = [demo_artifact_key]" "artifact_key_rotations (demo_keyring rows) = rows"
  "enrolled_agents (demo_keyring rows) = [demo_agent ''agent-1'' ''host-1'' ''tok'']"
  "enrollment_nonces (demo_keyring rows) = [\<lparr>en_nonce = ''n'', en_created_at = ''2026'', en_expires_at = demo_expiry, en_consumed_at = None\<rparr>]"
  "response_audit_ledger (demo_keyring rows) = []" "command_audit (demo_keyring rows) = []"
  "response_decision_audit (demo_keyring rows) = []" "response_artifact_custody (demo_keyring rows) = []"
  "response_security_audit (demo_keyring rows) = []"
  by (simp_all add: demo_keyring_def demo_fleet_def)

lemma demo_artifact_key_simps [simp]:
  "ak_agent_id demo_artifact_key = ''agent-1''" "ak_host_id demo_artifact_key = ''host-1''"
  "ak_key_id demo_artifact_key = take 16 (demo_point CHR ''a'')" "ak_key_version demo_artifact_key = 1"
  "ak_public_key demo_artifact_key = b64encode (demo_point CHR ''a'')" "ak_retired_at demo_artifact_key = None"
  "ak_compromised_at demo_artifact_key = None" "active_key demo_artifact_key"
  by (simp_all add: demo_artifact_key_def active_key_def)

lemma demo_keyring_key: "current_artifact_key (demo_keyring rows) ''agent-1'' = Some demo_artifact_key"
  by (simp add: current_artifact_key_def demo_keyring_def demo_artifact_key_def demo_fleet_def demo_agent_def active_key_def
      enrolled_for_def order_by_def)

lemma demo_recorded:
  assumes "response_audit_ledger d = []" and "command_audit d = []" and "response_decision_audit d = []"
    and "response_artifact_custody d = []" and "response_security_audit d = []"
  shows "\<exists>d'. record_event e ev actor asset req detail d = (Inr (), d')"
proof (rule record_event_runs)
  show "audit_inv (sha256 e) d"
    using audit_inv_empty [of "sha256 e"] audit_inv_at_cong [of d empty_db] assms by (simp add: audit_inv_def)
  show "uuid4 e (draws d) \<notin> sa_event_id ` set (response_security_audit d)" using assms by simp
qed

definition demo_rotation :: rotation_request where
  "demo_rotation = \<lparr>rq_request_id = ''r1'', rq_old_key_id = take 16 (demo_point CHR ''a''),
     rq_new_public_key = b64encode (demo_point CHR ''b''), rq_nonce = ''n'',
     rq_old_signature = b64encode (replicate 64 CHR ''s''), rq_new_signature = b64encode (replicate 64 CHR ''s'')\<rparr>"

lemma demo_rotation_simps [simp]:
  "rq_request_id demo_rotation = ''r1''" "rq_old_key_id demo_rotation = take 16 (demo_point CHR ''a'')"
  "rq_new_public_key demo_rotation = b64encode (demo_point CHR ''b'')" "rq_nonce demo_rotation = ''n''"
  "rq_old_signature demo_rotation = b64encode (replicate 64 CHR ''s'')"
  "rq_new_signature demo_rotation = b64encode (replicate 64 CHR ''s'')"
  by (simp_all add: demo_rotation_def)

lemma demo_new_key: "take 16 (demo_point CHR ''a'') \<noteq> take 16 (demo_point CHR ''b'')"
  by (simp add: demo_point_def)

lemma demo_rotation_requested: "\<exists>a d'. request_rotation demo_env ''agent-1'' demo_rotation (demo_keyring []) = (Inr a, d')"
proof -
  obtain t where t: "\<And>s :: db. server_time demo_expiry s = (Inr t, s)" "micros demo_now < micros t"
    using demo_expiry_time by blast
  have c: "live_challenge demo_env ''n'' (demo_keyring []) = (Inr demo_expiry, demo_keyring [])"
    using t by (simp add: live_challenge_def bindM_Inr [OF t(1)] bindM_raise_if)
  define d1 where "d1 = demo_keyring []\<lparr>enrollment_nonces := [\<lparr>en_nonce = ''n'', en_created_at = ''2026'', en_expires_at = demo_expiry,
      en_consumed_at = Some (iso_now demo_env)\<rparr>],
    artifact_key_rotations := [\<lparr>kr_agent_id = ''agent-1'', kr_request_id = ''r1'', kr_old_key_id = take 16 (demo_point CHR ''a''),
      kr_new_key_id = take 16 (demo_point CHR ''b''), kr_new_public_key = b64encode (demo_point CHR ''b''),
      kr_payload_digest = canonical (JObj (rotation_dump demo_rotation)), kr_state = ROTATION_PENDING,
      kr_created_at = iso_now demo_env, kr_expires_at = demo_expiry, kr_approved_by = None, kr_approved_at = None\<rparr>]\<rparr>"
  obtain d' where r: "record_event demo_env ''artifact_key_rotation_requested'' ''agent:agent-1'' (Some ''host-1'') (Some ''r1'')
      [(''old_key_id'', JStr (take 16 (demo_point CHR ''a''))), (''new_key_id'', JStr (take 16 (demo_point CHR ''b'')))] d1 = (Inr (), d')"
    using demo_recorded [of d1 demo_env] unfolding d1_def by simp blast
  show ?thesis
    unfolding request_rotation_def new_rotation_def Let_def
    using demo_new_key
    by (simp add: find_rotation_def demo_keyring_key demo_key_id bindM_raise_if bindM_Inr [where m = "live_challenge _ _", OF c] demo_signature spend_challenge_def
        insert_rotation_def bindM_assoc bindM_Inr [where m = "record_event _ _ _ _ _ _", OF r [unfolded d1_def]] demo_agent_def)
qed

theorem rotation_needs_both_keys_witness:
  "\<exists>a d' k r. request_rotation demo_env ''agent-1'' demo_rotation (demo_keyring []) = (Inr a, d') \<and>
    current_artifact_key (demo_keyring []) ''agent-1'' = Some k \<and> artifact_signing_keys d' = [demo_artifact_key] \<and>
    artifact_key_rotations d' = [r] \<and> kr_state r = ROTATION_PENDING \<and> kr_new_public_key r = b64encode (demo_point CHR ''b'')"
proof -
  obtain a d' where run: "request_rotation demo_env ''agent-1'' demo_rotation (demo_keyring []) = (Inr a, d')"
    using demo_rotation_requested by blast
  have "find_rotation (demo_keyring []) ''agent-1'' (rq_request_id demo_rotation) = None" by (simp add: find_rotation_def)
  from rotation_needs_both_keys [OF run this] show ?thesis using run by auto
qed

definition demo_pending :: rotation_row where
  "demo_pending = \<lparr>kr_agent_id = ''agent-1'', kr_request_id = ''r1'', kr_old_key_id = take 16 (demo_point CHR ''a''),
     kr_new_key_id = take 16 (demo_point CHR ''b''), kr_new_public_key = b64encode (demo_point CHR ''b''),
     kr_payload_digest = ''digest'', kr_state = ROTATION_PENDING, kr_created_at = ''2026'', kr_expires_at = demo_expiry,
     kr_approved_by = None, kr_approved_at = None\<rparr>"

lemma demo_pending_simps [simp]:
  "kr_agent_id demo_pending = ''agent-1''" "kr_request_id demo_pending = ''r1''"
  "kr_old_key_id demo_pending = take 16 (demo_point CHR ''a'')" "kr_new_key_id demo_pending = take 16 (demo_point CHR ''b'')"
  "kr_new_public_key demo_pending = b64encode (demo_point CHR ''b'')" "kr_state demo_pending = ROTATION_PENDING"
  "kr_expires_at demo_pending = demo_expiry"
  by (simp_all add: demo_pending_def)

lemma demo_rotation_approved:
  "\<exists>v d'. approve_rotation demo_env ''agent-1'' ''r1'' ''analyst:ana'' (demo_keyring [demo_pending]) = (Inr v, d')"
proof -
  let ?d = "demo_keyring [demo_pending]"
  obtain t where t: "\<And>s :: db. server_time demo_expiry s = (Inr t, s)" "micros demo_now < micros t"
    using demo_expiry_time by blast
  define d1 where "d1 = ?d\<lparr>artifact_signing_keys := [retire_key (iso_now demo_env) demo_artifact_key,
      \<lparr>ak_agent_id = ''agent-1'', ak_host_id = ''host-1'', ak_key_id = take 16 (demo_point CHR ''b''), ak_key_version = 2,
       ak_public_key = b64encode (demo_point CHR ''b''), ak_valid_from = iso_now demo_env, ak_retired_at = None,
       ak_compromised_at = None, ak_compromise_reason = None\<rparr>],
    artifact_key_rotations := [demo_pending\<lparr>kr_state := ROTATION_APPROVED, kr_approved_by := Some ''analyst:ana'',
      kr_approved_at := Some (iso_now demo_env)\<rparr>]\<rparr>"
  obtain d' where r: "record_event demo_env ''artifact_key_rotation_approved'' ''analyst:ana'' (Some ''host-1'') (Some ''r1'')
      [(''old_key_id'', JStr (take 16 (demo_point CHR ''a''))), (''new_key_id'', JStr (take 16 (demo_point CHR ''b'')))] d1 = (Inr (), d')"
    using demo_recorded [of d1 demo_env] unfolding d1_def by simp blast
  show ?thesis
    unfolding approve_rotation_def approve_pending_def
    using demo_new_key t(2)
    by (simp add: find_rotation_def demo_keyring_key bindM_raise_if bindM_Inr [OF t(1)] update_keys_def insert_artifact_key_def
        bindM_assoc artifact_key_conflict_def active_key_def retire_key_def key_frozen_def
        bindM_Inr [where m = "record_event _ _ _ _ _ _", OF r [unfolded d1_def retire_key_def]])
qed

theorem approval_replaces_the_key_witness:
  "\<exists>v d' k'. approve_rotation demo_env ''agent-1'' ''r1'' ''analyst:ana'' (demo_keyring [demo_pending]) = (Inr v, d') \<and>
    current_artifact_key d' ''agent-1'' = Some k' \<and> ak_public_key k' = b64encode (demo_point CHR ''b'') \<and> ak_key_version k' = 2"
proof -
  obtain v d' where run: "approve_rotation demo_env ''agent-1'' ''r1'' ''analyst:ana'' (demo_keyring [demo_pending]) = (Inr v, d')"
    using demo_rotation_approved by blast
  have "find_rotation (demo_keyring [demo_pending]) ''agent-1'' ''r1'' = Some demo_pending" by (simp add: find_rotation_def)
  moreover have "keys_sound (demo_keyring [demo_pending])" by (simp add: keys_sound_def)
  ultimately show ?thesis
    using approval_replaces_the_key [OF run, of demo_pending] run demo_keyring_key [of "[demo_pending]"] by auto
qed

end
