(* ===== verification/ArtifactAccess.thy ===== *)
theory ArtifactAccess
  imports ArtifactKeys
begin

text \<open>
  \<^verbatim>\<open>manager/artifact_access.py\<close> and \<^verbatim>\<open>manager/routers/artifact_access.py\<close>: who may read evidence. A
  role that may read artifacts is not enough: a live grant must name the very credential, the host and the alert.
  Grants are given and revoked under a retry identity and are never deleted.
\<close>

section \<open>Reading is granted\<close>

definition POLICY_VERSION :: int where
  "POLICY_VERSION = 1"

definition live_credential :: "db \<Rightarrow> string \<Rightarrow> analyst_row option" where
  "live_credential d analyst_id =
    List.find (\<lambda>r. ac_analyst_id r = analyst_id \<and> ac_revoked_at r = None) (analyst_credentials d)"

definition reads_artifacts :: "env \<Rightarrow> analyst_row \<Rightarrow> bool" where
  "reads_artifacts e c \<longleftrightarrow> ''artifact:read'' \<in> set (permissions_for e (ac_role c))"

definition grant_for :: "string \<Rightarrow> string \<Rightarrow> string \<Rightarrow> string \<Rightarrow> grant_row \<Rightarrow> bool" where
  "grant_for analyst_id credential host alert g \<longleftrightarrow>
    ag_analyst_id g = analyst_id \<and> ag_credential_digest g = credential \<and> ag_host_id g = host \<and> ag_alert_id g = alert \<and>
    ag_revoked_at g = None"

definition can_read :: "env \<Rightarrow> db \<Rightarrow> string \<Rightarrow> string option \<Rightarrow> string option \<Rightarrow> bool" where
  "can_read e d analyst_id host alert \<longleftrightarrow>
    (case (host, alert) of
       (Some h, Some a) \<Rightarrow>
         analyst_id \<noteq> [] \<and> h \<noteq> [] \<and> a \<noteq> [] \<and>
         (case live_credential d analyst_id of
            None \<Rightarrow> False
          | Some c \<Rightarrow>
              reads_artifacts e c \<and>
              (\<exists>g\<in>set (artifact_access_grants d).
                 grant_for analyst_id (ac_token_digest c) h a g \<and> ag_policy_version g = POLICY_VERSION))
     | _ \<Rightarrow> False)"

definition can_read_command :: "env \<Rightarrow> db \<Rightarrow> string \<Rightarrow> string \<Rightarrow> bool" where
  "can_read_command e d analyst_id command_id \<longleftrightarrow>
    (case find_by cm_command_id command_id (commands d) of
       None \<Rightarrow> False
     | Some c \<Rightarrow> can_read e d analyst_id (jstr (jget ''host_id'' (cm_command_json c))) (cm_alert_id c))"

text \<open>The artifact with the alert of its command and the response that asked for it.\<close>

record held =
  hd_artifact :: artifact_row
  hd_alert_id :: "string option"
  hd_response_id :: "string option"

definition held_artifact :: "db \<Rightarrow> string \<Rightarrow> held option" where
  "held_artifact d artifact_id =
    (case find_by ar_artifact_id artifact_id (response_artifacts d) of
       None \<Rightarrow> None
     | Some a \<Rightarrow>
        (case find_by cm_command_id (ar_command_id a) (commands d) of
           None \<Rightarrow> None
         | Some c \<Rightarrow> Some \<lparr>hd_artifact = a, hd_alert_id = cm_alert_id c,
             hd_response_id = map_option ra_response_id (find_by ra_command_id (Some (cm_command_id c)) (response_actions d))\<rparr>))"

definition require_artifact :: "env \<Rightarrow> string \<Rightarrow> string option \<Rightarrow> (db, string \<times> held) act" where
  "require_artifact e artifact_id authorization =
    bindM (require_analyst_permission e authorization ''artifact:read'') (\<lambda>analyst.
    bindM (gets (\<lambda>d. held_artifact d artifact_id)) (\<lambda>found.
    bindM (require_some found (HTTPException 404 ''artifact unavailable'')) (\<lambda>row.
    bindM (gets (\<lambda>d. can_read e d analyst (Some (ar_host_id (hd_artifact row))) (hd_alert_id row))) (\<lambda>allowed.
    seqM (raise_if (\<not> allowed) (HTTPException 403 ''artifact requires an explicit case and endpoint access grant''))
    (ret (analyst, row))))))"

section \<open>Granting and revoking\<close>

datatype access_kind =
    GrantAccess (grantee: string) (granted_host: string) (granted_alert: string)
  | RevokeAccess string

record access_change =
  ax_request_id :: string
  ax_reason :: string
  ax_kind :: access_kind

text \<open>The bodies \<open>Revoke\<close> and \<open>Grant\<close>.\<close>

definition access_fields :: "jobj \<Rightarrow> (string \<times> string) option" where
  "access_fields body =
    (case (jstr (jget ''request_id'' body), text_field 1 512 ''reason'' body) of
       (Some i, Some r) \<Rightarrow>
         if jget ''schema_version'' body = JStr ''1'' \<and> jget ''policy_version'' body = JInt 1 \<and> id_text i \<and> strip r \<noteq> []
         then Some (i, r) else None
     | _ \<Rightarrow> None)"

definition parse_revoke_access :: "string \<Rightarrow> jobj \<Rightarrow> access_change option" where
  "parse_revoke_access grant_id body =
    (if only_keys [''schema_version'', ''policy_version'', ''request_id'', ''reason''] body
     then map_option (\<lambda>(i, r). \<lparr>ax_request_id = i, ax_reason = r, ax_kind = RevokeAccess grant_id\<rparr>) (access_fields body)
     else None)"

definition parse_grant_access :: "jobj \<Rightarrow> access_change option" where
  "parse_grant_access body =
    (if only_keys [''schema_version'', ''policy_version'', ''request_id'', ''reason'', ''analyst_id'', ''host_id'', ''alert_id''] body
     then (case (access_fields body, text_field 1 128 ''analyst_id'' body, text_field 1 256 ''host_id'' body,
                 text_field 1 128 ''alert_id'' body) of
             (Some (i, r), Some a, Some h, Some l) \<Rightarrow> Some \<lparr>ax_request_id = i, ax_reason = r, ax_kind = GrantAccess a h l\<rparr>
           | _ \<Rightarrow> None)
     else None)"

fun access_operation :: "access_kind \<Rightarrow> string" where
  "access_operation (GrantAccess a h l) = ''grant''"
| "access_operation (RevokeAccess i) = ''revoke''"

fun named_grant :: "access_kind \<Rightarrow> string option" where
  "named_grant (GrantAccess a h l) = None"
| "named_grant (RevokeAccess i) = Some i"

fun named_scope :: "access_kind \<Rightarrow> jobj" where
  "named_scope (GrantAccess a h l) = [(''analyst_id'', JStr a), (''host_id'', JStr h), (''alert_id'', JStr l)]"
| "named_scope (RevokeAccess i) = []"

definition access_digest :: "env \<Rightarrow> access_change \<Rightarrow> string" where
  "access_digest e q =
    sha256 e (canonical (JObj ([(''operation'', JStr (access_operation (ax_kind q))), (''grant_id'', jopt (named_grant (ax_kind q))),
      (''schema_version'', JStr ''1''), (''policy_version'', JInt 1), (''request_id'', JStr (ax_request_id q)),
      (''reason'', JStr (ax_reason q))] @ named_scope (ax_kind q))))"

text \<open>The constraints of \<open>artifact_access_grants\<close>, with its unique index of live grants.\<close>

definition insert_grant :: "grant_row \<Rightarrow> (db, unit) act" where
  "insert_grant g = bindM (gets (\<lambda>d. d)) (\<lambda>d.
     seqM (raise_if
       ((\<exists>x\<in>set (artifact_access_grants d). ag_grant_id x = ag_grant_id g \<or>
           grant_for (ag_analyst_id g) (ag_credential_digest g) (ag_host_id g) (ag_alert_id g) x) \<or>
        ag_analyst_id g \<notin> ac_analyst_id ` set (analyst_credentials d) \<or> ag_alert_id g \<notin> al_alert_id ` set (alerts d) \<or>
        ag_policy_version g \<noteq> 1) IntegrityError)
     (modify (\<lambda>d. d\<lparr>artifact_access_grants := artifact_access_grants d @ [g]\<rparr>)))"

definition give_grant :: "env \<Rightarrow> string \<Rightarrow> string \<Rightarrow> string \<Rightarrow> string \<Rightarrow> string \<Rightarrow> (db, string \<times> bool) act" where
  "give_grant e actor reason analyst_id host alert =
    bindM (gets (\<lambda>d. live_credential d analyst_id)) (\<lambda>found.
    bindM (require_some (case found of Some c \<Rightarrow> if reads_artifacts e c then Some c else None | None \<Rightarrow> None)
             (HTTPException 403 ''recipient is not an active artifact reader'')) (\<lambda>c.
    bindM (gets (\<lambda>d. find_by al_alert_id alert (alerts d))) (\<lambda>case_row.
    seqM (raise_if (case case_row of None \<Rightarrow> True | Some a \<Rightarrow> al_host_id a \<noteq> Some host)
            (HTTPException 403 ''case and endpoint scope do not match''))
    (bindM (gets (\<lambda>d. List.find (grant_for analyst_id (ac_token_digest c) host alert) (artifact_access_grants d))) (\<lambda>existing.
     case existing of
       Some g \<Rightarrow> ret (ag_grant_id g, False)
     | None \<Rightarrow>
         bindM (draw (uuid4 e)) (\<lambda>i.
         seqM (insert_grant \<lparr>ag_grant_id = i, ag_analyst_id = analyst_id, ag_credential_digest = ac_token_digest c,
                 ag_host_id = host, ag_alert_id = alert, ag_policy_version = POLICY_VERSION, ag_granted_by = actor,
                 ag_reason = reason, ag_created_at = iso_now e, ag_revoked_at = None, ag_revoked_by = None,
                 ag_revoke_reason = None\<rparr>)
         (ret (i, True))))))))"

text \<open>The trigger \<open>artifact_access_identity_immutable\<close> lets a grant be revoked once and nothing else.\<close>

definition grant_frozen :: "grant_row \<Rightarrow> grant_row \<Rightarrow> bool" where
  "grant_frozen g g' \<longleftrightarrow>
    ag_grant_id g' = ag_grant_id g \<and> ag_analyst_id g' = ag_analyst_id g \<and> ag_credential_digest g' = ag_credential_digest g \<and>
    ag_host_id g' = ag_host_id g \<and> ag_alert_id g' = ag_alert_id g \<and> ag_policy_version g' = ag_policy_version g \<and>
    ag_granted_by g' = ag_granted_by g \<and> ag_reason g' = ag_reason g \<and> ag_created_at g' = ag_created_at g \<and>
    ag_revoked_at g = None \<and> ag_revoked_at g' \<noteq> None"

definition update_grants :: "(grant_row \<Rightarrow> bool) \<Rightarrow> (grant_row \<Rightarrow> grant_row) \<Rightarrow> (db, unit) act" where
  "update_grants P f = bindM (gets artifact_access_grants) (\<lambda>rows.
     seqM (raise_if (\<exists>g\<in>set rows. P g \<and> \<not> grant_frozen g (f g)) IntegrityError)
     (modify (\<lambda>d. d\<lparr>artifact_access_grants := update_where P f (artifact_access_grants d)\<rparr>)))"

definition take_grant :: "env \<Rightarrow> string \<Rightarrow> string \<Rightarrow> string \<Rightarrow> (db, string \<times> bool) act" where
  "take_grant e actor reason grant_id =
    bindM (gets (\<lambda>d. find_by ag_grant_id grant_id (artifact_access_grants d))) (\<lambda>existing.
    bindM (require_some existing (HTTPException 404 ''artifact access grant unavailable'')) (\<lambda>g.
    if ag_revoked_at g = None
    then seqM (update_grants (\<lambda>x. ag_grant_id x = grant_id)
                (\<lambda>x. x\<lparr>ag_revoked_at := Some (iso_now e), ag_revoked_by := Some actor, ag_revoke_reason := Some reason\<rparr>))
         (ret (grant_id, True))
    else ret (grant_id, False)))"

definition grant_json :: "grant_row \<Rightarrow> jobj" where
  "grant_json g =
    [(''grant_id'', JStr (ag_grant_id g)), (''analyst_id'', JStr (ag_analyst_id g)), (''host_id'', JStr (ag_host_id g)),
     (''alert_id'', JStr (ag_alert_id g)), (''policy_version'', JInt (ag_policy_version g)),
     (''granted_by'', JStr (ag_granted_by g)), (''reason'', JStr (ag_reason g)), (''created_at'', JStr (ag_created_at g)),
     (''revoked_at'', jopt (ag_revoked_at g)), (''revoked_by'', jopt (ag_revoked_by g)),
     (''revoke_reason'', jopt (ag_revoke_reason g))]"

definition insert_access_operation :: "access_operation_row \<Rightarrow> (db, unit) act" where
  "insert_access_operation r = bindM (gets artifact_access_operations) (\<lambda>rows.
     seqM (raise_if (\<exists>x\<in>set rows. ao_actor x = ao_actor r \<and> ao_request_id x = ao_request_id r) IntegrityError)
     (modify (\<lambda>d. d\<lparr>artifact_access_operations := artifact_access_operations d @ [r]\<rparr>)))"

definition change_grant :: "env \<Rightarrow> string \<Rightarrow> access_change \<Rightarrow> (db, string \<times> bool) act" where
  "change_grant e actor q =
    (case ax_kind q of
       GrantAccess a h l \<Rightarrow> give_grant e actor (ax_reason q) a h l
     | RevokeAccess i \<Rightarrow> take_grant e actor (ax_reason q) i)"

definition conclude_access :: "env \<Rightarrow> string \<Rightarrow> access_change \<Rightarrow> string \<times> bool \<Rightarrow> (db, json) act" where
  "conclude_access e actor q = (\<lambda>(grant_id, changed).
    bindM (gets (\<lambda>d. find_by ag_grant_id grant_id (artifact_access_grants d))) (\<lambda>found.
    bindM (require_some found (TypeError ''NoneType'')) (\<lambda>g.
    let result = JObj [(''schema_version'', JStr ''1''), (''grant'', JObj (grant_json g)), (''changed'', JBool changed)] in
    seqM (record_event e (case ax_kind q of GrantAccess _ _ _ \<Rightarrow> ''artifact_access_granted'' | RevokeAccess _ \<Rightarrow> ''artifact_access_revoked'')
            actor (Some (ag_host_id g)) (Some (ax_request_id q))
            [(''grant_id'', JStr grant_id), (''analyst_id'', JStr (ag_analyst_id g)), (''alert_id'', JStr (ag_alert_id g)),
             (''policy_version'', JInt POLICY_VERSION), (''reason'', JStr (ax_reason q)), (''changed'', JBool changed)])
    (seqM (insert_access_operation \<lparr>ao_actor = actor, ao_request_id = ax_request_id q, ao_payload_digest = access_digest e q,
             ao_result_json = result, ao_created_at = iso_now e\<rparr>)
    (ret result)))))"

definition operate :: "env \<Rightarrow> string \<Rightarrow> access_change \<Rightarrow> (db, json) act" where
  "operate e actor q =
    bindM (gets (\<lambda>d. List.find (\<lambda>x. ao_actor x = actor \<and> ao_request_id x = ax_request_id q) (artifact_access_operations d)))
      (\<lambda>previous.
        case previous of
          Some x \<Rightarrow>
            seqM (raise_if (ao_payload_digest x \<noteq> access_digest e q)
                    (HTTPException 409 ''artifact access request ID already used for another payload''))
            (ret (ao_result_json x))
        | None \<Rightarrow> bindM (change_grant e actor q) (conclude_access e actor q))"

section \<open>The requests\<close>

definition access_refusal :: "env \<Rightarrow> string \<Rightarrow> access_change \<Rightarrow> string \<Rightarrow> (db, unit) act" where
  "access_refusal e actor q detail =
    record_event e ''artifact_access_refused'' actor
      (case ax_kind q of GrantAccess a h l \<Rightarrow> Some h | RevokeAccess i \<Rightarrow> None) (Some (ax_request_id q))
      [(''operation'', JStr (access_operation (ax_kind q))), (''grant_id'', jopt (named_grant (ax_kind q))),
       (''policy_version'', JInt 1), (''reason'', JStr detail)]"

definition change_access :: "env \<Rightarrow> access_change option \<Rightarrow> string option \<Rightarrow> (db, json) act" where
  "change_access e request authorization =
    bindM (require_some request ValidationError) (\<lambda>q.
    bindM (as_analyst e authorization ''artifact:scope:manage'') (\<lambda>actor.
    recording_refusals (access_refusal e actor q)
      (seqM (require_analyst_permission e authorization ''artifact:scope:manage'') (operate e actor q))))"

definition grant_access :: "env \<Rightarrow> jobj \<Rightarrow> string option \<Rightarrow> (db, json) act" where
  "grant_access e body authorization = change_access e (parse_grant_access body) authorization"

definition revoke_access :: "env \<Rightarrow> string \<Rightarrow> jobj \<Rightarrow> string option \<Rightarrow> (db, json) act" where
  "revoke_access e grant_id body authorization = change_access e (parse_revoke_access grant_id body) authorization"

definition list_grants ::
  "env \<Rightarrow> string option \<Rightarrow> string option \<Rightarrow> string option \<Rightarrow> int \<Rightarrow> string option \<Rightarrow> (db, grant_row list) act" where
  "list_grants e analyst_id host alert limit authorization =
    seqM (raise_if (limit < 1 \<or> 200 < limit) ValidationError)
    (seqM (require_analyst_permission e authorization ''artifact:scope:manage'')
    (gets (\<lambda>d. take (nat limit) (rev (order_by ag_created_at (order_by ag_grant_id
       (filter (\<lambda>g. (case analyst_id of None \<Rightarrow> True | Some a \<Rightarrow> ag_analyst_id g = a) \<and>
                    (case host of None \<Rightarrow> True | Some h \<Rightarrow> ag_host_id g = h) \<and>
                    (case alert of None \<Rightarrow> True | Some l \<Rightarrow> ag_alert_id g = l)) (artifact_access_grants d))))))))"

section \<open>The contracts\<close>

lemma serves_grants:
  "stays (serves e) (give_grant e actor reason a h l)" "stays (serves e) (take_grant e actor reason i)"
  "stays (serves e) (conclude_access e actor q r)" "stays (serves e) (require_artifact e i auth)"
  unfolding give_grant_def take_grant_def insert_grant_def update_grants_def conclude_access_def insert_access_operation_def Let_def
    require_artifact_def
  by (intro serves.stays_structural serves_writers serves_draw serves_modify serves_checks stays_cases;
      simp add: outside_plane_def tables_same_def)+

lemma serves_access:
  "stays (serves e) (grant_access e body auth)" "stays (serves e) (revoke_access e grant_id body auth)"
  unfolding grant_access_def revoke_access_def change_access_def operate_def change_grant_def access_refusal_def
  by (intro serves.stays_structural serves.stays_recording serves_writers serves_checks stays_cases;
      simp add: serves_grants split: access_kind.split)+

lemma keys_kept_grants:
  "stays keys_kept (give_grant e actor reason a h l)" "stays keys_kept (take_grant e actor reason i)"
  "stays keys_kept (conclude_access e actor q r)" "stays keys_kept (require_artifact e i auth)"
  unfolding give_grant_def take_grant_def insert_grant_def update_grants_def conclude_access_def insert_access_operation_def Let_def
    require_artifact_def
  by (intro keys_kept.stays_structural keys_kept.writers keys_kept_modify keys_kept_checks stays_cases; simp)+

lemma keys_kept_access:
  "stays keys_kept (grant_access e body auth)" "stays keys_kept (revoke_access e grant_id body auth)"
  unfolding grant_access_def revoke_access_def change_access_def operate_def change_grant_def access_refusal_def
  by (intro keys_kept.stays_structural keys_kept.stays_recording keys_kept.writers keys_kept_checks stays_cases;
      simp add: keys_kept_grants split: access_kind.split)+

text \<open>Handling keys and grants leaves the evidence alone.\<close>

definition evidence_same :: "db \<Rightarrow> db \<Rightarrow> bool" where
  "evidence_same d d' \<longleftrightarrow> evidence d' = evidence d"

interpretation evidence_same: blind_frame evidence_same
  by unfold_locales (simp_all add: evidence_same_def evidence_def audit_onlyD)

lemma evidence_same_modify: "(\<And>d. evidence (f d) = evidence d) \<Longrightarrow> stays evidence_same (modify f)"
  by (simp add: stays_def evidence_same_def)

lemma evidence_same_checks:
  "stays evidence_same (require_agent_token e agent_id auth)" "stays evidence_same (require_analyst_permission e auth permission)"
  "stays evidence_same (as_analyst e auth permission)"
  unfolding as_analyst_def
  by (intro evidence_same.stays_structural stays_read [OF checks_change_nothing(1)] stays_read [OF checks_change_nothing(2)]
      evidence_same.R_refl)+

lemma evidence_same_keys:
  "stays evidence_same (update_keys P f)" "stays evidence_same (insert_artifact_key k)" "stays evidence_same (server_time t)"
  unfolding update_keys_def insert_artifact_key_def server_time_def
  by (intro evidence_same.stays_structural evidence_same_modify; simp)+

lemma evidence_same_artifact_keys:
  "stays evidence_same (rotate_key e agent_id body auth)"
  "stays evidence_same (approve_key e agent_id request_id auth)"
  "stays evidence_same (revoke_key e agent_id kid body auth)"
  "stays evidence_same (revoke_enrollment e agent_id body auth)"
  unfolding rotate_key_def approve_key_def revoke_key_def revoke_enrollment_def decide_on_identity_def identity_refusal_def
    request_rotation_def new_rotation_def live_challenge_def spend_challenge_def insert_rotation_def approve_rotation_def
    approve_pending_def identity_operation_def decide_identity_def conclude_identity_def mark_compromised_def revoke_agent_def
    insert_identity_operation_def Let_def
  by (intro evidence_same.stays_structural evidence_same.stays_recording evidence_same.writers evidence_same_checks
      evidence_same_keys evidence_same_modify stays_cases; simp)+

lemma evidence_same_grants:
  "stays evidence_same (give_grant e actor reason a h l)" "stays evidence_same (take_grant e actor reason i)"
  "stays evidence_same (conclude_access e actor q r)" "stays evidence_same (require_artifact e i auth)"
  unfolding give_grant_def take_grant_def insert_grant_def update_grants_def conclude_access_def insert_access_operation_def Let_def
    require_artifact_def
  by (intro evidence_same.stays_structural evidence_same.writers evidence_same_modify evidence_same_checks stays_cases; simp)+

lemma evidence_same_access:
  "stays evidence_same (grant_access e body auth)" "stays evidence_same (revoke_access e grant_id body auth)"
  unfolding grant_access_def revoke_access_def change_access_def operate_def change_grant_def access_refusal_def
  by (intro evidence_same.stays_structural evidence_same.stays_recording evidence_same.writers evidence_same_checks stays_cases;
      simp add: evidence_same_grants split: access_kind.split)+

section \<open>A grant opens one scope, its revocation closes it\<close>

definition grants_sound :: "db \<Rightarrow> bool" where
  "grants_sound d \<longleftrightarrow> distinct (map ag_grant_id (artifact_access_grants d)) \<and>
     sorted_wrt (\<lambda>x g. \<not> (ag_revoked_at x = None \<and>
        grant_for (ag_analyst_id x) (ag_credential_digest x) (ag_host_id x) (ag_alert_id x) g)) (artifact_access_grants d) \<and>
     (\<forall>g\<in>set (artifact_access_grants d). ag_policy_version g = POLICY_VERSION)"

lemma live_grant_unique:
  assumes "grants_sound d" and "x \<in> set (artifact_access_grants d)" and "g \<in> set (artifact_access_grants d)"
    and "grant_for a c h l x" and "grant_for a c h l g"
  shows "x = g"
proof -
  have "ag_revoked_at x = None" "ag_revoked_at g = None"
    "grant_for (ag_analyst_id x) (ag_credential_digest x) (ag_host_id x) (ag_alert_id x) g"
    "grant_for (ag_analyst_id g) (ag_credential_digest g) (ag_host_id g) (ag_alert_id g) x"
    using assms(4,5) by (auto simp: grant_for_def)
  moreover obtain i j where "i < length (artifact_access_grants d)" "j < length (artifact_access_grants d)"
      "x = artifact_access_grants d ! i" "g = artifact_access_grants d ! j"
    using assms(2,3) unfolding in_set_conv_nth by blast
  ultimately show ?thesis
    using assms(1) unfolding grants_sound_def sorted_wrt_iff_nth_less by (metis linorder_neqE_nat)
qed

definition scope_open :: "db \<Rightarrow> string \<Rightarrow> string \<Rightarrow> string \<Rightarrow> string \<Rightarrow> bool" where
  "scope_open d a c h l \<longleftrightarrow> (\<exists>g\<in>set (artifact_access_grants d). grant_for a c h l g)"

lemma can_read_iff:
  assumes "grants_sound d"
  shows "can_read e d a (Some h) (Some l) \<longleftrightarrow> a \<noteq> [] \<and> h \<noteq> [] \<and> l \<noteq> [] \<and>
    (\<exists>c. live_credential d a = Some c \<and> reads_artifacts e c \<and> scope_open d a (ac_token_digest c) h l)"
  using assms by (auto simp: can_read_def scope_open_def grants_sound_def split: option.splits)

lemma grant_sound_insert:
  assumes "insert_grant g d = (Inr u, d')" and "grants_sound d"
  shows "grants_sound d'" and "artifact_access_grants d' = artifact_access_grants d @ [g]" and "analyst_credentials d' = analyst_credentials d"
  using assms unfolding insert_grant_def
  by (auto simp: bindM_raise_if grants_sound_def sorted_wrt_append POLICY_VERSION_def grant_for_def split: if_splits) blast

lemma give_grant_Inr:
  assumes "give_grant e actor reason a h l d = (Inr (i, changed), d')" and "grants_sound d"
  shows "grants_sound d' \<and> analyst_credentials d' = analyst_credentials d \<and>
    (\<exists>c. live_credential d a = Some c \<and> reads_artifacts e c \<and>
      (\<forall>a' c' h' l'. scope_open d' a' c' h' l' \<longleftrightarrow> scope_open d a' c' h' l' \<or> (a', c', h', l') = (a, ac_token_digest c, h, l)))"
proof -
  obtain c where c: "live_credential d a = Some c" "reads_artifacts e c"
    and rest: "(case List.find (grant_for a (ac_token_digest c) h l) (artifact_access_grants d) of
       Some g \<Rightarrow> ret (ag_grant_id g, False)
     | None \<Rightarrow>
         bindM (draw (uuid4 e)) (\<lambda>i.
         seqM (insert_grant \<lparr>ag_grant_id = i, ag_analyst_id = a, ag_credential_digest = ac_token_digest c,
                 ag_host_id = h, ag_alert_id = l, ag_policy_version = POLICY_VERSION, ag_granted_by = actor,
                 ag_reason = reason, ag_created_at = iso_now e, ag_revoked_at = None, ag_revoked_by = None,
                 ag_revoke_reason = None\<rparr>)
         (ret (i, True)))) d = (Inr (i, changed), d')"
    using assms(1) unfolding give_grant_def by (auto simp: bindM_Inr_iff split: option.splits if_splits)
  show ?thesis
  proof (cases "List.find (grant_for a (ac_token_digest c) h l) (artifact_access_grants d)")
    case (Some g)
    then have "scope_open d a (ac_token_digest c) h l" using find_SomeD [OF Some] by (auto simp: scope_open_def)
    then show ?thesis using rest Some c assms(2) by auto
  next
    case None
    let ?d = "d\<lparr>draws := draws d + 1\<rparr>"
    have s: "grants_sound ?d" using assms(2) by (simp add: grants_sound_def)
    obtain u where "insert_grant \<lparr>ag_grant_id = uuid4 e (draws d), ag_analyst_id = a, ag_credential_digest = ac_token_digest c,
                 ag_host_id = h, ag_alert_id = l, ag_policy_version = POLICY_VERSION, ag_granted_by = actor,
                 ag_reason = reason, ag_created_at = iso_now e, ag_revoked_at = None, ag_revoked_by = None,
                 ag_revoke_reason = None\<rparr> ?d = (Inr u, d')"
      using rest None by (auto simp: bindM_Inr_iff draw_def)
    from grant_sound_insert [OF this s] show ?thesis using c by (auto simp: scope_open_def grant_for_def)
  qed
qed

lemma revoked_scope:
  assumes "grants_sound d" and g: "find_by ag_grant_id i (artifact_access_grants d) = Some g" "ag_revoked_at g = None"
    and d': "artifact_access_grants d' = update_where (\<lambda>x. ag_grant_id x = i)
      (\<lambda>x. x\<lparr>ag_revoked_at := Some t, ag_revoked_by := by', ag_revoke_reason := rsn\<rparr>) (artifact_access_grants d)"
  shows "scope_open d' a c h l \<longleftrightarrow> scope_open d a c h l \<and> \<not> grant_for a c h l g"
proof
  assume "scope_open d' a c h l"
  then obtain x where x: "x \<in> set (artifact_access_grants d)" "ag_grant_id x \<noteq> i" "grant_for a c h l x"
    unfolding scope_open_def d' set_update_where by (auto simp: grant_for_def split: if_splits)
  moreover have "g \<in> set (artifact_access_grants d)" "ag_grant_id g = i" using find_by_SomeD [OF g(1)] by auto
  ultimately show "scope_open d a c h l \<and> \<not> grant_for a c h l g"
    using live_grant_unique [OF assms(1), of x g] by (auto simp: scope_open_def)
next
  assume "scope_open d a c h l \<and> \<not> grant_for a c h l g"
  then obtain x where x: "x \<in> set (artifact_access_grants d)" "grant_for a c h l x" "x \<noteq> g" by (auto simp: scope_open_def)
  then have "ag_grant_id x \<noteq> i"
    using find_by_distinct [of ag_grant_id "artifact_access_grants d" x] g(1) assms(1) by (auto simp: grants_sound_def)
  then show "scope_open d' a c h l" using x(1,2) unfolding scope_open_def d' set_update_where by (auto intro!: bexI [of _ x])
qed

lemma sound_after_revocation:
  assumes "grants_sound d"
    and "artifact_access_grants d' = update_where P (\<lambda>x. x\<lparr>ag_revoked_at := Some t, ag_revoked_by := by', ag_revoke_reason := rsn\<rparr>) (artifact_access_grants d)"
  shows "grants_sound d'"
proof -
  let ?f = "\<lambda>x. x\<lparr>ag_revoked_at := Some t, ag_revoked_by := by', ag_revoke_reason := rsn\<rparr>"
  let ?R = "\<lambda>x g. \<not> (ag_revoked_at x = None \<and> grant_for (ag_analyst_id x) (ag_credential_digest x) (ag_host_id x) (ag_alert_id x) g)"
  have "map ag_grant_id (update_where P ?f rows) = map ag_grant_id rows" for rows by (rule map_key_update_where) simp
  moreover have "sorted_wrt ?R rows \<Longrightarrow> sorted_wrt ?R (update_where P ?f rows)" for rows
    by (induction rows) (auto simp: set_update_where grant_for_def)
  ultimately show ?thesis using assms by (auto simp: grants_sound_def set_update_where)
qed

lemma take_grant_Inr:
  assumes "take_grant e actor reason i d = (Inr (j, changed), d')" and "grants_sound d"
  shows "grants_sound d' \<and> analyst_credentials d' = analyst_credentials d \<and>
    (\<exists>g. find_by ag_grant_id i (artifact_access_grants d) = Some g \<and>
      (\<forall>a c h l. scope_open d' a c h l \<longleftrightarrow> scope_open d a c h l \<and> \<not> grant_for a c h l g))"
proof -
  obtain g where g: "find_by ag_grant_id i (artifact_access_grants d) = Some g"
    and rest: "(if ag_revoked_at g = None
      then seqM (update_grants (\<lambda>x. ag_grant_id x = i)
                  (\<lambda>x. x\<lparr>ag_revoked_at := Some (iso_now e), ag_revoked_by := Some actor, ag_revoke_reason := Some reason\<rparr>))
           (ret (i, True))
      else ret (i, False)) d = (Inr (j, changed), d')"
    using assms(1) unfolding take_grant_def by (auto simp: bindM_Inr_iff)
  show ?thesis
  proof (cases "ag_revoked_at g = None")
    case True
    then have d': "artifact_access_grants d' = update_where (\<lambda>x. ag_grant_id x = i)
        (\<lambda>x. x\<lparr>ag_revoked_at := Some (iso_now e), ag_revoked_by := Some actor, ag_revoke_reason := Some reason\<rparr>) (artifact_access_grants d)"
      "analyst_credentials d' = analyst_credentials d"
      using rest by (auto simp: update_grants_def bindM_raise_if bindM_assoc split: if_splits)
    show ?thesis using sound_after_revocation [OF assms(2) d'(1)] revoked_scope [OF assms(2) g True d'(1)] d'(2) g by blast
  next
    case False
    then show ?thesis using rest assms(2) g by (auto simp: grant_for_def)
  qed
qed

text \<open>What is read through grants is untouched by the record of the change.\<close>

definition grants_same :: "db \<Rightarrow> db \<Rightarrow> bool" where
  "grants_same d d' \<longleftrightarrow> artifact_access_grants d' = artifact_access_grants d \<and> analyst_credentials d' = analyst_credentials d"

interpretation grants_same: blind_frame grants_same
  by unfold_locales (auto simp: grants_same_def audit_onlyD)

lemma grants_same_conclude: "stays grants_same (conclude_access e actor q r)"
  unfolding conclude_access_def insert_access_operation_def Let_def
  by (intro grants_same.stays_structural grants_same.writers stays_cases) (simp add: stays_def grants_same_def)

lemma can_read_same: "grants_same d d' \<Longrightarrow> can_read e d' a h l = can_read e d a h l"
  by (simp add: grants_same_def can_read_def live_credential_def cong: option.case_cong)

text \<open>
  C38. A grant opens reading for exactly the analyst, host and alert it names, and revoking it closes exactly what it opened
  and leaves every other reader as before: whoever could read through another grant still can, nobody else can.
\<close>

theorem access_changes_one_scope:
  assumes "operate e actor q d = (Inr v, d')" and "grants_sound d"
    and "\<forall>x\<in>set (artifact_access_operations d). ao_request_id x \<noteq> ax_request_id q"
  shows "grants_sound d' \<and> (case ax_kind q of
      GrantAccess a h l \<Rightarrow>
        (a \<noteq> [] \<and> h \<noteq> [] \<and> l \<noteq> [] \<longrightarrow> can_read e d' a (Some h) (Some l)) \<and>
        (\<forall>a' h' l'. (a', h', l') \<noteq> (a, h, l) \<longrightarrow> can_read e d' a' (Some h') (Some l') = can_read e d a' (Some h') (Some l'))
    | RevokeAccess i \<Rightarrow>
        (\<exists>g. find_by ag_grant_id i (artifact_access_grants d) = Some g \<and>
          (\<forall>a h l. can_read e d' a (Some h) (Some l) \<longleftrightarrow> can_read e d a (Some h) (Some l) \<and>
             \<not> (\<exists>c. live_credential d a = Some c \<and> grant_for a (ac_token_digest c) h l g))))"
proof -
  have "List.find (\<lambda>x. ao_actor x = actor \<and> ao_request_id x = ax_request_id q) (artifact_access_operations d) = None"
    using assms(3) by (auto simp: find_None_iff)
  then obtain i changed d1 where ch: "change_grant e actor q d = (Inr (i, changed), d1)"
    and rest: "conclude_access e actor q (i, changed) d1 = (Inr v, d')"
    using assms(1) unfolding operate_def by (auto simp: bindM_Inr_iff)
  note same = stays_run [OF grants_same_conclude rest]
  have sound: "grants_sound d' = grants_sound d1" using same by (simp add: grants_same_def grants_sound_def)
  show ?thesis
  proof (cases "ax_kind q")
    case (GrantAccess a h l)
    then have "give_grant e actor (ax_reason q) a h l d = (Inr (i, changed), d1)" using ch by (simp add: change_grant_def)
    note g = give_grant_Inr [OF this assms(2)]
    then have cred: "live_credential d1 x = live_credential d x" for x by (simp add: live_credential_def)
    show ?thesis using g cred GrantAccess sound can_read_same [OF same]
      by (auto simp: can_read_iff [OF assms(2)] can_read_iff [of d1])
  next
    case (RevokeAccess j)
    then have "take_grant e actor (ax_reason q) j d = (Inr (i, changed), d1)" using ch by (simp add: change_grant_def)
    note g = take_grant_Inr [OF this assms(2)]
    then have cred: "live_credential d1 x = live_credential d x" for x by (simp add: live_credential_def)
    show ?thesis using g cred RevokeAccess sound can_read_same [OF same]
      by (auto simp: can_read_iff [OF assms(2)] can_read_iff [of d1])
  qed
qed

text \<open>An administrator gives an analyst the case of one alert.\<close>

definition access_env :: env where
  "access_env = demo_env\<lparr>permissions_for := (\<lambda>r. [''artifact:read'', ''artifact:scope:manage''])\<rparr>"

definition demo_case :: db where
  "demo_case = empty_db\<lparr>analyst_credentials := [demo_analyst ''ana'' ''tok'' ''analyst''], alerts := [demo_alert ''a1'']\<rparr>"

lemma demo_case_simps [simp]:
  "analyst_credentials demo_case = [demo_analyst ''ana'' ''tok'' ''analyst'']" "alerts demo_case = [demo_alert ''a1'']"
  "artifact_access_grants demo_case = []" "artifact_access_operations demo_case = []" "draws demo_case = 0"
  "response_audit_ledger demo_case = []" "command_audit demo_case = []" "response_decision_audit demo_case = []"
  "response_artifact_custody demo_case = []" "response_security_audit demo_case = []"
  by (simp_all add: demo_case_def)

definition demo_grant :: access_change where
  "demo_grant = \<lparr>ax_request_id = ''q1'', ax_reason = ''case work'', ax_kind = GrantAccess ''ana'' ''host-1'' ''a1''\<rparr>"

lemma demo_granted: "\<exists>v d'. operate access_env ''analyst:adm'' demo_grant demo_case = (Inr v, d')"
proof -
  let ?g = "\<lparr>ag_grant_id = ''u0'', ag_analyst_id = ''ana'', ag_credential_digest = ''tok'', ag_host_id = ''host-1'', ag_alert_id = ''a1'',
     ag_policy_version = POLICY_VERSION, ag_granted_by = ''analyst:adm'', ag_reason = ''case work'', ag_created_at = iso_now access_env,
     ag_revoked_at = None, ag_revoked_by = None, ag_revoke_reason = None\<rparr>"
  define d1 where "d1 = demo_case\<lparr>draws := Suc 0, artifact_access_grants := [?g]\<rparr>"
  have u: "uuid4 access_env 0 = ''u0''" by (simp add: access_env_def) code_simp
  have cred: "live_credential demo_case ''ana'' = Some (demo_analyst ''ana'' ''tok'' ''analyst'')" by (simp add: live_credential_def)
  have reads: "reads_artifacts access_env r" for r by (simp add: reads_artifacts_def access_env_def)
  have ch: "change_grant access_env ''analyst:adm'' demo_grant demo_case = (Inr (''u0'', True), d1)"
    by (simp add: change_grant_def demo_grant_def give_grant_def cred reads demo_alert_def bindM_raise_if insert_grant_def
        bindM_assoc u d1_def POLICY_VERSION_def)
  obtain d2 where r: "record_event access_env ''artifact_access_granted'' ''analyst:adm'' (Some ''host-1'') (Some ''q1'')
      [(''grant_id'', JStr ''u0''), (''analyst_id'', JStr ''ana''), (''alert_id'', JStr ''a1''), (''policy_version'', JInt POLICY_VERSION),
       (''reason'', JStr ''case work''), (''changed'', JBool True)] d1 = (Inr (), d2)"
    using demo_recorded [of d1 access_env] unfolding d1_def by simp blast
  have "artifact_access_operations d2 = []" using audit_onlyD(31) [OF stays_run [OF audit_only_writers(4) r]] by (simp add: d1_def)
  moreover have "artifact_access_grants d1 = [?g]" by (simp add: d1_def)
  ultimately have "\<exists>v d'. conclude_access access_env ''analyst:adm'' demo_grant (''u0'', True) d1 = (Inr v, d')"
    by (simp add: conclude_access_def demo_grant_def Let_def insert_access_operation_def bindM_assoc bindM_raise_if
        bindM_Inr [where m = "record_event _ _ _ _ _ _", OF r])
  then show ?thesis by (simp add: operate_def bindM_Inr [where m = "change_grant _ _ _", OF ch])
qed

theorem access_changes_one_scope_witness:
  "\<not> can_read access_env demo_case ''ana'' (Some ''host-1'') (Some ''a1'') \<and>
   (\<exists>v d'. operate access_env ''analyst:adm'' demo_grant demo_case = (Inr v, d') \<and>
      can_read access_env d' ''ana'' (Some ''host-1'') (Some ''a1''))"
proof -
  obtain v d' where run: "operate access_env ''analyst:adm'' demo_grant demo_case = (Inr v, d')" using demo_granted by blast
  have "grants_sound demo_case" by (simp add: grants_sound_def)
  from access_changes_one_scope [OF run this]
  have "can_read access_env d' ''ana'' (Some ''host-1'') (Some ''a1'')" by (simp add: demo_grant_def)
  moreover have "\<not> can_read access_env demo_case ''ana'' (Some ''host-1'') (Some ''a1'')"
    by (simp add: can_read_def split: option.split)
  ultimately show ?thesis using run by blast
qed

end
