(* ===== verification/Artifacts.thy ===== *)
theory Artifacts
  imports ArtifactAccess
begin

text \<open>
  \<^verbatim>\<open>manager/response_artifacts.py\<close>: the evidence store. An upload is decoded and bound to the delivered command
  it answers, checked against the quotas and kept for good together with the attestation of its signed manifest and
  the custody events of its arrival. With it \<open>validate_retained_manifest\<close> of \<^verbatim>\<open>manager/forensic_context.py\<close>.
\<close>

section \<open>Uploads\<close>

definition MAX_CONTENT :: int where
  "MAX_CONTENT = 1024 * 1024"

definition MAX_BODY :: int where
  "MAX_BODY = 1500 * 1024"

definition MAX_COMMAND_BYTES :: int where
  "MAX_COMMAND_BYTES = 4 * MAX_CONTENT"

definition MAX_COMMAND_COUNT :: int where
  "MAX_COMMAND_COUNT = 8"

definition MAX_GLOBAL_BYTES :: int where
  "MAX_GLOBAL_BYTES = 512 * MAX_CONTENT"

definition MAX_GLOBAL_COUNT :: int where
  "MAX_GLOBAL_COUNT = 100000"

definition KINDS :: "(string \<times> string) list" where
  "KINDS = [(''process_snapshot'', ''COLLECT_PROCESS_INFO''), (''network_snapshot'', ''COLLECT_NETWORK_CONNECTIONS''),
     (''file_metadata'', ''COLLECT_FILE'')]"

record artifact_upload =
  up_artifact_id :: string
  up_command_id :: string
  up_correlation_id :: string
  up_host_id :: string
  up_kind :: string
  up_media_type :: string
  up_content_bytes :: int
  up_sha256 :: string
  up_content_base64 :: string

definition artifact_id_text :: "string \<Rightarrow> bool" where
  "artifact_id_text t \<longleftrightarrow> starts_with ''art_'' t \<and> hex_text 64 (drop 4 t)"

definition bytes_field :: "jobj \<Rightarrow> int option" where
  "bytes_field body = (case jget ''content_bytes'' body of JInt n \<Rightarrow> if 1 \<le> n \<and> n \<le> MAX_CONTENT then Some n else None | _ \<Rightarrow> None)"

definition parse_artifact_upload :: "jobj \<Rightarrow> artifact_upload option" where
  "parse_artifact_upload body =
    (if only_keys [''schema_version'', ''artifact_id'', ''command_id'', ''correlation_id'', ''host_id'', ''kind'', ''media_type'',
          ''content_bytes'', ''sha256'', ''content_base64''] body \<and>
        jget ''schema_version'' body = JStr ''1'' \<and> jget ''media_type'' body = JStr ''application/json''
     then (case (jstr (jget ''artifact_id'' body), text_field 1 128 ''command_id'' body, text_field 1 128 ''correlation_id'' body,
                 text_field 1 256 ''host_id'' body, jstr (jget ''kind'' body), bytes_field body, jstr (jget ''sha256'' body),
                 text_field 4 1398104 ''content_base64'' body) of
             (Some i, Some c, Some r, Some h, Some k, Some n, Some s, Some b) \<Rightarrow>
               if artifact_id_text i \<and> hex_text 64 s \<and> k \<in> {''process_snapshot'', ''network_snapshot'', ''file_metadata'', ''execution_report''}
               then Some \<lparr>up_artifact_id = i, up_command_id = c, up_correlation_id = r, up_host_id = h, up_kind = k,
                          up_media_type = ''application/json'', up_content_bytes = n, up_sha256 = s, up_content_base64 = b\<rparr>
               else None
           | _ \<Rightarrow> None)
     else None)"

text \<open>\<open>model_dump(exclude={"content_base64"})\<close>.\<close>

definition upload_dump :: "artifact_upload \<Rightarrow> jobj" where
  "upload_dump u =
    [(''schema_version'', JStr ''1''), (''artifact_id'', JStr (up_artifact_id u)), (''command_id'', JStr (up_command_id u)),
     (''correlation_id'', JStr (up_correlation_id u)), (''host_id'', JStr (up_host_id u)), (''kind'', JStr (up_kind u)),
     (''media_type'', JStr (up_media_type u)), (''content_bytes'', JInt (up_content_bytes u)), (''sha256'', JStr (up_sha256 u))]"

text \<open>The body \<open>SignedArtifactUpload\<close>.\<close>

definition parse_signed_upload :: "env \<Rightarrow> json \<Rightarrow> (manifest \<times> string) option" where
  "parse_signed_upload e v =
    (case v of
       JObj body \<Rightarrow>
         if only_keys [''manifest'', ''content_base64''] body \<and> has_key ''manifest'' body
         then (case (make_manifest e (jget ''manifest'' body), text_field 4 1398104 ''content_base64'' body) of
                 (Some m, Some b) \<Rightarrow> Some (m, b) | _ \<Rightarrow> None)
         else None
     | _ \<Rightarrow> None)"

section \<open>Decoding\<close>

text \<open>
  \<open>math.isfinite\<close> on a number as it is written: the decimal rounds to a finite double exactly when its magnitude is
  below \<open>2 ^ 1024 - 2 ^ 970\<close>, the midpoint between the largest double and the next power of two.
\<close>

definition DOUBLE_LIMIT :: nat where
  "DOUBLE_LIMIT = 2 ^ 1024 - 2 ^ 970"

definition exponent_of :: "string \<Rightarrow> int" where
  "exponent_of ep =
    (case ep of [] \<Rightarrow> 0
     | c # r \<Rightarrow> if r \<noteq> [] \<and> hd r = CHR ''-'' then - int (str_nat (tl r))
               else if r \<noteq> [] \<and> hd r = CHR ''+'' then int (str_nat (tl r)) else int (str_nat r))"

definition finite_float :: "string \<Rightarrow> bool" where
  "finite_float t =
    (let u = (if t \<noteq> [] \<and> hd t = CHR ''-'' then tl t else t); ip = int_digits u; t1 = drop (length ip) u; fp = frac_digits t1;
         t2 = (if fp = [] then t1 else drop (Suc (length fp)) t1); m = str_nat (ip @ fp);
         k = exponent_of (exp_text t2) - int (length fp)
     in if 0 \<le> k then m * 10 ^ nat k < DOUBLE_LIMIT else m < DOUBLE_LIMIT * 10 ^ nat (- k))"

text \<open>The loop over \<open>pending\<close>: no value more than \<open>n\<close> levels below, no infinite number.\<close>

fun bounded_json :: "nat \<Rightarrow> json \<Rightarrow> bool" and bounded_list :: "nat \<Rightarrow> json list \<Rightarrow> bool" and bounded_obj :: "nat \<Rightarrow> jobj \<Rightarrow> bool" where
  "bounded_json n (JFloat t) = finite_float t"
| "bounded_json n (JArr xs) = bounded_list n xs"
| "bounded_json n (JObj d) = bounded_obj n d"
| "bounded_json n JNull = True"
| "bounded_json n (JBool b) = True"
| "bounded_json n (JInt i) = True"
| "bounded_json n (JStr t) = True"
| "bounded_list n [] = True"
| "bounded_list n (x # xs) = (n \<noteq> 0 \<and> bounded_json (n - 1) x \<and> bounded_list n xs)"
| "bounded_obj n [] = True"
| "bounded_obj n ((k, v) # d) = (n \<noteq> 0 \<and> bounded_json (n - 1) v \<and> bounded_obj n d)"

definition evidence_json :: "string \<Rightarrow> bool" where
  "evidence_json content \<longleftrightarrow>
    valid_utf8 content \<and>
    (case strict_json content of
       Some (JArr xs) \<Rightarrow> bounded_json 32 (JArr xs)
     | Some (JObj d) \<Rightarrow> bounded_json 32 (JObj d)
     | _ \<Rightarrow> False)"

definition decoded_content :: "env \<Rightarrow> artifact_upload \<Rightarrow> (db, string) act" where
  "decoded_content e u =
    require_some
      (case b64decode (up_content_base64 u) of
         None \<Rightarrow> None
       | Some content \<Rightarrow>
           if int (length content) = up_content_bytes u \<and> sha256 e content = up_sha256 u \<and> evidence_json content
           then Some content else None)
      (HTTPException 422 ''invalid artifact bytes, digest or bounded JSON'')"

section \<open>The command an artifact answers\<close>

definition unowned :: exn where
  "unowned = HTTPException 404 ''no owned dispatched command''"

definition command_field :: "string \<Rightarrow> jobj \<Rightarrow> ('s, json) act" where
  "command_field k c = require_some (map_of c k) (KeyError k)"

text \<open>The correlation and the kind; \<open>or\<close> leaves the second lookup out once the first comparison decided.\<close>

definition check_correlation :: "jobj \<Rightarrow> string \<Rightarrow> string \<Rightarrow> string \<Rightarrow> ('s, unit) act" where
  "check_correlation c command_id claimed_command correlation =
    (if claimed_command \<noteq> command_id then throw (HTTPException 409 ''artifact command correlation disagrees'')
     else bindM (command_field ''correlation_id'' c) (\<lambda>v.
          raise_if (JStr correlation \<noteq> v) (HTTPException 409 ''artifact command correlation disagrees'')))"

definition check_kind :: "jobj \<Rightarrow> string \<Rightarrow> ('s, unit) act" where
  "check_kind c kind =
    (case map_of KINDS kind of
       Some expected \<Rightarrow>
         bindM (command_field ''action'' c) (\<lambda>v.
         raise_if (v \<noteq> JStr expected) (HTTPException 422 ''artifact kind does not belong to this collection action''))
     | None \<Rightarrow>
         if kind = ''execution_report''
         then bindM (command_field ''action'' c) (\<lambda>v.
              raise_if (v \<notin> (\<lambda>p. JStr (snd p)) ` set KINDS)
                (HTTPException 422 ''artifact kind does not belong to this collection action''))
         else ret ())"

definition validate_binding :: "string \<Rightarrow> string \<Rightarrow> string \<Rightarrow> string \<Rightarrow> string \<Rightarrow> string \<Rightarrow> (db, jobj) act" where
  "validate_binding agent_id command_id host claimed_command correlation kind =
    bindM (gets (\<lambda>d. find_by cm_command_id command_id (commands d))) (\<lambda>row.
    bindM (require_some row unowned) (\<lambda>c.
    bindM (gets (\<lambda>d. active_agent d (cm_agent_id c))) (\<lambda>owner.
    bindM (require_some owner unowned) (\<lambda>a.
    seqM (raise_if (cm_agent_id c \<noteq> agent_id) unowned)
    (seqM (raise_if (cm_delivered_at c = None) (HTTPException 409 ''command has not been dispatched''))
    (seqM (raise_if (host \<noteq> ea_host_id a \<or> JStr host \<noteq> jget ''host_id'' (cm_command_json c))
            (HTTPException 403 ''artifact host disagrees with current command enrollment''))
    (seqM (check_correlation (cm_command_json c) command_id claimed_command correlation)
    (seqM (check_kind (cm_command_json c) kind)
    (ret (cm_command_json c))))))))))"

section \<open>Quotas\<close>

definition storage_quota :: "env \<Rightarrow> ('s, int) act" where
  "storage_quota e =
    bindM (require_some (case environ e ''PANOPTICON_ARTIFACT_STORAGE_BYTES'' of None \<Rightarrow> Some MAX_GLOBAL_BYTES | Some t \<Rightarrow> py_int t)
             (HTTPException 503 ''artifact storage quota is invalid'')) (\<lambda>quota.
    seqM (raise_if (quota < 1 \<or> 16 * 1024 ^ 3 < quota) (HTTPException 503 ''artifact storage quota is invalid''))
    (ret quota))"

definition open_session :: "transfer_row \<Rightarrow> bool" where
  "open_session t \<longleftrightarrow> tf_state t = SESSION_OPEN"

text \<open>Count and bytes of a command: what it retains and what its open sessions reserve.\<close>

definition command_artifacts :: "db \<Rightarrow> string \<Rightarrow> artifact_row list" where
  "command_artifacts d command_id = filter (\<lambda>a. ar_command_id a = command_id) (response_artifacts d)"

definition command_sessions :: "db \<Rightarrow> string \<Rightarrow> transfer_row list" where
  "command_sessions d command_id = filter (\<lambda>t. tf_command_id t = command_id \<and> open_session t) (response_artifact_transfers d)"

definition command_count :: "db \<Rightarrow> string \<Rightarrow> int" where
  "command_count d command_id = int (length (command_artifacts d command_id)) + int (length (command_sessions d command_id))"

definition command_bytes :: "db \<Rightarrow> string \<Rightarrow> int" where
  "command_bytes d command_id =
    sum_list (map ar_content_bytes (command_artifacts d command_id)) + sum_list (map tf_content_bytes (command_sessions d command_id))"

definition used_count :: "db \<Rightarrow> int" where
  "used_count d = au_artifacts (response_artifact_usage d) + tu_open_sessions (response_artifact_transfer_usage d)"

definition used_bytes :: "db \<Rightarrow> int" where
  "used_bytes d = au_content_bytes (response_artifact_usage d) + tu_reserved_bytes (response_artifact_transfer_usage d)"

definition check_quota :: "env \<Rightarrow> string \<Rightarrow> int \<Rightarrow> exn \<Rightarrow> (db, unit) act" where
  "check_quota e command_id n x =
    bindM (gets (\<lambda>d. command_count d command_id \<ge> MAX_COMMAND_COUNT \<or> command_bytes d command_id + n > MAX_COMMAND_BYTES \<or>
                     used_count d \<ge> MAX_GLOBAL_COUNT)) (\<lambda>full.
    seqM (raise_if full x)
    (bindM (gets used_bytes) (\<lambda>used.
     bindM (storage_quota e) (\<lambda>quota.
     raise_if (used + n > quota) x))))"

section \<open>Retaining\<close>

text \<open>\<open>INSERT INTO response_artifacts\<close> with its trigger \<open>response_artifact_usage_insert\<close>.\<close>

definition insert_artifact :: "artifact_row \<Rightarrow> (db, unit) act" where
  "insert_artifact a = bindM (gets (\<lambda>d. d)) (\<lambda>d.
     seqM (raise_if (ar_artifact_id a \<in> ar_artifact_id ` set (response_artifacts d) \<or>
                     ar_command_id a \<notin> cm_command_id ` set (commands d)) IntegrityError)
     (modify (\<lambda>d. d\<lparr>response_artifacts := response_artifacts d @ [a],
        response_artifact_usage :=
          \<lparr>au_content_bytes = au_content_bytes (response_artifact_usage d) + ar_content_bytes a,
           au_artifacts = au_artifacts (response_artifact_usage d) + 1\<rparr>\<rparr>)))"

definition receipt :: "artifact_upload \<Rightarrow> jobj" where
  "receipt u = [(''artifact_id'', JStr (up_artifact_id u)), (''sha256'', JStr (up_sha256 u)), (''retained'', JBool True)]"

definition artifact_of :: "env \<Rightarrow> string \<Rightarrow> string \<Rightarrow> artifact_upload \<Rightarrow> string \<Rightarrow> artifact_row" where
  "artifact_of e agent_id command_id u content =
    \<lparr>ar_artifact_id = up_artifact_id u, ar_agent_id = agent_id, ar_command_id = command_id, ar_host_id = up_host_id u,
     ar_correlation_id = up_correlation_id u, ar_kind = up_kind u, ar_media_type = up_media_type u,
     ar_content_bytes = up_content_bytes u, ar_sha256 = up_sha256 u,
     ar_manifest_digest = sha256 e (canonical (JObj (upload_dump u))), ar_content = content, ar_received_at = iso_now e\<rparr>"

definition retain_new :: "env \<Rightarrow> string \<Rightarrow> string \<Rightarrow> artifact_upload \<Rightarrow> string \<Rightarrow> (db, jobj) act" where
  "retain_new e agent_id command_id u content =
    seqM (check_quota e command_id (int (length content))
            (HTTPException 507 ''artifact retention quota reached; existing evidence preserved''))
    (seqM (insert_artifact (artifact_of e agent_id command_id u content))
    (seqM (custody_event e (up_artifact_id u) ''received'' (''agent:'' @ agent_id)
             [(''command_id'', JStr command_id), (''sha256'', JStr (up_sha256 u)), (''content_bytes'', JInt (int (length content)))])
    (ret (receipt u))))"

text \<open>The same evidence again is acknowledged again.\<close>

definition retain_once :: "env \<Rightarrow> string \<Rightarrow> string \<Rightarrow> artifact_upload \<Rightarrow> string \<Rightarrow> (db, jobj) act" where
  "retain_once e agent_id command_id u content =
    bindM (gets (\<lambda>d. find_by ar_artifact_id (up_artifact_id u) (response_artifacts d))) (\<lambda>prior.
      case prior of
        Some a \<Rightarrow>
          seqM (raise_if (ar_manifest_digest a \<noteq> sha256 e (canonical (JObj (upload_dump u))) \<or> ar_content a \<noteq> content)
                  (HTTPException 409 ''artifact identifier already binds different evidence''))
          (ret (receipt u))
      | None \<Rightarrow> retain_new e agent_id command_id u content)"

definition retain :: "env \<Rightarrow> string \<Rightarrow> string \<Rightarrow> artifact_upload \<Rightarrow> string \<Rightarrow> (db, jobj) act" where
  "retain e agent_id command_id u content =
    seqM (validate_binding agent_id command_id (up_host_id u) (up_command_id u) (up_correlation_id u) (up_kind u))
    (bindM (gets (\<lambda>d. \<exists>t\<in>set (response_artifact_transfers d). tf_artifact_id t = up_artifact_id u \<and> open_session t)) (\<lambda>admitted.
     seqM (raise_if admitted (HTTPException 409 ''finish the admitted artifact through its transfer session''))
     (retain_once e agent_id command_id u content)))"

section \<open>Signed evidence\<close>

definition insert_attestation :: "attestation_row \<Rightarrow> (db, unit) act" where
  "insert_attestation a = bindM (gets (\<lambda>d. d)) (\<lambda>d.
     seqM (raise_if (at_artifact_id a \<in> at_artifact_id ` set (artifact_manifest_attestations d) \<or>
                     at_artifact_id a \<notin> ar_artifact_id ` set (response_artifacts d) \<or>
                     (\<forall>k\<in>set (artifact_signing_keys d). ak_agent_id k \<noteq> at_agent_id a \<or> ak_key_id k \<noteq> at_key_id a)) IntegrityError)
     (modify (\<lambda>d. d\<lparr>artifact_manifest_attestations := artifact_manifest_attestations d @ [a]\<rparr>)))"

text \<open>
  \<open>forensic_context.validate_retained_manifest\<close>: whether the metadata was validated (it does not apply to execution
  reports and to commands that collect nothing).
\<close>

definition validate_retained_manifest :: "env \<Rightarrow> manifest \<Rightarrow> string \<Rightarrow> (db, bool) act" where
  "validate_retained_manifest e m command_id =
    bindM (gets (\<lambda>d. find_by cm_command_id command_id (commands d))) (\<lambda>row.
    bindM (require_some row (HTTPException 422 ''evidence command is not retained'')) (\<lambda>c.
    bindM (command_field ''action'' (cm_command_json c)) (\<lambda>action.
    if action \<notin> JStr ` set (collect_actions e) \<or> mf_kind m = ''execution_report'' then ret False
    else
      bindM (command_field ''host_id'' (cm_command_json c)) (\<lambda>host.
      bindM (command_field ''correlation_id'' (cm_command_json c)) (\<lambda>correlation.
      seqM (raise_if (\<not> evidence_matches e (dump_manifest m) action (cm_agent_id c) host command_id correlation)
              (HTTPException 422 ''forensic evidence metadata does not match retained command''))
      (ret True))))))"

text \<open>The fields of the manifest that make up the upload, with its content.\<close>

definition upload_of :: "manifest \<Rightarrow> string \<Rightarrow> artifact_upload option" where
  "upload_of m content_base64 =
    parse_artifact_upload (jupdate
      (filter (\<lambda>(k, v). k \<notin> {''agent_id'', ''produced_at_unix'', ''authorization''}) (dump_manifest m))
      [(''schema_version'', JStr ''1''), (''content_base64'', JStr content_base64)])"

definition request_of_command :: "db \<Rightarrow> string \<Rightarrow> string option" where
  "request_of_command d command_id = map_option ra_response_id (find_by ra_command_id (Some command_id) (response_actions d))"

definition attest :: "env \<Rightarrow> string \<Rightarrow> string \<Rightarrow> manifest \<Rightarrow> artifact_key_row \<Rightarrow> int \<Rightarrow> bool \<Rightarrow> (db, unit) act" where
  "attest e agent_id command_id m k n forensic =
    seqM (insert_attestation \<lparr>at_artifact_id = mf_artifact_id m, at_agent_id = agent_id, at_key_id = ak_key_id k,
            at_key_version = ak_key_version k, at_manifest_json = canonical (JObj (dump_manifest m)), at_verified_at = iso_now e\<rparr>)
    (seqM (custody_event e (mf_artifact_id m) ''artifact_produced'' (''agent:'' @ agent_id)
             [(''produced_at_unix'', mf_produced_at_unix m), (''time_source'', JStr ''endpoint_claim'')])
    (seqM (custody_event e (mf_artifact_id m) ''artifact_transferred'' ''system:artifact-store'' [(''content_bytes'', JInt n)])
    (seqM (custody_event e (mf_artifact_id m) ''artifact_signature_verified'' ''system:artifact-verifier''
             [(''key_id'', JStr (ak_key_id k)), (''key_version'', JInt (ak_key_version k)),
              (''manifest_sha256'', JStr (sha256 e (canonical (JObj (dump_manifest m)))))])
    (seqM (custody_event e (mf_artifact_id m) ''artifact_hash_verified'' ''system:artifact-verifier'' [(''sha256'', JStr (mf_sha256 m))])
    (if forensic
     then bindM (gets (\<lambda>d. request_of_command d command_id)) (\<lambda>request.
          record_event e ''forensic_metadata_validated'' ''system:artifact-verifier'' (Some (mf_host_id m)) request
            [(''artifact_id'', JStr (mf_artifact_id m)), (''command_id'', JStr command_id), (''schema_version'', JStr ''1''),
             (''sha256'', JStr (mf_sha256 m))])
     else ret ())))))"

definition retain_signed :: "env \<Rightarrow> string \<Rightarrow> string \<Rightarrow> manifest \<Rightarrow> string \<Rightarrow> string option \<Rightarrow> (db, jobj) act" where
  "retain_signed e agent_id command_id m content_base64 admitted_at =
    bindM (gets (\<lambda>d. find_by at_artifact_id (mf_artifact_id m) (artifact_manifest_attestations d))) (\<lambda>previous.
    seqM (raise_if (case previous of None \<Rightarrow> False | Some p \<Rightarrow> at_manifest_json p \<noteq> canonical (JObj (dump_manifest m)))
            (HTTPException 409 ''artifact identity already binds another signed manifest''))
    (bindM (gets (\<lambda>d. mf_artifact_id m \<in> ar_artifact_id ` set (response_artifacts d))) (\<lambda>held.
     seqM (raise_if (previous = None \<and> held)
             (HTTPException 409 ''unsigned legacy evidence cannot be promoted to signed provenance''))
     (bindM (verify_manifest e agent_id m (case previous of Some p \<Rightarrow> Some (at_verified_at p) | None \<Rightarrow> admitted_at)) (\<lambda>k.
      bindM (require_some (upload_of m content_base64) ValidationError) (\<lambda>u.
      bindM (decoded_content e u) (\<lambda>content.
      bindM (retain e agent_id command_id u content) (\<lambda>kept.
      bindM (validate_retained_manifest e m command_id) (\<lambda>forensic.
      if previous \<noteq> None then ret kept
      else seqM (attest e agent_id command_id m k (int (length content)) forensic) (ret kept))))))))))"

section \<open>Reading the store\<close>

definition custody_rows :: "db \<Rightarrow> string \<Rightarrow> int \<Rightarrow> nat \<Rightarrow> custody_row list" where
  "custody_rows d artifact_id after limit =
    take limit (order_by cu_sequence
      (filter (\<lambda>r. cu_artifact_id r = artifact_id \<and> after < cu_sequence r) (response_artifact_custody d)))"

record artifact_view =
  av_artifact :: artifact_row
  av_signing :: "(attestation_row \<times> artifact_key_row) option"
  av_custody_count :: int
  av_custody_head :: "string option"
  av_custody :: "custody_row list"
  av_custody_truncated :: bool

definition view_artifact :: "db \<Rightarrow> bool \<Rightarrow> artifact_row \<Rightarrow> artifact_view" where
  "view_artifact d full_history a =
    (let head = custody_head (response_artifact_custody d) (ar_artifact_id a);
         count = (case head of None \<Rightarrow> 0 | Some h \<Rightarrow> cu_sequence h);
         rows = custody_rows d (ar_artifact_id a) 0 (if full_history then nat count else 20)
     in \<lparr>av_artifact = a, av_signing = retained_status d (ar_artifact_id a), av_custody_count = count,
         av_custody_head = map_option cu_event_hash head, av_custody = rows, av_custody_truncated = int (length rows) < count\<rparr>)"

definition manifests :: "db \<Rightarrow> string \<Rightarrow> bool \<Rightarrow> artifact_view list" where
  "manifests d command_id full_history =
    map (view_artifact d full_history)
      (order_by ar_received_at (order_by ar_artifact_id (command_artifacts d command_id)))"

section \<open>The contracts\<close>

context frame
begin

lemma stays_recording_committed:
  assumes "\<And>t. yields R (record t)" and "yields R m"
  shows "stays R (recording_refusals record m)"
  unfolding recording_refusals_def using assms
  by (intro stays_tryM stays_committed) (auto intro!: stays_throw stays_bindM stays_committed split: exn.split)

end

lemma serves_binding:
  "stays (serves e) (validate_binding agent_id command_id host claimed correlation kind)"
  "stays (serves e) (validate_retained_manifest e' m command_id)"
  "stays (serves e) (verify_manifest e' agent_id m admitted)"
  "stays (serves e) (decoded_content e' u)"
  "stays (serves e) (check_quota e' command_id n x)"
  unfolding validate_binding_def check_correlation_def check_kind_def command_field_def validate_retained_manifest_def
    verify_manifest_def verify_as_def retired_before_def decoded_content_def check_quota_def storage_quota_def
  by (intro serves.stays_structural serves_server_time stays_cases)+

lemma serves_retain_signed: "stays (serves e) (retain_signed e agent_id command_id m b admitted)"
  unfolding retain_signed_def retain_def retain_once_def retain_new_def attest_def insert_artifact_def insert_attestation_def
  by (intro serves.stays_structural serves_writers serves_binding serves_modify stays_cases; simp add: outside_plane_def tables_same_def)

lemma keys_kept_binding:
  "stays keys_kept (validate_binding agent_id command_id host claimed correlation kind)"
  "stays keys_kept (validate_retained_manifest e' m command_id)"
  "stays keys_kept (verify_manifest e' agent_id m admitted)"
  "stays keys_kept (decoded_content e' u)"
  "stays keys_kept (check_quota e' command_id n x)"
  unfolding validate_binding_def check_correlation_def check_kind_def command_field_def validate_retained_manifest_def
    verify_manifest_def verify_as_def retired_before_def server_time_def decoded_content_def check_quota_def storage_quota_def
  by (intro keys_kept.stays_structural stays_cases)+

lemma keys_kept_retain_signed: "stays keys_kept (retain_signed e agent_id command_id m b admitted)"
  unfolding retain_signed_def retain_def retain_once_def retain_new_def attest_def insert_artifact_def insert_attestation_def
  by (intro keys_kept.stays_structural keys_kept.writers keys_kept_binding keys_kept_modify stays_cases; simp)

lemma evidence_same_binding:
  "stays evidence_same (validate_binding agent_id command_id host claimed correlation kind)"
  "stays evidence_same (validate_retained_manifest e' m command_id)"
  "stays evidence_same (verify_manifest e' agent_id m admitted)"
  "stays evidence_same (decoded_content e' u)"
  "stays evidence_same (check_quota e' command_id n x)"
  unfolding validate_binding_def check_correlation_def check_kind_def command_field_def validate_retained_manifest_def
    verify_manifest_def verify_as_def retired_before_def server_time_def decoded_content_def check_quota_def storage_quota_def
  by (intro evidence_same.stays_structural stays_cases)+

section \<open>What is retained\<close>

text \<open>These read the database and leave it as it is.\<close>

interpretation unchanged: frame "\<lambda>s t :: db. t = s"
  by unfold_locales simp_all

lemma unchanged_binding:
  "stays (\<lambda>s t :: db. t = s) (validate_binding agent_id command_id host claimed correlation kind)"
  "stays (\<lambda>s t :: db. t = s) (validate_retained_manifest e m command_id)"
  "stays (\<lambda>s t :: db. t = s) (decoded_content e u)"
  "stays (\<lambda>s t :: db. t = s) (check_quota e command_id n x)"
  unfolding validate_binding_def check_correlation_def check_kind_def command_field_def validate_retained_manifest_def
    check_quota_def storage_quota_def decoded_content_def
  by (intro unchanged.stays_structural stays_cases)+

lemmas binding_read = stays_run [OF unchanged_binding(1)]
lemmas retained_manifest_read = stays_run [OF unchanged_binding(2)]
lemmas content_read = stays_run [OF unchanged_binding(3)]
lemmas quota_read = stays_run [OF unchanged_binding(4)]

lemma storage_quota_Inr: "storage_quota e s = (Inr q, s') \<longleftrightarrow> s' = s \<and> fst (storage_quota e ()) = Inr q"
  by (auto simp: storage_quota_def bindM_def require_some_def raise_if_def split: option.splits)

lemma storage_quota_bounds: "storage_quota e s = (Inr q, s') \<Longrightarrow> 1 \<le> q \<and> q \<le> 16 * 1024 ^ 3"
  by (auto simp: storage_quota_def bindM_Inr_iff)

lemma check_quota_Inr:
  assumes "check_quota e command_id n x d = (Inr u, d')"
  obtains q where "d' = d" and "command_count d command_id < MAX_COMMAND_COUNT" and "command_bytes d command_id + n \<le> MAX_COMMAND_BYTES"
    and "used_count d < MAX_GLOBAL_COUNT" and "storage_quota e d = (Inr q, d)" and "used_bytes d + n \<le> q"
  using assms unfolding check_quota_def by (auto simp: bindM_Inr_iff storage_quota_Inr)

lemma insert_artifact_Inr:
  assumes "insert_artifact a d = (Inr u, d')"
  shows "ar_artifact_id a \<notin> ar_artifact_id ` set (response_artifacts d)" and "ar_command_id a \<in> cm_command_id ` set (commands d)"
    and "d' = d\<lparr>response_artifacts := response_artifacts d @ [a],
        response_artifact_usage :=
          \<lparr>au_content_bytes = au_content_bytes (response_artifact_usage d) + ar_content_bytes a,
           au_artifacts = au_artifacts (response_artifact_usage d) + 1\<rparr>\<rparr>"
  using assms unfolding insert_artifact_def by (auto simp: bindM_raise_if split: if_splits)

lemma insert_attestation_Inr:
  assumes "insert_attestation a d = (Inr u, d')"
  shows "at_artifact_id a \<notin> at_artifact_id ` set (artifact_manifest_attestations d)"
    and "\<exists>k\<in>set (artifact_signing_keys d). ak_agent_id k = at_agent_id a \<and> ak_key_id k = at_key_id a"
    and "d' = d\<lparr>artifact_manifest_attestations := artifact_manifest_attestations d @ [a]\<rparr>"
  using assms unfolding insert_attestation_def by (auto simp: bindM_raise_if split: if_splits)

lemma retain_new_Inr:
  assumes "retain_new e agent_id command_id u content d = (Inr r, d')"
  obtains d1 where "insert_artifact (artifact_of e agent_id command_id u content) d = (Inr (), d1)"
    and "check_quota e command_id (int (length content)) (HTTPException 507 ''artifact retention quota reached; existing evidence preserved'') d = (Inr (), d)"
    and "audit_only d1 d'"
proof -
  obtain d0 d1 where q: "check_quota e command_id (int (length content))
        (HTTPException 507 ''artifact retention quota reached; existing evidence preserved'') d = (Inr (), d0)"
    and i: "insert_artifact (artifact_of e agent_id command_id u content) d0 = (Inr (), d1)"
    and c: "custody_event e (up_artifact_id u) ''received'' (''agent:'' @ agent_id)
      [(''command_id'', JStr command_id), (''sha256'', JStr (up_sha256 u)), (''content_bytes'', JInt (int (length content)))] d1 = (Inr (), d')"
    using assms unfolding retain_new_def by (auto simp: bindM_Inr_iff)
  then have "d0 = d" using quota_read by blast
  moreover have "audit_only d1 d'" by (rule stays_run [OF audit_only_writers(7) c])
  ultimately show ?thesis using that q i by blast
qed

lemma decoded_content_Inr:
  assumes "decoded_content e u d = (Inr content, d')"
  shows "b64decode (up_content_base64 u) = Some content" and "int (length content) = up_content_bytes u"
    and "sha256 e content = up_sha256 u" and "evidence_json content"
  using assms by (auto simp: decoded_content_def require_some_def split: option.splits if_splits)

text \<open>The upload carries the fields of the manifest.\<close>

definition describes :: "manifest \<Rightarrow> artifact_row \<Rightarrow> bool" where
  "describes m a \<longleftrightarrow>
    mf_artifact_id m = ar_artifact_id a \<and> mf_command_id m = ar_command_id a \<and> mf_correlation_id m = ar_correlation_id a \<and>
    mf_host_id m = ar_host_id a \<and> mf_kind m = ar_kind a \<and> mf_media_type m = ar_media_type a \<and>
    mf_content_bytes m = ar_content_bytes a \<and> mf_sha256 m = ar_sha256 a"

lemma jstr_Some_iff: "jstr v = Some t \<longleftrightarrow> v = JStr t"
  by (cases v) auto

lemma text_field_SomeD: "text_field lo hi k body = Some t \<Longrightarrow> jget k body = JStr t"
  by (auto simp: text_field_def jstr_Some_iff split: option.splits if_splits)

lemma bytes_field_SomeD: "bytes_field body = Some n \<Longrightarrow> jget ''content_bytes'' body = JInt n \<and> 1 \<le> n \<and> n \<le> MAX_CONTENT"
  by (auto simp: bytes_field_def split: json.splits if_splits)

lemma parse_artifact_upload_SomeD:
  assumes "parse_artifact_upload body = Some u"
  shows "jget ''artifact_id'' body = JStr (up_artifact_id u)" and "jget ''command_id'' body = JStr (up_command_id u)"
    and "jget ''correlation_id'' body = JStr (up_correlation_id u)" and "jget ''host_id'' body = JStr (up_host_id u)"
    and "jget ''kind'' body = JStr (up_kind u)" and "jget ''media_type'' body = JStr (up_media_type u)"
    and "jget ''content_bytes'' body = JInt (up_content_bytes u)" and "jget ''sha256'' body = JStr (up_sha256 u)"
    and "jget ''content_base64'' body = JStr (up_content_base64 u)" and "1 \<le> up_content_bytes u" and "up_content_bytes u \<le> MAX_CONTENT"
proof -
  obtain i c r h k n s y where "jstr (jget ''artifact_id'' body) = Some i" "text_field 1 128 ''command_id'' body = Some c"
      "text_field 1 128 ''correlation_id'' body = Some r" "text_field 1 256 ''host_id'' body = Some h"
      "jstr (jget ''kind'' body) = Some k" "bytes_field body = Some n" "jstr (jget ''sha256'' body) = Some s"
      "text_field 4 1398104 ''content_base64'' body = Some y" "jget ''media_type'' body = JStr ''application/json''"
    and u: "u = \<lparr>up_artifact_id = i, up_command_id = c, up_correlation_id = r, up_host_id = h, up_kind = k,
                up_media_type = ''application/json'', up_content_bytes = n, up_sha256 = s, up_content_base64 = y\<rparr>"
    using assms unfolding parse_artifact_upload_def by (auto split: if_splits option.splits)
  then show "jget ''artifact_id'' body = JStr (up_artifact_id u)" "jget ''command_id'' body = JStr (up_command_id u)"
    "jget ''correlation_id'' body = JStr (up_correlation_id u)" "jget ''host_id'' body = JStr (up_host_id u)"
    "jget ''kind'' body = JStr (up_kind u)" "jget ''media_type'' body = JStr (up_media_type u)"
    "jget ''content_bytes'' body = JInt (up_content_bytes u)" "jget ''sha256'' body = JStr (up_sha256 u)"
    "jget ''content_base64'' body = JStr (up_content_base64 u)" "1 \<le> up_content_bytes u" "up_content_bytes u \<le> MAX_CONTENT"
    by (simp_all add: jstr_Some_iff text_field_SomeD bytes_field_SomeD)
qed

lemma upload_of_SomeD:
  assumes "upload_of m b = Some u"
  shows "up_artifact_id u = mf_artifact_id m" and "up_command_id u = mf_command_id m" and "up_correlation_id u = mf_correlation_id m"
    and "up_host_id u = mf_host_id m" and "up_kind u = mf_kind m" and "up_media_type u = mf_media_type m"
    and "up_content_bytes u = mf_content_bytes m" and "up_sha256 u = mf_sha256 m" and "up_content_base64 u = b"
    and "1 \<le> up_content_bytes u" and "up_content_bytes u \<le> MAX_CONTENT"
proof -
  define body where "body = jupdate (filter (\<lambda>(k, v). k \<notin> {''agent_id'', ''produced_at_unix'', ''authorization''}) (dump_manifest m))
      [(''schema_version'', JStr ''1''), (''content_base64'', JStr b)]"
  have g: "jget ''artifact_id'' body = JStr (mf_artifact_id m)" "jget ''command_id'' body = JStr (mf_command_id m)"
    "jget ''correlation_id'' body = JStr (mf_correlation_id m)" "jget ''host_id'' body = JStr (mf_host_id m)"
    "jget ''kind'' body = JStr (mf_kind m)" "jget ''media_type'' body = JStr (mf_media_type m)"
    "jget ''content_bytes'' body = JInt (mf_content_bytes m)" "jget ''sha256'' body = JStr (mf_sha256 m)"
    "jget ''content_base64'' body = JStr b"
    unfolding body_def by (simp_all add: jupdate_def jget_jset) (simp_all add: jget_def dump_manifest_def)
  have "parse_artifact_upload body = Some u" using assms by (simp add: upload_of_def body_def)
  note p = parse_artifact_upload_SomeD [OF this]
  show "up_artifact_id u = mf_artifact_id m" "up_command_id u = mf_command_id m" "up_correlation_id u = mf_correlation_id m"
    "up_host_id u = mf_host_id m" "up_kind u = mf_kind m" "up_media_type u = mf_media_type m"
    "up_content_bytes u = mf_content_bytes m" "up_sha256 u = mf_sha256 m" "up_content_base64 u = b"
    "1 \<le> up_content_bytes u" "up_content_bytes u \<le> MAX_CONTENT"
    using p g by simp_all
qed

lemma retain_Inr:
  assumes "retain e agent_id command_id u content d = (Inr r, d')"
  obtains c where
    "validate_binding agent_id command_id (up_host_id u) (up_command_id u) (up_correlation_id u) (up_kind u) d = (Inr c, d)"
    and "\<forall>t\<in>set (response_artifact_transfers d). tf_artifact_id t = up_artifact_id u \<longrightarrow> \<not> open_session t" and "r = receipt u"
    and "(\<exists>a. find_by ar_artifact_id (up_artifact_id u) (response_artifacts d) = Some a \<and> ar_content a = content \<and> d' = d) \<or>
      (\<exists>d1. insert_artifact (artifact_of e agent_id command_id u content) d = (Inr (), d1) \<and> audit_only d1 d' \<and>
        check_quota e command_id (int (length content)) (HTTPException 507 ''artifact retention quota reached; existing evidence preserved'') d = (Inr (), d))"
proof -
  obtain c d0 where c: "validate_binding agent_id command_id (up_host_id u) (up_command_id u) (up_correlation_id u) (up_kind u) d = (Inr c, d0)"
    and o: "\<forall>t\<in>set (response_artifact_transfers d0). tf_artifact_id t = up_artifact_id u \<longrightarrow> \<not> open_session t"
    and rest: "retain_once e agent_id command_id u content d0 = (Inr r, d')"
    using assms unfolding retain_def by (auto simp: bindM_Inr_iff)
  have d: "d0 = d" using c binding_read by blast
  show ?thesis
  proof (cases "find_by ar_artifact_id (up_artifact_id u) (response_artifacts d)")
    case (Some a)
    then show ?thesis using that [of c] c o rest d by (auto simp: retain_once_def bindM_raise_if split: if_splits)
  next
    case None
    then have new: "retain_new e agent_id command_id u content d = (Inr r, d')" using rest d by (simp add: retain_once_def)
    then obtain d1 where "insert_artifact (artifact_of e agent_id command_id u content) d = (Inr (), d1)"
      "check_quota e command_id (int (length content)) (HTTPException 507 ''artifact retention quota reached; existing evidence preserved'') d = (Inr (), d)"
      "audit_only d1 d'" by (rule retain_new_Inr)
    moreover have "r = receipt u" using new by (auto simp: retain_new_def bindM_Inr_iff)
    ultimately show ?thesis using that [of c] c o d by blast
  qed
qed

lemma attest_Inr:
  assumes "attest e agent_id command_id m k n forensic d = (Inr v, d')"
  obtains d1 where "insert_attestation \<lparr>at_artifact_id = mf_artifact_id m, at_agent_id = agent_id, at_key_id = ak_key_id k,
            at_key_version = ak_key_version k, at_manifest_json = canonical (JObj (dump_manifest m)), at_verified_at = iso_now e\<rparr> d = (Inr (), d1)"
    and "audit_only d1 d'"
proof -
  let ?rest = "seqM (custody_event e (mf_artifact_id m) ''artifact_produced'' (''agent:'' @ agent_id)
             [(''produced_at_unix'', mf_produced_at_unix m), (''time_source'', JStr ''endpoint_claim'')])
    (seqM (custody_event e (mf_artifact_id m) ''artifact_transferred'' ''system:artifact-store'' [(''content_bytes'', JInt n)])
    (seqM (custody_event e (mf_artifact_id m) ''artifact_signature_verified'' ''system:artifact-verifier''
             [(''key_id'', JStr (ak_key_id k)), (''key_version'', JInt (ak_key_version k)),
              (''manifest_sha256'', JStr (sha256 e (canonical (JObj (dump_manifest m)))))])
    (seqM (custody_event e (mf_artifact_id m) ''artifact_hash_verified'' ''system:artifact-verifier'' [(''sha256'', JStr (mf_sha256 m))])
    (if forensic
     then bindM (gets (\<lambda>d. request_of_command d command_id)) (\<lambda>request.
          record_event e ''forensic_metadata_validated'' ''system:artifact-verifier'' (Some (mf_host_id m)) request
            [(''artifact_id'', JStr (mf_artifact_id m)), (''command_id'', JStr command_id), (''schema_version'', JStr ''1''),
             (''sha256'', JStr (mf_sha256 m))])
     else ret ()))))"
  obtain w d1 where i: "insert_attestation \<lparr>at_artifact_id = mf_artifact_id m, at_agent_id = agent_id, at_key_id = ak_key_id k,
            at_key_version = ak_key_version k, at_manifest_json = canonical (JObj (dump_manifest m)), at_verified_at = iso_now e\<rparr> d = (Inr w, d1)"
    and r: "?rest d1 = (Inr v, d')"
    using assms unfolding attest_def bindM_Inr_iff [of "insert_attestation _"] by blast
  have "stays audit_only ?rest" by (intro audit_only.stays_structural audit_only_writers stays_cases)
  then have "audit_only d1 d'" using r by (rule stays_run)
  then show ?thesis using that i by simp
qed

text \<open>Both steps of a signed retention, apart: the artifact, then the attestation unless there is one.\<close>

lemma retain_signed_Inr:
  assumes "retain_signed e agent_id command_id m b admitted d = (Inr r, d')"
  obtains k u content d1 where
    "verify_manifest e agent_id m
       (case find_by at_artifact_id (mf_artifact_id m) (artifact_manifest_attestations d) of Some p \<Rightarrow> Some (at_verified_at p) | None \<Rightarrow> admitted)
       d = (Inr k, d)"
    and "upload_of m b = Some u" and "decoded_content e u d = (Inr content, d)"
    and "retain e agent_id command_id u content d = (Inr r, d1)"
    and "(\<exists>p. find_by at_artifact_id (mf_artifact_id m) (artifact_manifest_attestations d) = Some p \<and>
            at_manifest_json p = canonical (JObj (dump_manifest m)) \<and> d' = d1) \<or>
         (find_by at_artifact_id (mf_artifact_id m) (artifact_manifest_attestations d) = None \<and>
          mf_artifact_id m \<notin> ar_artifact_id ` set (response_artifacts d) \<and>
          (\<exists>forensic. attest e agent_id command_id m k (int (length content)) forensic d1 = (Inr (), d')))"
proof -
  let ?previous = "find_by at_artifact_id (mf_artifact_id m) (artifact_manifest_attestations d)"
  obtain k u content d1 d2 d3 d4 forensic where
    p: "\<not> (case ?previous of None \<Rightarrow> False | Some p \<Rightarrow> at_manifest_json p \<noteq> canonical (JObj (dump_manifest m)))"
      "\<not> (?previous = None \<and> mf_artifact_id m \<in> ar_artifact_id ` set (response_artifacts d))"
    and k: "verify_manifest e agent_id m (case ?previous of Some p \<Rightarrow> Some (at_verified_at p) | None \<Rightarrow> admitted) d = (Inr k, d1)"
    and u: "upload_of m b = Some u" and c: "decoded_content e u d1 = (Inr content, d2)"
    and t: "retain e agent_id command_id u content d2 = (Inr r, d3)"
    and f: "validate_retained_manifest e m command_id d3 = (Inr forensic, d4)"
    and rest: "(if ?previous \<noteq> None then ret r
      else seqM (attest e agent_id command_id m k (int (length content)) forensic) (ret r)) d4 = (Inr r, d')"
    using assms unfolding retain_signed_def by (auto simp: bindM_Inr_iff split: if_splits)
  have "d1 = d" using k by (rule verify_manifest_Inr)
  moreover have "d2 = d1" using c content_read by blast
  moreover have "d4 = d3" using f retained_manifest_read by blast
  ultimately show ?thesis using k u c t p rest
    by (intro that [of k u content d3]) (auto simp: bindM_Inr_iff split: option.splits)
qed

section \<open>The store only grows\<close>

text \<open>
  Identifiers name one artifact, its bytes have the length and the digest of its row, the usage row counts what is
  there, and an attestation binds a signed manifest that describes its artifact.
\<close>

definition intact :: "(string \<Rightarrow> string) \<Rightarrow> artifact_row \<Rightarrow> bool" where
  "intact h a \<longleftrightarrow> ar_content_bytes a = int (length (ar_content a)) \<and> ar_sha256 a = h (ar_content a) \<and>
     1 \<le> ar_content_bytes a \<and> ar_content_bytes a \<le> MAX_CONTENT"

definition attested :: "db \<Rightarrow> attestation_row \<Rightarrow> bool" where
  "attested d t \<longleftrightarrow> (\<exists>a\<in>set (response_artifacts d). \<exists>m. ar_artifact_id a = at_artifact_id t \<and> ar_agent_id a = at_agent_id t \<and>
     at_manifest_json t = canonical (JObj (dump_manifest m)) \<and> describes m a)"

definition stored_inv :: "(string \<Rightarrow> string) \<Rightarrow> db \<Rightarrow> bool" where
  "stored_inv h d \<longleftrightarrow>
     distinct (map ar_artifact_id (response_artifacts d)) \<and> list_all (intact h) (response_artifacts d) \<and>
     au_artifacts (response_artifact_usage d) = int (length (response_artifacts d)) \<and>
     au_content_bytes (response_artifact_usage d) = sum_list (map ar_content_bytes (response_artifacts d)) \<and>
     distinct (map at_artifact_id (artifact_manifest_attestations d)) \<and> list_all (attested d) (artifact_manifest_attestations d)"

definition stored :: "(string \<Rightarrow> string) \<Rightarrow> db \<Rightarrow> db \<Rightarrow> bool" where
  "stored h d d' \<longleftrightarrow> extends (=) (response_artifacts d) (response_artifacts d') \<and>
     extends (=) (artifact_manifest_attestations d) (artifact_manifest_attestations d') \<and> (stored_inv h d \<longrightarrow> stored_inv h d')"

lemma extends_eq: "extends (=) xs ys \<longleftrightarrow> (\<exists>zs. ys = xs @ zs)"
  by (simp add: extends_def list.rel_eq)

lemma stored_same: "evidence d' = evidence d \<Longrightarrow> stored h d d'"
  by (simp add: stored_def evidence_def extends_eq stored_inv_def attested_def [abs_def])

interpretation stored: blind_frame "stored h"
proof
  show "stored h s s" for s by (simp add: stored_same)
  show "stored h s u" if "stored h s t" "stored h t u" for s t u
    using that by (auto simp: stored_def extends_eq)
  show "stored h d d'" if "audit_only d d'" for d d'
    using that by (intro stored_same) (simp add: evidence_def audit_onlyD)
qed

lemma stored_evidence_same: "stays evidence_same m \<Longrightarrow> stays (stored h) m"
  by (simp add: stays_def evidence_same_def stored_same)

lemma stored_sessions:
  "response_artifacts d' = response_artifacts d \<Longrightarrow> artifact_manifest_attestations d' = artifact_manifest_attestations d \<Longrightarrow>
    response_artifact_usage d' = response_artifact_usage d \<Longrightarrow> stored h d d'"
  by (simp add: stored_def extends_eq stored_inv_def attested_def [abs_def])

lemma attested_grows: "attested d t \<Longrightarrow> response_artifacts d' = response_artifacts d @ new \<Longrightarrow> attested d' t"
  unfolding attested_def by (simp add: bex_Un)

lemma stored_insert_artifact:
  assumes "insert_artifact a d = (Inr u, d')" and "intact h a"
  shows "stored h d d'"
proof -
  note i = insert_artifact_Inr [OF assms(1)]
  have d': "response_artifacts d' = response_artifacts d @ [a]" "artifact_manifest_attestations d' = artifact_manifest_attestations d"
    "au_content_bytes (response_artifact_usage d') = au_content_bytes (response_artifact_usage d) + ar_content_bytes a"
    "au_artifacts (response_artifact_usage d') = au_artifacts (response_artifact_usage d) + 1"
    using i(3) by simp_all
  have "list_all (attested d') ts" if "list_all (attested d) ts" for ts
    using that attested_grows [OF _ d'(1)] by (simp add: list_all_iff)
  then show ?thesis using i(1) d' assms(2) by (simp add: stored_def extends_eq stored_inv_def)
qed

lemma stored_insert_attestation:
  assumes "insert_attestation t d = (Inr u, d')" and "attested d t"
  shows "stored h d d'"
proof -
  note i = insert_attestation_Inr [OF assms(1)]
  have "attested d' = attested d" using i(3) by (simp add: attested_def [abs_def])
  then show ?thesis using i(1,3) assms(2) by (simp add: stored_def extends_eq stored_inv_def)
qed

lemma retained_artifact:
  assumes "upload_of m b = Some u" and "decoded_content e u d = (Inr content, d1)"
    and "validate_binding agent_id command_id (up_host_id u) (up_command_id u) (up_correlation_id u) (up_kind u) d2 = (Inr c, d3)"
  shows "intact (sha256 e) (artifact_of e agent_id command_id u content)" and "describes m (artifact_of e agent_id command_id u content)"
    and "mf_command_id m = command_id"
proof -
  note u = upload_of_SomeD [OF assms(1)] and c = decoded_content_Inr [OF assms(2)]
  have i: "up_command_id u = command_id"
    using assms(3) unfolding validate_binding_def check_correlation_def by (auto simp: bindM_Inr_iff split: if_splits)
  show "intact (sha256 e) (artifact_of e agent_id command_id u content)" using u(10,11) c by (simp add: intact_def artifact_of_def)
  show "describes m (artifact_of e agent_id command_id u content)" using u i by (simp add: describes_def artifact_of_def)
  show "mf_command_id m = command_id" using u i by simp
qed

text \<open>A first signed retention adds the artifact and its attestation; the records in between are audit.\<close>

definition attestation_of :: "env \<Rightarrow> string \<Rightarrow> manifest \<Rightarrow> artifact_key_row \<Rightarrow> attestation_row" where
  "attestation_of e agent_id m k =
    \<lparr>at_artifact_id = mf_artifact_id m, at_agent_id = agent_id, at_key_id = ak_key_id k, at_key_version = ak_key_version k,
     at_manifest_json = canonical (JObj (dump_manifest m)), at_verified_at = iso_now e\<rparr>"

lemma retain_fresh:
  assumes "retain e agent_id command_id u content d = (Inr r, d')" and "up_artifact_id u \<notin> ar_artifact_id ` set (response_artifacts d)"
  shows "\<exists>c d1. validate_binding agent_id command_id (up_host_id u) (up_command_id u) (up_correlation_id u) (up_kind u) d = (Inr c, d) \<and>
    insert_artifact (artifact_of e agent_id command_id u content) d = (Inr (), d1) \<and> audit_only d1 d'"
  using assms(1)
proof (rule retain_Inr)
  have "find_by ar_artifact_id (up_artifact_id u) (response_artifacts d) = None"
    using assms(2) by (force simp: find_by_None_iff)
  then show ?thesis
    if "validate_binding agent_id command_id (up_host_id u) (up_command_id u) (up_correlation_id u) (up_kind u) d = (Inr c, d)"
      "(\<exists>a. find_by ar_artifact_id (up_artifact_id u) (response_artifacts d) = Some a \<and> ar_content a = content \<and> d' = d) \<or>
      (\<exists>d1. insert_artifact (artifact_of e agent_id command_id u content) d = (Inr (), d1) \<and> audit_only d1 d' \<and>
        check_quota e command_id (int (length content)) (HTTPException 507 ''artifact retention quota reached; existing evidence preserved'') d = (Inr (), d))" for c
    using that by auto
qed

lemma retain_signed_fresh:
  assumes "retain_signed e agent_id command_id m b admitted d = (Inr r, d')"
    and "find_by at_artifact_id (mf_artifact_id m) (artifact_manifest_attestations d) = None"
  obtains k u content c d1 d2 d3 where "verify_manifest e agent_id m admitted d = (Inr k, d)" and "upload_of m b = Some u"
    and "decoded_content e u d = (Inr content, d)"
    and "validate_binding agent_id command_id (up_host_id u) (up_command_id u) (up_correlation_id u) (up_kind u) d = (Inr c, d)"
    and "insert_artifact (artifact_of e agent_id command_id u content) d = (Inr (), d1)" and "audit_only d1 d2"
    and "insert_attestation (attestation_of e agent_id m k) d2 = (Inr (), d3)" and "audit_only d3 d'"
  using assms(1)
proof (rule retain_signed_Inr)
  fix k u content d2
  assume k: "verify_manifest e agent_id m (case find_by at_artifact_id (mf_artifact_id m) (artifact_manifest_attestations d) of
      Some p \<Rightarrow> Some (at_verified_at p) | None \<Rightarrow> admitted) d = (Inr k, d)"
    and u: "upload_of m b = Some u" "decoded_content e u d = (Inr content, d)"
    and t: "retain e agent_id command_id u content d = (Inr r, d2)"
    and cases: "(\<exists>p. find_by at_artifact_id (mf_artifact_id m) (artifact_manifest_attestations d) = Some p \<and>
            at_manifest_json p = canonical (JObj (dump_manifest m)) \<and> d' = d2) \<or>
         (find_by at_artifact_id (mf_artifact_id m) (artifact_manifest_attestations d) = None \<and>
          mf_artifact_id m \<notin> ar_artifact_id ` set (response_artifacts d) \<and>
          (\<exists>forensic. attest e agent_id command_id m k (int (length content)) forensic d2 = (Inr (), d')))"
  obtain forensic where fresh: "mf_artifact_id m \<notin> ar_artifact_id ` set (response_artifacts d)"
    and at: "attest e agent_id command_id m k (int (length content)) forensic d2 = (Inr (), d')" using cases assms(2) by auto
  obtain d3 where a: "insert_attestation (attestation_of e agent_id m k) d2 = (Inr (), d3)" "audit_only d3 d'"
    using attest_Inr [OF at] unfolding attestation_of_def by metis
  obtain c d1 where "validate_binding agent_id command_id (up_host_id u) (up_command_id u) (up_correlation_id u) (up_kind u) d = (Inr c, d)"
      "insert_artifact (artifact_of e agent_id command_id u content) d = (Inr (), d1)" "audit_only d1 d2"
    using retain_fresh [OF t] fresh upload_of_SomeD(1) [OF u(1)] by auto
  then show thesis using that k u a assms(2) by simp
qed

section \<open>Signed evidence\<close>

lemma binding_Inr:
  assumes "validate_binding agent_id command_id host claimed correlation kind d = (Inr c, d')"
  obtains row a where "find_by cm_command_id command_id (commands d) = Some row" and "active_agent d agent_id = Some a"
    and "cm_agent_id row = agent_id" and "cm_delivered_at row \<noteq> None" and "host = ea_host_id a" and "claimed = command_id"
    and "c = cm_command_json row"
  using assms unfolding validate_binding_def check_correlation_def by (auto simp: bindM_Inr_iff split: if_splits)

text \<open>
  C18. Evidence enters the store only under a signature. What \<open>retain_signed\<close> keeps of a new manifest are the very bytes the
  manifest describes, by length and digest; they answer a command delivered to the agent; and the manifest is attested, because
  its signature verifies under a key of that agent, for that host, that is not compromised.
\<close>

theorem evidence_needs_its_signature:
  assumes "retain_signed e agent_id command_id m b admitted d = (Inr r, d')"
    and "find_by at_artifact_id (mf_artifact_id m) (artifact_manifest_attestations d) = None"
  shows "\<exists>a c k v data. response_artifacts d' = response_artifacts d @ [a] \<and> b64decode b = Some (ar_content a) \<and>
      describes m a \<and> intact (sha256 e) a \<and> ar_agent_id a = agent_id \<and>
      c \<in> set (commands d) \<and> cm_command_id c = mf_command_id m \<and> cm_agent_id c = agent_id \<and> cm_delivered_at c \<noteq> None \<and>
      artifact_manifest_attestations d' = artifact_manifest_attestations d @ [attestation_of e agent_id m k] \<and>
      make_manifest e (JObj (dump_manifest m)) = Some v \<and> k \<in> set (artifact_signing_keys d) \<and>
      ak_agent_id k = agent_id \<and> ak_key_id k = mf_key_id v \<and> ak_host_id k = mf_host_id v \<and> ak_compromised_at k = None \<and>
      artifact_signing_input e (dump_manifest m) = Some data \<and> verify_signature e (ak_public_key k) (mf_signature v) data"
  using assms
proof (rule retain_signed_fresh)
  fix k u content c d1 d2 d3
  assume k: "verify_manifest e agent_id m admitted d = (Inr k, d)"
    and u: "upload_of m b = Some u" "decoded_content e u d = (Inr content, d)"
      "validate_binding agent_id command_id (up_host_id u) (up_command_id u) (up_correlation_id u) (up_kind u) d = (Inr c, d)"
    and i: "insert_artifact (artifact_of e agent_id command_id u content) d = (Inr (), d1)" "audit_only d1 d2"
    and t: "insert_attestation (attestation_of e agent_id m k) d2 = (Inr (), d3)" "audit_only d3 d'"
  let ?a = "artifact_of e agent_id command_id u content"
  note art = retained_artifact [OF u]
  have rows: "response_artifacts d' = response_artifacts d @ [?a]"
    "artifact_manifest_attestations d' = artifact_manifest_attestations d @ [attestation_of e agent_id m k]"
    using insert_artifact_Inr(3) [OF i(1)] audit_onlyD [OF i(2)] insert_attestation_Inr(3) [OF t(1)] audit_onlyD [OF t(2)] by simp_all
  obtain row a where c: "find_by cm_command_id command_id (commands d) = Some row" "cm_agent_id row = agent_id" "cm_delivered_at row \<noteq> None"
    using binding_Inr [OF u(3)] by metis
  obtain v x where v: "make_manifest e (JObj (dump_manifest m)) = Some v" "manifest_signer d agent_id (mf_key_id v) = Some (k, x)"
    and ok: "verify_as e m v admitted k x d = (Inr k, d)" using k by (rule verify_manifest_Inr)
  have signer: "k \<in> set (artifact_signing_keys d)" "ak_agent_id k = agent_id" "ak_key_id k = mf_key_id v"
    using v(2) by (auto simp: manifest_signer_def find_Some_iff split: option.splits)
  obtain data where data: "artifact_signing_input e (dump_manifest m) = Some data" "verify_signature e (ak_public_key k) (mf_signature v) data"
    "ak_host_id k = mf_host_id v" "ak_compromised_at k = None" using ok by (auto simp: verify_as_Inr)
  have "b64decode b = Some content" "ar_content ?a = content" "ar_agent_id ?a = agent_id"
    using decoded_content_Inr(1) [OF u(2)] upload_of_SomeD(9) [OF u(1)] by (simp_all add: artifact_of_def)
  then show ?thesis using rows art c find_by_SomeD [OF c(1)] v(1) signer data by metis
qed

text \<open>A custody event about a retained artifact is always written.\<close>

lemma int_str_colon: "CHR '':'' \<notin> set (int_str i)"
  using nat_str_digits [of "nat i"] nat_str_digits [of "nat (- i)"] by (auto simp: int_str_def is_digit_def)

lemma int_str_inject: "int_str i = int_str j \<Longrightarrow> i = j"
  using parse_number_int_str [of "[]" i] parse_number_int_str [of "[]" j] by (simp add: ends_number_def)

lemma last_separator: "x @ c # s = y @ c # t \<Longrightarrow> c \<notin> set s \<Longrightarrow> c \<notin> set t \<Longrightarrow> x = y \<and> s = t"
proof (induction x arbitrary: y)
  case Nil
  then show ?case by (cases y) auto
next
  case (Cons b x)
  then show ?case by (cases y) auto
qed

lemma custody_entry_id:
  assumes "audit_inv h d" and "x \<in> set (response_audit_ledger d)" and "lg_source x = ''response_artifact_custody''"
  shows "\<exists>r\<in>set (response_artifact_custody d). lg_source_id x = cu_artifact_id r @ '':'' @ int_str (cu_sequence r)"
proof -
  have "entry_known x" using assms(1,2) by (auto simp: audit_inv_def audit_inv_at_def)
  then have "lg_source_id x = source_id_of [''artifact_id'', ''sequence''] (lg_payload_json x)"
    using assms(3) by (auto simp: entry_known_def identity_disagrees_def sources_def Let_def)
  moreover have "lg_payload_json x \<in> custody_json ` set (response_artifact_custody d)"
    using entry_source_row [OF assms(1,2)] assms(3) by (simp add: source_rows_def)
  ultimately show ?thesis by (auto simp: custody_json_def source_id_of_def key_text_def)
qed

lemma custody_head_last:
  assumes "r \<in> set rows" and "cu_artifact_id r = i"
  shows "\<exists>p. custody_head rows i = Some p \<and> cu_sequence r \<le> cu_sequence p"
proof -
  define l where "l = order_by cu_sequence (filter (\<lambda>r. cu_artifact_id r = i) rows)"
  have r: "r \<in> set l" using assms by (simp add: l_def)
  have s: "sorted (map cu_sequence l)" by (simp add: l_def order_by_def)
  obtain xs p where l: "l = xs @ [p]" using r by (cases l rule: rev_cases) auto
  then have "cu_sequence r \<le> cu_sequence p" using r s by (auto simp: sorted_append)
  then show ?thesis using l by (simp add: custody_head_def l_def [symmetric])
qed

definition quiet :: "db \<Rightarrow> db \<Rightarrow> bool" where
  "quiet d d' \<longleftrightarrow> audit_only d d' \<and> draws d' = draws d \<and> response_security_audit d' = response_security_audit d"

interpretation quiet: frame quiet
proof
  show "quiet s s" for s by (simp add: quiet_def audit_only.R_refl)
  show "quiet s u" if "quiet s t" "quiet t u" for s t u using that audit_only.R_trans by (auto simp: quiet_def)
qed

lemma quiet_custody_event:
  assumes "custody_event e i ev actor detail d = (Inr u, d')"
  shows "quiet d d'"
proof -
  have "draws d' = draws d \<and> response_security_audit d' = response_security_audit d"
    using assms unfolding custody_event_def insert_custody_def Let_def
    by (auto simp: bindM_raise_if split: if_splits dest!: chain_tables(4))
  then show ?thesis using stays_run [OF audit_only_writers(7) assms] by (simp add: quiet_def)
qed

lemma custody_event_runs:
  assumes inv: "audit_inv (sha256 e) d" and "i \<in> ar_artifact_id ` set (response_artifacts d)"
  shows "\<exists>d'. custody_event e i ev actor detail d = (Inr (), d') \<and> audit_inv (sha256 e) d' \<and> quiet d d'"
proof -
  let ?rows = "response_artifact_custody d"
  let ?n = "case custody_head ?rows i of None \<Rightarrow> 1 | Some p \<Rightarrow> cu_sequence p + 1"
  have ch: "chained (sha256 e) 1 ZERO (response_audit_ledger d)" using inv by (simp add: audit_inv_def audit_inv_at_def)
  have fresh: "(cu_artifact_id r, cu_sequence r) \<noteq> (i, ?n)" if "r \<in> set ?rows" for r
    using custody_head_last [OF that, of i] by auto
  have ids: "lg_source_id x \<noteq> i @ '':'' @ int_str ?n" if x: "x \<in> set (response_audit_ledger d)" "lg_source x = ''response_artifact_custody''" for x
  proof
    assume "lg_source_id x = i @ '':'' @ int_str ?n"
    moreover obtain r where r: "r \<in> set ?rows" "lg_source_id x = cu_artifact_id r @ '':'' @ int_str (cu_sequence r)"
      using custody_entry_id [OF inv x] by blast
    ultimately have "cu_artifact_id r = i" "int_str (cu_sequence r) = int_str ?n"
      using last_separator [of "cu_artifact_id r" "CHR '':''" "int_str (cu_sequence r)" i "int_str ?n"] int_str_colon by simp_all
    then show False using fresh [OF r(1)] int_str_inject by blast
  qed
  have "(i, ?n) \<notin> (\<lambda>x. (cu_artifact_id x, cu_sequence x)) ` set ?rows" using fresh by force
  then have "\<exists>d'. custody_event e i ev actor detail d = (Inr (), d')"
    using assms(2) ids
    unfolding custody_event_def insert_custody_def chain_custody_def Let_def
    by (auto simp: bindM_raise_if insert_ledger_def guard_accepts ledger_conflict_def no_sequence_conflict [OF ch] bindM_assoc
        transaction_def)
  then obtain d' where run: "custody_event e i ev actor detail d = (Inr (), d')" by blast
  have "audit_grows (sha256 e) d d'" by (rule stays_run [OF stays_custody_event run])
  then show ?thesis using run inv quiet_custody_event [OF run] by (auto simp: audit_grows_def audit_inv_def)
qed

lemma retain_new_runs:
  assumes "check_quota e c (int (length content)) (HTTPException 507 ''artifact retention quota reached; existing evidence preserved'') d = (Inr (), d)"
    and ins: "insert_artifact (artifact_of e agent_id c u content) d = (Inr (), d1)" and inv: "audit_inv (sha256 e) d1"
  shows "\<exists>d'. retain_new e agent_id c u content d = (Inr (receipt u), d') \<and> audit_inv (sha256 e) d' \<and> quiet d1 d'"
proof -
  have "up_artifact_id u \<in> ar_artifact_id ` set (response_artifacts d1)"
    using insert_artifact_Inr(3) [OF ins] by (simp add: artifact_of_def)
  then obtain d' where "custody_event e (up_artifact_id u) ''received'' (''agent:'' @ agent_id)
      [(''command_id'', JStr c), (''sha256'', JStr (up_sha256 u)), (''content_bytes'', JInt (int (length content)))] d1 = (Inr (), d')"
    "audit_inv (sha256 e) d'" "quiet d1 d'" using custody_event_runs [OF inv] by blast
  then show ?thesis using assms(1) ins by (simp add: retain_new_def bindM_Inr)
qed

lemma attest_runs:
  assumes ins: "insert_attestation (attestation_of e agent_id m k) d = (Inr (), d1)" and inv: "audit_inv (sha256 e) d1"
    and "mf_artifact_id m \<in> ar_artifact_id ` set (response_artifacts d)"
  shows "\<exists>d'. attest e agent_id c m k n False d = (Inr (), d') \<and> audit_inv (sha256 e) d' \<and> quiet d1 d'"
proof -
  let ?i = "mf_artifact_id m"
  have there: "?i \<in> ar_artifact_id ` set (response_artifacts x)" if "quiet d1 x" for x
    using assms(3) insert_attestation_Inr(3) [OF ins] audit_onlyD(21) [OF that [unfolded quiet_def, THEN conjunct1]] by simp
  note more = custody_event_runs [OF _ there]
  obtain d2 where r2: "custody_event e ?i ''artifact_produced'' (''agent:'' @ agent_id)
             [(''produced_at_unix'', mf_produced_at_unix m), (''time_source'', JStr ''endpoint_claim'')] d1 = (Inr (), d2)"
    and a2: "audit_inv (sha256 e) d2" "quiet d1 d2" using more [OF inv quiet.R_refl] by blast
  obtain d3 where r3: "custody_event e ?i ''artifact_transferred'' ''system:artifact-store'' [(''content_bytes'', JInt n)] d2 = (Inr (), d3)"
    and a3: "audit_inv (sha256 e) d3" "quiet d2 d3" using more [OF a2] by blast
  have q3: "quiet d1 d3" by (rule quiet.R_trans [OF a2(2) a3(2)])
  obtain d4 where r4: "custody_event e ?i ''artifact_signature_verified'' ''system:artifact-verifier''
             [(''key_id'', JStr (ak_key_id k)), (''key_version'', JInt (ak_key_version k)),
              (''manifest_sha256'', JStr (sha256 e (canonical (JObj (dump_manifest m)))))] d3 = (Inr (), d4)"
    and a4: "audit_inv (sha256 e) d4" "quiet d3 d4" using more [OF a3(1) q3] by blast
  have q4: "quiet d1 d4" by (rule quiet.R_trans [OF q3 a4(2)])
  obtain d5 where r5: "custody_event e ?i ''artifact_hash_verified'' ''system:artifact-verifier'' [(''sha256'', JStr (mf_sha256 m))] d4 = (Inr (), d5)"
    and a5: "audit_inv (sha256 e) d5" "quiet d4 d5" using more [OF a4(1) q4] by blast
  have "attest e agent_id c m k n False d = (Inr (), d5)"
    using ins r2 r3 r4 r5 unfolding attest_def attestation_of_def by (simp add: bindM_Inr)
  then show ?thesis using a5(1) quiet.R_trans [OF q4 a5(2)] by blast
qed

text \<open>New signed evidence that passes every check is retained and attested: none of the records can fail.\<close>

lemma retain_signed_runs:
  assumes inv: "audit_inv (sha256 e) d" and new: "mf_artifact_id m \<notin> ar_artifact_id ` set (response_artifacts d)"
      "mf_artifact_id m \<notin> at_artifact_id ` set (artifact_manifest_attestations d)"
    and k: "verify_manifest e agent_id m admitted d = (Inr k, d)"
      "\<exists>x\<in>set (artifact_signing_keys d). ak_agent_id x = agent_id \<and> ak_key_id x = ak_key_id k"
    and u: "upload_of m b = Some u" "\<And>d. decoded_content e u d = (Inr content, d)"
    and c: "validate_binding agent_id c (up_host_id u) (up_command_id u) (up_correlation_id u) (up_kind u) d = (Inr command, d)"
      "c \<in> cm_command_id ` set (commands d)"
    and quota: "\<And>x. check_quota e c (int (length content)) x d = (Inr (), d)"
    and closed: "\<forall>t\<in>set (response_artifact_transfers d). tf_artifact_id t = mf_artifact_id m \<longrightarrow> \<not> open_session t"
    and plain: "\<And>x. commands x = commands d \<Longrightarrow> validate_retained_manifest e m c x = (Inr False, x)"
  shows "\<exists>d'. retain_signed e agent_id c m b admitted d = (Inr (receipt u), d') \<and> audit_inv (sha256 e) d' \<and>
    draws d' = draws d \<and> response_security_audit d' = response_security_audit d"
proof -
  define a where "a = artifact_of e agent_id c u content"
  have id: "up_artifact_id u = mf_artifact_id m" "ar_artifact_id a = mf_artifact_id m" "ar_command_id a = c"
    using upload_of_SomeD(1) [OF u(1)] by (simp_all add: a_def artifact_of_def)
  have none: "find_by ar_artifact_id (mf_artifact_id m) (response_artifacts d) = None"
    "find_by at_artifact_id (mf_artifact_id m) (artifact_manifest_attestations d) = None"
    using new by (force simp: find_by_None_iff)+
  define d1 where "d1 = d\<lparr>response_artifacts := response_artifacts d @ [a], response_artifact_usage :=
      \<lparr>au_content_bytes = au_content_bytes (response_artifact_usage d) + ar_content_bytes a,
       au_artifacts = au_artifacts (response_artifact_usage d) + 1\<rparr>\<rparr>"
  have ins: "insert_artifact a d = (Inr (), d1)" using new(1) c(2) id by (simp add: insert_artifact_def d1_def bindM_raise_if)
  have "audit_inv (sha256 e) d1" using inv audit_inv_at_cong [of d1 d] by (simp add: audit_inv_def d1_def)
  then obtain d2 where r: "retain_new e agent_id c u content d = (Inr (receipt u), d2)"
    and d2: "audit_inv (sha256 e) d2" "quiet d1 d2" using retain_new_runs [OF quota ins [unfolded a_def]] by blast
  note same = audit_onlyD [OF d2(2) [unfolded quiet_def, THEN conjunct1]]
  define t where "t = attestation_of e agent_id m k"
  have i2: "insert_attestation t d2 = (Inr (), d2\<lparr>artifact_manifest_attestations := artifact_manifest_attestations d2 @ [t]\<rparr>)"
    using same id new(2) k(2) by (auto simp: insert_attestation_def bindM_raise_if t_def attestation_of_def d1_def raise_if_def)
  let ?d3 = "d2\<lparr>artifact_manifest_attestations := artifact_manifest_attestations d2 @ [t]\<rparr>"
  have "audit_inv (sha256 e) ?d3" using d2(1) audit_inv_at_cong [of ?d3 d2] by (simp add: audit_inv_def)
  moreover have "mf_artifact_id m \<in> ar_artifact_id ` set (response_artifacts d2)" using same id by (simp add: d1_def)
  ultimately obtain d4 where at: "attest e agent_id c m k (int (length content)) False d2 = (Inr (), d4)"
    and d4: "audit_inv (sha256 e) d4" "quiet ?d3 d4" using attest_runs [OF i2 [unfolded t_def]] unfolding t_def by blast
  have ret: "retain e agent_id c u content d = (Inr (receipt u), d2)"
    using r none closed unfolding retain_def retain_once_def
    by (simp add: id bindM_Inr [where m = "validate_binding _ _ _ _ _ _", OF c(1)] bindM_raise_if)
  have forensic: "validate_retained_manifest e m c d2 = (Inr False, d2)" using same by (intro plain) (simp add: d1_def)
  have "retain_signed e agent_id c m b admitted d = (Inr (receipt u), d4)"
    unfolding retain_signed_def
    using none new(1) by (simp add: bindM_raise_if bindM_Inr [where m = "verify_manifest _ _ _ _", OF k(1)] u(1)
        bindM_Inr [where m = "decoded_content _ _", OF u(2)] bindM_Inr [where m = "retain _ _ _ _ _", OF ret]
        bindM_Inr [where m = "validate_retained_manifest _ _ _", OF forensic] bindM_Inr [where m = "attest _ _ _ _ _ _ _", OF at])
  then show ?thesis using d2(2) d4 by (auto simp: quiet_def d1_def)
qed

text \<open>An agent answers a collection command with two bytes of signed evidence.\<close>

definition demo_manifest :: manifest where
  "demo_manifest = \<lparr>mf_artifact_id = ''art_'' @ replicate 64 CHR ''0'', mf_agent_id = ''agent-1'', mf_command_id = ''c1'',
     mf_correlation_id = ''k1'', mf_host_id = ''host-1'', mf_kind = ''execution_report'', mf_media_type = ''application/json'',
     mf_content_bytes = 2, mf_sha256 = replicate 64 CHR ''0'', mf_produced_at_unix = JInt 0, mf_key_id = take 16 (demo_point CHR ''a''),
     mf_signature = b64encode (replicate 64 CHR ''s''), mf_authorization_other = [], mf_other = []\<rparr>"

definition evidence_env :: env where
  "evidence_env = demo_env\<lparr>sha256 := (\<lambda>t. replicate 64 CHR ''0''), environ := (\<lambda>k. None), make_manifest := (\<lambda>j. Some demo_manifest),
     artifact_signing_input := (\<lambda>m. Some ''manifest'')\<rparr>"

definition demo_collection :: command_row where
  "demo_collection = \<lparr>cm_command_id = ''c1'', cm_agent_id = ''agent-1'', cm_command_json = [(''host_id'', JStr ''host-1''),
     (''correlation_id'', JStr ''k1''), (''action'', JStr ''COLLECT_PROCESS_INFO'')], cm_created_at = ''t'', cm_expires_at = ''t'',
     cm_delivered_at = Some ''t'', cm_alert_id = Some ''a1'', cm_lifecycle_state = ACCEPTED\<rparr>"

definition demo_delivered :: db where
  "demo_delivered = demo_keyring []\<lparr>commands := [demo_collection]\<rparr>"

definition demo_upload :: artifact_upload where
  "demo_upload = \<lparr>up_artifact_id = ''art_'' @ replicate 64 CHR ''0'', up_command_id = ''c1'', up_correlation_id = ''k1'',
     up_host_id = ''host-1'', up_kind = ''execution_report'', up_media_type = ''application/json'', up_content_bytes = 2,
     up_sha256 = replicate 64 CHR ''0'', up_content_base64 = ''e30=''\<rparr>"

lemma demo_delivered_simps [simp]:
  "artifact_signing_keys demo_delivered = [demo_artifact_key]" "commands demo_delivered = [demo_collection]"
  "enrolled_agents demo_delivered = [demo_agent ''agent-1'' ''host-1'' ''tok'']" "response_artifacts demo_delivered = []"
  "artifact_manifest_attestations demo_delivered = []" "response_artifact_transfers demo_delivered = []"
  "response_artifact_usage demo_delivered = \<lparr>au_content_bytes = 0, au_artifacts = 0\<rparr>"
  "response_artifact_transfer_usage demo_delivered = \<lparr>tu_reserved_bytes = 0, tu_open_sessions = 0, tu_total_sessions = 0\<rparr>"
  "response_audit_ledger demo_delivered = []" "command_audit demo_delivered = []"
  "response_decision_audit demo_delivered = []" "response_artifact_custody demo_delivered = []"
  "response_security_audit demo_delivered = []"
  by (simp_all add: demo_delivered_def demo_keyring_def demo_fleet_def)

lemma evidence_env_simps [simp]:
  "sha256 evidence_env t = replicate 64 CHR ''0''" "environ evidence_env k = None" "make_manifest evidence_env j = Some demo_manifest"
  "artifact_signing_input evidence_env x = Some ''manifest''" "ecdsa_verify evidence_env p t x1 = True" "on_curve evidence_env p = True"
  by (simp_all add: evidence_env_def)

lemma demo_upload_of: "upload_of demo_manifest ''e30='' = Some demo_upload"
proof -
  have "py_len ''e30='' = 4" "py_len ''c1'' = 2" "py_len ''k1'' = 2" "py_len ''host-1'' = 6" by code_simp+
  moreover have "is_lower_hex CHR ''0''" by code_simp
  then have "list_all is_lower_hex (replicate 64 CHR ''0'')" by (simp add: list_all_iff)
  ultimately show ?thesis
    unfolding upload_of_def dump_manifest_def demo_manifest_def
    by (simp add: jupdate_def parse_artifact_upload_def only_keys_def text_field_def len_between_def bytes_field_def MAX_CONTENT_def
        artifact_id_text_def hex_text_def starts_with_def demo_upload_def)
qed

lemma demo_content: "decoded_content evidence_env demo_upload d = (Inr ''{}'', d)"
proof -
  have "b64decode ''e30='' = Some ''{}''" by code_simp
  moreover have "evidence_json ''{}''" by code_simp
  ultimately show ?thesis by (simp add: decoded_content_def demo_upload_def)
qed

lemma demo_manifest_verified: "verify_manifest evidence_env ''agent-1'' demo_manifest None demo_delivered = (Inr demo_artifact_key, demo_delivered)"
  by (simp add: verify_manifest_def verify_as_def manifest_signer_def demo_manifest_def retired_before_def verify_signature_def
      public_point_def b64decode_b64encode demo_point_def demo_artifact_key_def demo_agent_def bindM_raise_if)

lemma demo_binding:
  "validate_binding ''agent-1'' ''c1'' ''host-1'' ''c1'' ''k1'' ''execution_report'' demo_delivered =
    (Inr (cm_command_json demo_collection), demo_delivered)"
  by (simp add: validate_binding_def active_agent_def demo_agent_def demo_collection_def check_correlation_def check_kind_def
      command_field_def KINDS_def bindM_raise_if) (simp add: bindM_def)

lemma demo_retained:
  "\<exists>d. retain_signed evidence_env ''agent-1'' ''c1'' demo_manifest ''e30='' None demo_delivered = (Inr (receipt demo_upload), d)"
proof -
  have "audit_inv (sha256 evidence_env) demo_delivered"
    using audit_inv_empty [of "sha256 evidence_env"] audit_inv_at_cong [of demo_delivered empty_db] by (simp add: audit_inv_def)
  moreover have "validate_binding ''agent-1'' ''c1'' (up_host_id demo_upload) (up_command_id demo_upload) (up_correlation_id demo_upload)
      (up_kind demo_upload) demo_delivered = (Inr (cm_command_json demo_collection), demo_delivered)"
    using demo_binding by (simp add: demo_upload_def)
  moreover have "check_quota evidence_env ''c1'' (int (length ''{}'')) x demo_delivered = (Inr (), demo_delivered)" for x
    by (simp add: check_quota_def command_count_def command_bytes_def command_artifacts_def command_sessions_def used_count_def
        used_bytes_def storage_quota_def MAX_COMMAND_COUNT_def MAX_COMMAND_BYTES_def MAX_GLOBAL_COUNT_def MAX_GLOBAL_BYTES_def
        MAX_CONTENT_def bindM_raise_if) (simp add: bindM_def raise_if_def)
  moreover have "validate_retained_manifest evidence_env demo_manifest ''c1'' x = (Inr False, x)" if "commands x = commands demo_delivered" for x
    using that by (simp add: validate_retained_manifest_def demo_collection_def command_field_def demo_manifest_def)
  ultimately show ?thesis
    using retain_signed_runs [OF _ _ _ demo_manifest_verified _ demo_upload_of demo_content] by (simp add: demo_collection_def) blast
qed

theorem evidence_needs_its_signature_witness:
  "\<exists>d a. retain_signed evidence_env ''agent-1'' ''c1'' demo_manifest ''e30='' None demo_delivered = (Inr (receipt demo_upload), d) \<and>
    response_artifacts d = [a] \<and> ar_content a = ''{}'' \<and> length (artifact_manifest_attestations d) = 1"
proof -
  obtain d where run: "retain_signed evidence_env ''agent-1'' ''c1'' demo_manifest ''e30='' None demo_delivered = (Inr (receipt demo_upload), d)"
    using demo_retained by blast
  have "find_by at_artifact_id (mf_artifact_id demo_manifest) (artifact_manifest_attestations demo_delivered) = None" by simp
  from evidence_needs_its_signature [OF run this] have "\<exists>a k. response_artifacts d = [a] \<and> b64decode ''e30='' = Some (ar_content a) \<and>
      artifact_manifest_attestations d = [attestation_of evidence_env ''agent-1'' demo_manifest k]" by auto
  moreover have "b64decode ''e30='' = Some ''{}''" by code_simp
  ultimately show ?thesis using run by auto
qed

end
