(* ===== verification/Transfers.thy ===== *)
theory Transfers
  imports Artifacts
begin

text \<open>
  \<^verbatim>\<open>manager/artifact_transfers.py\<close> and \<^verbatim>\<open>manager/routers/artifact_transfers.py\<close>: resumable uploads. A signed
  manifest is admitted and reserves its bytes; its content arrives in frames of 64 KiB, in order, each under its digest;
  completion joins them and retains the evidence. A session that is not finished within a day expires.
\<close>

section \<open>Sessions\<close>

definition CHUNK_BYTES :: int where
  "CHUNK_BYTES = 65536"

definition MAX_OPEN :: int where
  "MAX_OPEN = 128"

definition MAX_AGENT_OPEN :: int where
  "MAX_AGENT_OPEN = 4"

text \<open>\<open>SESSION_LIFETIME\<close> in microseconds.\<close>

definition SESSION_LIFETIME :: int where
  "SESSION_LIFETIME = 24 * 3600 * 1000000"

text \<open>The bodies \<open>Admission\<close> and \<open>Completion\<close>.\<close>

definition parse_admission :: "env \<Rightarrow> json \<Rightarrow> manifest option" where
  "parse_admission e v =
    (case v of
       JObj body \<Rightarrow>
         if only_keys [''schema_version'', ''manifest''] body \<and> jget ''schema_version'' body = JStr ''1'' \<and> has_key ''manifest'' body
         then make_manifest e (jget ''manifest'' body) else None
     | _ \<Rightarrow> None)"

definition parse_completion :: "json \<Rightarrow> string option" where
  "parse_completion v =
    (case v of
       JObj body \<Rightarrow>
         if only_keys [''schema_version'', ''manifest_sha256''] body \<and> jget ''schema_version'' body = JStr ''1''
         then (case jstr (jget ''manifest_sha256'' body) of Some t \<Rightarrow> if hex_text 64 t then Some t else None | None \<Rightarrow> None)
         else None
     | _ \<Rightarrow> None)"

definition manifest_digest :: "env \<Rightarrow> manifest \<Rightarrow> string" where
  "manifest_digest e m = sha256 e (canonical (JObj (dump_manifest m)))"

text \<open>\<open>_record\<close>: about an artifact, its command and its host.\<close>

definition record_transfer :: "env \<Rightarrow> string \<Rightarrow> string \<Rightarrow> string \<Rightarrow> string \<Rightarrow> string \<Rightarrow> jobj \<Rightarrow> (db, unit) act" where
  "record_transfer e artifact_id command_id host event actor detail =
    bindM (gets (\<lambda>d. request_of_command d command_id)) (\<lambda>request.
    record_event e event actor (Some host) request
      ([(''artifact_id'', JStr artifact_id), (''command_id'', JStr command_id)] @ detail))"

definition progress :: "env \<Rightarrow> manifest \<Rightarrow> int \<Rightarrow> string option \<Rightarrow> bool \<Rightarrow> jobj" where
  "progress e m received expires_at complete =
    [(''schema_version'', JStr ''1''), (''artifact_id'', JStr (mf_artifact_id m)), (''sha256'', JStr (mf_sha256 m)),
     (''manifest_sha256'', JStr (manifest_digest e m)), (''received_bytes'', JInt received), (''chunk_bytes'', JInt CHUNK_BYTES),
     (''complete'', JBool complete), (''expires_at'', if complete then JNull else jopt expires_at)]"

text \<open>
  The table \<open>response_artifact_transfers\<close>: its checks, the triggers that keep its counters, and
  \<open>artifact_transfer_identity_immutable\<close>.
\<close>

definition reserved :: "transfer_row \<Rightarrow> int" where
  "reserved t = (if open_session t then tf_content_bytes t else 0)"

definition opened :: "transfer_row \<Rightarrow> int" where
  "opened t = (if open_session t then 1 else 0)"

definition transfer_checks :: "transfer_row \<Rightarrow> bool" where
  "transfer_checks t \<longleftrightarrow> 1 \<le> tf_content_bytes t \<and> tf_content_bytes t \<le> 1048576 \<and>
     0 \<le> tf_received_bytes t \<and> tf_received_bytes t \<le> tf_content_bytes t"

definition insert_transfer :: "transfer_row \<Rightarrow> (db, unit) act" where
  "insert_transfer t = bindM (gets (\<lambda>d. d)) (\<lambda>d.
     let u = response_artifact_transfer_usage d in
     seqM (raise_if (tf_artifact_id t \<in> tf_artifact_id ` set (response_artifact_transfers d) \<or>
                     tf_command_id t \<notin> cm_command_id ` set (commands d) \<or> \<not> transfer_checks t) IntegrityError)
     (modify (\<lambda>d. d\<lparr>response_artifact_transfers := response_artifact_transfers d @ [t],
        response_artifact_transfer_usage :=
          \<lparr>tu_reserved_bytes = tu_reserved_bytes u + reserved t, tu_open_sessions = tu_open_sessions u + opened t,
           tu_total_sessions = tu_total_sessions u + 1\<rparr>\<rparr>)))"

definition transfer_frozen :: "transfer_row \<Rightarrow> transfer_row \<Rightarrow> bool" where
  "transfer_frozen t t' \<longleftrightarrow>
    tf_artifact_id t' = tf_artifact_id t \<and> tf_agent_id t' = tf_agent_id t \<and> tf_command_id t' = tf_command_id t \<and>
    tf_host_id t' = tf_host_id t \<and> tf_manifest_json t' = tf_manifest_json t \<and>
    tf_manifest_sha256 t' = tf_manifest_sha256 t \<and> tf_content_bytes t' = tf_content_bytes t"

definition update_transfer :: "string \<Rightarrow> (transfer_row \<Rightarrow> transfer_row) \<Rightarrow> (db, unit) act" where
  "update_transfer artifact_id f = bindM (gets (\<lambda>d. d)) (\<lambda>d.
     case find_by tf_artifact_id artifact_id (response_artifact_transfers d) of
       None \<Rightarrow> ret ()
     | Some t \<Rightarrow>
         let u = response_artifact_transfer_usage d;
             u' = u\<lparr>tu_reserved_bytes := tu_reserved_bytes u - reserved t + reserved (f t),
                    tu_open_sessions := tu_open_sessions u - opened t + opened (f t)\<rparr>
         in seqM (raise_if (\<not> transfer_frozen t (f t) \<or> \<not> transfer_checks (f t) \<or>
                            tu_reserved_bytes u' < 0 \<or> tu_open_sessions u' < 0) IntegrityError)
            (modify (\<lambda>d. d\<lparr>response_artifact_transfers := update_where (\<lambda>x. tf_artifact_id x = artifact_id) f (response_artifact_transfers d),
               response_artifact_transfer_usage := u'\<rparr>)))"

text \<open>The table \<open>response_artifact_chunks\<close>.\<close>

definition insert_chunk :: "chunk_row \<Rightarrow> (db, unit) act" where
  "insert_chunk c = bindM (gets (\<lambda>d. d)) (\<lambda>d.
     seqM (raise_if ((ch_artifact_id c, ch_offset c) \<in> (\<lambda>x. (ch_artifact_id x, ch_offset x)) ` set (response_artifact_chunks d) \<or>
                     ch_artifact_id c \<notin> tf_artifact_id ` set (response_artifact_transfers d) \<or>
                     ch_offset c < 0 \<or> 1048575 < ch_offset c \<or> ch_content c = [] \<or> 65536 < length (ch_content c)) IntegrityError)
     (modify (\<lambda>d. d\<lparr>response_artifact_chunks := response_artifact_chunks d @ [c]\<rparr>)))"

definition delete_chunks :: "string \<Rightarrow> (db, unit) act" where
  "delete_chunks artifact_id = modify (\<lambda>d. d\<lparr>response_artifact_chunks :=
     filter (\<lambda>c. ch_artifact_id c \<noteq> artifact_id) (response_artifact_chunks d)\<rparr>)"

definition chunks_of :: "db \<Rightarrow> string \<Rightarrow> chunk_row list" where
  "chunks_of d artifact_id = order_by ch_offset (filter (\<lambda>c. ch_artifact_id c = artifact_id) (response_artifact_chunks d))"

section \<open>Expiry\<close>

definition chunk_json :: "chunk_row \<Rightarrow> json" where
  "chunk_json c = JObj [(''offset'', JInt (ch_offset c)), (''sha256'', JStr (ch_sha256 c)),
     (''content_bytes'', JInt (int (length (ch_content c))))]"

definition expire_one :: "env \<Rightarrow> transfer_row \<Rightarrow> (db, unit) act" where
  "expire_one e t =
    bindM (gets (\<lambda>d. map chunk_json (chunks_of d (tf_artifact_id t)))) (\<lambda>hashes.
    seqM (record_transfer e (tf_artifact_id t) (tf_command_id t) (tf_host_id t) ''artifact_transfer_expired''
            ''system:artifact-transfer''
            [(''received_bytes'', JInt (tf_received_bytes t)), (''partial_chunks'', JArr hashes),
             (''unverified_partial_bytes_discarded'', JBool True)])
    (seqM (delete_chunks (tf_artifact_id t))
    (update_transfer (tf_artifact_id t) (\<lambda>x. x\<lparr>tf_state := SESSION_EXPIRED, tf_received_bytes := 0\<rparr>))))"

definition overdue :: "env \<Rightarrow> db \<Rightarrow> transfer_row list" where
  "overdue e d = take (nat MAX_OPEN) (order_by tf_expires_at
     (filter (\<lambda>t. open_session t \<and> tf_expires_at t \<le> iso_now e) (response_artifact_transfers d)))"

definition expire :: "env \<Rightarrow> (db, unit) act" where
  "expire e = bindM (gets (overdue e)) (forM (expire_one e))"

section \<open>Admission\<close>

text \<open>\<open>_retained\<close>: what a retry of the manifest finds in the store; its receipt, when it is there.\<close>

definition again :: "env \<Rightarrow> string \<Rightarrow> string \<Rightarrow> jobj \<Rightarrow> string \<times> string \<Rightarrow> (db, jobj option) act" where
  "again e agent_id command_id manifest = (\<lambda>(content, manifest_json).
    seqM (raise_if (manifest_json \<noteq> canonical (JObj manifest))
            (HTTPException 409 ''artifact identity already binds another signed manifest''))
    (bindM (require_some (parse_signed_upload e
              (JObj [(''manifest'', JObj manifest), (''content_base64'', JStr (b64encode content))])) ValidationError) (\<lambda>p.
     bindM (retain_signed e agent_id command_id (fst p) (snd p) None) (\<lambda>r. ret (Some r)))))"

definition retained_content :: "db \<Rightarrow> json \<Rightarrow> (string \<times> string) option" where
  "retained_content d artifact_id =
    (case (List.find (\<lambda>a. JStr (ar_artifact_id a) = artifact_id) (response_artifacts d),
           List.find (\<lambda>t. JStr (at_artifact_id t) = artifact_id) (artifact_manifest_attestations d)) of
       (Some a, Some t) \<Rightarrow> Some (ar_content a, at_manifest_json t)
     | _ \<Rightarrow> None)"

definition retained :: "env \<Rightarrow> string \<Rightarrow> string \<Rightarrow> jobj \<Rightarrow> (db, jobj option) act" where
  "retained e agent_id command_id manifest =
    bindM (command_field ''artifact_id'' manifest) (\<lambda>i.
    bindM (gets (\<lambda>d. retained_content d i)) (\<lambda>row.
    case row of None \<Rightarrow> ret None | Some p \<Rightarrow> again e agent_id command_id manifest p))"

definition agent_sessions :: "db \<Rightarrow> string \<Rightarrow> int" where
  "agent_sessions d agent_id =
    int (length (filter (\<lambda>t. tf_agent_id t = agent_id \<and> open_session t) (response_artifact_transfers d)))"

definition no_budget :: exn where
  "no_budget = HTTPException 507 ''artifact transfer budget exhausted; retained evidence preserved''"

definition reserve :: "env \<Rightarrow> manifest \<Rightarrow> bool \<Rightarrow> (db, unit) act" where
  "reserve e m existing =
    bindM (gets (\<lambda>d. agent_sessions d (mf_agent_id m) \<ge> MAX_AGENT_OPEN \<or>
                     tu_open_sessions (response_artifact_transfer_usage d) \<ge> MAX_OPEN \<or>
                     (\<not> existing \<and> tu_total_sessions (response_artifact_transfer_usage d) \<ge> MAX_GLOBAL_COUNT))) (\<lambda>full.
    seqM (raise_if full no_budget)
    (check_quota e (mf_command_id m) (mf_content_bytes m) no_budget))"

definition new_session :: "env \<Rightarrow> string \<Rightarrow> string \<Rightarrow> manifest \<Rightarrow> string \<Rightarrow> transfer_row" where
  "new_session e agent_id command_id m expiry =
    \<lparr>tf_artifact_id = mf_artifact_id m, tf_agent_id = agent_id, tf_command_id = command_id, tf_host_id = mf_host_id m,
     tf_manifest_json = canonical (JObj (dump_manifest m)), tf_manifest_sha256 = manifest_digest e m,
     tf_content_bytes = mf_content_bytes m, tf_received_bytes = 0, tf_state = SESSION_OPEN, tf_admitted_at = iso_now e,
     tf_expires_at = expiry\<rparr>"

definition reopened :: "env \<Rightarrow> string \<Rightarrow> transfer_row \<Rightarrow> transfer_row" where
  "reopened e expiry t =
    t\<lparr>tf_state := SESSION_OPEN, tf_received_bytes := 0, tf_admitted_at := iso_now e, tf_expires_at := expiry\<rparr>"

definition open_transfer :: "env \<Rightarrow> string \<Rightarrow> string \<Rightarrow> manifest \<Rightarrow> bool \<Rightarrow> (db, jobj) act" where
  "open_transfer e agent_id command_id m existing =
    (let expiry = iso_at (of_micros (micros (now e) + SESSION_LIFETIME)) in
     seqM (reserve e m existing)
     (seqM (if existing then update_transfer (mf_artifact_id m) (reopened e expiry)
            else insert_transfer (new_session e agent_id command_id m expiry))
     (seqM (record_transfer e (mf_artifact_id m) (mf_command_id m) (mf_host_id m) ''artifact_transfer_admitted'' (''agent:'' @ agent_id)
             [(''manifest_sha256'', JStr (manifest_digest e m)), (''content_bytes'', JInt (mf_content_bytes m)),
              (''expires_at'', JStr expiry), (''restart_after_expiry'', JBool existing)])
     (ret (progress e m 0 (Some expiry) False)))))"

text \<open>What remains of \<open>admit\<close> when the evidence is not retained yet.\<close>

definition admit_session :: "env \<Rightarrow> string \<Rightarrow> string \<Rightarrow> manifest \<Rightarrow> transfer_row option \<Rightarrow> (db, jobj) act" where
  "admit_session e agent_id command_id m prior =
    seqM (verify_manifest e agent_id m (case prior of Some t \<Rightarrow> if open_session t then Some (tf_admitted_at t) else None | None \<Rightarrow> None))
    (case prior of
       Some t \<Rightarrow>
         if open_session t then ret (progress e m (tf_received_bytes t) (Some (tf_expires_at t)) False)
         else
           seqM (raise_if (tf_state t = SESSION_COMPLETE) (HTTPException 503 ''completed artifact retention is unavailable''))
           (bindM (gets (\<lambda>d. mf_artifact_id m \<in> ar_artifact_id ` set (response_artifacts d))) (\<lambda>held.
            seqM (raise_if held (HTTPException 409 ''unsigned evidence cannot become signed transfer provenance''))
            (open_transfer e agent_id command_id m True)))
     | None \<Rightarrow>
         bindM (gets (\<lambda>d. mf_artifact_id m \<in> ar_artifact_id ` set (response_artifacts d))) (\<lambda>held.
         seqM (raise_if held (HTTPException 409 ''unsigned evidence cannot become signed transfer provenance''))
         (open_transfer e agent_id command_id m False)))"

definition admit_artifact :: "env \<Rightarrow> string \<Rightarrow> string \<Rightarrow> manifest \<Rightarrow> (db, jobj) act" where
  "admit_artifact e agent_id command_id m =
    seqM (validate_binding agent_id command_id (mf_host_id m) (mf_command_id m) (mf_correlation_id m) (mf_kind m))
    (seqM (expire e)
    (bindM (gets (\<lambda>d. find_by tf_artifact_id (mf_artifact_id m) (response_artifact_transfers d))) (\<lambda>prior.
     seqM (raise_if (case prior of None \<Rightarrow> False | Some t \<Rightarrow> tf_manifest_json t \<noteq> canonical (JObj (dump_manifest m)))
             (HTTPException 409 ''transfer retry identity binds another signed manifest''))
     (bindM (retained e agent_id command_id (dump_manifest m)) (\<lambda>kept.
      if kept \<noteq> None then ret (progress e m (mf_content_bytes m) None True)
      else admit_session e agent_id command_id m prior)))))"

section \<open>Frames\<close>

definition load_transfer :: "env \<Rightarrow> string \<Rightarrow> string \<Rightarrow> string \<Rightarrow> (db, transfer_row \<times> manifest) act" where
  "load_transfer e agent_id command_id artifact_id =
    bindM (gets (\<lambda>d. List.find (\<lambda>t. tf_artifact_id t = artifact_id \<and> tf_agent_id t = agent_id \<and> tf_command_id t = command_id)
             (response_artifact_transfers d))) (\<lambda>found.
    bindM (require_some found (HTTPException 404 ''owned artifact transfer unavailable'')) (\<lambda>t.
    bindM (require_some (json_loads (tf_manifest_json t)) (ValueError ''Expecting value'')) (\<lambda>v.
    bindM (require_some (make_manifest e v) ValidationError) (\<lambda>m.
    seqM (validate_binding agent_id command_id (mf_host_id m) (mf_command_id m) (mf_correlation_id m) (mf_kind m))
    (seqM (verify_manifest e agent_id m (Some (tf_admitted_at t)))
    (bindM (if open_session t then bindM (server_time (tf_expires_at t)) (\<lambda>x. ret (micros x \<le> micros (now e)))
            else ret (tf_state t = SESSION_EXPIRED)) (\<lambda>expired.
     seqM (raise_if expired (HTTPException 409 ''artifact session expired; readmit the original manifest''))
     (ret (t, m)))))))))"

text \<open>A frame of a finished artifact is compared with what was retained.\<close>

definition frame_of_retained :: "env \<Rightarrow> manifest \<Rightarrow> string \<Rightarrow> int \<Rightarrow> string \<Rightarrow> (db, jobj) act" where
  "frame_of_retained e m artifact_id offset data =
    bindM (gets (\<lambda>d. find_by ar_artifact_id artifact_id (response_artifacts d))) (\<lambda>found.
    seqM (raise_if (case found of None \<Rightarrow> True | Some a \<Rightarrow> take (length data) (drop (nat offset) (ar_content a)) \<noteq> data)
            (HTTPException 409 ''completed artifact chunk retry disagrees''))
    (ret (progress e m (mf_content_bytes m) None True)))"

definition accept_frame :: "env \<Rightarrow> string \<Rightarrow> transfer_row \<Rightarrow> manifest \<Rightarrow> string \<Rightarrow> int \<Rightarrow> string \<Rightarrow> string \<Rightarrow> (db, jobj) act" where
  "accept_frame e agent_id t m artifact_id offset dig data =
    seqM (raise_if (offset \<noteq> tf_received_bytes t)
            (HTTPException 409 ''artifact chunk is out of order; resume from durable offset''))
    (seqM (insert_chunk \<lparr>ch_artifact_id = artifact_id, ch_offset = offset, ch_sha256 = dig, ch_content = data\<rparr>)
    (seqM (update_transfer artifact_id (\<lambda>x. x\<lparr>tf_received_bytes := offset + int (length data)\<rparr>))
    (seqM (record_transfer e (tf_artifact_id t) (tf_command_id t) (tf_host_id t) ''artifact_chunk_transferred'' (''agent:'' @ agent_id)
            [(''offset'', JInt offset), (''content_bytes'', JInt (int (length data))), (''chunk_sha256'', JStr dig)])
    (ret (progress e m (offset + int (length data)) (Some (tf_expires_at t)) False)))))"

definition frame_of_session :: "env \<Rightarrow> string \<Rightarrow> transfer_row \<Rightarrow> manifest \<Rightarrow> string \<Rightarrow> int \<Rightarrow> string \<Rightarrow> string \<Rightarrow> (db, jobj) act" where
  "frame_of_session e agent_id t m artifact_id offset dig data =
    bindM (gets (\<lambda>d. List.find (\<lambda>c. ch_artifact_id c = artifact_id \<and> ch_offset c = offset) (response_artifact_chunks d))) (\<lambda>previous.
    case previous of
      Some c \<Rightarrow>
        seqM (raise_if (ch_sha256 c \<noteq> dig \<or> ch_content c \<noteq> data)
                (HTTPException 409 ''artifact chunk retry changes accepted bytes''))
        (ret (progress e m (tf_received_bytes t) (Some (tf_expires_at t)) False))
    | None \<Rightarrow> accept_frame e agent_id t m artifact_id offset dig data)"

definition put_chunk :: "env \<Rightarrow> string \<Rightarrow> string \<Rightarrow> string \<Rightarrow> int \<Rightarrow> string \<Rightarrow> string \<Rightarrow> (db, jobj) act" where
  "put_chunk e agent_id command_id artifact_id offset dig data =
    bindM (load_transfer e agent_id command_id artifact_id) (\<lambda>(t, m).
    seqM (raise_if (data = [] \<or> CHUNK_BYTES < int (length data) \<or> sha256 e data \<noteq> dig)
            (HTTPException 422 ''artifact chunk size or digest disagrees''))
    (let expected_length = min CHUNK_BYTES (mf_content_bytes m - offset) in
     seqM (raise_if (offset < 0 \<or> offset mod CHUNK_BYTES \<noteq> 0 \<or> expected_length \<le> 0 \<or> int (length data) \<noteq> expected_length)
             (HTTPException 422 ''artifact chunk boundary disagrees''))
     (if tf_state t = SESSION_COMPLETE then frame_of_retained e m artifact_id offset data
      else frame_of_session e agent_id t m artifact_id offset dig data)))"

section \<open>Completion\<close>

definition disagrees :: "env \<Rightarrow> manifest \<Rightarrow> string \<Rightarrow> ('s, unit) act" where
  "disagrees e m manifest_sha256 =
    raise_if (manifest_digest e m \<noteq> manifest_sha256) (HTTPException 409 ''artifact completion manifest disagrees'')"

definition join_frames :: "db \<Rightarrow> string \<Rightarrow> string" where
  "join_frames d artifact_id = concat (map ch_content (chunks_of d artifact_id))"

definition finish :: "env \<Rightarrow> string \<Rightarrow> string \<Rightarrow> string \<Rightarrow> transfer_row \<Rightarrow> manifest \<Rightarrow> (db, jobj) act" where
  "finish e agent_id command_id artifact_id t m =
    seqM (raise_if (tf_received_bytes t \<noteq> mf_content_bytes m) (HTTPException 409 ''artifact transfer is incomplete''))
    (bindM (gets (\<lambda>d. join_frames d artifact_id)) (\<lambda>content.
     seqM (update_transfer artifact_id (\<lambda>x. x\<lparr>tf_state := SESSION_COMPLETE\<rparr>))
     (bindM (require_some (parse_signed_upload e
               (JObj [(''manifest'', JObj (dump_manifest m)), (''content_base64'', JStr (b64encode content))])) ValidationError) (\<lambda>p.
      bindM (retain_signed e agent_id command_id (fst p) (snd p) (Some (tf_admitted_at t))) (\<lambda>r.
      seqM (delete_chunks artifact_id)
      (seqM (record_transfer e (tf_artifact_id t) (tf_command_id t) (tf_host_id t) ''artifact_transfer_completed'' (''agent:'' @ agent_id)
              [(''content_bytes'', JInt (int (length content))), (''sha256'', JStr (mf_sha256 m))])
      (ret r)))))))"

text \<open>Without a session, a one-shot upload may have retained the same manifest: its attestation holds it.\<close>

definition complete_retained :: "env \<Rightarrow> string \<Rightarrow> string \<Rightarrow> string \<Rightarrow> string \<Rightarrow> (db, jobj option) act" where
  "complete_retained e agent_id command_id artifact_id manifest_sha256 =
    bindM (gets (\<lambda>d. find_by at_artifact_id artifact_id (artifact_manifest_attestations d))) (\<lambda>found.
    bindM (require_some found (HTTPException 404 ''artifact transfer unavailable'')) (\<lambda>t.
    bindM (require_some (json_loads (at_manifest_json t)) (ValueError ''Expecting value'')) (\<lambda>v.
    seqM (raise_if (sha256 e (canonical v) \<noteq> manifest_sha256) (HTTPException 409 ''artifact completion manifest disagrees''))
    (case v of JObj manifest \<Rightarrow> retained e agent_id command_id manifest | _ \<Rightarrow> throw (TypeError ''artifact_id'')))))"

definition complete :: "env \<Rightarrow> string \<Rightarrow> string \<Rightarrow> string \<Rightarrow> string \<Rightarrow> (db, jobj option) act" where
  "complete e agent_id command_id artifact_id manifest_sha256 =
    bindM (gets (\<lambda>d. find_by tf_artifact_id artifact_id (response_artifact_transfers d))) (\<lambda>found.
    if found = None then complete_retained e agent_id command_id artifact_id manifest_sha256
    else
      bindM (load_transfer e agent_id command_id artifact_id) (\<lambda>(t, m).
      seqM (disagrees e m manifest_sha256)
      (if tf_state t = SESSION_COMPLETE
       then bindM (retained e agent_id command_id (dump_manifest m)) (\<lambda>r.
            bindM (require_some r (HTTPException 503 ''completed artifact retention is unavailable'')) (\<lambda>r. ret (Some r)))
       else bindM (finish e agent_id command_id artifact_id t m) (\<lambda>r. ret (Some r)))))"

section \<open>The requests\<close>

text \<open>
  The command of the request with the response that asked for it, for the record of a refusal.
\<close>

definition refused_about :: "db \<Rightarrow> string \<Rightarrow> string \<Rightarrow> string option \<times> string option" where
  "refused_about d agent_id command_id =
    (case List.find (\<lambda>c. cm_command_id c = command_id \<and> cm_agent_id c = agent_id) (commands d) of
       None \<Rightarrow> (None, None)
     | Some c \<Rightarrow> (jstr (jget ''host_id'' (cm_command_json c)), request_of_command d command_id))"

definition record_refusal :: "env \<Rightarrow> string \<Rightarrow> string \<Rightarrow> string \<Rightarrow> string \<Rightarrow> (db, unit) act" where
  "record_refusal e event agent_id command_id detail =
    bindM (gets (\<lambda>d. refused_about d agent_id command_id)) (\<lambda>(host, request).
    record_event e event (''agent:'' @ agent_id) host request
      [(''command_id'', JStr command_id), (''reason'', JStr detail)])"

text \<open>\<open>operation\<close> with the \<open>begin\<close> of its body; a refusal still expires sessions, as the quota it met may be theirs.\<close>

definition transfer_operation :: "env \<Rightarrow> string \<Rightarrow> string \<Rightarrow> string option \<Rightarrow> (db, 'b) act \<Rightarrow> ('b \<Rightarrow> (db, 'a) act) \<Rightarrow> (db, 'a) act" where
  "transfer_operation e agent_id command_id authorization read body =
    seqM (require_agent_token e agent_id authorization)
    (seqM (raise_if (\<not> upload_slot e) (HTTPException 429 ''artifact capacity busy; retain original and retry''))
    (recording_refusals (\<lambda>detail. seqM (expire e) (record_refusal e ''artifact_transfer_refused'' agent_id command_id detail))
      (bindM read (\<lambda>v. seqM (require_agent_token e agent_id authorization) (body v)))))"

text \<open>\<open>body\<close> and \<open>document\<close>: the media type up to a semicolon, the size, and the closed JSON document.\<close>

definition request_body :: "string \<Rightarrow> string \<Rightarrow> int \<Rightarrow> string \<Rightarrow> ('s, string) act" where
  "request_body content_type media_type maximum data =
    seqM (raise_if (map lower_char (takeWhile (\<lambda>c. c \<noteq> CHR '';'') content_type) \<noteq> media_type)
            (HTTPException 422 ''artifact transfer content type disagrees''))
    (seqM (raise_if (maximum < int (length data)) (HTTPException 413 ''artifact transfer body exceeds bound''))
    (ret data))"

definition document :: "string \<Rightarrow> (json \<Rightarrow> 'a option) \<Rightarrow> int \<Rightarrow> string \<Rightarrow> ('s, 'a) act" where
  "document content_type parse maximum data =
    bindM (request_body content_type ''application/json'' maximum data) (\<lambda>t.
    require_some (if valid_utf8 t then Option.bind (strict_json t) parse else None)
      (HTTPException 422 ''invalid closed artifact transfer request''))"

definition admit_transfer :: "env \<Rightarrow> string \<Rightarrow> string \<Rightarrow> string \<Rightarrow> string \<Rightarrow> string option \<Rightarrow> (db, jobj) act" where
  "admit_transfer e agent_id command_id content_type data authorization =
    transfer_operation e agent_id command_id authorization (document content_type (parse_admission e) 8192 data)
      (admit_artifact e agent_id command_id)"

definition put_transfer_chunk ::
  "env \<Rightarrow> string \<Rightarrow> string \<Rightarrow> string \<Rightarrow> int \<Rightarrow> string \<Rightarrow> string \<Rightarrow> string \<Rightarrow> string option \<Rightarrow> (db, jobj) act" where
  "put_transfer_chunk e agent_id command_id artifact_id offset dig content_type data authorization =
    seqM (raise_if (\<not> artifact_id_text artifact_id \<or> offset < 0 \<or> 1048575 < offset \<or> \<not> hex_text 64 dig) ValidationError)
    (transfer_operation e agent_id command_id authorization (request_body content_type ''application/octet-stream'' CHUNK_BYTES data)
      (put_chunk e agent_id command_id artifact_id offset dig))"

definition complete_transfer ::
  "env \<Rightarrow> string \<Rightarrow> string \<Rightarrow> string \<Rightarrow> string \<Rightarrow> string \<Rightarrow> string option \<Rightarrow> (db, jobj option) act" where
  "complete_transfer e agent_id command_id artifact_id content_type data authorization =
    seqM (raise_if (\<not> artifact_id_text artifact_id) ValidationError)
    (transfer_operation e agent_id command_id authorization (document content_type parse_completion 1024 data)
      (complete e agent_id command_id artifact_id))"

section \<open>The contracts\<close>

lemmas transfer_defs = admit_artifact_def admit_session_def open_transfer_def reserve_def retained_def again_def put_chunk_def frame_of_retained_def
  frame_of_session_def accept_frame_def complete_def complete_retained_def finish_def disagrees_def load_transfer_def expire_def
  expire_one_def record_transfer_def command_field_def

lemmas table_defs = insert_transfer_def update_transfer_def insert_chunk_def delete_chunks_def

lemma stays_case_object:
  "(\<And>d. stays R (f d)) \<Longrightarrow> stays R m \<Longrightarrow> stays R (case v of JObj d \<Rightarrow> f d | _ \<Rightarrow> m)"
  by (cases v) simp_all

lemma serves_tables:
  "stays (serves e) (insert_transfer t)" "stays (serves e) (update_transfer i f)" "stays (serves e) (insert_chunk c)"
  "stays (serves e) (delete_chunks i)"
  unfolding table_defs Let_def
  by (intro serves.stays_structural serves_modify stays_cases; simp add: outside_plane_def tables_same_def)+

lemma serves_transfers:
  "stays (serves e) (expire e)" "stays (serves e) (admit_artifact e agent_id command_id m)"
  "stays (serves e) (put_chunk e agent_id command_id artifact_id offset dig data)"
  "stays (serves e) (complete e agent_id command_id artifact_id manifest_sha256)"
  unfolding transfer_defs Let_def
  by (intro serves.stays_structural serves_tables serves_binding serves_retain_signed serves_server_time serves_writers
      stays_case_object stays_cases)+

lemma keys_kept_tables:
  "stays keys_kept (insert_transfer t)" "stays keys_kept (update_transfer i f)" "stays keys_kept (insert_chunk c)"
  "stays keys_kept (delete_chunks i)"
  unfolding table_defs Let_def
  by (intro keys_kept.stays_structural keys_kept_modify stays_cases; simp)+

lemma keys_kept_server_time: "stays keys_kept (server_time t)"
  unfolding server_time_def by (intro keys_kept.stays_structural)

lemma keys_kept_transfers:
  "stays keys_kept (expire e)" "stays keys_kept (admit_artifact e agent_id command_id m)"
  "stays keys_kept (put_chunk e agent_id command_id artifact_id offset dig data)"
  "stays keys_kept (complete e agent_id command_id artifact_id manifest_sha256)"
  unfolding transfer_defs Let_def
  by (intro keys_kept.stays_structural keys_kept_tables keys_kept_binding keys_kept_retain_signed keys_kept_server_time
      keys_kept.writers stays_case_object stays_cases)+

text \<open>What a relation needs to respect every request of a transfer.\<close>

context frame
begin

lemma stays_request_body: "stays R (request_body content_type media_type maximum data)"
  unfolding request_body_def by (intro stays_structural)

lemma stays_document: "stays R (document content_type parse maximum data)"
  unfolding document_def by (intro stays_structural stays_request_body)

end

lemma serves_refusal: "stays (serves e) (record_refusal e event agent_id command_id detail)"
  unfolding record_refusal_def by (intro serves.stays_structural serves_writers stays_cases)

lemma serves_operation:
  "(\<And>v. stays (serves e) (body v)) \<Longrightarrow> stays (serves e) read \<Longrightarrow> stays (serves e) (transfer_operation e agent_id command_id auth read body)"
  unfolding transfer_operation_def
  by (intro serves.stays_structural serves.stays_recording serves_checks serves_transfers serves_refusal)

lemma serves_transfer_requests:
  "stays (serves e) (admit_transfer e agent_id command_id content_type data auth)"
  "stays (serves e) (put_transfer_chunk e agent_id command_id artifact_id offset dig content_type data auth)"
  "stays (serves e) (complete_transfer e agent_id command_id artifact_id content_type data auth)"
  unfolding admit_transfer_def put_transfer_chunk_def complete_transfer_def
  by (intro serves.stays_structural serves_operation serves_transfers serves.stays_document serves.stays_request_body)+

lemma keys_kept_operation:
  "(\<And>v. stays keys_kept (body v)) \<Longrightarrow> stays keys_kept read \<Longrightarrow> stays keys_kept (transfer_operation e agent_id command_id auth read body)"
  unfolding transfer_operation_def record_refusal_def
  by (intro keys_kept.stays_structural keys_kept.stays_recording keys_kept_checks keys_kept_transfers keys_kept.writers stays_cases)

lemma keys_kept_transfer_requests:
  "stays keys_kept (admit_transfer e agent_id command_id content_type data auth)"
  "stays keys_kept (put_transfer_chunk e agent_id command_id artifact_id offset dig content_type data auth)"
  "stays keys_kept (complete_transfer e agent_id command_id artifact_id content_type data auth)"
  unfolding admit_transfer_def put_transfer_chunk_def complete_transfer_def
  by (intro keys_kept.stays_structural keys_kept_operation keys_kept_transfers keys_kept.stays_document keys_kept.stays_request_body)+

section \<open>Sessions and their counters\<close>

definition held_frames :: "db \<Rightarrow> string \<Rightarrow> chunk_row list" where
  "held_frames d artifact_id = filter (\<lambda>c. ch_artifact_id c = artifact_id) (response_artifact_chunks d)"

text \<open>Frames from \<open>n\<close> on, without gap or overlap, each under its digest.\<close>

fun contiguous :: "(string \<Rightarrow> string) \<Rightarrow> int \<Rightarrow> chunk_row list \<Rightarrow> bool" where
  "contiguous h n [] = True"
| "contiguous h n (c # cs) = (ch_offset c = n \<and> ch_sha256 c = h (ch_content c) \<and> ch_content c \<noteq> [] \<and>
     contiguous h (n + int (length (ch_content c))) cs)"

definition received :: "chunk_row list \<Rightarrow> string" where
  "received cs = concat (map ch_content cs)"

text \<open>An open session holds the frames it counts, an expired one none.\<close>

definition frames_sound :: "(string \<Rightarrow> string) \<Rightarrow> db \<Rightarrow> transfer_row \<Rightarrow> bool" where
  "frames_sound h d t \<longleftrightarrow>
     (tf_state t = SESSION_OPEN \<longrightarrow> contiguous h 0 (held_frames d (tf_artifact_id t)) \<and>
        tf_received_bytes t = int (length (received (held_frames d (tf_artifact_id t))))) \<and>
     (tf_state t = SESSION_EXPIRED \<longrightarrow> held_frames d (tf_artifact_id t) = [])"

text \<open>A session carries the manifest it was admitted with.\<close>

definition session_bound :: "transfer_row \<Rightarrow> bool" where
  "session_bound t \<longleftrightarrow> (\<exists>m. wf_json (JObj (dump_manifest m)) \<and> tf_manifest_json t = canonical (JObj (dump_manifest m)) \<and>
     mf_artifact_id m = tf_artifact_id t \<and> mf_agent_id m = tf_agent_id t \<and> mf_command_id m = tf_command_id t \<and>
     mf_content_bytes m = tf_content_bytes t)"

definition session_sound :: "(string \<Rightarrow> string) \<Rightarrow> db \<Rightarrow> transfer_row \<Rightarrow> bool" where
  "session_sound h d t \<longleftrightarrow> transfer_checks t \<and> session_bound t \<and> frames_sound h d t"

lemma session_bound_frozen: "transfer_frozen t t' \<Longrightarrow> session_bound t \<Longrightarrow> session_bound t'"
  by (simp add: transfer_frozen_def session_bound_def)

lemma manifest_fields:
  assumes "wf_json (JObj (dump_manifest m))" and "wf_json (JObj (dump_manifest m'))"
    and "canonical (JObj (dump_manifest m)) = canonical (JObj (dump_manifest m'))"
  shows "mf_artifact_id m = mf_artifact_id m'" and "mf_agent_id m = mf_agent_id m'" and "mf_command_id m = mf_command_id m'"
    and "mf_content_bytes m = mf_content_bytes m'"
proof -
  have s: "sort_obj (dump_manifest m) = sort_obj (dump_manifest m')" using canonical_inject [OF assms] by simp
  have "map_option sort_json (map_of (dump_manifest m) k) = map_option sort_json (map_of (dump_manifest m') k)" for k
    using sort_obj_lookup [OF _ _ s] assms(1,2) by simp
  from this [of "''artifact_id''"] this [of "''agent_id''"] this [of "''command_id''"] this [of "''content_bytes''"]
  show "mf_artifact_id m = mf_artifact_id m'" "mf_agent_id m = mf_agent_id m'" "mf_command_id m = mf_command_id m'"
    "mf_content_bytes m = mf_content_bytes m'"
    by (simp_all add: dump_manifest_def sort_json_flat)
qed

definition weigh :: "(transfer_row \<Rightarrow> int) \<Rightarrow> db \<Rightarrow> int" where
  "weigh g d = sum_list (map g (response_artifact_transfers d))"

definition sessions_inv :: "(string \<Rightarrow> string) \<Rightarrow> db \<Rightarrow> bool" where
  "sessions_inv h d \<longleftrightarrow>
     distinct (map tf_artifact_id (response_artifact_transfers d)) \<and> list_all (session_sound h d) (response_artifact_transfers d) \<and>
     tu_reserved_bytes (response_artifact_transfer_usage d) = weigh reserved d \<and>
     tu_open_sessions (response_artifact_transfer_usage d) = weigh opened d \<and>
     tu_total_sessions (response_artifact_transfer_usage d) = int (length (response_artifact_transfers d)) \<and>
     ch_artifact_id ` set (response_artifact_chunks d) \<subseteq> tf_artifact_id ` set (response_artifact_transfers d)"

text \<open>The limits: sessions open in all and by one agent, artifacts in all, artifacts and bytes of one command.\<close>

definition in_budget :: "db \<Rightarrow> bool" where
  "in_budget d \<longleftrightarrow> weigh opened d \<le> MAX_OPEN \<and> (\<forall>a. agent_sessions d a \<le> MAX_AGENT_OPEN) \<and>
     int (length (response_artifacts d)) + weigh opened d \<le> MAX_GLOBAL_COUNT \<and>
     int (length (response_artifact_transfers d)) \<le> MAX_GLOBAL_COUNT \<and>
     (\<forall>c. command_count d c \<le> MAX_COMMAND_COUNT \<and> command_bytes d c \<le> MAX_COMMAND_BYTES)"

definition evidence_inv :: "(string \<Rightarrow> string) \<Rightarrow> db \<Rightarrow> bool" where
  "evidence_inv h d \<longleftrightarrow> stored_inv h d \<and> sessions_inv h d \<and> in_budget d"

text \<open>The measures of open sessions.\<close>

definition of_agent :: "string \<Rightarrow> transfer_row \<Rightarrow> int" where
  "of_agent a t = (if tf_agent_id t = a \<and> open_session t then 1 else 0)"

definition of_command :: "string \<Rightarrow> transfer_row \<Rightarrow> int" where
  "of_command c t = (if tf_command_id t = c \<and> open_session t then 1 else 0)"

definition bytes_of_command :: "string \<Rightarrow> transfer_row \<Rightarrow> int" where
  "bytes_of_command c t = (if tf_command_id t = c \<and> open_session t then tf_content_bytes t else 0)"

lemma count_sum: "int (length (filter P xs)) = sum_list (map (\<lambda>x. if P x then 1 else 0) xs)"
  by (induction xs) auto

lemma filter_sum: "sum_list (map g (filter P xs)) = sum_list (map (\<lambda>x. if P x then g x else (0 :: int)) xs)"
  by (induction xs) auto

lemma session_measures:
  "agent_sessions d a = weigh (of_agent a) d"
  "command_count d c = int (length (command_artifacts d c)) + weigh (of_command c) d"
  "command_bytes d c = sum_list (map ar_content_bytes (command_artifacts d c)) + weigh (bytes_of_command c) d"
  by (simp_all add: agent_sessions_def command_count_def command_bytes_def command_sessions_def weigh_def count_sum filter_sum
      of_agent_def [abs_def] of_command_def [abs_def] bytes_of_command_def [abs_def])

text \<open>A measure of open sessions counts nothing for the others and does not depend on what may change.\<close>

definition open_measure :: "(transfer_row \<Rightarrow> int) \<Rightarrow> bool" where
  "open_measure g \<longleftrightarrow> (\<forall>t. \<not> open_session t \<longrightarrow> g t = 0) \<and> (\<forall>t. transfer_checks t \<longrightarrow> 0 \<le> g t) \<and>
     (\<forall>t t'. transfer_frozen t t' \<and> open_session t \<and> open_session t' \<longrightarrow> g t' = g t)"

lemma open_measures [simp]:
  "open_measure reserved" "open_measure opened" "open_measure (of_agent a)" "open_measure (of_command c)"
  "open_measure (bytes_of_command c)"
  by (auto simp: open_measure_def reserved_def opened_def of_agent_def of_command_def bytes_of_command_def transfer_frozen_def
      transfer_checks_def)

lemma sum_update:
  assumes "distinct (map key rows)" and "find_by key i rows = Some t"
  shows "sum_list (map g (update_where (\<lambda>x. key x = i) f rows)) = sum_list (map g rows) - g t + (g (f t) :: int)"
  using assms
proof (induction rows)
  case (Cons r rows)
  have "update_where (\<lambda>x. key x = i) f rows = rows" if "key r = i"
  proof -
    have "key x \<noteq> i" if "x \<in> set rows" for x using Cons.prems(1) that \<open>key r = i\<close> by (auto simp: image_iff)
    then show ?thesis by (simp add: update_where_def map_idI)
  qed
  then show ?case using Cons by (auto split: if_splits)
qed simp

section \<open>Every step keeps the counters and the limits\<close>

definition custody_kept :: "(string \<Rightarrow> string) \<Rightarrow> db \<Rightarrow> db \<Rightarrow> bool" where
  "custody_kept h d d' \<longleftrightarrow> stored h d d' \<and> (evidence_inv h d \<longrightarrow> evidence_inv h d')"

lemma evidence_inv_cong:
  assumes "evidence d' = evidence d"
  shows "evidence_inv h d' = evidence_inv h d"
proof -
  have rows: "response_artifacts d' = response_artifacts d" "response_artifact_transfers d' = response_artifact_transfers d"
    "response_artifact_chunks d' = response_artifact_chunks d" "response_artifact_usage d' = response_artifact_usage d"
    "response_artifact_transfer_usage d' = response_artifact_transfer_usage d"
    "artifact_manifest_attestations d' = artifact_manifest_attestations d" using assms by (simp_all add: evidence_def)
  have same: "weigh g d' = weigh g d" for g using rows by (simp add: weigh_def)
  have "session_sound h d' = session_sound h d" "attested d' = attested d"
    unfolding session_sound_def [abs_def] frames_sound_def held_frames_def attested_def [abs_def] by (simp_all only: rows)
  moreover have "agent_sessions d' a = agent_sessions d a" "command_count d' c = command_count d c" "command_bytes d' c = command_bytes d c" for a c
    using rows by (simp_all add: agent_sessions_def command_count_def command_bytes_def command_artifacts_def command_sessions_def)
  ultimately show ?thesis unfolding evidence_inv_def stored_inv_def sessions_inv_def in_budget_def by (simp only: rows same)
qed

lemma custody_same: "evidence d' = evidence d \<Longrightarrow> custody_kept h d d'"
  using evidence_inv_cong [of d' d h] by (simp add: custody_kept_def stored_same)

interpretation custody: blind_frame "custody_kept h"
proof
  show "custody_kept h s s" for s by (simp add: custody_same)
  show "custody_kept h s u" if "custody_kept h s t" "custody_kept h t u" for s t u
    using that stored.R_trans unfolding custody_kept_def by blast
  show "custody_kept h d d'" if "audit_only d d'" for d d'
    using that by (intro custody_same) (simp add: evidence_def audit_onlyD)
qed

lemma custody_evidence_same: "stays evidence_same m \<Longrightarrow> stays (custody_kept h) m"
  by (simp add: stays_def evidence_same_def custody_same)

text \<open>The artifact of a retention fits the limits that were checked.\<close>

lemma MAX_values [simp]: "MAX_COMMAND_COUNT = 8" "MAX_COMMAND_BYTES = 4194304" "MAX_GLOBAL_COUNT = 100000" "MAX_CONTENT = 1048576"
  "MAX_OPEN = 128" "MAX_AGENT_OPEN = 4" "CHUNK_BYTES = 65536"
  by (simp_all add: MAX_COMMAND_COUNT_def MAX_COMMAND_BYTES_def MAX_GLOBAL_COUNT_def MAX_CONTENT_def MAX_OPEN_def MAX_AGENT_OPEN_def
      CHUNK_BYTES_def)

lemma used_count_measure: "stored_inv h d \<Longrightarrow> sessions_inv h d \<Longrightarrow> used_count d = int (length (response_artifacts d)) + weigh opened d"
  by (simp add: used_count_def stored_inv_def sessions_inv_def)

lemma custody_insert_artifact:
  assumes i: "insert_artifact a d = (Inr u, d')" and "intact h a"
    and q: "check_quota e (ar_command_id a) (int (length (ar_content a))) x d = (Inr v, d'')"
  shows "custody_kept h d d'"
proof -
  note row = insert_artifact_Inr [OF i]
  have d': "response_artifacts d' = response_artifacts d @ [a]" "response_artifact_transfers d' = response_artifact_transfers d"
    "response_artifact_chunks d' = response_artifact_chunks d"
    "response_artifact_transfer_usage d' = response_artifact_transfer_usage d" using row(3) by simp_all
  have st: "stored h d d'" by (rule stored_insert_artifact [OF i assms(2)])
  have "evidence_inv h d'" if inv: "evidence_inv h d"
  proof -
    have inv': "stored_inv h d" "sessions_inv h d" "in_budget d" using inv by (simp_all add: evidence_inv_def)
    have w: "weigh g d' = weigh g d" for g using d' by (simp add: weigh_def)
    have "session_sound h d' = session_sound h d"
      unfolding session_sound_def [abs_def] frames_sound_def held_frames_def by (simp only: d')
    then have s: "sessions_inv h d'" using inv'(2) unfolding sessions_inv_def by (simp only: d' w)
    obtain quota where c: "command_count d (ar_command_id a) < MAX_COMMAND_COUNT"
      "command_bytes d (ar_command_id a) + int (length (ar_content a)) \<le> MAX_COMMAND_BYTES" "used_count d < MAX_GLOBAL_COUNT"
      using q by (rule check_quota_Inr)
    have "command_artifacts d' k = command_artifacts d k @ (if ar_command_id a = k then [a] else [])" for k
      using d' by (simp add: command_artifacts_def)
    then have m: "command_count d' k = command_count d k + (if ar_command_id a = k then 1 else 0)"
      "command_bytes d' k = command_bytes d k + (if ar_command_id a = k then int (length (ar_content a)) else 0)" for k
      using assms(2) w by (simp_all add: session_measures intact_def)
    have u: "used_count d = int (length (response_artifacts d)) + weigh opened d" by (rule used_count_measure [OF inv'(1,2)])
    have "in_budget d'" using inv'(3) c(3) u unfolding in_budget_def
    proof (elim conjE, intro conjI allI)
      fix k assume b: "\<forall>c. command_count d c \<le> MAX_COMMAND_COUNT \<and> command_bytes d c \<le> MAX_COMMAND_BYTES"
      show "command_count d' k \<le> MAX_COMMAND_COUNT" using b c(1) m(1) by (cases "ar_command_id a = k") auto
      show "command_bytes d' k \<le> MAX_COMMAND_BYTES" using b c(2) m(2) by (cases "ar_command_id a = k") auto
    qed (simp_all add: d' w session_measures)
    then show ?thesis using st inv'(1) s by (simp add: evidence_inv_def stored_def)
  qed
  then show ?thesis using st by (simp add: custody_kept_def)
qed

lemma custody_insert_attestation:
  assumes i: "insert_attestation t d = (Inr u, d')" and "attested d t"
  shows "custody_kept h d d'"
proof -
  note row = insert_attestation_Inr [OF i]
  have d': "response_artifacts d' = response_artifacts d" "response_artifact_transfers d' = response_artifact_transfers d"
    "response_artifact_chunks d' = response_artifact_chunks d"
    "response_artifact_transfer_usage d' = response_artifact_transfer_usage d" using row(3) by simp_all
  have st: "stored h d d'" by (rule stored_insert_attestation [OF i assms(2)])
  have w: "weigh g d' = weigh g d" for g using d' by (simp add: weigh_def)
  have "session_sound h d' = session_sound h d"
    unfolding session_sound_def [abs_def] frames_sound_def held_frames_def by (simp only: d')
  then have "sessions_inv h d' = sessions_inv h d" unfolding sessions_inv_def by (simp only: d' w)
  moreover have "command_artifacts d' c = command_artifacts d c" for c by (simp add: command_artifacts_def d')
  then have "in_budget d' = in_budget d" unfolding in_budget_def session_measures by (simp only: d' w)
  ultimately show ?thesis using st by (auto simp: custody_kept_def evidence_inv_def stored_def)
qed

lemma custody_retain:
  assumes "upload_of m b = Some u" and "decoded_content e u d = (Inr content, d)"
    and "retain e agent_id command_id u content d = (Inr r, d')"
  shows "custody_kept (sha256 e) d d'"
  using assms(3)
proof (rule retain_Inr)
  fix c assume c: "validate_binding agent_id command_id (up_host_id u) (up_command_id u) (up_correlation_id u) (up_kind u) d = (Inr c, d)"
    and cases: "(\<exists>a. find_by ar_artifact_id (up_artifact_id u) (response_artifacts d) = Some a \<and> ar_content a = content \<and> d' = d) \<or>
      (\<exists>d1. insert_artifact (artifact_of e agent_id command_id u content) d = (Inr (), d1) \<and> audit_only d1 d' \<and>
        check_quota e command_id (int (length content)) (HTTPException 507 ''artifact retention quota reached; existing evidence preserved'') d = (Inr (), d))"
  let ?a = "artifact_of e agent_id command_id u content"
  have a: "ar_command_id ?a = command_id" "ar_content ?a = content" by (simp_all add: artifact_of_def)
  have "custody_kept (sha256 e) d d1" if "insert_artifact ?a d = (Inr (), d1)"
      "check_quota e command_id (int (length content)) (HTTPException 507 ''artifact retention quota reached; existing evidence preserved'') d = (Inr (), d)" for d1
    using custody_insert_artifact [OF that(1) retained_artifact(1) [OF assms(1,2) c]] that(2) by (simp only: a)
  then show ?thesis using cases custody.blind [of _ d' "sha256 e"] custody.R_trans [of "sha256 e" d _ d'] custody.R_refl [of "sha256 e" d]
    by blast
qed

lemma custody_retain_signed: "yields (custody_kept (sha256 e)) (retain_signed e agent_id command_id m b admitted)"
proof (rule yieldsI)
  fix d :: db and r d'
  assume "retain_signed e agent_id command_id m b admitted d = (Inr r, d')"
  then show "custody_kept (sha256 e) d d'"
  proof (rule retain_signed_Inr)
    fix k u content d1
    assume u: "upload_of m b = Some u" "decoded_content e u d = (Inr content, d)" "retain e agent_id command_id u content d = (Inr r, d1)"
      and cases: "(\<exists>p. find_by at_artifact_id (mf_artifact_id m) (artifact_manifest_attestations d) = Some p \<and>
          at_manifest_json p = canonical (JObj (dump_manifest m)) \<and> d' = d1) \<or>
       (find_by at_artifact_id (mf_artifact_id m) (artifact_manifest_attestations d) = None \<and>
        mf_artifact_id m \<notin> ar_artifact_id ` set (response_artifacts d) \<and>
        (\<exists>forensic. attest e agent_id command_id m k (int (length content)) forensic d1 = (Inr (), d')))"
    note kept = custody_retain [OF u]
    from cases show ?thesis
    proof (elim disjE exE conjE)
      assume "d' = d1"
      then show ?thesis using kept by simp
    next
      fix forensic
      assume fresh: "mf_artifact_id m \<notin> ar_artifact_id ` set (response_artifacts d)"
        and at: "attest e agent_id command_id m k (int (length content)) forensic d1 = (Inr (), d')"
      obtain d2 where a: "insert_attestation (attestation_of e agent_id m k) d1 = (Inr (), d2)" "audit_only d2 d'"
        using attest_Inr [OF at] unfolding attestation_of_def by metis
      obtain c d0 where c: "validate_binding agent_id command_id (up_host_id u) (up_command_id u) (up_correlation_id u) (up_kind u) d = (Inr c, d)"
        and i: "insert_artifact (artifact_of e agent_id command_id u content) d = (Inr (), d0)" "audit_only d0 d1"
        using retain_fresh [OF u(3)] fresh upload_of_SomeD(1) [OF u(1)] by auto
      have "response_artifacts d1 = response_artifacts d @ [artifact_of e agent_id command_id u content]"
        using insert_artifact_Inr(3) [OF i(1)] audit_onlyD(21) [OF i(2)] by simp
      then have "attested d1 (attestation_of e agent_id m k)"
        using retained_artifact(2) [OF u(1,2) c] by (auto simp: attested_def attestation_of_def describes_def artifact_of_def)
      note attestation = custody_insert_attestation [OF a(1) this]
      show ?thesis by (rule custody.R_trans [OF kept custody.R_trans [OF attestation custody.blind [OF a(2)]]])
    qed
  qed
qed

section \<open>Effects on the sessions\<close>

lemma update_transfer_Inr:
  assumes "update_transfer i f d = (Inr u, d')"
  obtains "find_by tf_artifact_id i (response_artifact_transfers d) = None" and "d' = d"
    | t where "find_by tf_artifact_id i (response_artifact_transfers d) = Some t" and "transfer_frozen t (f t)"
      and "transfer_checks (f t)"
      and "response_artifact_transfers d' = update_where (\<lambda>x. tf_artifact_id x = i) f (response_artifact_transfers d)"
      and "tu_reserved_bytes (response_artifact_transfer_usage d') = tu_reserved_bytes (response_artifact_transfer_usage d) - reserved t + reserved (f t)"
      and "tu_open_sessions (response_artifact_transfer_usage d') = tu_open_sessions (response_artifact_transfer_usage d) - opened t + opened (f t)"
      and "tu_total_sessions (response_artifact_transfer_usage d') = tu_total_sessions (response_artifact_transfer_usage d)"
      and "response_artifacts d' = response_artifacts d" and "artifact_manifest_attestations d' = artifact_manifest_attestations d"
      and "response_artifact_usage d' = response_artifact_usage d" and "response_artifact_chunks d' = response_artifact_chunks d"
proof (cases "find_by tf_artifact_id i (response_artifact_transfers d)")
  case None
  then show ?thesis using assms by (intro that(1)) (simp_all add: update_transfer_def)
next
  case (Some t)
  let ?u = "response_artifact_transfer_usage d"
  let ?u' = "?u\<lparr>tu_reserved_bytes := tu_reserved_bytes ?u - reserved t + reserved (f t),
                    tu_open_sessions := tu_open_sessions ?u - opened t + opened (f t)\<rparr>"
  have "transfer_frozen t (f t) \<and> transfer_checks (f t) \<and>
      d' = d\<lparr>response_artifact_transfers := update_where (\<lambda>x. tf_artifact_id x = i) f (response_artifact_transfers d),
               response_artifact_transfer_usage := ?u'\<rparr>"
    using assms Some by (auto simp: update_transfer_def Let_def bindM_raise_if simp del: MAX_values split: if_splits)
  then show ?thesis by (elim conjE, intro that(2) [OF Some]) simp_all
qed

text \<open>
  A session moves: the counters follow, and what a measure of the open sessions gains is what the session gains.
\<close>

lemma weigh_update:
  assumes "distinct (map tf_artifact_id (response_artifact_transfers d))"
    and "find_by tf_artifact_id i (response_artifact_transfers d) = Some t"
    and "response_artifact_transfers d' = update_where (\<lambda>x. tf_artifact_id x = i) f (response_artifact_transfers d)"
  shows "weigh g d' = weigh g d - g t + g (f t)"
  using sum_update [OF assms(1,2), of g f] assms(3) by (simp add: weigh_def)

lemma frozen_keys:
  assumes "distinct (map tf_artifact_id rows)" and "find_by tf_artifact_id i rows = Some t" and "transfer_frozen t (f t)"
  shows "map tf_artifact_id (update_where (\<lambda>x. tf_artifact_id x = i) f rows) = map tf_artifact_id rows"
    and "x \<in> set (update_where (\<lambda>x. tf_artifact_id x = i) f rows) \<longleftrightarrow> x = f t \<or> (x \<in> set rows \<and> tf_artifact_id x \<noteq> i)"
proof -
  have one: "y = t" if "y \<in> set rows" "tf_artifact_id y = i" for y
    using find_by_distinct [OF assms(1) that(1)] that(2) assms(2) by simp
  show "map tf_artifact_id (update_where (\<lambda>x. tf_artifact_id x = i) f rows) = map tf_artifact_id rows"
    using one assms(3) by (auto simp: update_where_def transfer_frozen_def)
  show "x \<in> set (update_where (\<lambda>x. tf_artifact_id x = i) f rows) \<longleftrightarrow> x = f t \<or> (x \<in> set rows \<and> tf_artifact_id x \<noteq> i)"
    using one find_by_SomeD [OF assms(2)] unfolding set_update_where by auto
qed

text \<open>While the frames of \<open>i\<close> change, every other session stays sound.\<close>

definition sessions_but :: "(string \<Rightarrow> string) \<Rightarrow> string \<Rightarrow> db \<Rightarrow> bool" where
  "sessions_but h i d \<longleftrightarrow>
     distinct (map tf_artifact_id (response_artifact_transfers d)) \<and>
     list_all (\<lambda>t. transfer_checks t \<and> session_bound t \<and> (tf_artifact_id t \<noteq> i \<longrightarrow> frames_sound h d t)) (response_artifact_transfers d) \<and>
     tu_reserved_bytes (response_artifact_transfer_usage d) = weigh reserved d \<and>
     tu_open_sessions (response_artifact_transfer_usage d) = weigh opened d \<and>
     tu_total_sessions (response_artifact_transfer_usage d) = int (length (response_artifact_transfers d)) \<and>
     ch_artifact_id ` set (response_artifact_chunks d) \<subseteq> tf_artifact_id ` set (response_artifact_transfers d)"

lemma sessions_but_frames:
  assumes "sessions_inv h d" and "d1 = d\<lparr>response_artifact_chunks := cs\<rparr>" and "\<And>j. j \<noteq> i \<Longrightarrow> held_frames d1 j = held_frames d j"
    and "ch_artifact_id ` set cs \<subseteq> tf_artifact_id ` set (response_artifact_transfers d)"
  shows "sessions_but h i d1"
proof -
  have same: "response_artifact_transfers d1 = response_artifact_transfers d"
    "response_artifact_transfer_usage d1 = response_artifact_transfer_usage d" using assms(2) by simp_all
  have w: "weigh g d1 = weigh g d" for g by (simp add: weigh_def same)
  have "frames_sound h d1 t" if "frames_sound h d t" "tf_artifact_id t \<noteq> i" for t
    using that assms(3) by (simp add: frames_sound_def)
  moreover have "ch_artifact_id ` set (response_artifact_chunks d1) \<subseteq> tf_artifact_id ` set (response_artifact_transfers d1)"
    using assms(2,4) by simp
  ultimately show ?thesis
    using assms(1) unfolding sessions_but_def sessions_inv_def by (simp add: same w list_all_iff session_sound_def)
qed

lemma sessions_update:
  assumes "update_transfer i f d = (Inr u, d')" and inv: "sessions_but h i d"
    and sound: "\<And>t. find_by tf_artifact_id i (response_artifact_transfers d) = Some t \<Longrightarrow> transfer_frozen t (f t) \<Longrightarrow>
      transfer_checks (f t) \<Longrightarrow> frames_sound h d (f t)"
  shows "sessions_inv h d'"
  using assms(1)
proof (cases rule: update_transfer_Inr)
  case 1
  then have "tf_artifact_id t \<noteq> i" if "t \<in> set (response_artifact_transfers d)" for t
    using that by (simp add: find_by_None_iff)
  then show ?thesis using inv 1(2) by (auto simp: sessions_but_def sessions_inv_def list_all_iff session_sound_def)
next
  case (2 t)
  have dist: "distinct (map tf_artifact_id (response_artifact_transfers d))" using inv by (simp add: sessions_but_def)
  note keys = frozen_keys [where f = f, OF dist 2(1,2)] and w = weigh_update [OF dist 2(1,4)]
  have "session_sound h d' = session_sound h d"
    unfolding session_sound_def [abs_def] frames_sound_def held_frames_def by (simp only: 2)
  moreover have "session_sound h d x" if "x \<in> set (response_artifact_transfers d')" for x
    using that inv sound [OF 2(1-3)] keys(2) 2(2-4) find_by_SomeD [OF 2(1)]
    by (auto simp: sessions_but_def list_all_iff session_sound_def intro: session_bound_frozen)
  moreover have "length (response_artifact_transfers d') = length (response_artifact_transfers d)"
    using 2(4) by (simp add: update_where_def)
  moreover have "tf_artifact_id ` set (response_artifact_transfers d') = tf_artifact_id ` set (response_artifact_transfers d)"
    using keys(1) 2(4) by (metis list.set_map)
  ultimately show ?thesis using inv 2 keys(1) w dist by (simp add: sessions_but_def sessions_inv_def list_all_iff)
qed

text \<open>A session that is not opened by its move takes nothing from the budget.\<close>

lemma budget_update:
  assumes "update_transfer i f d = (Inr u, d')" and inv: "sessions_but h i d" and b: "in_budget d"
    and closes: "\<And>t. find_by tf_artifact_id i (response_artifact_transfers d) = Some t \<Longrightarrow> transfer_frozen t (f t) \<Longrightarrow>
      transfer_checks (f t) \<Longrightarrow> open_session (f t) \<Longrightarrow> open_session t"
  shows "in_budget d'"
  using assms(1)
proof (cases rule: update_transfer_Inr)
  case 1
  then show ?thesis using b by simp
next
  case (2 t)
  have dist: "distinct (map tf_artifact_id (response_artifact_transfers d))" using inv by (simp add: sessions_but_def)
  have checks: "transfer_checks t"
    using inv find_by_SomeD [OF 2(1)] by (auto simp: sessions_but_def list_all_iff)
  have "g (f t) \<le> g t" if "open_measure g" for g
    using that closes [OF 2(1-3)] 2(2) checks unfolding open_measure_def by (cases "open_session (f t)") auto
  then have w: "weigh g d' \<le> weigh g d" if "open_measure g" for g
    using weigh_update [OF dist 2(1,4), where g = g] that by (simp add: order_trans)
  have c: "command_artifacts d' c = command_artifacts d c" for c by (simp add: command_artifacts_def 2)
  have l: "length (response_artifact_transfers d') = length (response_artifact_transfers d)"
    using 2(4) by (simp add: update_where_def)
  have m: "weigh opened d' \<le> weigh opened d" "weigh (of_agent a) d' \<le> weigh (of_agent a) d"
    "weigh (of_command k) d' \<le> weigh (of_command k) d" "weigh (bytes_of_command k) d' \<le> weigh (bytes_of_command k) d" for a k
    by (simp_all add: w)
  have "int (length (command_artifacts d k)) + weigh (of_command k) d' \<le> MAX_COMMAND_COUNT \<and>
      sum_list (map ar_content_bytes (command_artifacts d k)) + weigh (bytes_of_command k) d' \<le> MAX_COMMAND_BYTES" for k
  proof -
    have "int (length (command_artifacts d k)) + weigh (of_command k) d \<le> MAX_COMMAND_COUNT"
      "sum_list (map ar_content_bytes (command_artifacts d k)) + weigh (bytes_of_command k) d \<le> MAX_COMMAND_BYTES"
      using b unfolding in_budget_def session_measures by blast+
    then show ?thesis using m(3,4) [of k] by linarith
  qed
  moreover have "weigh (of_agent a) d' \<le> MAX_AGENT_OPEN" for a
    using b m(2) [of a] unfolding in_budget_def session_measures by (meson order_trans)
  moreover have "weigh opened d' \<le> MAX_OPEN" "int (length (response_artifacts d)) + weigh opened d' \<le> MAX_GLOBAL_COUNT"
    "int (length (response_artifact_transfers d)) \<le> MAX_GLOBAL_COUNT"
    using b m(1) unfolding in_budget_def by linarith+
  ultimately show ?thesis unfolding in_budget_def session_measures c l 2(8) by blast
qed

lemma stored_update:
  assumes "update_transfer i f d = (Inr u, d')"
  shows "stored h d d'"
  using assms by (cases rule: update_transfer_Inr) (simp_all only: stored.R_refl stored_sessions)

lemma custody_update:
  assumes "update_transfer i f d1 = (Inr u, d')" and d1: "d1 = d\<lparr>response_artifact_chunks := cs\<rparr>"
    and others: "\<And>j. j \<noteq> i \<Longrightarrow> held_frames d1 j = held_frames d j"
    and keys: "sessions_inv h d \<Longrightarrow> ch_artifact_id ` set cs \<subseteq> tf_artifact_id ` set (response_artifact_transfers d)"
    and moves: "\<And>t. sessions_inv h d \<Longrightarrow> find_by tf_artifact_id i (response_artifact_transfers d) = Some t \<Longrightarrow> transfer_frozen t (f t) \<Longrightarrow>
      transfer_checks (f t) \<Longrightarrow> frames_sound h d1 (f t) \<and> (open_session (f t) \<longrightarrow> open_session t)"
  shows "custody_kept h d d'"
proof -
  have same: "response_artifact_transfers d1 = response_artifact_transfers d" "response_artifacts d1 = response_artifacts d"
    using d1 by simp_all
  have "weigh g d1 = weigh g d" "command_artifacts d1 c = command_artifacts d c" for g c
    by (simp_all add: weigh_def command_artifacts_def same)
  then have b: "in_budget d1 = in_budget d" by (simp only: in_budget_def session_measures same)
  have "sessions_inv h d' \<and> in_budget d'" if inv: "sessions_inv h d" "in_budget d"
  proof
    note moved = moves [OF inv(1), folded same]
    have but: "sessions_but h i d1" by (rule sessions_but_frames [OF inv(1) d1 _ keys [OF inv(1)]]) (rule others)
    show "sessions_inv h d'" by (rule sessions_update [OF assms(1) but]) (rule moved [THEN conjunct1])
    show "in_budget d'" using inv(2) unfolding b [symmetric]
      by (rule budget_update [OF assms(1) but]) (rule moved [THEN conjunct2, THEN mp])
  qed
  moreover have "stored h d d'"
    by (rule stored.R_trans [OF stored_sessions stored_update [OF assms(1)]]) (simp_all add: d1)
  ultimately show ?thesis by (simp add: custody_kept_def evidence_inv_def stored_def)
qed

lemma held_frames_simps [simp]:
  "held_frames (d\<lparr>response_artifact_chunks := response_artifact_chunks d @ [c]\<rparr>) i =
    held_frames d i @ (if ch_artifact_id c = i then [c] else [])"
  "held_frames (d\<lparr>response_artifact_chunks := filter (\<lambda>c. ch_artifact_id c \<noteq> j) (response_artifact_chunks d)\<rparr>) i =
    (if i = j then [] else held_frames d i)"
  "held_frames (d\<lparr>response_artifact_chunks := response_artifact_chunks d\<rparr>) i = held_frames d i"
  by (auto simp: held_frames_def filter_empty_conv intro: filter_cong)

lemma audit_only_record_transfer: "stays audit_only (record_transfer e i c host ev actor detail)"
  unfolding record_transfer_def by (intro audit_only.stays_structural audit_only_writers)

lemma custody_expire_one: "yields (custody_kept h) (expire_one e t)"
proof (rule yieldsI)
  fix d :: db and u d'
  let ?i = "tf_artifact_id t" and ?f = "\<lambda>x. x\<lparr>tf_state := SESSION_EXPIRED, tf_received_bytes := 0\<rparr>"
  assume "expire_one e t d = (Inr u, d')"
  then obtain d1 where r: "record_transfer e ?i (tf_command_id t) (tf_host_id t) ''artifact_transfer_expired'' ''system:artifact-transfer''
        [(''received_bytes'', JInt (tf_received_bytes t)), (''partial_chunks'', JArr (map chunk_json (chunks_of d ?i))),
         (''unverified_partial_bytes_discarded'', JBool True)] d = (Inr (), d1)"
    and x: "update_transfer ?i ?f (d1\<lparr>response_artifact_chunks := filter (\<lambda>c. ch_artifact_id c \<noteq> ?i) (response_artifact_chunks d1)\<rparr>) = (Inr u, d')"
    unfolding expire_one_def delete_chunks_def by (auto simp: bindM_Inr_iff)
  have "custody_kept h d d1" by (rule custody.blind [OF stays_run [OF audit_only_record_transfer r]])
  moreover have "custody_kept h d1 d'"
    by (rule custody_update [OF x refl])
      (auto simp: frames_sound_def open_session_def transfer_frozen_def sessions_inv_def dest: find_by_SomeD)
  ultimately show "custody_kept h d d'" by (rule custody.R_trans)
qed

text \<open>
  What is relied on of the model class: its dump is an object of distinct keys and whole numbers, it validates the dump
  of a manifest to that manifest, and the order of the keys does not matter to it.
\<close>

definition keeps_manifests :: "env \<Rightarrow> bool" where
  "keeps_manifests e \<longleftrightarrow> (\<forall>j m. make_manifest e j = Some m \<longrightarrow> wf_json (JObj (dump_manifest m))) \<and>
     (\<forall>m v. make_manifest e (JObj (dump_manifest m)) = Some v \<longrightarrow> v = m) \<and>
     (\<forall>m. wf_json (JObj (dump_manifest m)) \<longrightarrow>
        make_manifest e (sort_json (JObj (dump_manifest m))) = make_manifest e (JObj (dump_manifest m)))"

lemma reserve_Inr:
  assumes "reserve e m existing d = (Inr u, d')"
  shows "d' = d" and "agent_sessions d (mf_agent_id m) < MAX_AGENT_OPEN"
    and "tu_open_sessions (response_artifact_transfer_usage d) < MAX_OPEN"
    and "existing \<or> tu_total_sessions (response_artifact_transfer_usage d) < MAX_GLOBAL_COUNT"
    and "check_quota e (mf_command_id m) (mf_content_bytes m) no_budget d = (Inr u, d)"
proof -
  have r: "agent_sessions d (mf_agent_id m) < MAX_AGENT_OPEN" "tu_open_sessions (response_artifact_transfer_usage d) < MAX_OPEN"
    "existing \<or> tu_total_sessions (response_artifact_transfer_usage d) < MAX_GLOBAL_COUNT"
    "check_quota e (mf_command_id m) (mf_content_bytes m) no_budget d = (Inr u, d')"
    using assms unfolding reserve_def by (auto simp: bindM_Inr_iff)
  moreover have "d' = d" using r(4) by (rule quota_read)
  ultimately show "d' = d" "agent_sessions d (mf_agent_id m) < MAX_AGENT_OPEN"
    "tu_open_sessions (response_artifact_transfer_usage d) < MAX_OPEN"
    "existing \<or> tu_total_sessions (response_artifact_transfer_usage d) < MAX_GLOBAL_COUNT"
    "check_quota e (mf_command_id m) (mf_content_bytes m) no_budget d = (Inr u, d)" by simp_all
qed

text \<open>A session that was admitted under the limits stays within them when it opens.\<close>

lemma budget_open:
  assumes inv: "stored_inv h d" "sessions_inv h d" "in_budget d" and r: "reserve e m existing d = (Inr u, d'')"
    and n: "open_session n" "tf_agent_id n = mf_agent_id m" "tf_command_id n = mf_command_id m" "tf_content_bytes n = mf_content_bytes m"
    and w: "\<And>g. open_measure g \<Longrightarrow> weigh g d' = weigh g d + g n"
    and same: "response_artifacts d' = response_artifacts d"
    and len: "int (length (response_artifact_transfers d')) = int (length (response_artifact_transfers d)) + (if existing then 0 else 1)"
  shows "in_budget d'"
proof -
  note room = reserve_Inr [OF r]
  obtain quota where c: "command_count d (mf_command_id m) < MAX_COMMAND_COUNT"
    "command_bytes d (mf_command_id m) + mf_content_bytes m \<le> MAX_COMMAND_BYTES" "used_count d < MAX_GLOBAL_COUNT"
    using room(5) by (rule check_quota_Inr)
  have u: "used_count d = int (length (response_artifacts d)) + weigh opened d" by (rule used_count_measure [OF inv(1,2)])
  have counters: "tu_open_sessions (response_artifact_transfer_usage d) = weigh opened d"
    "tu_total_sessions (response_artifact_transfer_usage d) = int (length (response_artifact_transfers d))"
    using inv(2) by (simp_all add: sessions_inv_def)
  have gain: "opened n = 1" "of_agent a n = (if mf_agent_id m = a then 1 else 0)" "of_command k n = (if mf_command_id m = k then 1 else 0)"
    "bytes_of_command k n = (if mf_command_id m = k then mf_content_bytes m else 0)" for a k
    using n by (simp_all add: opened_def of_agent_def of_command_def bytes_of_command_def)
  have art: "command_artifacts d' k = command_artifacts d k" for k by (simp add: command_artifacts_def same)
  have m: "agent_sessions d' a = agent_sessions d a + (if mf_agent_id m = a then 1 else 0)"
    "command_count d' k = command_count d k + (if mf_command_id m = k then 1 else 0)"
    "command_bytes d' k = command_bytes d k + (if mf_command_id m = k then mf_content_bytes m else 0)" for a k
    by (simp_all add: session_measures art w gain)
  have b: "agent_sessions d a \<le> MAX_AGENT_OPEN" "command_count d k \<le> MAX_COMMAND_COUNT" "command_bytes d k \<le> MAX_COMMAND_BYTES" for a k
    using inv(3) by (simp_all only: in_budget_def)
  have "agent_sessions d' a \<le> MAX_AGENT_OPEN" for a using m(1) [of a] b(1) [of a] room(2) by (cases "mf_agent_id m = a") simp_all
  moreover have "command_count d' k \<le> MAX_COMMAND_COUNT" for k using m(2) [of k] b(2) [of k] c(1) by (cases "mf_command_id m = k") simp_all
  moreover have "command_bytes d' k \<le> MAX_COMMAND_BYTES" for k using m(3) [of k] b(3) [of k] c(2) by (cases "mf_command_id m = k") simp_all
  moreover have "weigh opened d' \<le> MAX_OPEN" "int (length (response_artifacts d')) + weigh opened d' \<le> MAX_GLOBAL_COUNT"
    using room(3) c(3) u counters w [of opened] gain(1) same by simp_all
  moreover have "int (length (response_artifact_transfers d')) \<le> MAX_GLOBAL_COUNT"
    using len room(4) counters(2) inv(3) by (auto simp: in_budget_def)
  ultimately show ?thesis by (simp only: in_budget_def) blast
qed

lemma insert_transfer_Inr:
  assumes "insert_transfer t d = (Inr u, d')"
  shows "tf_artifact_id t \<notin> tf_artifact_id ` set (response_artifact_transfers d)" and "transfer_checks t"
    and "response_artifact_transfers d' = response_artifact_transfers d @ [t]"
    and "tu_reserved_bytes (response_artifact_transfer_usage d') = tu_reserved_bytes (response_artifact_transfer_usage d) + reserved t"
    and "tu_open_sessions (response_artifact_transfer_usage d') = tu_open_sessions (response_artifact_transfer_usage d) + opened t"
    and "tu_total_sessions (response_artifact_transfer_usage d') = tu_total_sessions (response_artifact_transfer_usage d) + 1"
    and "response_artifacts d' = response_artifacts d" and "artifact_manifest_attestations d' = artifact_manifest_attestations d"
    and "response_artifact_usage d' = response_artifact_usage d" and "response_artifact_chunks d' = response_artifact_chunks d"
  using assms unfolding insert_transfer_def Let_def by (auto simp: bindM_raise_if split: if_splits)

lemma open_transfer_Inr:
  assumes "open_transfer e agent_id command_id m existing d = (Inr r, d')"
  obtains expiry d1 where "reserve e m existing d = (Inr (), d)"
    and "(if existing then update_transfer (mf_artifact_id m) (reopened e expiry)
          else insert_transfer (new_session e agent_id command_id m expiry)) d = (Inr (), d1)"
    and "audit_only d1 d'" and "r = progress e m 0 (Some expiry) False"
    and "expiry = iso_at (of_micros (micros (now e) + SESSION_LIFETIME))"
proof -
  let ?expiry = "iso_at (of_micros (micros (now e) + SESSION_LIFETIME))"
  obtain d0 d1 where q: "reserve e m existing d = (Inr (), d0)"
    and s: "(if existing then update_transfer (mf_artifact_id m) (reopened e ?expiry)
          else insert_transfer (new_session e agent_id command_id m ?expiry)) d0 = (Inr (), d1)"
    and t: "record_transfer e (mf_artifact_id m) (mf_command_id m) (mf_host_id m) ''artifact_transfer_admitted'' (''agent:'' @ agent_id)
             [(''manifest_sha256'', JStr (manifest_digest e m)), (''content_bytes'', JInt (mf_content_bytes m)),
              (''expires_at'', JStr ?expiry), (''restart_after_expiry'', JBool existing)] d1 = (Inr (), d')"
    and "r = progress e m 0 (Some ?expiry) False"
    using assms unfolding open_transfer_def Let_def by (auto simp: bindM_Inr_iff)
  moreover have "d0 = d" by (rule reserve_Inr(1) [OF q])
  ultimately show ?thesis using that [of ?expiry d1] stays_run [OF audit_only_record_transfer t] by simp
qed

text \<open>
  A manifest that was bound to its command and verified opens a session: a new one, or one that had expired.
\<close>

lemma custody_open_transfer:
  assumes run: "open_transfer e agent_id command_id m existing d = (Inr r, d')" and "mf_agent_id m = agent_id"
    and "mf_command_id m = command_id"
    and wf: "wf_json (JObj (dump_manifest m))"
    and prior: "existing \<longrightarrow> (\<exists>t. find_by tf_artifact_id (mf_artifact_id m) (response_artifact_transfers d) = Some t \<and> tf_state t = SESSION_EXPIRED \<and>
        tf_manifest_json t = canonical (JObj (dump_manifest m)))"
  shows "custody_kept h d d'"
  using run
proof (rule open_transfer_Inr)
  fix expiry d1
  assume q: "reserve e m existing d = (Inr (), d)" and a: "audit_only d1 d'"
    and s: "(if existing then update_transfer (mf_artifact_id m) (reopened e expiry)
          else insert_transfer (new_session e agent_id command_id m expiry)) d = (Inr (), d1)"
  have "custody_kept h d d1"
  proof (cases existing)
    case True
    then obtain t where t: "find_by tf_artifact_id (mf_artifact_id m) (response_artifact_transfers d) = Some t" "tf_state t = SESSION_EXPIRED"
        "tf_manifest_json t = canonical (JObj (dump_manifest m))"
      using prior by blast
    have u: "update_transfer (mf_artifact_id m) (reopened e expiry) d = (Inr (), d1)" using s True by simp
    show ?thesis
      using u
    proof (cases rule: update_transfer_Inr)
      case 1
      then show ?thesis using t by simp
    next
      case (2 x)
      have x: "x = t" using 2(1) t(1) by simp
      have "evidence_inv h d1" if inv: "evidence_inv h d"
      proof -
        have i: "stored_inv h d" "sessions_inv h d" "in_budget d" using inv by (simp_all add: evidence_inv_def)
        then have dist: "distinct (map tf_artifact_id (response_artifact_transfers d))" by (simp add: sessions_inv_def)
        have there: "tf_artifact_id t = mf_artifact_id m" "session_sound h d t"
          using find_by_SomeD [OF t(1)] i(2) by (auto simp: sessions_inv_def list_all_iff)
        have but: "sessions_but h (mf_artifact_id m) d"
          by (rule sessions_but_frames [OF i(2), of d "response_artifact_chunks d"]) (use i(2) in \<open>simp_all add: sessions_inv_def\<close>)
        have "sessions_inv h d1"
        proof (rule sessions_update [OF u but])
          fix y assume "find_by tf_artifact_id (mf_artifact_id m) (response_artifact_transfers d) = Some y" "transfer_checks (reopened e expiry y)"
          then show "frames_sound h d (reopened e expiry y)"
            using t(1,2) there by (simp add: session_sound_def frames_sound_def reopened_def received_def)
        qed
        moreover have b: "tf_agent_id t = agent_id" "tf_command_id t = command_id" "tf_content_bytes t = mf_content_bytes m"
          using there(2) t(3) manifest_fields [OF wf] assms(2,3) by (auto simp: session_sound_def session_bound_def)
        moreover have "weigh g d1 = weigh g d + g (reopened e expiry t)" if "open_measure g" for g
          using weigh_update [OF dist 2(1,4), where g = g] that t(2) by (simp add: open_measure_def open_session_def x)
        then have "in_budget d1"
          by (intro budget_open [OF i q, of "reopened e expiry t"])
            (use t b assms(2,3) True 2 in \<open>simp_all add: reopened_def open_session_def update_where_def\<close>)
        ultimately show ?thesis using stored_update [OF u, of h] i(1) by (simp add: evidence_inv_def stored_def)
      qed
      then show ?thesis using stored_update [OF u, of h] by (simp add: custody_kept_def)
    qed
  next
    case False
    let ?n = "new_session e agent_id command_id m expiry"
    have ins: "insert_transfer ?n d = (Inr (), d1)" using s False by simp
    note row = insert_transfer_Inr [OF ins]
    have st: "stored h d d1" by (rule stored_sessions [OF row(7-9)])
    have "evidence_inv h d1" if inv: "evidence_inv h d"
    proof -
      have i: "stored_inv h d" "sessions_inv h d" "in_budget d" using inv by (simp_all add: evidence_inv_def)
      have w: "weigh g d1 = weigh g d + g ?n" for g by (simp add: weigh_def row(3))
      have frames: "held_frames d1 j = held_frames d j" for j by (simp add: held_frames_def row(10))
      have "held_frames d (tf_artifact_id ?n) = []"
        using i(2) row(1) unfolding sessions_inv_def held_frames_def filter_empty_conv by (metis imageI subsetD)
      then have "frames_sound h d1 ?n" by (simp add: frames_sound_def frames received_def) (simp add: new_session_def)
      moreover have "session_bound ?n" using assms(2,3,4) by (auto simp: session_bound_def new_session_def intro!: exI [of _ m])
      ultimately have new: "session_sound h d1 ?n" using row(2) by (simp add: session_sound_def)
      have "session_sound h d1 = session_sound h d" unfolding session_sound_def [abs_def] frames_sound_def by (simp only: frames)
      then have "sessions_inv h d1"
        using i(2) row(1) new by (auto simp: sessions_inv_def list_all_iff row w)
      moreover have "in_budget d1"
        by (intro budget_open [OF i q, of ?n]) (use assms(2,3) False row w in \<open>simp_all add: new_session_def open_session_def\<close>)
      ultimately show ?thesis using st i(1) by (simp add: evidence_inv_def stored_def)
    qed
    then show ?thesis using st by (simp add: custody_kept_def)
  qed
  then show ?thesis using custody.R_trans custody.blind [OF a] by blast
qed

section \<open>Frames and their completion\<close>

lemma server_time_read: "server_time v s = (r, s') \<Longrightarrow> s' = s"
  by (auto simp: server_time_def bindM_def require_some_def raise_if_def split: option.splits if_splits)

lemma load_transfer_Inr:
  assumes "load_transfer e agent_id command_id i d = (Inr (t, m), d')"
  shows "d' = d" and "t \<in> set (response_artifact_transfers d)" and "tf_artifact_id t = i" and "tf_agent_id t = agent_id"
    and "tf_command_id t = command_id" and "tf_state t \<noteq> SESSION_EXPIRED"
    and "\<exists>v. json_loads (tf_manifest_json t) = Some v \<and> make_manifest e v = Some m"
    and "open_session t \<Longrightarrow> \<exists>x. fromisoformat (replace_Z (tf_expires_at t)) = Some x \<and> micros (now e) < micros x"
proof -
  obtain v c k d1 d2 late where t: "List.find (\<lambda>t. tf_artifact_id t = i \<and> tf_agent_id t = agent_id \<and> tf_command_id t = command_id)
        (response_artifact_transfers d) = Some t"
    and v: "json_loads (tf_manifest_json t) = Some v" "make_manifest e v = Some m"
    and b: "validate_binding agent_id command_id (mf_host_id m) (mf_command_id m) (mf_correlation_id m) (mf_kind m) d = (Inr c, d1)"
    and k: "verify_manifest e agent_id m (Some (tf_admitted_at t)) d1 = (Inr k, d2)"
    and l: "(if open_session t then bindM (server_time (tf_expires_at t)) (\<lambda>x. ret (micros x \<le> micros (now e)))
            else ret (tf_state t = SESSION_EXPIRED)) d2 = (Inr late, d')" and "\<not> late"
    using assms unfolding load_transfer_def by (auto simp: bindM_Inr_iff)
  have "d1 = d" using b by (rule binding_read)
  moreover have "d2 = d1" using k by (rule verify_manifest_Inr)
  ultimately show "d' = d" using l by (auto simp: bindM_Inr_iff server_time_Inr_iff split: if_splits)
  show "t \<in> set (response_artifact_transfers d)" "tf_artifact_id t = i" "tf_agent_id t = agent_id" "tf_command_id t = command_id"
    using t by (auto simp: find_Some_iff)
  show "\<exists>v. json_loads (tf_manifest_json t) = Some v \<and> make_manifest e v = Some m" using v by blast
  show "tf_state t \<noteq> SESSION_EXPIRED"
    using l \<open>\<not> late\<close> by (auto simp: open_session_def split: if_splits)
  show "\<exists>x. fromisoformat (replace_Z (tf_expires_at t)) = Some x \<and> micros (now e) < micros x" if "open_session t"
    using l \<open>\<not> late\<close> that by (auto simp: bindM_Inr_iff server_time_Inr_iff)
qed

lemma insert_chunk_Inr:
  assumes "insert_chunk c d = (Inr u, d')"
  shows "ch_artifact_id c \<in> tf_artifact_id ` set (response_artifact_transfers d)" and "ch_content c \<noteq> []"
    and "d' = d\<lparr>response_artifact_chunks := response_artifact_chunks d @ [c]\<rparr>"
  using assms unfolding insert_chunk_def by (auto simp: bindM_raise_if split: if_splits)

lemma contiguous_snoc:
  "contiguous h n (cs @ [c]) \<longleftrightarrow> contiguous h n cs \<and> ch_offset c = n + int (length (received cs)) \<and>
     ch_sha256 c = h (ch_content c) \<and> ch_content c \<noteq> []"
proof (induction cs arbitrary: n)
  case (Cons a cs)
  have "n + int (length (ch_content a)) + int (length (received cs)) = n + int (length (received (a # cs)))" by (simp add: received_def)
  then show ?case by (simp only: append_Cons contiguous.simps Cons.IH conj_assoc)
qed (simp add: received_def)

text \<open>An accepted frame is the next one: it is added to the frames held and counted.\<close>

lemma accept_frame_Inr:
  assumes "accept_frame e agent_id t m i offset dig data d = (Inr r, d')"
  obtains d1 where "offset = tf_received_bytes t" and "data \<noteq> []" and "i \<in> tf_artifact_id ` set (response_artifact_transfers d)"
    and "update_transfer i (\<lambda>x. x\<lparr>tf_received_bytes := offset + int (length data)\<rparr>)
      (d\<lparr>response_artifact_chunks := response_artifact_chunks d @
          [\<lparr>ch_artifact_id = i, ch_offset = offset, ch_sha256 = dig, ch_content = data\<rparr>]\<rparr>) = (Inr (), d1)"
    and "audit_only d1 d'"
proof -
  obtain d0 d1 where "offset = tf_received_bytes t"
    and c: "insert_chunk \<lparr>ch_artifact_id = i, ch_offset = offset, ch_sha256 = dig, ch_content = data\<rparr> d = (Inr (), d0)"
    and u: "update_transfer i (\<lambda>x. x\<lparr>tf_received_bytes := offset + int (length data)\<rparr>) d0 = (Inr (), d1)"
    and r: "record_transfer e (tf_artifact_id t) (tf_command_id t) (tf_host_id t) ''artifact_chunk_transferred'' (''agent:'' @ agent_id)
            [(''offset'', JInt offset), (''content_bytes'', JInt (int (length data))), (''chunk_sha256'', JStr dig)] d1 = (Inr (), d')"
    using assms unfolding accept_frame_def by (auto simp: bindM_Inr_iff)
  then show ?thesis
    using that [of d1] insert_chunk_Inr [OF c] stays_run [OF audit_only_record_transfer r] by simp
qed

lemma session_of_row:
  assumes "sessions_inv h d" and "t \<in> set (response_artifact_transfers d)"
  shows "find_by tf_artifact_id (tf_artifact_id t) (response_artifact_transfers d) = Some t" and "session_sound h d t"
  using assms find_by_distinct [of tf_artifact_id "response_artifact_transfers d" t] by (auto simp: sessions_inv_def list_all_iff)

lemma custody_accept_frame:
  assumes "accept_frame e agent_id t m i offset dig data d = (Inr r, d')" and "t \<in> set (response_artifact_transfers d)"
    and "tf_artifact_id t = i" and "open_session t" and "h data = dig"
  shows "custody_kept h d d'"
  using assms(1)
proof (rule accept_frame_Inr)
  fix d1
  let ?c = "\<lparr>ch_artifact_id = i, ch_offset = offset, ch_sha256 = dig, ch_content = data\<rparr>"
  assume o: "offset = tf_received_bytes t" "data \<noteq> []" "i \<in> tf_artifact_id ` set (response_artifact_transfers d)" and a: "audit_only d1 d'"
    and u: "update_transfer i (\<lambda>x. x\<lparr>tf_received_bytes := offset + int (length data)\<rparr>)
      (d\<lparr>response_artifact_chunks := response_artifact_chunks d @ [?c]\<rparr>) = (Inr (), d1)"
  have "custody_kept h d d1"
  proof (rule custody_update [OF u refl])
    show "ch_artifact_id ` set (response_artifact_chunks d @ [?c]) \<subseteq> tf_artifact_id ` set (response_artifact_transfers d)"
      if "sessions_inv h d" using that o(3) by (auto simp: sessions_inv_def)
    fix x :: transfer_row
    let ?x = "x\<lparr>tf_received_bytes := offset + int (length data)\<rparr>"
    assume inv: "sessions_inv h d" and f: "find_by tf_artifact_id i (response_artifact_transfers d) = Some x" "transfer_checks ?x"
    have x: "x = t" "session_sound h d t" using session_of_row [OF inv assms(2)] f(1) assms(3) by simp_all
    have "received (cs @ [?c]) = received cs @ data" for cs by (simp add: received_def)
    then show "frames_sound h (d\<lparr>response_artifact_chunks := response_artifact_chunks d @ [?c]\<rparr>) ?x \<and> (open_session ?x \<longrightarrow> open_session x)"
      using x f(2) o assms(3-5) by (simp add: session_sound_def frames_sound_def contiguous_snoc open_session_def)
  qed simp
  then show ?thesis using custody.R_trans custody.blind [OF a] by blast
qed

lemma custody_put_chunk: "yields (custody_kept (sha256 e)) (put_chunk e agent_id command_id i offset dig data)"
proof (rule yieldsI)
  fix d :: db and r d'
  assume "put_chunk e agent_id command_id i offset dig data d = (Inr r, d')"
  then obtain t m where l: "load_transfer e agent_id command_id i d = (Inr (t, m), d)"
    and s: "sha256 e data = dig"
    and rest: "(if tf_state t = SESSION_COMPLETE then frame_of_retained e m i offset data
      else frame_of_session e agent_id t m i offset dig data) d = (Inr r, d')"
    unfolding put_chunk_def Let_def by (auto simp: bindM_Inr_iff dest: load_transfer_Inr(1))
  note t = load_transfer_Inr [OF l]
  show "custody_kept (sha256 e) d d'"
  proof (cases "tf_state t = SESSION_COMPLETE")
    case True
    then show ?thesis using rest by (auto simp: frame_of_retained_def bindM_Inr_iff custody.R_refl)
  next
    case False
    then have o: "open_session t" using t(6) by (cases "tf_state t") (simp_all add: open_session_def)
    show ?thesis
    proof (cases "List.find (\<lambda>c. ch_artifact_id c = i \<and> ch_offset c = offset) (response_artifact_chunks d)")
      case None
      then have "accept_frame e agent_id t m i offset dig data d = (Inr r, d')" using rest False by (simp add: frame_of_session_def)
      then show ?thesis by (rule custody_accept_frame [where h = "sha256 e", OF _ t(2,3) o s])
    next
      case (Some c)
      then show ?thesis using rest False by (auto simp: frame_of_session_def bindM_Inr_iff custody.R_refl)
    qed
  qed
qed

text \<open>Retaining leaves the sessions alone.\<close>

definition sessions_same :: "db \<Rightarrow> db \<Rightarrow> bool" where
  "sessions_same d d' \<longleftrightarrow> response_artifact_transfers d' = response_artifact_transfers d \<and>
     response_artifact_chunks d' = response_artifact_chunks d \<and>
     response_artifact_transfer_usage d' = response_artifact_transfer_usage d"

interpretation sessions_same: blind_frame sessions_same
  by unfold_locales (auto simp: sessions_same_def audit_onlyD)

lemma sessions_same_modify:
  "(\<And>d. response_artifact_transfers (f d) = response_artifact_transfers d) \<Longrightarrow>
    (\<And>d. response_artifact_chunks (f d) = response_artifact_chunks d) \<Longrightarrow>
    (\<And>d. response_artifact_transfer_usage (f d) = response_artifact_transfer_usage d) \<Longrightarrow> stays sessions_same (modify f)"
  by (simp add: stays_def sessions_same_def)

lemma sessions_same_retain_signed: "stays sessions_same (retain_signed e agent_id command_id m b admitted)"
  unfolding retain_signed_def retain_def retain_once_def retain_new_def attest_def insert_artifact_def insert_attestation_def
    validate_binding_def check_correlation_def check_kind_def command_field_def validate_retained_manifest_def
    verify_manifest_def verify_as_def retired_before_def server_time_def decoded_content_def check_quota_def storage_quota_def
  by (intro sessions_same.stays_structural sessions_same.writers sessions_same_modify stays_cases; simp)

lemma custody_delete:
  assumes "sessions_inv h d \<Longrightarrow> t \<in> set (response_artifact_transfers d)" and "tf_artifact_id t = i" and "tf_state t = SESSION_COMPLETE"
  shows "custody_kept h d (d\<lparr>response_artifact_chunks := filter (\<lambda>c. ch_artifact_id c \<noteq> i) (response_artifact_chunks d)\<rparr>)"
proof -
  let ?d = "d\<lparr>response_artifact_chunks := filter (\<lambda>c. ch_artifact_id c \<noteq> i) (response_artifact_chunks d)\<rparr>"
  have "evidence_inv h ?d" if inv: "evidence_inv h d"
  proof -
    have i: "stored_inv h d" "sessions_inv h d" "in_budget d" using inv by (simp_all add: evidence_inv_def)
    have w: "weigh g ?d = weigh g d" "command_artifacts ?d c = command_artifacts d c" for g c
      by (simp_all add: weigh_def command_artifacts_def)
    have "session_sound h ?d x" if "session_sound h d x" "x \<in> set (response_artifact_transfers d)" for x
    proof (cases "tf_artifact_id x = i")
      case True
      then have "x = t"
        using session_of_row(1) [OF i(2) that(2)] session_of_row(1) [OF i(2) assms(1) [OF i(2)]] assms(2) by simp
      then show ?thesis using that(1) assms(3) by (simp add: session_sound_def frames_sound_def)
    qed (use that(1) in \<open>simp add: session_sound_def frames_sound_def\<close>)
    then have "sessions_inv h ?d" using i(2) unfolding sessions_inv_def w by (auto simp: list_all_iff)
    moreover have "in_budget ?d" using i(3) unfolding in_budget_def session_measures w by simp
    moreover have "stored h d ?d" by (rule stored_sessions) simp_all
    ultimately show ?thesis using i(1) by (simp add: evidence_inv_def stored_def)
  qed
  moreover have "stored h d ?d" by (rule stored_sessions) simp_all
  ultimately show ?thesis by (simp add: custody_kept_def)
qed

lemma finish_Inr:
  assumes "finish e agent_id command_id i t m d = (Inr r, d')"
  obtains p d1 d2 where "tf_received_bytes t = mf_content_bytes m"
    and "update_transfer i (\<lambda>x. x\<lparr>tf_state := SESSION_COMPLETE\<rparr>) d = (Inr (), d1)"
    and "parse_signed_upload e (JObj [(''manifest'', JObj (dump_manifest m)), (''content_base64'', JStr (b64encode (join_frames d i)))]) = Some p"
    and "retain_signed e agent_id command_id (fst p) (snd p) (Some (tf_admitted_at t)) d1 = (Inr r, d2)"
    and "audit_only (d2\<lparr>response_artifact_chunks := filter (\<lambda>c. ch_artifact_id c \<noteq> i) (response_artifact_chunks d2)\<rparr>) d'"
proof -
  obtain p d1 d2 where a: "tf_received_bytes t = mf_content_bytes m"
    "update_transfer i (\<lambda>x. x\<lparr>tf_state := SESSION_COMPLETE\<rparr>) d = (Inr (), d1)"
    "parse_signed_upload e (JObj [(''manifest'', JObj (dump_manifest m)), (''content_base64'', JStr (b64encode (join_frames d i)))]) = Some p"
    "retain_signed e agent_id command_id (fst p) (snd p) (Some (tf_admitted_at t)) d1 = (Inr r, d2)"
    and t: "record_transfer e (tf_artifact_id t) (tf_command_id t) (tf_host_id t) ''artifact_transfer_completed'' (''agent:'' @ agent_id)
        [(''content_bytes'', JInt (int (length (join_frames d i)))), (''sha256'', JStr (mf_sha256 m))]
        (d2\<lparr>response_artifact_chunks := filter (\<lambda>c. ch_artifact_id c \<noteq> i) (response_artifact_chunks d2)\<rparr>) = (Inr (), d')"
    using assms unfolding finish_def delete_chunks_def by (auto simp: bindM_Inr_iff)
  show ?thesis by (rule that [OF a stays_run [OF audit_only_record_transfer t]])
qed

lemma custody_finish:
  assumes "finish e agent_id command_id i t m d = (Inr r, d')" and "t \<in> set (response_artifact_transfers d)" and "tf_artifact_id t = i"
    and "open_session t"
  shows "custody_kept (sha256 e) d d'"
  using assms(1)
proof (rule finish_Inr)
  fix p and d1 d2 :: db
  let ?h = "sha256 e" and ?d3 = "d2\<lparr>response_artifact_chunks := filter (\<lambda>c. ch_artifact_id c \<noteq> i) (response_artifact_chunks d2)\<rparr>"
  assume u: "update_transfer i (\<lambda>x. x\<lparr>tf_state := SESSION_COMPLETE\<rparr>) d = (Inr (), d1)"
    and r: "retain_signed e agent_id command_id (fst p) (snd p) (Some (tf_admitted_at t)) d1 = (Inr r, d2)"
    and a: "audit_only ?d3 d'"
  have "update_transfer i (\<lambda>x. x\<lparr>tf_state := SESSION_COMPLETE\<rparr>) (d\<lparr>response_artifact_chunks := response_artifact_chunks d\<rparr>) = (Inr (), d1)"
    using u by simp
  then have k1: "custody_kept ?h d d1"
  proof (rule custody_update [OF _ refl])
    fix x assume inv: "sessions_inv ?h d" and f: "find_by tf_artifact_id i (response_artifact_transfers d) = Some x"
      and checks: "transfer_checks (x\<lparr>tf_state := SESSION_COMPLETE\<rparr>)"
    have "x = t" using session_of_row(1) [OF inv assms(2)] f assms(3) by simp
    then show "frames_sound ?h (d\<lparr>response_artifact_chunks := response_artifact_chunks d\<rparr>) (x\<lparr>tf_state := SESSION_COMPLETE\<rparr>) \<and>
        (open_session (x\<lparr>tf_state := SESSION_COMPLETE\<rparr>) \<longrightarrow> open_session x)"
      using checks by (simp add: frames_sound_def open_session_def)
  qed (simp_all add: sessions_inv_def)
  have k2: "custody_kept ?h d1 d2" by (rule yields_run [OF custody_retain_signed r])
  have same: "response_artifact_transfers d2 = response_artifact_transfers d1"
    using stays_run [OF sessions_same_retain_signed r] by (simp add: sessions_same_def)
  have there: "\<exists>x\<in>set (response_artifact_transfers d2). tf_artifact_id x = i \<and> tf_state x = SESSION_COMPLETE"
    using u
  proof (cases rule: update_transfer_Inr)
    case 1
    then show ?thesis using assms(2,3) by (force simp: find_by_None_iff)
  next
    case (2 x)
    then show ?thesis unfolding same using assms(2,3)
      by (intro bexI [of _ "t\<lparr>tf_state := SESSION_COMPLETE\<rparr>"]) (auto simp: set_update_where)
  qed
  then obtain x where "x \<in> set (response_artifact_transfers d2)" "tf_artifact_id x = i" "tf_state x = SESSION_COMPLETE" by blast
  then have k3: "custody_kept ?h d2 ?d3" by (intro custody_delete)
  show ?thesis by (rule custody.R_trans [OF k1 custody.R_trans [OF k2 custody.R_trans [OF k3 custody.blind [OF a]]]])
qed

lemma custody_retained: "yields (custody_kept (sha256 e)) (retained e agent_id command_id manifest)"
proof (rule yieldsI)
  fix d :: db and r d'
  assume "retained e agent_id command_id manifest d = (Inr r, d')"
  then show "custody_kept (sha256 e) d d'"
    unfolding retained_def again_def command_field_def
    by (auto simp: bindM_Inr_iff custody.R_refl split: option.splits prod.splits intro: yields_run [OF custody_retain_signed])
qed

lemma custody_complete: "yields (custody_kept (sha256 e)) (complete e agent_id command_id i manifest_sha256)"
proof (rule yieldsI)
  fix d :: db and r d'
  assume run: "complete e agent_id command_id i manifest_sha256 d = (Inr r, d')"
  show "custody_kept (sha256 e) d d'"
  proof (cases "find_by tf_artifact_id i (response_artifact_transfers d)")
    case None
    then have "complete_retained e agent_id command_id i manifest_sha256 d = (Inr r, d')" using run by (simp add: complete_def)
    then obtain v where "(case v of JObj manifest \<Rightarrow> retained e agent_id command_id manifest | _ \<Rightarrow> throw (TypeError ''artifact_id'')) d = (Inr r, d')"
      unfolding complete_retained_def by (auto simp: bindM_Inr_iff)
    then obtain manifest where "retained e agent_id command_id manifest d = (Inr r, d')" by (cases v) simp_all
    then show ?thesis by (rule yields_run [OF custody_retained])
  next
    case (Some y)
    then obtain t m where l: "load_transfer e agent_id command_id i d = (Inr (t, m), d)"
      and rest: "(if tf_state t = SESSION_COMPLETE
       then bindM (retained e agent_id command_id (dump_manifest m)) (\<lambda>r.
            bindM (require_some r (HTTPException 503 ''completed artifact retention is unavailable'')) (\<lambda>r. ret (Some r)))
       else bindM (finish e agent_id command_id i t m) (\<lambda>r. ret (Some r))) d = (Inr r, d')"
      using run unfolding complete_def disagrees_def by (auto simp: bindM_Inr_iff dest: load_transfer_Inr(1))
    note t = load_transfer_Inr [OF l]
    show ?thesis
    proof (cases "tf_state t = SESSION_COMPLETE")
      case True
      then show ?thesis using rest by (auto simp: bindM_Inr_iff intro: yields_run [OF custody_retained])
    next
      case False
      then have "open_session t" using t(6) by (cases "tf_state t") (simp_all add: open_session_def)
      moreover obtain x where "finish e agent_id command_id i t m d = (Inr x, d')" using rest False by (auto simp: bindM_Inr_iff)
      ultimately show ?thesis using custody_finish t(2,3) by blast
    qed
  qed
qed

section \<open>Admission\<close>

lemma custody_expire: "yields (custody_kept h) (expire e)"
proof -
  have "yields (custody_kept h) (forM (expire_one e) ts)" for ts
  proof (induction ts)
    case (Cons t ts)
    then show ?case by (auto intro: custody.yields_bindM custody_expire_one)
  qed (auto simp: yields_def custody.R_refl)
  then show ?thesis unfolding expire_def by (intro custody.yields_bindM stays_yields [OF custody.stays_gets])
qed

lemma retained_None: "retained e agent_id command_id manifest d = (Inr None, d') \<Longrightarrow> d' = d"
  unfolding retained_def again_def command_field_def by (auto simp: bindM_Inr_iff split: option.splits prod.splits)

lemma admit_session_Inr:
  assumes "admit_session e agent_id command_id m prior d = (Inr r, d')"
  obtains k where "verify_manifest e agent_id m (case prior of Some t \<Rightarrow> if open_session t then Some (tf_admitted_at t) else None | None \<Rightarrow> None) d = (Inr k, d)"
    and "(\<exists>t. prior = Some t \<and> open_session t \<and> d' = d \<and> r = progress e m (tf_received_bytes t) (Some (tf_expires_at t)) False) \<or>
      ((\<forall>t. prior = Some t \<longrightarrow> tf_state t = SESSION_EXPIRED) \<and> mf_artifact_id m \<notin> ar_artifact_id ` set (response_artifacts d) \<and>
        open_transfer e agent_id command_id m (prior \<noteq> None) d = (Inr r, d'))"
proof -
  obtain k d0 where k: "verify_manifest e agent_id m (case prior of Some t \<Rightarrow> if open_session t then Some (tf_admitted_at t) else None | None \<Rightarrow> None) d = (Inr k, d0)"
    and rest: "(case prior of
       Some t \<Rightarrow>
         if open_session t then ret (progress e m (tf_received_bytes t) (Some (tf_expires_at t)) False)
         else
           seqM (raise_if (tf_state t = SESSION_COMPLETE) (HTTPException 503 ''completed artifact retention is unavailable''))
           (bindM (gets (\<lambda>d. mf_artifact_id m \<in> ar_artifact_id ` set (response_artifacts d))) (\<lambda>held.
            seqM (raise_if held (HTTPException 409 ''unsigned evidence cannot become signed transfer provenance''))
            (open_transfer e agent_id command_id m True)))
     | None \<Rightarrow>
         bindM (gets (\<lambda>d. mf_artifact_id m \<in> ar_artifact_id ` set (response_artifacts d))) (\<lambda>held.
         seqM (raise_if held (HTTPException 409 ''unsigned evidence cannot become signed transfer provenance''))
         (open_transfer e agent_id command_id m False))) d0 = (Inr r, d')"
    using assms unfolding admit_session_def bindM_Inr_iff by blast
  have d: "d0 = d" using k by (rule verify_manifest_Inr)
  show ?thesis
  proof (rule that)
    show "verify_manifest e agent_id m (case prior of Some t \<Rightarrow> if open_session t then Some (tf_admitted_at t) else None | None \<Rightarrow> None) d = (Inr k, d)"
      using k d by simp
    show "(\<exists>t. prior = Some t \<and> open_session t \<and> d' = d \<and> r = progress e m (tf_received_bytes t) (Some (tf_expires_at t)) False) \<or>
      ((\<forall>t. prior = Some t \<longrightarrow> tf_state t = SESSION_EXPIRED) \<and> mf_artifact_id m \<notin> ar_artifact_id ` set (response_artifacts d) \<and>
        open_transfer e agent_id command_id m (prior \<noteq> None) d = (Inr r, d'))"
    proof (cases prior)
      case None
      then show ?thesis using rest d by (auto simp: bindM_Inr_iff)
    next
      case (Some t)
      then show ?thesis using rest d
        by (cases "tf_state t") (auto simp: bindM_Inr_iff open_session_def split: if_splits)
    qed
  qed
qed

lemma admit_Inr:
  assumes "admit_artifact e agent_id command_id m d = (Inr r, d')"
  obtains c d1 where "validate_binding agent_id command_id (mf_host_id m) (mf_command_id m) (mf_correlation_id m) (mf_kind m) d = (Inr c, d)"
    and "expire e d = (Inr (), d1)"
    and "\<And>t. find_by tf_artifact_id (mf_artifact_id m) (response_artifact_transfers d1) = Some t \<Longrightarrow>
      tf_manifest_json t = canonical (JObj (dump_manifest m))"
    and "(\<exists>x. retained e agent_id command_id (dump_manifest m) d1 = (Inr (Some x), d') \<and> r = progress e m (mf_content_bytes m) None True) \<or>
      (retained e agent_id command_id (dump_manifest m) d1 = (Inr None, d1) \<and>
       admit_session e agent_id command_id m (find_by tf_artifact_id (mf_artifact_id m) (response_artifact_transfers d1)) d1 = (Inr r, d'))"
proof -
  obtain c d0 d1 kept d2 where b: "validate_binding agent_id command_id (mf_host_id m) (mf_command_id m) (mf_correlation_id m) (mf_kind m) d = (Inr c, d0)"
    and x: "expire e d0 = (Inr (), d1)"
    and p: "\<not> (case find_by tf_artifact_id (mf_artifact_id m) (response_artifact_transfers d1) of
        None \<Rightarrow> False | Some t \<Rightarrow> tf_manifest_json t \<noteq> canonical (JObj (dump_manifest m)))"
    and k: "retained e agent_id command_id (dump_manifest m) d1 = (Inr kept, d2)"
    and rest: "(if kept \<noteq> None then ret (progress e m (mf_content_bytes m) None True)
      else admit_session e agent_id command_id m (find_by tf_artifact_id (mf_artifact_id m) (response_artifact_transfers d1))) d2 = (Inr r, d')"
    using assms unfolding admit_artifact_def by (auto simp: bindM_Inr_iff)
  have d: "d0 = d" using b by (rule binding_read)
  show ?thesis
  proof (rule that [of c d1])
    show "(\<exists>x. retained e agent_id command_id (dump_manifest m) d1 = (Inr (Some x), d') \<and> r = progress e m (mf_content_bytes m) None True) \<or>
      (retained e agent_id command_id (dump_manifest m) d1 = (Inr None, d1) \<and>
       admit_session e agent_id command_id m (find_by tf_artifact_id (mf_artifact_id m) (response_artifact_transfers d1)) d1 = (Inr r, d'))"
    proof (cases kept)
      case None
      then have "d2 = d1" using k retained_None by blast
      then show ?thesis using k rest None by simp
    next
      case (Some x)
      then show ?thesis using k rest by auto
    qed
  qed (use b x d p in \<open>simp_all split: option.splits\<close>)
qed

lemma custody_admit:
  assumes "keeps_manifests e"
  shows "yields (custody_kept (sha256 e)) (admit_artifact e agent_id command_id m)"
proof (rule yieldsI)
  fix d :: db and r d'
  assume "admit_artifact e agent_id command_id m d = (Inr r, d')"
  then show "custody_kept (sha256 e) d d'"
  proof (rule admit_Inr)
    fix c and d1 :: db
    let ?prior = "find_by tf_artifact_id (mf_artifact_id m) (response_artifact_transfers d1)"
    assume b: "validate_binding agent_id command_id (mf_host_id m) (mf_command_id m) (mf_correlation_id m) (mf_kind m) d = (Inr c, d)"
      and x: "expire e d = (Inr (), d1)"
      and bound: "\<And>t. ?prior = Some t \<Longrightarrow> tf_manifest_json t = canonical (JObj (dump_manifest m))"
      and cases: "(\<exists>x. retained e agent_id command_id (dump_manifest m) d1 = (Inr (Some x), d') \<and> r = progress e m (mf_content_bytes m) None True) \<or>
        (retained e agent_id command_id (dump_manifest m) d1 = (Inr None, d1) \<and> admit_session e agent_id command_id m ?prior d1 = (Inr r, d'))"
    have k1: "custody_kept (sha256 e) d d1" by (rule yields_run [OF custody_expire x])
    have "custody_kept (sha256 e) d1 d'"
      using cases
    proof (elim disjE exE conjE)
      fix x assume "retained e agent_id command_id (dump_manifest m) d1 = (Inr (Some x), d')"
      then show ?thesis by (rule yields_run [OF custody_retained])
    next
      assume "admit_session e agent_id command_id m ?prior d1 = (Inr r, d')"
      then obtain k where k: "verify_manifest e agent_id m
          (case ?prior of Some t \<Rightarrow> if open_session t then Some (tf_admitted_at t) else None | None \<Rightarrow> None) d1 = (Inr k, d1)"
        and s: "(\<exists>t. ?prior = Some t \<and> open_session t \<and> d' = d1 \<and> r = progress e m (tf_received_bytes t) (Some (tf_expires_at t)) False) \<or>
          ((\<forall>t. ?prior = Some t \<longrightarrow> tf_state t = SESSION_EXPIRED) \<and> mf_artifact_id m \<notin> ar_artifact_id ` set (response_artifacts d1) \<and>
            open_transfer e agent_id command_id m (?prior \<noteq> None) d1 = (Inr r, d'))"
        by (rule admit_session_Inr)
      obtain v where v: "make_manifest e (JObj (dump_manifest m)) = Some v" "mf_agent_id v = agent_id" using k by (rule verify_manifest_Inr)
      then have m: "v = m" "wf_json (JObj (dump_manifest m))" using assms unfolding keeps_manifests_def by blast+
      have c: "mf_command_id m = command_id" using b by (rule binding_Inr)
      from s show ?thesis
      proof (elim disjE exE conjE)
        assume e: "\<forall>t. ?prior = Some t \<longrightarrow> tf_state t = SESSION_EXPIRED"
          and o: "open_transfer e agent_id command_id m (?prior \<noteq> None) d1 = (Inr r, d')"
        show ?thesis
          by (rule custody_open_transfer [OF o _ c m(2)]) (use v(2) m(1) e bound in \<open>cases ?prior; simp\<close>)+
      qed (simp add: custody.R_refl)
    qed
    then show ?thesis by (rule custody.R_trans [OF k1])
  qed
qed

lemma custody_checks:
  "stays (custody_kept h) (require_agent_token e agent_id auth)" "stays (custody_kept h) (require_analyst_permission e auth permission)"
  by (intro custody_evidence_same evidence_same_checks)+

lemma custody_operation:
  assumes "\<And>v. yields (custody_kept h) (body v)" and "stays (custody_kept h) read"
  shows "stays (custody_kept h) (transfer_operation e agent_id command_id auth read body)"
proof -
  have refusal: "stays (custody_kept h) (record_refusal e ev agent_id command_id detail)" for ev detail
    unfolding record_refusal_def by (intro custody.stays_structural custody.writers stays_cases)
  show ?thesis
    unfolding transfer_operation_def
    by (intro custody.stays_bindM custody.stays_raise_if custody_checks custody.stays_recording_committed custody.yields_bindM custody_expire
        assms(1) stays_yields [OF assms(2)] stays_yields [OF refusal] stays_yields [OF custody_checks(1)])
qed

lemma custody_transfer_requests:
  "keeps_manifests e \<Longrightarrow> stays (custody_kept (sha256 e)) (admit_transfer e agent_id command_id content_type data auth)"
  "stays (custody_kept (sha256 e)) (put_transfer_chunk e agent_id command_id artifact_id offset dig content_type data auth)"
  "stays (custody_kept (sha256 e)) (complete_transfer e agent_id command_id artifact_id content_type data auth)"
  unfolding admit_transfer_def put_transfer_chunk_def complete_transfer_def
  by (intro custody.stays_bindM custody.stays_raise_if custody_operation custody_admit custody_put_chunk custody_complete
      custody.stays_document custody.stays_request_body; assumption)+

section \<open>Expiry leaves nothing overdue\<close>






section \<open>The bytes that were sent are the bytes that are kept\<close>

lemma contiguous_offsets: "contiguous h n cs \<Longrightarrow> c \<in> set cs \<Longrightarrow> n \<le> ch_offset c \<and> ch_offset c < n + int (length (received cs))"
proof (induction cs arbitrary: n)
  case (Cons a cs)
  have "int (length (received (a # cs))) = int (length (ch_content a)) + int (length (received cs))" by (simp add: received_def)
  moreover have "0 < int (length (ch_content a))" "ch_offset a = n" using Cons.prems(1) by simp_all
  moreover have "c = a \<or> n + int (length (ch_content a)) \<le> ch_offset c \<and>
      ch_offset c < n + int (length (ch_content a)) + int (length (received cs))"
    using Cons.IH [of "n + int (length (ch_content a))"] Cons.prems by auto
  ultimately show ?case by (elim disjE conjE; hypsubst?; intro conjI; linarith)
qed simp

lemma contiguous_sorted: "contiguous h n cs \<Longrightarrow> sorted (map ch_offset cs)"
proof (induction cs arbitrary: n)
  case (Cons a cs)
  then show ?case using contiguous_offsets [of h "n + int (length (ch_content a))" cs] by fastforce
qed simp

lemma join_received: "contiguous h n (held_frames d i) \<Longrightarrow> join_frames d i = received (held_frames d i)"
  using contiguous_sorted by (simp add: join_frames_def chunks_of_def order_by_def held_frames_def received_def sorted_sort_id sort_key_id_if_sorted)

text \<open>The manifest a session is loaded with is the one it was admitted with.\<close>

lemma load_manifest:
  assumes "load_transfer e agent_id command_id i d = (Inr (t, m), d')" and "keeps_manifests e" and "session_bound t"
  shows "mf_artifact_id m = i" and "mf_content_bytes m = tf_content_bytes t"
proof -
  note l = load_transfer_Inr [OF assms(1)]
  obtain m0 where m0: "wf_json (JObj (dump_manifest m0))" "tf_manifest_json t = canonical (JObj (dump_manifest m0))"
    "mf_artifact_id m0 = tf_artifact_id t" "mf_content_bytes m0 = tf_content_bytes t"
    using assms(3) by (auto simp: session_bound_def)
  have "make_manifest e (sort_json (JObj (dump_manifest m0))) = Some m" using l(7) m0(1,2) json_loads_canonical by auto
  then have "m = m0" using assms(2) m0(1) unfolding keeps_manifests_def by metis
  then show "mf_artifact_id m = i" "mf_content_bytes m = tf_content_bytes t" using m0 l(3) by simp_all
qed

lemma put_chunk_next:
  assumes run: "put_chunk e agent_id command_id i offset dig data d = (Inr r, d')" and inv: "sessions_inv (sha256 e) d"
    and t: "find_by tf_artifact_id i (response_artifact_transfers d) = Some t" "open_session t" "tf_received_bytes t = offset"
  shows "received (held_frames d' i) = received (held_frames d i) @ data"
    and "find_by tf_artifact_id i (response_artifact_transfers d') = Some (t\<lparr>tf_received_bytes := offset + int (length data)\<rparr>)"
proof -
  obtain t' m where l: "load_transfer e agent_id command_id i d = (Inr (t', m), d)"
    and rest: "(if tf_state t' = SESSION_COMPLETE then frame_of_retained e m i offset data
      else frame_of_session e agent_id t' m i offset dig data) d = (Inr r, d')"
    using run unfolding put_chunk_def Let_def by (auto simp: bindM_Inr_iff dest: load_transfer_Inr(1))
  have t': "t' = t" using session_of_row(1) [OF inv load_transfer_Inr(2) [OF l]] load_transfer_Inr(3) [OF l] t(1) by simp
  have there: "t \<in> set (response_artifact_transfers d)" "tf_artifact_id t = i" using find_by_SomeD [OF t(1)] by simp_all
  then have sound: "contiguous (sha256 e) 0 (held_frames d i)" "offset = int (length (received (held_frames d i)))"
    using session_of_row(2) [OF inv] t(2,3) by (auto simp: session_sound_def frames_sound_def open_session_def)
  have "List.find (\<lambda>c. ch_artifact_id c = i \<and> ch_offset c = offset) (response_artifact_chunks d) = None"
    using contiguous_offsets [OF sound(1)] sound(2) unfolding find_None_iff held_frames_def by fastforce
  then have "accept_frame e agent_id t m i offset dig data d = (Inr r, d')"
    using rest t(2) t' by (simp add: frame_of_session_def open_session_def)
  then have "held_frames d' i = held_frames d i @ [\<lparr>ch_artifact_id = i, ch_offset = offset, ch_sha256 = dig, ch_content = data\<rparr>] \<and>
      find_by tf_artifact_id i (response_artifact_transfers d') = Some (t\<lparr>tf_received_bytes := offset + int (length data)\<rparr>)"
  proof (rule accept_frame_Inr)
    fix d1
    assume u: "update_transfer i (\<lambda>x. x\<lparr>tf_received_bytes := offset + int (length data)\<rparr>)
      (d\<lparr>response_artifact_chunks := response_artifact_chunks d @
        [\<lparr>ch_artifact_id = i, ch_offset = offset, ch_sha256 = dig, ch_content = data\<rparr>]\<rparr>) = (Inr (), d1)" and a: "audit_only d1 d'"
    from u show ?thesis
    proof (cases rule: update_transfer_Inr)
      case 1
      then show ?thesis using t(1) by simp
    next
      case (2 x)
      then show ?thesis using t(1) there(2) audit_onlyD [OF a] by (simp add: held_frames_def find_by_update_where)
    qed
  qed
  then show "received (held_frames d' i) = received (held_frames d i) @ data"
    "find_by tf_artifact_id i (response_artifact_transfers d') = Some (t\<lparr>tf_received_bytes := offset + int (length data)\<rparr>)"
    by (simp_all add: received_def)
qed

text \<open>An agent sends the frames of an artifact one after the other, each under its digest.\<close>

fun send :: "env \<Rightarrow> string \<Rightarrow> string \<Rightarrow> string \<Rightarrow> int \<Rightarrow> string list \<Rightarrow> (db, unit) act" where
  "send e agent_id command_id i offset [] = ret ()"
| "send e agent_id command_id i offset (f # fs) =
    seqM (put_chunk e agent_id command_id i offset (sha256 e f) f)
      (send e agent_id command_id i (offset + int (length f)) fs)"

lemma send_collects:
  assumes "send e agent_id command_id i offset fs d = (Inr u, d')" and "evidence_inv (sha256 e) d"
    and "find_by tf_artifact_id i (response_artifact_transfers d) = Some t" and "open_session t" and "tf_received_bytes t = offset"
  shows "evidence_inv (sha256 e) d' \<and> received (held_frames d' i) = received (held_frames d i) @ concat fs \<and>
    find_by tf_artifact_id i (response_artifact_transfers d') = Some (t\<lparr>tf_received_bytes := offset + int (length (concat fs))\<rparr>)"
  using assms
proof (induction fs arbitrary: offset d t)
  case (Cons f fs)
  then obtain r d1 where one: "put_chunk e agent_id command_id i offset (sha256 e f) f d = (Inr r, d1)"
    and rest: "send e agent_id command_id i (offset + int (length f)) fs d1 = (Inr u, d')"
    unfolding send.simps bindM_Inr_iff by blast
  have inv: "sessions_inv (sha256 e) d" using Cons.prems(2) by (simp add: evidence_inv_def)
  note p = put_chunk_next [OF one inv Cons.prems(3-5)]
  have "evidence_inv (sha256 e) d1" using yields_run [OF custody_put_chunk one] Cons.prems(2) by (simp add: custody_kept_def)
  from Cons.IH [OF rest this p(2)] show ?case using Cons.prems(4) p(1) by (simp add: open_session_def add.assoc)
qed auto

lemma retain_signed_keeps:
  assumes "retain_signed e agent_id command_id m b admitted d = (Inr r, d')"
  shows "\<exists>a\<in>set (response_artifacts d'). ar_artifact_id a = mf_artifact_id m \<and> b64decode b = Some (ar_content a)"
  using assms
proof (rule retain_signed_Inr)
  fix k u content and d1 :: db
  assume u: "upload_of m b = Some u" and c: "decoded_content e u d = (Inr content, d)"
    and t: "retain e agent_id command_id u content d = (Inr r, d1)"
    and cases: "(\<exists>p. find_by at_artifact_id (mf_artifact_id m) (artifact_manifest_attestations d) = Some p \<and>
          at_manifest_json p = canonical (JObj (dump_manifest m)) \<and> d' = d1) \<or>
       (find_by at_artifact_id (mf_artifact_id m) (artifact_manifest_attestations d) = None \<and>
        mf_artifact_id m \<notin> ar_artifact_id ` set (response_artifacts d) \<and>
        (\<exists>forensic. attest e agent_id command_id m k (int (length content)) forensic d1 = (Inr (), d')))"
  have b: "b64decode b = Some content" using decoded_content_Inr(1) [OF c] upload_of_SomeD(9) [OF u] by simp
  have "\<exists>a\<in>set (response_artifacts d1). ar_artifact_id a = mf_artifact_id m \<and> ar_content a = content"
    using t
  proof (rule retain_Inr)
    assume "(\<exists>a. find_by ar_artifact_id (up_artifact_id u) (response_artifacts d) = Some a \<and> ar_content a = content \<and> d1 = d) \<or>
      (\<exists>d0. insert_artifact (artifact_of e agent_id command_id u content) d = (Inr (), d0) \<and> audit_only d0 d1 \<and>
        check_quota e command_id (int (length content)) (HTTPException 507 ''artifact retention quota reached; existing evidence preserved'') d = (Inr (), d))"
    then show ?thesis
    proof (elim disjE exE conjE)
      fix a assume "find_by ar_artifact_id (up_artifact_id u) (response_artifacts d) = Some a" "ar_content a = content" "d1 = d"
      then show ?thesis using find_by_SomeD upload_of_SomeD(1) [OF u] by metis
    next
      fix d0 assume i: "insert_artifact (artifact_of e agent_id command_id u content) d = (Inr (), d0)" "audit_only d0 d1"
      have "response_artifacts d1 = response_artifacts d @ [artifact_of e agent_id command_id u content]"
        using insert_artifact_Inr(3) [OF i(1)] audit_onlyD(21) [OF i(2)] by simp
      then show ?thesis using upload_of_SomeD(1) [OF u] by (simp add: artifact_of_def)
    qed
  qed
  moreover have "response_artifacts d' = response_artifacts d1"
    using cases
  proof (elim disjE exE conjE)
    fix forensic assume "attest e agent_id command_id m k (int (length content)) forensic d1 = (Inr (), d')"
    then show ?thesis by (rule attest_Inr) (drule insert_attestation_Inr(3), simp add: audit_onlyD(21))
  qed simp
  ultimately show ?thesis using b by auto
qed

lemma finish_keeps:
  assumes "finish e agent_id command_id i t m d = (Inr r, d')" and "keeps_manifests e" and "contiguous h n (held_frames d i)"
  shows "tf_received_bytes t = mf_content_bytes m \<and>
    (\<exists>a\<in>set (response_artifacts d'). ar_artifact_id a = mf_artifact_id m \<and> ar_content a = received (held_frames d i)) \<and> held_frames d' i = []"
  using assms(1)
proof (rule finish_Inr)
  fix p and d1 d2 :: db
  let ?d3 = "d2\<lparr>response_artifact_chunks := filter (\<lambda>c. ch_artifact_id c \<noteq> i) (response_artifact_chunks d2)\<rparr>"
  assume n: "tf_received_bytes t = mf_content_bytes m"
    and p: "parse_signed_upload e (JObj [(''manifest'', JObj (dump_manifest m)), (''content_base64'', JStr (b64encode (join_frames d i)))]) = Some p"
    and r: "retain_signed e agent_id command_id (fst p) (snd p) (Some (tf_admitted_at t)) d1 = (Inr r, d2)" and a: "audit_only ?d3 d'"
  have m: "make_manifest e (JObj (dump_manifest m)) = Some (fst p)" "snd p = b64encode (join_frames d i)"
    using p unfolding parse_signed_upload_def by (auto simp: text_field_def split: if_splits option.splits)
  then have "fst p = m" using assms(2) unfolding keeps_manifests_def by blast
  then obtain x where x: "x \<in> set (response_artifacts d2)" "ar_artifact_id x = mf_artifact_id m" "b64decode (snd p) = Some (ar_content x)"
    using retain_signed_keeps [OF r] by auto
  have "ar_content x = received (held_frames d i)" using x(3) m(2) join_received [OF assms(3)] by (simp add: b64decode_b64encode)
  moreover have "response_artifacts d' = response_artifacts d2" "held_frames d' i = []"
    using audit_onlyD [OF a] by (simp_all add: held_frames_def filter_empty_conv)
  ultimately show ?thesis using n x by auto
qed

text \<open>
  C8. What is sent frame by frame is what is kept. When an agent sends any frames to an open session that has received nothing
  yet, and completion is accepted, then the frames have the announced length, the retained artifact of that session consists of
  exactly their bytes in order, and no partial frame is left behind.
\<close>

theorem chunked_upload_keeps_the_bytes:
  assumes "keeps_manifests e" and "evidence_inv (sha256 e) d"
    and "find_by tf_artifact_id i (response_artifact_transfers d) = Some t" and "open_session t" and "tf_received_bytes t = 0"
    and "send e agent_id command_id i 0 frames d = (Inr u, d1)"
    and "complete e agent_id command_id i manifest_sha256 d1 = (Inr r, d')"
  shows "int (length (concat frames)) = tf_content_bytes t \<and> held_frames d' i = [] \<and>
    (\<exists>a\<in>set (response_artifacts d'). ar_artifact_id a = i \<and> ar_content a = concat frames) \<and> evidence_inv (sha256 e) d'"
proof -
  note s = send_collects [OF assms(6,2,3,4,5)]
  let ?t = "t\<lparr>tf_received_bytes := 0 + int (length (concat frames))\<rparr>"
  have inv: "sessions_inv (sha256 e) d" "sessions_inv (sha256 e) d1" using s assms(2) by (simp_all add: evidence_inv_def)
  have there: "t \<in> set (response_artifact_transfers d)" "tf_artifact_id t = i" using find_by_SomeD [OF assms(3)] by simp_all
  have t1: "find_by tf_artifact_id i (response_artifact_transfers d1) = Some ?t" using s by blast
  have in1: "?t \<in> set (response_artifact_transfers d1)" using find_by_SomeD [OF t1] by blast
  have "received (held_frames d i) = []"
    using session_of_row(2) [OF inv(1) there(1)] there(2) assms(4,5) by (simp add: session_sound_def frames_sound_def open_session_def)
  then have got: "received (held_frames d1 i) = concat frames" using s by simp
  have row: "session_sound (sha256 e) d1 ?t" by (rule session_of_row(2) [OF inv(2) in1])
  then have sound: "session_bound ?t" by (simp only: session_sound_def)
  have whole: "contiguous (sha256 e) 0 (held_frames d1 i)"
    using row there(2) assms(4) by (simp add: session_sound_def frames_sound_def open_session_def)
  obtain t' m where l: "load_transfer e agent_id command_id i d1 = (Inr (t', m), d1)"
    and rest: "(if tf_state t' = SESSION_COMPLETE
       then bindM (retained e agent_id command_id (dump_manifest m)) (\<lambda>r.
            bindM (require_some r (HTTPException 503 ''completed artifact retention is unavailable'')) (\<lambda>r. ret (Some r)))
       else bindM (finish e agent_id command_id i t' m) (\<lambda>r. ret (Some r))) d1 = (Inr r, d')"
    using assms(7) t1 unfolding complete_def disagrees_def by (auto simp: bindM_Inr_iff dest: load_transfer_Inr(1))
  have t': "t' = ?t" using session_of_row(1) [OF inv(2) load_transfer_Inr(2) [OF l]] load_transfer_Inr(3) [OF l] t1 by simp
  then obtain x where "finish e agent_id command_id i ?t m d1 = (Inr x, d')"
    using rest assms(4) by (auto simp: bindM_Inr_iff open_session_def)
  note f = finish_keeps [OF this assms(1) whole]
  have m: "mf_artifact_id m = i" "mf_content_bytes m = tf_content_bytes t"
    using load_manifest [OF l assms(1)] sound t' by simp_all
  have "evidence_inv (sha256 e) d'" using yields_run [OF custody_complete assms(7)] s by (simp add: custody_kept_def)
  then show ?thesis using f got m by simp
qed

text \<open>A manifest class that does what is relied on: it looks its fields up by name.\<close>

definition manifest_shape :: "jobj \<Rightarrow> jobj \<Rightarrow> bool" where
  "manifest_shape d a \<longleftrightarrow> wf_json (JObj d) \<and> length d = 11 \<and> length a = 2 \<and> flat (jget ''produced_at_unix'' d) \<and>
     list_all (\<lambda>k. jstr (jget k d) \<noteq> None) [''artifact_id'', ''agent_id'', ''command_id'', ''correlation_id'', ''host_id'', ''kind'',
       ''media_type'', ''sha256''] \<and>
     jstr (jget ''key_id'' a) \<noteq> None \<and> jstr (jget ''signature'' a) \<noteq> None"

definition read_fields :: "jobj \<Rightarrow> jobj \<Rightarrow> int \<Rightarrow> manifest" where
  "read_fields d a n =
    \<lparr>mf_artifact_id = the (jstr (jget ''artifact_id'' d)), mf_agent_id = the (jstr (jget ''agent_id'' d)),
     mf_command_id = the (jstr (jget ''command_id'' d)), mf_correlation_id = the (jstr (jget ''correlation_id'' d)),
     mf_host_id = the (jstr (jget ''host_id'' d)), mf_kind = the (jstr (jget ''kind'' d)),
     mf_media_type = the (jstr (jget ''media_type'' d)), mf_content_bytes = n, mf_sha256 = the (jstr (jget ''sha256'' d)),
     mf_produced_at_unix = jget ''produced_at_unix'' d, mf_key_id = the (jstr (jget ''key_id'' a)),
     mf_signature = the (jstr (jget ''signature'' a)), mf_authorization_other = [], mf_other = []\<rparr>"

definition read_manifest :: "json \<Rightarrow> manifest option" where
  "read_manifest j =
    (case j of
       JObj d \<Rightarrow>
         (case (jget ''authorization'' d, jget ''content_bytes'' d) of
            (JObj a, JInt n) \<Rightarrow> if manifest_shape d a then Some (read_fields d a n) else None
          | _ \<Rightarrow> None)
     | _ \<Rightarrow> None)"

lemma jstr_sort [simp]: "jstr (sort_json v) = jstr v"
  by (cases v) simp_all

lemma flat_sort [simp]: "flat (sort_json v) = flat v"
  by (cases v) simp_all

lemma length_sort_obj [simp]: "length (sort_obj d) = length d"
  by (induction d) (auto simp del: insort_key.simps)

lemma jget_sort_obj: "distinct (map fst d) \<Longrightarrow> jget k (sort_obj d) = sort_json (jget k d)"
  by (simp add: jget_def map_of_sort_obj split: option.split)

lemma wf_field: "wf_json (JObj d) \<Longrightarrow> wf_json (jget k d)"
proof -
  assume "wf_json (JObj d)"
  then have "wf_json v" if "map_of d k = Some v" for v using that map_of_SomeD by (fastforce simp: wf_obj_iff)
  then show ?thesis by (simp add: jget_def split: option.split)
qed

lemma read_sorted:
  assumes wf: "wf_json (JObj d)"
  shows "read_manifest (JObj (sort_obj d)) = read_manifest (JObj d)"
proof -
  have dist: "distinct (map fst d)" using wf by simp
  note g = jget_sort_obj [OF dist]
  show ?thesis
  proof (cases "\<exists>a n. jget ''authorization'' d = JObj a \<and> jget ''content_bytes'' d = JInt n")
    case True
    then obtain a n where a: "jget ''authorization'' d = JObj a" "jget ''content_bytes'' d = JInt n" by blast
    have "wf_json (JObj a)" using wf_field [OF wf, of "''authorization''"] a(1) by simp
    then have ad: "distinct (map fst a)" by simp
    have shape: "manifest_shape (sort_obj d) (sort_obj a) = manifest_shape d a"
      using wf wf_sort(1) [OF wf] by (simp add: manifest_shape_def g jget_sort_obj [OF ad])
    have "read_fields (sort_obj d) (sort_obj a) n = read_fields d a n" if "manifest_shape d a"
      using that by (simp add: read_fields_def g jget_sort_obj [OF ad] manifest_shape_def sort_json_flat)
    then show ?thesis using a shape by (simp add: read_manifest_def g)
  next
    case False
    then have "read_manifest (JObj d) = None" by (auto simp: read_manifest_def split: json.splits)
    moreover have "\<not> (\<exists>a n. sort_json (jget ''authorization'' d) = JObj a \<and> sort_json (jget ''content_bytes'' d) = JInt n)"
      using False by (cases "jget ''authorization'' d"; cases "jget ''content_bytes'' d") auto
    then have "read_manifest (JObj (sort_obj d)) = None" by (auto simp: read_manifest_def g split: json.splits)
    ultimately show ?thesis by simp
  qed
qed

lemma dump_lookups:
  "jget ''authorization'' (dump_manifest m) = JObj ([(''key_id'', JStr (mf_key_id m)), (''signature'', JStr (mf_signature m))] @ mf_authorization_other m)"
  "jget ''content_bytes'' (dump_manifest m) = JInt (mf_content_bytes m)" "jget ''produced_at_unix'' (dump_manifest m) = mf_produced_at_unix m"
  "jget ''artifact_id'' (dump_manifest m) = JStr (mf_artifact_id m)" "jget ''agent_id'' (dump_manifest m) = JStr (mf_agent_id m)"
  "jget ''command_id'' (dump_manifest m) = JStr (mf_command_id m)" "jget ''correlation_id'' (dump_manifest m) = JStr (mf_correlation_id m)"
  "jget ''host_id'' (dump_manifest m) = JStr (mf_host_id m)" "jget ''kind'' (dump_manifest m) = JStr (mf_kind m)"
  "jget ''media_type'' (dump_manifest m) = JStr (mf_media_type m)" "jget ''sha256'' (dump_manifest m) = JStr (mf_sha256 m)"
  "length (dump_manifest m) = 11 + length (mf_other m)"
  by (simp_all add: dump_manifest_def)

lemma read_dumped: "read_manifest (JObj (dump_manifest m)) = Some v \<Longrightarrow> v = m"
  by (cases m) (auto simp: read_manifest_def read_fields_def manifest_shape_def dump_lookups split: if_splits)

lemma read_well_formed:
  assumes "read_manifest j = Some m"
  shows "wf_json (JObj (dump_manifest m))"
proof -
  obtain d a n where "manifest_shape d a" "m = read_fields d a n"
    using assms by (auto simp: read_manifest_def split: json.splits if_splits)
  then show ?thesis by (simp add: manifest_shape_def read_fields_def dump_manifest_def wf_flat)
qed

definition transfer_env :: env where
  "transfer_env = evidence_env\<lparr>make_manifest := read_manifest, uuid4 := (\<lambda>n. replicate n CHR ''u'')\<rparr>"

lemma transfer_env_keeps: "keeps_manifests transfer_env"
  unfolding keeps_manifests_def
proof (intro conjI allI impI)
  show "wf_json (JObj (dump_manifest m))" if "make_manifest transfer_env j = Some m" for j m
    by (rule read_well_formed) (use that in \<open>simp add: transfer_env_def\<close>)
  show "v = m" if "make_manifest transfer_env (JObj (dump_manifest m)) = Some v" for m v
    using that by (simp add: transfer_env_def read_dumped)
  show "make_manifest transfer_env (sort_json (JObj (dump_manifest m))) = make_manifest transfer_env (JObj (dump_manifest m))"
    if "wf_json (JObj (dump_manifest m))" for m
    using read_sorted [OF that] by (simp add: transfer_env_def)
qed


text \<open>Events are recorded one after the other as long as the identifiers drawn are new.\<close>

definition unused_ids :: "env \<Rightarrow> db \<Rightarrow> bool" where
  "unused_ids e d \<longleftrightarrow> audit_inv (sha256 e) d \<and> (\<forall>n\<ge>draws d. uuid4 e n \<notin> sa_event_id ` set (response_security_audit d))"

lemma unused_ids_cong:
  "response_audit_ledger d = response_audit_ledger d' \<Longrightarrow> command_audit d = command_audit d' \<Longrightarrow>
   response_decision_audit d = response_decision_audit d' \<Longrightarrow> response_artifact_custody d = response_artifact_custody d' \<Longrightarrow>
   response_security_audit d = response_security_audit d' \<Longrightarrow> draws d = draws d' \<Longrightarrow> unused_ids e d = unused_ids e d'"
  using audit_inv_at_cong [of d d'] by (simp add: unused_ids_def audit_inv_def)

lemma record_event_next:
  assumes "unused_ids e d" and "inj (uuid4 e)"
  shows "\<exists>d'. record_event e ev actor asset req detail d = (Inr (), d') \<and> audit_only d d' \<and> unused_ids e d'"
proof -
  have inv: "audit_inv (sha256 e) d" "uuid4 e (draws d) \<notin> sa_event_id ` set (response_security_audit d)"
    using assms(1) by (simp_all add: unused_ids_def)
  obtain d' where run: "record_event e ev actor asset req detail d = (Inr (), d')" using record_event_runs [OF inv] by blast
  have "draws d' = Suc (draws d) \<and> sa_event_id ` set (response_security_audit d') = insert (uuid4 e (draws d)) (sa_event_id ` set (response_security_audit d))"
    using run unfolding record_event_def insert_security_audit_def draw_def bindM_Inr_iff
    by (auto simp: bindM_raise_if split: if_splits dest!: chain_tables(1))
  then have "uuid4 e n \<notin> sa_event_id ` set (response_security_audit d')" if "n \<ge> draws d'" for n
    using that assms(1) injD [OF assms(2), of n "draws d"] by (auto simp: unused_ids_def)
  moreover have "audit_grows (sha256 e) d d'" by (rule stays_run [OF stays_record_event run])
  then have "audit_inv (sha256 e) d'" using inv(1) by (simp add: audit_grows_def audit_inv_def)
  moreover have "audit_only d d'" by (rule stays_run [OF audit_only_writers(4) run])
  ultimately show ?thesis using run by (auto simp: unused_ids_def)
qed

lemma record_transfer_next:
  "unused_ids e d \<Longrightarrow> inj (uuid4 e) \<Longrightarrow> \<exists>d'. record_transfer e i c host ev actor detail d = (Inr (), d') \<and> audit_only d d' \<and> unused_ids e d'"
  unfolding record_transfer_def bindM_gets by (rule record_event_next)

lemma transfer_env_simps [simp]:
  "sha256 transfer_env t = replicate 64 CHR ''0''" "environ transfer_env k = None" "make_manifest transfer_env = read_manifest"
  "artifact_signing_input transfer_env x = Some ''manifest''" "ecdsa_verify transfer_env p t x1 = True" "on_curve transfer_env p = True"
  "now transfer_env = demo_now" "uuid4 transfer_env n = replicate n CHR ''u''"
  by (simp_all add: transfer_env_def evidence_env_def)

lemma transfer_ids: "inj (uuid4 transfer_env)"
proof (rule injI)
  fix m n assume "uuid4 transfer_env m = uuid4 transfer_env n"
  then have "length (replicate m CHR ''u'') = length (replicate n CHR ''u'')" by simp
  then show "m = n" by simp
qed

definition demo_session :: "string \<Rightarrow> transfer_row" where
  "demo_session expiry = \<lparr>tf_artifact_id = ''art_'' @ replicate 64 CHR ''0'', tf_agent_id = ''agent-1'', tf_command_id = ''c1'',
     tf_host_id = ''host-1'', tf_manifest_json = canonical (JObj (dump_manifest demo_manifest)),
     tf_manifest_sha256 = replicate 64 CHR ''0'', tf_content_bytes = 2, tf_received_bytes = 0, tf_state = SESSION_OPEN,
     tf_admitted_at = ''t'', tf_expires_at = expiry\<rparr>"

definition demo_transfer :: "string \<Rightarrow> db" where
  "demo_transfer expiry = demo_delivered\<lparr>response_artifact_transfers := [demo_session expiry],
     response_artifact_transfer_usage := \<lparr>tu_reserved_bytes = 2, tu_open_sessions = 1, tu_total_sessions = 1\<rparr>\<rparr>"

lemma demo_transfer_simps [simp]:
  "artifact_signing_keys (demo_transfer x) = [demo_artifact_key]" "commands (demo_transfer x) = [demo_collection]"
  "enrolled_agents (demo_transfer x) = [demo_agent ''agent-1'' ''host-1'' ''tok'']" "response_artifacts (demo_transfer x) = []"
  "artifact_manifest_attestations (demo_transfer x) = []" "response_artifact_transfers (demo_transfer x) = [demo_session x]"
  "response_artifact_usage (demo_transfer x) = \<lparr>au_content_bytes = 0, au_artifacts = 0\<rparr>" "response_artifact_chunks (demo_transfer x) = []"
  "response_artifact_transfer_usage (demo_transfer x) = \<lparr>tu_reserved_bytes = 2, tu_open_sessions = 1, tu_total_sessions = 1\<rparr>"
  "response_audit_ledger (demo_transfer x) = []" "command_audit (demo_transfer x) = []"
  "response_decision_audit (demo_transfer x) = []" "response_artifact_custody (demo_transfer x) = []"
  "response_security_audit (demo_transfer x) = []"
  by (simp_all add: demo_transfer_def) (simp add: demo_delivered_def demo_keyring_def demo_fleet_def)

lemma demo_session_simps [simp]:
  "tf_artifact_id (demo_session x) = ''art_'' @ replicate 64 CHR ''0''" "tf_agent_id (demo_session x) = ''agent-1''"
  "tf_command_id (demo_session x) = ''c1''" "tf_host_id (demo_session x) = ''host-1''"
  "tf_manifest_json (demo_session x) = canonical (JObj (dump_manifest demo_manifest))" "tf_content_bytes (demo_session x) = 2"
  "tf_received_bytes (demo_session x) = 0" "tf_state (demo_session x) = SESSION_OPEN" "tf_expires_at (demo_session x) = x"
  "open_session (demo_session x)"
  by (simp_all add: demo_session_def open_session_def)

lemma demo_manifest_simps [simp]:
  "mf_artifact_id demo_manifest = ''art_'' @ replicate 64 CHR ''0''" "mf_agent_id demo_manifest = ''agent-1''"
  "mf_command_id demo_manifest = ''c1''" "mf_content_bytes demo_manifest = 2" "mf_host_id demo_manifest = ''host-1''"
  "mf_kind demo_manifest = ''execution_report''" "mf_correlation_id demo_manifest = ''k1''" "mf_sha256 demo_manifest = replicate 64 CHR ''0''"
  "mf_key_id demo_manifest = take 16 (demo_point CHR ''a'')" "mf_signature demo_manifest = b64encode (replicate 64 CHR ''s'')"
  by (simp_all add: demo_manifest_def)

lemma demo_manifest_well_formed: "wf_json (JObj (dump_manifest demo_manifest))"
  by (simp add: dump_manifest_def demo_manifest_def)

lemma demo_manifest_reads: "read_manifest (JObj (dump_manifest demo_manifest)) = Some demo_manifest"
  using demo_manifest_well_formed
  by (simp add: read_manifest_def dump_lookups manifest_shape_def read_fields_def) (simp add: demo_manifest_def)

lemma demo_evidence: "evidence_inv h (demo_transfer x)"
proof -
  have "session_bound (demo_session x)"
    using demo_manifest_well_formed unfolding session_bound_def by (intro exI [of _ demo_manifest]) simp
  then show ?thesis
    by (simp add: evidence_inv_def stored_inv_def sessions_inv_def in_budget_def session_sound_def transfer_checks_def frames_sound_def
        held_frames_def received_def weigh_def reserved_def opened_def agent_sessions_def command_count_def command_bytes_def
        command_artifacts_def command_sessions_def MAX_OPEN_def MAX_AGENT_OPEN_def MAX_GLOBAL_COUNT_def MAX_COMMAND_COUNT_def
        MAX_COMMAND_BYTES_def)
qed

lemma demo_unused: "unused_ids transfer_env (demo_transfer x)"
  using audit_inv_empty [of "sha256 transfer_env"] audit_inv_at_cong [of "demo_transfer x" empty_db]
  by (simp add: unused_ids_def audit_inv_def)




lemma demo_bound:
  assumes "artifact_signing_keys d = [demo_artifact_key]" and "commands d = [demo_collection]"
    and "enrolled_agents d = [demo_agent ''agent-1'' ''host-1'' ''tok'']"
  shows "validate_binding ''agent-1'' ''c1'' ''host-1'' ''c1'' ''k1'' ''execution_report'' d = (Inr (cm_command_json demo_collection), d)"
    and "verify_manifest transfer_env ''agent-1'' demo_manifest a d = (Inr demo_artifact_key, d)"
proof -
  show "validate_binding ''agent-1'' ''c1'' ''host-1'' ''c1'' ''k1'' ''execution_report'' d = (Inr (cm_command_json demo_collection), d)"
    using assms by (simp add: validate_binding_def active_agent_def demo_agent_def demo_collection_def check_correlation_def check_kind_def
        command_field_def KINDS_def bindM_raise_if) (simp add: bindM_def)
  show "verify_manifest transfer_env ''agent-1'' demo_manifest a d = (Inr demo_artifact_key, d)"
    using assms demo_manifest_reads
    by (simp add: verify_manifest_def verify_as_def manifest_signer_def retired_before_def verify_signature_def
      public_point_def b64decode_b64encode demo_point_def demo_artifact_key_def demo_agent_def bindM_raise_if)
qed

lemma demo_loads:
  assumes "artifact_signing_keys d = [demo_artifact_key]" and "commands d = [demo_collection]"
    and "enrolled_agents d = [demo_agent ''agent-1'' ''host-1'' ''tok'']"
    and "response_artifact_transfers d = [t]" and "transfer_frozen (demo_session demo_expiry) t" and "tf_state t = SESSION_OPEN"
    and "tf_expires_at t = demo_expiry"
  shows "load_transfer transfer_env ''agent-1'' ''c1'' (''art_'' @ replicate 64 CHR ''0'') d = (Inr (t, demo_manifest), d)"
proof -
  obtain x where x: "\<And>s :: db. server_time demo_expiry s = (Inr x, s)" "micros demo_now < micros x" using demo_expiry_time by blast
  note f = assms(5) [unfolded transfer_frozen_def, simplified]
  have j: "json_loads (tf_manifest_json t) = Some (sort_json (JObj (dump_manifest demo_manifest)))"
    using f json_loads_canonical [OF demo_manifest_well_formed] by simp
  have "read_manifest (sort_json (JObj (dump_manifest demo_manifest))) = Some demo_manifest"
    using read_sorted [OF demo_manifest_well_formed] demo_manifest_reads by simp
  then show ?thesis
    using demo_bound [OF assms(1-3)] assms(4,6,7) f j x unfolding load_transfer_def
    by (simp add: open_session_def bindM_Inr [where m = "server_time _"] bindM_Inr [where m = "verify_manifest _ _ _ _"]
        bindM_Inr [where m = "validate_binding _ _ _ _ _ _"] bindM_raise_if bindM_assoc)
qed


lemma demo_sent:
  "\<exists>r d1. put_chunk transfer_env ''agent-1'' ''c1'' (''art_'' @ replicate 64 CHR ''0'') 0 (sha256 transfer_env ''{}'') ''{}''
      (demo_transfer demo_expiry) = (Inr r, d1) \<and> unused_ids transfer_env d1 \<and>
    (\<exists>d0. audit_only d0 d1 \<and> d0 = demo_transfer demo_expiry\<lparr>
      response_artifact_chunks := [\<lparr>ch_artifact_id = ''art_'' @ replicate 64 CHR ''0'', ch_offset = 0, ch_sha256 = replicate 64 CHR ''0'', ch_content = ''{}''\<rparr>],
      response_artifact_transfers := [demo_session demo_expiry\<lparr>tf_received_bytes := 2\<rparr>]\<rparr>)"
proof -
  let ?i = "''art_'' @ replicate 64 CHR ''0''"
  let ?d = "demo_transfer demo_expiry"
  let ?c = "\<lparr>ch_artifact_id = ?i, ch_offset = 0, ch_sha256 = replicate 64 CHR ''0'', ch_content = ''{}''\<rparr>"
  define d0 where "d0 = ?d\<lparr>response_artifact_chunks := [?c], response_artifact_transfers := [demo_session demo_expiry\<lparr>tf_received_bytes := 2\<rparr>]\<rparr>"
  have l: "load_transfer transfer_env ''agent-1'' ''c1'' ?i ?d = (Inr (demo_session demo_expiry, demo_manifest), ?d)"
    by (rule demo_loads) (simp_all add: transfer_frozen_def)
  have c: "insert_chunk ?c ?d = (Inr (), ?d\<lparr>response_artifact_chunks := [?c]\<rparr>)" by (simp add: insert_chunk_def bindM_raise_if)
  have u: "update_transfer ?i (\<lambda>x. x\<lparr>tf_received_bytes := 2\<rparr>) (?d\<lparr>response_artifact_chunks := [?c]\<rparr>) = (Inr (), d0)"
    by (simp add: update_transfer_def Let_def bindM_raise_if transfer_frozen_def transfer_checks_def reserved_def opened_def d0_def
        update_where_def open_session_def)
  have "unused_ids transfer_env d0" using demo_unused [of demo_expiry] unused_ids_cong [of d0 ?d] by (simp add: d0_def)
  then obtain d1 where r: "record_transfer transfer_env ?i ''c1'' ''host-1'' ''artifact_chunk_transferred'' (''agent:'' @ ''agent-1'')
      [(''offset'', JInt 0), (''content_bytes'', JInt 2), (''chunk_sha256'', JStr (replicate 64 CHR ''0''))] d0 = (Inr (), d1)"
    and d1: "audit_only d0 d1" "unused_ids transfer_env d1" using record_transfer_next [OF _ transfer_ids] by blast
  have "put_chunk transfer_env ''agent-1'' ''c1'' ?i 0 (sha256 transfer_env ''{}'') ''{}'' ?d =
      (Inr (progress transfer_env demo_manifest 2 (Some demo_expiry) False), d1)"
    using c u r unfolding put_chunk_def bindM_Inr [where m = "load_transfer _ _ _ _", OF l]
    by (simp add: bindM_raise_if CHUNK_BYTES_def frame_of_session_def accept_frame_def bindM_Inr)
  then show ?thesis using d1 unfolding d0_def by blast
qed

lemma demo_collected:
  assumes a: "audit_only d0 d1" and ids: "unused_ids transfer_env d1"
    and d0: "d0 = demo_transfer demo_expiry\<lparr>
      response_artifact_chunks := [\<lparr>ch_artifact_id = ''art_'' @ replicate 64 CHR ''0'', ch_offset = 0, ch_sha256 = replicate 64 CHR ''0'', ch_content = ''{}''\<rparr>],
      response_artifact_transfers := [demo_session demo_expiry\<lparr>tf_received_bytes := 2\<rparr>]\<rparr>"
  shows "\<exists>r d'. complete transfer_env ''agent-1'' ''c1'' (''art_'' @ replicate 64 CHR ''0'') (replicate 64 CHR ''0'') d1 = (Inr r, d')"
proof -
  let ?i = "''art_'' @ replicate 64 CHR ''0''"
  let ?t = "demo_session demo_expiry\<lparr>tf_received_bytes := 2\<rparr>"
  note same = audit_onlyD [OF a, unfolded d0, simplified]
  have l: "load_transfer transfer_env ''agent-1'' ''c1'' ?i d1 = (Inr (?t, demo_manifest), d1)"
    by (rule demo_loads) (simp_all add: same transfer_frozen_def)
  have j: "join_frames d1 ?i = ''{}''" by (simp add: join_frames_def chunks_of_def order_by_def same)
  define d2 where "d2 = d1\<lparr>response_artifact_transfers := [?t\<lparr>tf_state := SESSION_COMPLETE\<rparr>],
    response_artifact_transfer_usage := \<lparr>tu_reserved_bytes = 0, tu_open_sessions = 0, tu_total_sessions = 1\<rparr>\<rparr>"
  have u: "update_transfer ?i (\<lambda>x. x\<lparr>tf_state := SESSION_COMPLETE\<rparr>) d1 = (Inr (), d2)"
    by (simp add: update_transfer_def Let_def bindM_raise_if transfer_frozen_def transfer_checks_def reserved_def opened_def d2_def
        update_where_def open_session_def same)
  have b: "b64encode ''{}'' = ''e30=''" by code_simp
  have "py_len ''e30='' = 4" by code_simp
  then have p: "parse_signed_upload transfer_env (JObj [(''manifest'', JObj (dump_manifest demo_manifest)), (''content_base64'', JStr ''e30='')]) =
      Some (demo_manifest, ''e30='')"
    using demo_manifest_reads by (simp add: parse_signed_upload_def only_keys_def text_field_def len_between_def MAX_CONTENT_def)
  have "\<exists>d3. retain_signed transfer_env ''agent-1'' ''c1'' demo_manifest ''e30='' (Some (tf_admitted_at ?t)) d2 = (Inr (receipt demo_upload), d3) \<and>
      audit_inv (sha256 transfer_env) d3 \<and> draws d3 = draws d2 \<and> response_security_audit d3 = response_security_audit d2"
  proof (rule retain_signed_runs)
    show "audit_inv (sha256 transfer_env) d2"
      using ids audit_inv_at_cong [of d2 d1] by (simp add: unused_ids_def audit_inv_def d2_def)
    show "mf_artifact_id demo_manifest \<notin> ar_artifact_id ` set (response_artifacts d2)"
      "mf_artifact_id demo_manifest \<notin> at_artifact_id ` set (artifact_manifest_attestations d2)" by (simp_all add: d2_def same)
    show "verify_manifest transfer_env ''agent-1'' demo_manifest (Some (tf_admitted_at ?t)) d2 = (Inr demo_artifact_key, d2)"
      by (rule demo_bound(2)) (simp_all add: d2_def same)
    show "\<exists>x\<in>set (artifact_signing_keys d2). ak_agent_id x = ''agent-1'' \<and> ak_key_id x = ak_key_id demo_artifact_key"
      by (simp add: d2_def same demo_artifact_key_def)
    show "upload_of demo_manifest ''e30='' = Some demo_upload" by (rule demo_upload_of)
    show "decoded_content transfer_env demo_upload d = (Inr ''{}'', d)" for d :: db
    proof -
      have "b64decode ''e30='' = Some ''{}''" by code_simp
      moreover have "evidence_json ''{}''" by code_simp
      ultimately show ?thesis by (simp add: decoded_content_def demo_upload_def)
    qed
    show "validate_binding ''agent-1'' ''c1'' (up_host_id demo_upload) (up_command_id demo_upload) (up_correlation_id demo_upload)
        (up_kind demo_upload) d2 = (Inr (cm_command_json demo_collection), d2)"
      using demo_bound(1) [of d2] by (simp add: demo_upload_def d2_def same)
    show "''c1'' \<in> cm_command_id ` set (commands d2)" by (simp add: d2_def same demo_collection_def)
    show "check_quota transfer_env ''c1'' (int (length ''{}'')) x d2 = (Inr (), d2)" for x
      by (simp add: check_quota_def command_count_def command_bytes_def command_artifacts_def command_sessions_def used_count_def
        used_bytes_def storage_quota_def MAX_COMMAND_COUNT_def MAX_COMMAND_BYTES_def MAX_GLOBAL_COUNT_def MAX_GLOBAL_BYTES_def
        MAX_CONTENT_def bindM_raise_if d2_def same open_session_def) (simp add: bindM_def raise_if_def)
    show "\<forall>t\<in>set (response_artifact_transfers d2). tf_artifact_id t = mf_artifact_id demo_manifest \<longrightarrow> \<not> open_session t"
      by (simp add: d2_def open_session_def)
    show "validate_retained_manifest transfer_env demo_manifest ''c1'' x = (Inr False, x)" if "commands x = commands d2" for x
      using that by (simp add: validate_retained_manifest_def demo_collection_def command_field_def d2_def same)
  qed
  then obtain d3 where r: "retain_signed transfer_env ''agent-1'' ''c1'' demo_manifest ''e30='' (Some (tf_admitted_at ?t)) d2 = (Inr (receipt demo_upload), d3)"
    and d3: "audit_inv (sha256 transfer_env) d3" "draws d3 = draws d2" "response_security_audit d3 = response_security_audit d2" by blast
  let ?d4 = "d3\<lparr>response_artifact_chunks := filter (\<lambda>c. ch_artifact_id c \<noteq> ?i) (response_artifact_chunks d3)\<rparr>"
  have "unused_ids transfer_env d3" using ids d3 by (simp add: unused_ids_def d2_def)
  then have "unused_ids transfer_env ?d4" using unused_ids_cong [of ?d4 d3] by simp
  then obtain d5 where e: "record_transfer transfer_env ?i ''c1'' ''host-1'' ''artifact_transfer_completed'' (''agent:'' @ ''agent-1'')
      [(''content_bytes'', JInt 2), (''sha256'', JStr (replicate 64 CHR ''0''))] ?d4 = (Inr (), d5)"
    using record_transfer_next [OF _ transfer_ids] by blast
  have "finish transfer_env ''agent-1'' ''c1'' ?i ?t demo_manifest d1 = (Inr (receipt demo_upload), d5)"
    using u p r e j b unfolding finish_def delete_chunks_def by (simp add: bindM_raise_if bindM_Inr)
  then have "complete transfer_env ''agent-1'' ''c1'' ?i (replicate 64 CHR ''0'') d1 = (Inr (Some (receipt demo_upload)), d5)"
    using l by (simp add: complete_def same bindM_Inr disagrees_def manifest_digest_def bindM_raise_if)
  then show ?thesis by blast
qed

theorem chunked_upload_keeps_the_bytes_witness:
  "\<exists>d1 d' r. send transfer_env ''agent-1'' ''c1'' (''art_'' @ replicate 64 CHR ''0'') 0 [''{}''] (demo_transfer demo_expiry) = (Inr (), d1) \<and>
    complete transfer_env ''agent-1'' ''c1'' (''art_'' @ replicate 64 CHR ''0'') (replicate 64 CHR ''0'') d1 = (Inr r, d') \<and>
    (\<exists>a\<in>set (response_artifacts d'). ar_content a = ''{}'')"
proof -
  let ?i = "''art_'' @ replicate 64 CHR ''0''"
  obtain r1 d1 where put: "put_chunk transfer_env ''agent-1'' ''c1'' ?i 0 (sha256 transfer_env ''{}'') ''{}'' (demo_transfer demo_expiry) = (Inr r1, d1)"
    and ids: "unused_ids transfer_env d1" and d0: "\<exists>d0. audit_only d0 d1 \<and> d0 = demo_transfer demo_expiry\<lparr>
      response_artifact_chunks := [\<lparr>ch_artifact_id = ?i, ch_offset = 0, ch_sha256 = replicate 64 CHR ''0'', ch_content = ''{}''\<rparr>],
      response_artifact_transfers := [demo_session demo_expiry\<lparr>tf_received_bytes := 2\<rparr>]\<rparr>"
    using demo_sent by blast
  have sent: "send transfer_env ''agent-1'' ''c1'' ?i 0 [''{}''] (demo_transfer demo_expiry) = (Inr (), d1)"
    unfolding send.simps bindM_Inr [where m = "put_chunk _ _ _ _ _ _ _", OF put] by (simp add: ret_def)
  obtain r d' where fin: "complete transfer_env ''agent-1'' ''c1'' ?i (replicate 64 CHR ''0'') d1 = (Inr r, d')"
    using d0 demo_collected ids by blast
  have "find_by tf_artifact_id ?i (response_artifact_transfers (demo_transfer demo_expiry)) = Some (demo_session demo_expiry)"
    "open_session (demo_session demo_expiry)" "tf_received_bytes (demo_session demo_expiry) = 0" by simp_all
  from chunked_upload_keeps_the_bytes [OF transfer_env_keeps demo_evidence this sent fin] sent fin show ?thesis by fastforce
qed

end
