(* ===== verification/Delivery.thy ===== *)
theory Delivery
  imports Transfers
begin

text \<open>
  \<^verbatim>\<open>manager/artifact_delivery.py\<close> and \<^verbatim>\<open>manager/routers/response_artifacts.py\<close>: reading evidence. Every read goes through
  one verification of the bytes, the signed manifest and the key, and leaves a custody event; a refusal is recorded.
\<close>

section \<open>Verified evidence\<close>

text \<open>\<open>EvidenceRefusal\<close>: an \<open>HTTPException\<close> with the custody event it stands for.\<close>

record refusal =
  rf_code :: int
  rf_detail :: string
  rf_event :: string
  rf_actor :: string
  rf_about :: jobj

record delivered =
  dl_artifact :: artifact_row
  dl_attestation :: attestation_row
  dl_key :: artifact_key_row
  dl_manifest :: jobj
  dl_digest :: string

text \<open>The columns of the row that the manifest repeats. The manifests the store writes have an integer for the size.\<close>

definition repeats_row :: "jobj \<Rightarrow> artifact_row \<Rightarrow> bool" where
  "repeats_row m a \<longleftrightarrow>
    jget ''artifact_id'' m = JStr (ar_artifact_id a) \<and> jget ''agent_id'' m = JStr (ar_agent_id a) \<and>
    jget ''command_id'' m = JStr (ar_command_id a) \<and> jget ''correlation_id'' m = JStr (ar_correlation_id a) \<and>
    jget ''host_id'' m = JStr (ar_host_id a) \<and> jget ''kind'' m = JStr (ar_kind a) \<and>
    jget ''media_type'' m = JStr (ar_media_type a) \<and> jget ''content_bytes'' m = JInt (ar_content_bytes a) \<and>
    jget ''sha256'' m = JStr (ar_sha256 a)"

text \<open>The digest that the first \<open>artifact_signature_verified\<close> event recorded at ingest.\<close>

definition verified_digest :: "db \<Rightarrow> string \<Rightarrow> json option" where
  "verified_digest d artifact_id =
    (case order_by cu_sequence (filter (\<lambda>r. cu_artifact_id r = artifact_id \<and> cu_event r = ''artifact_signature_verified'')
             (response_artifact_custody d)) of
       [] \<Rightarrow> None
     | r # _ \<Rightarrow> (case json_loads (cu_detail r) of Some (JObj detail) \<Rightarrow> Some (jget ''manifest_sha256'' detail) | _ \<Rightarrow> None))"

definition signed_by :: "env \<Rightarrow> jobj \<Rightarrow> attestation_row \<Rightarrow> artifact_key_row \<Rightarrow> bool" where
  "signed_by e m t k \<longleftrightarrow>
    (case jget ''authorization'' m of
       JObj auth \<Rightarrow>
         jget ''key_id'' auth = JStr (at_key_id t) \<and>
         (case (jget ''signature'' auth, artifact_signing_input e m) of
            (JStr signature, Some data) \<Rightarrow> verify_signature e (ak_public_key k) signature data
          | _ \<Rightarrow> False)
     | _ \<Rightarrow> False)"

definition signed_manifest :: "env \<Rightarrow> db \<Rightarrow> artifact_row \<Rightarrow> attestation_row \<Rightarrow> artifact_key_row \<Rightarrow> (jobj \<times> string) option" where
  "signed_manifest e d a t k =
    (case json_loads (at_manifest_json t) of
       Some (JObj m) \<Rightarrow>
         let dig = sha256 e (canonical (JObj m)) in
         if verified_digest d (ar_artifact_id a) = Some (JStr dig) \<and> repeats_row m a \<and> at_agent_id t = ar_agent_id a \<and> signed_by e m t k
         then Some (m, dig) else None
     | _ \<Rightarrow> None)"

definition whole :: "env \<Rightarrow> artifact_row \<Rightarrow> bool" where
  "whole e a \<longleftrightarrow> int (length (ar_content a)) = ar_content_bytes a \<and> sha256 e (ar_content a) = ar_sha256 a"

definition verified_by :: "env \<Rightarrow> db \<Rightarrow> artifact_row \<Rightarrow> string \<Rightarrow> bool \<Rightarrow> attestation_row \<Rightarrow> artifact_key_row \<Rightarrow> refusal + delivered" where
  "verified_by e d a analyst allow_compromised t k =
    (if key_status k = ''compromised_key'' \<and> \<not> allow_compromised
     then Inl \<lparr>rf_code = 403, rf_detail = ''artifact signer is compromised; evidence preserved for review'',
            rf_event = ''retrieval_blocked_compromised_key'', rf_actor = ''analyst:'' @ analyst,
            rf_about = [(''key_id'', JStr (at_key_id t))]\<rparr>
     else if \<not> whole e a
     then Inl \<lparr>rf_code = 503, rf_detail = ''artifact integrity check failed; original retained for investigation'',
            rf_event = ''integrity_check_failed'', rf_actor = ''system:artifact-store'', rf_about = []\<rparr>
     else
       (case signed_manifest e d a t k of
          None \<Rightarrow> Inl \<lparr>rf_code = 503, rf_detail = ''artifact manifest integrity failed; evidence preserved'',
            rf_event = ''integrity_check_failed'', rf_actor = ''system:artifact-verifier'',
            rf_about = [(''kind'', JStr ''signed_manifest'')]\<rparr>
        | Some (m, dig) \<Rightarrow> Inr \<lparr>dl_artifact = a, dl_attestation = t, dl_key = k, dl_manifest = m, dl_digest = dig\<rparr>))"

definition verified :: "env \<Rightarrow> db \<Rightarrow> artifact_row \<Rightarrow> string \<Rightarrow> bool \<Rightarrow> refusal + delivered" where
  "verified e d a analyst allow_compromised =
    (case retained_status d (ar_artifact_id a) of
       None \<Rightarrow> Inl \<lparr>rf_code = 410, rf_detail = ''unsigned legacy evidence is preserved but cannot be downloaded'',
            rf_event = ''retrieval_blocked_unsigned_legacy'', rf_actor = ''analyst:'' @ analyst, rf_about = []\<rparr>
     | Some (t, k) \<Rightarrow> verified_by e d a analyst allow_compromised t k)"

definition package :: "delivered \<Rightarrow> json" where
  "package x = JObj [(''manifest'', JObj (dl_manifest x)), (''content_base64'', JStr (b64encode (ar_content (dl_artifact x)))),
     (''signing_key'', JObj (status_json (Some (dl_attestation x, dl_key x))))]"

section \<open>Reading\<close>

definition read_about :: "db \<Rightarrow> string \<Rightarrow> string option \<times> string option" where
  "read_about d artifact_id =
    (case find_by ar_artifact_id artifact_id (response_artifacts d) of
       None \<Rightarrow> (None, None)
     | Some a \<Rightarrow> (Some (ar_host_id a), request_of_command d (ar_command_id a)))"

text \<open>\<open>audit_read_refusal\<close>, for a refusal with that status and detail; \<open>event\<close> is there when it is an \<open>EvidenceRefusal\<close>.\<close>

definition audit_read_refusal :: "env \<Rightarrow> string \<Rightarrow> string option \<Rightarrow> int \<Rightarrow> string \<Rightarrow> refusal option \<Rightarrow> (db, unit) act" where
  "audit_read_refusal e artifact_id authorization code detail event =
    (if code \<noteq> 403 \<and> event = None then ret ()
     else
       bindM (require_analyst_token e authorization) (\<lambda>analyst.
       transaction (
         bindM (gets (\<lambda>d. read_about d artifact_id)) (\<lambda>(host, request).
         seqM (case event of None \<Rightarrow> ret () | Some f \<Rightarrow> custody_event e artifact_id (rf_event f) (rf_actor f) (rf_about f))
         (if code = 403
          then record_event e ''artifact_access_denied'' (''analyst:'' @ analyst) host request
                 [(''artifact_id'', JStr artifact_id), (''reason'', JStr detail), (''policy_version'', JInt 1)]
          else ret ())))))"

definition auditing_refusals :: "env \<Rightarrow> string \<Rightarrow> string option \<Rightarrow> (db, 'a) act \<Rightarrow> (db, 'a) act" where
  "auditing_refusals e artifact_id authorization m =
    tryM (transaction m)
      (\<lambda>x. case x of
         HTTPException code detail \<Rightarrow> seqM (audit_read_refusal e artifact_id authorization code detail None) (throw x)
       | _ \<Rightarrow> throw x)"

definition read_verified :: "env \<Rightarrow> string \<Rightarrow> string option \<Rightarrow> bool \<Rightarrow> (string \<Rightarrow> held \<Rightarrow> delivered \<Rightarrow> (db, 'a) act) \<Rightarrow> (db, refusal + 'a) act" where
  "read_verified e artifact_id authorization allow_compromised read =
    bindM (require_artifact e artifact_id authorization) (\<lambda>(analyst, row).
    bindM (gets (\<lambda>d. verified e d (hd_artifact row) analyst allow_compromised)) (\<lambda>v.
    case v of
      Inl f \<Rightarrow> ret (Inl f)
    | Inr x \<Rightarrow> bindM (read analyst row x) (\<lambda>a. ret (Inr a))))"

text \<open>
  \<open>read_transaction\<close>. An \<open>EvidenceRefusal\<close> comes before anything was written, so there is nothing to roll back.
\<close>

definition read_transaction :: "env \<Rightarrow> string \<Rightarrow> string option \<Rightarrow> bool \<Rightarrow> (string \<Rightarrow> held \<Rightarrow> delivered \<Rightarrow> (db, 'a) act) \<Rightarrow> (db, 'a) act" where
  "read_transaction e artifact_id authorization allow_compromised read =
    bindM (auditing_refusals e artifact_id authorization (read_verified e artifact_id authorization allow_compromised read)) (\<lambda>r.
    case r of
      Inl f \<Rightarrow> seqM (audit_read_refusal e artifact_id authorization (rf_code f) (rf_detail f) (Some f))
                 (throw (HTTPException (rf_code f) (rf_detail f)))
    | Inr a \<Rightarrow> ret a)"

definition custody :: "env \<Rightarrow> string \<Rightarrow> int \<Rightarrow> int \<Rightarrow> string option \<Rightarrow> (db, custody_row list \<times> int) act" where
  "custody e artifact_id after limit authorization =
    seqM (raise_if (after < 0 \<or> 9223372036854775807 < after \<or> limit < 1 \<or> 200 < limit) ValidationError)
    (bindM (auditing_refusals e artifact_id authorization
       (seqM (require_artifact e artifact_id authorization) (gets (\<lambda>d. custody_rows d artifact_id after (nat limit))))) (\<lambda>events.
     ret (events, if events = [] then after else cu_sequence (last events))))"

definition content_read :: "env \<Rightarrow> string \<Rightarrow> string \<Rightarrow> held \<Rightarrow> delivered \<Rightarrow> (db, string) act" where
  "content_read e artifact_id analyst row x =
    seqM (custody_event e artifact_id ''download_requested'' (''analyst:'' @ analyst)
            [(''sha256'', JStr (ar_sha256 (hd_artifact row))), (''content_bytes'', JInt (int (length (ar_content (dl_artifact x)))))])
    (ret (canonical (package x)))"

definition content :: "env \<Rightarrow> string \<Rightarrow> string option \<Rightarrow> (db, string) act" where
  "content e artifact_id authorization = read_transaction e artifact_id authorization False (content_read e artifact_id)"

definition context_read :: "env \<Rightarrow> string \<Rightarrow> string \<Rightarrow> held \<Rightarrow> delivered \<Rightarrow> (db, jobj) act" where
  "context_read e artifact_id analyst row x =
    (let a = hd_artifact row; t = dl_attestation x; k = dl_key x;
         trusted = [(''artifact_id'', JStr (ar_artifact_id a)), (''agent_id'', JStr (ar_agent_id a)), (''host_id'', JStr (ar_host_id a)),
           (''command_id'', JStr (ar_command_id a)), (''correlation_id'', JStr (ar_correlation_id a)),
           (''alert_id'', jopt (hd_alert_id row)), (''response_id'', jopt (hd_response_id row)),
           (''key_id'', JStr (at_key_id t)), (''key_version'', JInt (at_key_version t)), (''public_key'', JStr (ak_public_key k)),
           (''trust_status'', JStr (key_status k))] @
           (if key_status k = ''compromised_key''
            then [(''compromised_at'', jopt (ak_compromised_at k)), (''compromise_reason'', jopt (ak_compromise_reason k))] else [])
     in seqM (custody_event e artifact_id ''artifact_context_viewed'' (''analyst:'' @ analyst)
               [(''manifest_sha256'', JStr (dl_digest x)), (''trust_status'', JStr (key_status k))])
        (ret [(''schema_version'', JStr ''1''), (''artifact_id'', JStr artifact_id), (''manifest'', JObj (dl_manifest x)),
              (''manifest_sha256'', JStr (dl_digest x)), (''trusted'', JObj trusted), (''chunk_bytes'', JInt 65536)]))"

definition context_of :: "env \<Rightarrow> string \<Rightarrow> string option \<Rightarrow> (db, jobj) act" where
  "context_of e artifact_id authorization = read_transaction e artifact_id authorization True (context_read e artifact_id)"

text \<open>One frame of the content.\<close>

record download_frame =
  df_offset :: int
  df_content :: string
  df_sha256 :: string
  df_next_offset :: int
  df_complete :: bool

definition chunk_read :: "env \<Rightarrow> string \<Rightarrow> int \<Rightarrow> string \<Rightarrow> string \<Rightarrow> held \<Rightarrow> delivered \<Rightarrow> (db, download_frame) act" where
  "chunk_read e artifact_id offset manifest_sha256 analyst row x =
    seqM (raise_if (dl_digest x \<noteq> manifest_sha256) (HTTPException 409 ''artifact download manifest binding changed''))
    (let data = ar_content (dl_artifact x); chunk = take 65536 (drop (nat offset) data) in
     seqM (raise_if (int (length data) \<le> offset \<or> offset mod 65536 \<noteq> 0)
             (HTTPException 422 ''artifact download offset must identify a complete frame''))
     (seqM (custody_event e artifact_id ''artifact_download_chunk'' (''analyst:'' @ analyst)
             [(''manifest_sha256'', JStr (dl_digest x)), (''offset'', JInt offset), (''content_bytes'', JInt (int (length chunk))),
              (''sha256'', JStr (sha256 e chunk))])
     (ret \<lparr>df_offset = offset, df_content = chunk, df_sha256 = sha256 e chunk, df_next_offset = offset + int (length chunk),
           df_complete = (offset + int (length chunk) = int (length data))\<rparr>)))"

definition chunks :: "env \<Rightarrow> string \<Rightarrow> int \<Rightarrow> string \<Rightarrow> string option \<Rightarrow> (db, download_frame) act" where
  "chunks e artifact_id offset manifest_sha256 authorization =
    seqM (raise_if (offset < 0 \<or> 1048576 < offset \<or> \<not> hex_text 64 manifest_sha256) ValidationError)
    (read_transaction e artifact_id authorization False (chunk_read e artifact_id offset manifest_sha256))"

section \<open>Acknowledged views\<close>

record view_request =
  vq_request_id :: string
  vq_manifest_sha256 :: string
  vq_operation :: string

definition parse_view :: "jobj \<Rightarrow> view_request option" where
  "parse_view body =
    (case (jstr (jget ''request_id'' body), jstr (jget ''manifest_sha256'' body), jstr (jget ''operation'' body)) of
       (Some i, Some s, Some p) \<Rightarrow>
         if only_keys [''schema_version'', ''request_id'', ''manifest_sha256'', ''operation''] body \<and>
            jget ''schema_version'' body = JStr ''1'' \<and> id_text i \<and> hex_text 64 s \<and> p \<in> {''view'', ''download''}
         then Some \<lparr>vq_request_id = i, vq_manifest_sha256 = s, vq_operation = p\<rparr> else None
     | _ \<Rightarrow> None)"

definition view_key :: "view_row \<Rightarrow> string \<times> string \<times> string" where
  "view_key r = (vr_analyst_id r, vr_credential_digest r, vr_request_id r)"

definition insert_view :: "view_row \<Rightarrow> (db, unit) act" where
  "insert_view r = bindM (gets (\<lambda>d. d)) (\<lambda>d.
     seqM (raise_if (view_key r \<in> view_key ` set (artifact_view_receipts d) \<or>
                     vr_artifact_id r \<notin> ar_artifact_id ` set (response_artifacts d) \<or>
                     vr_operation r \<notin> {''view'', ''download''}) IntegrityError)
     (modify (\<lambda>d. d\<lparr>artifact_view_receipts := artifact_view_receipts d @ [r]\<rparr>)))"

definition acknowledge :: "env \<Rightarrow> string \<Rightarrow> view_request \<Rightarrow> string \<Rightarrow> string \<Rightarrow> held \<Rightarrow> delivered \<Rightarrow> (db, string) act" where
  "acknowledge e artifact_id q credential analyst row x =
    seqM (insert_view \<lparr>vr_analyst_id = analyst, vr_credential_digest = credential, vr_request_id = vq_request_id q,
            vr_artifact_id = artifact_id, vr_manifest_sha256 = dl_digest x, vr_operation = vq_operation q,
            vr_recorded_at = iso_now e\<rparr>)
    (seqM (custody_event e artifact_id ''artifact_viewed'' (''analyst:'' @ analyst)
            [(''manifest_sha256'', JStr (dl_digest x)), (''operation'', JStr (vq_operation q)),
             (''view_request_id'', JStr (vq_request_id q)), (''sha256'', JStr (ar_sha256 (hd_artifact row))),
             (''content_bytes'', JInt (int (length (ar_content (dl_artifact x)))))])
    (ret (iso_now e)))"

definition view_read :: "env \<Rightarrow> string \<Rightarrow> view_request \<Rightarrow> string \<Rightarrow> held \<Rightarrow> delivered \<Rightarrow> (db, jobj) act" where
  "view_read e artifact_id q analyst row x =
    seqM (raise_if (dl_digest x \<noteq> vq_manifest_sha256 q) (HTTPException 409 ''artifact acknowledgement manifest binding changed''))
    (bindM (gets (\<lambda>d. find_by ac_analyst_id analyst (analyst_credentials d))) (\<lambda>found.
     bindM (require_some found (TypeError ''NoneType'')) (\<lambda>c.
     let credential = ac_token_digest c in
     bindM (gets (\<lambda>d. find_by view_key (analyst, credential, vq_request_id q) (artifact_view_receipts d))) (\<lambda>prior.
     bindM (case prior of
              Some p \<Rightarrow>
                seqM (raise_if (vr_artifact_id p \<noteq> artifact_id \<or> vr_manifest_sha256 p \<noteq> dl_digest x \<or> vr_operation p \<noteq> vq_operation q)
                        (HTTPException 409 ''artifact acknowledgement request ID already used''))
                (ret (vr_recorded_at p))
            | None \<Rightarrow> acknowledge e artifact_id q credential analyst row x) (\<lambda>recorded_at.
     ret [(''schema_version'', JStr ''1''), (''artifact_id'', JStr artifact_id), (''manifest_sha256'', JStr (dl_digest x)),
          (''operation'', JStr (vq_operation q)), (''recorded_at'', JStr recorded_at), (''recorded'', JBool True)])))))"

definition viewed :: "env \<Rightarrow> string \<Rightarrow> jobj \<Rightarrow> string option \<Rightarrow> (db, jobj) act" where
  "viewed e artifact_id body authorization =
    bindM (require_some (parse_view body) ValidationError) (\<lambda>q.
    read_transaction e artifact_id authorization False (view_read e artifact_id q))"

section \<open>Uploads in one request\<close>

text \<open>Unsigned uploads are only recorded and refused.\<close>

definition upload_unsigned :: "env \<Rightarrow> string \<Rightarrow> string \<Rightarrow> string option \<Rightarrow> (db, unit) act" where
  "upload_unsigned e agent_id command_id authorization =
    seqM (transaction (
      seqM (require_agent_token e agent_id authorization)
      (record_refusal e ''artifact_unsigned_upload_refused'' agent_id command_id ''unsigned artifact uploads are retired'')))
    (throw (HTTPException 410 ''unsigned artifact uploads are retired; use signed artifact transfer''))"

definition signed_body :: "env \<Rightarrow> string \<Rightarrow> string \<Rightarrow> ('s, manifest \<times> string) act" where
  "signed_body e content_type data =
    seqM (raise_if (map lower_char (takeWhile (\<lambda>c. c \<noteq> CHR '';'') content_type) \<noteq> ''application/json'')
            (HTTPException 422 ''artifact upload requires application/json''))
    (seqM (raise_if (MAX_BODY < int (length data)) (HTTPException 413 ''artifact request exceeds bounded upload size''))
    (require_some (if valid_utf8 data then Option.bind (strict_json data) (parse_signed_upload e) else None)
      (HTTPException 422 ''invalid closed signed artifact upload'')))"

definition upload_signed :: "env \<Rightarrow> string \<Rightarrow> string \<Rightarrow> string \<Rightarrow> string \<Rightarrow> string option \<Rightarrow> (db, jobj) act" where
  "upload_signed e agent_id command_id content_type data authorization =
    seqM (require_agent_token e agent_id authorization)
    (seqM (raise_if (\<not> upload_slot e) (HTTPException 429 ''artifact capacity busy; retain evidence and retry''))
    (recording_refusals (record_refusal e ''artifact_manifest_refused'' agent_id command_id)
      (bindM (signed_body e content_type data) (\<lambda>p.
       seqM (require_agent_token e agent_id authorization) (retain_signed e agent_id command_id (fst p) (snd p) None)))))"

section \<open>The contracts\<close>

text \<open>
  What a relation must allow for evidence to be read under it: the checks of the caller, custody and security events, and
  receipts of views. Everything else that reading does is a read.
\<close>

locale evidence_reader = frame R for R :: "db \<Rightarrow> db \<Rightarrow> bool" +
  fixes e :: env
  assumes custody_events: "stays R (custody_event e i ev actor detail)"
    and security_events: "stays R (record_event e ev actor asset request_id detail)"
    and agent_check: "stays R (require_agent_token e agent_id auth)"
    and analyst_check: "stays R (require_analyst_permission e auth permission)"
    and receipts: "stays R (modify (\<lambda>d. d\<lparr>artifact_view_receipts := f d\<rparr>))"
begin

lemma stays_token: "stays R (require_analyst_token e auth)"
  unfolding require_analyst_token_def by (intro stays_structural)

lemma stays_read_audit: "stays R (audit_read_refusal e i auth code detail f)"
  unfolding audit_read_refusal_def by (intro stays_structural stays_token custody_events security_events stays_cases)

lemma stays_require_artifact: "stays R (require_artifact e i auth)"
  unfolding require_artifact_def by (intro stays_structural analyst_check)

lemma stays_reads:
  "stays R (content_read e i analyst row x)" "stays R (context_read e i analyst row x)"
  "stays R (chunk_read e i offset dig analyst row x)" "stays R (view_read e i q analyst row x)"
  unfolding content_read_def context_read_def chunk_read_def view_read_def acknowledge_def insert_view_def Let_def
  by (intro stays_structural custody_events receipts stays_cases)+

lemma stays_auditing: "stays R m \<Longrightarrow> stays R (auditing_refusals e i auth m)"
  unfolding auditing_refusals_def
  by (intro stays_tryM stays_transaction) (auto intro!: stays_throw stays_bindM stays_read_audit split: exn.split)

lemma stays_read_transaction: "(\<And>analyst row x. stays R (read analyst row x)) \<Longrightarrow> stays R (read_transaction e i auth allow read)"
  unfolding read_transaction_def read_verified_def
  by (intro stays_structural stays_auditing stays_require_artifact)
    (auto intro!: stays_ret stays_throw stays_bindM stays_gets stays_require_artifact stays_read_audit split: sum.split prod.split)

lemma stays_evidence_requests:
  "stays R (custody e i after limit auth)" "stays R (content e i auth)" "stays R (context_of e i auth)"
  "stays R (chunks e i offset dig auth)" "stays R (viewed e i body auth)" "stays R (upload_unsigned e agent_id command_id auth)"
  unfolding custody_def content_def context_of_def chunks_def viewed_def upload_unsigned_def record_refusal_def
  by (intro stays_structural stays_auditing stays_read_transaction stays_require_artifact stays_reads agent_check security_events
      stays_cases)+

lemma stays_upload_signed:
  assumes "\<And>p. stays R (retain_signed e agent_id command_id (fst p) (snd p) None)"
  shows "stays R (upload_signed e agent_id command_id content_type data auth)"
  unfolding upload_signed_def signed_body_def record_refusal_def
  by (intro stays_structural stays_recording agent_check security_events stays_cases assms)

end

lemma serves_receipts: "stays (serves e) (modify (\<lambda>d. d\<lparr>artifact_view_receipts := f d\<rparr>))"
  by (intro serves_modify) (simp add: outside_plane_def tables_same_def)

interpretation serves_reader: evidence_reader "serves e" e
  by (intro evidence_reader.intro evidence_reader_axioms.intro serves.frame_axioms serves_writers serves_checks serves_receipts)

interpretation keys_reader: evidence_reader keys_kept e
  by (intro evidence_reader.intro evidence_reader_axioms.intro keys_kept.frame_axioms keys_kept.writers keys_kept_checks
      keys_kept_modify; simp)

interpretation same_reader: evidence_reader evidence_same e
  by (intro evidence_reader.intro evidence_reader_axioms.intro evidence_same.frame_axioms evidence_same.writers evidence_same_checks
      evidence_same_modify; simp)

lemmas serves_evidence_requests = serves_reader.stays_evidence_requests serves_reader.stays_upload_signed [OF serves_retain_signed]

lemmas keys_kept_evidence_requests = keys_reader.stays_evidence_requests keys_reader.stays_upload_signed [OF keys_kept_retain_signed]

lemmas evidence_same_requests = same_reader.stays_evidence_requests

lemma custody_upload_signed: "stays (custody_kept (sha256 e)) (upload_signed e agent_id command_id content_type data auth)"
proof -
  have refusal: "stays (custody_kept (sha256 e)) (record_refusal e ev agent_id command_id detail)" for ev detail
    unfolding record_refusal_def by (intro custody.stays_structural custody.writers stays_cases)
  have body: "stays (custody_kept (sha256 e)) (signed_body e content_type data)"
    unfolding signed_body_def by (intro custody.stays_structural)
  show ?thesis
    unfolding upload_signed_def
    by (intro custody.stays_bindM custody.stays_raise_if custody_checks custody.stays_recording_committed custody.yields_bindM
        custody_retain_signed stays_yields [OF refusal] stays_yields [OF custody_checks(1)] stays_yields [OF body])
qed

end
