(* ===== verification/Vault.thy ===== *)
theory Vault
  imports Delivery
begin

text \<open>
  The second contract of every handler: keys and enrollments only move the way they may, and no request loses, changes or
  miscounts evidence.
\<close>

section \<open>The contract\<close>

definition guards :: "env \<Rightarrow> db \<Rightarrow> db \<Rightarrow> bool" where
  "guards e d d' \<longleftrightarrow> keys_kept d d' \<and> (keeps_manifests e \<longrightarrow> custody_kept (sha256 e) d d')"

interpretation guards: blind_frame "guards e"
proof
  show "guards e s s" for s by (simp add: guards_def keys_kept.R_refl custody.R_refl)
  show "guards e s u" if "guards e s t" "guards e t u" for s t u
    using that keys_kept.R_trans custody.R_trans unfolding guards_def by blast
  show "guards e d d'" if "audit_only d d'" for d d'
    using that keys_kept.blind custody.blind unfolding guards_def by blast
qed

lemma guardsI: "stays keys_kept m \<Longrightarrow> (keeps_manifests e \<Longrightarrow> stays (custody_kept (sha256 e)) m) \<Longrightarrow> stays (guards e) m"
  by (simp add: stays_def guards_def)

lemma guards_beside: "stays keys_kept m \<Longrightarrow> stays evidence_same m \<Longrightarrow> stays (guards e) m"
  by (intro guardsI custody_evidence_same)

lemma guards_foreground: "stays foreground m \<Longrightarrow> stays (guards e) m"
  by (intro guards_beside keys_kept_foreground) (auto simp: stays_def foreground_def background_def evidence_same_def)

section \<open>The handlers\<close>

lemma evidence_same_identities:
  "stays evidence_same (issue_enrollment_challenge e)"
  "stays evidence_same (enrollment e agent_id host public_key nonce signature bootstrap)"
  "stays evidence_same (enroll_analyst e analyst_id bootstrap role)"
  unfolding identity_defs issue_enrollment_challenge_def enrollment_def on_integrity_error_def enroll_analyst_def
    check_enrollment_secret_def
  by (intro evidence_same.stays_structural evidence_same.writers evidence_same_keys evidence_same_modify stays_cases; simp)+

lemma guards_identities:
  "stays (guards e) (issue_enrollment_challenge e)"
  "stays (guards e) (enrollment e agent_id host public_key nonce signature bootstrap)"
  "stays (guards e) (enroll_analyst e analyst_id bootstrap role)"
  by (intro guards_beside keys_kept_identities evidence_same_identities)+

lemma guards_submit_result: "stays (guards e) (submit_result e agent_id result auth)"
  using settled_submit_result [of e agent_id result auth]
  by (intro guards_beside keys_kept_settled) (auto simp: stays_def settled_def evidence_same_def)

lemma guards_checkpoint: "stays (guards e) (checkpoint e key actor)"
proof -
  have "stays (guards e) (modify (\<lambda>d. d\<lparr>response_audit_checkpoints := f d\<rparr>))" for f
    by (intro guards_beside keys_kept_modify evidence_same_modify) simp_all
  then show ?thesis unfolding checkpoint_def Let_def by (intro guards.stays_structural stays_cases)
qed

lemma guards_insert_alert: "stays (guards e) (insert_alert e' rec agent_id)"
proof -
  have "stays (guards e) (bind_alert rec agent_id)"
    by (rule staysI, subst bind_alert_read) (simp add: guards.R_refl)
  moreover have "stays (guards e) (modify (\<lambda>d. d\<lparr>alerts := f d\<rparr>))" for f
    by (intro guards_beside keys_kept_modify evidence_same_modify) simp_all
  ultimately show ?thesis unfolding insert_alert_def by (intro guards.stays_structural stays_cases)
qed

lemma guards_foreground_operations:
  "stays (guards e) (enqueue e' c token)" "stays (guards e) (poll e' agent_id auth durable es256 header)"
  "stays (guards e) (accept e' agent_id command_id auth)" "stays (guards e) (expire_pending e')"
  "stays (guards e) (create_manual e' body auth)" "stays (guards e) (create_campaign e' body auth)"
  "stays (guards e) (cancel e' response_id body auth)" "stays (guards e) (authorize e' response_id auth)"
  "stays (guards e) (reject e' response_id body auth)" "stays (guards e) (save_policy e' body auth)"
  "stays (guards e) (save_asset e' body auth)" "stays (guards e) (cancel_triage_run e' alert_id body auth)"
  "stays (guards e) (runs e' auth limit offset)" "stays (guards e) (on_alert_created e' rec)"
  by (intro guards_foreground foreground_queue foreground_agent_operations foreground_analyst_operations foreground_triage_admin
      foreground_on_alert_created)+

lemma guards_keys:
  "stays (guards e) (rotate_key e' agent_id body auth)" "stays (guards e) (approve_key e' agent_id request_id auth)"
  "stays (guards e) (revoke_key e' agent_id kid body auth)" "stays (guards e) (revoke_enrollment e' agent_id body auth)"
  "stays (guards e) (grant_access e' body auth)" "stays (guards e) (revoke_access e' grant_id body auth)"
  by (intro guards_beside keys_kept_requests keys_kept_access evidence_same_artifact_keys evidence_same_access)+

lemma guards_evidence:
  "stays (guards e) (admit_transfer e agent_id command_id content_type data auth)"
  "stays (guards e) (put_transfer_chunk e agent_id command_id artifact_id offset dig content_type data auth)"
  "stays (guards e) (complete_transfer e agent_id command_id artifact_id content_type data auth)"
  "stays (guards e) (upload_signed e agent_id command_id content_type data auth)"
  by (intro guardsI keys_kept_transfer_requests keys_kept_evidence_requests custody_transfer_requests custody_upload_signed; assumption)+

lemma guards_reads:
  "stays (guards e) (custody e' i after limit auth)" "stays (guards e) (content e' i auth)" "stays (guards e) (context_of e' i auth)"
  "stays (guards e) (chunks e' i offset dig auth)" "stays (guards e) (viewed e' i body auth)"
  "stays (guards e) (upload_unsigned e' agent_id command_id auth)"
  by (intro guards_beside keys_kept_evidence_requests evidence_same_requests)+

lemmas guards_requests = guards_identities guards_submit_result guards_checkpoint guards_foreground_operations guards_keys
  guards_evidence guards_reads

end
