(* ===== verification/LinuxStore.thy ===== *)
theory LinuxStore
  imports Telemetry
begin

text \<open>
  \<^verbatim>\<open>manager/linux_endpoint_store.py\<close>: immutable Linux records and the accounting of their streams.
\<close>

section \<open>Stored records\<close>

record stored_record =
  sr_record_id :: string
  sr_sensor_id :: string
  sr_boot_id :: string
  sr_seq :: int
  sr_host_id :: string
  sr_record_type :: string
  sr_type :: string
  sr_event_time :: string
  sr_digest :: string
  sr_raw :: string
  sr_health :: "json option"
  sr_line :: int

type_synonym stream = "string \<times> string \<times> string"

definition stream_of :: "linux_record_row \<Rightarrow> stream" where
  "stream_of r = (lr_agent_id r, lr_sensor_id r, lr_boot_id r)"

definition stream_seqs :: "stream \<Rightarrow> linux_record_row list \<Rightarrow> int list" where
  "stream_seqs k rows = map lr_seq (filter (\<lambda>r. stream_of r = k) rows)"

definition seqs_above :: "stream \<Rightarrow> int \<Rightarrow> linux_record_row list \<Rightarrow> int list" where
  "seqs_above k floor rows = sort (filter (\<lambda>q. floor < q) (stream_seqs k rows))"

definition MAX_MISSING_RANGES :: nat where
  "MAX_MISSING_RANGES = 16"

text \<open>The loop of \<open>_missing_ranges\<close>: the ranges so far in reverse, the next sequence expected.\<close>

fun missing_loop :: "(int \<times> int) list \<Rightarrow> int \<Rightarrow> int list \<Rightarrow> (int \<times> int) list" where
  "missing_loop ranges expected [] = rev ranges"
| "missing_loop ranges expected (q # qs) =
    (if expected < q
     then (let ranges' = (expected, q - 1) # ranges
           in if MAX_MISSING_RANGES \<le> length ranges' then rev ranges' else missing_loop ranges' (q + 1) qs)
     else missing_loop ranges (q + 1) qs)"

definition missing_ranges :: "stream \<Rightarrow> int \<Rightarrow> linux_record_row list \<Rightarrow> (int \<times> int) list" where
  "missing_ranges k acked rows = missing_loop [] (acked + 1) (seqs_above k acked rows)"

definition record_row_of :: "string \<Rightarrow> stored_record \<Rightarrow> string \<Rightarrow> linux_record_row" where
  "record_row_of agent_id r stamp = \<lparr>lr_agent_id = agent_id, lr_record_id = sr_record_id r, lr_sensor_id = sr_sensor_id r,
     lr_boot_id = sr_boot_id r, lr_seq = sr_seq r, lr_host_id = sr_host_id r, lr_record_type = sr_record_type r,
     lr_type = sr_type r, lr_event_time = sr_event_time r, lr_ingested_at = stamp, lr_digest = sr_digest r, lr_raw_json = sr_raw r\<rparr>"

text \<open>The INSERT, against the primary key and the unique index on stream and sequence.\<close>

definition insert_linux_record :: "linux_record_row \<Rightarrow> (telemetry, unit) act" where
  "insert_linux_record r = bindM (gets linux_endpoint_records) (\<lambda>rows.
     seqM (raise_if (\<exists>x\<in>set rows. (lr_agent_id x = lr_agent_id r \<and> lr_record_id x = lr_record_id r) \<or>
                                  (stream_of x = stream_of r \<and> lr_seq x = lr_seq r)) IntegrityError)
     (modify (\<lambda>t. t\<lparr>linux_endpoint_records := linux_endpoint_records t @ [r]\<rparr>)))"

definition queue_detection :: "string \<Rightarrow> string \<Rightarrow> (telemetry, unit) act" where
  "queue_detection agent_id record_id = bindM (gets linux_endpoint_detection) (\<lambda>rows.
     seqM (raise_if (\<exists>x\<in>set rows. ld_agent_id x = agent_id \<and> ld_record_id x = record_id) IntegrityError)
     (modify (\<lambda>t. t\<lparr>linux_endpoint_detection := linux_endpoint_detection t @
        [\<lparr>ld_agent_id = agent_id, ld_record_id = record_id, ld_state = Pending, ld_attempts = 0, ld_claimed_at = None\<rparr>]\<rparr>)))"

text \<open>Health keeps the newest report of a host.\<close>

definition keep_health :: "linux_health_row \<Rightarrow> telemetry \<Rightarrow> telemetry" where
  "keep_health h t = t\<lparr>linux_endpoint_health :=
     upsert_by lh_host_id h (\<lambda>x. if lh_event_time x \<le> lh_event_time h then h else x) (linux_endpoint_health t)\<rparr>"

definition insert_record :: "string \<Rightarrow> stored_record \<Rightarrow> string \<Rightarrow> (telemetry, unit) act" where
  "insert_record agent_id r stamp =
    seqM (insert_linux_record (record_row_of agent_id r stamp))
    (seqM (if sr_record_type r = ''event'' \<and> sr_type r = ''process.exec'' then queue_detection agent_id (sr_record_id r) else ret ())
    (case sr_health r of
       None \<Rightarrow> ret ()
     | Some h \<Rightarrow> modify (keep_health \<lparr>lh_host_id = sr_host_id r, lh_agent_id = agent_id, lh_record_id = sr_record_id r,
         lh_event_time = sr_event_time r, lh_received_at = stamp, lh_health_json = h\<rparr>)))"

section \<open>Stream accounting\<close>

text \<open>The loop that moves the acknowledged prefix over the next sequences.\<close>

fun advance_loop :: "int \<Rightarrow> int list \<Rightarrow> int" where
  "advance_loop acked [] = acked"
| "advance_loop acked (q # qs) = (if q \<noteq> acked + 1 then acked else advance_loop (acked + 1) qs)"

definition stream_key :: "linux_stream_row \<Rightarrow> stream" where
  "stream_key s = (ls_agent_id s, ls_sensor_id s, ls_boot_id s)"

definition first_seq :: "linux_stream_row option \<Rightarrow> int \<Rightarrow> int" where
  "first_seq prior lo = (case prior of None \<Rightarrow> lo | Some p \<Rightarrow> min (ls_first_seq p) lo)"

definition acked_from :: "linux_stream_row option \<Rightarrow> int \<Rightarrow> int" where
  "acked_from prior first =
    (case prior of None \<Rightarrow> first - 1 | Some p \<Rightarrow> if first < ls_first_seq p then first - 1 else ls_acked_through p)"

record stream_report =
  rp_sensor_id :: string
  rp_boot_id :: string
  rp_acked_through_seq :: int
  rp_highest_seq :: int
  rp_missing_ranges :: "(int \<times> int) list"

text \<open>A stream without records has NULL bounds, on which \<open>min\<close> or the subtraction raises.\<close>

definition advance_stream :: "stream \<Rightarrow> string \<Rightarrow> string \<Rightarrow> (telemetry, stream_report) act" where
  "advance_stream k host_id stamp =
    (case k of (agent_id, sensor_id, boot_id) \<Rightarrow>
     bindM (gets (\<lambda>t. stream_seqs k (linux_endpoint_records t))) (\<lambda>seqs.
     seqM (raise_if (seqs = []) (TypeError ''unsupported operand type(s)''))
     (bindM (gets (\<lambda>t. find_by stream_key k (linux_endpoint_streams t))) (\<lambda>prior.
      let first = first_seq prior (Min (set seqs)) in
      bindM (gets (\<lambda>t. advance_loop (acked_from prior first) (seqs_above k (acked_from prior first) (linux_endpoint_records t)))) (\<lambda>acked.
      let row = \<lparr>ls_agent_id = agent_id, ls_sensor_id = sensor_id, ls_boot_id = boot_id, ls_host_id = host_id, ls_first_seq = first,
                 ls_highest_seq = Max (set seqs), ls_acked_through = acked, ls_record_count = int (length seqs), ls_updated_at = stamp\<rparr> in
      seqM (modify (\<lambda>t. t\<lparr>linux_endpoint_streams :=
              upsert_by stream_key row (\<lambda>x. row\<lparr>ls_host_id := ls_host_id x\<rparr>) (linux_endpoint_streams t)\<rparr>))
      (gets (\<lambda>t. \<lparr>rp_sensor_id = sensor_id, rp_boot_id = boot_id, rp_acked_through_seq = acked, rp_highest_seq = Max (set seqs),
                  rp_missing_ranges = missing_ranges k acked (linux_endpoint_records t)\<rparr>)))))))"

section \<open>Storing a batch\<close>

record tally =
  ty_accepted :: nat
  ty_duplicates :: nat
  ty_conflicts :: "(int \<times> string) list"
  ty_touched :: "((string \<times> string) \<times> string) list"

text \<open>\<open>touched[key] = host\<close>: a dictionary keeps the place of a key it already has.\<close>

fun touch :: "string \<times> string \<Rightarrow> string \<Rightarrow> ((string \<times> string) \<times> string) list \<Rightarrow> ((string \<times> string) \<times> string) list" where
  "touch k h [] = [(k, h)]"
| "touch k h ((k', h') # m) = (if k' = k then (k, h) # m else (k', h') # touch k h m)"

definition store_one :: "string \<Rightarrow> string \<Rightarrow> stored_record \<Rightarrow> tally \<Rightarrow> (telemetry, tally) act" where
  "store_one agent_id stamp r y =
    bindM (gets (\<lambda>t. List.find (\<lambda>x. lr_agent_id x = agent_id \<and> lr_record_id x = sr_record_id r) (linux_endpoint_records t))) (\<lambda>existing.
    case existing of
      Some x \<Rightarrow>
        ret (if lr_digest x = sr_digest r
             then y\<lparr>ty_duplicates := ty_duplicates y + 1,
                    ty_touched := touch (sr_sensor_id r, sr_boot_id r) (sr_host_id r) (ty_touched y)\<rparr>
             else y\<lparr>ty_conflicts := ty_conflicts y @ [(sr_line r, sr_record_id r)]\<rparr>)
    | None \<Rightarrow>
        bindM (gets (\<lambda>t. sr_seq r \<in> set (stream_seqs (agent_id, sr_sensor_id r, sr_boot_id r) (linux_endpoint_records t)))) (\<lambda>slot.
        if slot then ret (y\<lparr>ty_conflicts := ty_conflicts y @ [(sr_line r, sr_record_id r)]\<rparr>)
        else seqM (insert_record agent_id r stamp)
             (ret (y\<lparr>ty_accepted := ty_accepted y + 1,
                     ty_touched := touch (sr_sensor_id r, sr_boot_id r) (sr_host_id r) (ty_touched y)\<rparr>))))"

fun store_loop :: "string \<Rightarrow> string \<Rightarrow> stored_record list \<Rightarrow> tally \<Rightarrow> (telemetry, tally) act" where
  "store_loop agent_id stamp [] y = ret y"
| "store_loop agent_id stamp (r # rs) y = bindM (store_one agent_id stamp r y) (store_loop agent_id stamp rs)"

definition no_tally :: tally where
  "no_tally = \<lparr>ty_accepted = 0, ty_duplicates = 0, ty_conflicts = [], ty_touched = []\<rparr>"

definition store :: "string \<Rightarrow> stored_record list \<Rightarrow> string \<Rightarrow> (telemetry, tally \<times> stream_report list) act" where
  "store agent_id records stamp =
    bindM (store_loop agent_id stamp records no_tally) (\<lambda>y.
    bindM (mapM (\<lambda>((sensor_id, boot_id), host_id). advance_stream (agent_id, sensor_id, boot_id) host_id stamp) (ty_touched y)) (\<lambda>streams.
    ret (y, streams)))"


section \<open>The acknowledged prefix\<close>

lemma strict_tail: "sorted (q # qs) \<Longrightarrow> distinct (q # qs) \<Longrightarrow> \<forall>x\<in>set qs. (q::int) < x"
  by (metis distinct.simps(2) order_le_less sorted_simps(2))

lemma advance_loop_spec:
  assumes "sorted qs" and "distinct qs" and "\<forall>q\<in>set qs. acked < q"
  shows "acked \<le> advance_loop acked qs \<and> {acked<..advance_loop acked qs} \<subseteq> set qs \<and> advance_loop acked qs + 1 \<notin> set qs"
  using assms
proof (induction qs arbitrary: acked)
  case (Cons q qs)
  show ?case
  proof (cases "q = acked + 1")
    case False
    then have "\<forall>x\<in>set (q # qs). acked + 1 < x" using Cons.prems by fastforce
    then show ?thesis using False by auto
  next
    case True
    have "\<forall>x\<in>set qs. acked + 1 < x" using strict_tail [OF Cons.prems(1,2)] True by simp
    then have IH: "acked + 1 \<le> advance_loop (acked + 1) qs" "{acked + 1<..advance_loop (acked + 1) qs} \<subseteq> set qs"
        "advance_loop (acked + 1) qs + 1 \<notin> set qs"
      using Cons.IH [of "acked + 1"] Cons.prems by auto
    have "{acked<..advance_loop (acked + 1) qs} \<subseteq> insert q (set qs)"
    proof
      fix x assume "x \<in> {acked<..advance_loop (acked + 1) qs}"
      then show "x \<in> insert q (set qs)" using IH(2) True by (cases "x = acked + 1") auto
    qed
    then show ?thesis using IH True by auto
  qed
qed auto

text \<open>
  The reference: the end of the longest run of stored sequences that starts at the least one.
\<close>

definition is_prefix_end :: "int set \<Rightarrow> int \<Rightarrow> bool" where
  "is_prefix_end S a \<longleftrightarrow> Min S \<le> a \<and> {Min S..a} \<subseteq> S \<and> a + 1 \<notin> S"

lemma prefix_end_unique: "is_prefix_end S a \<Longrightarrow> is_prefix_end S b \<Longrightarrow> a = b"
proof -
  have *: "a \<le> b" if "is_prefix_end S a" "is_prefix_end S b" for a b
  proof (rule ccontr)
    assume "\<not> a \<le> b"
    then have "b + 1 \<in> {Min S..a}" using that by (auto simp: is_prefix_end_def)
    then show False using that unfolding is_prefix_end_def by blast
  qed
  show "is_prefix_end S a \<Longrightarrow> is_prefix_end S b \<Longrightarrow> a = b" using * by (meson order_antisym)
qed

section \<open>The missing ranges\<close>

lemma missing_loop_spec:
  assumes "sorted qs" and "distinct qs" and "\<forall>q\<in>set qs. expected \<le> q" and "length ranges < MAX_MISSING_RANGES"
  shows "\<exists>new. missing_loop ranges expected qs = rev ranges @ new \<and> length (rev ranges @ new) \<le> MAX_MISSING_RANGES \<and>
    (\<forall>(a, b)\<in>set new. expected \<le> a \<and> a \<le> b \<and> b + 1 \<in> set qs \<and> {a..b} \<inter> set qs = {}) \<and>
    (length (rev ranges @ new) < MAX_MISSING_RANGES \<longrightarrow>
      (\<forall>x. expected \<le> x \<and> x \<notin> set qs \<and> (\<exists>q\<in>set qs. x < q) \<longrightarrow> (\<exists>(a, b)\<in>set new. a \<le> x \<and> x \<le> b)))"
  using assms
proof (induction qs arbitrary: ranges expected)
  case Nil
  then show ?case by simp
next
  case (Cons q qs)
  have above: "\<forall>x\<in>set qs. q + 1 \<le> x" using strict_tail [OF Cons.prems(1,2)] by force
  have sd: "sorted qs" "distinct qs" using Cons.prems by auto
  show ?case
  proof (cases "expected < q")
    case False
    then have q: "q = expected" using Cons.prems by auto
    obtain new where n: "missing_loop ranges (q + 1) qs = rev ranges @ new" "length (rev ranges @ new) \<le> MAX_MISSING_RANGES"
        "\<forall>(a, b)\<in>set new. q + 1 \<le> a \<and> a \<le> b \<and> b + 1 \<in> set qs \<and> {a..b} \<inter> set qs = {}"
        "length (rev ranges @ new) < MAX_MISSING_RANGES \<longrightarrow>
          (\<forall>x. q + 1 \<le> x \<and> x \<notin> set qs \<and> (\<exists>q\<in>set qs. x < q) \<longrightarrow> (\<exists>(a, b)\<in>set new. a \<le> x \<and> x \<le> b))"
      using Cons.IH [OF sd above Cons.prems(4)] by blast
    show ?thesis
    proof (intro exI [of _ new] conjI)
      show "missing_loop ranges expected (q # qs) = rev ranges @ new" using n(1) False by simp
      show "length (rev ranges @ new) \<le> MAX_MISSING_RANGES" by (rule n(2))
      show "\<forall>(a, b)\<in>set new. expected \<le> a \<and> a \<le> b \<and> b + 1 \<in> set (q # qs) \<and> {a..b} \<inter> set (q # qs) = {}"
        using n(3) q by fastforce
      show "length (rev ranges @ new) < MAX_MISSING_RANGES \<longrightarrow>
          (\<forall>x. expected \<le> x \<and> x \<notin> set (q # qs) \<and> (\<exists>q\<in>set (q # qs). x < q) \<longrightarrow> (\<exists>(a, b)\<in>set new. a \<le> x \<and> x \<le> b))"
      proof (intro impI allI)
        fix x assume l: "length (rev ranges @ new) < MAX_MISSING_RANGES"
          and x: "expected \<le> x \<and> x \<notin> set (q # qs) \<and> (\<exists>q\<in>set (q # qs). x < q)"
        then have "q + 1 \<le> x \<and> x \<notin> set qs \<and> (\<exists>q\<in>set qs. x < q)" using q by auto
        then show "\<exists>(a, b)\<in>set new. a \<le> x \<and> x \<le> b" using n(4) l by blast
      qed
    qed
  next
    case gap: True
    let ?r = "(expected, q - 1) # ranges"
    have gap_ok: "expected \<le> q - 1" "q - 1 + 1 \<in> set (q # qs)" "{expected..q - 1} \<inter> set (q # qs) = {}"
      using gap above by auto
    show ?thesis
    proof (cases "MAX_MISSING_RANGES \<le> length ?r")
      case True
      have "length ?r = MAX_MISSING_RANGES" using True Cons.prems(4) by simp
      then show ?thesis using gap gap_ok True by (intro exI [of _ "[(expected, q - 1)]"]) (simp add: Let_def)
    next
      case False
      then obtain new where n: "missing_loop ?r (q + 1) qs = rev ?r @ new" "length (rev ?r @ new) \<le> MAX_MISSING_RANGES"
          "\<forall>(a, b)\<in>set new. q + 1 \<le> a \<and> a \<le> b \<and> b + 1 \<in> set qs \<and> {a..b} \<inter> set qs = {}"
          "length (rev ?r @ new) < MAX_MISSING_RANGES \<longrightarrow>
            (\<forall>x. q + 1 \<le> x \<and> x \<notin> set qs \<and> (\<exists>q\<in>set qs. x < q) \<longrightarrow> (\<exists>(a, b)\<in>set new. a \<le> x \<and> x \<le> b))"
        using Cons.IH [OF sd above, of ?r] by (auto simp: not_le)
      show ?thesis
      proof (intro exI [of _ "(expected, q - 1) # new"] conjI)
        show "missing_loop ranges expected (q # qs) = rev ranges @ (expected, q - 1) # new"
          using n(1) gap False by (simp add: Let_def)
        show "length (rev ranges @ (expected, q - 1) # new) \<le> MAX_MISSING_RANGES" using n(2) by simp
        show "\<forall>(a, b)\<in>set ((expected, q - 1) # new). expected \<le> a \<and> a \<le> b \<and> b + 1 \<in> set (q # qs) \<and> {a..b} \<inter> set (q # qs) = {}"
          using n(3) gap gap_ok by fastforce
        show "length (rev ranges @ (expected, q - 1) # new) < MAX_MISSING_RANGES \<longrightarrow>
          (\<forall>x. expected \<le> x \<and> x \<notin> set (q # qs) \<and> (\<exists>q\<in>set (q # qs). x < q) \<longrightarrow>
            (\<exists>(a, b)\<in>set ((expected, q - 1) # new). a \<le> x \<and> x \<le> b))"
        proof (intro impI allI)
          fix x assume l: "length (rev ranges @ (expected, q - 1) # new) < MAX_MISSING_RANGES"
            and x: "expected \<le> x \<and> x \<notin> set (q # qs) \<and> (\<exists>q\<in>set (q # qs). x < q)"
          show "\<exists>(a, b)\<in>set ((expected, q - 1) # new). a \<le> x \<and> x \<le> b"
          proof (cases "x < q")
            case True
            then show ?thesis using x by auto
          next
            case False
            then have "q + 1 \<le> x \<and> x \<notin> set qs \<and> (\<exists>q\<in>set qs. x < q)" using x by auto
            then have "\<exists>(a, b)\<in>set new. a \<le> x \<and> x \<le> b" using n(4) l by simp
            then show ?thesis by auto
          qed
        qed
      qed
    qed
  qed
qed

section \<open>Invariant of the streams\<close>

text \<open>
  No stream has two records in one slot; no agent two records of one name; every queued detection names a
  record; and what a stream row says was acknowledged is stored.
\<close>

definition stream_ok :: "linux_record_row list \<Rightarrow> linux_stream_row \<Rightarrow> bool" where
  "stream_ok rows s \<longleftrightarrow> ls_first_seq s \<in> set (stream_seqs (stream_key s) rows) \<and>
     {ls_first_seq s..ls_acked_through s} \<subseteq> set (stream_seqs (stream_key s) rows) \<and> ls_first_seq s \<le> ls_acked_through s + 1"

definition linux_inv :: "telemetry \<Rightarrow> bool" where
  "linux_inv t \<longleftrightarrow> distinct (map (\<lambda>r. (stream_of r, lr_seq r)) (linux_endpoint_records t)) \<and>
     distinct (map (\<lambda>r. (lr_agent_id r, lr_record_id r)) (linux_endpoint_records t)) \<and>
     (\<forall>d\<in>set (linux_endpoint_detection t). \<exists>r\<in>set (linux_endpoint_records t). lr_agent_id r = ld_agent_id d \<and> lr_record_id r = ld_record_id d) \<and>
     (\<forall>s\<in>set (linux_endpoint_streams t). stream_ok (linux_endpoint_records t) s)"

lemma distinct_stream_seqs:
  "distinct (map (\<lambda>r. (stream_of r, lr_seq r)) rows) \<Longrightarrow> distinct (stream_seqs k rows)"
  by (induction rows) (auto simp: stream_seqs_def image_iff)

lemma stream_seqs_append: "stream_seqs k (rows @ rows') = stream_seqs k rows @ stream_seqs k rows'"
  by (simp add: stream_seqs_def)

lemma stream_ok_append: "stream_ok rows s \<Longrightarrow> stream_ok (rows @ rows') s"
  by (auto simp: stream_ok_def stream_seqs_append)

lemma seqs_above_props:
  assumes "distinct (stream_seqs k rows)"
  shows "sorted (seqs_above k a rows)" and "distinct (seqs_above k a rows)"
    and "set (seqs_above k a rows) = {q \<in> set (stream_seqs k rows). a < q}"
  using assms by (auto simp: seqs_above_def)

text \<open>Where the loop starts: below it nothing of the stream is missing.\<close>

lemma acked_from_sound:
  assumes "seqs \<noteq> []" and "\<And>p. prior = Some p \<Longrightarrow> ls_first_seq p \<in> set seqs \<and> {ls_first_seq p..ls_acked_through p} \<subseteq> set seqs \<and>
      ls_first_seq p \<le> ls_acked_through p + 1"
  shows "first_seq prior (Min (set seqs)) = Min (set seqs) \<and> Min (set seqs) \<le> acked_from prior (Min (set seqs)) + 1 \<and>
    {Min (set seqs)..acked_from prior (Min (set seqs))} \<subseteq> set seqs"
proof (cases prior)
  case None
  then show ?thesis by (simp add: first_seq_def acked_from_def)
next
  case (Some p)
  have p: "ls_first_seq p \<in> set seqs" "{ls_first_seq p..ls_acked_through p} \<subseteq> set seqs" "ls_first_seq p \<le> ls_acked_through p + 1"
    using assms(2) [OF Some] by auto
  have le: "Min (set seqs) \<le> ls_first_seq p" using p(1) by simp
  then have "Min (set seqs) < ls_first_seq p \<or> ls_first_seq p = Min (set seqs)" by auto
  then show ?thesis using p Some le by (auto simp: first_seq_def acked_from_def)
qed

lemma advance_loop_prefix_end:
  assumes "distinct (stream_seqs k rows)" and "stream_seqs k rows \<noteq> []"
    and "Min (set (stream_seqs k rows)) \<le> a + 1" and "{Min (set (stream_seqs k rows))..a} \<subseteq> set (stream_seqs k rows)"
  shows "is_prefix_end (set (stream_seqs k rows)) (advance_loop a (seqs_above k a rows))"
proof -
  let ?S = "set (stream_seqs k rows)" and ?b = "advance_loop a (seqs_above k a rows)"
  have loop: "a \<le> ?b" "{a<..?b} \<subseteq> set (seqs_above k a rows)" "?b + 1 \<notin> set (seqs_above k a rows)"
    using advance_loop_spec [of "seqs_above k a rows" a] seqs_above_props [OF assms(1), of a] by auto
  have above: "set (seqs_above k a rows) = {q \<in> ?S. a < q}" by (rule seqs_above_props(3) [OF assms(1)])
  have out: "?b + 1 \<notin> ?S" using loop(1,3) above by auto
  have "{Min ?S..?b} \<subseteq> ?S"
  proof
    fix x assume "x \<in> {Min ?S..?b}"
    then show "x \<in> ?S" using subsetD [OF loop(2), of x] above subsetD [OF assms(4), of x] by (cases "x \<le> a") auto
  qed
  moreover have "Min ?S \<le> ?b"
  proof (rule ccontr)
    assume "\<not> Min ?S \<le> ?b"
    then have "?b + 1 = Min ?S" using assms(3) loop(1) by simp
    then show False using out assms(2) by simp
  qed
  ultimately show ?thesis using out by (simp add: is_prefix_end_def)
qed

text \<open>The gaps of a stream above its acknowledged prefix, as the report lists them.\<close>

definition gaps_of :: "int set \<Rightarrow> int \<Rightarrow> (int \<times> int) list \<Rightarrow> bool" where
  "gaps_of S a ranges \<longleftrightarrow> length ranges \<le> MAX_MISSING_RANGES \<and>
     (\<forall>(x, y)\<in>set ranges. a < x \<and> x \<le> y \<and> y + 1 \<in> S \<and> {x..y} \<inter> S = {}) \<and>
     (length ranges < MAX_MISSING_RANGES \<longrightarrow>
       (\<forall>q. a < q \<and> q \<notin> S \<and> (\<exists>s\<in>S. q < s) \<longrightarrow> (\<exists>(x, y)\<in>set ranges. x \<le> q \<and> q \<le> y)))"

lemma missing_ranges_gaps:
  assumes "distinct (stream_seqs k rows)"
  shows "gaps_of (set (stream_seqs k rows)) a (missing_ranges k a rows)"
proof -
  let ?S = "set (stream_seqs k rows)" and ?Q = "seqs_above k a rows"
  have above: "set ?Q = {q \<in> ?S. a < q}" by (rule seqs_above_props(3) [OF assms])
  have "\<exists>new. missing_loop [] (a + 1) ?Q = rev [] @ new \<and> length (rev [] @ new) \<le> MAX_MISSING_RANGES \<and>
    (\<forall>(x, y)\<in>set new. a + 1 \<le> x \<and> x \<le> y \<and> y + 1 \<in> set ?Q \<and> {x..y} \<inter> set ?Q = {}) \<and>
    (length (rev [] @ new) < MAX_MISSING_RANGES \<longrightarrow>
      (\<forall>q. a + 1 \<le> q \<and> q \<notin> set ?Q \<and> (\<exists>s\<in>set ?Q. q < s) \<longrightarrow> (\<exists>(x, y)\<in>set new. x \<le> q \<and> q \<le> y)))"
    by (rule missing_loop_spec) (use seqs_above_props [OF assms, of a] in \<open>auto simp: MAX_MISSING_RANGES_def\<close>)
  then obtain new where n: "missing_ranges k a rows = new" "length new \<le> MAX_MISSING_RANGES"
      "\<forall>(x, y)\<in>set new. a + 1 \<le> x \<and> x \<le> y \<and> y + 1 \<in> set ?Q \<and> {x..y} \<inter> set ?Q = {}"
      "length new < MAX_MISSING_RANGES \<longrightarrow>
        (\<forall>q. a + 1 \<le> q \<and> q \<notin> set ?Q \<and> (\<exists>s\<in>set ?Q. q < s) \<longrightarrow> (\<exists>(x, y)\<in>set new. x \<le> q \<and> q \<le> y))"
    by (auto simp: missing_ranges_def)
  have "\<forall>(x, y)\<in>set new. a < x \<and> x \<le> y \<and> y + 1 \<in> ?S \<and> {x..y} \<inter> ?S = {}"
    using n(3) above by fastforce
  moreover have "\<exists>(x, y)\<in>set new. x \<le> q \<and> q \<le> y"
    if "length new < MAX_MISSING_RANGES" "a < q" "q \<notin> ?S" "s \<in> ?S" "q < s" for q s
  proof -
    have "a + 1 \<le> q \<and> q \<notin> set ?Q \<and> (\<exists>s\<in>set ?Q. q < s)" using that above by auto
    then show ?thesis using n(4) that(1) by blast
  qed
  ultimately show ?thesis using n(1,2) unfolding gaps_of_def by blast
qed

lemma advance_stream_run:
  assumes "linux_inv t" and "stream_seqs k (linux_endpoint_records t) \<noteq> []"
  obtains row where "advance_stream k host_id stamp t =
      (Inr \<lparr>rp_sensor_id = fst (snd k), rp_boot_id = snd (snd k), rp_acked_through_seq = ls_acked_through row, rp_highest_seq = ls_highest_seq row,
            rp_missing_ranges = missing_ranges k (ls_acked_through row) (linux_endpoint_records t)\<rparr>,
       t\<lparr>linux_endpoint_streams := upsert_by stream_key row (\<lambda>x. row\<lparr>ls_host_id := ls_host_id x\<rparr>) (linux_endpoint_streams t)\<rparr>)"
    and "stream_key row = k" and "ls_first_seq row = Min (set (stream_seqs k (linux_endpoint_records t)))"
    and "ls_highest_seq row = Max (set (stream_seqs k (linux_endpoint_records t)))"
    and "is_prefix_end (set (stream_seqs k (linux_endpoint_records t))) (ls_acked_through row)"
proof -
  let ?rows = "linux_endpoint_records t"
  let ?S = "set (stream_seqs k ?rows)" and ?prior = "find_by stream_key k (linux_endpoint_streams t)"
  obtain agent_id sensor_id boot_id where k: "k = (agent_id, sensor_id, boot_id)" by (cases k)
  have d: "distinct (stream_seqs k ?rows)" using assms(1) by (auto simp: linux_inv_def intro: distinct_stream_seqs)
  have ok: "stream_ok ?rows p" if "?prior = Some p" for p
    using find_by_SomeD [OF that] assms(1) by (auto simp: linux_inv_def)
  have "ls_first_seq p \<in> ?S \<and> {ls_first_seq p..ls_acked_through p} \<subseteq> ?S \<and> ls_first_seq p \<le> ls_acked_through p + 1"
    if "?prior = Some p" for p using ok [OF that] find_by_SomeD [OF that] by (auto simp: stream_ok_def)
  then have start: "first_seq ?prior (Min ?S) = Min ?S" "Min ?S \<le> acked_from ?prior (Min ?S) + 1"
      "{Min ?S..acked_from ?prior (Min ?S)} \<subseteq> ?S"
    using acked_from_sound [OF assms(2), of ?prior] by auto
  define acked where "acked = advance_loop (acked_from ?prior (Min ?S)) (seqs_above k (acked_from ?prior (Min ?S)) ?rows)"
  define row where "row = \<lparr>ls_agent_id = agent_id, ls_sensor_id = sensor_id, ls_boot_id = boot_id, ls_host_id = host_id, ls_first_seq = Min ?S,
       ls_highest_seq = Max ?S, ls_acked_through = acked, ls_record_count = int (length (stream_seqs k ?rows)), ls_updated_at = stamp\<rparr>"
  have "is_prefix_end ?S acked" unfolding acked_def by (rule advance_loop_prefix_end [OF d assms(2) start(2,3)])
  moreover have "advance_stream k host_id stamp t =
      (Inr \<lparr>rp_sensor_id = fst (snd k), rp_boot_id = snd (snd k), rp_acked_through_seq = ls_acked_through row, rp_highest_seq = ls_highest_seq row,
            rp_missing_ranges = missing_ranges k (ls_acked_through row) ?rows\<rparr>,
       t\<lparr>linux_endpoint_streams := upsert_by stream_key row (\<lambda>x. row\<lparr>ls_host_id := ls_host_id x\<rparr>) (linux_endpoint_streams t)\<rparr>)"
    using assms(2) start(1) by (simp add: advance_stream_def k row_def acked_def bindM_raise_if Let_def)
  ultimately show thesis by (intro that [of row]) (simp_all add: row_def k stream_key_def)
qed

lemma linux_inv_advance:
  assumes "linux_inv t" and "stream_seqs k (linux_endpoint_records t) \<noteq> []"
  shows "\<exists>rep t'. advance_stream k host_id stamp t = (Inr rep, t') \<and> linux_inv t' \<and> linux_endpoint_records t' = linux_endpoint_records t"
proof (rule advance_stream_run [OF assms, of host_id stamp])
  let ?S = "set (stream_seqs k (linux_endpoint_records t))"
  fix row
  assume run: "advance_stream k host_id stamp t =
      (Inr \<lparr>rp_sensor_id = fst (snd k), rp_boot_id = snd (snd k), rp_acked_through_seq = ls_acked_through row, rp_highest_seq = ls_highest_seq row,
            rp_missing_ranges = missing_ranges k (ls_acked_through row) (linux_endpoint_records t)\<rparr>,
       t\<lparr>linux_endpoint_streams := upsert_by stream_key row (\<lambda>x. row\<lparr>ls_host_id := ls_host_id x\<rparr>) (linux_endpoint_streams t)\<rparr>)"
    and row: "stream_key row = k" "ls_first_seq row = Min ?S" "is_prefix_end ?S (ls_acked_through row)"
  have "Min ?S \<in> ?S" using assms(2) by simp
  then have ok: "stream_ok (linux_endpoint_records t) row"
    using row by (auto simp: stream_ok_def is_prefix_end_def)
  have key: "stream_key (row\<lparr>ls_host_id := h\<rparr>) = stream_key row" for h by (simp add: stream_key_def)
  have "stream_ok (linux_endpoint_records t) (row\<lparr>ls_host_id := h\<rparr>)" for h using ok by (simp add: stream_ok_def key)
  then have "\<forall>s\<in>set (upsert_by stream_key row (\<lambda>x. row\<lparr>ls_host_id := ls_host_id x\<rparr>) (linux_endpoint_streams t)).
      stream_ok (linux_endpoint_records t) s"
    using ok assms(1) by (auto simp: upsert_by_def set_update_where linux_inv_def)
  then show ?thesis using run assms(1) by (auto simp: linux_inv_def)
qed

section \<open>What a batch does to the records\<close>

text \<open>The reference: each record gets one verdict against the rows before it, and only a fresh one adds a row.\<close>

datatype verdict = Fresh | Same | Clash

definition verdict_of :: "string \<Rightarrow> linux_record_row list \<Rightarrow> stored_record \<Rightarrow> verdict" where
  "verdict_of agent_id rows r =
    (case List.find (\<lambda>x. lr_agent_id x = agent_id \<and> lr_record_id x = sr_record_id r) rows of
       Some x \<Rightarrow> if lr_digest x = sr_digest r then Same else Clash
     | None \<Rightarrow> if sr_seq r \<in> set (stream_seqs (agent_id, sr_sensor_id r, sr_boot_id r) rows) then Clash else Fresh)"

definition admit :: "string \<Rightarrow> string \<Rightarrow> linux_record_row list \<Rightarrow> stored_record \<Rightarrow> linux_record_row list" where
  "admit agent_id stamp rows r = rows @ (if verdict_of agent_id rows r = Fresh then [record_row_of agent_id r stamp] else [])"

fun verdicts :: "string \<Rightarrow> string \<Rightarrow> linux_record_row list \<Rightarrow> stored_record list \<Rightarrow> verdict list" where
  "verdicts agent_id stamp rows [] = []"
| "verdicts agent_id stamp rows (r # rs) = verdict_of agent_id rows r # verdicts agent_id stamp (admit agent_id stamp rows r) rs"

definition count_verdict :: "tally \<Rightarrow> stored_record \<times> verdict \<Rightarrow> tally" where
  "count_verdict y = (\<lambda>(r, v). case v of
      Fresh \<Rightarrow> y\<lparr>ty_accepted := ty_accepted y + 1, ty_touched := touch (sr_sensor_id r, sr_boot_id r) (sr_host_id r) (ty_touched y)\<rparr>
    | Same \<Rightarrow> y\<lparr>ty_duplicates := ty_duplicates y + 1, ty_touched := touch (sr_sensor_id r, sr_boot_id r) (sr_host_id r) (ty_touched y)\<rparr>
    | Clash \<Rightarrow> y\<lparr>ty_conflicts := ty_conflicts y @ [(sr_line r, sr_record_id r)]\<rparr>)"

lemma find_row_None: "List.find P rows = None \<longleftrightarrow> (\<forall>x\<in>set rows. \<not> P x)"
  by (auto simp: find_None_iff)

lemma fresh_rowD:
  assumes "verdict_of agent_id rows r = Fresh"
  shows "\<forall>x\<in>set rows. \<not> (lr_agent_id x = agent_id \<and> lr_record_id x = sr_record_id r)"
    and "sr_seq r \<notin> set (stream_seqs (agent_id, sr_sensor_id r, sr_boot_id r) rows)"
  using assms by (auto simp: verdict_of_def find_row_None split: option.splits if_splits)

lemma stream_of_record_row [simp]:
  "stream_of (record_row_of agent_id r stamp) = (agent_id, sr_sensor_id r, sr_boot_id r)"
  "lr_seq (record_row_of agent_id r stamp) = sr_seq r" "lr_agent_id (record_row_of agent_id r stamp) = agent_id"
  "lr_record_id (record_row_of agent_id r stamp) = sr_record_id r" "lr_digest (record_row_of agent_id r stamp) = sr_digest r"
  "lr_sensor_id (record_row_of agent_id r stamp) = sr_sensor_id r" "lr_boot_id (record_row_of agent_id r stamp) = sr_boot_id r"
  by (simp_all add: record_row_of_def stream_of_def)

lemma insert_record_run:
  assumes inv: "linux_inv t" and fresh: "verdict_of agent_id (linux_endpoint_records t) r = Fresh"
  shows "\<exists>t'. insert_record agent_id r stamp t = (Inr (), t') \<and> linux_inv t' \<and>
    linux_endpoint_records t' = linux_endpoint_records t @ [record_row_of agent_id r stamp]"
proof -
  let ?row = "record_row_of agent_id r stamp" and ?rows = "linux_endpoint_records t"
  note F = fresh_rowD [OF fresh]
  have slot: "\<forall>x\<in>set ?rows. \<not> (stream_of x = (agent_id, sr_sensor_id r, sr_boot_id r) \<and> lr_seq x = sr_seq r)"
    using F(2) by (fastforce simp: stream_seqs_def image_iff)
  have unqueued: "\<forall>x\<in>set (linux_endpoint_detection t). \<not> (ld_agent_id x = agent_id \<and> ld_record_id x = sr_record_id r)"
    using inv F(1) unfolding linux_inv_def by metis
  let ?t1 = "t\<lparr>linux_endpoint_records := ?rows @ [?row]\<rparr>"
  have ins: "insert_linux_record ?row t = (Inr (), ?t1)"
    unfolding insert_linux_record_def using F(1) slot by (auto simp: bindM_raise_if)
  have d1: "distinct (map (\<lambda>r. (stream_of r, lr_seq r)) (?rows @ [?row]))"
    using inv slot by (auto simp: linux_inv_def)
  have d2: "distinct (map (\<lambda>r. (lr_agent_id r, lr_record_id r)) (?rows @ [?row]))"
    using inv F(1) by (auto simp: linux_inv_def)
  have s: "\<forall>s\<in>set (linux_endpoint_streams t). stream_ok (?rows @ [?row]) s"
    using inv by (auto simp: linux_inv_def intro: stream_ok_append)
  have inv1: "linux_inv ?t1" using inv d1 d2 s by (auto simp: linux_inv_def)
  let ?q = "if sr_record_type r = ''event'' \<and> sr_type r = ''process.exec'' then queue_detection agent_id (sr_record_id r) else ret ()"
  obtain t2 where q: "?q ?t1 = (Inr (), t2)" "linux_inv t2" "linux_endpoint_records t2 = ?rows @ [?row]"
  proof (cases "sr_record_type r = ''event'' \<and> sr_type r = ''process.exec''")
    case True
    let ?t2 = "?t1\<lparr>linux_endpoint_detection := linux_endpoint_detection t @
        [\<lparr>ld_agent_id = agent_id, ld_record_id = sr_record_id r, ld_state = Pending, ld_attempts = 0, ld_claimed_at = None\<rparr>]\<rparr>"
    have "?q ?t1 = (Inr (), ?t2)" using True unqueued by (auto simp: queue_detection_def bindM_raise_if)
    moreover have "linux_inv ?t2" using inv1 by (auto simp: linux_inv_def)
    ultimately show thesis by (intro that [of ?t2]) simp_all
  next
    case False
    then show thesis using inv1 by (intro that [of ?t1]) auto
  qed
  have keep: "linux_inv (keep_health h t2)" "linux_endpoint_records (keep_health h t2) = ?rows @ [?row]" for h
    using q by (simp_all add: keep_health_def linux_inv_def)
  show ?thesis unfolding insert_record_def bindM_Inr [where m = "insert_linux_record _", OF ins] bindM_Inr [where m = ?q, OF q(1)]
    using q keep by (cases "sr_health r") auto
qed

lemma store_one_run:
  assumes "linux_inv t"
  shows "\<exists>t'. store_one agent_id stamp r y t = (Inr (count_verdict y (r, verdict_of agent_id (linux_endpoint_records t) r)), t') \<and>
    linux_inv t' \<and> linux_endpoint_records t' = admit agent_id stamp (linux_endpoint_records t) r"
proof (cases "verdict_of agent_id (linux_endpoint_records t) r = Fresh")
  case True
  obtain t' where "insert_record agent_id r stamp t = (Inr (), t')" "linux_inv t'"
      "linux_endpoint_records t' = linux_endpoint_records t @ [record_row_of agent_id r stamp]"
    using insert_record_run [OF assms True] by blast
  moreover have "List.find (\<lambda>x. lr_agent_id x = agent_id \<and> lr_record_id x = sr_record_id r) (linux_endpoint_records t) = None"
    using fresh_rowD(1) [OF True] by (simp add: find_row_None)
  ultimately show ?thesis using True fresh_rowD(2) [OF True]
    by (simp add: store_one_def admit_def count_verdict_def bindM_Inr)
next
  case False
  then show ?thesis using assms
    by (auto simp: store_one_def admit_def count_verdict_def verdict_of_def split: option.splits if_splits)
qed

lemma store_loop_run:
  assumes "linux_inv t"
  shows "\<exists>t'. store_loop agent_id stamp rs y t =
      (Inr (foldl count_verdict y (zip rs (verdicts agent_id stamp (linux_endpoint_records t) rs))), t') \<and>
    linux_inv t' \<and> linux_endpoint_records t' = foldl (admit agent_id stamp) (linux_endpoint_records t) rs"
  using assms
proof (induction rs arbitrary: t y)
  case (Cons r rs)
  obtain t1 where t1: "store_one agent_id stamp r y t = (Inr (count_verdict y (r, verdict_of agent_id (linux_endpoint_records t) r)), t1)"
      "linux_inv t1" "linux_endpoint_records t1 = admit agent_id stamp (linux_endpoint_records t) r"
    using store_one_run [OF Cons.prems] by blast
  show ?case using Cons.IH [OF t1(2)] t1(1,3) by (simp add: bindM_Inr)
qed simp

section \<open>Every line accounted for, every gap reported\<close>

text \<open>
  The digest of a record is taken over its bytes, so it determines the slot the record names. \<open>slot_of\<close> reads it off.
\<close>

definition content_addressed :: "(string \<Rightarrow> string \<times> string \<times> int) \<Rightarrow> linux_record_row list \<Rightarrow> stored_record list \<Rightarrow> bool" where
  "content_addressed slot_of rows rs \<longleftrightarrow>
    (\<forall>x\<in>set rows. slot_of (lr_digest x) = (lr_sensor_id x, lr_boot_id x, lr_seq x)) \<and>
    (\<forall>r\<in>set rs. slot_of (sr_digest r) = (sr_sensor_id r, sr_boot_id r, sr_seq r))"

lemma content_addressed_admit:
  "content_addressed slot_of rows (r # rs) \<Longrightarrow> content_addressed slot_of (admit agent_id stamp rows r) rs"
  by (auto simp: content_addressed_def admit_def)

lemma set_touch: "set (touch k h m) \<subseteq> insert (k, h) (set m)"
  by (induction m rule: touch.induct) auto

lemma admit_prefix: "\<exists>new. foldl (admit agent_id stamp) rows rs = rows @ new \<and> (\<forall>x\<in>set new. lr_agent_id x = agent_id)"
proof (induction rs arbitrary: rows)
  case (Cons r rs)
  obtain new where "foldl (admit agent_id stamp) (admit agent_id stamp rows r) rs = admit agent_id stamp rows r @ new"
      "\<forall>x\<in>set new. lr_agent_id x = agent_id" using Cons.IH by blast
  moreover have "\<exists>more. admit agent_id stamp rows r = rows @ more \<and> (\<forall>x\<in>set more. lr_agent_id x = agent_id)"
    by (simp add: admit_def)
  ultimately show ?case by fastforce
qed simp

lemma stream_seqs_mono: "set (stream_seqs k rows) \<subseteq> set (stream_seqs k (rows @ new))"
  by (simp add: stream_seqs_append)

lemma touched_streams:
  assumes "content_addressed slot_of rows rs"
    and "\<forall>p\<in>set (ty_touched y). stream_seqs (agent_id, fst p) rows \<noteq> []"
  shows "\<forall>p\<in>set (ty_touched (foldl count_verdict y (zip rs (verdicts agent_id stamp rows rs)))).
    stream_seqs (agent_id, fst p) (foldl (admit agent_id stamp) rows rs) \<noteq> []"
  using assms
proof (induction rs arbitrary: rows y)
  case (Cons r rs)
  let ?v = "verdict_of agent_id rows r" and ?rows = "admit agent_id stamp rows r"
  have keep: "stream_seqs k ?rows \<noteq> []" if "stream_seqs k rows \<noteq> []" for k
    using that by (auto simp: admit_def stream_seqs_append)
  have own: "stream_seqs (agent_id, sr_sensor_id r, sr_boot_id r) ?rows \<noteq> []" if "?v \<noteq> Clash"
  proof (cases ?v)
    case Fresh
    then show ?thesis by (simp add: admit_def stream_seqs_def)
  next
    case Same
    then obtain x where x: "List.find (\<lambda>x. lr_agent_id x = agent_id \<and> lr_record_id x = sr_record_id r) rows = Some x" "lr_digest x = sr_digest r"
      by (auto simp: verdict_of_def split: option.splits if_splits)
    have mem: "x \<in> set rows" "lr_agent_id x = agent_id" using find_SomeD [OF x(1)] by auto
    then have "stream_of x = (agent_id, sr_sensor_id r, sr_boot_id r)"
      using Cons.prems(1) x(2) by (auto simp: content_addressed_def stream_of_def)
    then have "stream_seqs (agent_id, sr_sensor_id r, sr_boot_id r) rows \<noteq> []"
      using mem by (auto simp: stream_seqs_def filter_empty_conv)
    then show ?thesis by (rule keep)
  qed (use that in simp)
  have "\<forall>p\<in>set (ty_touched (count_verdict y (r, ?v))). stream_seqs (agent_id, fst p) ?rows \<noteq> []"
    using Cons.prems(2) keep own set_touch [of "(sr_sensor_id r, sr_boot_id r)" "sr_host_id r" "ty_touched y"]
    by (cases ?v) (fastforce simp: count_verdict_def)+
  then show ?case using Cons.IH [OF content_addressed_admit [OF Cons.prems(1)]] by simp
qed simp

lemma tally_total:
  "length rs = length vs \<Longrightarrow>
   ty_accepted (foldl count_verdict y (zip rs vs)) + ty_duplicates (foldl count_verdict y (zip rs vs)) +
     length (ty_conflicts (foldl count_verdict y (zip rs vs))) =
   ty_accepted y + ty_duplicates y + length (ty_conflicts y) + length rs"
  by (induction rs vs arbitrary: y rule: list_induct2) (auto simp: count_verdict_def split: verdict.splits)

lemma length_verdicts [simp]: "length (verdicts agent_id stamp rows rs) = length rs"
  by (induction rs arbitrary: rows) auto

lemma accepted_rows:
  "length (foldl (admit agent_id stamp) rows rs) + ty_accepted y =
    length rows + ty_accepted (foldl count_verdict y (zip rs (verdicts agent_id stamp rows rs)))"
proof (induction rs arbitrary: rows y)
  case (Cons r rs)
  show ?case using Cons.IH [of "admit agent_id stamp rows r" "count_verdict y (r, verdict_of agent_id rows r)"]
    by (cases "verdict_of agent_id rows r") (auto simp: admit_def count_verdict_def)
qed simp

text \<open>What a report says of a stream is exactly what is stored of it.\<close>

definition report_exact :: "string \<Rightarrow> linux_record_row list \<Rightarrow> stream_report \<Rightarrow> bool" where
  "report_exact agent_id rows rep \<longleftrightarrow>
    (let S = set (stream_seqs (agent_id, rp_sensor_id rep, rp_boot_id rep) rows)
     in is_prefix_end S (rp_acked_through_seq rep) \<and> rp_highest_seq rep = Max S \<and> gaps_of S (rp_acked_through_seq rep) (rp_missing_ranges rep))"

lemma advance_stream_exact:
  assumes "linux_inv t" and "stream_seqs (agent_id, s, b) (linux_endpoint_records t) \<noteq> []"
  shows "\<exists>rep t'. advance_stream (agent_id, s, b) host_id stamp t = (Inr rep, t') \<and> linux_inv t' \<and>
    linux_endpoint_records t' = linux_endpoint_records t \<and> report_exact agent_id (linux_endpoint_records t) rep"
proof (rule advance_stream_run [OF assms, of host_id stamp])
  let ?rows = "linux_endpoint_records t"
  fix row
  assume run: "advance_stream (agent_id, s, b) host_id stamp t =
      (Inr \<lparr>rp_sensor_id = fst (snd (agent_id, s, b)), rp_boot_id = snd (snd (agent_id, s, b)), rp_acked_through_seq = ls_acked_through row,
            rp_highest_seq = ls_highest_seq row, rp_missing_ranges = missing_ranges (agent_id, s, b) (ls_acked_through row) ?rows\<rparr>,
       t\<lparr>linux_endpoint_streams := upsert_by stream_key row (\<lambda>x. row\<lparr>ls_host_id := ls_host_id x\<rparr>) (linux_endpoint_streams t)\<rparr>)"
    and row: "ls_highest_seq row = Max (set (stream_seqs (agent_id, s, b) ?rows))"
      "is_prefix_end (set (stream_seqs (agent_id, s, b) ?rows)) (ls_acked_through row)"
  have "distinct (stream_seqs (agent_id, s, b) ?rows)" using assms(1) by (auto simp: linux_inv_def intro: distinct_stream_seqs)
  note gaps = missing_ranges_gaps [OF this, of "ls_acked_through row"]
  obtain rep t' where "advance_stream (agent_id, s, b) host_id stamp t = (Inr rep, t')" "linux_inv t'" "linux_endpoint_records t' = ?rows"
    using linux_inv_advance [OF assms] by blast
  then show ?thesis using run row gaps by (auto simp: report_exact_def Let_def)
qed

lemma advance_streams_exact:
  assumes "linux_inv t" and "\<forall>p\<in>set ps. stream_seqs (agent_id, fst p) (linux_endpoint_records t) \<noteq> []"
  shows "\<exists>reps t'. mapM (\<lambda>((s, b), h). advance_stream (agent_id, s, b) h stamp) ps t = (Inr reps, t') \<and> linux_inv t' \<and>
    linux_endpoint_records t' = linux_endpoint_records t \<and> (\<forall>rep\<in>set reps. report_exact agent_id (linux_endpoint_records t) rep)"
  using assms
proof (induction ps arbitrary: t)
  case (Cons p ps)
  obtain s b h where p: "p = ((s, b), h)" by (metis prod.exhaust)
  have "stream_seqs (agent_id, s, b) (linux_endpoint_records t) \<noteq> []" using Cons.prems(2) p by simp
  then obtain rep t1 where 1: "advance_stream (agent_id, s, b) h stamp t = (Inr rep, t1)" "linux_inv t1"
      "linux_endpoint_records t1 = linux_endpoint_records t" "report_exact agent_id (linux_endpoint_records t) rep"
    using advance_stream_exact [OF Cons.prems(1)] by blast
  have rest: "\<forall>p\<in>set ps. stream_seqs (agent_id, fst p) (linux_endpoint_records t1) \<noteq> []" using Cons.prems(2) 1(3) by simp
  obtain reps t2 where 2: "mapM (\<lambda>((s, b), h). advance_stream (agent_id, s, b) h stamp) ps t1 = (Inr reps, t2)" "linux_inv t2"
      "linux_endpoint_records t2 = linux_endpoint_records t1" "\<forall>rep\<in>set reps. report_exact agent_id (linux_endpoint_records t1) rep"
    using Cons.IH [OF 1(2) rest] by blast
  have "mapM (\<lambda>((s, b), h). advance_stream (agent_id, s, b) h stamp) (p # ps) t = (Inr (rep # reps), t2)"
    unfolding mapM.simps p prod.case bindM_Inr [where m = "advance_stream _ _ _", OF 1(1)] bindM_Inr [where m = "mapM _ _", OF 2(1)] by simp
  moreover have "linux_endpoint_records t2 = linux_endpoint_records t" "\<forall>rep\<in>set (rep # reps). report_exact agent_id (linux_endpoint_records t) rep"
    using 1(3,4) 2(3,4) by simp_all
  ultimately show ?case using 2(2) by blast
qed simp

lemma store_run:
  assumes "linux_inv t" and "content_addressed slot_of (linux_endpoint_records t) rs"
  shows "\<exists>streams t'. store agent_id rs stamp t =
      (Inr (foldl count_verdict no_tally (zip rs (verdicts agent_id stamp (linux_endpoint_records t) rs)), streams), t') \<and>
    linux_inv t' \<and> linux_endpoint_records t' = foldl (admit agent_id stamp) (linux_endpoint_records t) rs \<and>
    (\<forall>rep\<in>set streams. report_exact agent_id (linux_endpoint_records t') rep)"
proof -
  define y where "y = foldl count_verdict no_tally (zip rs (verdicts agent_id stamp (linux_endpoint_records t) rs))"
  obtain t1 where 1: "store_loop agent_id stamp rs no_tally t = (Inr y, t1)" "linux_inv t1"
      "linux_endpoint_records t1 = foldl (admit agent_id stamp) (linux_endpoint_records t) rs"
    using store_loop_run [OF assms(1)] unfolding y_def by blast
  have "\<forall>p\<in>set (ty_touched y). stream_seqs (agent_id, fst p) (linux_endpoint_records t1) \<noteq> []"
    using touched_streams [OF assms(2), of no_tally agent_id stamp] 1(3) by (simp add: y_def no_tally_def)
  then obtain reps t2 where 2: "mapM (\<lambda>((s, b), h). advance_stream (agent_id, s, b) h stamp) (ty_touched y) t1 = (Inr reps, t2)" "linux_inv t2"
      "linux_endpoint_records t2 = linux_endpoint_records t1" "\<forall>rep\<in>set reps. report_exact agent_id (linux_endpoint_records t1) rep"
    using advance_streams_exact [OF 1(2)] by blast
  have "store agent_id rs stamp t = (Inr (y, reps), t2)"
    unfolding store_def bindM_Inr [where m = "store_loop _ _ _ _", OF 1(1)] bindM_Inr [where m = "mapM _ _", OF 2(1)] by simp
  then show ?thesis using 1 2 unfolding y_def by auto
qed

text \<open>
  Every line of a Linux batch is answered. Storing never raises; it counts each record exactly once as accepted,
  duplicate or conflict; existing records are never rewritten and one row is added per accepted record; and each stream
  the batch touched is reported exactly: acknowledged through the end of the run of sequences that starts at the least
  one stored, its highest sequence, and its gaps (all of them below the cap of 16, real gaps always).
\<close>

lemma linux_batch_is_accounted_for:
  assumes "linux_inv t" and "content_addressed slot_of (linux_endpoint_records t) records"
  shows "\<exists>y streams new t'. store agent_id records stamp t = (Inr (y, streams), t') \<and> linux_inv t' \<and>
    ty_accepted y + ty_duplicates y + length (ty_conflicts y) = length records \<and>
    linux_endpoint_records t' = linux_endpoint_records t @ new \<and> length new = ty_accepted y \<and> (\<forall>x\<in>set new. lr_agent_id x = agent_id) \<and>
    (\<forall>rep\<in>set streams. report_exact agent_id (linux_endpoint_records t') rep)"
proof -
  let ?rows = "linux_endpoint_records t"
  define y where "y = foldl count_verdict no_tally (zip records (verdicts agent_id stamp ?rows records))"
  obtain streams t' where run: "store agent_id records stamp t = (Inr (y, streams), t')" "linux_inv t'"
      "linux_endpoint_records t' = foldl (admit agent_id stamp) ?rows records"
      "\<forall>rep\<in>set streams. report_exact agent_id (linux_endpoint_records t') rep"
    using store_run [OF assms] unfolding y_def by blast
  obtain new where new: "foldl (admit agent_id stamp) ?rows records = ?rows @ new" "\<forall>x\<in>set new. lr_agent_id x = agent_id"
    using admit_prefix by blast
  have "length new = ty_accepted y"
    using accepted_rows [of agent_id stamp ?rows records no_tally] new(1) by (simp add: y_def no_tally_def)
  moreover have "ty_accepted y + ty_duplicates y + length (ty_conflicts y) = length records"
    using tally_total [of records "verdicts agent_id stamp ?rows records" no_tally] by (simp add: y_def no_tally_def)
  ultimately show ?thesis using run new by metis
qed

section \<open>Retransmission\<close>

text \<open>A verdict other than fresh is final: rows are only added, and a digest names one slot.\<close>

definition settle :: "verdict \<Rightarrow> verdict" where
  "settle v = (if v = Fresh then Same else v)"

lemma find_append_row:
  "List.find P (xs @ ys) = (case List.find P xs of Some x \<Rightarrow> Some x | None \<Rightarrow> List.find P ys)"
  by (induction xs) auto

lemma verdict_Clash_extend:
  assumes clash: "verdict_of agent_id rows r = Clash" and addr: "content_addressed slot_of (rows @ new) [r]"
    and slots: "distinct (map (\<lambda>r. (stream_of r, lr_seq r)) (rows @ new))"
  shows "verdict_of agent_id (rows @ new) r = Clash"
proof (cases "List.find (\<lambda>x. lr_agent_id x = agent_id \<and> lr_record_id x = sr_record_id r) rows")
  case (Some x)
  then show ?thesis using clash by (auto simp: verdict_of_def find_append_row)
next
  case None
  then have "sr_seq r \<in> set (stream_seqs (agent_id, sr_sensor_id r, sr_boot_id r) rows)"
    using clash by (auto simp: verdict_of_def split: if_splits)
  then obtain x where x: "x \<in> set rows" "stream_of x = (agent_id, sr_sensor_id r, sr_boot_id r)" "lr_seq x = sr_seq r"
    by (auto simp: stream_seqs_def)
  have "lr_digest z \<noteq> sr_digest r" if z: "z \<in> set new" "lr_agent_id z = agent_id" for z
  proof
    assume "lr_digest z = sr_digest r"
    moreover have "slot_of (lr_digest z) = (lr_sensor_id z, lr_boot_id z, lr_seq z)"
        "slot_of (sr_digest r) = (sr_sensor_id r, sr_boot_id r, sr_seq r)" using addr z by (auto simp: content_addressed_def)
    ultimately have "(stream_of z, lr_seq z) = (stream_of x, lr_seq x)" using x z by (simp add: stream_of_def)
    then show False using slots x(1) z(1) by (metis (no_types, lifting) disjoint_iff distinct_append image_eqI list.set_map map_append)
  qed
  then show ?thesis using None \<open>sr_seq r \<in> _\<close> find_SomeD
    by (fastforce simp: verdict_of_def find_append_row stream_seqs_append split: option.splits)
qed

lemma verdict_Same_extend: "verdict_of agent_id rows r = Same \<Longrightarrow> verdict_of agent_id (rows @ new) r = Same"
  by (auto simp: verdict_of_def find_append_row split: option.splits if_splits)

lemma verdict_after_admit:
  assumes "content_addressed slot_of (admit agent_id stamp rows r @ new) [r]"
    and "distinct (map (\<lambda>r. (stream_of r, lr_seq r)) (admit agent_id stamp rows r @ new))"
  shows "verdict_of agent_id (admit agent_id stamp rows r @ new) r = settle (verdict_of agent_id rows r)"
proof (cases "verdict_of agent_id rows r")
  case Fresh
  have "verdict_of agent_id (rows @ [record_row_of agent_id r stamp]) r = Same"
    using fresh_rowD(1) [OF Fresh] by (simp add: verdict_of_def find_append_row find_row_None [THEN iffD2])
  then show ?thesis using Fresh by (simp add: admit_def settle_def verdict_Same_extend del: append_assoc)
next
  case Same
  then show ?thesis by (simp add: admit_def settle_def verdict_Same_extend)
next
  case Clash
  then show ?thesis using assms verdict_Clash_extend [OF Clash, of slot_of new] by (simp add: admit_def settle_def)
qed

lemma content_addressed_final:
  "content_addressed slot_of rows rs \<Longrightarrow> content_addressed slot_of (foldl (admit agent_id stamp) rows rs) rs"
proof (induction rs arbitrary: rows)
  case (Cons r rs)
  have "content_addressed slot_of (foldl (admit agent_id stamp) (admit agent_id stamp rows r) rs) rs"
    by (rule Cons.IH [OF content_addressed_admit [OF Cons.prems]])
  then show ?case using Cons.prems by (auto simp: content_addressed_def)
qed simp

lemma verdicts_settle:
  assumes "content_addressed slot_of rows rs" and "distinct (map (\<lambda>r. (stream_of r, lr_seq r)) (foldl (admit agent_id stamp) rows rs))"
  shows "map (verdict_of agent_id (foldl (admit agent_id stamp) rows rs)) rs = map settle (verdicts agent_id stamp rows rs)"
  using assms
proof (induction rs arbitrary: rows)
  case (Cons r rs)
  let ?rows = "admit agent_id stamp rows r"
  obtain new where new: "foldl (admit agent_id stamp) ?rows rs = ?rows @ new" using admit_prefix by blast
  have "content_addressed slot_of (?rows @ new) [r]"
    using content_addressed_final [OF Cons.prems(1), of agent_id stamp] new by (simp add: content_addressed_def)
  then have "verdict_of agent_id (?rows @ new) r = settle (verdict_of agent_id rows r)"
    using Cons.prems(2) new by (intro verdict_after_admit) auto
  moreover have "distinct (map (\<lambda>r. (stream_of r, lr_seq r)) (foldl (admit agent_id stamp) ?rows rs))" using Cons.prems(2) by simp
  note Cons.IH [OF content_addressed_admit [OF Cons.prems(1)] this]
  ultimately show ?case by (simp add: new)
qed simp

lemma nothing_fresh:
  assumes "Fresh \<notin> set (map (verdict_of agent_id rows) rs)"
  shows "verdicts agent_id stamp rows rs = map (verdict_of agent_id rows) rs \<and> foldl (admit agent_id stamp) rows rs = rows"
  using assms
proof (induction rs)
  case (Cons r rs)
  have "admit agent_id stamp rows r = rows" using Cons.prems by (auto simp: admit_def)
  then show ?case using Cons by simp
qed simp

lemma settled_tally:
  assumes "length rs = length vs" and "ty_conflicts z = ty_conflicts y"
  shows "ty_accepted (foldl count_verdict z (zip rs (map settle vs))) = ty_accepted z \<and>
    ty_conflicts (foldl count_verdict z (zip rs (map settle vs))) = ty_conflicts (foldl count_verdict y (zip rs vs)) \<and>
    ty_duplicates (foldl count_verdict z (zip rs (map settle vs))) + ty_accepted y + ty_duplicates y =
      ty_duplicates z + ty_accepted (foldl count_verdict y (zip rs vs)) + ty_duplicates (foldl count_verdict y (zip rs vs))"
  using assms
proof (induction rs vs arbitrary: y z rule: list_induct2)
  case (Cons r rs v vs)
  let ?y = "count_verdict y (r, v)" and ?z = "count_verdict z (r, settle v)"
  have "ty_conflicts ?z = ty_conflicts ?y" using Cons.prems by (cases v) (simp_all add: count_verdict_def settle_def)
  note IH = Cons.IH [OF this]
  have "ty_accepted ?z = ty_accepted z" "ty_duplicates ?z + ty_accepted y + ty_duplicates y = ty_duplicates z + ty_accepted ?y + ty_duplicates ?y"
    by (cases v; simp add: count_verdict_def settle_def)+
  then show ?case using IH by simp
qed simp

text \<open>
  A sensor that retransmits a batch gets its acknowledgement and changes nothing: what was accepted or duplicate is
  now duplicate, what conflicted conflicts again, and no record is added or rewritten.
\<close>

lemma retransmission_changes_no_record:
  assumes "linux_inv t" and "content_addressed slot_of (linux_endpoint_records t) records"
    and "store agent_id records stamp t = (Inr (y, streams), t')"
  shows "\<exists>z streams' t''. store agent_id records stamp' t' = (Inr (z, streams'), t'') \<and>
    linux_endpoint_records t'' = linux_endpoint_records t' \<and> ty_accepted z = 0 \<and>
    ty_duplicates z = ty_accepted y + ty_duplicates y \<and> ty_conflicts z = ty_conflicts y"
proof -
  let ?rows = "linux_endpoint_records t" and ?rows' = "linux_endpoint_records t'"
  have y: "y = foldl count_verdict no_tally (zip records (verdicts agent_id stamp ?rows records))"
    and inv: "linux_inv t'" and rows: "?rows' = foldl (admit agent_id stamp) ?rows records"
    using store_run [OF assms(1,2), of agent_id stamp] assms(3) by auto
  have addr: "content_addressed slot_of ?rows' records" unfolding rows by (rule content_addressed_final [OF assms(2)])
  have vs: "map (verdict_of agent_id ?rows') records = map settle (verdicts agent_id stamp ?rows records)"
    unfolding rows using inv by (intro verdicts_settle [OF assms(2)]) (simp add: linux_inv_def rows [symmetric])
  have "Fresh \<notin> set (map settle vs)" for vs by (auto simp: settle_def)
  then have again: "verdicts agent_id stamp' ?rows' records = map settle (verdicts agent_id stamp ?rows records)"
      "foldl (admit agent_id stamp') ?rows' records = ?rows'"
    using nothing_fresh [of agent_id ?rows' records stamp'] vs by auto
  obtain streams' t'' where run: "store agent_id records stamp' t' =
      (Inr (foldl count_verdict no_tally (zip records (map settle (verdicts agent_id stamp ?rows records))), streams'), t'')"
      "linux_endpoint_records t'' = ?rows'"
    using store_run [OF inv addr, of agent_id stamp'] unfolding again by blast
  show ?thesis using run settled_tally [of records "verdicts agent_id stamp ?rows records" no_tally no_tally]
    by (auto simp: y no_tally_def)
qed

definition demo_stored :: "int \<Rightarrow> string \<Rightarrow> stored_record" where
  "demo_stored n d = \<lparr>sr_record_id = d, sr_sensor_id = ''s'', sr_boot_id = ''b'', sr_seq = n, sr_host_id = ''h'', sr_record_type = ''event'',
     sr_type = ''process.exec'', sr_event_time = ''2026-01-01T00:00:00Z'', sr_digest = d, sr_raw = ''{}'', sr_health = None, sr_line = n\<rparr>"

definition demo_slot :: "string \<Rightarrow> string \<times> string \<times> int" where
  "demo_slot d = (''s'', ''b'', if d = ''x'' then 1 else 3)"

lemma demo_linux:
  "linux_inv empty_telemetry"
  "content_addressed demo_slot (linux_endpoint_records empty_telemetry) [demo_stored 1 ''x'', demo_stored 3 ''y'']"
  by (simp_all add: linux_inv_def empty_telemetry_def content_addressed_def demo_slot_def demo_stored_def)

lemma linux_batch_is_accounted_for_witness:
  "linux_inv empty_telemetry \<and> content_addressed demo_slot (linux_endpoint_records empty_telemetry) [demo_stored 1 ''x'', demo_stored 3 ''y''] \<and>
   (\<exists>y streams t'. store ''a'' [demo_stored 1 ''x'', demo_stored 3 ''y''] ''now'' empty_telemetry = (Inr (y, streams), t') \<and>
     ty_accepted y + ty_duplicates y + length (ty_conflicts y) = 2 \<and> length (linux_endpoint_records t') = ty_accepted y)"
proof -
  obtain y streams new t' where *: "store ''a'' [demo_stored 1 ''x'', demo_stored 3 ''y''] ''now'' empty_telemetry = (Inr (y, streams), t')"
      "ty_accepted y + ty_duplicates y + length (ty_conflicts y) = length [demo_stored 1 ''x'', demo_stored 3 ''y'']"
      "linux_endpoint_records t' = linux_endpoint_records empty_telemetry @ new" "length new = ty_accepted y"
    using linux_batch_is_accounted_for [OF demo_linux, of "''a''" "''now''"] by blast
  moreover have "length (linux_endpoint_records t') = ty_accepted y" using *(3,4) by (simp add: empty_telemetry_def)
  ultimately show ?thesis using demo_linux by auto
qed

lemma retransmission_changes_no_record_witness:
  "\<exists>y streams t' z streams' t''. store ''a'' [demo_stored 1 ''x'', demo_stored 3 ''y''] ''now'' empty_telemetry = (Inr (y, streams), t') \<and>
     store ''a'' [demo_stored 1 ''x'', demo_stored 3 ''y''] ''later'' t' = (Inr (z, streams'), t'') \<and>
     ty_accepted y = 2 \<and> ty_accepted z = 0 \<and> ty_duplicates z = 2 \<and> linux_endpoint_records t'' = linux_endpoint_records t'"
proof -
  let ?y = "foldl count_verdict no_tally (zip [demo_stored 1 ''x'', demo_stored 3 ''y'']
    (verdicts ''a'' ''now'' (linux_endpoint_records empty_telemetry) [demo_stored 1 ''x'', demo_stored 3 ''y'']))"
  have y: "ty_accepted ?y = 2" "ty_duplicates ?y = 0"
    by (simp_all add: no_tally_def empty_telemetry_def verdict_of_def admit_def count_verdict_def stream_seqs_def demo_stored_def)
  obtain streams t' where run: "store ''a'' [demo_stored 1 ''x'', demo_stored 3 ''y''] ''now'' empty_telemetry = (Inr (?y, streams), t')"
    using store_run [OF demo_linux, of "''a''" "''now''"] by blast
  show ?thesis using retransmission_changes_no_record [OF demo_linux run, of "''later''"] run y by fastforce
qed
end
