(* ===== verification/LinuxIngest.thy ===== *)
theory LinuxIngest
  imports Worker LinuxStore
begin

text \<open>
  \<^verbatim>\<open>manager/routers/linux_endpoint.py\<close> and \<^verbatim>\<open>manager/wire/linux_endpoint.py\<close>: the authenticated ingest of Linux
  records. Each line of a batch is checked by itself; the valid ones go to the store in one transaction. The \<open>detail\<close>
  of a line that is no JSON is the decoder's message, which is not modelled (\<open>None\<close>).
\<close>

section \<open>Reading a record\<close>

text \<open>
  \<open>iter_errors\<close> is the jsonschema validator on the wire schema: the path and the message of each violation. \<open>whole\<close> is
  the integer that the text of a floating number denotes, if it denotes one: JSON Schema counts \<open>1.0\<close> as an integer.
\<close>

record wire =
  iter_errors :: "json \<Rightarrow> (string list \<times> string) list"
  whole :: "string \<Rightarrow> int option"

fun join_slashes :: "string list \<Rightarrow> string" where
  "join_slashes [] = []"
| "join_slashes [t] = t"
| "join_slashes (t # u # ts) = t @ ''/'' @ join_slashes (u # ts)"

definition first_error :: "wire \<Rightarrow> json \<Rightarrow> string option" where
  "first_error W raw =
    (case sort_key (\<lambda>x. length (fst x)) (iter_errors W raw) of
       [] \<Rightarrow> None
     | (path, message) # _ \<Rightarrow>
        Some ((if join_slashes path = [] then ''(record)'' else join_slashes path) @ '': '' @ concat (take 300 (py_chars message))))"

definition bindE :: "exn + 'a \<Rightarrow> ('a \<Rightarrow> exn + 'b) \<Rightarrow> exn + 'b" where
  "bindE m f = (case m of Inl x \<Rightarrow> Inl x | Inr a \<Rightarrow> f a)"

lemma bindE_Inr_iff: "bindE m f = Inr b \<longleftrightarrow> (\<exists>a. m = Inr a \<and> f a = Inr b)"
  by (auto simp: bindE_def split: sum.splits)

text \<open>\<open>raw[k1][k2]...\<close>, and the same where a text is needed.\<close>

fun at :: "string list \<Rightarrow> json \<Rightarrow> exn + json" where
  "at [] v = Inr v"
| "at (k # ks) v =
    (case v of
       JObj d \<Rightarrow> (case map_of d k of None \<Rightarrow> Inl (KeyError k) | Some u \<Rightarrow> at ks u)
     | _ \<Rightarrow> Inl (TypeError ''indices must be integers''))"

definition text_at :: "string list \<Rightarrow> json \<Rightarrow> exn + string" where
  "text_at ks v = bindE (at ks v) (\<lambda>u. case jstr u of None \<Rightarrow> Inl (TypeError ''str'') | Some t \<Rightarrow> Inr t)"

definition shown_at :: "string list \<Rightarrow> json \<Rightarrow> exn + string" where
  "shown_at ks v = bindE (at ks v) (\<lambda>u. case str_of u of None \<Rightarrow> Inl (TypeError ''str'') | Some t \<Rightarrow> Inr t)"

definition seq_value :: "wire \<Rightarrow> json \<Rightarrow> int option" where
  "seq_value W v = (case v of JInt n \<Rightarrow> Some n | JBool b \<Rightarrow> Some (if b then 1 else 0) | JFloat t \<Rightarrow> whole W t | _ \<Rightarrow> None)"

definition seq_at :: "wire \<Rightarrow> json \<Rightarrow> exn + int" where
  "seq_at W raw = bindE (at [''seq''] raw) (\<lambda>v. case seq_value W v of None \<Rightarrow> Inl (TypeError ''int'') | Some n \<Rightarrow> Inr n)"

definition expected_id :: "env \<Rightarrow> json \<Rightarrow> exn + string" where
  "expected_id e raw =
    bindE (shown_at [''sensor'', ''id''] raw) (\<lambda>sensor.
    bindE (shown_at [''host'', ''boot_id''] raw) (\<lambda>boot.
    bindE (shown_at [''seq''] raw) (\<lambda>seq.
    Inr (take 32 (sha256 e (sensor @ ''|'' @ boot @ ''|'' @ seq))))))"

text \<open>\<open>StoredRecord(raw, digest, line, number)\<close>\<close>

definition health_of :: "json \<Rightarrow> string \<Rightarrow> json option" where
  "health_of raw record_type =
    (case raw of
       JObj d \<Rightarrow> if record_type = ''health'' \<and> jget ''health'' d \<noteq> JNull then Some (jget ''health'' d) else None
     | _ \<Rightarrow> None)"

definition make_stored :: "wire \<Rightarrow> json \<Rightarrow> string \<Rightarrow> string \<Rightarrow> int \<Rightarrow> exn + stored_record" where
  "make_stored W raw dig line number =
    bindE (text_at [''id''] raw) (\<lambda>record_id.
    bindE (text_at [''sensor'', ''id''] raw) (\<lambda>sensor_id.
    bindE (text_at [''host'', ''boot_id''] raw) (\<lambda>boot_id.
    bindE (seq_at W raw) (\<lambda>seq.
    bindE (text_at [''host'', ''id''] raw) (\<lambda>host_id.
    bindE (text_at [''record_type''] raw) (\<lambda>record_type.
    bindE (text_at [''type''] raw) (\<lambda>type.
    bindE (text_at [''time''] raw) (\<lambda>event_time.
    Inr \<lparr>sr_record_id = record_id, sr_sensor_id = sensor_id, sr_boot_id = boot_id, sr_seq = seq, sr_host_id = host_id,
         sr_record_type = record_type, sr_type = type, sr_event_time = event_time, sr_digest = dig, sr_raw = line,
         sr_health = health_of raw record_type, sr_line = number\<rparr>))))))))"

section \<open>Checking the lines\<close>

record rejection =
  rj_line :: int
  rj_record_id :: json
  rj_reason :: string
  rj_detail :: "string option"

datatype line_check = Rejected rejection | Valid stored_record

definition MAX_BATCH_RECORDS :: nat where
  "MAX_BATCH_RECORDS = 1000"

definition MAX_BATCH_BYTES :: nat where
  "MAX_BATCH_BYTES = 8 * 1024 * 1024"

definition MAX_RECORD_BYTES :: nat where
  "MAX_RECORD_BYTES = 1024 * 1024"

definition PROTOCOL :: string where
  "PROTOCOL = ''linux-endpoint/1.0''"

definition reject_line :: "int \<Rightarrow> json \<Rightarrow> string \<Rightarrow> string option \<Rightarrow> exn + line_check" where
  "reject_line number record_id reason detail =
    Inr (Rejected \<lparr>rj_line = number, rj_record_id = record_id, rj_reason = reason, rj_detail = detail\<rparr>)"

definition foreign_host :: exn where
  "foreign_host = HTTPException 403 ''record host disagrees with the authenticated enrollment''"

definition check_record :: "env \<Rightarrow> wire \<Rightarrow> string \<Rightarrow> int \<Rightarrow> string \<Rightarrow> json \<Rightarrow> exn + line_check" where
  "check_record e W host_id number line raw =
    (let record_id = (case raw of JObj d \<Rightarrow> jget ''id'' d | _ \<Rightarrow> JNull) in
     if first_error W raw \<noteq> None then reject_line number record_id ''schema_invalid'' (first_error W raw)
     else
       bindE (seq_at W raw) (\<lambda>seq.
       if 0x7FFFFFFFFFFFFFFF < seq then reject_line number record_id ''sequence_out_of_range''
         (Some ''Manager storage supports sequences through signed 64-bit maximum'')
       else
         bindE (at [''id''] raw) (\<lambda>claimed.
         bindE (expected_id e raw) (\<lambda>expected.
         if claimed \<noteq> JStr expected then reject_line number record_id ''id_mismatch''
           (Some ''id is not derived from sensor, boot and seq'')
         else
           bindE (at [''host'', ''id''] raw) (\<lambda>host.
           if host \<noteq> JStr host_id then Inl foreign_host
           else bindE (make_stored W raw (sha256 e line) line number) (\<lambda>r. Inr (Valid r)))))))"

definition check_line :: "env \<Rightarrow> wire \<Rightarrow> string \<Rightarrow> int \<Rightarrow> string \<Rightarrow> exn + line_check" where
  "check_line e W host_id number line =
    (if MAX_RECORD_BYTES < length line then reject_line number JNull ''json_invalid'' None
     else (case strict_json line of
             None \<Rightarrow> reject_line number JNull ''json_invalid'' None
           | Some raw \<Rightarrow> check_record e W host_id number line raw))"

fun check_lines :: "env \<Rightarrow> wire \<Rightarrow> string \<Rightarrow> int \<Rightarrow> string list \<Rightarrow> exn + line_check list" where
  "check_lines e W host_id number [] = Inr []"
| "check_lines e W host_id number (line # lines) =
    bindE (check_line e W host_id number line) (\<lambda>c.
    bindE (check_lines e W host_id (number + 1) lines) (\<lambda>cs. Inr (c # cs)))"

definition valid_of :: "line_check list \<Rightarrow> stored_record list" where
  "valid_of cs = concat (map (\<lambda>c. case c of Valid r \<Rightarrow> [r] | _ \<Rightarrow> []) cs)"

definition rejected_of :: "line_check list \<Rightarrow> rejection list" where
  "rejected_of cs = concat (map (\<lambda>c. case c of Rejected x \<Rightarrow> [x] | _ \<Rightarrow> []) cs)"

section \<open>The handler\<close>

fun split_at :: "char \<Rightarrow> string \<Rightarrow> string list" where
  "split_at c [] = [[]]"
| "split_at c (x # xs) =
    (if x = c then [] # split_at c xs
     else (case split_at c xs of [] \<Rightarrow> [[x]] | t # ts \<Rightarrow> (x # t) # ts))"

definition batch_lines :: "string \<Rightarrow> string list" where
  "batch_lines body = filter (\<lambda>line. strip line \<noteq> []) (split_at CHR 0x0A body)"

record answer =
  an_batch_id :: string
  an_received :: nat
  an_accepted :: nat
  an_duplicates :: nat
  an_rejected :: "rejection list"
  an_streams :: "stream_report list"
  an_server_time :: string

definition conflict_rejection :: "int \<times> string \<Rightarrow> rejection" where
  "conflict_rejection c = \<lparr>rj_line = fst c, rj_record_id = JStr (snd c), rj_reason = ''id_conflict'',
     rj_detail = Some ''a different record already holds this id or sequence slot''\<rparr>"

definition check_request :: "string \<Rightarrow> string \<Rightarrow> string \<Rightarrow> string \<Rightarrow> ('s, string list) act" where
  "check_request batch_id protocol content_type body =
    seqM (raise_if (protocol \<noteq> PROTOCOL) (HTTPException 422 ''protocol linux-endpoint/1.0 required''))
    (seqM (raise_if (takeWhile (\<lambda>c. c \<noteq> CHR '';'') content_type \<noteq> ''application/x-ndjson'')
            (HTTPException 422 ''Content-Type must be application/x-ndjson''))
    (seqM (raise_if (batch_id = [] \<or> 128 < py_len batch_id) (HTTPException 422 ''invalid batch identifier''))
    (seqM (raise_if (MAX_BATCH_BYTES < length body) (HTTPException 413 ''batch exceeds 8388608 bytes''))
    (seqM (raise_if (\<not> valid_utf8 body) (HTTPException 422 ''batch is not UTF-8''))
    (seqM (raise_if (batch_lines body = [] \<or> MAX_BATCH_RECORDS < length (batch_lines body))
            (HTTPException 413 ''batch must contain 1 to 1000 records''))
    (ret (batch_lines body)))))))"

definition store_batch :: "env \<Rightarrow> string \<Rightarrow> string \<Rightarrow> stored_record list \<Rightarrow> (('f, 'g) world, tally \<times> stream_report list) act" where
  "store_batch e agent_id host_id valid = world_transaction (
    bindM (gets (\<lambda>w. active_agent (core w) agent_id)) (\<lambda>current.
    seqM (raise_if (map_option ea_host_id current \<noteq> Some host_id) (HTTPException 403 ''enrollment changed while validating batch''))
    (on_telem (store agent_id valid (iso_now e)))))"

definition records ::
  "env \<Rightarrow> wire \<Rightarrow> string \<Rightarrow> string \<Rightarrow> string \<Rightarrow> string \<Rightarrow> string \<Rightarrow> string option \<Rightarrow> (('f, 'g) world, answer) act" where
  "records e W agent_id batch_id protocol content_type body authorization =
    seqM (on_core (require_agent_token e agent_id authorization))
    (bindM (check_request batch_id protocol content_type body) (\<lambda>lines.
     bindM (gets (\<lambda>w. active_agent (core w) agent_id)) (\<lambda>found.
     bindM (require_some found (HTTPException 401 ''enrolled agent unavailable'')) (\<lambda>enrolled.
     bindM (from_sum (check_lines e W (ea_host_id enrolled) 1 lines)) (\<lambda>cs.
     bindM (store_batch e agent_id (ea_host_id enrolled) (valid_of cs)) (\<lambda>result.
     ret \<lparr>an_batch_id = batch_id, an_received = length lines, an_accepted = ty_accepted (fst result),
          an_duplicates = ty_duplicates (fst result),
          an_rejected = rejected_of cs @ map conflict_rejection (ty_conflicts (fst result)),
          an_streams = snd result, an_server_time = iso_now e\<rparr>))))))"

definition host_health :: "env \<Rightarrow> string \<Rightarrow> string \<Rightarrow> string option \<Rightarrow> (('f, 'g) world, linux_health_row) act" where
  "host_health e host_id agent_id authorization =
    seqM (on_core (require_agent_token e agent_id authorization))
    (bindM (gets (\<lambda>w. active_agent (core w) agent_id)) (\<lambda>enrolled.
     seqM (raise_if (map_option ea_host_id enrolled \<noteq> Some host_id) (HTTPException 403 ''an agent may read only its own host''))
     (bindM (gets (\<lambda>w. find_by lh_host_id host_id (linux_endpoint_health (telem w)))) (\<lambda>row.
      require_some row (HTTPException 404 ''no health record received'')))))"

section \<open>What a valid line stores\<close>

text \<open>The slot that the text of a record names.\<close>

definition slot_in :: "wire \<Rightarrow> string \<Rightarrow> (string \<times> string \<times> int) option" where
  "slot_in W line =
    (case strict_json line of
       None \<Rightarrow> None
     | Some raw \<Rightarrow>
        (case (text_at [''sensor'', ''id''] raw, text_at [''host'', ''boot_id''] raw, seq_at W raw) of
           (Inr s, Inr b, Inr n) \<Rightarrow> Some (s, b, n) | _ \<Rightarrow> None))"

definition faithful_record :: "env \<Rightarrow> wire \<Rightarrow> string \<Rightarrow> stored_record \<Rightarrow> bool" where
  "faithful_record e W host_id r \<longleftrightarrow> sr_digest r = sha256 e (sr_raw r) \<and> sr_host_id r = host_id \<and>
     slot_in W (sr_raw r) = Some (sr_sensor_id r, sr_boot_id r, sr_seq r) \<and> sr_seq r \<le> 0x7FFFFFFFFFFFFFFF \<and>
     (\<exists>raw. strict_json (sr_raw r) = Some raw \<and> first_error W raw = None \<and> expected_id e raw = Inr (sr_record_id r))"

lemma text_at_JStr: "at ks raw = Inr (JStr t) \<Longrightarrow> text_at ks raw = Inr t"
  by (simp add: text_at_def bindE_def)

lemma check_record_Valid:
  assumes "check_record e W host_id number line raw = Inr (Valid r)"
  shows "\<exists>seq x. first_error W raw = None \<and> seq_at W raw = Inr seq \<and> seq \<le> 0x7FFFFFFFFFFFFFFF \<and> at [''id''] raw = Inr (JStr x) \<and>
    expected_id e raw = Inr x \<and> at [''host'', ''id''] raw = Inr (JStr host_id) \<and> make_stored W raw (sha256 e line) line number = Inr r"
  using assms unfolding check_record_def
  by (auto simp: Let_def reject_line_def bindE_Inr_iff not_less simp del: at.simps split: if_splits)

lemma make_stored_Inr:
  "make_stored W raw dig line number = Inr r \<Longrightarrow>
    text_at [''id''] raw = Inr (sr_record_id r) \<and> text_at [''sensor'', ''id''] raw = Inr (sr_sensor_id r) \<and>
    text_at [''host'', ''boot_id''] raw = Inr (sr_boot_id r) \<and> seq_at W raw = Inr (sr_seq r) \<and>
    text_at [''host'', ''id''] raw = Inr (sr_host_id r) \<and> sr_digest r = dig \<and> sr_raw r = line \<and> sr_line r = number"
  unfolding make_stored_def by (auto simp: bindE_Inr_iff simp del: at.simps)

lemma check_line_Valid:
  assumes "check_line e W host_id number line = Inr (Valid r)"
  shows "faithful_record e W host_id r \<and> sr_line r = number \<and> sr_raw r = line"
proof -
  obtain raw where raw: "strict_json line = Some raw" "check_record e W host_id number line raw = Inr (Valid r)"
    using assms by (auto simp: check_line_def reject_line_def split: if_splits option.splits)
  obtain seq x where c: "first_error W raw = None" "seq_at W raw = Inr seq" "seq \<le> 0x7FFFFFFFFFFFFFFF" "at [''id''] raw = Inr (JStr x)"
      "expected_id e raw = Inr x" "at [''host'', ''id''] raw = Inr (JStr host_id)" "make_stored W raw (sha256 e line) line number = Inr r"
    using check_record_Valid [OF raw(2)] by blast
  note m = make_stored_Inr [OF c(7)]
  have "sr_record_id r = x" "sr_host_id r = host_id" "sr_seq r = seq"
    using m text_at_JStr [OF c(4)] text_at_JStr [OF c(6)] c(2) by simp_all
  moreover have "slot_in W line = Some (sr_sensor_id r, sr_boot_id r, sr_seq r)" using raw(1) m by (simp add: slot_in_def)
  ultimately show ?thesis using m c raw(1) by (simp add: faithful_record_def)
qed

lemma check_line_Rejected: "check_line e W host_id number line = Inr (Rejected x) \<Longrightarrow> rj_line x = number"
  unfolding check_line_def check_record_def
  by (auto simp: Let_def reject_line_def bindE_Inr_iff simp del: at.simps split: if_splits option.splits)

text \<open>The line a check is about.\<close>

definition line_of :: "line_check \<Rightarrow> int" where
  "line_of c = (case c of Rejected x \<Rightarrow> rj_line x | Valid r \<Rightarrow> sr_line r)"

lemma check_line_of: "check_line e W host_id number line = Inr c \<Longrightarrow> line_of c = number"
  using check_line_Valid check_line_Rejected by (cases c) (fastforce simp: line_of_def)+

lemma check_lines_Inr:
  assumes "check_lines e W host_id number lines = Inr cs"
  shows "map line_of cs = map (\<lambda>i. number + int i) [0..<length lines] \<and>
    (\<forall>r\<in>set (valid_of cs). faithful_record e W host_id r \<and> sr_raw r \<in> set lines)"
  using assms
proof (induction lines arbitrary: number cs)
  case (Cons line lines)
  obtain c cs' where c: "check_line e W host_id number line = Inr c" "check_lines e W host_id (number + 1) lines = Inr cs'" "cs = c # cs'"
    using Cons.prems by (auto simp: bindE_Inr_iff)
  have "map line_of cs' = map (\<lambda>i. number + 1 + int i) [0..<length lines]" using Cons.IH [OF c(2)] by blast
  also have "\<dots> = map (\<lambda>i. number + int i) (map Suc [0..<length lines])" by simp
  finally have "map line_of cs = map (\<lambda>i. number + int i) [0..<length (line # lines)]"
    using check_line_of [OF c(1)] c(3) by (simp add: upt_conv_Cons map_Suc_upt del: upt_Suc)
  moreover have "faithful_record e W host_id r \<and> sr_raw r = line" if "c = Valid r" for r
    using check_line_Valid c(1) that by blast
  ultimately show ?case using Cons.IH [OF c(2)] c(3) by (auto simp: valid_of_def split: line_check.splits)
qed (simp add: valid_of_def)

lemma lines_split:
  "length (valid_of cs) + length (rejected_of cs) = length cs"
  "mset (map sr_line (valid_of cs)) + mset (map rj_line (rejected_of cs)) = mset (map line_of cs)"
  by (induction cs) (auto simp: valid_of_def rejected_of_def line_of_def split: line_check.splits)

lemma conflict_lines:
  assumes "length rs = length vs"
  shows "\<exists>ps. ty_conflicts (foldl count_verdict y (zip rs vs)) = ty_conflicts y @ ps \<and> mset (map fst ps) \<subseteq># mset (map sr_line rs)"
  using assms
proof (induction rs vs arbitrary: y rule: list_induct2)
  case (Cons r rs v vs)
  obtain ps where ps: "ty_conflicts (foldl count_verdict (count_verdict y (r, v)) (zip rs vs)) = ty_conflicts (count_verdict y (r, v)) @ ps"
      "mset (map fst ps) \<subseteq># mset (map sr_line rs)" using Cons.IH by blast
  show ?case
  proof (cases "v = Clash")
    case True
    then have "ty_conflicts (count_verdict y (r, v)) = ty_conflicts y @ [(sr_line r, sr_record_id r)]" by (simp add: count_verdict_def)
    then show ?thesis using ps by (intro exI [of _ "(sr_line r, sr_record_id r) # ps"]) simp
  next
    case False
    then have "ty_conflicts (count_verdict y (r, v)) = ty_conflicts y" by (cases v) (simp_all add: count_verdict_def)
    then show ?thesis using ps by (intro exI [of _ ps]) (auto intro: subset_mset.order_trans)
  qed
qed simp

lemma admit_rows:
  "\<exists>new. foldl (admit agent_id stamp) rows rs = rows @ new \<and> (\<forall>x\<in>set new. \<exists>r\<in>set rs. x = record_row_of agent_id r stamp)"
proof (induction rs arbitrary: rows)
  case (Cons r rs)
  obtain new where new: "foldl (admit agent_id stamp) (admit agent_id stamp rows r) rs = admit agent_id stamp rows r @ new"
      "\<forall>x\<in>set new. \<exists>r\<in>set rs. x = record_row_of agent_id r stamp" using Cons.IH by blast
  have "admit agent_id stamp rows r = rows @ (if verdict_of agent_id rows r = Fresh then [record_row_of agent_id r stamp] else [])"
    by (simp add: admit_def)
  then show ?case using new
    by (intro exI [of _ "(if verdict_of agent_id rows r = Fresh then [record_row_of agent_id r stamp] else []) @ new"]) auto
qed simp

section \<open>A batch is answered line by line\<close>

text \<open>A stored row holds the digest of its text, and the slot its text names.\<close>

definition digested :: "env \<Rightarrow> wire \<Rightarrow> telemetry \<Rightarrow> bool" where
  "digested e W t \<longleftrightarrow> (\<forall>x\<in>set (linux_endpoint_records t). lr_digest x = sha256 e (lr_raw_json x) \<and>
     slot_in W (lr_raw_json x) = Some (lr_sensor_id x, lr_boot_id x, lr_seq x))"

lemma digested_content_addressed:
  assumes "digested e W t" and "\<forall>r\<in>set rs. faithful_record e W host_id r \<and> sr_raw r \<in> S"
    and "inj_on (sha256 e) (S \<union> lr_raw_json ` set (linux_endpoint_records t))"
  shows "\<exists>slot_of. content_addressed slot_of (linux_endpoint_records t) rs"
proof -
  let ?S = "S \<union> lr_raw_json ` set (linux_endpoint_records t)"
  define slot_of where "slot_of = (\<lambda>d. the (slot_in W (inv_into ?S (sha256 e) d)))"
  have "slot_of (sha256 e line) = the (slot_in W line)" if "line \<in> ?S" for line
    using inv_into_f_f [OF assms(3) that] by (simp add: slot_of_def)
  then show ?thesis using assms(1,2)
    by (intro exI [of _ slot_of]) (auto simp: content_addressed_def digested_def faithful_record_def)
qed

lemma store_batch_run:
  assumes "linux_inv (telem w)" and "content_addressed slot_of (linux_endpoint_records (telem w)) rs"
    and "store_batch e agent_id host_id rs w = (Inr (y, streams), w')"
  shows "core w' = core w \<and> linux_inv (telem w') \<and>
    y = foldl count_verdict no_tally (zip rs (verdicts agent_id (iso_now e) (linux_endpoint_records (telem w)) rs)) \<and>
    linux_endpoint_records (telem w') = foldl (admit agent_id (iso_now e)) (linux_endpoint_records (telem w)) rs \<and>
    (\<forall>rep\<in>set streams. report_exact agent_id (linux_endpoint_records (telem w')) rep)"
proof -
  obtain t where "store agent_id rs (iso_now e) (telem w) = (Inr (y, streams), t)" "w' = w\<lparr>telem := t\<rparr>"
    using assms(3) by (auto simp: store_batch_def bindM_raise_if on_telem_Inr_iff split: if_splits)
  then show ?thesis using store_run [OF assms(1,2), of agent_id "iso_now e"] by auto
qed

lemma store_batch_fails: "store_batch e agent_id host_id rs w = (Inl x, w') \<Longrightarrow> core w' = core w \<and> telem w' = telem w"
  by (auto simp: store_batch_def world_transaction_def split: prod.splits sum.splits)

lemma require_agent_token_same: "require_agent_token e agent_id authorization d = (r, d') \<Longrightarrow> d' = d"
  using stays_run [OF checks_change_nothing(1)] .

lemma records_fails_clean: "fails_clean (records e W agent_id batch_id protocol content_type body authorization)"
proof -
  have t: "stays database_same (on_core (require_agent_token e agent_id authorization))"
    by (rule staysI) (auto simp: on_core_def database_same_def split: prod.splits dest: require_agent_token_same)
  have c: "stays database_same (check_request batch_id protocol content_type body)"
    unfolding check_request_def by (intro reading.stays_structural)
  show ?thesis unfolding records_def store_batch_def
    by (intro fails_clean_bindM t c reading.stays_structural reading.stays_from_sum fails_clean_result fails_clean_transaction)
qed

lemma records_Inr:
  assumes "records e W agent_id batch_id protocol content_type body authorization w = (Inr a, w')"
  shows "\<exists>g cs y streams. active_agent (core w) agent_id = Some g \<and> check_lines e W (ea_host_id g) 1 (batch_lines body) = Inr cs \<and>
    store_batch e agent_id (ea_host_id g) (valid_of cs) w = (Inr (y, streams), w') \<and> length (batch_lines body) \<le> MAX_BATCH_RECORDS \<and>
    a = \<lparr>an_batch_id = batch_id, an_received = length (batch_lines body), an_accepted = ty_accepted y, an_duplicates = ty_duplicates y,
         an_rejected = rejected_of cs @ map conflict_rejection (ty_conflicts y), an_streams = streams, an_server_time = iso_now e\<rparr>"
proof -
  obtain u w0 where t: "on_core (require_agent_token e agent_id authorization) w = (Inr u, w0)"
    using assms unfolding records_def bindM_Inr_iff by blast
  have "w0 = w" using t require_agent_token_same by (auto simp: on_core_Inr_iff)
  note r = assms [unfolded records_def bindM_Inr [where m = "on_core _", OF t [unfolded this]]]
  obtain lines w1 where c: "check_request batch_id protocol content_type body w = (Inr lines, w1)"
    using r unfolding bindM_Inr_iff by blast
  then have l: "lines = batch_lines body" "w1 = w" "length (batch_lines body) \<le> MAX_BATCH_RECORDS"
    by (auto simp: check_request_def bindM_raise_if split: if_splits)
  note r = r [unfolded bindM_Inr [where m = "check_request _ _ _ _", OF c [unfolded l(1,2)]]]
  then obtain g where g: "active_agent (core w) agent_id = Some g" by (cases "active_agent (core w) agent_id") auto
  from r g obtain cs where cs: "check_lines e W (ea_host_id g) 1 (batch_lines body) = Inr cs"
    by (cases "check_lines e W (ea_host_id g) 1 (batch_lines body)") (auto simp: from_sum_def)
  from r g cs obtain y streams where "store_batch e agent_id (ea_host_id g) (valid_of cs) w = (Inr (y, streams), w')"
    "a = \<lparr>an_batch_id = batch_id, an_received = length (batch_lines body), an_accepted = ty_accepted y, an_duplicates = ty_duplicates y,
         an_rejected = rejected_of cs @ map conflict_rejection (ty_conflicts y), an_streams = streams, an_server_time = iso_now e\<rparr>"
    by (auto simp: from_sum_def bindM_Inr_iff)
  then show ?thesis using g cs l(3) by blast
qed

lemma distinct_part:
  assumes "mset xs \<subseteq># mset ys" and "distinct ys"
  shows "distinct xs"
proof -
  obtain zs where "mset ys = mset (xs @ zs)" using assms(1) by (metis ex_mset mset_append mset_subset_eq_exists_conv)
  then have "distinct (xs @ zs)" using assms(2) by (metis mset_eq_imp_distinct_iff)
  then show ?thesis by simp
qed

lemma answer_accounts:
  assumes cs: "check_lines e W host_id 1 lines = Inr cs"
    and y: "y = foldl count_verdict no_tally (zip (valid_of cs) (verdicts agent_id stamp rows (valid_of cs)))"
  shows "length lines = ty_accepted y + ty_duplicates y + length (rejected_of cs @ map conflict_rejection (ty_conflicts y)) \<and>
    distinct (map rj_line (rejected_of cs @ map conflict_rejection (ty_conflicts y))) \<and>
    rj_line ` set (rejected_of cs @ map conflict_rejection (ty_conflicts y)) \<subseteq> {1..int (length lines)}"
proof -
  have nums: "map line_of cs = map (\<lambda>i. 1 + int i) [0..<length lines]" using check_lines_Inr [OF cs] by blast
  then have len: "length cs = length lines" by (metis length_map map_nth)
  have total: "ty_accepted y + ty_duplicates y + length (ty_conflicts y) = length (valid_of cs)"
    using tally_total [of "valid_of cs" "verdicts agent_id stamp rows (valid_of cs)" no_tally] by (simp add: y no_tally_def)
  have "mset (map fst (ty_conflicts y)) \<subseteq># mset (map sr_line (valid_of cs))"
    using conflict_lines [of "valid_of cs" "verdicts agent_id stamp rows (valid_of cs)" no_tally] by (simp add: y no_tally_def)
  then have sub: "mset (map rj_line (rejected_of cs @ map conflict_rejection (ty_conflicts y))) \<subseteq># mset (map line_of cs)"
    unfolding lines_split(2) [of cs, symmetric] by (simp add: conflict_rejection_def comp_def add.commute)
  have "distinct (map line_of cs)" unfolding nums by (simp add: distinct_map inj_on_def)
  then have d: "distinct (map rj_line (rejected_of cs @ map conflict_rejection (ty_conflicts y)))"
    by (rule distinct_part [OF sub])
  have "set (map line_of cs) \<subseteq> {1..int (length lines)}" unfolding nums by auto
  moreover have "set (map rj_line (rejected_of cs @ map conflict_rejection (ty_conflicts y))) \<subseteq> set (map line_of cs)"
    using set_mset_mono [OF sub] by (simp only: set_mset_mset)
  ultimately have "rj_line ` set (rejected_of cs @ map conflict_rejection (ty_conflicts y)) \<subseteq> {1..int (length lines)}"
    unfolding set_map by (rule subset_trans [rotated])
  then show ?thesis using d total lines_split(1) [of cs] len by simp
qed

text \<open>
  C10. The Manager answers every line of a Linux batch exactly once, and an agent stores only records of its own host.
  A batch is refused as a whole with the database untouched, or: each line is counted once, as accepted, duplicate or
  under its own number in the rejections; stored records are never rewritten, one row is added per accepted line, under
  the caller's agent and the host of its enrollment, with the identifier derived from sensor, boot and sequence; and the
  streams are reported exactly. It needs that the hash tells the texts at hand apart.
\<close>

theorem linux_lines_are_answered_once:
  assumes "linux_inv (telem w)" and "digested e W (telem w)"
    and "inj_on (sha256 e) (set (batch_lines body) \<union> lr_raw_json ` set (linux_endpoint_records (telem w)))"
  shows "case records e W agent_id batch_id protocol content_type body authorization w of
      (Inl x, w') \<Rightarrow> core w' = core w \<and> telem w' = telem w
    | (Inr a, w') \<Rightarrow> core w' = core w \<and> linux_inv (telem w') \<and> digested e W (telem w') \<and>
        an_received a = length (batch_lines body) \<and> an_received a \<le> MAX_BATCH_RECORDS \<and>
        an_received a = an_accepted a + an_duplicates a + length (an_rejected a) \<and>
        distinct (map rj_line (an_rejected a)) \<and> rj_line ` set (an_rejected a) \<subseteq> {1..int (an_received a)} \<and>
        (\<forall>rep\<in>set (an_streams a). report_exact agent_id (linux_endpoint_records (telem w')) rep) \<and>
        (\<exists>new g. linux_endpoint_records (telem w') = linux_endpoint_records (telem w) @ new \<and> length new = an_accepted a \<and>
          active_agent (core w) agent_id = Some g \<and>
          (\<forall>x\<in>set new. lr_agent_id x = agent_id \<and> lr_host_id x = ea_host_id g \<and>
            (\<exists>raw. strict_json (lr_raw_json x) = Some raw \<and> expected_id e raw = Inr (lr_record_id x))))"
proof (cases "records e W agent_id batch_id protocol content_type body authorization w")
  case (Pair out w')
  show ?thesis
  proof (cases out)
    case (Inl x)
    then show ?thesis using Pair fails_cleanD [OF records_fails_clean, of e W agent_id batch_id protocol content_type body authorization w x w']
      by (simp add: database_same_def)
  next
    case (Inr a)
    let ?rows = "linux_endpoint_records (telem w)" and ?stamp = "iso_now e"
    obtain g cs y streams where run: "active_agent (core w) agent_id = Some g" "check_lines e W (ea_host_id g) 1 (batch_lines body) = Inr cs"
        "store_batch e agent_id (ea_host_id g) (valid_of cs) w = (Inr (y, streams), w')" "length (batch_lines body) \<le> MAX_BATCH_RECORDS"
        "a = \<lparr>an_batch_id = batch_id, an_received = length (batch_lines body), an_accepted = ty_accepted y, an_duplicates = ty_duplicates y,
          an_rejected = rejected_of cs @ map conflict_rejection (ty_conflicts y), an_streams = streams, an_server_time = ?stamp\<rparr>"
      using records_Inr Pair Inr by blast
    have valid: "\<forall>r\<in>set (valid_of cs). faithful_record e W (ea_host_id g) r \<and> sr_raw r \<in> set (batch_lines body)"
      using check_lines_Inr [OF run(2)] by blast
    obtain slot_of where addr: "content_addressed slot_of ?rows (valid_of cs)"
      using digested_content_addressed [OF assms(2) valid assms(3)] by blast
    note st = store_batch_run [OF assms(1) addr run(3)]
    have y: "y = foldl count_verdict no_tally (zip (valid_of cs) (verdicts agent_id ?stamp ?rows (valid_of cs)))" using st by blast
    obtain new where new: "linux_endpoint_records (telem w') = ?rows @ new" "\<forall>x\<in>set new. \<exists>r\<in>set (valid_of cs). x = record_row_of agent_id r ?stamp"
      using st admit_rows by metis
    have "foldl (admit agent_id ?stamp) ?rows (valid_of cs) = ?rows @ new" using st new(1) by simp
    then have len: "length new = ty_accepted y"
      using accepted_rows [of agent_id ?stamp ?rows "valid_of cs" no_tally] unfolding y by (simp add: no_tally_def)
    have dig: "digested e W (telem w')"
      using assms(2) new valid by (fastforce simp: digested_def faithful_record_def record_row_of_def)
    have own: "\<forall>x\<in>set new. lr_agent_id x = agent_id \<and> lr_host_id x = ea_host_id g \<and>
        (\<exists>raw. strict_json (lr_raw_json x) = Some raw \<and> expected_id e raw = Inr (lr_record_id x))"
      using new(2) valid by (fastforce simp: faithful_record_def record_row_of_def)
    have a: "an_received a = length (batch_lines body)" "an_accepted a = ty_accepted y" "an_duplicates a = ty_duplicates y"
        "an_rejected a = rejected_of cs @ map conflict_rejection (ty_conflicts y)" "an_streams a = streams"
      using run(5) by simp_all
    have acc: "an_received a = an_accepted a + an_duplicates a + length (an_rejected a)" "distinct (map rj_line (an_rejected a))"
        "rj_line ` set (an_rejected a) \<subseteq> {1..int (an_received a)}"
      using answer_accounts [OF run(2) y] unfolding a by blast+
    have "core w' = core w" "linux_inv (telem w')" "\<forall>rep\<in>set (an_streams a). report_exact agent_id (linux_endpoint_records (telem w')) rep"
      using st unfolding a by blast+
    then show ?thesis unfolding Pair Inr prod.case sum.case
      using dig acc a(1) run(1,4) new(1) len [folded a(2)] own by auto
  qed
qed

definition demo_wire :: wire where
  "demo_wire = \<lparr>iter_errors = (\<lambda>raw. []), whole = (\<lambda>t. None)\<rparr>"

definition demo_line :: string where
  "demo_line = ''{\"host\":{\"boot_id\":\"b\",\"id\":\"host-1\"},\"id\":\"s|b|1\",\"record_type\":\"event\",\"sensor\":{\"id\":\"s\"},\"seq\":1,\"time\":\"t\",\"type\":\"x\"}''"

lemma demo_line_lines: "batch_lines demo_line = [demo_line]"
  by code_simp

lemma demo_line_json: "strict_json demo_line = Some (JObj [(''host'', JObj [(''boot_id'', JStr ''b''), (''id'', JStr ''host-1'')]), (''id'', JStr ''s|b|1''),
  (''record_type'', JStr ''event''), (''sensor'', JObj [(''id'', JStr ''s'')]), (''seq'', JInt 1), (''time'', JStr ''t''), (''type'', JStr ''x'')])"
  by code_simp

definition demo_ingest_world :: "(unit, unit) world" where
  "demo_ingest_world = \<lparr>core = demo_fleet, telem = empty_telemetry, alerts_file = (), graph = ()\<rparr>"

lemma demo_check: "\<exists>r. check_lines demo_env demo_wire ''host-1'' 1 [demo_line] = Inr [Valid r]"
proof -
  have "length demo_line \<le> MAX_RECORD_BYTES" by (simp add: demo_line_def MAX_RECORD_BYTES_def)
  moreover have "digit (Suc 0) = CHR ''1''" by code_simp
  ultimately show ?thesis
    by (simp add: check_line_def demo_line_json check_record_def demo_wire_def first_error_def bindE_def seq_at_def seq_value_def expected_id_def shown_at_def
        str_of_def make_stored_def text_at_def int_str_def Let_def)
qed

lemma demo_digested: "linux_inv (telem demo_ingest_world)" "digested demo_env demo_wire (telem demo_ingest_world)"
  "inj_on (sha256 demo_env) (set (batch_lines demo_line) \<union> lr_raw_json ` set (linux_endpoint_records (telem demo_ingest_world)))"
  using demo_linux(1) by (simp_all add: demo_ingest_world_def digested_def empty_telemetry_def inj_on_def)

lemma demo_records: "\<exists>a w'. records demo_env demo_wire ''agent-1'' ''b1'' PROTOCOL ''application/x-ndjson'' demo_line (Some ''Bearer tok'') demo_ingest_world = (Inr a, w')"
proof -
  let ?w = demo_ingest_world
  obtain r where r: "check_lines demo_env demo_wire ''host-1'' 1 [demo_line] = Inr [Valid r]" using demo_check by blast
  have g: "active_agent (core ?w) ''agent-1'' = Some (demo_agent ''agent-1'' ''host-1'' ''tok'')"
    by (simp add: demo_ingest_world_def demo_fleet_def active_agent_def demo_agent_def)
  have t: "on_core (require_agent_token demo_env ''agent-1'' (Some ''Bearer tok'')) ?w = (Inr (), ?w)"
    using g by (simp add: on_core_def require_agent_token_def bearer_token_def starts_with_def demo_agent_def digest_def bindM_raise_if py_len_def Let_def)
  have c: "check_request ''b1'' PROTOCOL ''application/x-ndjson'' demo_line ?w = (Inr [demo_line], ?w)"
  proof -
    have "valid_utf8 demo_line" by (simp add: demo_line_def)
    moreover have "length demo_line \<le> MAX_BATCH_BYTES" by (simp add: demo_line_def MAX_BATCH_BYTES_def)
    ultimately show ?thesis by (simp add: check_request_def bindM_raise_if demo_line_lines MAX_BATCH_RECORDS_def py_len_def)
  qed
  have "faithful_record demo_env demo_wire ''host-1'' r \<and> sr_raw r \<in> set [demo_line]"
    using check_lines_Inr [OF r] by (simp add: valid_of_def)
  then obtain slot_of where "content_addressed slot_of (linux_endpoint_records (telem ?w)) [r]"
    using digested_content_addressed [OF demo_digested(2), of "[r]" "''host-1''" "set [demo_line]"] demo_digested(3) by (auto simp: demo_line_lines)
  then obtain y streams t' where st: "store ''agent-1'' [r] (iso_now demo_env) (telem ?w) = (Inr (y, streams), t')"
    using store_run [OF demo_digested(1)] by blast
  then have "store_batch demo_env ''agent-1'' ''host-1'' [r] ?w = (Inr (y, streams), ?w\<lparr>telem := t'\<rparr>)"
    using g by (simp add: store_batch_def world_transaction_def bindM_raise_if on_telem_def demo_agent_def)
  note sb = this
  show ?thesis
    unfolding records_def bindM_Inr [where m = "on_core _", OF t] bindM_Inr [where m = "check_request _ _ _ _", OF c]
    using g r sb by (simp add: demo_agent_def from_sum_def valid_of_def bindM_Inr)
qed

theorem linux_lines_are_answered_once_witness:
  "\<exists>a w'. records demo_env demo_wire ''agent-1'' ''b1'' PROTOCOL ''application/x-ndjson'' demo_line (Some ''Bearer tok'') demo_ingest_world = (Inr a, w') \<and>
     an_received a = 1 \<and> an_accepted a + an_duplicates a + length (an_rejected a) = 1 \<and>
     length (linux_endpoint_records (telem w')) = an_accepted a"
proof -
  obtain a w' where run: "records demo_env demo_wire ''agent-1'' ''b1'' PROTOCOL ''application/x-ndjson'' demo_line (Some ''Bearer tok'') demo_ingest_world = (Inr a, w')"
    using demo_records by blast
  have "linux_endpoint_records (telem demo_ingest_world) = []" by (simp add: demo_ingest_world_def empty_telemetry_def)
  then show ?thesis
    using linux_lines_are_answered_once [OF demo_digested, of "''agent-1''" "''b1''" PROTOCOL "''application/x-ndjson''" "Some ''Bearer tok''"] run
    by (auto simp: demo_line_lines)
qed

end
