(* ===== verification/System.thy ===== *)
theory System
  imports Vault LinuxIngest
begin

text \<open>
  The manager as a whole: the requests it serves and the turns of its detection worker, as steps on one state. A request
  runs as one step: every handler writes in \<open>BEGIN IMMEDIATE\<close> transactions, which SQLite runs one after the other.
\<close>

section \<open>Requests\<close>

datatype request =
    IssueChallenge
  | Enrollment string string string string string string
  | EnrollAnalyst string string string
  | Enqueue command string
  | Poll string "string option" bool bool "string option"
  | Accept string string "string option"
  | SubmitResult string command_result "string option"
  | ExpirePending
  | CreateManual jobj "string option"
  | CreateCampaign jobj "string option"
  | CancelCommand string jobj "string option"
  | Authorize string "string option"
  | Reject string jobj "string option"
  | SavePolicy jobj "string option"
  | SaveAsset jobj "string option"
  | CancelTriageRun string jobj "string option"
  | ViewRuns nat nat "string option"
  | Checkpoint string string
  | UpdateStatus string json "string option"
  | LinuxRecords string string string string string "string option"
  | RotateKey string jobj "string option"
  | ApproveKey string string "string option"
  | RevokeKey string string jobj "string option"
  | RevokeEnrollment string jobj "string option"
  | OpenScope jobj "string option"
  | CloseScope string jobj "string option"
  | AdmitTransfer string string string string "string option"
  | PutChunk string string string int string string string "string option"
  | CompleteTransfer string string string string string "string option"
  | UploadSigned string string string string "string option"
  | UploadUnsigned string string "string option"
  | ReadCustody string int int "string option"
  | ReadContent string "string option"
  | ReadContext string "string option"
  | ReadChunk string int string "string option"
  | AcknowledgeView string jobj "string option"
  | WorkerTurn worker
  | WorkerStart

definition discard :: "('s, 'a) act \<Rightarrow> ('s, unit) act" where
  "discard m = bindM m (\<lambda>_. ret ())"

fun handle :: "env \<Rightarrow> wire \<Rightarrow> ('f, 'g) detection \<Rightarrow> request \<Rightarrow> (('f, 'g) world, unit) act" where
  "handle e W P IssueChallenge = discard (on_core (issue_enrollment_challenge e))"
| "handle e W P (Enrollment agent_id host public_key nonce signature bootstrap) =
    discard (on_core (enrollment e agent_id host public_key nonce signature bootstrap))"
| "handle e W P (EnrollAnalyst analyst_id bootstrap role) = discard (on_core (enroll_analyst e analyst_id bootstrap role))"
| "handle e W P (Enqueue c token) = discard (on_core (enqueue e c token))"
| "handle e W P (Poll agent_id auth durable es256 header) = discard (on_core (poll e agent_id auth durable es256 header))"
| "handle e W P (Accept agent_id command_id auth) = on_core (accept e agent_id command_id auth)"
| "handle e W P (SubmitResult agent_id result auth) = discard (on_core (submit_result e agent_id result auth))"
| "handle e W P ExpirePending = on_core (expire_pending e)"
| "handle e W P (CreateManual body auth) = discard (on_core (create_manual e body auth))"
| "handle e W P (CreateCampaign body auth) = discard (on_core (create_campaign e body auth))"
| "handle e W P (CancelCommand response_id body auth) = on_core (cancel e response_id body auth)"
| "handle e W P (Authorize response_id auth) = discard (on_core (authorize e response_id auth))"
| "handle e W P (Reject response_id body auth) = on_core (reject e response_id body auth)"
| "handle e W P (SavePolicy body auth) = discard (on_core (save_policy e body auth))"
| "handle e W P (SaveAsset body auth) = discard (on_core (save_asset e body auth))"
| "handle e W P (CancelTriageRun alert_id body auth) = on_core (cancel_triage_run e alert_id body auth)"
| "handle e W P (ViewRuns limit offset auth) = discard (on_core (TriageAdmin.runs e auth limit offset))"
| "handle e W P (Checkpoint key actor) = discard (on_core (checkpoint e key actor))"
| "handle e W P (UpdateStatus incident_id body auth) = discard (update_status e incident_id body auth)"
| "handle e W P (LinuxRecords agent_id batch_id protocol content_type body auth) =
    discard (records e W agent_id batch_id protocol content_type body auth)"
| "handle e W P (RotateKey agent_id body auth) = discard (on_core (rotate_key e agent_id body auth))"
| "handle e W P (ApproveKey agent_id request_id auth) = discard (on_core (approve_key e agent_id request_id auth))"
| "handle e W P (RevokeKey agent_id kid body auth) = discard (on_core (revoke_key e agent_id kid body auth))"
| "handle e W P (RevokeEnrollment agent_id body auth) = discard (on_core (revoke_enrollment e agent_id body auth))"
| "handle e W P (OpenScope body auth) = discard (on_core (grant_access e body auth))"
| "handle e W P (CloseScope grant_id body auth) = discard (on_core (revoke_access e grant_id body auth))"
| "handle e W P (AdmitTransfer agent_id command_id content_type data auth) =
    discard (on_core (admit_transfer e agent_id command_id content_type data auth))"
| "handle e W P (PutChunk agent_id command_id artifact_id offset dig content_type data auth) =
    discard (on_core (put_transfer_chunk e agent_id command_id artifact_id offset dig content_type data auth))"
| "handle e W P (CompleteTransfer agent_id command_id artifact_id content_type data auth) =
    discard (on_core (complete_transfer e agent_id command_id artifact_id content_type data auth))"
| "handle e W P (UploadSigned agent_id command_id content_type data auth) =
    discard (on_core (upload_signed e agent_id command_id content_type data auth))"
| "handle e W P (UploadUnsigned agent_id command_id auth) = on_core (upload_unsigned e agent_id command_id auth)"
| "handle e W P (ReadCustody artifact_id after limit auth) = discard (on_core (custody e artifact_id after limit auth))"
| "handle e W P (ReadContent artifact_id auth) = discard (on_core (content e artifact_id auth))"
| "handle e W P (ReadContext artifact_id auth) = discard (on_core (context_of e artifact_id auth))"
| "handle e W P (ReadChunk artifact_id offset manifest_sha256 auth) = discard (on_core (chunks e artifact_id offset manifest_sha256 auth))"
| "handle e W P (AcknowledgeView artifact_id body auth) = discard (on_core (viewed e artifact_id body auth))"
| "handle e W P (WorkerTurn k) = discard (turn e P k)"
| "handle e W P WorkerStart = discard (revert_stale_claims e)"

section \<open>A contract of the core tables is a contract of the manager\<close>

text \<open>
  The interface between a contract of the core tables and the parts of the manager that span both databases: when every
  draw, check, new alert and answer to an alert respects \<open>R\<close>, then so do incidents, detection and ingest.
\<close>

definition along :: "(db \<Rightarrow> db \<Rightarrow> bool) \<Rightarrow> ('f, 'g) world \<Rightarrow> ('f, 'g) world \<Rightarrow> bool" where
  "along R w w' \<longleftrightarrow> R (core w) (core w')"

locale engine = frame R for R :: "db \<Rightarrow> db \<Rightarrow> bool" +
  fixes e :: env
  assumes draws: "stays R (draw g)"
    and agents_checked: "stays R (require_agent_token e agent_id auth)"
    and analysts_checked: "stays R (require_analyst_permission e auth permission)"
    and new_alerts: "stays R (insert_alert e rec source)"
    and answers: "stays R (on_alert_created e rec)"

sublocale engine \<subseteq> world: database_frame "along R"
  by unfold_locales (auto simp: along_def intro: R_refl R_trans)

context engine
begin

lemma along_core: "stays R m \<Longrightarrow> stays (along R) (on_core m)"
  using stays_on_core by (simp add: stays_def along_def)

lemma along_telem: "stays (along R) (on_telem m)"
  by (rule staysI) (simp add: along_def on_telem_def R_refl split: prod.splits)

lemma along_graph: "stays (along R) (modify (\<lambda>w. w\<lparr>graph := g\<rparr>))"
  by (rule staysI) (simp add: along_def R_refl)

lemma along_audit_incident: "stays (along R) (audit_incident e' i ev actor detail)"
  unfolding audit_incident_def by (intro world.stays_structural along_core draws along_telem)

lemma along_upsert: "stays (along R) (upsert_incident e' rec agent_id)"
  unfolding upsert_incident_def fold_incident_def seen_window_def read_incident_def open_incident_def revise_incident_def bind_summary_def
    link_members_def link_stage_def link_def stages_of_def Let_def
  by (intro world.stays_structural world.stays_binds along_telem along_audit_incident stays_splits)

lemma along_emit: "stays (along R) (emit e P a c alert)"
  by (intro world.stays_emit along_core new_alerts along_upsert answers)

lemma along_turn: "acts_through_emit P \<Longrightarrow> stays (along R) (turn e P k)"
  unfolding turn_def run_once_def claim_batch_def process_claimed_def Let_def
  by (intro world.stays_structural world.stays_world_transaction world.stays_process_one along_emit along_telem
      along_graph stays_splits)

lemma along_start: "stays (along R) (revert_stale_claims e)"
  unfolding revert_stale_claims_def by (intro world.stays_world_transaction world.stays_structural along_telem)

lemma along_update_status: "stays (along R) (update_status e i body auth)"
  unfolding update_status_def set_incident_status_def parse_status_def
  by (intro world.stays_structural world.stays_world_transaction along_core analysts_checked along_telem
      along_audit_incident stays_splits)

lemma along_records: "stays (along R) (records e W agent_id batch_id protocol content_type body auth)"
  unfolding records_def check_request_def store_batch_def
  by (intro world.stays_structural world.stays_world_transaction world.stays_from_sum along_core agents_checked along_telem)

lemma along_discard: "stays (along R) m \<Longrightarrow> stays (along R) (discard m)"
  unfolding discard_def by (intro world.stays_structural)

lemmas along_requests = along_discard along_core along_update_status along_records along_start along_turn

end

section \<open>What every step keeps\<close>

interpretation attends: engine "serves e" e
  by (intro engine.intro engine_axioms.intro serves.frame_axioms serves_draw serves_checks serves_insert_alert serves_on_alert_created)

interpretation guarded: engine "guards e" e
proof (intro engine.intro engine_axioms.intro guards.frame_axioms guards_insert_alert guards_foreground_operations)
  show "stays (guards e) (draw g)" for g
    by (rule guards.stays_blind) (simp add: stays_def audit_only_modify draw_def)
  show "stays (guards e) (require_agent_token e agent_id auth)" "stays (guards e) (require_analyst_permission e auth permission)"
    for agent_id auth permission
    by (intro guards_beside keys_kept_checks evidence_same_checks)+
qed

lemmas serves_requests = serves_identities serves_agents serves_submit_result serves_analysts serves_triage_admin serves_checkpoint
  serves_artifact_keys serves_access serves_transfer_requests serves_evidence_requests

text \<open>The contract of the response plane and the contract of keys and evidence, for every request.\<close>

lemma along_handle:
  assumes "acts_through_emit P"
  shows "stays (along (serves e)) (handle e W P q)" and "stays (along (guards e)) (handle e W P q)"
proof -
  show "stays (along (serves e)) (handle e W P q)"
    using assms by (cases q; simp add: attends.along_requests serves_requests)
  show "stays (along (guards e)) (handle e W P q)"
    using assms by (cases q; simp add: guarded.along_requests guards_requests)
qed

section \<open>The telemetry tables\<close>

text \<open>The streams are accounted for, and incidents have one row each with a status that exists.\<close>

definition telem_inv :: "telemetry \<Rightarrow> bool" where
  "telem_inv t \<longleftrightarrow> linux_inv t \<and> distinct (map in_incident_id (incidents t)) \<and> in_status ` set (incidents t) \<subseteq> set INCIDENT_STATUSES"

definition filed :: "('f, 'g) world \<Rightarrow> ('f, 'g) world \<Rightarrow> bool" where
  "filed w w' \<longleftrightarrow> (telem_inv (telem w) \<longrightarrow> telem_inv (telem w'))"

interpretation filed: database_frame "filed :: ('f, 'g) world \<Rightarrow> ('f, 'g) world \<Rightarrow> bool"
  by unfold_locales (auto simp: filed_def)

lemma filed_core: "stays filed (on_core m)"
  by (rule staysI) (simp add: filed_def on_core_def split: prod.splits)

lemma filed_graph: "stays filed (modify (\<lambda>w. w\<lparr>graph := g\<rparr>))"
  by (rule staysI) (simp add: filed_def)

lemma filed_modify: "(\<And>t. telem_inv t \<Longrightarrow> telem_inv (f t)) \<Longrightarrow> stays filed (on_telem (modify f))"
  by (rule staysI) (simp add: filed_def on_telem_def)

lemma telem_inv_beside:
  assumes "linux_endpoint_records (f t) = linux_endpoint_records t" and "linux_endpoint_detection (f t) = linux_endpoint_detection t"
    and "linux_endpoint_streams (f t) = linux_endpoint_streams t" and "incidents (f t) = incidents t" and "telem_inv t"
  shows "telem_inv (f t)"
  using assms by (simp add: telem_inv_def linux_inv_def)

lemma telem_inv_marks:
  assumes "telem_inv t" and "\<And>r. ld_agent_id (h r) = ld_agent_id r" and "\<And>r. ld_record_id (h r) = ld_record_id r"
  shows "telem_inv (on_item q a i f g h t)"
  using assms by (cases q) (auto simp: on_item_def telem_inv_def linux_inv_def set_update_where)

lemma telem_inv_mark:
  "telem_inv t \<Longrightarrow> telem_inv (mark_claimed stamp row t)" "telem_inv t \<Longrightarrow> telem_inv (mark_done row t)"
  "telem_inv t \<Longrightarrow> telem_inv (mark_failed row t)"
  by (simp_all add: mark_claimed_def mark_done_def mark_failed_def telem_inv_marks)

lemma telem_inv_claims: "telem_inv t \<Longrightarrow> telem_inv (foldl (\<lambda>t row. mark_claimed stamp row t) t rows)"
  by (induction rows arbitrary: t) (simp_all add: telem_inv_mark)

lemma telem_inv_revert: "telem_inv t \<Longrightarrow> telem_inv (revert_stale cutoff t)"
  by (auto simp: revert_stale_def telem_inv_def linux_inv_def set_update_where)

lemma telem_inv_update_incidents:
  assumes "telem_inv t" and "\<And>r. in_incident_id (f r) = in_incident_id r"
    and "\<And>r. in_status r \<in> set INCIDENT_STATUSES \<Longrightarrow> in_status (f r) \<in> set INCIDENT_STATUSES"
  shows "telem_inv (t\<lparr>incidents := update_where Q f (incidents t)\<rparr>)"
  using assms by (auto simp: telem_inv_def linux_inv_def set_update_where map_key_update_where)

lemma filed_audit_incident: "stays filed (audit_incident e i ev actor detail)"
  unfolding audit_incident_def
  by (intro filed.stays_structural filed_core filed_modify) (auto intro: telem_inv_beside)

lemma filed_links: "stays filed (link_members i a ev)"
  unfolding link_members_def link_stage_def link_def stages_of_def
  by (intro filed.stays_structural filed.stays_binds filed_modify stays_splits) (auto intro: telem_inv_beside)

lemma reading_bind_summary: "stays database_same (bind_summary rec rd)"
  unfolding bind_summary_def Let_def by (intro reading.stays_structural reading.stays_binds stays_splits)

lemma database_same_filed: "database_same w w' \<Longrightarrow> filed w w'"
  by (simp add: database_same_def filed_def)

lemma filed_open_incident:
  "stays_on (\<lambda>w. find_by in_incident_id i (incidents (telem w)) = None) filed (open_incident e rec i agent_id rd seen)"
  unfolding open_incident_def
proof (rule filed.stays_on_bindM [where B = database_same, OF reading_bind_summary])
  fix s
  let ?new = "new_incident e i agent_id s (fst seen) (snd seen)"
  have "stays_on (\<lambda>w. find_by in_incident_id i (incidents (telem w)) = None) filed
      (on_telem (modify (\<lambda>t. t\<lparr>incidents := incidents t @ [?new]\<rparr>)))"
    by (rule stays_onI)
      (auto simp: filed_def on_telem_def telem_inv_def linux_inv_def new_incident_def INCIDENT_STATUSES_def find_by_None_iff)
  then show "stays_on (\<lambda>w. find_by in_incident_id i (incidents (telem w)) = None) filed
      (seqM (on_telem (modify (\<lambda>t. t\<lparr>incidents := incidents t @ [?new]\<rparr>)))
        (seqM (link_members i (rd_alert_id rd) (rd_evidence rd))
          (seqM (audit_incident e i ''opened'' SYSTEM_ACTOR
            [(''revision'', JInt (rd_revision rd)), (''alert_id'', JStr (rd_alert_id rd)), (''tactics'', JArr (rd_tactics rd))])
            (ret ''opened''))))"
    by (rule filed.stays_on_seqM) (intro filed.stays_structural filed_links filed_audit_incident)
qed (auto simp: database_same_def filed_def)

lemma filed_bind_summary: "stays filed (bind_summary rec rd)"
  using reading_bind_summary database_same_filed by (fastforce simp: stays_def)

lemma filed_revise_incident: "stays filed (revise_incident e rec i agent_id rd seen r)"
  unfolding revise_incident_def
  by (intro filed.stays_structural filed_links filed_audit_incident filed_bind_summary filed_modify stays_if
      telem_inv_update_incidents) (auto simp: revised_incident_def)

lemma filed_fold_incident: "stays filed (fold_incident e rec agent_id)"
proof -
  have "stays_on (\<lambda>w. telem w = t) filed (case find_by in_incident_id i (incidents t) of
      None \<Rightarrow> open_incident e rec i agent_id rd seen | Some r \<Rightarrow> revise_incident e rec i agent_id rd seen r)" for t i rd seen
  proof (cases "find_by in_incident_id i (incidents t)")
    case None
    then show ?thesis using filed_open_incident [of i e rec agent_id rd seen] by (auto simp: stays_on_def)
  next
    case (Some r)
    then show ?thesis by (simp add: stays_stays_on filed_revise_incident)
  qed
  then show ?thesis unfolding fold_incident_def seen_window_def read_incident_def stages_of_def Let_def
    by (intro stays_gets_on filed.stays_structural filed.stays_binds stays_splits)
qed

lemma filed_upsert: "stays filed (upsert_incident e rec agent_id)"
  unfolding upsert_incident_def by (intro filed.stays_structural filed_fold_incident stays_if)

lemma filed_emit: "stays filed (emit e P a c alert)"
  by (intro filed.stays_emit filed_core filed_upsert)

lemma filed_turn: "acts_through_emit P \<Longrightarrow> stays filed (turn e P k)"
  unfolding turn_def run_once_def claim_batch_def process_claimed_def Let_def
  by (intro filed.stays_structural filed.stays_world_transaction filed.stays_process_one filed_emit filed_modify filed_graph
      telem_inv_mark telem_inv_claims stays_splits)

lemma filed_set_incident_status: "stays filed (set_incident_status e i status actor note)"
proof (cases "status \<in> set INCIDENT_STATUSES")
  case True
  then show ?thesis unfolding set_incident_status_def
    by (intro filed.stays_structural filed_audit_incident filed_modify stays_splits telem_inv_update_incidents; simp)
next
  case False
  then show ?thesis by (simp add: set_incident_status_def stays_def bindM_raise_if filed.R_refl)
qed

lemma filed_update_status: "stays filed (update_status e i body auth)"
  unfolding update_status_def parse_status_def
  by (intro filed.stays_structural filed.stays_world_transaction filed_core filed_set_incident_status stays_splits)

lemma mapM_advance_inv:
  "linux_inv t \<Longrightarrow> mapM (\<lambda>((s, b), h). advance_stream (agent_id, s, b) h stamp) ps t = (Inr reps, t') \<Longrightarrow> linux_inv t'"
proof (induction ps arbitrary: t reps)
  case (Cons p ps)
  obtain s b h where p: "p = ((s, b), h)" by (metis prod.exhaust)
  obtain rep t1 reps' where run: "advance_stream (agent_id, s, b) h stamp t = (Inr rep, t1)"
      "mapM (\<lambda>((s, b), h). advance_stream (agent_id, s, b) h stamp) ps t1 = (Inr reps', t')"
    using Cons.prems(2) unfolding mapM.simps p prod.case bindM_Inr_iff by auto
  have "stream_seqs (agent_id, s, b) (linux_endpoint_records t) \<noteq> []"
    using run(1) by (auto simp: advance_stream_def bindM_raise_if split: if_splits)
  then have "linux_inv t1" using linux_inv_advance [OF Cons.prems(1), of "(agent_id, s, b)" h stamp] run(1) by auto
  then show ?case using Cons.IH run(2) by blast
qed simp

interpretation incidents_same: frame "\<lambda>t t'. incidents t' = incidents (t :: telemetry)"
  by unfold_locales auto

lemma incidents_same_modify:
  "(\<And>t. incidents (f t) = incidents t) \<Longrightarrow> stays (\<lambda>t t'. incidents t' = incidents t) (modify f)"
  by (simp add: stays_def)

lemma incidents_same_insert_record: "stays (\<lambda>t t'. incidents t' = incidents t) (insert_record agent_id r stamp)"
  unfolding insert_record_def insert_linux_record_def queue_detection_def
  by (intro incidents_same.stays_structural incidents_same_modify stays_splits; simp add: keep_health_def)

lemma incidents_same_store_loop: "stays (\<lambda>t t'. incidents t' = incidents t) (store_loop agent_id stamp rs y)"
proof (induction rs arbitrary: y)
  case (Cons r rs)
  have "stays (\<lambda>t t'. incidents t' = incidents t) (store_one agent_id stamp r y)" for y
    unfolding store_one_def by (intro incidents_same.stays_structural incidents_same_insert_record stays_splits)
  then show ?case unfolding store_loop.simps using Cons.IH by (intro incidents_same.stays_structural)
qed (simp add: incidents_same.stays_ret)

lemma incidents_same_advance: "stays (\<lambda>t t'. incidents t' = incidents t) (advance_stream k h stamp)"
  unfolding advance_stream_def Let_def
  by (intro incidents_same.stays_structural incidents_same_modify stays_splits; simp)

lemma incidents_same_store: "stays (\<lambda>t t'. incidents t' = incidents t) (store agent_id rs stamp)"
  unfolding store_def
  by (intro incidents_same.stays_structural incidents_same_store_loop) (simp add: incidents_same_advance split: prod.split)

text \<open>Whatever the hash does, a batch that is stored keeps the accounting; one that raises is rolled back.\<close>

lemma store_keeps_inv:
  assumes "linux_inv t" and "store agent_id rs stamp t = (Inr r, t')"
  shows "linux_inv t' \<and> incidents t' = incidents t"
proof -
  obtain y t1 reps where run: "store_loop agent_id stamp rs no_tally t = (Inr y, t1)"
      "mapM (\<lambda>((s, b), h). advance_stream (agent_id, s, b) h stamp) (ty_touched y) t1 = (Inr reps, t')"
    using assms(2) unfolding store_def bindM_Inr_iff by auto
  have "linux_inv t1" using store_loop_run [OF assms(1), of agent_id stamp rs no_tally] run(1) by auto
  then have "linux_inv t'" using mapM_advance_inv run(2) by blast
  moreover have "incidents t' = incidents t" by (rule stays_run [OF incidents_same_store assms(2)])
  ultimately show ?thesis by blast
qed

lemma filed_store_batch: "stays filed (store_batch e agent_id host rs)"
proof (rule staysI)
  fix w :: "('f, 'g) world"
  obtain r w' where run: "store_batch e agent_id host rs w = (r, w')" by fastforce
  show "filed w (snd (store_batch e agent_id host rs w))"
  proof (cases r)
    case (Inl x)
    then show ?thesis using run store_batch_fails [of e agent_id host rs w x w'] by (simp add: filed_def)
  next
    case (Inr out)
    then obtain t where "store agent_id rs (iso_now e) (telem w) = (Inr out, t)" "w' = w\<lparr>telem := t\<rparr>"
      using run by (auto simp: store_batch_def bindM_raise_if on_telem_Inr_iff split: if_splits)
    then show ?thesis using run store_keeps_inv [of "telem w" agent_id rs "iso_now e" out t] by (auto simp: filed_def telem_inv_def)
  qed
qed

lemma filed_records: "stays filed (records e W agent_id batch_id protocol content_type body auth)"
  unfolding records_def check_request_def
  by (intro filed.stays_structural filed_store_batch filed.stays_from_sum filed_core)

lemma filed_discard: "stays filed m \<Longrightarrow> stays filed (discard m)"
  unfolding discard_def by (intro filed.stays_structural)

lemma filed_handle:
  assumes "acts_through_emit P"
  shows "stays filed (handle e W P q)"
proof (cases q)
  case (WorkerTurn k)
  then show ?thesis using assms by (simp add: filed_discard filed_turn)
next
  case WorkerStart
  then show ?thesis unfolding handle.simps revert_stale_claims_def WorkerStart
    by (intro filed_discard filed.stays_world_transaction filed.stays_structural filed_modify telem_inv_revert)
qed (simp_all add: filed_discard filed_core filed_update_status filed_records)

section \<open>Reachable states\<close>

text \<open>
  The manager serves requests in any order; time, randomness and configuration may differ at every step, the hash is one,
  and the environment does what is relied on: in \<open>runs\<close>, the command model keeps the identifiers it is given. It is first started on the empty schema, with some ledger identity.
\<close>

inductive runs_under ::
    "(env \<Rightarrow> bool) \<Rightarrow> (string \<Rightarrow> string) \<Rightarrow> ('f, 'g) detection \<Rightarrow> ('f, 'g) world \<Rightarrow> ('f, 'g) world \<Rightarrow> bool" for A h P w where
  start: "runs_under A h P w w"
| request: "runs_under A h P w v \<Longrightarrow> sha256 e = h \<Longrightarrow> A e \<Longrightarrow> handle e W P q v = (r, v') \<Longrightarrow> runs_under A h P w v'"

abbreviation runs :: "(string \<Rightarrow> string) \<Rightarrow> ('f, 'g) detection \<Rightarrow> ('f, 'g) world \<Rightarrow> ('f, 'g) world \<Rightarrow> bool" where
  "runs \<equiv> runs_under keeps_command_ids"

definition initial :: "('f, 'g) world \<Rightarrow> bool" where
  "initial w \<longleftrightarrow> (\<exists>l. core w = empty_db\<lparr>ledger_id := l\<rparr>) \<and> telem w = empty_telemetry"

definition reachable :: "(string \<Rightarrow> string) \<Rightarrow> ('f, 'g) detection \<Rightarrow> ('f, 'g) world \<Rightarrow> bool" where
  "reachable h P v \<longleftrightarrow> (\<exists>w. initial w \<and> runs h P w v)"

text \<open>A relation that every step respects relates the ends of a run.\<close>

lemma runs_keep:
  assumes "runs_under A h P w v" and "\<And>s. R s s" and "\<And>s t u. R s t \<Longrightarrow> R t u \<Longrightarrow> R s u"
    and "\<And>e W q. sha256 e = h \<Longrightarrow> A e \<Longrightarrow> stays R (handle e W P q)"
  shows "R w v"
  using assms(1)
proof induction
  case (request v e W q r v')
  then show ?case using stays_run [OF assms(4)] assms(3) by blast
qed (rule assms(2))

definition core_inv :: "(string \<Rightarrow> string) \<Rightarrow> db \<Rightarrow> bool" where
  "core_inv h d \<longleftrightarrow> audit_inv h d \<and> linked d \<and> lawful_states d \<and> outcome_inv d \<and> agents_unique d \<and> alerts_keyed d"

lemma core_inv_initial: "core_inv h (empty_db\<lparr>ledger_id := l\<rparr>)"
proof -
  have "audit_inv h (empty_db\<lparr>ledger_id := l\<rparr>)"
    using audit_inv_empty [of h] audit_inv_at_cong [of "empty_db\<lparr>ledger_id := l\<rparr>" empty_db] by (simp add: audit_inv_def)
  then show ?thesis
    by (simp add: core_inv_def linked_def commands_keyed_def responses_keyed_def lawful_states_def outcome_inv_def agents_unique_def
        active_hosts_def alerts_keyed_def)
qed

lemma telem_inv_initial: "telem_inv empty_telemetry"
  using demo_linux(1) by (simp add: telem_inv_def empty_telemetry_def)

lemma core_inv_serves: "serves e d d' \<Longrightarrow> keeps_command_ids e \<Longrightarrow> core_inv (sha256 e) d \<Longrightarrow> core_inv (sha256 e) d'"
  by (simp add: core_inv_def serves_def audit_grows_def audit_inv_def work_def lawful_def outcomes_def identified_def)

lemma runs_inv:
  assumes "acts_through_emit P" and "runs h P w v" and "core_inv h (core w)" and "telem_inv (telem w)"
  shows "core_inv h (core v) \<and> telem_inv (telem v)"
proof -
  have "stays (\<lambda>w w'. core_inv h (core w) \<longrightarrow> core_inv h (core w')) (handle e W P q)" if "sha256 e = h" "keeps_command_ids e" for e W q
    using along_handle(1) [OF assms(1), of e W q] that core_inv_serves [of e] by (fastforce simp: stays_def along_def)
  then have "core_inv h (core w) \<longrightarrow> core_inv h (core v)"
    using runs_keep [OF assms(2), of "\<lambda>w w'. core_inv h (core w) \<longrightarrow> core_inv h (core w')"] by blast
  moreover have "filed w v"
    by (rule runs_keep [OF assms(2)], rule filed.R_refl, rule filed.R_trans, assumption+, rule filed_handle [OF assms(1)])
  ultimately show ?thesis using assms(3,4) by (simp add: filed_def)
qed

lemma reachable_inv:
  assumes "acts_through_emit P" and "reachable h P w"
  shows "core_inv h (core w) \<and> telem_inv (telem w)"
  using assms(2) runs_inv [OF assms(1)] core_inv_initial telem_inv_initial unfolding reachable_def initial_def by metis

text \<open>
  C2. Whatever requests the manager served, in whatever order, its history verifies: \<open>verify\<close> accepts the ledger of
  every reachable state, and reports its length and its head.
\<close>

theorem every_history_verifies:
  assumes "acts_through_emit P" and "reachable h P w"
  shows "\<exists>s. verify h False (core w) = Inr s \<and> sm_sequence s = int (length (response_audit_ledger (core w))) \<and>
    sm_head_hash s = head_hash (response_audit_ledger (core w))"
  using reachable_inv [OF assms] verify_inv [of h "core w" False] by (simp add: core_inv_def)

text \<open>
  C3. No response is ever authorized without its command. If this holds where the manager starts (on an empty schema it
  does), then after any run an authorized response carries the command \<open>resp-<id>\<close>, that command is in the queue for
  the alert of the response, and it is addressed to the agent the alert came from.
\<close>

theorem authorized_means_queued:
  assumes "acts_through_emit P" and "linked (core w)" and "runs h P w v"
    and "x \<in> set (response_actions (core v))" and "ra_lifecycle_state x = AUTHORIZED"
  shows "ra_command_id x = Some (''resp-'' @ ra_response_id x) \<and>
    (\<exists>c a. find_by cm_command_id (''resp-'' @ ra_response_id x) (commands (core v)) = Some c \<and> cm_alert_id c = Some (ra_alert_id x) \<and>
       find_by al_alert_id (ra_alert_id x) (alerts (core v)) = Some a \<and> al_agent_id a = Some (cm_agent_id c))"
proof -
  have "stays (\<lambda>w w'. linked (core w) \<longrightarrow> linked (core w')) (handle e W P q)" if "keeps_command_ids e" for e W q
    using along_handle(1) [OF assms(1), of e W q] that by (auto simp: stays_def along_def serves_def work_def)
  then have "linked (core w) \<longrightarrow> linked (core v)"
    using runs_keep [OF assms(3), of "\<lambda>w w'. linked (core w) \<longrightarrow> linked (core w')"] by blast
  then show ?thesis using assms(2,4,5) by (simp add: linked_def linked_row_def)
qed

text \<open>
  C11. The tables keep their types and keys. In every reachable state command, response, alert, agent and incident
  identifiers name one row each and no two live agents share a host; a command is never pending, a response only ever
  pending, authorized, rejected or expired, an incident only in a known status; a command has at most one result, from
  its own agent and in the state it reported; and every acknowledged Linux sequence is stored.
\<close>

theorem tables_keep_their_types:
  assumes "acts_through_emit P" and "reachable h P w"
  shows "distinct (map cm_command_id (commands (core w))) \<and> distinct (map ra_response_id (response_actions (core w))) \<and>
    distinct (map al_alert_id (alerts (core w))) \<and> distinct (map in_incident_id (incidents (telem w))) \<and> agents_unique (core w) \<and>
    (\<forall>c\<in>set (commands (core w)). cm_lifecycle_state c \<noteq> PENDING) \<and>
    (\<forall>x\<in>set (response_actions (core w)). ra_lifecycle_state x \<in> {PENDING, AUTHORIZED, REJECTED, EXPIRED}) \<and>
    (\<forall>x\<in>set (incidents (telem w)). in_status x \<in> set INCIDENT_STATUSES) \<and>
    outcome_inv (core w) \<and> linux_inv (telem w)"
  using reachable_inv [OF assms]
  by (auto simp: core_inv_def linked_def commands_keyed_def responses_keyed_def alerts_keyed_def lawful_states_def verdict_state_def telem_inv_def)

section \<open>A run\<close>

definition demo_start :: "(unit, unit) world" where
  "demo_start = \<lparr>core = empty_db, telem = empty_telemetry, alerts_file = (), graph = ()\<rparr>"

definition demo_run :: "(unit, unit) world" where
  "demo_run = snd (handle demo_env demo_wire demo_detection IssueChallenge demo_start)"

lemma keeps_ids_demo: "keeps_command_ids demo_env"
  by (simp add: keeps_command_ids_def)

lemma demo_runs: "runs (\<lambda>t. t) demo_detection w (snd (handle demo_env demo_wire demo_detection q w))"
  by (rule runs_under.request [OF runs_under.start, where e = demo_env and W = demo_wire and q = q and r = "fst (handle demo_env demo_wire demo_detection q w)"])
    (simp_all add: sha256_demo_env keeps_ids_demo)

lemma demo_reachable: "reachable (\<lambda>t. t) demo_detection demo_run"
proof -
  have "initial demo_start" by (auto simp: initial_def demo_start_def intro!: exI [of _ "[]"])
  then show ?thesis using demo_runs unfolding reachable_def demo_run_def by blast
qed

theorem every_history_verifies_witness:
  "\<exists>s. verify (\<lambda>t. t) False (core demo_run) = Inr s \<and> sm_sequence s = int (length (response_audit_ledger (core demo_run)))"
  using every_history_verifies [OF demo_engine demo_reachable] by blast

theorem tables_keep_their_types_witness:
  "agents_unique (core demo_run) \<and> linux_inv (telem demo_run) \<and> distinct (map al_alert_id (alerts (core demo_run)))"
  using tables_keep_their_types [OF demo_engine demo_reachable] by blast

definition demo_response :: response_row where
  "demo_response = (staged_row demo_env ''r1'' ''ALT-1'' ''KILL_PROCESS'' ''ANALYST_APPROVAL'' AUTHORIZED [] None)\<lparr>ra_command_id := Some ''resp-r1''\<rparr>"

definition demo_answered :: "(unit, unit) world" where
  "demo_answered = demo_start\<lparr>core := empty_db\<lparr>
     alerts := [\<lparr>al_alert_id = ''ALT-1'', al_rule_id = ''R1'', al_level = None, al_severity = None, al_host_id = None,
       al_agent_id = Some ''agent-1'', al_event_id = None, al_alert_timestamp = None, al_created_at = ''t'', al_mitre_tactic = None,
       al_mitre_technique = None, al_alert_json = JObj [], al_detection_source = None, al_incident_id = None\<rparr>],
     commands := [\<lparr>cm_command_id = ''resp-r1'', cm_agent_id = ''agent-1'', cm_command_json = [], cm_created_at = ''t'',
       cm_expires_at = ''t'', cm_delivered_at = None, cm_alert_id = Some ''ALT-1'', cm_lifecycle_state = SUCCEEDED\<rparr>],
     response_actions := [demo_response]\<rparr>\<rparr>"

definition demo_kept :: "(unit, unit) world" where
  "demo_kept = snd (handle demo_env demo_wire demo_detection IssueChallenge demo_answered)"

lemma core_discard: "core (snd (discard (on_core m) w)) = snd (m (core w))"
  by (simp add: discard_def bindM_def on_core_def split: prod.splits sum.splits)

lemma demo_answered_linked: "linked (core demo_answered)"
  by (simp add: demo_answered_def demo_response_def staged_row_def linked_def linked_row_def commands_keyed_def responses_keyed_def)

lemma demo_kept_responses: "response_actions (core demo_kept) = [demo_response]"
proof -
  have "response_actions (core demo_kept) = response_actions (core demo_answered)"
    unfolding demo_kept_def handle.simps core_discard by (rule identities_onlyD(2) [OF staysD [OF identities_only_operations(1)]])
  then show ?thesis by (simp add: demo_answered_def)
qed

theorem authorized_means_queued_witness:
  "ra_lifecycle_state demo_response = AUTHORIZED \<and> demo_response \<in> set (response_actions (core demo_kept)) \<and>
   (\<exists>c. find_by cm_command_id ''resp-r1'' (commands (core demo_kept)) = Some c \<and> cm_alert_id c = Some ''ALT-1'')"
proof -
  have "demo_response \<in> set (response_actions (core demo_kept))" "ra_lifecycle_state demo_response = AUTHORIZED"
    "ra_response_id demo_response = ''r1''" "ra_alert_id demo_response = ''ALT-1''"
    using demo_kept_responses by (simp_all add: demo_response_def staged_row_def)
  then show ?thesis
    using authorized_means_queued [OF demo_engine demo_answered_linked demo_runs [where q = IssueChallenge and w = demo_answered],
        folded demo_kept_def, of demo_response] by auto
qed

end
