(* ===== verification/Plane.thy ===== *)
theory Plane
  imports System
begin

text \<open>
  What the response plane promises, as an abstract machine, and that every run of the manager is a run of it. The machine
  knows orders to agents, requests for a response, and a history; it says nothing of tables, transactions or signatures.
\<close>

section \<open>The abstract machine\<close>

inductive lifecycle_step :: "lifecycle \<Rightarrow> lifecycle \<Rightarrow> bool" where
  dispatch: "lifecycle_step AUTHORIZED DISPATCHED"
| accepted: "lifecycle_step DISPATCHED ACCEPTED"
| finish: "s \<in> {DISPATCHED, ACCEPTED} \<Longrightarrow> t \<in> {SUCCEEDED, FAILED, REJECTED, INDETERMINATE} \<Longrightarrow> lifecycle_step s t"
| expire: "s \<in> {AUTHORIZED, DISPATCHED, ACCEPTED} \<Longrightarrow> lifecycle_step s EXPIRED"
| cancelled: "lifecycle_step AUTHORIZED CANCELLED"

record order =
  od_agent :: string
  od_payload :: jobj
  od_alert :: "string option"
  od_state :: lifecycle

record ask =
  as_alert :: string
  as_action :: string
  as_target :: jobj
  as_state :: lifecycle

record plane =
  orders :: "string \<rightharpoonup> order"
  asks :: "string \<rightharpoonup> ask"
  history :: "ledger_row list"

text \<open>
  An order is issued once and then only moves along the life cycle. A request is staged pending and decided once; it is
  approved only when its order is out, for the same alert. The history is only added to.
\<close>

inductive plane_step :: "plane \<Rightarrow> plane \<Rightarrow> bool" where
  issue: "orders p i = None \<Longrightarrow> od_state c = AUTHORIZED \<Longrightarrow> plane_step p (p\<lparr>orders := (orders p)(i \<mapsto> c)\<rparr>)"
| advance: "orders p i = Some c \<Longrightarrow> lifecycle_step (od_state c) s \<Longrightarrow> plane_step p (p\<lparr>orders := (orders p)(i \<mapsto> c\<lparr>od_state := s\<rparr>)\<rparr>)"
| stage: "asks p i = None \<Longrightarrow> as_state a = PENDING \<Longrightarrow> plane_step p (p\<lparr>asks := (asks p)(i \<mapsto> a)\<rparr>)"
| refuse: "asks p i = Some a \<Longrightarrow> as_state a = PENDING \<Longrightarrow> s \<in> {REJECTED, EXPIRED} \<Longrightarrow>
    plane_step p (p\<lparr>asks := (asks p)(i \<mapsto> a\<lparr>as_state := s\<rparr>)\<rparr>)"
| approve: "asks p i = Some a \<Longrightarrow> as_state a = PENDING \<Longrightarrow> orders p (''resp-'' @ i) = Some c \<Longrightarrow> od_alert c = Some (as_alert a) \<Longrightarrow>
    plane_step p (p\<lparr>asks := (asks p)(i \<mapsto> a\<lparr>as_state := AUTHORIZED\<rparr>)\<rparr>)"
| note_entry: "plane_step p (p\<lparr>history := history p @ [x]\<rparr>)"

inductive_cases plane_stepE: "plane_step p p'"

section \<open>The abstraction\<close>

definition order_of :: "command_row \<Rightarrow> order" where
  "order_of c = \<lparr>od_agent = cm_agent_id c, od_payload = cm_command_json c, od_alert = cm_alert_id c, od_state = cm_lifecycle_state c\<rparr>"

definition ask_of :: "response_row \<Rightarrow> ask" where
  "ask_of r = \<lparr>as_alert = ra_alert_id r, as_action = ra_action r, as_target = ra_target_json r, as_state = ra_lifecycle_state r\<rparr>"

definition orders_of :: "db \<Rightarrow> string \<rightharpoonup> order" where
  "orders_of d i = map_option order_of (find_by cm_command_id i (commands d))"

definition asks_of :: "db \<Rightarrow> string \<rightharpoonup> ask" where
  "asks_of d i = map_option ask_of (find_by ra_response_id i (response_actions d))"

definition plane_of :: "db \<Rightarrow> plane" where
  "plane_of d = \<lparr>orders = orders_of d, asks = asks_of d, history = response_audit_ledger d\<rparr>"

section \<open>One table at a time\<close>

lemma reaches_steps: "reaches s t \<Longrightarrow> s \<noteq> PENDING \<Longrightarrow> lifecycle_step\<^sup>*\<^sup>* s t"
proof -
  have 1: "lifecycle_step\<^sup>*\<^sup>* AUTHORIZED DISPATCHED" "lifecycle_step\<^sup>*\<^sup>* DISPATCHED ACCEPTED" by (blast intro: lifecycle_step.intros)+
  have 2: "lifecycle_step\<^sup>*\<^sup>* s t" if "s \<in> {DISPATCHED, ACCEPTED}" "t \<in> {SUCCEEDED, FAILED, REJECTED, INDETERMINATE}" for s t
    using that by (blast intro: lifecycle_step.intros)
  have 3: "lifecycle_step\<^sup>*\<^sup>* s EXPIRED" if "s \<in> {AUTHORIZED, DISPATCHED, ACCEPTED}" for s
    using that by (blast intro: lifecycle_step.intros)
  have 4: "lifecycle_step\<^sup>*\<^sup>* AUTHORIZED CANCELLED" by (blast intro: lifecycle_step.intros)
  have 5: "lifecycle_step\<^sup>*\<^sup>* AUTHORIZED t" if "lifecycle_step\<^sup>*\<^sup>* DISPATCHED t" for t using 1(1) that by (rule rtranclp_trans)
  show "reaches s t \<Longrightarrow> s \<noteq> PENDING \<Longrightarrow> lifecycle_step\<^sup>*\<^sup>* s t"
    by (cases s; cases t) (auto intro: 1 2 3 4 5)
qed

text \<open>A finite map changes key by key.\<close>

lemma map_steps:
  assumes "finite (dom g)" and "dom f \<subseteq> dom g"
    and "\<And>m i. m i = f i \<Longrightarrow> i \<in> dom g \<Longrightarrow> R\<^sup>*\<^sup>* (U m) (U (m(i := g i)))"
  shows "R\<^sup>*\<^sup>* (U f) (U g)"
proof -
  have "R\<^sup>*\<^sup>* (U f) (U (\<lambda>i. if i \<in> A then g i else f i))" if "finite A" "A \<subseteq> dom g" for A
    using that
  proof (induction A rule: finite_induct)
    case (insert x A)
    let ?m = "\<lambda>i. if i \<in> A then g i else f i"
    have "?m(x := g x) = (\<lambda>i. if i \<in> insert x A then g i else f i)" by auto
    then have "R\<^sup>*\<^sup>* (U ?m) (U (\<lambda>i. if i \<in> insert x A then g i else f i))"
      using assms(3) [of ?m x] insert by auto
    then show ?case using insert by (meson insert_subset rtranclp_trans)
  qed simp
  moreover have "(\<lambda>i. if i \<in> dom g then g i else f i) = g" using assms(2) by (auto simp: fun_eq_iff dom_def)
  ultimately show ?thesis using assms(1) by (metis subset_refl)
qed

lemma advance_steps:
  "lifecycle_step\<^sup>*\<^sup>* s t \<Longrightarrow> orders p i = Some c \<Longrightarrow> od_state c = s \<Longrightarrow>
    plane_step\<^sup>*\<^sup>* p (p\<lparr>orders := (orders p)(i \<mapsto> c\<lparr>od_state := t\<rparr>)\<rparr>)"
proof (induction rule: rtranclp_induct)
  case base
  then have "p\<lparr>orders := (orders p)(i \<mapsto> c\<lparr>od_state := s\<rparr>)\<rparr> = p" by (cases p; cases c) (auto simp: fun_eq_iff)
  then show ?case by (metis rtranclp.rtrancl_refl)
next
  case (step t u)
  let ?p = "p\<lparr>orders := (orders p)(i \<mapsto> c\<lparr>od_state := t\<rparr>)\<rparr>"
  have "plane_step ?p (?p\<lparr>orders := (orders ?p)(i \<mapsto> c\<lparr>od_state := t\<rparr>\<lparr>od_state := u\<rparr>)\<rparr>)"
    by (rule plane_step.advance) (simp_all add: step.hyps)
  then have "plane_step ?p (p\<lparr>orders := (orders p)(i \<mapsto> c\<lparr>od_state := u\<rparr>)\<rparr>)" by simp
  with step.IH [OF step.prems] show ?case by (rule rtranclp.rtrancl_into_rtrancl)
qed

lemma history_steps: "plane_step\<^sup>*\<^sup>* p (p\<lparr>history := history p @ xs\<rparr>)"
proof (induction xs rule: rev_induct)
  case (snoc x xs)
  then show ?case using plane_step.note_entry [of "p\<lparr>history := history p @ xs\<rparr>" x] by (simp add: rtranclp.rtrancl_into_rtrancl)
qed simp

lemma issue_steps:
  assumes "orders p i = None" and "lifecycle_step\<^sup>*\<^sup>* AUTHORIZED (od_state c)"
  shows "plane_step\<^sup>*\<^sup>* p (p\<lparr>orders := (orders p)(i \<mapsto> c)\<rparr>)"
proof -
  let ?c = "c\<lparr>od_state := AUTHORIZED\<rparr>" and ?p = "p\<lparr>orders := (orders p)(i \<mapsto> c\<lparr>od_state := AUTHORIZED\<rparr>)\<rparr>"
  have "plane_step p ?p" by (rule plane_step.issue) (simp_all add: assms)
  moreover have "plane_step\<^sup>*\<^sup>* ?p (?p\<lparr>orders := (orders ?p)(i \<mapsto> ?c\<lparr>od_state := od_state c\<rparr>)\<rparr>)"
    by (rule advance_steps [OF assms(2)]) simp_all
  ultimately show ?thesis by (simp add: converse_rtranclp_into_rtranclp)
qed

definition decided_well :: "(string \<rightharpoonup> order) \<Rightarrow> string \<Rightarrow> ask \<Rightarrow> bool" where
  "decided_well ords i a \<longleftrightarrow> verdict_state (as_state a) \<and>
    (as_state a = AUTHORIZED \<longrightarrow> (\<exists>c. ords (''resp-'' @ i) = Some c \<and> od_alert c = Some (as_alert a)))"

lemma decide_steps:
  assumes "asks p i = Some b" and "as_state b = PENDING" and "a = b\<lparr>as_state := as_state a\<rparr>" and "decided_well (orders p) i a"
  shows "plane_step\<^sup>*\<^sup>* p (p\<lparr>asks := (asks p)(i \<mapsto> a)\<rparr>)"
proof -
  have al: "as_alert a = as_alert b" using assms(3) by (metis ask.select_convs(1) ask.surjective ask.update_convs(4))
  consider "as_state a = PENDING" | "as_state a \<in> {REJECTED, EXPIRED}" | "as_state a = AUTHORIZED"
    using assms(4) by (auto simp: decided_well_def verdict_state_def)
  then show ?thesis
  proof cases
    case 1
    then have "a = b" using assms(2,3) by (cases a; cases b) simp
    then have "p\<lparr>asks := (asks p)(i \<mapsto> a)\<rparr> = p" using assms(1) by (cases p) (auto simp: fun_eq_iff)
    then show ?thesis by (metis rtranclp.rtrancl_refl)
  next
    case 2
    then have "plane_step p (p\<lparr>asks := (asks p)(i \<mapsto> b\<lparr>as_state := as_state a\<rparr>)\<rparr>)"
      using assms(1,2) by (intro plane_step.refuse)
    then show ?thesis unfolding assms(3) [symmetric] by blast
  next
    case 3
    then obtain c where "orders p (''resp-'' @ i) = Some c" "od_alert c = Some (as_alert b)" using assms(4) al by (auto simp: decided_well_def)
    then have "plane_step p (p\<lparr>asks := (asks p)(i \<mapsto> b\<lparr>as_state := AUTHORIZED\<rparr>)\<rparr>)"
      using assms(1,2) by (intro plane_step.approve)
    then have "plane_step p (p\<lparr>asks := (asks p)(i \<mapsto> b\<lparr>as_state := as_state a\<rparr>)\<rparr>)" unfolding 3 .
    then show ?thesis unfolding assms(3) [symmetric] by blast
  qed
qed

lemma stage_steps:
  assumes "asks p i = None" and "decided_well (orders p) i a"
  shows "plane_step\<^sup>*\<^sup>* p (p\<lparr>asks := (asks p)(i \<mapsto> a)\<rparr>)"
proof -
  let ?b = "a\<lparr>as_state := PENDING\<rparr>" and ?p = "p\<lparr>asks := (asks p)(i \<mapsto> a\<lparr>as_state := PENDING\<rparr>)\<rparr>"
  have "plane_step p ?p" by (rule plane_step.stage) (simp_all add: assms)
  moreover have "plane_step\<^sup>*\<^sup>* ?p (?p\<lparr>asks := (asks ?p)(i \<mapsto> a)\<rparr>)"
    by (rule decide_steps [of _ _ ?b]) (simp_all add: assms)
  ultimately show ?thesis by (simp add: converse_rtranclp_into_rtranclp)
qed

section \<open>The simulation\<close>

lemma finite_find_by: "finite (dom (\<lambda>i. map_option h (find_by key i rows)))"
proof (rule finite_subset)
  show "dom (\<lambda>i. map_option h (find_by key i rows)) \<subseteq> key ` set rows" by (auto dest: find_by_SomeD)
qed simp

lemma orders_simulated:
  assumes "commands_keyed d" and "commands_evolve d d'" and "lawful_states d" and "lawful_states d'"
  shows "plane_step\<^sup>*\<^sup>* (p\<lparr>orders := orders_of d\<rparr>) (p\<lparr>orders := orders_of d'\<rparr>)"
proof (rule map_steps [where U = "\<lambda>m. p\<lparr>orders := m\<rparr>"])
  have ev: "\<exists>c'. find_by cm_command_id i (commands d') = Some c' \<and> command_moves c c'"
    if "find_by cm_command_id i (commands d) = Some c" for i c
    using assms(1,2) that by (auto simp: commands_evolve_def rows_evolve_def)
  then show "dom (orders_of d) \<subseteq> dom (orders_of d')" by (fastforce simp: orders_of_def dom_def)
  show "finite (dom (orders_of d'))" unfolding orders_of_def by (rule finite_find_by)
  fix m i assume m: "m i = orders_of d i" and "i \<in> dom (orders_of d')"
  then obtain c' where c': "find_by cm_command_id i (commands d') = Some c'" by (auto simp: orders_of_def)
  have s': "cm_lifecycle_state c' \<noteq> PENDING" using find_by_SomeD [OF c'] assms(4) by (auto simp: lawful_states_def)
  show "plane_step\<^sup>*\<^sup>* (p\<lparr>orders := m\<rparr>) (p\<lparr>orders := m(i := orders_of d' i)\<rparr>)"
  proof (cases "find_by cm_command_id i (commands d)")
    case None
    then have "plane_step\<^sup>*\<^sup>* (p\<lparr>orders := m\<rparr>) ((p\<lparr>orders := m\<rparr>)\<lparr>orders := (orders (p\<lparr>orders := m\<rparr>))(i \<mapsto> order_of c')\<rparr>)"
      using m s' by (intro issue_steps reaches_steps) (simp_all add: orders_of_def order_of_def)
    then show ?thesis by (simp add: orders_of_def c')
  next
    case (Some c)
    have mv: "command_moves c c'" using ev [OF Some] c' by simp
    have "cm_lifecycle_state c \<noteq> PENDING" using find_by_SomeD [OF Some] assms(3) by (auto simp: lawful_states_def)
    then have st: "lifecycle_step\<^sup>*\<^sup>* (cm_lifecycle_state c) (cm_lifecycle_state c')" using mv by (intro reaches_steps) (simp_all add: command_moves_def)
    have "order_of c\<lparr>od_state := cm_lifecycle_state c'\<rparr> = order_of c'" using mv by (simp add: order_of_def command_moves_def)
    moreover have "plane_step\<^sup>*\<^sup>* (p\<lparr>orders := m\<rparr>)
        ((p\<lparr>orders := m\<rparr>)\<lparr>orders := (orders (p\<lparr>orders := m\<rparr>))(i \<mapsto> order_of c\<lparr>od_state := cm_lifecycle_state c'\<rparr>)\<rparr>)"
      using m Some by (intro advance_steps [OF st]) (simp_all add: orders_of_def order_of_def)
    ultimately show ?thesis by (simp add: orders_of_def c')
  qed
qed

lemma ask_decided:
  assumes "lawful_states d" and "linked d" and "find_by ra_response_id i (response_actions d) = Some r"
  shows "decided_well (orders_of d) i (ask_of r)"
proof -
  have r: "r \<in> set (response_actions d)" "ra_response_id r = i" using find_by_SomeD [OF assms(3)] by auto
  have "verdict_state (ra_lifecycle_state r)" using assms(1) r(1) by (auto simp: lawful_states_def)
  moreover have "\<exists>c. orders_of d (''resp-'' @ i) = Some c \<and> od_alert c = Some (ra_alert_id r)" if "ra_lifecycle_state r = AUTHORIZED"
    using assms(2) r that by (auto simp: linked_def linked_row_def orders_of_def order_of_def)
  ultimately show ?thesis by (simp add: decided_well_def ask_of_def)
qed

lemma asks_simulated:
  assumes "responses_keyed d" and "responses_evolve d d'" and "lawful_states d'" and "linked d'" and "orders p = orders_of d'"
  shows "plane_step\<^sup>*\<^sup>* (p\<lparr>asks := asks_of d\<rparr>) (p\<lparr>asks := asks_of d'\<rparr>)"
proof (rule map_steps [where U = "\<lambda>m. p\<lparr>asks := m\<rparr>"])
  have ev: "\<exists>r'. find_by ra_response_id i (response_actions d') = Some r' \<and> response_moves r r'"
    if "find_by ra_response_id i (response_actions d) = Some r" for i r
    using assms(1,2) that by (auto simp: responses_evolve_def rows_evolve_def)
  then show "dom (asks_of d) \<subseteq> dom (asks_of d')" by (fastforce simp: asks_of_def dom_def)
  show "finite (dom (asks_of d'))" unfolding asks_of_def by (rule finite_find_by)
  fix m i assume m: "m i = asks_of d i" and "i \<in> dom (asks_of d')"
  then obtain r' where r': "find_by ra_response_id i (response_actions d') = Some r'" by (auto simp: asks_of_def)
  let ?p = "p\<lparr>asks := m\<rparr>"
  have ok: "decided_well (orders ?p) i (ask_of r')" using ask_decided [OF assms(3,4) r'] assms(5) by simp
  have goal: "?p\<lparr>asks := (asks ?p)(i \<mapsto> ask_of r')\<rparr> = p\<lparr>asks := m(i := asks_of d' i)\<rparr>" by (simp add: asks_of_def r')
  show "plane_step\<^sup>*\<^sup>* ?p (p\<lparr>asks := m(i := asks_of d' i)\<rparr>)"
  proof (cases "find_by ra_response_id i (response_actions d)")
    case None
    then show ?thesis using m stage_steps [of ?p i, OF _ ok] unfolding goal by (simp add: asks_of_def)
  next
    case (Some r)
    consider "r' = r" | "ra_lifecycle_state r = PENDING" "ask_of r' = ask_of r\<lparr>as_state := as_state (ask_of r')\<rparr>"
      using ev [OF Some] r' by (auto simp: response_moves_def ask_of_def)
    then show ?thesis
    proof cases
      case 1
      then have "m(i := asks_of d' i) = m" using m Some r' by (auto simp: asks_of_def)
      then show ?thesis by (metis rtranclp.rtrancl_refl)
    next
      case 2
      have "asks ?p i = Some (ask_of r)" "as_state (ask_of r) = PENDING" using m Some 2 by (simp_all add: asks_of_def ask_of_def)
      then show ?thesis using decide_steps [OF _ _ 2(2) ok] unfolding goal by blast
    qed
  qed
qed

lemma serves_simulated:
  assumes "serves e d d'" and "keeps_command_ids e" and "lawful_states d" and "linked d"
  shows "plane_step\<^sup>*\<^sup>* (plane_of d) (plane_of d')"
proof -
  have w: "commands_evolve d d'" "responses_evolve d d'" "linked d'" "lawful_states d'"
    using assms by (auto simp: serves_def work_def lawful_def)
  have k: "commands_keyed d" "responses_keyed d" using assms(4) by (auto simp: linked_def)
  obtain x where x: "response_audit_ledger d' = response_audit_ledger d @ x"
    using assms(1) by (auto simp: serves_def audit_grows_def tables_extend_def)
  have "plane_step\<^sup>*\<^sup>* ((plane_of d)\<lparr>orders := orders_of d\<rparr>) ((plane_of d)\<lparr>orders := orders_of d'\<rparr>)"
    by (rule orders_simulated [OF k(1) w(1) assms(3) w(4)])
  moreover have "plane_step\<^sup>*\<^sup>* ((plane_of d)\<lparr>orders := orders_of d'\<rparr>\<lparr>asks := asks_of d\<rparr>) ((plane_of d)\<lparr>orders := orders_of d'\<rparr>\<lparr>asks := asks_of d'\<rparr>)"
    by (rule asks_simulated [OF k(2) w(2,4,3)]) simp
  moreover have "plane_step\<^sup>*\<^sup>* (plane_of d\<lparr>orders := orders_of d', asks := asks_of d'\<rparr>) (plane_of d')"
    using history_steps [of "plane_of d\<lparr>orders := orders_of d', asks := asks_of d'\<rparr>" x] by (simp add: plane_of_def x)
  ultimately show ?thesis by (simp add: plane_of_def)
qed

text \<open>
  C1. The manager implements its specification. Whatever requests it serves and in whatever order, what it does to its
  command queue, its responses and its ledger is a run of the abstract machine: orders are issued once, for good, and only
  move along the life cycle; a request is decided once, and approved only when its order is out for the same alert; and
  history is only added to.
\<close>

theorem manager_refines_the_plane:
  assumes "acts_through_emit P" and "core_inv h (core w)" and "runs h P w v"
  shows "plane_step\<^sup>*\<^sup>* (plane_of (core w)) (plane_of (core v))"
proof -
  define R where "R = (\<lambda>(w :: ('a, 'b) world) (v :: ('a, 'b) world). core_inv h (core w) \<longrightarrow> core_inv h (core v) \<and> plane_step\<^sup>*\<^sup>* (plane_of (core w)) (plane_of (core v)))"
  have "stays R (handle e W P q)" if "sha256 e = h" "keeps_command_ids e" for e W q
  proof (rule staysI)
    fix s :: "('a, 'b) world"
    have sv: "serves e (core s) (core (snd (handle e W P q s)))" using staysD [OF along_handle(1) [OF assms(1)]] by (simp add: along_def)
    show "R s (snd (handle e W P q s))" unfolding R_def
    proof
      assume "core_inv h (core s)"
      then show "core_inv h (core (snd (handle e W P q s))) \<and> plane_step\<^sup>*\<^sup>* (plane_of (core s)) (plane_of (core (snd (handle e W P q s))))"
        using core_inv_serves [OF sv that(2)] serves_simulated [OF sv that(2)] that(1) by (simp add: core_inv_def)
    qed
  qed
  moreover have "R s s" "R s t \<Longrightarrow> R t u \<Longrightarrow> R s u" for s t u unfolding R_def by (auto intro: rtranclp_trans)
  ultimately have "R w v" using runs_keep [OF assms(3), of R] by blast
  then show ?thesis using assms(2) by (simp add: R_def)
qed

text \<open>One request from a fleet of one agent: the order it issues.\<close>

definition demo_fleet_world :: "(unit, unit) world" where
  "demo_fleet_world = demo_start\<lparr>core := demo_fleet\<rparr>"

definition demo_ordered :: "(unit, unit) world" where
  "demo_ordered = snd (handle demo_plain_env demo_wire demo_detection (Enqueue (demo_command ''c1'') ''secret'') demo_fleet_world)"

lemma demo_ordered_runs: "runs (\<lambda>t. t) demo_detection demo_fleet_world demo_ordered"
  by (rule runs_under.request [OF runs_under.start, where e = demo_plain_env and W = demo_wire and q = "Enqueue (demo_command ''c1'') ''secret''"
      and r = "fst (handle demo_plain_env demo_wire demo_detection (Enqueue (demo_command ''c1'') ''secret'') demo_fleet_world)"])
    (simp_all add: demo_ordered_def keeps_command_ids_def demo_plain_env_def sha256_demo_env del: handle.simps)

lemma demo_fleet_inv: "core_inv (\<lambda>t. t) (core demo_fleet_world)"
proof -
  have "audit_inv (\<lambda>t. t) demo_fleet"
    using audit_inv_empty [of "\<lambda>t. t"] audit_inv_at_cong [of demo_fleet empty_db] by (simp add: audit_inv_def demo_fleet_def)
  then show ?thesis
    by (simp add: core_inv_def demo_fleet_world_def demo_fleet_def linked_def commands_keyed_def responses_keyed_def lawful_states_def
        outcome_inv_def agents_unique_def active_hosts_def alerts_keyed_def)
qed

lemma demo_ordered_order: "orders (plane_of (core demo_ordered)) ''c1'' \<noteq> None"
proof -
  obtain d' p where run: "authorize_and_enqueue demo_plain_env True (demo_command ''c1'') ''system:command-token'' None demo_fleet = (Inr (), d')"
      "commands d' = [new_command demo_plain_env (demo_command ''c1'') None p]" using demo_enqueued by blast
  have "core demo_ordered = snd (enqueue demo_plain_env (demo_command ''c1'') ''secret'' demo_fleet)"
    unfolding demo_ordered_def handle.simps core_discard by (simp add: demo_fleet_world_def)
  also have "\<dots> = d'"
    by (simp add: enqueue_def Let_def getenv_or_empty_def compare_digest_def isascii_def bindM_raise_if bindM_Inr [where m = "authorize_and_enqueue _ _ _ _ _", OF run(1)])
  finally have "core demo_ordered = d'" .
  then show ?thesis using run(2) by (simp add: plane_of_def orders_of_def new_command_def demo_command_def)
qed

theorem manager_refines_the_plane_witness:
  "orders (plane_of (core demo_fleet_world)) ''c1'' = None \<and> orders (plane_of (core demo_ordered)) ''c1'' \<noteq> None \<and>
   plane_step\<^sup>*\<^sup>* (plane_of (core demo_fleet_world)) (plane_of (core demo_ordered))"
proof -
  have "orders (plane_of (core demo_fleet_world)) ''c1'' = None"
    by (simp add: plane_of_def orders_of_def demo_fleet_world_def demo_fleet_def)
  then show ?thesis using manager_refines_the_plane [OF demo_engine demo_fleet_inv demo_ordered_runs] demo_ordered_order by blast
qed

end
