(* ===== verification/Alerts.thy ===== *)
theory Alerts
  imports Service "HOL-Library.Product_Lexorder"
begin

text \<open>
  \<^verbatim>\<open>manager/routers/alerts.py\<close>: the alert list, paged by key, newest first. A client passes the \<open>next_before\<close> of a
  page as the \<open>before\<close> of the next until it is null.
\<close>

record alert_filter =
  fl_host_id :: "string option"
  fl_severity :: "string option"
  fl_rule_id :: "string option"
  fl_source :: "string option"
  fl_incident_id :: "string option"

definition MAX_LIMIT :: int where
  "MAX_LIMIT = 200"

text \<open>\<open>before.partition(',')\<close>\<close>

definition parse_before :: "string \<Rightarrow> ('s, string \<times> string) act" where
  "parse_before before =
    (let created_at = takeWhile (\<lambda>c. c \<noteq> CHR '','') before;
         rest = dropWhile (\<lambda>c. c \<noteq> CHR '','') before
     in if rest = [] \<or> created_at = [] \<or> tl rest = []
        then throw (HTTPException 422 ''before must be <created_at>,<alert_id> from next_before'')
        else ret (created_at, tl rest))"

text \<open>A clause \<open>column = ?\<close> for every filter that is given; SQL equality never holds of NULL.\<close>

definition column_is :: "string option \<Rightarrow> string option \<Rightarrow> bool" where
  "column_is column value = (case value of None \<Rightarrow> True | Some v \<Rightarrow> column = Some v)"

definition matches :: "alert_filter \<Rightarrow> alert_row \<Rightarrow> bool" where
  "matches f a \<longleftrightarrow> column_is (al_host_id a) (fl_host_id f) \<and> column_is (al_severity a) (fl_severity f) \<and>
     column_is (Some (al_rule_id a)) (fl_rule_id f) \<and> column_is (al_detection_source a) (fl_source f) \<and>
     column_is (al_incident_id a) (fl_incident_id f)"

definition older :: "(string \<times> string) option \<Rightarrow> alert_row \<Rightarrow> bool" where
  "older cursor a =
    (case cursor of None \<Rightarrow> True
     | Some (created_at, alert_id) \<Rightarrow> al_created_at a < created_at \<or> (al_created_at a = created_at \<and> al_alert_id a < alert_id))"

definition newest_first :: "alert_row list \<Rightarrow> alert_row list" where
  "newest_first rows = rev (sort_key (\<lambda>a. (al_created_at a, al_alert_id a)) rows)"

definition at_most :: "nat \<Rightarrow> string option \<Rightarrow> bool" where
  "at_most n v = (case v of None \<Rightarrow> True | Some t \<Rightarrow> py_len t \<le> n)"

definition valid_query :: "alert_filter \<Rightarrow> string option \<Rightarrow> int \<Rightarrow> bool" where
  "valid_query f before limit \<longleftrightarrow> at_most 256 (fl_host_id f) \<and> at_most 128 (fl_rule_id f) \<and> at_most 128 (fl_incident_id f) \<and>
     fl_severity f \<in> {None, Some ''low'', Some ''medium'', Some ''high'', Some ''critical''} \<and>
     fl_source f \<in> {None, Some ''rule'', Some ''stateful'', Some ''behavioral'', Some ''correlation''} \<and>
     at_most 512 before \<and> 1 \<le> limit \<and> limit \<le> MAX_LIMIT"

definition next_before :: "int \<Rightarrow> alert_row list \<Rightarrow> string option" where
  "next_before limit rows =
    (if int (length rows) = limit then Some (al_created_at (last rows) @ '','' @ al_alert_id (last rows)) else None)"

definition list_alerts :: "env \<Rightarrow> string option \<Rightarrow> alert_filter \<Rightarrow> string option \<Rightarrow> int \<Rightarrow> (db, alert_row list \<times> string option) act" where
  "list_alerts e authorization f before limit =
    seqM (raise_if (\<not> valid_query f before limit) ValidationError)
    (bindM (require_analyst_token e authorization) (\<lambda>_.
     bindM (case before of None \<Rightarrow> ret None | Some b \<Rightarrow> bindM (parse_before b) (\<lambda>c. ret (Some c))) (\<lambda>cursor.
     bindM (gets (\<lambda>d. take (nat limit) (newest_first (filter (\<lambda>a. matches f a \<and> older cursor a) (alerts d))))) (\<lambda>rows.
     ret (rows, next_before limit rows)))))"

text \<open>The client's loop over the pages; a refused page ends it without a result.\<close>

partial_function (option) all_pages :: "env \<Rightarrow> string option \<Rightarrow> alert_filter \<Rightarrow> int \<Rightarrow> db \<Rightarrow> string option \<Rightarrow> alert_row list option" where
  "all_pages e authorization f limit d before =
    (case fst (list_alerts e authorization f before limit d) of
       Inl x \<Rightarrow> None
     | Inr (rows, after) \<Rightarrow>
        (case after of
           None \<Rightarrow> Some rows
         | Some b \<Rightarrow> Option.bind (all_pages e authorization f limit d (Some b)) (\<lambda>rest. Some (rows @ rest))))"

section \<open>Pages\<close>

text \<open>Alerts whose key fits into \<open>before\<close>.\<close>

definition pageable :: "alert_row \<Rightarrow> bool" where
  "pageable a \<longleftrightarrow> al_created_at a \<noteq> [] \<and> CHR '','' \<notin> set (al_created_at a) \<and> al_alert_id a \<noteq> [] \<and>
     py_len (al_created_at a) + py_len (al_alert_id a) < 512"

abbreviation alert_key :: "alert_row \<Rightarrow> string \<times> string" where
  "alert_key a \<equiv> (al_created_at a, al_alert_id a)"

lemma older_key: "older (Some k) a \<longleftrightarrow> alert_key a < k"
  by (cases k) (auto simp: older_def less_prod_def less_le)

abbreviation cursor_text :: "alert_row \<Rightarrow> string" where
  "cursor_text a \<equiv> al_created_at a @ '','' @ al_alert_id a"

lemma parse_before_key:
  assumes "pageable a"
  shows "parse_before (cursor_text a) s = (Inr (alert_key a), s)"
proof -
  have c: "x \<in> set (al_created_at a) \<Longrightarrow> x \<noteq> CHR '',''" for x using assms by (auto simp: pageable_def)
  have "takeWhile (\<lambda>c. c \<noteq> CHR '','') (cursor_text a) = al_created_at a" "dropWhile (\<lambda>c. c \<noteq> CHR '','') (cursor_text a) = '','' @ al_alert_id a"
    using takeWhile_append2 [of "al_created_at a" "\<lambda>c. c \<noteq> CHR '',''", OF c, of "'','' @ al_alert_id a"]
      dropWhile_append2 [of "al_created_at a" "\<lambda>c. c \<noteq> CHR '',''", OF c, of "'','' @ al_alert_id a"] by simp_all
  then show ?thesis unfolding parse_before_def Let_def using assms by (simp add: pageable_def)
qed

lemma newest_first_sorted:
  assumes "distinct (map al_alert_id rows)"
  shows "sorted_wrt (\<lambda>a b. alert_key b < alert_key a) (newest_first rows)"
proof -
  have "distinct (map alert_key rows)" using assms by (auto simp: distinct_map inj_on_def)
  then have "distinct (map alert_key (sort_key alert_key rows))"
    by (metis distinct_map distinct_sort set_sort)
  then have "sorted_wrt (<) (map alert_key (sort_key alert_key rows))" by (simp add: strict_sorted_iff)
  then show ?thesis by (simp add: newest_first_def sorted_wrt_rev sorted_wrt_map)
qed

lemma newest_first_filter: "newest_first (filter Q rows) = filter Q (newest_first rows)"
  by (simp add: newest_first_def filter_sort [symmetric] rev_filter)

lemma older_than_page:
  assumes "sorted_wrt (\<lambda>a b. alert_key b < alert_key a) (page @ rest)" and "page \<noteq> []"
  shows "filter (older (Some (alert_key (last page)))) (page @ rest) = rest"
proof -
  obtain xs y where page: "page = xs @ [y]" using assms(2) by (metis append_butlast_last_id)
  have "filter (older (Some (alert_key y))) page = []"
    using assms(1) page unfolding filter_empty_conv older_key by (auto simp: sorted_wrt_append dest: less_asym)
  moreover have "filter (older (Some (alert_key y))) rest = rest"
    using assms(1) page unfolding filter_id_conv older_key by (auto simp: sorted_wrt_append)
  ultimately show ?thesis using page by (simp only: filter_append last_snoc append.simps)
qed

definition cursor_of :: "alert_row list \<Rightarrow> string option" where
  "cursor_of pre = (if pre = [] then None else Some (cursor_text (last pre)))"

lemma py_len_append: "py_len (xs @ ys) = py_len xs + py_len ys"
  by (simp add: py_len_def)

lemma list_alerts_page:
  assumes "newest_first (filter (matches f) (alerts d)) = pre @ rest" and "alerts_keyed d" and "\<forall>a\<in>set (alerts d). pageable a"
    and "require_analyst_token e authorization d = (Inr analyst, d)" and "valid_query f None limit"
  shows "list_alerts e authorization f (cursor_of pre) limit d = (Inr (take (nat limit) rest, next_before limit (take (nat limit) rest)), d)"
proof -
  define cursor where "cursor = (if pre = [] then None else Some (alert_key (last pre)))"
  have last: "pageable (last pre)" if "pre \<noteq> []"
  proof -
    have "last pre \<in> set (newest_first (filter (matches f) (alerts d)))" using assms(1) that by simp
    then show ?thesis using assms(3) by (simp add: newest_first_def)
  qed
  have "valid_query f (cursor_of pre) limit"
    using assms(5) last by (auto simp: valid_query_def cursor_of_def at_most_def pageable_def py_len_append py_len_def)
  moreover have "(case cursor_of pre of None \<Rightarrow> ret None | Some b \<Rightarrow> bindM (parse_before b) (\<lambda>c. ret (Some c))) d = (Inr cursor, d)"
  proof (cases "pre = []")
    case False
    have "bindM (parse_before (cursor_text (last pre))) (\<lambda>c. ret (Some c)) d = (Inr (Some (alert_key (last pre))), d)"
      unfolding bindM_Inr [where m = "parse_before _", OF parse_before_key [OF last [OF False]]] by simp
    then show ?thesis using False by (simp add: cursor_of_def cursor_def)
  qed (simp add: cursor_of_def cursor_def)
  moreover have "newest_first (filter (\<lambda>a. matches f a \<and> older cursor a) (alerts d)) = rest"
  proof -
    have "filter (\<lambda>a. matches f a \<and> older cursor a) (alerts d) = filter (older cursor) (filter (matches f) (alerts d))"
      by (simp add: conj_commute)
    then have eq: "newest_first (filter (\<lambda>a. matches f a \<and> older cursor a) (alerts d)) = filter (older cursor) (pre @ rest)"
      by (simp only: newest_first_filter [symmetric] assms(1) [symmetric])
    have "distinct (map al_alert_id (filter (matches f) (alerts d)))" using assms(2) by (simp add: alerts_keyed_def distinct_map_filter)
    then have "sorted_wrt (\<lambda>a b. alert_key b < alert_key a) (pre @ rest)"
      unfolding assms(1) [symmetric] by (rule newest_first_sorted)
    then show ?thesis using older_than_page [of pre rest] eq by (cases "pre = []") (simp_all add: cursor_def older_def)
  qed
  ultimately show ?thesis
    by (simp add: list_alerts_def bindM_raise_if bindM_Inr [where m = "require_analyst_token _ _", OF assms(4)] bindM_Inr)
qed

text \<open>
  C16. Paging ends and misses nothing. A client that follows \<open>next_before\<close> from page to page comes to an end and has
  then read exactly the alerts its filter selects, each once and newest first, whatever page size it asked for.
\<close>

theorem paging_reads_every_alert_once:
  assumes "alerts_keyed d" and "\<forall>a\<in>set (alerts d). pageable a" and "require_analyst_token e authorization d = (Inr analyst, d)"
    and "valid_query f None limit"
  shows "all_pages e authorization f limit d None = Some (newest_first (filter (matches f) (alerts d))) \<and>
    mset (newest_first (filter (matches f) (alerts d))) = mset (filter (matches f) (alerts d)) \<and>
    sorted_wrt (\<lambda>a b. alert_key b < alert_key a) (newest_first (filter (matches f) (alerts d)))"
proof -
  have lim: "1 \<le> limit" using assms(4) by (simp add: valid_query_def)
  have "all_pages e authorization f limit d (cursor_of pre) = Some rest"
    if "newest_first (filter (matches f) (alerts d)) = pre @ rest" for pre rest
    using that
  proof (induction "length rest" arbitrary: pre rest rule: less_induct)
    case less
    let ?page = "take (nat limit) rest" and ?rest = "drop (nat limit) rest"
    note page = list_alerts_page [OF less.prems assms]
    show ?case
    proof (cases "int (length ?page) = limit")
      case True
      then have ne: "?page \<noteq> []" "length ?rest < length rest" using lim by auto
      have "newest_first (filter (matches f) (alerts d)) = (pre @ ?page) @ ?rest" using less.prems by simp
      from less.hyps [OF ne(2) this] have "all_pages e authorization f limit d (next_before limit ?page) = Some ?rest"
        using True ne(1) by (simp add: next_before_def cursor_of_def)
      then show ?thesis using page True by (subst all_pages.simps) (simp add: next_before_def)
    next
      case False
      then have "length rest \<le> nat limit" using lim by (auto simp: min_def split: if_splits)
      then have "?page = rest" by simp
      then show ?thesis using page False by (subst all_pages.simps) (simp add: next_before_def)
    qed
  qed
  from this [of "[]"] have "all_pages e authorization f limit d None = Some (newest_first (filter (matches f) (alerts d)))"
    by (simp add: cursor_of_def)
  moreover have "mset (newest_first rows) = mset rows" for rows by (simp add: newest_first_def)
  moreover have "distinct (map al_alert_id (filter (matches f) (alerts d)))" using assms(1) by (simp add: alerts_keyed_def distinct_map_filter)
  ultimately show ?thesis using newest_first_sorted by blast
qed

definition demo_paged :: "string \<Rightarrow> string \<Rightarrow> alert_row" where
  "demo_paged i t = \<lparr>al_alert_id = i, al_rule_id = ''R1'', al_level = None, al_severity = None, al_host_id = None, al_agent_id = None,
     al_event_id = None, al_alert_timestamp = None, al_created_at = t, al_mitre_tactic = None, al_mitre_technique = None,
     al_alert_json = JObj [], al_detection_source = None, al_incident_id = None\<rparr>"

definition demo_all :: alert_filter where
  "demo_all = \<lparr>fl_host_id = None, fl_severity = None, fl_rule_id = None, fl_source = None, fl_incident_id = None\<rparr>"

definition demo_console :: db where
  "demo_console = empty_db\<lparr>analyst_credentials := [demo_analyst ''ana'' ''tok'' ''analyst''],
     alerts := [demo_paged ''a1'' ''2026-01-01'', demo_paged ''a2'' ''2026-01-02'', demo_paged ''a3'' ''2026-01-02'']\<rparr>"

theorem paging_reads_every_alert_once_witness:
  "all_pages demo_env (Some ''Bearer tok'') demo_all 2 demo_console None =
    Some [demo_paged ''a3'' ''2026-01-02'', demo_paged ''a2'' ''2026-01-02'', demo_paged ''a1'' ''2026-01-01'']"
proof -
  have t: "require_analyst_token demo_env (Some ''Bearer tok'') demo_console = (Inr ''ana'', demo_console)"
    by (simp add: require_analyst_token_def bearer_token_def starts_with_def py_len_def Let_def demo_console_def demo_analyst_def digest_def)
  have q: "alerts_keyed demo_console" "\<forall>a\<in>set (alerts demo_console). pageable a" "valid_query demo_all None 2"
    by (simp_all add: alerts_keyed_def demo_console_def demo_paged_def pageable_def py_len_def valid_query_def at_most_def demo_all_def MAX_LIMIT_def)
  have "filter (matches demo_all) (alerts demo_console) =
      [demo_paged ''a1'' ''2026-01-01'', demo_paged ''a2'' ''2026-01-02'', demo_paged ''a3'' ''2026-01-02'']"
    by (simp add: demo_console_def matches_def column_is_def demo_all_def)
  moreover have "sort_key alert_key [demo_paged ''a1'' ''2026-01-01'', demo_paged ''a2'' ''2026-01-02'', demo_paged ''a3'' ''2026-01-02''] =
      [demo_paged ''a1'' ''2026-01-01'', demo_paged ''a2'' ''2026-01-02'', demo_paged ''a3'' ''2026-01-02'']"
    by (rule sort_key_id_if_sorted) (simp add: demo_paged_def less_eq_prod_def)
  ultimately show ?thesis using paging_reads_every_alert_once [OF q(1,2) t q(3)] by (simp add: newest_first_def)
qed

end
