(* ===== verification/Guarantees.thy ===== *)
theory Guarantees
  imports Plane Alerts
begin

text \<open>What holds over any run of the manager for keys, enrollments and evidence, whatever requests come and in whatever order.\<close>

lemma runs_guarded:
  assumes "acts_through_emit P" and "runs_under A h P w v"
  shows "keys_kept (core w) (core v)" and "(\<And>e. A e \<Longrightarrow> keeps_manifests e) \<Longrightarrow> custody_kept h (core w) (core v)"
proof -
  show "keys_kept (core w) (core v)"
  proof (rule runs_keep [OF assms(2)])
    show "keys_kept (core s) (core s)" for s :: "('a, 'b) world" by (rule keys_kept.R_refl)
    show "keys_kept (core s) (core u)" if "keys_kept (core s) (core t)" "keys_kept (core t) (core u)" for s t u :: "('a, 'b) world"
      using that by (rule keys_kept.R_trans)
    show "stays (\<lambda>w w'. keys_kept (core w) (core w')) (handle e W P q)" for e W q
      using along_handle(2) [OF assms(1), of e W q] by (simp add: stays_def along_def guards_def)
  qed
  show "custody_kept h (core w) (core v)" if "\<And>e. A e \<Longrightarrow> keeps_manifests e"
  proof (rule runs_keep [OF assms(2)])
    show "custody_kept h (core s) (core s)" for s :: "('a, 'b) world" by (rule custody.R_refl)
    show "custody_kept h (core s) (core u)" if "custody_kept h (core s) (core t)" "custody_kept h (core t) (core u)"
      for s t u :: "('a, 'b) world" using that by (rule custody.R_trans)
    show "stays (\<lambda>w w'. custody_kept h (core w) (core w')) (handle e W P q)" if "sha256 e = h" "A e" for e W q
      using along_handle(2) [OF assms(1), of e W q] \<open>\<And>e. A e \<Longrightarrow> keeps_manifests e\<close> [OF that(2)] that(1)
      by (auto simp: stays_def along_def guards_def)
  qed
qed

text \<open>
  C4. Evidence is never lost, changed or miscounted. Over any run, whatever is uploaded, refused, expired or read in between:
  each retained artifact and each attestation is still there, unchanged; each retained artifact has the length and the digest of
  its row; the counters of the store and of the sessions are exact; and the limits on open sessions and artifacts hold.
\<close>

theorem evidence_survives_every_run:
  assumes "acts_through_emit P" and "runs_under keeps_manifests h P w v" and "evidence_inv h (core w)"
  shows "(\<forall>a\<in>set (response_artifacts (core w)). find_by ar_artifact_id (ar_artifact_id a) (response_artifacts (core v)) = Some a) \<and>
    (\<forall>t\<in>set (artifact_manifest_attestations (core w)).
       find_by at_artifact_id (at_artifact_id t) (artifact_manifest_attestations (core v)) = Some t) \<and>
    (\<forall>a\<in>set (response_artifacts (core v)). ar_content_bytes a = int (length (ar_content a)) \<and> ar_sha256 a = h (ar_content a)) \<and>
    au_artifacts (response_artifact_usage (core v)) = int (length (response_artifacts (core v))) \<and>
    au_content_bytes (response_artifact_usage (core v)) = sum_list (map ar_content_bytes (response_artifacts (core v))) \<and>
    tu_open_sessions (response_artifact_transfer_usage (core v)) =
      int (length (filter open_session (response_artifact_transfers (core v)))) \<and>
    tu_open_sessions (response_artifact_transfer_usage (core v)) \<le> MAX_OPEN \<and>
    (\<forall>c. command_count (core v) c \<le> MAX_COMMAND_COUNT \<and> command_bytes (core v) c \<le> MAX_COMMAND_BYTES) \<and>
    int (length (response_artifacts (core v))) \<le> MAX_GLOBAL_COUNT \<and> evidence_inv h (core v)"
proof -
  have k: "custody_kept h (core w) (core v)" by (rule runs_guarded(2) [OF assms(1,2)])
  then have inv: "evidence_inv h (core v)" using assms(3) by (simp add: custody_kept_def)
  then have s: "stored_inv h (core v)" "sessions_inv h (core v)" "in_budget (core v)" by (simp_all add: evidence_inv_def)
  obtain more seals where rows: "response_artifacts (core v) = response_artifacts (core w) @ more"
    "artifact_manifest_attestations (core v) = artifact_manifest_attestations (core w) @ seals"
    using k by (auto simp: custody_kept_def stored_def extends_eq)
  have d: "distinct (map ar_artifact_id (response_artifacts (core v)))" "distinct (map at_artifact_id (artifact_manifest_attestations (core v)))"
    using s(1) by (simp_all add: stored_inv_def)
  have "find_by ar_artifact_id (ar_artifact_id a) (response_artifacts (core v)) = Some a" if "a \<in> set (response_artifacts (core w))" for a
    by (rule find_by_distinct [OF d(1)]) (simp add: rows(1) that)
  moreover have "find_by at_artifact_id (at_artifact_id t) (artifact_manifest_attestations (core v)) = Some t"
    if "t \<in> set (artifact_manifest_attestations (core w))" for t
    by (rule find_by_distinct [OF d(2)]) (simp add: rows(2) that)
  moreover have "ar_content_bytes a = int (length (ar_content a)) \<and> ar_sha256 a = h (ar_content a)"
    if "a \<in> set (response_artifacts (core v))" for a
    using s(1) that by (simp add: stored_inv_def intact_def list_all_iff)
  moreover have "weigh opened (core v) = int (length (filter open_session (response_artifact_transfers (core v))))"
    by (simp add: weigh_def count_sum opened_def [abs_def])
  moreover have "0 \<le> weigh opened (core v)" unfolding weigh_def by (rule sum_list_nonneg) (auto simp: opened_def)
  moreover note s(1) [unfolded stored_inv_def] s(2) [unfolded sessions_inv_def] s(3) [unfolded in_budget_def] inv
  ultimately show ?thesis by (intro conjI ballI allI) (simp_all del: MAX_values)
qed

text \<open>
  C12. A revoked endpoint stays out. Once its enrollment is revoked, then after any further run no token of the endpoint is
  accepted, it has no usable artifact key, and no manifest it signs is accepted, not even for a session admitted earlier.
\<close>

theorem revoked_endpoint_stays_out:
  assumes "acts_through_emit P" and "agents_keyed d" and "revoke_enrollment e agent_id body auth d = (Inr r, core w)"
    and "\<forall>q x. parse_identity_decision body = Some q \<longrightarrow> x \<in> set (artifact_identity_operations d) \<longrightarrow> io_request_id x \<noteq> idn_request_id q"
    and "runs_under A h P w v"
  shows "require_agent_token e' agent_id token (core v) = (Inl agent_auth_required, core v) \<and>
    current_artifact_key (core v) agent_id = None \<and> (\<forall>k. fst (verify_manifest e' agent_id m admitted (core v)) \<noteq> Inr k)"
proof -
  have "locked_out (core w) agent_id" by (rule revoke_enrollment_locks [OF assms(3,2)]) (use assms(4) in blast)
  then have "locked_out (core v) agent_id" by (rule locked_out_kept [OF runs_guarded(1) [OF assms(1,5)]])
  then show ?thesis using locked_out_refused by blast
qed

section \<open>Two runs\<close>

lemma demo_step: "A e \<Longrightarrow> runs_under A (sha256 e) P w (snd (handle e W P q w))"
  by (rule runs_under.request [OF runs_under.start, where e = e and W = W and q = q and r = "fst (handle e W P q w)"]) simp_all

lemma demo_hash: "sha256 evidence_env = sha256 transfer_env"
  by (rule ext) simp

lemma demo_store_evidence: "evidence_inv h demo_delivered"
  by (simp add: evidence_inv_def stored_inv_def sessions_inv_def in_budget_def weigh_def agent_sessions_def command_count_def
      command_bytes_def command_artifacts_def command_sessions_def) (simp add: demo_delivered_def demo_keyring_def demo_fleet_def)

theorem evidence_survives_every_run_witness:
  "\<exists>(w :: (unit, unit) world) a. a \<in> set (response_artifacts (core w)) \<and> ar_content a = ''{}'' \<and>
    find_by ar_artifact_id (ar_artifact_id a)
      (response_artifacts (core (snd (handle transfer_env demo_wire demo_detection IssueChallenge w)))) = Some a"
proof -
  obtain d where run: "retain_signed evidence_env ''agent-1'' ''c1'' demo_manifest ''e30='' None demo_delivered = (Inr (receipt demo_upload), d)"
    using demo_retained by blast
  have inv: "evidence_inv (sha256 transfer_env) d"
    using yields_run [OF custody_retain_signed run] demo_store_evidence demo_hash by (simp add: custody_kept_def)
  obtain a where a: "a \<in> set (response_artifacts d)" "b64decode ''e30='' = Some (ar_content a)" using retain_signed_keeps [OF run] by blast
  moreover have "b64decode ''e30='' = Some ''{}''" by code_simp
  ultimately have c: "ar_content a = ''{}''" by simp
  let ?w = "demo_start\<lparr>core := d\<rparr>"
  have "evidence_inv (sha256 transfer_env) (core ?w)" using inv by simp
  from evidence_survives_every_run [OF demo_engine demo_step [where A = keeps_manifests and q = IssueChallenge and W = demo_wire and e = transfer_env, OF transfer_env_keeps] this]
  show ?thesis using a(1) c by (intro exI [of _ ?w] exI [of _ a]) simp
qed

definition demo_governed :: db where
  "demo_governed = demo_keyring []\<lparr>analyst_credentials := [demo_analyst ''ana'' ''key'' ''approver'']\<rparr>"

definition demo_revocation :: jobj where
  "demo_revocation = [(''request_id'', JStr ''r1''), (''reason'', JStr ''lost'')]"

lemma demo_revoked: "\<exists>v d. revoke_enrollment demo_env ''agent-1'' demo_revocation (Some ''Bearer key'') demo_governed = (Inr v, d)"
proof -
  have p: "require_analyst_permission demo_env (Some ''Bearer key'') ''response:decide'' demo_governed = (Inr ''ana'', demo_governed)"
    using demo_permission [of demo_governed "''ana''" "''key''" "''approver''" "''response:decide''"]
    by (simp add: demo_governed_def py_len_def Let_def)
  have "py_len ''r1'' = 2" "py_len ''lost'' = 4" "list_all is_id_char ''r1''" by code_simp+
  then have q: "parse_identity_decision demo_revocation = Some \<lparr>idn_request_id = ''r1'', idn_reason = ''lost''\<rparr>"
    by (simp add: parse_identity_decision_def demo_revocation_def only_keys_def text_field_def len_between_def id_text_def)
  obtain d1 where r: "revoke_agent demo_env ''agent-1'' (demo_agent ''agent-1'' ''host-1'' ''tok'') demo_governed = (Inr True, d1)"
    and e: "response_audit_ledger d1 = []" "command_audit d1 = []" "response_decision_audit d1 = []"
      "response_artifact_custody d1 = []" "response_security_audit d1 = []" "artifact_identity_operations d1 = []"
    by (simp add: revoke_agent_def update_keys_def bindM_raise_if bindM_assoc demo_governed_def demo_agent_def key_frozen_def retire_key_def)
      (simp add: demo_keyring_def demo_fleet_def)
  obtain d2 where v: "record_event demo_env ''artifact_enrollment_revoked'' ''analyst:ana'' (Some ''host-1'') (Some ''r1'')
      [(''agent_id'', JStr ''agent-1''), (''key_id'', JNull), (''reason'', JStr ''lost'')] d1 = (Inr (), d2)"
    using demo_recorded [OF e(1-5)] by blast
  have "artifact_identity_operations d2 = []" using audit_onlyD [OF stays_run [OF audit_only_writers(4) v]] e(6) by simp
  then have "\<exists>v d. conclude_identity demo_env ''agent-1'' ''analyst:ana'' \<lparr>idn_request_id = ''r1'', idn_reason = ''lost''\<rparr> None
      (demo_agent ''agent-1'' ''host-1'' ''tok'') True d1 = (Inr v, d)"
    using v by (simp add: conclude_identity_def jopt_def insert_identity_operation_def bindM_assoc bindM_raise_if demo_agent_def
        bindM_Inr [where m = "record_event _ _ _ _ _ _"])
  moreover have "find_by ea_agent_id ''agent-1'' (enrolled_agents demo_governed) = Some (demo_agent ''agent-1'' ''host-1'' ''tok'')"
    "artifact_identity_operations demo_governed = []"
    by (simp_all add: demo_governed_def demo_agent_def) (simp add: demo_keyring_def demo_fleet_def)
  ultimately show ?thesis
    using p q r by (simp add: revoke_enrollment_def decide_on_identity_def as_analyst_def identity_operation_def decide_identity_def
        bindM_Inr [where m = "require_analyst_permission _ _ _"] bindM_Inr [where m = "revoke_agent _ _ _"] bindM_assoc)
qed

theorem revoked_endpoint_stays_out_witness:
  "\<exists>v d. revoke_enrollment demo_env ''agent-1'' demo_revocation (Some ''Bearer key'') demo_governed = (Inr v, d) \<and>
    require_agent_token demo_env ''agent-1'' (Some ''Bearer tok'') demo_governed = (Inr (), demo_governed) \<and>
    (let u = core (snd (handle demo_env demo_wire demo_detection IssueChallenge (demo_start\<lparr>core := d\<rparr>)))
     in require_agent_token demo_env ''agent-1'' (Some ''Bearer tok'') u = (Inl agent_auth_required, u))"
proof -
  obtain v d where run: "revoke_enrollment demo_env ''agent-1'' demo_revocation (Some ''Bearer key'') demo_governed = (Inr v, d)"
    using demo_revoked by blast
  let ?w = "demo_start\<lparr>core := d\<rparr>"
  have r: "revoke_enrollment demo_env ''agent-1'' demo_revocation (Some ''Bearer key'') demo_governed = (Inr v, core ?w)" using run by simp
  have keyed: "agents_keyed demo_governed" by (simp add: agents_keyed_def demo_governed_def)
  have first: "\<forall>q x. parse_identity_decision demo_revocation = Some q \<longrightarrow> x \<in> set (artifact_identity_operations demo_governed) \<longrightarrow>
      io_request_id x \<noteq> idn_request_id q"
    by (simp add: demo_governed_def demo_keyring_def demo_fleet_def)
  have "require_agent_token demo_env ''agent-1'' (Some ''Bearer tok'') demo_governed = (Inr (), demo_governed)"
    by (simp add: require_agent_token_def bearer_token_def starts_with_def active_agent_def demo_governed_def demo_agent_def digest_def
        bindM_raise_if py_len_def Let_def)
  then show ?thesis
    using run revoked_endpoint_stays_out [OF demo_engine keyed r first
        demo_step [where A = "\<lambda>e. True" and q = IssueChallenge and W = demo_wire and e = demo_env, OF TrueI]]
    by (auto simp: Let_def simp del: handle.simps)
qed

end
