(* ===== verification/Reading.thy ===== *)
theory Reading
  imports Delivery
begin

text \<open>What a reader of evidence gets: only what a live grant opens, only what its signature vouches for, and all of it.\<close>

section \<open>A read that returns\<close>

lemma auditing_refusals_Inr_iff [simp]: "auditing_refusals e i auth m s = (Inr a, s') \<longleftrightarrow> m s = (Inr a, s')"
  by (auto simp: auditing_refusals_def tryM_def bindM_Inr_iff split: prod.splits sum.splits exn.splits
      dest: transaction_Inr_iff [THEN iffD1] transaction_Inr_iff [THEN iffD2])

lemma require_artifact_Inr:
  assumes "require_artifact e i auth d = (Inr (analyst, row), d')"
  shows "d' = d" and "require_analyst_permission e auth ''artifact:read'' d = (Inr analyst, d)" and "held_artifact d i = Some row"
    and "can_read e d analyst (Some (ar_host_id (hd_artifact row))) (hd_alert_id row)"
proof -
  obtain d1 where p: "require_analyst_permission e auth ''artifact:read'' d = (Inr analyst, d1)" and r: "held_artifact d1 i = Some row"
    "can_read e d1 analyst (Some (ar_host_id (hd_artifact row))) (hd_alert_id row)" "d' = d1"
    using assms unfolding require_artifact_def by (auto simp: bindM_Inr_iff)
  have "d1 = d" by (rule permission_read [OF p])
  then show "d' = d" "require_analyst_permission e auth ''artifact:read'' d = (Inr analyst, d)" "held_artifact d i = Some row"
    "can_read e d analyst (Some (ar_host_id (hd_artifact row))) (hd_alert_id row)" using p r by simp_all
qed

lemma held_artifact_SomeD: "held_artifact d i = Some row \<Longrightarrow> find_by ar_artifact_id i (response_artifacts d) = Some (hd_artifact row)"
  by (auto simp: held_artifact_def split: option.splits)

lemma read_transaction_Inr:
  assumes "read_transaction e i auth allow read d = (Inr a, d')"
  obtains analyst row x where "require_artifact e i auth d = (Inr (analyst, row), d)"
    and "verified e d (hd_artifact row) analyst allow = Inr x" and "read analyst row x d = (Inr a, d')"
proof -
  obtain r d1 where m: "read_verified e i auth allow read d = (Inr r, d1)"
    and rest: "(case r of Inl f \<Rightarrow> seqM (audit_read_refusal e i auth (rf_code f) (rf_detail f) (Some f))
                 (throw (HTTPException (rf_code f) (rf_detail f))) | Inr a \<Rightarrow> ret a) d1 = (Inr a, d')"
    using assms unfolding read_transaction_def by (auto simp: bindM_Inr_iff)
  have r: "r = Inr a" "d1 = d'" using rest by (auto simp: bindM_Inr_iff split: sum.splits)
  obtain analyst row d0 where q: "require_artifact e i auth d = (Inr (analyst, row), d0)"
    and v: "(case verified e d0 (hd_artifact row) analyst allow of Inl f \<Rightarrow> ret (Inl f) | Inr x \<Rightarrow> bindM (read analyst row x) (\<lambda>a. ret (Inr a))) d0 = (Inr r, d1)"
    using m unfolding read_verified_def by (auto simp: bindM_Inr_iff)
  have "d0 = d" by (rule require_artifact_Inr(1) [OF q])
  moreover obtain x where "verified e d0 (hd_artifact row) analyst allow = Inr x" "read analyst row x d0 = (Inr a, d')"
    using v r by (auto simp: bindM_Inr_iff split: sum.splits)
  ultimately show ?thesis using that q by simp
qed

lemma custody_event_row:
  assumes "custody_event e i ev actor detail d = (Inr u, d')"
  shows "\<exists>r. response_artifact_custody d' = response_artifact_custody d @ [r] \<and> cu_artifact_id r = i \<and> cu_event r = ev \<and> cu_actor r = actor \<and>
    cu_detail r = canonical (JObj detail)"
  using assms unfolding custody_event_def insert_custody_def Let_def
  by (auto simp: bindM_raise_if split: if_splits dest!: chain_tables(4))

lemma signed_manifest_SomeD:
  assumes "signed_manifest e d a t k = Some (m, dig)"
  shows "json_loads (at_manifest_json t) = Some (JObj m)" and "dig = sha256 e (canonical (JObj m))"
    and "verified_digest d (ar_artifact_id a) = Some (JStr dig)" and "repeats_row m a" and "at_agent_id t = ar_agent_id a" and "signed_by e m t k"
  using assms unfolding signed_manifest_def Let_def by (auto split: option.splits json.splits if_splits)

lemma verified_Inr:
  assumes "verified e d a analyst allow = Inr x"
  obtains t k where "find_by at_artifact_id (ar_artifact_id a) (artifact_manifest_attestations d) = Some t"
    and "k \<in> set (artifact_signing_keys d)" and "ak_agent_id k = at_agent_id t" and "ak_key_id k = at_key_id t"
    and "allow \<or> key_status k \<noteq> ''compromised_key''" and "whole e a" and "dl_artifact x = a" and "dl_attestation x = t" and "dl_key x = k"
    and "signed_manifest e d a t k = Some (dl_manifest x, dl_digest x)"
proof -
  obtain t k where s: "retained_status d (ar_artifact_id a) = Some (t, k)" and v: "verified_by e d a analyst allow t k = Inr x"
    using assms by (auto simp: verified_def split: option.splits)
  have t: "find_by at_artifact_id (ar_artifact_id a) (artifact_manifest_attestations d) = Some t"
    "List.find (\<lambda>k. ak_agent_id k = at_agent_id t \<and> ak_key_id k = at_key_id t) (artifact_signing_keys d) = Some k"
    using s by (auto simp: retained_status_def split: option.splits)
  have v': "allow \<or> key_status k \<noteq> ''compromised_key''" "whole e a" "dl_artifact x = a" "dl_attestation x = t" "dl_key x = k"
    "signed_manifest e d a t k = Some (dl_manifest x, dl_digest x)"
    using v by (auto simp: verified_by_def split: if_splits option.splits)
  show ?thesis using that [OF t(1) _ _ _ v'] find_SomeD [OF t(2)] by blast
qed

text \<open>
  C9. Evidence is only handed out to a reader with a live grant for its host and its case, and only while it is what was signed:
  its bytes have the recorded length and digest, its manifest names this very artifact and is the one verified at ingest, and the
  signature verifies under a key of the agent that is not compromised. What is handed out are the bytes, the manifest and the key,
  and the download is in the custody record under the reader's name.
\<close>

theorem evidence_is_read_as_it_was_signed:
  assumes "content e i auth d = (Inr text, d')"
  shows "\<exists>analyst row a t k m. require_analyst_permission e auth ''artifact:read'' d = (Inr analyst, d) \<and>
    find_by ar_artifact_id i (response_artifacts d) = Some a \<and> held_artifact d i = Some row \<and>
    can_read e d analyst (Some (ar_host_id a)) (hd_alert_id row) \<and>
    int (length (ar_content a)) = ar_content_bytes a \<and> sha256 e (ar_content a) = ar_sha256 a \<and>
    find_by at_artifact_id i (artifact_manifest_attestations d) = Some t \<and> json_loads (at_manifest_json t) = Some (JObj m) \<and>
    repeats_row m a \<and> verified_digest d i = Some (JStr (sha256 e (canonical (JObj m)))) \<and>
    k \<in> set (artifact_signing_keys d) \<and> ak_agent_id k = ar_agent_id a \<and> key_status k \<noteq> ''compromised_key'' \<and> signed_by e m t k \<and>
    text = canonical (JObj [(''manifest'', JObj m), (''content_base64'', JStr (b64encode (ar_content a))),
      (''signing_key'', JObj (status_json (Some (t, k))))]) \<and>
    response_artifacts d' = response_artifacts d \<and>
    (\<exists>r. response_artifact_custody d' = response_artifact_custody d @ [r] \<and> cu_artifact_id r = i \<and>
       cu_event r = ''download_requested'' \<and> cu_actor r = ''analyst:'' @ analyst)"
proof -
  obtain analyst row x where q: "require_artifact e i auth d = (Inr (analyst, row), d)"
    and v: "verified e d (hd_artifact row) analyst False = Inr x" and r: "content_read e i analyst row x d = (Inr text, d')"
    using assms unfolding content_def by (rule read_transaction_Inr)
  note p = require_artifact_Inr [OF q]
  note h = held_artifact_SomeD [OF p(3)]
  have i: "ar_artifact_id (hd_artifact row) = i" using find_by_SomeD [OF h] by simp
  obtain t k where k: "find_by at_artifact_id (ar_artifact_id (hd_artifact row)) (artifact_manifest_attestations d) = Some t"
    "k \<in> set (artifact_signing_keys d)" "ak_agent_id k = at_agent_id t" "False \<or> key_status k \<noteq> ''compromised_key''"
    and w: "whole e (hd_artifact row)" and x: "dl_artifact x = hd_artifact row" "dl_attestation x = t" "dl_key x = k"
    and m: "signed_manifest e d (hd_artifact row) t k = Some (dl_manifest x, dl_digest x)"
    using v by (rule verified_Inr)
  note s = signed_manifest_SomeD [OF m]
  obtain u where c: "custody_event e i ''download_requested'' (''analyst:'' @ analyst)
      [(''sha256'', JStr (ar_sha256 (hd_artifact row))), (''content_bytes'', JInt (int (length (ar_content (dl_artifact x)))))] d = (Inr u, d')"
    and out: "text = canonical (package x)"
    using r unfolding content_read_def by (auto simp: bindM_Inr_iff)
  have "response_artifacts d' = response_artifacts d" using audit_onlyD(21) [OF stays_run [OF audit_only_writers(7) c]] .
  moreover have "\<exists>r. response_artifact_custody d' = response_artifact_custody d @ [r] \<and> cu_artifact_id r = i \<and>
      cu_event r = ''download_requested'' \<and> cu_actor r = ''analyst:'' @ analyst"
    using custody_event_row [OF c] by blast
  ultimately show ?thesis
    using p(2-4) h i k w x s out
    by (intro exI [of _ analyst] exI [of _ row] exI [of _ "hd_artifact row"] exI [of _ t] exI [of _ k] exI [of _ "dl_manifest x"])
      (simp add: whole_def package_def)
qed

section \<open>A download frame by frame\<close>

text \<open>
  A client that starts at offset 0 and follows the offsets it is given until a frame is the last; \<open>None\<close> when the number of
  requests it allows itself is not enough.
\<close>

primrec fetch :: "env \<Rightarrow> string \<Rightarrow> string \<Rightarrow> string option \<Rightarrow> nat \<Rightarrow> int \<Rightarrow> (db, string option) act" where
  "fetch e i manifest_sha256 auth 0 offset = ret None"
| "fetch e i manifest_sha256 auth (Suc n) offset =
    bindM (chunks e i offset manifest_sha256 auth) (\<lambda>f.
    if df_complete f then ret (Some (df_content f))
    else bindM (fetch e i manifest_sha256 auth n (df_next_offset f)) (\<lambda>r. ret (map_option (\<lambda>t. df_content f @ t) r)))"

lemma chunks_Inr:
  assumes "chunks e i offset dig auth d = (Inr f, d')"
  obtains a where "find_by ar_artifact_id i (response_artifacts d) = Some a" and "0 \<le> offset" and "offset < int (length (ar_content a))"
    and "df_content f = take 65536 (drop (nat offset) (ar_content a))" and "df_next_offset f = offset + int (length (df_content f))"
    and "df_complete f \<longleftrightarrow> df_next_offset f = int (length (ar_content a))" and "response_artifacts d' = response_artifacts d"
    and "sha256 e (ar_content a) = ar_sha256 a"
    and "\<exists>r. response_artifact_custody d' = response_artifact_custody d @ [r] \<and> cu_artifact_id r = i \<and> cu_event r = ''artifact_download_chunk''"
proof -
  have o: "0 \<le> offset" and t: "read_transaction e i auth False (chunk_read e i offset dig) d = (Inr f, d')"
    using assms unfolding chunks_def by (auto simp: bindM_raise_if split: if_splits)
  obtain analyst row x where q: "require_artifact e i auth d = (Inr (analyst, row), d)"
    and v: "verified e d (hd_artifact row) analyst False = Inr x" and r: "chunk_read e i offset dig analyst row x d = (Inr f, d')"
    using t by (rule read_transaction_Inr)
  note h = held_artifact_SomeD [OF require_artifact_Inr(3) [OF q]]
  have x: "dl_artifact x = hd_artifact row" and w: "whole e (hd_artifact row)" using v by (rule verified_Inr; blast)+
  let ?data = "ar_content (hd_artifact row)" and ?chunk = "take 65536 (drop (nat offset) (ar_content (hd_artifact row)))"
  obtain u detail where in_range: "offset < int (length ?data)"
    and c: "custody_event e i ''artifact_download_chunk'' (''analyst:'' @ analyst) detail d = (Inr u, d')"
    and f: "f = \<lparr>df_offset = offset, df_content = ?chunk, df_sha256 = sha256 e ?chunk, df_next_offset = offset + int (length ?chunk),
           df_complete = (offset + int (length ?chunk) = int (length ?data))\<rparr>"
    using r unfolding chunk_read_def Let_def x by (auto simp: bindM_raise_if bindM_Inr_iff not_le split: if_splits)
  have same: "response_artifacts d' = response_artifacts d" using audit_onlyD(21) [OF stays_run [OF audit_only_writers(7) c]] .
  show ?thesis
    by (rule that [OF h o in_range]) (use f same w custody_event_row [OF c] in \<open>auto simp: whole_def\<close>)
qed

lemma fetch_rest:
  assumes "fetch e i dig auth n offset d = (Inr r, d')" and "find_by ar_artifact_id i (response_artifacts d) = Some a"
    and "0 \<le> offset" and "offset < int (length (ar_content a))" and "int (length (ar_content a)) \<le> offset + 65536 * int n"
  shows "r = Some (drop (nat offset) (ar_content a)) \<and> response_artifacts d' = response_artifacts d \<and>
    (\<exists>new. response_artifact_custody d' = response_artifact_custody d @ new \<and>
       int (length new) = (int (length (ar_content a)) - offset + 65535) div 65536 \<and>
       (\<forall>r\<in>set new. cu_artifact_id r = i \<and> cu_event r = ''artifact_download_chunk''))"
  using assms
proof (induction n arbitrary: offset d r)
  case (Suc n)
  obtain f d1 where one: "chunks e i offset dig auth d = (Inr f, d1)"
    and rest: "(if df_complete f then ret (Some (df_content f))
      else bindM (fetch e i dig auth n (df_next_offset f)) (\<lambda>r. ret (map_option (\<lambda>t. df_content f @ t) r))) d1 = (Inr r, d')"
    using Suc.prems(1) unfolding fetch.simps bindM_Inr_iff by blast
  obtain row where c: "df_content f = take 65536 (drop (nat offset) (ar_content a))"
    "df_next_offset f = offset + int (length (df_content f))" "df_complete f \<longleftrightarrow> df_next_offset f = int (length (ar_content a))"
    "response_artifacts d1 = response_artifacts d"
    and row: "response_artifact_custody d1 = response_artifact_custody d @ [row]" "cu_artifact_id row = i" "cu_event row = ''artifact_download_chunk''"
    using one by (rule chunks_Inr) (use Suc.prems(2) in auto)
  have len: "int (length (df_content f)) = min 65536 (int (length (ar_content a)) - offset)" using c(1) Suc.prems(3,4) by simp
  show ?case
  proof (cases "df_complete f")
    case True
    then have "int (length (ar_content a)) - offset \<le> 65536" using c(2,3) len by simp
    moreover from this have "df_content f = drop (nat offset) (ar_content a)" using c(1) by simp
    moreover have "(int (length (ar_content a)) - offset + 65535) div 65536 = 1"
      using \<open>int (length (ar_content a)) - offset \<le> 65536\<close> Suc.prems(4) by simp
    ultimately show ?thesis using True rest c(4) row by auto
  next
    case False
    then have more: "65536 < int (length (ar_content a)) - offset" "df_next_offset f = offset + 65536" using c(2,3) len by auto
    obtain r1 where go: "fetch e i dig auth n (offset + 65536) d1 = (Inr r1, d')" "r = map_option (\<lambda>t. df_content f @ t) r1"
      using rest False more(2) by (auto simp: bindM_Inr_iff)
    have "find_by ar_artifact_id i (response_artifacts d1) = Some a" using c(4) Suc.prems(2) by simp
    from Suc.IH [OF go(1) this] Suc.prems(3,5) more(1) obtain new where
      tail: "r1 = Some (drop (nat (offset + 65536)) (ar_content a))" "response_artifacts d' = response_artifacts d1"
        "response_artifact_custody d' = response_artifact_custody d1 @ new"
        "int (length new) = (int (length (ar_content a)) - (offset + 65536) + 65535) div 65536"
        "\<forall>r\<in>set new. cu_artifact_id r = i \<and> cu_event r = ''artifact_download_chunk''"
      by auto
    have "nat (offset + 65536) = nat offset + 65536" using Suc.prems(3) by linarith
    then have "drop (nat (offset + 65536)) (ar_content a) = drop 65536 (drop (nat offset) (ar_content a))" by (simp add: add.commute)
    then have "df_content f @ drop (nat (offset + 65536)) (ar_content a) = drop (nat offset) (ar_content a)"
      unfolding c(1) by (simp only: append_take_drop_id)
    moreover have "(int (length (ar_content a)) - offset + 65535) div 65536 = 1 + (int (length (ar_content a)) - (offset + 65536) + 65535) div 65536"
      using more(1) by simp
    ultimately show ?thesis using go(2) tail c(4) row by (intro conjI exI [of _ "row # new"]) auto
  qed
qed simp

text \<open>
  C17. A download is whole. A client that follows the offsets from 0 needs at most sixteen requests, and when none of them is refused
  it holds exactly the bytes of the artifact, which have the digest of its row; every frame it got is in the custody record, one
  event each, and the evidence itself is unchanged.
\<close>

theorem download_returns_the_whole_content:
  assumes "fetch e i manifest_sha256 auth 16 0 d = (Inr r, d')" and "\<forall>a\<in>set (response_artifacts d). intact (sha256 e) a"
  shows "\<exists>a new. find_by ar_artifact_id i (response_artifacts d) = Some a \<and> r = Some (ar_content a) \<and>
    sha256 e (ar_content a) = ar_sha256 a \<and> response_artifacts d' = response_artifacts d \<and>
    response_artifact_custody d' = response_artifact_custody d @ new \<and>
    int (length new) = (ar_content_bytes a + 65535) div 65536 \<and>
    (\<forall>r\<in>set new. cu_artifact_id r = i \<and> cu_event r = ''artifact_download_chunk'')"
proof -
  obtain f d1 where "chunks e i 0 manifest_sha256 auth d = (Inr f, d1)"
    using assms(1) unfolding numeral_eq_Suc pred_numeral_simps fetch.simps bindM_Inr_iff by blast
  then obtain a where a: "find_by ar_artifact_id i (response_artifacts d) = Some a" by (rule chunks_Inr)
  have "intact (sha256 e) a" using find_by_SomeD [OF a] assms(2) by blast
  then have n: "ar_content_bytes a = int (length (ar_content a))" "1 \<le> ar_content_bytes a" "ar_content_bytes a \<le> 1048576"
    "sha256 e (ar_content a) = ar_sha256 a"
    by (simp_all add: intact_def)
  then have size: "0 < int (length (ar_content a))" "int (length (ar_content a)) \<le> 0 + 65536 * int 16" by linarith+
  show ?thesis using fetch_rest [OF assms(1) a order_refl size] a n by (intro exI [of _ a]) auto
qed


section \<open>A report on the shelf\<close>

definition read_env :: env where
  "read_env = transfer_env\<lparr>permissions_for := (\<lambda>r. [''artifact:read''])\<rparr>"

lemma read_env_simps [simp]:
  "sha256 read_env t = replicate 64 CHR ''0''" "artifact_signing_input read_env x = Some ''manifest''"
  "ecdsa_verify read_env p t x1 = True" "on_curve read_env p = True" "permissions_for read_env r = [''artifact:read'']"
  by (simp_all add: read_env_def)

definition demo_artifact_id :: string where
  "demo_artifact_id = ''art_'' @ replicate 64 CHR ''0''"

definition demo_reader :: "string option" where
  "demo_reader = Some (''Bearer '' @ ''tok'')"

definition shelf_manifest :: jobj where
  "shelf_manifest = [(''agent_id'', JStr ''agent-1''), (''artifact_id'', JStr demo_artifact_id),
     (''authorization'', JObj [(''key_id'', JStr (take 16 (demo_point CHR ''a''))), (''signature'', JStr (b64encode (replicate 64 CHR ''s'')))]),
     (''command_id'', JStr ''c1''), (''content_bytes'', JInt 2), (''correlation_id'', JStr ''k1''), (''host_id'', JStr ''host-1''),
     (''kind'', JStr ''execution_report''), (''media_type'', JStr ''application/json''), (''sha256'', JStr (replicate 64 CHR ''0''))]"

lemma shelf_manifest_text: "json_loads (canonical (JObj shelf_manifest)) = Some (JObj shelf_manifest)"
proof -
  have "wf_json (JObj shelf_manifest)" by (simp add: shelf_manifest_def)
  moreover have "sort_json (JObj shelf_manifest) = JObj shelf_manifest" by (simp add: shelf_manifest_def)
  ultimately show ?thesis using json_loads_canonical by simp
qed

definition shelf_row :: artifact_row where
  "shelf_row = \<lparr>ar_artifact_id = demo_artifact_id, ar_agent_id = ''agent-1'', ar_command_id = ''c1'', ar_host_id = ''host-1'',
     ar_correlation_id = ''k1'', ar_kind = ''execution_report'', ar_media_type = ''application/json'', ar_content_bytes = 2,
     ar_sha256 = replicate 64 CHR ''0'', ar_manifest_digest = replicate 64 CHR ''0'', ar_content = ''{}'', ar_received_at = ''t''\<rparr>"

definition shelf_attestation :: attestation_row where
  "shelf_attestation = \<lparr>at_artifact_id = demo_artifact_id, at_agent_id = ''agent-1'', at_key_id = take 16 (demo_point CHR ''a''),
     at_key_version = 1, at_manifest_json = canonical (JObj shelf_manifest), at_verified_at = ''t''\<rparr>"

definition shelf_grant :: grant_row where
  "shelf_grant = \<lparr>ag_grant_id = ''g'', ag_analyst_id = ''ana'', ag_credential_digest = replicate 64 CHR ''0'', ag_host_id = ''host-1'',
     ag_alert_id = ''a1'', ag_policy_version = POLICY_VERSION, ag_granted_by = ''analyst:adm'', ag_reason = ''case work'',
     ag_created_at = ''t'', ag_revoked_at = None, ag_revoked_by = None, ag_revoke_reason = None\<rparr>"

definition on_shelf :: "db \<Rightarrow> bool" where
  "on_shelf d \<longleftrightarrow> analyst_credentials d = [demo_analyst ''ana'' (replicate 64 CHR ''0'') ''analyst''] \<and>
    artifact_access_grants d = [shelf_grant] \<and> response_artifacts d = [shelf_row] \<and>
    artifact_manifest_attestations d = [shelf_attestation] \<and> artifact_signing_keys d = [demo_artifact_key] \<and>
    commands d = [demo_collection] \<and> verified_digest d demo_artifact_id = Some (JStr (replicate 64 CHR ''0'')) \<and>
    audit_inv (sha256 read_env) d"

lemma demo_shelf: "\<exists>d. on_shelf d"
proof -
  define d0 where "d0 = empty_db\<lparr>analyst_credentials := [demo_analyst ''ana'' (replicate 64 CHR ''0'') ''analyst''],
    artifact_access_grants := [shelf_grant], response_artifacts := [shelf_row],
    artifact_manifest_attestations := [shelf_attestation], artifact_signing_keys := [demo_artifact_key], commands := [demo_collection]\<rparr>"
  have inv: "audit_inv (sha256 read_env) d0"
    using audit_inv_empty [of "sha256 read_env"] audit_inv_at_cong [of d0 empty_db] by (simp add: audit_inv_def d0_def)
  have there: "demo_artifact_id \<in> ar_artifact_id ` set (response_artifacts d0)" by (simp add: d0_def shelf_row_def)
  obtain d where run: "custody_event read_env demo_artifact_id ''artifact_signature_verified'' ''system:artifact-verifier''
      [(''manifest_sha256'', JStr (replicate 64 CHR ''0''))] d0 = (Inr (), d)"
    and d: "audit_inv (sha256 read_env) d" "quiet d0 d" using custody_event_runs [OF inv there] by blast
  obtain r where r: "response_artifact_custody d = response_artifact_custody d0 @ [r]" "cu_artifact_id r = demo_artifact_id"
    "cu_event r = ''artifact_signature_verified''" "cu_detail r = canonical (JObj [(''manifest_sha256'', JStr (replicate 64 CHR ''0''))])"
    using custody_event_row [OF run] by blast
  have "json_loads (cu_detail r) = Some (JObj [(''manifest_sha256'', JStr (replicate 64 CHR ''0''))])"
    unfolding r(4) by (subst json_loads_canonical) simp_all
  then have "verified_digest d demo_artifact_id = Some (JStr (replicate 64 CHR ''0''))"
    using r(1-3) by (simp add: verified_digest_def order_by_def d0_def jget_def)
  then have "on_shelf d" unfolding on_shelf_def using d(1) d(2) [unfolded quiet_def, THEN conjunct1, THEN audit_onlyD(6)]
      d(2) [unfolded quiet_def, THEN conjunct1, THEN audit_onlyD(1)] d(2) [unfolded quiet_def, THEN conjunct1, THEN audit_onlyD(12)]
      d(2) [unfolded quiet_def, THEN conjunct1, THEN audit_onlyD(21)] d(2) [unfolded quiet_def, THEN conjunct1, THEN audit_onlyD(26)]
      d(2) [unfolded quiet_def, THEN conjunct1, THEN audit_onlyD(30)]
    by (simp add: d0_def)
  then show ?thesis by blast
qed


definition shelf_evidence :: delivered where
  "shelf_evidence = \<lparr>dl_artifact = shelf_row, dl_attestation = shelf_attestation, dl_key = demo_artifact_key,
     dl_manifest = shelf_manifest, dl_digest = replicate 64 CHR ''0''\<rparr>"

lemma shelf_opens:
  assumes "on_shelf d"
  shows "\<exists>row. require_artifact read_env demo_artifact_id demo_reader d = (Inr (''ana'', row), d) \<and>
    hd_artifact row = shelf_row"
proof -
  note t = assms [unfolded on_shelf_def]
  have "bearer_token demo_reader = Some ''tok''" unfolding bearer_token_iff demo_reader_def by (simp, code_simp)
  then have "require_analyst_token read_env demo_reader d = (Inr ''ana'', d)"
    unfolding require_analyst_token_def using t by (simp add: digest_def)
  then have p: "require_analyst_permission read_env demo_reader ''artifact:read'' d = (Inr ''ana'', d)"
    unfolding require_analyst_permission_def analyst_access_def using t by (simp add: bindM_Inr bindM_raise_if)
  obtain row where row: "held_artifact d demo_artifact_id = Some row" "hd_artifact row = shelf_row" "hd_alert_id row = Some ''a1''"
    using t by (simp add: held_artifact_def shelf_row_def demo_collection_def)
  have "can_read read_env d ''ana'' (Some ''host-1'') (Some ''a1'')"
    using t by (simp add: can_read_def live_credential_def reads_artifacts_def grant_for_def shelf_grant_def)
  then have "can_read read_env d ''ana'' (Some (ar_host_id shelf_row)) (hd_alert_id row)" using row(3) by (simp add: shelf_row_def)
  then show ?thesis using row(1,2)
    by (simp add: require_artifact_def bindM_Inr [where m = "require_analyst_permission _ _ _", OF p] bindM_raise_if)
qed

lemma shelf_verified:
  assumes "on_shelf d"
  shows "verified read_env d shelf_row ''ana'' False = Inr shelf_evidence"
proof -
  note t = assms [unfolded on_shelf_def]
  have "retained_status d demo_artifact_id = Some (shelf_attestation, demo_artifact_key)"
    using t by (simp add: retained_status_def shelf_attestation_def demo_artifact_key_def)
  moreover have "verify_signature read_env (b64encode (demo_point CHR ''a'')) (b64encode (replicate 64 CHR ''s'')) ''manifest''"
    by (simp add: verify_signature_def public_point_def b64decode_b64encode demo_point_def)
  then have "signed_by read_env shelf_manifest shelf_attestation demo_artifact_key"
    by (simp add: signed_by_def shelf_manifest_def jget_def shelf_attestation_def demo_artifact_key_def)
  moreover have "repeats_row shelf_manifest shelf_row" by (simp add: repeats_row_def shelf_manifest_def shelf_row_def jget_def)
  moreover have "at_agent_id shelf_attestation = ar_agent_id shelf_row" "at_manifest_json shelf_attestation = canonical (JObj shelf_manifest)"
    "ar_artifact_id shelf_row = demo_artifact_id" by (simp_all add: shelf_attestation_def shelf_row_def)
  moreover have "key_status demo_artifact_key = ''active_key''" by (simp add: key_status_def demo_artifact_key_def jopt_def)
  moreover have "whole read_env shelf_row" by (simp add: whole_def shelf_row_def)
  ultimately show ?thesis using t shelf_manifest_text
    by (simp add: verified_def verified_by_def signed_manifest_def Let_def shelf_evidence_def)
qed

lemma shelf_read:
  assumes "on_shelf d" and "\<And>row. hd_artifact row = shelf_row \<Longrightarrow> read ''ana'' row shelf_evidence d = (Inr a, d')"
  shows "read_transaction read_env demo_artifact_id demo_reader False read d = (Inr a, d')"
proof -
  obtain row where q: "require_artifact read_env demo_artifact_id demo_reader d = (Inr (''ana'', row), d)"
    and row: "hd_artifact row = shelf_row" using shelf_opens [OF assms(1)] by blast
  have "read_verified read_env demo_artifact_id demo_reader False read d = (Inr (Inr a), d')"
    unfolding read_verified_def using row shelf_verified [OF assms(1)]
    by (simp add: bindM_Inr [where m = "require_artifact _ _ _", OF q] bindM_Inr [where m = "read _ _ _", OF assms(2) [OF row]])
  then show ?thesis unfolding read_transaction_def
    by (simp add: bindM_Inr [where m = "auditing_refusals _ _ _ _", OF auditing_refusals_Inr_iff [THEN iffD2]])
qed

lemma shelf_custody:
  assumes "on_shelf d"
  obtains d' where "custody_event read_env demo_artifact_id ev actor detail d = (Inr (), d')"
proof -
  have "demo_artifact_id \<in> ar_artifact_id ` set (response_artifacts d)" using assms by (simp add: on_shelf_def shelf_row_def)
  moreover have "audit_inv (sha256 read_env) d" using assms by (simp add: on_shelf_def)
  ultimately show ?thesis using that custody_event_runs by blast
qed

theorem evidence_is_read_as_it_was_signed_witness:
  "\<exists>d text d'. content read_env demo_artifact_id demo_reader d = (Inr text, d') \<and>
    response_artifacts d' = [shelf_row] \<and>
    (\<exists>r. response_artifact_custody d' = response_artifact_custody d @ [r] \<and> cu_actor r = ''analyst:'' @ ''ana'')"
proof -
  obtain d where d: "on_shelf d" using demo_shelf by blast
  obtain d' where c: "custody_event read_env demo_artifact_id ''download_requested'' (''analyst:'' @ ''ana'')
      [(''sha256'', JStr (ar_sha256 shelf_row)), (''content_bytes'', JInt (int (length (ar_content (dl_artifact shelf_evidence)))))] d = (Inr (), d')"
    using shelf_custody [OF d] by blast
  have "content read_env demo_artifact_id demo_reader d = (Inr (canonical (package shelf_evidence)), d')"
    unfolding content_def
    by (rule shelf_read [OF d]) (simp only: content_read_def bindM_Inr [where m = "custody_event _ _ _ _ _", OF c] ret_def)
  from evidence_is_read_as_it_was_signed [OF this] this obtain who row a r where
    run: "content read_env demo_artifact_id demo_reader d = (Inr (canonical (package shelf_evidence)), d')"
    and who: "require_analyst_permission read_env demo_reader ''artifact:read'' d = (Inr who, d)"
    and same: "response_artifacts d' = response_artifacts d"
    and r: "response_artifact_custody d' = response_artifact_custody d @ [r]" "cu_actor r = ''analyst:'' @ who" by blast
  have "who = ''ana''" using who shelf_opens [OF d] require_artifact_Inr(2) by fastforce
  moreover have "response_artifacts d = [shelf_row]" using d by (simp add: on_shelf_def)
  ultimately show ?thesis using run same r by metis
qed

theorem download_returns_the_whole_content_witness:
  "\<exists>d d'. fetch read_env demo_artifact_id (replicate 64 CHR ''0'') demo_reader 16 0 d = (Inr (Some ''{}''), d')"
proof -
  let ?z = "replicate 64 CHR ''0''"
  obtain d where d: "on_shelf d" using demo_shelf by blast
  obtain d' where c: "custody_event read_env demo_artifact_id ''artifact_download_chunk'' (''analyst:'' @ ''ana'')
      [(''manifest_sha256'', JStr ?z), (''offset'', JInt 0), (''content_bytes'', JInt 2), (''sha256'', JStr ?z)] d = (Inr (), d')"
    using shelf_custody [OF d] by blast
  let ?f = "\<lparr>df_offset = 0, df_content = ''{}'', df_sha256 = ?z, df_next_offset = 2, df_complete = True\<rparr>"
  have "chunk_read read_env demo_artifact_id 0 ?z ''ana'' row shelf_evidence d = (Inr ?f, d')" for row
    unfolding chunk_read_def using c by (simp add: shelf_evidence_def shelf_row_def bindM_raise_if bindM_Inr)
  then have "read_transaction read_env demo_artifact_id demo_reader False (chunk_read read_env demo_artifact_id 0 ?z) d = (Inr ?f, d')"
    by (intro shelf_read [OF d])
  moreover have "hex_text 64 ?z" by code_simp
  ultimately have "chunks read_env demo_artifact_id 0 ?z demo_reader d = (Inr ?f, d')"
    by (simp add: chunks_def bindM_raise_if)
  then have run: "\<exists>r. fetch read_env demo_artifact_id ?z demo_reader 16 0 d = (Inr r, d')"
    unfolding numeral_eq_Suc pred_numeral_simps fetch.simps by (simp add: bindM_Inr [where m = "chunks _ _ _ _ _"])
  have "\<forall>a\<in>set (response_artifacts d). intact (sha256 read_env) a"
    using d by (simp add: on_shelf_def intact_def shelf_row_def MAX_CONTENT_def)
  then obtain a r where "fetch read_env demo_artifact_id ?z demo_reader 16 0 d = (Inr (Some (ar_content a)), d')"
    "find_by ar_artifact_id demo_artifact_id (response_artifacts d) = Some a"
    using run download_returns_the_whole_content [where d = d and e = read_env] by metis
  moreover from this have "ar_content a = ''{}''" using d by (auto simp: on_shelf_def shelf_row_def split: if_splits)
  ultimately show ?thesis by metis
qed

end
