(* ===== verification/Answers.thy ===== *)
theory Answers
  imports Automatic
begin

text \<open>
  What an alert may add to the table of responses: \<open>_on_alert_created\<close> of \<^verbatim>\<open>manager/detection/response.py\<close> with the work that
  \<^verbatim>\<open>manager/auto_triage.py\<close> starts for it.
\<close>

section \<open>The rows an alert adds\<close>

text \<open>Only the response \<open>j\<close> moves, and what it is about, asks for and comes from stays.\<close>

definition same_request :: "response_row \<Rightarrow> response_row \<Rightarrow> bool" where
  "same_request r r' \<longleftrightarrow> ra_response_id r' = ra_response_id r \<and> ra_alert_id r' = ra_alert_id r \<and> ra_action r' = ra_action r \<and>
     ra_tier r' = ra_tier r \<and> ra_origin r' = ra_origin r"

definition moves_only :: "string \<Rightarrow> db \<Rightarrow> db \<Rightarrow> bool" where
  "moves_only j d d' \<longleftrightarrow>
    list_all2 (\<lambda>r r'. r' = r \<or> ra_response_id r = j \<and> same_request r r') (response_actions d) (response_actions d')"

interpretation moves_only: blind_frame "moves_only j"
proof
  show "moves_only j s s" for s by (simp add: moves_only_def list_all2_refl)
  show "moves_only j s u" if "moves_only j s t" "moves_only j t u" for s t u
    using that unfolding moves_only_def by (rule list_all2_trans [rotated]) (auto simp: same_request_def)
  show "moves_only j d d'" if "audit_only d d'" for d d'
    using audit_onlyD(2) [OF that] by (simp add: moves_only_def list_all2_refl)
qed

interpretation moves_decider: decider "moves_only j" e j
proof
  show "moves_only j d d'" if "responses_same d d'" for d d'
    using that by (simp add: moves_only_def responses_same_def list_all2_refl)
  have f: "same_request r (rejected why r)" "same_request r (authorized e actor r)" for r why actor
    by (simp_all add: same_request_def rejected_def authorized_def)
  show "stays (moves_only j) (modify (set_response (rejected why) j))" "stays (moves_only j) (modify (set_response (authorized e actor) j))"
    "stays (moves_only j) (modify (decide_pending (rejected why) j))" for why actor
    by (auto simp: stays_def moves_only_def set_response_def decide_pending_def f intro!: list_all2_update_where)
qed

lemma moved_last:
  assumes "moves_only j d d'" and "response_actions d = rows @ [r]" and "ra_response_id r = j" and "j \<notin> ra_response_id ` set rows"
  shows "\<exists>r'. response_actions d' = rows @ [r'] \<and> same_request r r'"
proof -
  obtain rows' r' where d': "response_actions d' = rows' @ [r']" and
    old: "list_all2 (\<lambda>r r'. r' = r \<or> ra_response_id r = j \<and> same_request r r') rows rows'" and
    new: "r' = r \<or> same_request r r'"
    using assms(1,2) by (auto simp: moves_only_def list_all2_append1 list_all2_Cons1)
  have "rows' = rows" using old assms(4) by (induction rule: list_all2_induct) auto
  then show ?thesis using d' new by (auto simp: same_request_def)
qed

text \<open>Triage adds requests of its own for the alert and leaves every other response as it is.\<close>

definition triaged :: "string \<Rightarrow> db \<Rightarrow> db \<Rightarrow> bool" where
  "triaged i d d' \<longleftrightarrow> (\<exists>new. response_actions d' = response_actions d @ new \<and> (\<forall>r\<in>set new. ra_alert_id r = i \<and> ra_origin r = ''auto_triage''))"

interpretation triaged: blind_frame "triaged i"
proof
  show "triaged i s s" for s by (simp add: triaged_def)
  show "triaged i s u" if st: "triaged i s t" "triaged i t u" for s t u
  proof -
    obtain a b where "response_actions t = response_actions s @ a" "response_actions u = response_actions t @ b"
      "\<forall>r\<in>set a. ra_alert_id r = i \<and> ra_origin r = ''auto_triage''" "\<forall>r\<in>set b. ra_alert_id r = i \<and> ra_origin r = ''auto_triage''"
      using st unfolding triaged_def by blast
    then show ?thesis unfolding triaged_def by (intro exI [of _ "a @ b"]) auto
  qed
  show "triaged i d d'" if "audit_only d d'" for d d' using audit_onlyD(2) [OF that] by (simp add: triaged_def)
qed

lemma triaged_same: "stays responses_same m \<Longrightarrow> stays (triaged i) m"
  by (auto simp: stays_def triaged_def responses_same_def)

lemma triaged_request:
  "yields (triaged (al_alert_id retained))
    (bindM (stage_requested e (al_alert_id retained) action tier target reason actor ''auto_triage'' agent host) (\<lambda>j.
     seqM (insert_item (it j)) (seqM (record_event e (ev j) who asset (req j) detail)
       (if auto then authorize_response_action e j actor else ret ()))))"
proof (rule yieldsI)
  fix d u d'
  let ?tail = "\<lambda>j. seqM (insert_item (it j)) (seqM (record_event e (ev j) who asset (req j) detail)
       (if auto then authorize_response_action e j actor else ret ()))"
  assume "bindM (stage_requested e (al_alert_id retained) action tier target reason actor ''auto_triage'' agent host) ?tail d = (Inr u, d')"
  then obtain j d1 where s: "stage_requested e (al_alert_id retained) action tier target reason actor ''auto_triage'' agent host d = (Inr j, d1)"
    and t: "?tail j d1 = (Inr u, d')" unfolding bindM_Inr_iff by blast
  have "stays (moves_only j) (?tail j)"
    by (intro moves_only.stays_structural moves_only.writers moves_decider.stays_beside [OF authorizing_inserts(2)]
        moves_decider.stays_authorize_response_action stays_splits)
  then have m: "moves_only j d1 d'" using t by (rule stays_run)
  let ?r = "requested_by ''auto_triage'' actor reason agent host (staged_row e j (al_alert_id retained) action tier PENDING target (Some reason))"
  have r: "response_actions d1 = response_actions d @ [?r]" "j \<notin> ra_response_id ` set (response_actions d)"
    using stage_requested_Inr [OF s] by blast+
  have "\<exists>r'. response_actions d' = response_actions d @ [r'] \<and> same_request ?r r'"
    by (rule moved_last [OF m r(1) _ r(2)]) (simp add: requested_by_def staged_row_def)
  then show "triaged (al_alert_id retained) d d'"
    by (auto simp: triaged_def same_request_def requested_by_def staged_row_def)
qed

lemmas triaged_reads = draws_only_operations [THEN draws_only_stays, THEN triaged.stays_blind]
  draws_only_triage_target [THEN draws_only_stays, THEN triaged.stays_blind]
  authorizing_inserts [THEN triaged_same]

lemmas triaged_yields = triaged_reads [THEN stays_yields] triaged.stays_ret [THEN stays_yields] triaged.stays_gets [THEN stays_yields]
  triaged.stays_require_some [THEN stays_yields]

lemma triaged_action: "yields (triaged (al_alert_id retained)) (triage_action e retained host asset po capability action)"
proof -
  let ?i = "al_alert_id retained"
  have decision: "yields (triaged ?i) (bindM
     (if td_decision decision \<noteq> ''skip''
      then bindM (stage_requested e ?i action (if td_decision decision = ''auto_dispatch'' then ''AUTO_SAFE'' else ''ANALYST_APPROVAL'')
             target (td_reason decision) actor ''auto_triage'' agent host) (\<lambda>i. ret (Some i))
      else ret None) (\<lambda>response_id.
     seqM (insert_item (it response_id)) (seqM (record_event e (ev response_id) actor a (req response_id) detail)
     (if td_decision decision = ''auto_dispatch''
      then authorize_response_action e (case response_id of Some r \<Rightarrow> r | None \<Rightarrow> []) actor else ret ()))))"
    for decision target actor agent it ev a req detail
  proof (cases "td_decision decision = ''skip''")
    case True
    have "stays (triaged ?i) (seqM (insert_item (it None)) (seqM (record_event e (ev None) actor a (req None) detail) (ret ())))"
      by (intro triaged.stays_structural triaged.writers triaged_reads)
    then show ?thesis using True by (simp add: stays_yields)
  next
    case False
    then show ?thesis
      by (simp only: if_True not_False_eq_True bindM_assoc bindM_simps option.case)
        (rule triaged_request [where it = "\<lambda>j. it (Some j)" and ev = "\<lambda>j. ev (Some j)" and req = "\<lambda>j. req (Some j)"])
  qed
  show ?thesis
    unfolding triage_action_def Let_def
    apply (rule triaged.yields_bindM)
     apply (rule triaged_yields)
    apply (simp only: split: prod.split)
    apply (intro allI impI)
    apply (rule triaged.yields_bindM)
     apply (rule triaged_yields)
    apply (rule decision)
    done
qed


lemma yields_splits:
  "(\<And>a. yields R (f a)) \<Longrightarrow> yields R z \<Longrightarrow> yields R (case x of None \<Rightarrow> z | Some a \<Rightarrow> f a)"
  "(\<And>a b. yields R (g a b)) \<Longrightarrow> yields R (case p of (a, b) \<Rightarrow> g a b)"
  "yields R m \<Longrightarrow> yields R n \<Longrightarrow> yields R (if c then m else n)"
  by (auto split: option.split prod.split)

lemma triaged_actions:
  "yields (triaged (al_alert_id retained)) (forM (triage_action e retained host asset po capability) acts)"
proof (induction acts)
  case Nil
  show ?case unfolding forM.simps by (rule triaged_yields)
next
  case (Cons a acts)
  then show ?case unfolding forM.simps by (intro triaged.yields_bindM triaged_action)
qed

lemma triaged_start:
  assumes "start e i d = (Inr owned, d')"
  shows "triaged i d d'"
proof (cases "find_by al_alert_id i (alerts d)")
  case None
  then show ?thesis using assms by (simp add: start_def triaged.R_refl)
next
  case (Some retained)
  let ?go = "\<lambda>i retained. bindM (gets (\<lambda>d. policy_for d (al_rule_id retained))) (\<lambda>configuration.
       case configuration of
         None \<Rightarrow> ret False
       | Some c \<Rightarrow>
          bindM (gets (\<lambda>d. i \<in> tr_alert_id ` set (triage_runs d))) (\<lambda>known.
          if known then ret True
          else
            bindM (require_some (validate_policy e c) ValidationError) (\<lambda>po.
            bindM (gets (\<lambda>d. start_host d retained)) (\<lambda>host.
            bindM (gets (\<lambda>d. asset_for d host)) (\<lambda>(asset, asset_version).
            seqM (insert_run \<lparr>tr_alert_id = i, tr_rule_id = po_rule_id po, tr_policy_version = po_version po,
                    tr_policy_json = po_dump po,
                    tr_agent_id = (case al_agent_id retained of Some g \<Rightarrow> if g = [] then ''unknown'' else g | None \<Rightarrow> ''unknown''),
                    tr_host_id = host, tr_asset_class = asset, tr_asset_version = asset_version,
                    tr_created_at = now_text e,
                    tr_deadline = isoformat (plus_delta (now e) (seconds (po_workflow_ttl_seconds po))),
                    tr_cancelled_at = None\<rparr>)
            (bindM (endpoint e (al_agent_id retained) host) (\<lambda>capability.
            seqM (forM (triage_action e retained host asset po capability) (collect_actions e))
            (ret True))))))))"
  have run: "?go i retained d = (Inr owned, d')" using assms Some by (simp add: start_def)
  have "yields (triaged (al_alert_id retained)) (?go i retained)"
    by (intro triaged.yields_bindM yields_splits triaged_actions triaged_yields)
  then have "triaged (al_alert_id retained) d d'" using run by (rule yields_run)
  then show ?thesis using find_by_SomeD [OF Some] by simp
qed

section \<open>What is proposed for it\<close>

text \<open>
  A response the engine itself stages for the alert \<open>i\<close>: unless it is only recorded, its tier is the one the response policy
  gives its action, and of a behavioral detection it is a safe one.
\<close>

definition proposed :: "env \<Rightarrow> jobj \<Rightarrow> string \<Rightarrow> response_row \<Rightarrow> bool" where
  "proposed e rec i r \<longleftrightarrow> ra_alert_id r = i \<and> ra_origin r = ''detection'' \<and>
    (ra_lifecycle_state r \<noteq> REJECTED \<longrightarrow> ra_tier r = classify_tier e (ra_action r) \<and>
       (jget ''detection_source'' rec = JStr ''behavioral'' \<longrightarrow> ra_tier r = ''AUTO_SAFE''))"

lemma respond_Inr:
  assumes "respond e rec i recommendation action d = (Inr u, d')"
  shows "\<exists>r. response_actions d' = response_actions d @ [r] \<and> proposed e rec i r"
proof -
  have record_only: "\<exists>r. response_actions d' = response_actions d @ [r] \<and> proposed e rec i r"
    if "seqM (insert_response_action e i act tier REJECTED target why engine) (ret ()) d = (Inr u, d')" for act tier target why
    using that by (auto simp: bindM_Inr_iff proposed_def staged_row_def dest!: insert_response_action_Inr)
  show ?thesis
  proof (cases "translated e d rec action recommendation i")
    case None
    then show ?thesis using assms record_only by (simp add: respond_def)
  next
    case (Some m)
    obtain act target why where m: "m = (act, target, why)" by (metis prod.exhaust)
    let ?tier = "classify_tier e act"
    let ?twin = "find_open_duplicate e d (jstr (jor (jget ''host_id'' rec) (jget ''host_id'' recommendation))) act target"
    show ?thesis
    proof (cases "?tier \<noteq> ''AUTO_SAFE'' \<and> jget ''detection_source'' rec = JStr ''behavioral'' \<or> ?twin \<noteq> None")
      case True
      then show ?thesis using assms Some m record_only by (auto simp: respond_def Let_def split: if_splits option.splits)
    next
      case False
      then obtain j d1 where s: "insert_response_action e i act ?tier PENDING target why engine d = (Inr j, d1)"
        and t: "(if ?tier = ''AUTO_SAFE'' then auto_authorize e j else ret ()) d1 = (Inr u, d')"
        using assms Some m by (auto simp: respond_def Let_def bindM_Inr_iff)
      have "stays (moves_only j) (if ?tier = ''AUTO_SAFE'' then auto_authorize e j else ret ())"
        by (intro stays_if moves_decider.stays_auto_authorize moves_only.stays_ret)
      then have mv: "moves_only j d1 d'" using t by (rule stays_run)
      let ?r = "staged_row e j i act ?tier PENDING target why"
      have r: "response_actions d1 = response_actions d @ [?r]" "j \<notin> ra_response_id ` set (response_actions d)"
        using insert_response_action_Inr [OF s] by blast+
      obtain r' where r': "response_actions d' = response_actions d @ [r']" "same_request ?r r'"
        using moved_last [OF mv r(1) _ r(2)] by (auto simp: staged_row_def)
      have "proposed e rec i r'" using r'(2) False by (auto simp: proposed_def same_request_def staged_row_def)
      then show ?thesis using r'(1) by blast
    qed
  qed
qed

lemma alert_adds:
  assumes "on_alert_created_body e rec d = (Inr u, d')"
  shows "\<exists>i new own. map_of rec ''alert_id'' = Some (JStr i) \<and> response_actions d' = response_actions d @ new @ own \<and>
    (\<forall>r\<in>set new. ra_alert_id r = i \<and> ra_origin r = ''auto_triage'') \<and> length own \<le> 1 \<and> (\<forall>r\<in>set own. proposed e rec i r)"
proof -
  obtain i owned d1 where i: "map_of rec ''alert_id'' = Some (JStr i)" and s: "start e i d = (Inr owned, d1)"
    and rest: "d' = d1 \<or> (\<exists>recommendation action. respond e rec i recommendation action d1 = (Inr u, d'))"
    using assms unfolding on_alert_created_body_def Let_def
    by (auto simp: bindM_Inr_iff split: if_splits option.splits json.splits elim!: jstr.elims) blast+
  obtain new where new: "response_actions d1 = response_actions d @ new" "\<forall>r\<in>set new. ra_alert_id r = i \<and> ra_origin r = ''auto_triage''"
    using triaged_start [OF s] by (auto simp: triaged_def)
  from rest show ?thesis
  proof
    assume "d' = d1"
    then show ?thesis using i new by (intro exI [of _ i] exI [of _ new] exI [of _ "[]"]) simp
  next
    assume "\<exists>recommendation action. respond e rec i recommendation action d1 = (Inr u, d')"
    then obtain r where "response_actions d' = response_actions d1 @ [r]" "proposed e rec i r" using respond_Inr by blast
    then show ?thesis using i new by (intro exI [of _ i] exI [of _ new] exI [of _ "[r]"]) simp
  qed
qed

text \<open>
  C31. A new alert is answered once, without an exception, and only for itself. Handling it never raises; every response there
  was stays exactly as it is; every response it adds is about this alert; at most one of them is the response engine's own
  proposal; and that one, unless it is only recorded as REJECTED, has the tier the response policy gives its action, which for
  a behavioral detection must be \<open>AUTO_SAFE\<close>: a suspicion never puts a disruptive action before an analyst.
\<close>

theorem alert_is_answered_once:
  assumes "on_alert_created e rec d = (x, d')"
  shows "x = Inr () \<and> (\<exists>new. response_actions d' = response_actions d @ new \<and>
    (\<forall>r\<in>set new. map_of rec ''alert_id'' = Some (JStr (ra_alert_id r))) \<and>
    length (filter (\<lambda>r. ra_origin r = ''detection'') new) \<le> 1 \<and>
    (\<forall>r\<in>set new. ra_origin r = ''detection'' \<and> ra_lifecycle_state r \<noteq> REJECTED \<longrightarrow>
       ra_tier r = classify_tier e (ra_action r) \<and>
       (jget ''detection_source'' rec = JStr ''behavioral'' \<longrightarrow> ra_tier r = ''AUTO_SAFE'')))"
proof -
  have x: "x = Inr ()" and d': "on_alert_created_body e rec d = (Inr (), d') \<or> d' = d"
    using alert_handling_never_raises [of e rec d] assms by auto
  from d' show ?thesis
  proof
    assume "on_alert_created_body e rec d = (Inr (), d')"
    then obtain i new own where a: "map_of rec ''alert_id'' = Some (JStr i)" "response_actions d' = response_actions d @ new @ own"
      "\<forall>r\<in>set new. ra_alert_id r = i \<and> ra_origin r = ''auto_triage''" "length own \<le> 1" "\<forall>r\<in>set own. proposed e rec i r"
      using alert_adds by blast
    have "filter (\<lambda>r. ra_origin r = ''detection'') new = []" using a(3) by (auto simp: filter_empty_conv)
    moreover have "length (filter (\<lambda>r. ra_origin r = ''detection'') own) \<le> 1" using a(4) le_trans length_filter_le by blast
    ultimately show ?thesis using x a by (intro conjI exI [of _ "new @ own"]) (auto simp: proposed_def)
  qed (simp add: x)
qed

theorem alert_is_answered_once_witness:
  "\<exists>d' r. on_alert_created demo_auto_env demo_alert_json demo_alerted = (Inr (), d') \<and> response_actions d' = [r] \<and>
    ra_alert_id r = ''a1'' \<and> ra_origin r = ''detection'' \<and> ra_lifecycle_state r = AUTHORIZED \<and> ra_tier r = ''AUTO_SAFE''"
proof -
  obtain d' where run: "on_alert_created demo_auto_env demo_alert_json demo_alerted = (Inr (), d')"
    and r: "response_actions d' = [authorized demo_auto_env engine demo_staged]" using demo_auto_authorizes by blast
  have "response_actions demo_alerted = []" by (simp add: demo_alerted_def demo_fleet_def)
  with alert_is_answered_once [OF run] r have
    "map_of demo_alert_json ''alert_id'' = Some (JStr (ra_alert_id (authorized demo_auto_env engine demo_staged)))"
    "ra_origin (authorized demo_auto_env engine demo_staged) = ''detection'' \<and> ra_lifecycle_state (authorized demo_auto_env engine demo_staged) \<noteq> REJECTED \<longrightarrow>
       ra_tier (authorized demo_auto_env engine demo_staged) = ''AUTO_SAFE''"
    by auto
  then show ?thesis using run r by (auto simp: authorized_def demo_alert_json_def)
qed

end
