(* ===== verification/Spec2Isabelle.thy ===== *)
theory Spec2Isabelle
  imports Guarantees Reading Answers
begin

text \<open>
  \<^bold>\<open>The panopticon manager.\<close> The manager (\<^verbatim>\<open>src/manager\<close>) is the server between endpoint agents and analysts: a FastAPI
  application over one SQLite database. Agents enroll, send telemetry, poll for commands and report results; a worker
  thread runs the vendored detection engine over the telemetry and turns its alerts into proposed responses; analysts
  approve, reject or ask for responses; agents upload the evidence they collected under signed manifests, and analysts
  with a grant read it; and everything that is decided is written to a hash-chained audit ledger.

  \<^bold>\<open>How the code is modelled.\<close> A function that runs SQL on the connection is an action
  \<open>'s \<Rightarrow> (exn + 'a) \<times> 's\<close>: it returns or raises, and says what the state then is. A raise undoes nothing by itself;
  \<open>transaction\<close> and \<open>world_transaction\<close> are BEGIN IMMEDIATE, commit and rollback. Tables are lists of records in row
  order, with the columns of the latest migration; \<open>INSERT\<close>, \<open>UPDATE\<close> and the constraints the code relies on are
  written out in the operation that meets them. Triggers run inside the insert that fires them. JSON values are a datatype,
  dictionaries are association lists in insertion order, texts hold their UTF-8 bytes, Python integers are \<open>int\<close>.
  Every \<open>raise\<close>, early return and failed validation is a branch. Loops are structural recursion, or have their own
  termination proof (\<open>Worker.share\<close>, \<open>Response.strip_with\<close>, \<open>Incidents.py_chars\<close>); the client's loop over pages is a
  \<open>partial_function\<close> that is proved to return. Two definitions count down: the JSON decoder, which is given twice the length of
  its text (one unit per value, item or member; \<open>canonical_reads_back\<close> shows it is enough for what the encoder writes), and
  \<open>Reading.fetch\<close>, the client that downloads an artifact, for which sixteen requests are proved to be enough.

  \<^bold>\<open>What is a parameter.\<close> The record \<open>env\<close> of \<^verbatim>\<open>Schema.thy\<close> holds what the code takes from outside the repository at the
  time of a call: the clock, the random sources, the environment variables and key files, SHA-256, ECDSA verification,
  a free upload slot (\<open>upload_slot\<close>, the semaphore of the process), and the functions of the git submodules
  \<^verbatim>\<open>vendor/response_engine\<close> (command model, recommendation, tiers, roles, triage policy evaluation, forensic plan, the artifact
  manifest \<open>make_manifest\<close>, its bytes to sign \<open>artifact_signing_input\<close> and \<open>evidence_matches\<close>). The record \<open>detection\<close> of \<^verbatim>\<open>Worker.thy\<close> is the vendored engine, \<open>wire\<close> of
  \<^verbatim>\<open>LinuxIngest.thy\<close> the jsonschema validator. What the theorems need of them is a named hypothesis: the hash tells the
  texts at hand apart, the command model keeps the identifiers it is given (\<open>keeps_command_ids\<close>), the manifest model reads back its own dump
  (\<open>keeps_manifests\<close>), the engine acts on the
  manager only through the callback it was built with (\<open>acts_through_emit\<close>). Witnesses instantiate them.

  \<^bold>\<open>The theories, in the order they build on each other.\<close>
  \<^item> \<^verbatim>\<open>Prelude\<close>: exceptions, actions, tables, and the frame library. \<open>stays R m\<close> says that \<open>m\<close> moves the state along
    \<open>R\<close> whether it returns or raises; the locale \<open>frame\<close> proves the rules for sequencing, branching, exceptions,
    transactions and loops once for every reflexive and transitive \<open>R\<close>; \<open>table_evolution\<close> extends it to tables whose
    rows are kept under their key and move along a relation.
  \<^item> \<^verbatim>\<open>Json\<close>, \<^verbatim>\<open>Timestamps\<close>, \<^verbatim>\<open>Schema\<close>, \<^verbatim>\<open>Encoding\<close>: the encoders and decoders with their round trips, \<open>datetime\<close> as the manager
    uses it, the tables (\<^verbatim>\<open>migrations.py\<close>, \<^verbatim>\<open>triage_store.py\<close>), base64 and UTF-8.
  \<^item> \<^verbatim>\<open>AuditChain\<close>: \<^verbatim>\<open>audit_chain.py\<close>, \<^verbatim>\<open>response_audit.py\<close>. The ledger is a chain that agrees with its four source tables;
    every insert keeps that; \<open>verify\<close> accepts it; two databases with one head have one history; a checkpoint pins it and
    stays valid. The locale \<open>blind_frame\<close> is the interface for relations that do not look at the audit.
  \<^item> \<^verbatim>\<open>Auth\<close>: \<^verbatim>\<open>auth.py\<close>, \<^verbatim>\<open>routers/enrollment.py\<close>. Challenges work once, enrollment binds one new identity, exactly the
    holder of a live token passes, roles carry their own permissions. \<open>blind_to_identities\<close> is the interface to the rest.
  \<^item> \<^verbatim>\<open>Profile\<close>, \<^verbatim>\<open>Signing\<close>, \<^verbatim>\<open>Queue\<close>: \<^verbatim>\<open>response_profile.py\<close>, \<^verbatim>\<open>command_signing.py\<close> and the manager's side of
    \<^verbatim>\<open>routers/commands.py\<close>. The SQL predicate of delivery is the policy check of the API; a command is enqueued once, for
    a live agent, bound to its host and signed; the queue's contract is \<open>commands_evolve\<close>.
  \<^item> \<^verbatim>\<open>Guard\<close>, \<^verbatim>\<open>Response\<close>, \<^verbatim>\<open>Contract\<close>: \<^verbatim>\<open>analyst_response.py\<close>, \<^verbatim>\<open>auto_triage.py\<close>, \<^verbatim>\<open>forensic_context.py\<close>,
    \<^verbatim>\<open>detection/response.py\<close>. What a response may target, when automatic work may run, how a response is staged, decided
    and turned into a command; \<open>work\<close> is the contract all of it keeps.
  \<^item> \<^verbatim>\<open>Commands\<close>: poll, accept and report of \<^verbatim>\<open>routers/commands.py\<close>. \<^verbatim>\<open>ResponseActions\<close>, \<^verbatim>\<open>Decisions\<close>: the analysts' handlers
    of \<^verbatim>\<open>routers/response_actions.py\<close> and what they guarantee. \<^verbatim>\<open>Automatic\<close>, \<^verbatim>\<open>Answers\<close>: what
    handling a new alert guarantees, and what it may add; \<open>decider\<close> is the interface between a contract of the response table
    and the code that authorizes or rejects one response.
    \<^verbatim>\<open>TriageAdmin\<close>: \<^verbatim>\<open>routers/triage.py\<close>, versioned policies and asset classes.
  \<^item> \<^verbatim>\<open>Telemetry\<close>, \<^verbatim>\<open>LinuxStore\<close>, \<^verbatim>\<open>LinuxIngest\<close>: the telemetry tables, \<^verbatim>\<open>linux_endpoint_store.py\<close>,
    \<^verbatim>\<open>routers/linux_endpoint.py\<close>, \<^verbatim>\<open>wire/linux_endpoint.py\<close>. Every line of a batch is answered once; acknowledgements and gaps
    are exact.
  \<^item> \<^verbatim>\<open>Incidents\<close>, \<^verbatim>\<open>LinuxMapper\<close>, \<^verbatim>\<open>Worker\<close>: \<^verbatim>\<open>detection/store.py\<close>, \<^verbatim>\<open>detection/linux_mapper.py\<close>, \<^verbatim>\<open>detection/factory.py\<close>,
    \<^verbatim>\<open>detection/worker.py\<close>. Batches are bounded and fair, an event is detected whole or not at all, replay changes
    nothing, the engine never overrules the analyst. \<open>database_frame\<close> is the interface between \<open>emit\<close> and its clients.
  \<^item> \<^verbatim>\<open>Alerts\<close>: \<^verbatim>\<open>routers/alerts.py\<close>, paging by key.
  \<^item> \<^verbatim>\<open>ArtifactKeys\<close>, \<^verbatim>\<open>ArtifactAccess\<close>: \<^verbatim>\<open>artifact_keys.py\<close>, \<^verbatim>\<open>routers/artifact_keys.py\<close>, \<^verbatim>\<open>artifact_access.py\<close>,
    \<^verbatim>\<open>routers/artifact_access.py\<close>. A rotation needs both keys and an approval, revocations last (\<open>keys_kept\<close>), a grant opens one
    scope and its revocation closes it.
  \<^item> \<^verbatim>\<open>Artifacts\<close>, \<^verbatim>\<open>Transfers\<close>: \<^verbatim>\<open>response_artifacts.py\<close>, \<^verbatim>\<open>artifact_transfers.py\<close>, \<^verbatim>\<open>routers/artifact_transfers.py\<close>. Evidence is
    retained only under its signature; a session reserves its bytes, takes its frames in order and ends as one artifact or
    expires. \<open>evidence_inv\<close> is the invariant of the store, the sessions, their frames and the counters the triggers keep, and
    \<open>custody_kept\<close> the contract of every operation: nothing retained is lost or changed, the invariant stands.
  \<^item> \<^verbatim>\<open>Delivery\<close>, \<^verbatim>\<open>Reading\<close>: \<^verbatim>\<open>artifact_delivery.py\<close>, \<^verbatim>\<open>routers/response_artifacts.py\<close>. Every read passes one verification and
    leaves a custody event; a download by frames returns the whole content. \<open>evidence_reader\<close> is the interface of the reads to
    the contracts, interpreted for each of them.
  \<^item> \<^verbatim>\<open>Lifecycle\<close>, \<^verbatim>\<open>Service\<close>, \<^verbatim>\<open>Vault\<close>, \<^verbatim>\<open>System\<close>, \<^verbatim>\<open>Plane\<close>, \<^verbatim>\<open>Guarantees\<close>: the composition. \<open>handle\<close> is one step of the manager,
    \<open>runs_under A\<close> any sequence of requests and worker turns whose environments satisfy \<open>A\<close> (\<open>runs\<close> for the one of the
    command model), \<open>reachable\<close> the states it can come to from the empty schema. Every step keeps two contracts (\<open>serves\<close>, and
    \<open>guards\<close> for keys and evidence; the locale \<open>engine\<close> lifts what holds of a database to the world of the worker); so the audit
    of every reachable state verifies, authorized responses have their commands, tables keep their keys and types, every run
    is a run of the abstract machine \<open>plane_step\<close>, evidence survives every run and a revoked endpoint stays out.

  \<^bold>\<open>Bounds of the model.\<close> A request is one step: SQLite's write lock runs transactions one after the other, and the
  interleaving of two requests between their transactions is not modelled. Python's limits on recursion depth and on the
  digits of an integer are not; floating numbers are kept as their text, so no float is refused as NaN; \<open>str.isdigit\<close> on the
  revision of an incident is taken for ASCII digits. Lists of rows stand for tables, so row order is
  insertion order.

  \<^bold>\<open>Not modelled.\<close> The canonical and legacy telemetry ingest (\<^verbatim>\<open>routers/endpoint.py\<close>, \<^verbatim>\<open>endpoint_state.py\<close>,
  \<^verbatim>\<open>endpoint_freshness.py\<close>, \<^verbatim>\<open>process_snapshots.py\<close>, \<^verbatim>\<open>routers/ingest.py\<close>), whose tables the worker reads; the read-only views
  of the console, health and status, the command line tools, configuration, connections and the migration path from older
  schemas, which are glue around what is modelled; and \<^verbatim>\<open>src/tools\<close>, which drives a running server.
\<close>

end
